(* ===== verification/Prelude.thy ===== *)
theory Prelude
  imports Main "HOL-Library.AList" "HOL-Library.Multiset"
begin

text \<open>
  Shared vocabulary of the development: Go maps, Go strings and the results of calls to the
  Kubernetes API, with the lemmas the component theories use on them.

  A Go map with string keys is an association list \<open>'v gomap\<close>. Reading is \<^const>\<open>map_of\<close>,
  \<open>m[k] = v\<close> is \<^const>\<open>AList.update\<close> and \<open>delete(m, k)\<close> is \<^const>\<open>AList.delete\<close>; the
  invariant of every map the code builds is \<open>wf_map\<close> (no key twice). A nil map and an empty map
  are the same value: reading, ranging over and deleting from a nil map are those of an
  empty one, and the code allocates a map before it writes to one. Iteration order is that of
  the list; the theorems speak of maps through \<^const>\<open>map_of\<close>, so they do not depend on it.
  A nil slice and an empty slice are both \<open>[]\<close>. A Go pointer is an \<open>option\<close>.

  Strings are byte strings; \<open>trim_space\<close> and \<open>equal_fold\<close> are Go's functions on ASCII input.
\<close>

section \<open>Go maps\<close>

type_synonym 'v gomap = "(string \<times> 'v) list"

abbreviation m_put :: "string \<Rightarrow> 'v \<Rightarrow> 'v gomap \<Rightarrow> 'v gomap" where
  "m_put \<equiv> AList.update"

abbreviation m_del :: "string \<Rightarrow> 'v gomap \<Rightarrow> 'v gomap" where
  "m_del \<equiv> AList.delete"

definition m_str :: "string gomap \<Rightarrow> string \<Rightarrow> string" where
  "m_str m k = (case map_of m k of None \<Rightarrow> '''' | Some v \<Rightarrow> v)"

definition wf_map :: "'v gomap \<Rightarrow> bool" where
  "wf_map m = distinct (map fst m)"

text \<open>\<open>reflect.DeepEqual\<close> on two maps: the same keys with the same values.\<close>

definition m_eq :: "'v gomap \<Rightarrow> 'v gomap \<Rightarrow> bool" where
  "m_eq a b = (list_all (\<lambda>(k, _). map_of b k = map_of a k) a \<and>
               list_all (\<lambda>(k, _). map_of a k = map_of b k) b)"

text \<open>The loop \<open>for k, v := range src { dst[k] = v }\<close>.\<close>

definition m_putall :: "'v gomap \<Rightarrow> 'v gomap \<Rightarrow> 'v gomap" where
  "m_putall src dst = fold (\<lambda>(k, v) acc. m_put k v acc) src dst"

section \<open>Go strings\<close>

definition has_prefix :: "string \<Rightarrow> string \<Rightarrow> bool" where
  "has_prefix p s = (take (length p) s = p)"

definition has_suffix :: "string \<Rightarrow> string \<Rightarrow> bool" where
  "has_suffix p s = (drop (length s - length p) s = p)"

definition trim_prefix :: "string \<Rightarrow> string \<Rightarrow> string" where
  "trim_prefix p s = (if has_prefix p s then drop (length p) s else s)"

definition trim_suffix :: "string \<Rightarrow> string \<Rightarrow> string" where
  "trim_suffix p s = (if has_suffix p s then take (length s - length p) s else s)"

definition is_space :: "char \<Rightarrow> bool" where
  "is_space c = (c \<in> set [CHR '' '', CHR 0x09, CHR 0x0A, CHR 0x0B, CHR 0x0C, CHR 0x0D])"

definition trim_left_space :: "string \<Rightarrow> string" where
  "trim_left_space s = dropWhile is_space s"

definition trim_space :: "string \<Rightarrow> string" where
  "trim_space s = rev (dropWhile is_space (rev (trim_left_space s)))"

text \<open>\<open>strings.Split\<close> with a one-character separator: always at least one part.\<close>

fun split_on :: "char \<Rightarrow> string \<Rightarrow> string list" where
  "split_on c [] = [[]]"
| "split_on c (x # xs) =
     (if x = c then [] # split_on c xs
      else (case split_on c xs of [] \<Rightarrow> [[x]] | p # ps \<Rightarrow> (x # p) # ps))"

fun join_with :: "string \<Rightarrow> string list \<Rightarrow> string" where
  "join_with sep [] = []"
| "join_with sep [s] = s"
| "join_with sep (s # t # ts) = s @ sep @ join_with sep (t # ts)"

definition lower_char :: "char \<Rightarrow> char" where
  "lower_char c = (if 65 \<le> (of_char c :: nat) \<and> (of_char c :: nat) \<le> 90
                   then char_of ((of_char c :: nat) + 32) else c)"

definition equal_fold :: "string \<Rightarrow> string \<Rightarrow> bool" where
  "equal_fold s t = (map lower_char s = map lower_char t)"

text \<open>\<open>strconv.FormatInt(n, 10)\<close>.\<close>

fun dec_nat :: "nat \<Rightarrow> string" where
  "dec_nat n = (if n < 10 then [char_of (48 + n)] else dec_nat (n div 10) @ [char_of (48 + n mod 10)])"

declare dec_nat.simps [simp del]

definition dec_int :: "int \<Rightarrow> string" where
  "dec_int i = (if i < 0 then CHR ''-'' # dec_nat (nat (- i)) else dec_nat (nat i))"

section \<open>Results of API calls\<close>

text \<open>
  The errors of the Kubernetes client the code tells apart
  (\<open>IsNotFound\<close>, \<open>IsAlreadyExists\<close>, \<open>IsConflict\<close>, \<open>meta.IsNoMatchError\<close>); all others are
  \<open>ApiFailure\<close>.
\<close>

datatype api_error = NotFound | AlreadyExists | Conflict | NoMatch | ApiFailure string

definition res_ok :: "'e + 'a \<Rightarrow> bool" where
  "res_ok r = (case r of Inl _ \<Rightarrow> False | Inr _ \<Rightarrow> True)"

text \<open>The answer to a Get of a server that has this object or none.\<close>

definition from_option :: "'a option \<Rightarrow> api_error + 'a" where
  "from_option x = (case x of None \<Rightarrow> Inl NotFound | Some v \<Rightarrow> Inr v)"

section \<open>Lemmas\<close>

named_theorems gomap_simps \<open>reading maps after writes\<close>

declare update_conv' [gomap_simps] delete_conv' [gomap_simps]
declare Let_def [simp]

lemma map_of_put [simp]: "map_of (m_put k v m) k' = (if k' = k then Some v else map_of m k')"
  by (simp add: update_conv')

lemma map_of_del [simp]: "map_of (m_del k m) k' = (if k' = k then None else map_of m k')"
  by (simp add: delete_conv')

lemma m_str_put [simp]: "m_str (m_put k v m) k' = (if k' = k then v else m_str m k')"
  by (simp add: m_str_def)

lemma m_str_del [simp]: "m_str (m_del k m) k' = (if k' = k then '''' else m_str m k')"
  by (simp add: m_str_def)

lemma m_str_nonempty: "m_str m k \<noteq> '''' \<longleftrightarrow> (\<exists>v. map_of m k = Some v \<and> v \<noteq> '''')"
  by (auto simp: m_str_def split: option.splits)

lemma wf_map_Nil [simp]: "wf_map []"
  by (simp add: wf_map_def)

lemma wf_map_put [intro, simp]: "wf_map m \<Longrightarrow> wf_map (m_put k v m)"
  by (simp add: wf_map_def distinct_update)

lemma wf_map_del [intro, simp]: "wf_map m \<Longrightarrow> wf_map (m_del k m)"
  by (simp add: wf_map_def distinct_delete)

lemma m_del_absent: "map_of m k = None \<Longrightarrow> m_del k m = m"
  by (simp add: AList.delete_eq map_of_eq_None_iff filter_id_conv) (auto simp: image_iff split_def)

lemma m_put_present: "wf_map m \<Longrightarrow> map_of m k = Some v \<Longrightarrow> m_put k v m = m"
  by (induction m) (auto simp: wf_map_def)

lemma m_put_idem: "m_put k v (m_put k v m) = m_put k v m"
  by (induction m) auto

lemma m_del_put_absent: "map_of m k = None \<Longrightarrow> m_del k (m_put k v m) = m"
  by (induction m) (auto split: if_splits)

lemma m_eq_iff: "m_eq a b \<longleftrightarrow> map_of a = map_of b"
proof
  assume eq: "m_eq a b"
  show "map_of a = map_of b"
  proof
    fix k
    show "map_of a k = map_of b k"
    proof (cases "map_of a k")
      case (Some v)
      then have "(k, v) \<in> set a" by (rule map_of_SomeD)
      with eq show ?thesis by (fastforce simp: m_eq_def list_all_iff)
    next
      case None
      show ?thesis
      proof (cases "map_of b k")
        case (Some w)
        then have "(k, w) \<in> set b" by (rule map_of_SomeD)
        with eq show ?thesis by (fastforce simp: m_eq_def list_all_iff)
      qed (simp add: None)
    qed
  qed
qed (simp add: m_eq_def list_all_iff split_def)

lemma m_eq_refl [simp]: "m_eq a a"
  by (simp add: m_eq_iff)

lemma map_of_putall:
  "wf_map src \<Longrightarrow> map_of (m_putall src dst) k =
     (case map_of src k of None \<Rightarrow> map_of dst k | Some v \<Rightarrow> Some v)"
  unfolding m_putall_def wf_map_def
proof (induction src arbitrary: dst)
  case (Cons p src)
  obtain a v where p: "p = (a, v)" by (cases p)
  from Cons.prems p have "map_of src a = None" by (simp add: map_of_eq_None_iff)
  with Cons p show ?case by (auto split: option.splits)
qed simp

lemma wf_map_putall [simp]: "wf_map dst \<Longrightarrow> wf_map (m_putall src dst)"
  unfolding m_putall_def by (induction src arbitrary: dst) auto

lemma m_put_commute: "map_of m k \<noteq> None \<Longrightarrow> k \<noteq> l \<Longrightarrow> m_put k v (m_put l w m) = m_put l w (m_put k v m)"
  by (induction m) auto

lemma m_del_put: "k \<noteq> l \<Longrightarrow> m_del k (m_put l w m) = m_put l w (m_del k m)"
  by (simp add: AList.delete_update)

lemma alist_eqI:
  "wf_map a \<Longrightarrow> map fst a = map fst b \<Longrightarrow> map_of a = map_of b \<Longrightarrow> a = b"
proof (induction a arbitrary: b)
  case (Cons p a)
  then obtain q b' where b: "b = q # b'" "fst q = fst p" "map fst b' = map fst a" by (cases b) auto
  obtain k v where p: "p = (k, v)" by (cases p)
  from Cons.prems(3) b p have "snd q = v" by (auto simp: fun_eq_iff split_def dest: spec [of _ k])
  with b p have q: "q = p" by (simp add: prod_eq_iff)
  from Cons.prems p have a: "map_of a k = None" "wf_map a" by (auto simp: wf_map_def map_of_eq_None_iff)
  from a b have "map_of b' k = None" by (simp add: map_of_eq_None_iff) (metis list.set_map)
  have "map_of a x = map_of b' x" for x
    using Cons.prems(3) a \<open>map_of b' k = None\<close> by (cases "x = k") (auto simp: b(1) q p fun_eq_iff dest: spec [of _ x])
  with Cons.IH [OF a(2)] b(3) have "a = b'" by (simp add: fun_eq_iff)
  with b q show ?case by simp
qed simp

lemma map_of_putall_gen:
  "map_of (m_putall src dst) k = (case map_of (rev src) k of None \<Rightarrow> map_of dst k | Some v \<Rightarrow> Some v)"
  unfolding m_putall_def by (induction src arbitrary: dst) (auto simp: map_add_def split: option.splits)

lemma keys_put_present: "map_of m k \<noteq> None \<Longrightarrow> map fst (m_put k v m) = map fst m"
  by (induction m) auto

lemma keys_putall_present:
  "(\<And>k. k \<in> fst ` set src \<Longrightarrow> map_of dst k \<noteq> None) \<Longrightarrow> map fst (m_putall src dst) = map fst dst"
  unfolding m_putall_def
proof (induction src arbitrary: dst)
  case (Cons p src)
  then show ?case by (cases p) (simp add: keys_put_present image_iff)
qed simp

lemma m_putall_present:
  assumes "wf_map dst"
  shows "m_putall src (m_putall src dst) = m_putall src dst"
proof (rule alist_eqI)
  show "map fst (m_putall src (m_putall src dst)) = map fst (m_putall src dst)"
    by (rule keys_putall_present)
      (auto simp: map_of_putall_gen map_of_eq_None_iff image_iff split: option.splits dest: map_of_SomeD)
qed (use assms in \<open>auto simp: map_of_putall_gen split: option.split\<close>)

lemma putall_append: "wf_map (dst @ src) \<Longrightarrow> m_putall src dst = dst @ src"
  unfolding m_putall_def
proof (induction src arbitrary: dst)
  case (Cons p src)
  obtain k v where p: "p = (k, v)" by (cases p)
  from Cons.prems p have "map_of dst k = None" by (auto simp: wf_map_def map_of_eq_None_iff)
  then have "m_put k v dst = dst @ [p]" unfolding p by (induction dst) auto
  with Cons p show ?case by simp
qed simp

lemma m_putall_copy [simp]: "wf_map m \<Longrightarrow> m_putall m [] = m"
  using putall_append [of "[]" m] by simp

subsection \<open>Strings\<close>

lemma has_prefix_append [simp]: "has_prefix p (p @ s)"
  by (simp add: has_prefix_def)

lemma has_prefix_iff: "has_prefix p s \<longleftrightarrow> (\<exists>t. s = p @ t)"
  by (metis append_eq_conv_conj append_take_drop_id has_prefix_def)

lemma trim_prefix_append [simp]: "trim_prefix p (p @ s) = s"
  by (simp add: trim_prefix_def)

lemma has_suffix_iff: "has_suffix p s \<longleftrightarrow> (\<exists>t. s = t @ p)"
proof
  assume "has_suffix p s"
  then have "s = take (length s - length p) s @ p"
    unfolding has_suffix_def by (metis append_take_drop_id)
  then show "\<exists>t. s = t @ p" by blast
qed (auto simp: has_suffix_def)

lemma trim_suffix_append [simp]: "trim_suffix p (s @ p) = s"
  by (simp add: trim_suffix_def has_suffix_def)

lemma trim_space_no_lead: "trim_space s \<noteq> [] \<Longrightarrow> \<not> is_space (hd (trim_space s))"
proof -
  assume ne: "trim_space s \<noteq> []"
  let ?l = "dropWhile is_space s"
  have split: "?l = trim_space s @ rev (takeWhile is_space (rev ?l))"
    unfolding trim_space_def trim_left_space_def
    by (metis rev_append rev_rev_ident takeWhile_dropWhile_id)
  with ne have "hd ?l = hd (trim_space s)" by (metis hd_append2)
  moreover from split ne have "?l \<noteq> []" by (metis append_is_Nil_conv)
  then have "\<not> is_space (hd ?l)" by (rule hd_dropWhile)
  ultimately show ?thesis by simp
qed

lemma trim_space_no_trail: "trim_space s \<noteq> [] \<Longrightarrow> \<not> is_space (last (trim_space s))"
  unfolding trim_space_def by (metis hd_dropWhile last_rev rev.simps(1))

lemma split_on_ne [simp]: "split_on c s \<noteq> []"
  by (cases s) (auto split: list.splits)

lemma join_split_on: "join_with [c] (split_on c s) = s"
proof (induction s)
  case (Cons x xs)
  then show ?case
    by (cases "split_on c xs") (auto, (case_tac list; simp)+)
qed simp

lemma split_on_no_sep: "c \<notin> set s \<Longrightarrow> split_on c s = [s]"
  by (induction s) auto

lemma split_on_append: "c \<notin> set s \<Longrightarrow> split_on c (s @ c # t) = s # split_on c t"
  by (induction s) auto

lemma split_on_sep_free: "p \<in> set (split_on c s) \<Longrightarrow> c \<notin> set p"
  by (induction s arbitrary: p) (auto split: list.splits if_splits)

subsection \<open>Decimal numbers\<close>

definition dec_digit :: "char \<Rightarrow> nat" where
  "dec_digit c = of_char c - 48"

definition undec :: "string \<Rightarrow> nat" where
  "undec s = foldl (\<lambda>a c. 10 * a + dec_digit c) 0 s"

text \<open>\<open>strconv.ParseInt(s, 10, w)\<close>: an optional sign and decimal digits, within w bits.\<close>

definition is_digit :: "char \<Rightarrow> bool" where
  "is_digit c = (48 \<le> (of_char c :: nat) \<and> (of_char c :: nat) \<le> 57)"

definition parse_int :: "nat \<Rightarrow> string \<Rightarrow> int option" where
  "parse_int w s =
     (let (neg, ds) = (case s of
              c # cs \<Rightarrow> if c = CHR ''-'' then (True, cs) else if c = CHR ''+'' then (False, cs) else (False, s)
            | [] \<Rightarrow> (False, []));
          n = (if neg then - int (undec ds) else int (undec ds))
      in if ds = [] \<or> \<not> list_all is_digit ds then None
         else if n < - (2 ^ (w - 1)) \<or> 2 ^ (w - 1) \<le> n then None else Some n)"

lemma dec_digit_char: "d < 10 \<Longrightarrow> dec_digit (char_of (48 + d)) = d"
  by (simp add: dec_digit_def)

lemma undec_dec_nat: "undec (dec_nat n) = n"
proof (induction n rule: dec_nat.induct)
  case (1 n)
  show ?case
  proof (cases "n < 10")
    case True
    then show ?thesis by (simp add: dec_nat.simps [of n] undec_def dec_digit_char)
  next
    case False
    with 1 have "undec (dec_nat (n div 10)) = n div 10" by simp
    then have "undec (dec_nat (n div 10) @ [char_of (48 + n mod 10)]) = 10 * (n div 10) + n mod 10"
      by (simp add: undec_def dec_digit_char)
    with False show ?thesis by (simp add: dec_nat.simps [of n])
  qed
qed

lemma dec_nat_inj [simp]: "dec_nat a = dec_nat b \<longleftrightarrow> a = b"
  by (metis undec_dec_nat)

lemma dec_nat_digits: "c \<in> set (dec_nat n) \<Longrightarrow> \<exists>d < 10. c = char_of (48 + d :: nat)"
proof (induction n rule: dec_nat.induct)
  case (1 n)
  then show ?case
    by (cases "n < 10") (auto simp: dec_nat.simps [of n] intro: exI [of _ "n mod 10"])
qed

lemma dec_nat_ne [simp]: "dec_nat n \<noteq> []"
  by (simp add: dec_nat.simps [of n])

lemma digit_char_neq:
  "d < 10 \<Longrightarrow> char_of (48 + d :: nat) \<noteq> CHR ''-''"
  "d < 10 \<Longrightarrow> char_of (48 + d :: nat) \<noteq> CHR '':''"
  by (auto dest!: arg_cong [where f = "of_char :: char \<Rightarrow> nat"])

lemma dec_nat_no_minus: "CHR ''-'' \<notin> set (dec_nat n)"
  using dec_nat_digits digit_char_neq(1) by metis

lemma dec_nat_no_colon: "CHR '':'' \<notin> set (dec_nat n)"
  using dec_nat_digits digit_char_neq(2) by metis

lemma dec_int_inj: "dec_int a = dec_int b \<longleftrightarrow> a = b"
proof -
  have "dec_nat n \<noteq> CHR ''-'' # s" for n s
    using dec_nat_no_minus [of n] by auto
  then show ?thesis
    by (auto simp: dec_int_def split: if_splits) (metis list.set_intros(1) dec_nat_no_minus)+
qed

lemma dec_int_ne [simp]: "dec_int i \<noteq> []" "[] \<noteq> dec_int i"
  by (simp_all add: dec_int_def not_sym)

lemma dec_int_no_colon: "CHR '':'' \<notin> set (dec_int i)"
  by (simp add: dec_int_def dec_nat_no_colon)

lemma is_digit_dec_nat: "list_all is_digit (dec_nat n)"
proof -
  have "is_digit c" if "c \<in> set (dec_nat n)" for c
    using dec_nat_digits [OF that] by (auto simp: is_digit_def)
  then show ?thesis by (simp add: list_all_iff)
qed

lemma parse_int_dec_int: "parse_int w (dec_int n) = (if n < - (2 ^ (w - 1)) \<or> 2 ^ (w - 1) \<le> n then None else Some n)"
proof (cases "n < 0")
  case True
  then show ?thesis by (simp add: parse_int_def dec_int_def is_digit_dec_nat undec_dec_nat)
next
  case False
  obtain c cs where c: "dec_nat (nat n) = c # cs" by (cases "dec_nat (nat n)") simp_all
  have sign: "c \<noteq> CHR ''-''" "c \<noteq> CHR ''+''"
    using is_digit_dec_nat [of "nat n"] by (auto simp: c is_digit_def)
  have "undec (c # cs) = nat n" "list_all is_digit (c # cs)"
    unfolding c [symmetric] by (simp_all add: undec_dec_nat is_digit_dec_nat)
  with False sign show ?thesis unfolding parse_int_def dec_int_def by (simp add: c)
qed

lemma dropWhile_space_free: "\<forall>c \<in> set s. \<not> is_space c \<Longrightarrow> dropWhile is_space s = s"
  by (cases s) auto

lemma trim_space_free: "\<forall>c \<in> set s. \<not> is_space c \<Longrightarrow> trim_space s = s"
  by (simp add: trim_space_def trim_left_space_def dropWhile_space_free)

lemma dec_int_chars: "c \<in> set (dec_int n) \<Longrightarrow> c = CHR ''-'' \<or> is_digit c"
  using is_digit_dec_nat [of "nat n"] is_digit_dec_nat [of "nat (- n)"] by (auto simp: dec_int_def list_all_iff split: if_splits)

lemma trim_dec_int [simp]: "trim_space (dec_int n) = dec_int n"
  by (intro trim_space_free) (auto simp: is_space_def is_digit_def dest!: dec_int_chars)

text \<open>A number that \<open>strconv.ParseInt\<close> accepts has no spaces, and fits every width that holds it.\<close>

lemma parse_int_trim:
  assumes "parse_int w s = Some n"
  shows "trim_space s = s"
proof -
  have digit: "\<not> is_space c" if "is_digit c" for c using that by (auto simp: is_space_def is_digit_def)
  have sign: "\<not> is_space (CHR ''-'')" "\<not> is_space (CHR ''+'')" by (simp_all add: is_space_def)
  have "\<forall>c \<in> set s. \<not> is_space c"
    using assms digit sign by (cases s) (auto simp: parse_int_def list_all_iff split: if_splits)
  then show ?thesis by (rule trim_space_free)
qed

lemma parse_int_narrow:
  assumes "parse_int w s = Some n" "- (2 ^ (v - 1)) \<le> n" "n < 2 ^ (v - 1)"
  shows "parse_int v s = Some n"
  using assms by (auto simp: parse_int_def Let_def split: prod.splits if_splits)

end
