(* ===== verification/K8s_Types.thy ===== *)
theory K8s_Types
  imports Prelude
begin

text \<open>
  The Kubernetes data the webhooks and controllers handle: object metadata, Secrets,
  ServiceAccounts, containers and their resource claims, tolerations, and the admission request.
  Each record has the fields the code under src/ reads or writes; fields it never touches are
  left out.
\<close>

section \<open>Object metadata\<close>

record owner_ref =
  or_api :: string
  or_kind :: string
  or_name :: string
  or_uid :: string
  or_controller :: "bool option"

record object_meta =
  om_name :: string
  om_namespace :: string
  om_uid :: string
  om_labels :: "string gomap"
  om_annotations :: "string gomap"
  om_deleting :: bool  \<comment> \<open>the deletion timestamp is set\<close>
  om_owners :: "owner_ref list"
  om_finalizers :: "string list"

definition empty_meta :: object_meta where
  "empty_meta = \<lparr>om_name = '''', om_namespace = '''', om_uid = '''', om_labels = [],
     om_annotations = [], om_deleting = False, om_owners = [], om_finalizers = []\<rparr>"

record policy_rule =
  pr_groups :: "string list"
  pr_resources :: "string list"
  pr_names :: "string list"
  pr_verbs :: "string list"

record subject =
  sb_kind :: string
  sb_name :: string
  sb_namespace :: string

record role_ref =
  rf_group :: string
  rf_kind :: string
  rf_name :: string

datatype int_or_string = PortNumber int | PortName string

record service_port =
  sp_name :: string
  sp_port :: int
  sp_protocol :: string
  sp_target :: int_or_string
  sp_app_protocol :: "string option"

record secret =
  sec_meta :: object_meta
  sec_type :: string
  sec_data :: "string gomap"

record service_account =
  sa_name :: string
  sa_namespace :: string
  sa_secrets :: "string list"

section \<open>Pod data\<close>

text \<open>
  A \<open>resource.Quantity\<close> is the exact number of nano-units it denotes (Kubernetes rounds up
  anything finer).
\<close>

type_synonym quantity = int

record container_claim =
  cc_name :: string
  cc_request :: string

record resource_reqs =
  rr_requests :: "quantity gomap"
  rr_limits :: "quantity gomap"
  rr_claims :: "container_claim list"

definition empty_resources :: resource_reqs where
  "empty_resources = \<lparr>rr_requests = [], rr_limits = [], rr_claims = []\<rparr>"

record container =
  ct_name :: string
  ct_resources :: resource_reqs

record pod_claim =
  pc_name :: string
  pc_claim :: "string option"
  pc_template :: "string option"

record toleration =
  tl_key :: string
  tl_operator :: string
  tl_value :: string
  tl_effect :: string
  tl_seconds :: "int option"

section \<open>Admission requests\<close>

datatype operation = Create | Update | Delete | Connect

text \<open>
  The raw bytes of the old object, by what each decoder of the code makes of them (None for a
  decoding error): \<open>PartialObjectMetadata\<close>, the anonymous struct with a
  \<open>metadata\<close> field, \<open>Unstructured\<close>, and the typed object.
\<close>

record 'o raw_object =
  raw_partial :: "object_meta option"
  raw_metadata :: "object_meta option"
  raw_unstructured :: "object_meta option"
  raw_typed :: "'o option"

record 'o admission_request =
  rq_operation :: operation
  rq_namespace :: string
  rq_dry_run :: "bool option"
  rq_old :: "'o raw_object option"

definition is_dry_run :: "('o, 'z) admission_request_scheme \<Rightarrow> bool" where
  "is_dry_run req = (rq_dry_run req = Some True)"

end
