(* ===== verification/Reserved_Entry.thy ===== *)
theory Reserved_Entry
  imports Prelude
begin

text \<open>
  Several operations of the webhooks put one entry under a reserved name into a collection and
  take it out again: the injected-type annotation, the connection's image pull secret, the
  hardware profile's pod-level and container-level resource claims. The locale states the
  contract they share; each component interprets it on its own operations.
\<close>

locale reserved_entry =
  fixes has :: "'l \<Rightarrow> bool"
    and ins :: "'l \<Rightarrow> 'l"
    and del :: "'l \<Rightarrow> 'l"
  assumes has_ins: "has (ins l)"
    and not_has_del: "\<not> has (del l)"
    and ins_ins: "ins (ins l) = ins l"
    and del_absent: "\<not> has l \<Longrightarrow> del l = l"
    and del_ins: "\<not> has l \<Longrightarrow> del (ins l) = l"
begin

lemma del_del: "del (del l) = del l"
  by (simp add: del_absent not_has_del)

lemma del_ins_del: "del (ins (del l)) = del l"
  by (simp add: del_ins not_has_del)

lemma has_after: "has (if b then ins l else del l) = b"
  by (simp add: has_ins not_has_del)

lemma fixed_point_iff: "del l = l \<longleftrightarrow> \<not> has l"
  by (metis del_absent not_has_del)

end

text \<open>
  The entries under other names, in order, are untouched by any sequence of insertions and
  removals of the reserved one.
\<close>

locale reserved_entry_frame = reserved_entry +
  fixes others :: "'l \<Rightarrow> 'o"
  assumes others_ins: "others (ins l) = others l"
    and others_del: "others (del l) = others l"
begin

lemma others_sequence: "others (fold (\<lambda>b l. if b then ins l else del l) bs l) = others l"
  by (induction bs arbitrary: l) (simp_all add: others_ins others_del)

end

end
