(* ===== verification/Connection_API.thy ===== *)
theory Connection_API
  imports K8s_Types Reserved_Entry
begin

text \<open>
  The connections API (internal/webhook/connectionapi): annotations.go and utils.go. A
  workload names a Secret in an annotation; the webhook reads the Secret's connection type and
  injects the credentials. The uncached reader and the writing client are parameters: \<open>get\<close>
  answers a Get by namespace and name, \<open>create\<close> answers the creation of a
  ServiceAccount. Operations that write return the list of their write requests beside the
  result.
\<close>

section \<open>Annotations (annotations.go)\<close>

definition AnnotationConnections :: string where
  "AnnotationConnections = ''opendatahub.io/connections''"
definition AnnotationConnectionTypeProtocol :: string where
  "AnnotationConnectionTypeProtocol = ''opendatahub.io/connection-type-protocol''"
definition AnnotationConnectionTypeRef :: string where
  "AnnotationConnectionTypeRef = ''opendatahub.io/connection-type-ref''"
definition AnnotationConnectionPath :: string where
  "AnnotationConnectionPath = ''opendatahub.io/connection-path''"
definition AnnotationInjectedConnectionType :: string where
  "AnnotationInjectedConnectionType = ''opendatahub.io/injected-connection-type''"

definition SetInjectedConnectionType :: "object_meta \<Rightarrow> string \<Rightarrow> object_meta" where
  "SetInjectedConnectionType obj connType =
     obj\<lparr>om_annotations := m_put AnnotationInjectedConnectionType connType (om_annotations obj)\<rparr>"

definition RemoveInjectedConnectionType :: "object_meta \<Rightarrow> object_meta" where
  "RemoveInjectedConnectionType obj =
     obj\<lparr>om_annotations := m_del AnnotationInjectedConnectionType (om_annotations obj)\<rparr>"

section \<open>Types\<close>

record connection_info =
  ci_secret :: string
  ci_type :: string
  ci_path :: string

definition no_connection :: connection_info where
  "no_connection = \<lparr>ci_secret = '''', ci_type = '''', ci_path = ''''\<rparr>"

datatype connection_action = ActionInject | ActionRemove | ActionReplace | ActionNone

definition ConnectionTypeProtocolS3 :: string where "ConnectionTypeProtocolS3 = ''s3''"
definition ConnectionTypeProtocolURI :: string where "ConnectionTypeProtocolURI = ''uri''"
definition ConnectionTypeProtocolOCI :: string where "ConnectionTypeProtocolOCI = ''oci''"
definition ConnectionTypeRefS3 :: string where "ConnectionTypeRefS3 = ''s3''"
definition ConnectionTypeRefURI :: string where "ConnectionTypeRefURI = ''uri-v1''"
definition ConnectionTypeRefOCI :: string where "ConnectionTypeRefOCI = ''oci-v1''"

datatype conn_error =
    ConnectionNotFound string string
  | ConnectionReadFailed api_error
  | ConnectionTypeMissing string
  | ConnectionTypeUnsupported string string
  | ServiceAccountFailed api_error
  | URIKeyMissing
  | BucketKeyMissing
  | BucketEmpty
  | PathMissing
  | InvalidURL string
  | OldObjectUndecodable
  | OldSecretReadFailed api_error
  | NoAdmissionRequest
  | NilSecret  \<comment> \<open>dereference of a nil Secret, shown unreachable\<close>

section \<open>Operations (utils.go)\<close>

definition ValidateConnectionType :: "object_meta \<Rightarrow> string \<times> bool" where
  "ValidateConnectionType obj =
     (let allowedProtocol = [ConnectionTypeProtocolS3, ConnectionTypeProtocolURI, ConnectionTypeProtocolOCI];
          allowedRef = [ConnectionTypeRefS3, ConnectionTypeRefURI, ConnectionTypeRefOCI];
          annotations = om_annotations obj;
          protocol = m_str annotations AnnotationConnectionTypeProtocol;
          ref = m_str annotations AnnotationConnectionTypeRef
      in if protocol \<noteq> '''' then (protocol, protocol \<in> set allowedProtocol)
         else if ref \<noteq> '''' then (ref, ref \<in> set allowedRef)
         else ('''', False))"

definition ValidateConnectionAnnotation ::
  "(string \<Rightarrow> string \<Rightarrow> api_error + secret) \<Rightarrow> object_meta \<Rightarrow> string
     \<Rightarrow> conn_error + connection_info \<times> secret option" where
  "ValidateConnectionAnnotation get obj namespace =
     (let secretName = m_str (om_annotations obj) AnnotationConnections
      in if secretName = '''' then Inr (no_connection, None)
         else (case get namespace secretName of
             Inl NotFound \<Rightarrow> Inl (ConnectionNotFound secretName namespace)
           | Inl e \<Rightarrow> Inl (ConnectionReadFailed e)
           | Inr sec \<Rightarrow>
               (let (connType, isValid) = ValidateConnectionType (sec_meta sec)
                in if connType = '''' then Inl (ConnectionTypeMissing secretName)
                   else if \<not> isValid then Inl (ConnectionTypeUnsupported secretName connType)
                   else Inr (\<lparr>ci_secret = om_name (sec_meta sec), ci_type = connType,
                              ci_path = m_str (om_annotations obj) AnnotationConnectionPath\<rparr>,
                             Some sec))))"

definition DetermineAction :: "connection_info \<Rightarrow> connection_info \<Rightarrow> connection_action" where
  "DetermineAction oldConn newConn =
     (if ci_secret oldConn \<noteq> '''' \<and> ci_secret newConn = '''' then ActionRemove
      else if ci_secret oldConn = '''' \<and> ci_secret newConn = '''' then ActionNone
      else if ci_secret oldConn = '''' \<and> ci_secret newConn \<noteq> '''' then ActionInject
      else if ci_type oldConn \<noteq> ci_type newConn \<or> ci_secret oldConn \<noteq> ci_secret newConn
           then ActionReplace
      else if (ci_type newConn = ConnectionTypeProtocolS3 \<or> ci_type newConn = ConnectionTypeRefS3)
              \<and> ci_path oldConn \<noteq> ci_path newConn then ActionReplace
      else ActionNone)"

definition createSA ::
  "(service_account \<Rightarrow> api_error option) \<Rightarrow> string \<Rightarrow> string
     \<Rightarrow> service_account list \<times> conn_error option" where
  "createSA create secretName namespace =
     (let sa = \<lparr>sa_name = secretName @ ''-sa'', sa_namespace = namespace, sa_secrets = [secretName]\<rparr>
      in ([sa], case create sa of
             None \<Rightarrow> None
           | Some AlreadyExists \<Rightarrow> None
           | Some e \<Rightarrow> Some (ServiceAccountFailed e)))"

definition CreateServiceAccountIfNeeded ::
  "(service_account \<Rightarrow> api_error option) \<Rightarrow> string \<Rightarrow> string \<Rightarrow> string \<Rightarrow> bool
     \<Rightarrow> service_account list \<times> conn_error option" where
  "CreateServiceAccountIfNeeded create secretName connType namespace isDryRun =
     (if \<not> (connType = ConnectionTypeProtocolS3 \<or> connType = ConnectionTypeRefS3) then ([], None)
      else if isDryRun then ([], None)
      else createSA create secretName namespace)"

definition GetURIValue :: "secret \<Rightarrow> conn_error + string" where
  "GetURIValue sec =
     (case map_of (sec_data sec) ''https-host'' of
        Some v \<Rightarrow> Inr v
      | None \<Rightarrow> (case map_of (sec_data sec) ''URI'' of
            Some v \<Rightarrow> Inr v
          | None \<Rightarrow> Inl URIKeyMissing))"

definition BuildS3URI :: "secret \<Rightarrow> connection_info \<Rightarrow> conn_error + string" where
  "BuildS3URI sec connInfo =
     (case map_of (sec_data sec) ''AWS_S3_BUCKET'' of
        None \<Rightarrow> Inl BucketKeyMissing
      | Some bucket \<Rightarrow>
          if bucket = '''' then Inl BucketEmpty
          else if ci_path connInfo = '''' then Inl PathMissing
          else Inr (''s3://'' @ bucket @ ''/'' @ ci_path connInfo))"

definition GetOldConnectionInfo ::
  "('o, 'z) admission_request_scheme \<Rightarrow> (string \<Rightarrow> string \<Rightarrow> api_error + secret)
     \<Rightarrow> conn_error + connection_info" where
  "GetOldConnectionInfo req get =
     (case rq_old req of
        None \<Rightarrow> Inr no_connection
      | Some raw \<Rightarrow> (case raw_partial raw of
            None \<Rightarrow> Inl OldObjectUndecodable
          | Some oldObj \<Rightarrow>
              (let ann = om_annotations oldObj;
                   secretName = m_str ann AnnotationConnections
               in if secretName = '''' then Inr no_connection
                  else (case get (rq_namespace req) secretName of
                      Inl NotFound \<Rightarrow>
                        Inr \<lparr>ci_secret = secretName,
                             ci_type = m_str ann AnnotationInjectedConnectionType,
                             ci_path = m_str ann AnnotationConnectionPath\<rparr>
                    | Inl e \<Rightarrow> Inl (OldSecretReadFailed e)
                    | Inr sec \<Rightarrow>
                        (let sann = om_annotations (sec_meta sec);
                             protocol = m_str sann AnnotationConnectionTypeProtocol;
                             connType = (if protocol = ''''
                                         then m_str sann AnnotationConnectionTypeRef else protocol)
                         in Inr \<lparr>ci_secret = secretName, ci_type = connType,
                                 ci_path = m_str ann AnnotationConnectionPath\<rparr>)))))"

definition InjectServiceAccountName :: "string \<Rightarrow> string \<Rightarrow> string" where
  "InjectServiceAccountName serviceAccountName saName =
     (if serviceAccountName = '''' then saName else serviceAccountName)"

definition RemoveServiceAccountName :: "string \<Rightarrow> string \<Rightarrow> string" where
  "RemoveServiceAccountName serviceAccountName injectedSAName =
     (if serviceAccountName = injectedSAName then '''' else serviceAccountName)"

definition InjectOCIImagePullSecrets :: "string list \<Rightarrow> string \<Rightarrow> string list" where
  "InjectOCIImagePullSecrets imagePullSecrets secretName =
     (if secretName \<in> set imagePullSecrets then imagePullSecrets
      else imagePullSecrets @ [secretName])"

definition CleanupOCIImagePullSecrets :: "string list \<Rightarrow> string \<Rightarrow> string list" where
  "CleanupOCIImagePullSecrets imagePullSecrets secretName =
     (if secretName = '''' then imagePullSecrets
      else filter (\<lambda>ref. ref \<noteq> secretName) imagePullSecrets)"

section \<open>Lemmas\<close>

named_theorems conn_defs \<open>definitions of the connections API\<close>

lemmas annotation_names =
  AnnotationConnections_def AnnotationConnectionTypeProtocol_def AnnotationConnectionTypeRef_def
  AnnotationConnectionPath_def AnnotationInjectedConnectionType_def

lemmas connection_types =
  ConnectionTypeProtocolS3_def ConnectionTypeProtocolURI_def ConnectionTypeProtocolOCI_def
  ConnectionTypeRefS3_def ConnectionTypeRefURI_def ConnectionTypeRefOCI_def

declare SetInjectedConnectionType_def [conn_defs] RemoveInjectedConnectionType_def [conn_defs]
  InjectServiceAccountName_def [conn_defs] RemoveServiceAccountName_def [conn_defs]
  InjectOCIImagePullSecrets_def [conn_defs] CleanupOCIImagePullSecrets_def [conn_defs]

interpretation injected_type: reserved_entry_frame
  "\<lambda>m. map_of m AnnotationInjectedConnectionType \<noteq> None"
  "m_put AnnotationInjectedConnectionType t" "m_del AnnotationInjectedConnectionType"
  "\<lambda>m k. if k = AnnotationInjectedConnectionType then None else map_of m k"
  for t :: string
  by unfold_locales (auto simp: m_put_idem m_del_absent m_del_put_absent fun_eq_iff)

text \<open>The pull-secret list, for a connection whose name is not empty.\<close>

interpretation pulls: reserved_entry_frame
  "\<lambda>l. c # n \<in> set l" "\<lambda>l. InjectOCIImagePullSecrets l (c # n)"
  "\<lambda>l. CleanupOCIImagePullSecrets l (c # n)" "filter (\<lambda>r. r \<noteq> c # n)"
  for c :: char and n :: string
  by unfold_locales (auto simp: conn_defs filter_id_conv)

lemma ValidateConnectionType_valid:
  "ValidateConnectionType obj = (t, True) \<Longrightarrow> t \<in> {''s3'', ''uri'', ''oci'', ''uri-v1'', ''oci-v1''}"
  by (auto simp: ValidateConnectionType_def Let_def connection_types split: if_splits)

lemma ValidateConnectionAnnotation_Inr:
  assumes "ValidateConnectionAnnotation get obj ns = Inr (ci, s)"
  shows "(m_str (om_annotations obj) AnnotationConnections = '''' \<and> ci = no_connection \<and> s = None) \<or>
         (\<exists>sec. m_str (om_annotations obj) AnnotationConnections \<noteq> '''' \<and>
            get ns (m_str (om_annotations obj) AnnotationConnections) = Inr sec \<and> s = Some sec \<and>
            ci_secret ci = om_name (sec_meta sec) \<and>
            ci_type ci \<in> {''s3'', ''uri'', ''oci'', ''uri-v1'', ''oci-v1''} \<and>
            ci_path ci = m_str (om_annotations obj) AnnotationConnectionPath)"
  using assms
  by (auto simp: ValidateConnectionAnnotation_def Let_def dest: ValidateConnectionType_valid
      split: if_splits sum.splits api_error.splits prod.splits)

lemma CreateServiceAccountIfNeeded_writes:
  "sa \<in> set (fst (CreateServiceAccountIfNeeded create n t ns dry)) \<longleftrightarrow>
     t = ''s3'' \<and> \<not> dry \<and> sa = \<lparr>sa_name = n @ ''-sa'', sa_namespace = ns, sa_secrets = [n]\<rparr>"
  by (auto simp: CreateServiceAccountIfNeeded_def createSA_def Let_def connection_types)

lemma CreateServiceAccountIfNeeded_already_exists:
  "create \<lparr>sa_name = n @ ''-sa'', sa_namespace = ns, sa_secrets = [n]\<rparr> \<in> {None, Some AlreadyExists}
     \<Longrightarrow> snd (CreateServiceAccountIfNeeded create n t ns dry) = None"
  by (auto simp: CreateServiceAccountIfNeeded_def createSA_def Let_def)

lemma connection_meta_sel [simp]:
  "om_deleting (SetInjectedConnectionType m t) = om_deleting m"
  "om_deleting (RemoveInjectedConnectionType m) = om_deleting m"
  "om_annotations (SetInjectedConnectionType m t) = m_put AnnotationInjectedConnectionType t (om_annotations m)"
  "om_annotations (RemoveInjectedConnectionType m) = m_del AnnotationInjectedConnectionType (om_annotations m)"
  by (simp_all add: conn_defs)

lemma connection_meta_stable [simp]:
  "SetInjectedConnectionType (SetInjectedConnectionType m t) t = SetInjectedConnectionType m t"
  "RemoveInjectedConnectionType (RemoveInjectedConnectionType m) = RemoveInjectedConnectionType m"
  "RemoveInjectedConnectionType (SetInjectedConnectionType m t) = RemoveInjectedConnectionType m"
proof -
  show "SetInjectedConnectionType (SetInjectedConnectionType m t) t = SetInjectedConnectionType m t"
    by (simp add: conn_defs injected_type.ins_ins)
  show "RemoveInjectedConnectionType (RemoveInjectedConnectionType m) = RemoveInjectedConnectionType m"
    by (simp add: conn_defs injected_type.del_del)
  show "RemoveInjectedConnectionType (SetInjectedConnectionType m t) = RemoveInjectedConnectionType m"
    by (simp add: conn_defs AList.delete_update_same) 
qed

text \<open>
  The cases of the switch statements on a connection type, as one value: the \<open>String\<close> values of
  the protocol and the reference form of each type are alternatives of the same case.
\<close>

datatype conn_kind = KOci | KUri | KS3 | KEmpty | KOther

definition conn_kind :: "string \<Rightarrow> conn_kind" where
  "conn_kind t =
     (if t = ''oci'' \<or> t = ''oci-v1'' then KOci else if t = ''uri'' \<or> t = ''uri-v1'' then KUri
      else if t = ''s3'' then KS3 else if t = '''' then KEmpty else KOther)"

lemma conn_kind_tests:
  "t = ConnectionTypeProtocolOCI \<or> t = ConnectionTypeRefOCI \<longleftrightarrow> conn_kind t = KOci"
  "t = ConnectionTypeProtocolURI \<or> t = ConnectionTypeRefURI \<longleftrightarrow> conn_kind t = KUri"
  "t = ConnectionTypeProtocolS3 \<or> t = ConnectionTypeRefS3 \<longleftrightarrow> conn_kind t = KS3"
  "t = '''' \<longleftrightarrow> conn_kind t = KEmpty"
  by (simp_all add: conn_kind_def connection_types)

lemma conn_kind_s3: "conn_kind t = KS3 \<longleftrightarrow> t = ''s3''"
  by (simp add: conn_kind_def)

lemma conn_kind_valid: "t \<in> {''s3'', ''uri'', ''oci'', ''uri-v1'', ''oci-v1''} \<Longrightarrow> conn_kind t \<in> {KOci, KUri, KS3}"
  by (auto simp: conn_kind_def)

text \<open>What injection and cleanup do to the fields both kinds of workload have.\<close>

definition injected_pulls :: "connection_info \<Rightarrow> string list \<Rightarrow> string list" where
  "injected_pulls c l = (if conn_kind (ci_type c) = KOci then InjectOCIImagePullSecrets l (ci_secret c) else l)"

definition injected_sa :: "connection_info \<Rightarrow> string \<Rightarrow> string" where
  "injected_sa c s =
     (if conn_kind (ci_type c) = KS3 then InjectServiceAccountName s (ci_secret c @ ''-sa'') else s)"

definition cleaned_pulls :: "connection_info \<Rightarrow> string list \<Rightarrow> string list" where
  "cleaned_pulls c l =
     (if conn_kind (ci_type c) = KOci then CleanupOCIImagePullSecrets l (ci_secret c)
      else if conn_kind (ci_type c) = KEmpty
      then (if ci_secret c \<noteq> '''' then CleanupOCIImagePullSecrets l (ci_secret c) else [])
      else l)"

definition cleaned_sa :: "connection_info \<Rightarrow> string \<Rightarrow> string" where
  "cleaned_sa c s =
     (if conn_kind (ci_type c) = KS3 \<or> conn_kind (ci_type c) = KEmpty
      then RemoveServiceAccountName s (ci_secret c @ ''-sa'') else s)"

lemma pulls_stable [simp]:
  "injected_pulls c (injected_pulls c l) = injected_pulls c l"
  "cleaned_pulls c (cleaned_pulls c l) = cleaned_pulls c l"
  "injected_pulls c (cleaned_pulls d (injected_pulls c (cleaned_pulls d l))) =
     injected_pulls c (cleaned_pulls d l)"
  by (auto simp: injected_pulls_def cleaned_pulls_def conn_defs)

lemma sa_stable [simp]:
  "injected_sa c (injected_sa c s) = injected_sa c s"
  "cleaned_sa c (cleaned_sa c s) = cleaned_sa c s"
  "injected_sa c (cleaned_sa d (injected_sa c (cleaned_sa d s))) = injected_sa c (cleaned_sa d s)"
  by (auto simp: injected_sa_def cleaned_sa_def conn_defs)

end
