(* ===== verification/Connection_Target.thy ===== *)
theory Connection_Target
  imports Connection_API
begin

text \<open>
  What the defaulters of InferenceService and LLMInferenceService share in their use of the
  connections API, as an interface: a workload that a connection can be injected into and cleaned
  out of. The laws are what each webhook proves of its own injection and cleanup; the lemmas,
  idempotence and the limits on ServiceAccount writes, are proved once.
\<close>

text \<open>The decision of a defaulter: an error, or an action with the old and the new connection.\<close>

definition connection_choice ::
  "(string \<Rightarrow> string \<Rightarrow> api_error + secret) \<Rightarrow> 'o admission_request \<Rightarrow> object_meta
     \<Rightarrow> conn_error + connection_action \<times> connection_info \<times> connection_info \<times> secret option" where
  "connection_choice get req m =
     (case ValidateConnectionAnnotation get m (rq_namespace req) of
        Inl e \<Rightarrow> Inl e
      | Inr (c, s) \<Rightarrow>
          if rq_operation req = Update then
            (case GetOldConnectionInfo req get of
               Inl e \<Rightarrow> Inl e
             | Inr old \<Rightarrow> Inr (DetermineAction old c, old, c, s))
          else Inr (if ci_secret c = '''' then ActionNone else ActionInject, no_connection, c, s))"

definition connection_effect ::
  "(service_account \<Rightarrow> api_error option) \<Rightarrow> 'o admission_request
     \<Rightarrow> ('o \<Rightarrow> connection_info \<Rightarrow> secret option \<Rightarrow> conn_error + 'o) \<Rightarrow> ('o \<Rightarrow> connection_info \<Rightarrow> 'o)
     \<Rightarrow> ('o \<Rightarrow> connection_info \<Rightarrow> 'o)
     \<Rightarrow> connection_action \<times> connection_info \<times> connection_info \<times> secret option \<Rightarrow> 'o
     \<Rightarrow> service_account list \<times> (conn_error + 'o)" where
  "connection_effect create req inject cleanup remove choice i =
     (case choice of (a, old, c, s) \<Rightarrow>
        let start = (if a = ActionReplace then cleanup i old else if a = ActionRemove then remove i old else i)
        in if a = ActionInject \<or> a = ActionReplace then
             (case CreateServiceAccountIfNeeded create (ci_secret c) (ci_type c) (rq_namespace req) (is_dry_run req) of
                (sas, Some e) \<Rightarrow> (sas, Inl e)
              | (sas, None) \<Rightarrow> (sas, inject start c s))
           else ([], Inr start))"

text \<open>The metadata two versions of an object share when only the injected-type annotation differs.\<close>

definition same_meta_but_injected :: "object_meta \<Rightarrow> object_meta \<Rightarrow> bool" where
  "same_meta_but_injected m n \<longleftrightarrow>
     n\<lparr>om_annotations := []\<rparr> = m\<lparr>om_annotations := []\<rparr> \<and>
     (\<forall>k. k \<noteq> AnnotationInjectedConnectionType \<longrightarrow> map_of (om_annotations n) k = map_of (om_annotations m) k)"

lemma same_meta_refl [simp]: "same_meta_but_injected m m"
  by (simp add: same_meta_but_injected_def)

lemma same_meta_trans:
  "same_meta_but_injected a b \<Longrightarrow> same_meta_but_injected b c \<Longrightarrow> same_meta_but_injected a c"
  by (simp add: same_meta_but_injected_def)

lemma same_meta_set [simp]:
  "same_meta_but_injected m (SetInjectedConnectionType m t)"
  "same_meta_but_injected m (RemoveInjectedConnectionType m)"
  by (simp_all add: same_meta_but_injected_def conn_defs)

lemma ValidateConnectionAnnotation_cong:
  assumes "m_str (om_annotations a) AnnotationConnections = m_str (om_annotations b) AnnotationConnections"
    "m_str (om_annotations a) AnnotationConnectionPath = m_str (om_annotations b) AnnotationConnectionPath"
  shows "ValidateConnectionAnnotation get a ns = ValidateConnectionAnnotation get b ns"
  unfolding ValidateConnectionAnnotation_def Let_def assms by (rule refl)

lemma same_meta_deleting: "same_meta_but_injected m n \<Longrightarrow> om_deleting n = om_deleting m"
proof -
  assume "same_meta_but_injected m n"
  then have "om_deleting (n\<lparr>om_annotations := []\<rparr>) = om_deleting (m\<lparr>om_annotations := []\<rparr>)"
    by (simp only: same_meta_but_injected_def)
  then show ?thesis by simp
qed

lemma same_meta_choice: "same_meta_but_injected m n \<Longrightarrow> connection_choice get req n = connection_choice get req m"
proof -
  assume "same_meta_but_injected m n"
  then have "ValidateConnectionAnnotation get n ns = ValidateConnectionAnnotation get m ns" for ns
    by (intro ValidateConnectionAnnotation_cong)
      (simp_all add: same_meta_but_injected_def m_str_def annotation_names)
  then show ?thesis by (simp add: connection_choice_def)
qed

lemma connection_choice_new:
  "connection_choice get req m = Inr (a, old, c, s) \<Longrightarrow>
     ValidateConnectionAnnotation get m (rq_namespace req) = Inr (c, s)"
  by (auto simp: connection_choice_def split: sum.splits if_splits)

lemma connection_choice_typed:
  assumes "connection_choice get req m = Inr (a, old, c, s)" and "a = ActionInject \<or> a = ActionReplace"
  shows "ci_secret c \<noteq> ''''" and "\<exists>x. s = Some x" and "conn_kind (ci_type c) \<in> {KOci, KUri, KS3}"
proof -
  from assms show c: "ci_secret c \<noteq> ''''"
    by (auto simp: connection_choice_def DetermineAction_def split: sum.splits if_splits)
  with ValidateConnectionAnnotation_Inr [OF connection_choice_new [OF assms(1)]]
  show "\<exists>x. s = Some x" and "conn_kind (ci_type c) \<in> {KOci, KUri, KS3}"
    by (auto simp: no_connection_def conn_kind_def)
qed

locale connection_target =
  fixes get :: "string \<Rightarrow> string \<Rightarrow> api_error + secret"
    and create :: "service_account \<Rightarrow> api_error option"
    and meta :: "'o \<Rightarrow> object_meta"
    and inject :: "'o admission_request \<Rightarrow> 'o \<Rightarrow> connection_info \<Rightarrow> secret option \<Rightarrow> conn_error + 'o"
    and cleanup :: "'o \<Rightarrow> connection_info \<Rightarrow> 'o"  \<comment> \<open>before a replacement\<close>
    and remove :: "'o \<Rightarrow> connection_info \<Rightarrow> 'o"  \<comment> \<open>when the connection goes away\<close>
    and apply_conn :: "'o admission_request \<Rightarrow> 'o \<Rightarrow> service_account list \<times> (conn_error + 'o)"
  assumes inject_stable: "inject req i c s = Inr j \<Longrightarrow> inject req j c s = Inr j"
    and remove_stable: "remove (remove i c) c = remove i c"
    and replace_stable: "inject req (cleanup i old) c s = Inr j \<Longrightarrow> inject req (cleanup j old) c s = Inr j"
    and inject_frame: "inject req i c s = Inr j \<Longrightarrow> same_meta_but_injected (meta i) (meta j)"
    and cleanup_frame: "same_meta_but_injected (meta i) (meta (cleanup i c))"
    and remove_frame: "same_meta_but_injected (meta i) (meta (remove i c))"
    and apply_eq: "apply_conn req i =
      (if om_deleting (meta i) then ([], Inr i)
       else (case connection_choice get req (meta i) of
           Inl e \<Rightarrow> ([], Inl e)
         | Inr ch \<Rightarrow> connection_effect create req (inject req) cleanup remove ch i))"
begin

lemma effect_stable:
  "connection_effect create req (inject req) cleanup remove ch i = (w, Inr j) \<Longrightarrow>
   connection_effect create req (inject req) cleanup remove ch j = (w, Inr j)"
  by (auto simp: connection_effect_def remove_stable intro: inject_stable replace_stable
      split: prod.splits if_splits option.splits)

lemma effect_frame:
  "connection_effect create req (inject req) cleanup remove ch i = (w, Inr j) \<Longrightarrow> same_meta_but_injected (meta i) (meta j)"
  by (auto simp: connection_effect_def intro: inject_frame cleanup_frame remove_frame
      same_meta_trans [OF cleanup_frame inject_frame] split: prod.splits if_splits option.splits)

lemma apply_frame: "apply_conn req i = (w, Inr j) \<Longrightarrow> same_meta_but_injected (meta i) (meta j)"
  by (auto simp: apply_eq intro: effect_frame split: if_splits sum.splits)

lemma apply_stable:
  assumes "apply_conn req i = (w, Inr j)"
  shows "apply_conn req j = (w, Inr j)"
proof -
  note frame = apply_frame [OF assms]
  from assms show ?thesis
    unfolding apply_eq same_meta_choice [OF frame] same_meta_deleting [OF frame]
    by (auto intro: effect_stable split: if_splits sum.splits)
qed

lemma apply_writes:
  assumes "sa \<in> set (fst (apply_conn req i))"
  shows "\<not> is_dry_run req \<and> \<not> om_deleting (meta i) \<and> fst (apply_conn req i) = [sa] \<and>
    (\<exists>sec. get (rq_namespace req) (m_str (om_annotations (meta i)) AnnotationConnections) = Inr sec \<and>
       ValidateConnectionType (sec_meta sec) = (''s3'', True) \<and>
       sa = \<lparr>sa_name = om_name (sec_meta sec) @ ''-sa'', sa_namespace = rq_namespace req,
             sa_secrets = [om_name (sec_meta sec)]\<rparr>)"
proof -
  from assms obtain a old c s where d: "connection_choice get req (meta i) = Inr (a, old, c, s)"
    and sa: "sa \<in> set (fst (connection_effect create req (inject req) cleanup remove (a, old, c, s) i))"
    and nd: "\<not> om_deleting (meta i)"
    by (auto simp: apply_eq split: if_splits sum.splits)
  from sa have w: "ci_type c = ''s3'' \<and> \<not> is_dry_run req \<and>
      sa = \<lparr>sa_name = ci_secret c @ ''-sa'', sa_namespace = rq_namespace req, sa_secrets = [ci_secret c]\<rparr> \<and>
      fst (connection_effect create req (inject req) cleanup remove (a, old, c, s) i) = [sa]"
    by (auto simp: connection_effect_def CreateServiceAccountIfNeeded_def createSA_def
        connection_types split: if_splits option.splits api_error.splits)
  from connection_choice_new [OF d] w
  have "\<exists>sec. get (rq_namespace req) (m_str (om_annotations (meta i)) AnnotationConnections) = Inr sec \<and>
      ValidateConnectionType (sec_meta sec) = (''s3'', True) \<and> ci_secret c = om_name (sec_meta sec)"
    by (auto simp: ValidateConnectionAnnotation_def no_connection_def
        split: if_splits sum.splits api_error.splits prod.splits)
  with w nd d show ?thesis by (auto simp: apply_eq)
qed

end

end
