(* ===== verification/HWP_Resolver.thy ===== *)
theory HWP_Resolver
  imports K8s_Types "HOL-Library.Word"
begin

text \<open>
  Hardware profiles, first part (internal/webhook/serving/hardwareprofile/resolver.go): which
  profile a workload refers to, whether that reference changed in a request, and how a
  HardwareProfile object is parsed. Objects are read as unstructured JSON. The accessors of the
  apimachinery library, the quantity parser and the conversion of a float64 (here its bit
  pattern) to an int64 are the fields of \<open>unstructured_lib\<close>, a parameter of the parser.
\<close>

section \<open>Constants and types\<close>

definition HardwareProfileAnnotationName :: string where
  "HardwareProfileAnnotationName = ''opendatahub.io/hardware-profile-name''"
definition HardwareProfileAnnotationNamespace :: string where
  "HardwareProfileAnnotationNamespace = ''opendatahub.io/hardware-profile-namespace''"
definition KueueQueueNameLabel :: string where
  "KueueQueueNameLabel = ''kueue.x-k8s.io/queue-name''"
definition LLMIsvcMainContainerName :: string where
  "LLMIsvcMainContainerName = ''main''"

record resource_identifier =
  ri_identifier :: string
  ri_default :: quantity

record resolved_profile =
  rp_identifiers :: "resource_identifier list"
  rp_template :: string
  rp_node_selector :: "string gomap"
  rp_tolerations :: "toleration list"
  rp_queue :: string

definition empty_profile :: resolved_profile where
  "empty_profile = \<lparr>rp_identifiers = [], rp_template = '''', rp_node_selector = [],
     rp_tolerations = [], rp_queue = ''''\<rparr>"

datatype json =
    JNull
  | JBool bool
  | JInt int
  | JFloat "64 word"
  | JStr string
  | JArr "json list"
  | JObj "(string \<times> json) list"

record unstructured_lib =
  nested_string :: "json \<Rightarrow> string list \<Rightarrow> unit + string option"
  nested_slice :: "json \<Rightarrow> string list \<Rightarrow> unit + json list option"
  nested_string_map :: "json \<Rightarrow> string list \<Rightarrow> unit + string gomap option"
  parse_quantity :: "string \<Rightarrow> unit + quantity"
  float_to_int64 :: "64 word \<Rightarrow> int"

datatype hwp_error =
    ProfileReadFailed api_error
  | DRANameUnreadable
  | QuantityUnreadable string
  | OldReferenceUnreadable

section \<open>The reference\<close>

definition ProfileRef :: "string gomap \<Rightarrow> string \<Rightarrow> string \<times> string" where
  "ProfileRef annotations defaultNamespace =
     (let name = m_str annotations HardwareProfileAnnotationName;
          namespace = m_str annotations HardwareProfileAnnotationNamespace
      in (name, if namespace = '''' then defaultNamespace else namespace))"

definition ProfileReferenceChanged :: "object_meta option \<Rightarrow> object_meta option \<Rightarrow> bool \<Rightarrow> bool" where
  "ProfileReferenceChanged oldMeta newMeta initialAssignmentChanged =
     (case newMeta of
        None \<Rightarrow> False
      | Some new \<Rightarrow>
          (let (newName, newNamespace) = ProfileRef (om_annotations new) (om_namespace new)
           in case oldMeta of
                None \<Rightarrow> initialAssignmentChanged \<and> newName \<noteq> ''''
              | Some old \<Rightarrow>
                  (let (oldName, oldNamespace) = ProfileRef (om_annotations old) (om_namespace old)
                   in if oldName = '''' then initialAssignmentChanged \<and> newName \<noteq> ''''
                      else if newName = '''' then True
                      else oldName \<noteq> newName \<or> oldNamespace \<noteq> newNamespace)))"

definition ProfileReferenceChangedFromRequest ::
  "('o, 'z) admission_request_scheme \<Rightarrow> object_meta \<Rightarrow> bool \<Rightarrow> hwp_error + string \<times> bool" where
  "ProfileReferenceChangedFromRequest req newMeta initialAssignmentChanged =
     (case rq_old req of
        None \<Rightarrow> Inr ('''', ProfileReferenceChanged None (Some newMeta) initialAssignmentChanged)
      | Some raw \<Rightarrow>
          if rq_operation req = Create
          then Inr ('''', ProfileReferenceChanged None (Some newMeta) initialAssignmentChanged)
          else (case raw_metadata raw of
              None \<Rightarrow> Inl OldReferenceUnreadable
            | Some old \<Rightarrow>
                (let oldMeta = empty_meta\<lparr>om_annotations := om_annotations old,
                                          om_namespace := om_namespace old\<rparr>;
                     (oldName, _) = ProfileRef (om_annotations oldMeta) (om_namespace oldMeta)
                 in Inr (oldName,
                      ProfileReferenceChanged (Some oldMeta) (Some newMeta) initialAssignmentChanged))))"

definition ProfileChanged :: "('o, 'z) admission_request_scheme \<Rightarrow> string \<Rightarrow> string \<Rightarrow> bool" where
  "ProfileChanged req newProfileName newProfileNamespace =
     (let newMeta = empty_meta\<lparr>
            om_annotations := [(HardwareProfileAnnotationName, newProfileName),
                               (HardwareProfileAnnotationNamespace, newProfileNamespace)],
            om_namespace := rq_namespace req\<rparr>
      in case ProfileReferenceChangedFromRequest req newMeta False of
           Inl _ \<Rightarrow> True
         | Inr (_, changed) \<Rightarrow> changed)"

section \<open>Parsing a HardwareProfile\<close>

text \<open>The value a Go caller sees when it ignores the found flag and the error.\<close>

definition str_or_zero :: "unit + string option \<Rightarrow> string" where
  "str_or_zero r = (case r of Inr (Some s) \<Rightarrow> s | _ \<Rightarrow> '''')"

definition list_or_zero :: "unit + 'a list option \<Rightarrow> 'a list" where
  "list_or_zero r = (case r of Inr (Some xs) \<Rightarrow> xs | _ \<Rightarrow> [])"

definition NewQuantity :: "int \<Rightarrow> quantity" where
  "NewQuantity v = v * 1000000000"

definition parseQuantity :: "unstructured_lib \<Rightarrow> json option \<Rightarrow> unit + quantity" where
  "parseQuantity lib raw =
     (case raw of
        Some (JInt v) \<Rightarrow> Inr (NewQuantity v)
      | Some (JFloat v) \<Rightarrow> Inr (NewQuantity (float_to_int64 lib v))
      | Some (JStr v) \<Rightarrow> parse_quantity lib v
      | _ \<Rightarrow> Inl ())"

definition getString :: "(string \<times> json) list \<Rightarrow> string \<Rightarrow> string" where
  "getString m key = (case map_of m key of Some (JStr s) \<Rightarrow> s | _ \<Rightarrow> '''')"

definition parseToleration :: "unstructured_lib \<Rightarrow> (string \<times> json) list \<Rightarrow> toleration" where
  "parseToleration lib m =
     \<lparr>tl_key = getString m ''key'', tl_operator = getString m ''operator'',
      tl_value = getString m ''value'', tl_effect = getString m ''effect'',
      tl_seconds = (case map_of m ''tolerationSeconds'' of
          Some (JInt ts) \<Rightarrow> Some ts
        | Some (JFloat ts) \<Rightarrow> Some (float_to_int64 lib ts)
        | _ \<Rightarrow> None)\<rparr>"

fun parseIdentifiers :: "unstructured_lib \<Rightarrow> json list \<Rightarrow> hwp_error + resource_identifier list" where
  "parseIdentifiers lib [] = Inr []"
| "parseIdentifiers lib (JObj idMap # raws) =
     (let identifier = str_or_zero (nested_string lib (JObj idMap) [''identifier''])
      in if identifier = '''' then parseIdentifiers lib raws
         else (case parseQuantity lib (map_of idMap ''defaultCount'') of
             Inl _ \<Rightarrow> Inl (QuantityUnreadable identifier)
           | Inr qty \<Rightarrow> (case parseIdentifiers lib raws of
               Inl e \<Rightarrow> Inl e
             | Inr ids \<Rightarrow> Inr (\<lparr>ri_identifier = identifier, ri_default = qty\<rparr> # ids))))"
| "parseIdentifiers lib (_ # raws) = parseIdentifiers lib raws"

fun parseTolerations :: "unstructured_lib \<Rightarrow> json list \<Rightarrow> toleration list" where
  "parseTolerations lib [] = []"
| "parseTolerations lib (JObj tolMap # rts) = parseToleration lib tolMap # parseTolerations lib rts"
| "parseTolerations lib (_ # rts) = parseTolerations lib rts"

definition parseProfile :: "unstructured_lib \<Rightarrow> json \<Rightarrow> hwp_error + resolved_profile" where
  "parseProfile lib obj =
     (case nested_string lib obj [''spec'', ''dra'', ''resourceClaimTemplateName''] of
        Inl _ \<Rightarrow> Inl DRANameUnreadable
      | Inr template \<Rightarrow>
          (case parseIdentifiers lib (list_or_zero (nested_slice lib obj [''spec'', ''identifiers''])) of
             Inl e \<Rightarrow> Inl e
           | Inr ids \<Rightarrow>
               (let profile = empty_profile\<lparr>rp_template := str_or_zero (Inr template), rp_identifiers := ids\<rparr>;
                    queueName = str_or_zero (nested_string lib obj
                      [''spec'', ''scheduling'', ''kueue'', ''localQueueName''])
                in if queueName \<noteq> '''' then Inr (profile\<lparr>rp_queue := queueName\<rparr>)
                   else Inr (profile\<lparr>
                     rp_node_selector := list_or_zero (nested_string_map lib obj
                       [''spec'', ''scheduling'', ''node'', ''nodeSelector'']),
                     rp_tolerations := parseTolerations lib (list_or_zero (nested_slice lib obj
                       [''spec'', ''scheduling'', ''node'', ''tolerations'']))\<rparr>))))"

definition Resolve ::
  "unstructured_lib \<Rightarrow> (string \<Rightarrow> string \<Rightarrow> api_error + json) \<Rightarrow> string \<Rightarrow> string
     \<Rightarrow> hwp_error + resolved_profile option" where
  "Resolve lib get name namespace =
     (if name = '''' then Inr None
      else (case get namespace name of
          Inl e \<Rightarrow> Inl (ProfileReadFailed e)
        | Inr obj \<Rightarrow> (case parseProfile lib obj of Inl e \<Rightarrow> Inl e | Inr p \<Rightarrow> Inr (Some p))))"

definition TolerationKey :: "toleration \<Rightarrow> string" where
  "TolerationKey tol =
     (let ts = (case tl_seconds tol of None \<Rightarrow> '''' | Some s \<Rightarrow> dec_int s)
      in tl_key tol @ '':'' @ tl_operator tol @ '':'' @ tl_value tol @ '':'' @ tl_effect tol @ '':'' @ ts)"

section \<open>Lemmas\<close>

lemmas hwp_names =
  HardwareProfileAnnotationName_def HardwareProfileAnnotationNamespace_def
  KueueQueueNameLabel_def LLMIsvcMainContainerName_def

definition colon_free :: "toleration \<Rightarrow> bool" where
  "colon_free tol = (CHR '':'' \<notin> set (tl_key tol) \<and> CHR '':'' \<notin> set (tl_operator tol)
     \<and> CHR '':'' \<notin> set (tl_value tol) \<and> CHR '':'' \<notin> set (tl_effect tol))"

lemma split_TolerationKey:
  "colon_free tol \<Longrightarrow> split_on CHR '':'' (TolerationKey tol) =
     [tl_key tol, tl_operator tol, tl_value tol, tl_effect tol,
      case tl_seconds tol of None \<Rightarrow> '''' | Some s \<Rightarrow> dec_int s]"
  by (simp add: TolerationKey_def colon_free_def split_on_append split_on_no_sep dec_int_no_colon
      split: option.split)

text \<open>
  The composite key tells tolerations apart: two tolerations whose four string
  fields contain no colon (Kubernetes allows none in a toleration) have the same key only if they
  are equal, the optional seconds included.
\<close>

theorem TolerationKey_injective:
  assumes "colon_free a" and "colon_free b"
  shows "TolerationKey a = TolerationKey b \<longleftrightarrow> a = b"
proof
  assume "TolerationKey a = TolerationKey b"
  then have "split_on CHR '':'' (TolerationKey a) = split_on CHR '':'' (TolerationKey b)" by simp
  with assms show "a = b"
    by (auto simp: split_TolerationKey dec_int_inj intro: toleration.equality split: option.splits)
qed simp

definition evict_after :: "int \<Rightarrow> toleration" where
  "evict_after s = \<lparr>tl_key = ''gpu'', tl_operator = ''Exists'', tl_value = '''', tl_effect = ''NoExecute'',
     tl_seconds = Some s\<rparr>"

theorem TolerationKey_injective_witness:
  "colon_free (evict_after 30) \<and> colon_free (evict_after 300) \<and>
     TolerationKey (evict_after 30) \<noteq> TolerationKey (evict_after 300)"
proof -
  have c: "colon_free (evict_after 30)" "colon_free (evict_after 300)"
    by (simp_all add: colon_free_def evict_after_def)
  with TolerationKey_injective [OF c] show ?thesis by (simp add: evict_after_def)
qed

lemma parseProfile_exclusive:
  "parseProfile lib obj = Inr p \<Longrightarrow> rp_queue p \<noteq> '''' \<Longrightarrow> rp_node_selector p = [] \<and> rp_tolerations p = []"
  by (auto simp: parseProfile_def empty_profile_def Let_def split: sum.splits if_splits)

lemma parseIdentifiers_names:
  "parseIdentifiers lib raws = Inr ids \<Longrightarrow> \<forall>i \<in> set ids. ri_identifier i \<noteq> ''''"
  by (induction lib raws arbitrary: ids rule: parseIdentifiers.induct)
    (auto simp: Let_def split: if_splits sum.splits)

lemma ProfileRef_same_meta:
  "ProfileReferenceChanged (Some m) (Some m) b = False" if "m_str (om_annotations m) HardwareProfileAnnotationName \<noteq> ''''"
  using that by (simp add: ProfileReferenceChanged_def ProfileRef_def Let_def)

end
