(* ===== verification/HWP_Injector.thy ===== *)
theory HWP_Injector
  imports HWP_Resolver
begin

text \<open>
  Hardware profiles, second part (internal/webhook/serving/hardwareprofile/injector.go): merging a
  profile's resources and scheduling into a workload and taking the scheduling out again.
\<close>

section \<open>Resources\<close>

text \<open>The loop body both resource functions share: one identifier applied to one requirement.\<close>

definition applyIdentifier :: "resource_identifier \<Rightarrow> resource_reqs \<Rightarrow> resource_reqs" where
  "applyIdentifier i res =
     (let resName = ri_identifier i;
          requests = (case map_of (rr_requests res) resName of
              None \<Rightarrow> m_put resName (ri_default i) (rr_requests res)
            | Some _ \<Rightarrow> rr_requests res);
          limits = (case map_of (rr_limits res) resName of
              Some _ \<Rightarrow> rr_limits res
            | None \<Rightarrow> (case map_of requests resName of
                None \<Rightarrow> rr_limits res
              | Some reqVal \<Rightarrow> m_put resName reqVal (rr_limits res)))
      in res\<lparr>rr_requests := requests, rr_limits := limits\<rparr>)"

text \<open>
  \<open>ApplyToIsvcResources\<close> changes \<open>predictor.Model.Resources\<close> only; its argument here is that
  field, None when the predictor has no model.
\<close>

definition ApplyToIsvcResources ::
  "resolved_profile \<Rightarrow> resource_reqs option \<Rightarrow> resource_reqs option" where
  "ApplyToIsvcResources profile model =
     (if rp_identifiers profile = [] then model
      else (case model of
          None \<Rightarrow> None
        | Some res \<Rightarrow> Some (fold applyIdentifier (rp_identifiers profile) res)))"

text \<open>The index of the first container named "main".\<close>

fun mainContainerIndex :: "container list \<Rightarrow> nat option" where
  "mainContainerIndex [] = None"
| "mainContainerIndex (c # cs) =
     (if ct_name c = LLMIsvcMainContainerName then Some 0 else map_option Suc (mainContainerIndex cs))"

definition ApplyToLLMIsvcResources :: "resolved_profile \<Rightarrow> container list \<Rightarrow> container list" where
  "ApplyToLLMIsvcResources profile containers =
     (if rp_identifiers profile = [] then containers
      else (let cs = (if containers = []
                      then [\<lparr>ct_name = LLMIsvcMainContainerName, ct_resources = empty_resources\<rparr>]
                      else containers)
            in case mainContainerIndex cs of
                 None \<Rightarrow> cs
               | Some i \<Rightarrow> cs[i := (cs ! i)\<lparr>ct_resources :=
                   fold applyIdentifier (rp_identifiers profile) (ct_resources (cs ! i))\<rparr>]))"

section \<open>Node scheduling\<close>

definition selectorWarnings :: "resolved_profile \<Rightarrow> string gomap \<Rightarrow> string \<Rightarrow> (string \<times> string \<times> string \<times> string) list" where
  "selectorWarnings profile nodeSelector hwpName =
     concat (map (\<lambda>(k, v). case map_of nodeSelector k of
         Some existing \<Rightarrow> if existing \<noteq> v then [(k, existing, hwpName, v)] else []
       | None \<Rightarrow> []) (rp_node_selector profile))"

definition MergeNodeScheduling ::
  "resolved_profile \<Rightarrow> string gomap \<Rightarrow> toleration list \<Rightarrow> string
     \<Rightarrow> string gomap \<times> toleration list \<times> (string \<times> string \<times> string \<times> string) list" where
  "MergeNodeScheduling profile nodeSelector tolerations hwpName =
     (let merged = m_putall (rp_node_selector profile) (m_putall nodeSelector []);
          hwpTolKeys = map TolerationKey (rp_tolerations profile);
          mergedTols = rp_tolerations profile @
            filter (\<lambda>t. TolerationKey t \<notin> set hwpTolKeys) tolerations
      in (merged, mergedTols, selectorWarnings profile nodeSelector hwpName))"

definition SetNodeScheduling ::
  "resolved_profile \<Rightarrow> string gomap \<Rightarrow> toleration list \<Rightarrow> string gomap \<times> toleration list" where
  "SetNodeScheduling profile nodeSelector tolerations =
     (m_putall (rp_node_selector profile) [], rp_tolerations profile)"

definition ApplyKueueLabel ::
  "resolved_profile \<Rightarrow> object_meta \<Rightarrow> bool \<Rightarrow> string \<Rightarrow> object_meta \<times> (string \<times> string \<times> string) list" where
  "ApplyKueueLabel profile meta profileChanged hwpName =
     (if rp_queue profile = '''' then (meta, [])
      else (let existing = m_str (om_labels meta) KueueQueueNameLabel;
                warnings = (if \<not> profileChanged \<and> existing \<noteq> '''' \<and> existing \<noteq> rp_queue profile
                            then [(existing, hwpName, rp_queue profile)] else [])
            in (meta\<lparr>om_labels := m_put KueueQueueNameLabel (rp_queue profile) (om_labels meta)\<rparr>, warnings)))"

definition RemoveNodeScheduling ::
  "resolved_profile \<Rightarrow> string gomap \<Rightarrow> toleration list \<Rightarrow> string gomap \<times> toleration list" where
  "RemoveNodeScheduling profile nodeSelector tolerations =
     (let newNS = (if nodeSelector = [] then []
                   else fold (\<lambda>(k, v) ns. if map_of ns k = Some v then m_del k ns else ns)
                          (rp_node_selector profile) (m_putall nodeSelector []));
          newTols = (if tolerations \<noteq> [] \<and> rp_tolerations profile \<noteq> []
                     then filter (\<lambda>t. TolerationKey t \<notin> set (map TolerationKey (rp_tolerations profile))) tolerations
                     else tolerations)
      in (newNS, newTols))"

definition RemoveKueueLabel :: "object_meta \<Rightarrow> object_meta" where
  "RemoveKueueLabel meta = meta\<lparr>om_labels := m_del KueueQueueNameLabel (om_labels meta)\<rparr>"

section \<open>Lemmas: resources\<close>

lemma applyIdentifier_request:
  "map_of (rr_requests (applyIdentifier i res)) k =
     (case map_of (rr_requests res) k of
        Some v \<Rightarrow> Some v
      | None \<Rightarrow> if k = ri_identifier i then Some (ri_default i) else None)"
  by (auto simp: applyIdentifier_def Let_def split: option.splits)

lemma applyIdentifier_limit:
  "map_of (rr_limits (applyIdentifier i res)) k =
     (case map_of (rr_limits res) k of
        Some v \<Rightarrow> Some v
      | None \<Rightarrow> if k = ri_identifier i then map_of (rr_requests (applyIdentifier i res)) k else None)"
  by (auto simp: applyIdentifier_def Let_def split: option.splits)

lemma applyIdentifier_claims [simp]: "rr_claims (applyIdentifier i res) = rr_claims res"
  by (simp add: applyIdentifier_def Let_def)

lemma fold_applyIdentifier_claims [simp]: "rr_claims (fold applyIdentifier ids res) = rr_claims res"
  by (induction ids arbitrary: res) simp_all

definition first_default :: "resource_identifier list \<Rightarrow> string \<Rightarrow> quantity option" where
  "first_default ids k = map_of (map (\<lambda>i. (ri_identifier i, ri_default i)) ids) k"

lemma first_default_simps [simp]:
  "first_default [] k = None"
  "first_default (i # ids) k = (if k = ri_identifier i then Some (ri_default i) else first_default ids k)"
  by (auto simp: first_default_def)

lemma fold_applyIdentifier_request:
  "map_of (rr_requests (fold applyIdentifier ids res)) k =
     (case map_of (rr_requests res) k of Some v \<Rightarrow> Some v | None \<Rightarrow> first_default ids k)"
  by (induction ids arbitrary: res) (auto simp: applyIdentifier_request split: option.splits)

lemma fold_applyIdentifier_limit:
  "map_of (rr_limits (fold applyIdentifier ids res)) k =
     (case map_of (rr_limits res) k of
        Some v \<Rightarrow> Some v
      | None \<Rightarrow> if first_default ids k = None then None
               else map_of (rr_requests (fold applyIdentifier ids res)) k)"
proof (induction ids arbitrary: res)
  case (Cons i ids)
  show ?case
    by (auto simp: Cons.IH applyIdentifier_limit applyIdentifier_request
        fold_applyIdentifier_request split: option.splits)
qed (simp split: option.splits)

section \<open>Lemmas: scheduling\<close>

lemma map_of_copy [simp]: "wf_map m \<Longrightarrow> map_of (m_putall m []) = map_of m"
  by (rule ext) (simp add: map_of_putall split: option.splits)

lemma merge_selector:
  assumes "wf_map ns" and "wf_map (rp_node_selector p)"
  shows "map_of (fst (MergeNodeScheduling p ns tols n)) k =
     (case map_of (rp_node_selector p) k of Some v \<Rightarrow> Some v | None \<Rightarrow> map_of ns k)"
  using assms by (auto simp: MergeNodeScheduling_def Let_def map_of_putall split: option.splits)

lemma merge_wf: "wf_map (fst (MergeNodeScheduling p ns tols n))"
  by (simp add: MergeNodeScheduling_def Let_def)

lemma merge_tolerations:
  "fst (snd (MergeNodeScheduling p ns tols n)) =
     rp_tolerations p @ filter (\<lambda>t. TolerationKey t \<notin> TolerationKey ` set (rp_tolerations p)) tols"
  by (simp add: MergeNodeScheduling_def Let_def)

lemma remove_selector_fold:
  "wf_map prof \<Longrightarrow>
     map_of (fold (\<lambda>(k, v) ns. if map_of ns k = Some v then m_del k ns else ns) prof ns) k =
     (if map_of prof k \<noteq> None \<and> map_of prof k = map_of ns k then None else map_of ns k)"
proof (induction prof arbitrary: ns)
  case (Cons p prof)
  obtain a v where p: "p = (a, v)" by (cases p)
  from Cons.prems p have wf: "wf_map prof" and a: "map_of prof a = None"
    by (auto simp: wf_map_def map_of_eq_None_iff)
  show ?case by (auto simp: p a Cons.IH [OF wf])
qed simp

lemma remove_selector:
  assumes "wf_map ns" and "wf_map (rp_node_selector p)"
  shows "map_of (fst (RemoveNodeScheduling p ns tols)) k =
     (if map_of (rp_node_selector p) k \<noteq> None \<and> map_of (rp_node_selector p) k = map_of ns k
      then None else map_of ns k)"
  using assms by (simp add: RemoveNodeScheduling_def Let_def remove_selector_fold)

lemma remove_tolerations:
  "snd (RemoveNodeScheduling p ns tols) =
     filter (\<lambda>t. TolerationKey t \<notin> TolerationKey ` set (rp_tolerations p)) tols"
  by (auto simp: RemoveNodeScheduling_def Let_def)

section \<open>Properties\<close>

text \<open>
  Applying a profile's identifiers to a predictor's resources never changes a
  request or a limit that is already there, gives every identifier of the profile a request
  and a limit, and touches no other resource: a missing request becomes the first default count
  listed for it, a missing limit becomes the value of the request.
\<close>

theorem ApplyToIsvcResources_spec:
  assumes "ApplyToIsvcResources p (Some res) = Some res'"
  shows "(\<forall>k. map_of (rr_requests res') k =
            (case map_of (rr_requests res) k of Some v \<Rightarrow> Some v | None \<Rightarrow> first_default (rp_identifiers p) k))
       \<and> (\<forall>k. map_of (rr_limits res') k =
            (case map_of (rr_limits res) k of Some v \<Rightarrow> Some v
             | None \<Rightarrow> if first_default (rp_identifiers p) k = None then None
                      else map_of (rr_requests res') k))
       \<and> rr_claims res' = rr_claims res"
  using assms
  by (auto simp: ApplyToIsvcResources_def fold_applyIdentifier_request fold_applyIdentifier_limit
      split: if_splits option.splits)

definition gpu_profile :: resolved_profile where
  "gpu_profile = empty_profile\<lparr>
     rp_identifiers := [\<lparr>ri_identifier = ''cpu'', ri_default = NewQuantity 4\<rparr>,
                        \<lparr>ri_identifier = ''nvidia.com/gpu'', ri_default = NewQuantity 1\<rparr>],
     rp_node_selector := [(''zone'', ''a'')],
     rp_tolerations := [\<lparr>tl_key = ''gpu'', tl_operator = ''Exists'', tl_value = '''',
                         tl_effect = ''NoSchedule'', tl_seconds = None\<rparr>]\<rparr>"

definition limited_cpu :: resource_reqs where
  "limited_cpu = empty_resources\<lparr>rr_limits := [(''cpu'', NewQuantity 1)]\<rparr>"

theorem ApplyToIsvcResources_spec_witness:
  "map_of (rr_requests (the (ApplyToIsvcResources gpu_profile (Some limited_cpu)))) ''nvidia.com/gpu''
     = Some (NewQuantity 1)"
proof -
  obtain res' where r: "ApplyToIsvcResources gpu_profile (Some limited_cpu) = Some res'"
    by (simp add: ApplyToIsvcResources_def gpu_profile_def)
  from ApplyToIsvcResources_spec [OF r]
  have "map_of (rr_requests res') ''nvidia.com/gpu'' = Some (NewQuantity 1)"
    by (simp add: gpu_profile_def limited_cpu_def empty_resources_def)
  with r show ?thesis by simp
qed

text \<open>
  The doc comment promises the default count "only when the resource name is absent
  from both maps". The code checks the two maps separately: with a CPU limit of one and no
  request, the profile's default of four becomes the request, above the limit, and Kubernetes
  refuses the pod.
\<close>

theorem ApplyToIsvcResources_request_above_limit:
  "\<exists>res'. ApplyToIsvcResources gpu_profile (Some limited_cpu) = Some res' \<and>
     map_of (rr_requests res') ''cpu'' = Some (NewQuantity 4) \<and>
     map_of (rr_limits res') ''cpu'' = Some (NewQuantity 1)"
  by (simp add: ApplyToIsvcResources_def gpu_profile_def limited_cpu_def empty_resources_def
      applyIdentifier_def)

text \<open>
  Merging a profile's scheduling and later removing it is a round trip: when the
  workload's own selector has none of the profile's keys and none of its tolerations has the key of
  a profile toleration, the workload has its own selector entries and its own tolerations, in their
  order, again.
\<close>

theorem merge_then_remove:
  assumes wf: "wf_map ns" "wf_map (rp_node_selector p)"
    and ns: "\<And>k. map_of (rp_node_selector p) k \<noteq> None \<Longrightarrow> map_of ns k = None"
    and tols: "\<And>t. t \<in> set tols \<Longrightarrow> TolerationKey t \<notin> TolerationKey ` set (rp_tolerations p)"
    and m: "MergeNodeScheduling p ns tols n = (ns1, tols1, ws)"
    and r: "RemoveNodeScheduling p ns1 tols1 = (ns2, tols2)"
  shows "map_of ns2 = map_of ns \<and> tols2 = tols"
proof -
  have wf1: "wf_map ns1" using merge_wf [of p ns tols n] by (simp add: m)
  have sel1: "map_of ns1 k = (case map_of (rp_node_selector p) k of Some v \<Rightarrow> Some v | None \<Rightarrow> map_of ns k)" for k
    using merge_selector [OF wf, of tols n k] by (simp add: m)
  have sel2: "map_of ns2 k = (if map_of (rp_node_selector p) k \<noteq> None \<and>
      map_of (rp_node_selector p) k = map_of ns1 k then None else map_of ns1 k)" for k
    using remove_selector [OF wf1 wf(2), of tols1 k] by (simp add: r)
  have "map_of ns2 k = map_of ns k" for k
    using ns [of k] by (auto simp: sel2 sel1 split: option.splits)
  then have sel: "map_of ns2 = map_of ns" by (rule ext)
  have "tols1 = rp_tolerations p @ tols"
    using merge_tolerations [of p ns tols n] tols by (simp add: m filter_id_conv)
  moreover have t2: "tols2 = filter (\<lambda>t. TolerationKey t \<notin> TolerationKey ` set (rp_tolerations p)) tols1"
    using remove_tolerations [of p ns1 tols1] by (simp add: r)
  ultimately have "tols2 = tols" using tols by (simp add: filter_id_conv)
  with sel show ?thesis by blast
qed

theorem merge_then_remove_witness:
  "map_of (fst (RemoveNodeScheduling gpu_profile
      (fst (MergeNodeScheduling gpu_profile [(''disk'', ''ssd'')] [] ''p''))
      (fst (snd (MergeNodeScheduling gpu_profile [(''disk'', ''ssd'')] [] ''p''))))) ''disk'' = Some ''ssd''"
proof -
  let ?ns = "[(''disk'', ''ssd'')]"
  obtain ns1 tols1 ws where m: "MergeNodeScheduling gpu_profile ?ns [] ''p'' = (ns1, tols1, ws)"
    by (cases "MergeNodeScheduling gpu_profile ?ns [] ''p''")
  obtain ns2 tols2 where r: "RemoveNodeScheduling gpu_profile ns1 tols1 = (ns2, tols2)"
    by (cases "RemoveNodeScheduling gpu_profile ns1 tols1")
  have "map_of ns2 = map_of ?ns \<and> tols2 = []"
    by (rule merge_then_remove [OF _ _ _ _ m r]) (auto simp: wf_map_def gpu_profile_def split: if_splits)
  then show ?thesis by (simp add: m r)
qed

text \<open>
  Merging is idempotent: admitting the merged workload again gives the same
  selector and the same tolerations in the same order, so a reinvoked webhook does not pile up
  tolerations.
\<close>

theorem merge_idempotent:
  assumes wf: "wf_map ns" "wf_map (rp_node_selector p)"
    and m1: "MergeNodeScheduling p ns tols n = (ns1, tols1, ws1)"
    and m2: "MergeNodeScheduling p ns1 tols1 n = (ns2, tols2, ws2)"
  shows "map_of ns2 = map_of ns1 \<and> tols2 = tols1 \<and> ws2 = []"
proof -
  have wf1: "wf_map ns1" using merge_wf [of p ns tols n] by (simp add: m1)
  have sel1: "map_of ns1 k = (case map_of (rp_node_selector p) k of Some v \<Rightarrow> Some v | None \<Rightarrow> map_of ns k)" for k
    using merge_selector [OF wf, of tols n k] by (simp add: m1)
  have sel2: "map_of ns2 k = (case map_of (rp_node_selector p) k of Some v \<Rightarrow> Some v | None \<Rightarrow> map_of ns1 k)" for k
    using merge_selector [OF wf1 wf(2), of tols1 n k] by (simp add: m2)
  have "map_of ns2 = map_of ns1"
    by (rule ext) (simp add: sel1 sel2 split: option.splits)
  moreover have t2: "tols2 = rp_tolerations p @
      filter (\<lambda>t. TolerationKey t \<notin> TolerationKey ` set (rp_tolerations p)) tols1"
    using merge_tolerations [of p ns1 tols1 n] by (simp add: m2)
  have t1: "tols1 = rp_tolerations p @
      filter (\<lambda>t. TolerationKey t \<notin> TolerationKey ` set (rp_tolerations p)) tols"
    using merge_tolerations [of p ns tols n] by (simp add: m1)
  have "tols2 = tols1" unfolding t2 unfolding t1 by simp
  moreover have "map_of ns1 k = Some v" if "(k, v) \<in> set (rp_node_selector p)" for k v
    using that wf(2) by (simp add: sel1 wf_map_def)
  then have "selectorWarnings p ns1 n = []"
    by (auto simp: selectorWarnings_def)
  with m2 have "ws2 = []" by (simp add: MergeNodeScheduling_def Let_def)
  ultimately show ?thesis using \<open>tols2 = tols1\<close> by blast
qed

theorem merge_idempotent_witness:
  "fst (snd (MergeNodeScheduling gpu_profile
     (fst (MergeNodeScheduling gpu_profile [(''zone'', ''b'')] [] ''p''))
     (fst (snd (MergeNodeScheduling gpu_profile [(''zone'', ''b'')] [] ''p''))) ''p'')) = rp_tolerations gpu_profile"
proof -
  let ?ns = "[(''zone'', ''b'')]"
  obtain ns1 tols1 ws1 where m1: "MergeNodeScheduling gpu_profile ?ns [] ''p'' = (ns1, tols1, ws1)"
    by (cases "MergeNodeScheduling gpu_profile ?ns [] ''p''")
  obtain ns2 tols2 ws2 where m2: "MergeNodeScheduling gpu_profile ns1 tols1 ''p'' = (ns2, tols2, ws2)"
    by (cases "MergeNodeScheduling gpu_profile ns1 tols1 ''p''")
  have "map_of ns2 = map_of ns1 \<and> tols2 = tols1 \<and> ws2 = []"
    by (rule merge_idempotent [OF _ _ m1 m2]) (auto simp: wf_map_def gpu_profile_def)
  moreover have "tols1 = rp_tolerations gpu_profile"
    using m1 by (auto simp: MergeNodeScheduling_def Let_def)
  ultimately have "tols2 = rp_tolerations gpu_profile" by simp
  then show ?thesis by (simp only: m1 m2 fst_conv snd_conv)
qed

end
