(* ===== verification/HWP_DRA.thy ===== *)
theory HWP_DRA
  imports HWP_Resolver Reserved_Entry
begin

text \<open>
  Hardware profiles, third part (internal/webhook/serving/hardwareprofile/dra.go): the reserved
  resource claim through which a profile binds a workload to a ResourceClaimTemplate. The claim has
  a fixed name, once in the pod-level list and once in the target container's list.
\<close>

section \<open>Claims\<close>

definition DRAClaimName :: string where "DRAClaimName = ''hwp-dra''"

datatype dra_error =
    TemplateNotFound string string
  | TemplateReadFailed api_error
  | ClaimNameTaken
  | TargetContainerMissing
  | ClaimOnNonTarget string
  | ClaimOnInit string
  | ClaimOnEphemeral string

text \<open>The read of the template returns only whether it succeeded: None, or the error.\<close>

definition ValidateResourceClaimTemplate ::
  "(string \<Rightarrow> string \<Rightarrow> api_error option) \<Rightarrow> string \<Rightarrow> string \<Rightarrow> dra_error option" where
  "ValidateResourceClaimTemplate get name namespace =
     (case get namespace name of
        Some NotFound \<Rightarrow> Some (TemplateNotFound name namespace)
      | Some e \<Rightarrow> Some (TemplateReadFailed e)
      | None \<Rightarrow> None)"

definition hasPodClaim :: "pod_claim list \<Rightarrow> bool" where
  "hasPodClaim claims = list_ex (\<lambda>c. pc_name c = DRAClaimName) claims"

fun hasPodClaimForLoop :: "pod_claim list \<Rightarrow> string \<Rightarrow> bool \<Rightarrow> bool" where
  "hasPodClaimForLoop [] template found = found"
| "hasPodClaimForLoop (c # cs) template found =
     (if pc_name c = DRAClaimName
      then if pc_template c = None \<or> pc_template c \<noteq> Some template then False
           else hasPodClaimForLoop cs template True
      else hasPodClaimForLoop cs template found)"

definition hasPodClaimFor :: "pod_claim list \<Rightarrow> string \<Rightarrow> bool" where
  "hasPodClaimFor claims template = hasPodClaimForLoop claims template False"

definition hasContainerClaim :: "container_claim list \<Rightarrow> bool" where
  "hasContainerClaim claims = list_ex (\<lambda>c. cc_name c = DRAClaimName) claims"

definition removePodClaim :: "pod_claim list \<Rightarrow> pod_claim list" where
  "removePodClaim claims = filter (\<lambda>c. pc_name c \<noteq> DRAClaimName) claims"

definition removeContainerClaim :: "container_claim list \<Rightarrow> container_claim list" where
  "removeContainerClaim claims = filter (\<lambda>c. cc_name c \<noteq> DRAClaimName) claims"

text \<open>
  \<open>setPodClaim\<close> and \<open>setContainerClaim\<close> run the same loop with the flag \<open>found\<close>: the
  first reserved claim is replaced in place, later ones are dropped, and the claim is appended when
  there was none.
\<close>

fun setLoop :: "('c \<Rightarrow> bool) \<Rightarrow> 'c \<Rightarrow> bool \<Rightarrow> 'c list \<Rightarrow> 'c list" where
  "setLoop reserved want found [] = (if found then [] else [want])"
| "setLoop reserved want found (c # cs) =
     (if \<not> reserved c then c # setLoop reserved want found cs
      else if \<not> found then want # setLoop reserved want True cs
      else setLoop reserved want found cs)"

definition setPodClaim :: "pod_claim list \<Rightarrow> string \<Rightarrow> pod_claim list" where
  "setPodClaim claims template =
     setLoop (\<lambda>c. pc_name c = DRAClaimName)
       \<lparr>pc_name = DRAClaimName, pc_claim = None, pc_template = Some template\<rparr> False claims"

definition setContainerClaim :: "container_claim list \<Rightarrow> container_claim list" where
  "setContainerClaim claims =
     setLoop (\<lambda>c. cc_name c = DRAClaimName) \<lparr>cc_name = DRAClaimName, cc_request = ''''\<rparr> False claims"

section \<open>Reconciling\<close>

definition ReconcileDRAClaims ::
  "pod_claim list \<Rightarrow> resource_reqs option \<Rightarrow> bool \<Rightarrow> string \<Rightarrow> bool
     \<Rightarrow> dra_error + pod_claim list \<times> resource_reqs option" where
  "ReconcileDRAClaims podClaims resources oldProfileSelected selectedTemplate referenceChanged =
     (if \<not> referenceChanged then Inr (podClaims, resources)
      else (let claimPresent = (hasPodClaim podClaims \<or>
                  (case resources of None \<Rightarrow> False | Some r \<Rightarrow> hasContainerClaim (rr_claims r)))
            in if \<not> oldProfileSelected \<and> selectedTemplate \<noteq> '''' \<and> claimPresent
                  \<and> \<not> hasPodClaimFor podClaims selectedTemplate
               then Inl ClaimNameTaken
               else (let podClaims' = (if oldProfileSelected then removePodClaim podClaims else podClaims);
                         resources' = (if oldProfileSelected
                           then map_option (\<lambda>r. r\<lparr>rr_claims := removeContainerClaim (rr_claims r)\<rparr>) resources
                           else resources)
                     in if selectedTemplate = '''' then Inr (podClaims', resources')
                        else (case resources' of
                            None \<Rightarrow> Inl TargetContainerMissing
                          | Some r \<Rightarrow> Inr (setPodClaim podClaims' selectedTemplate,
                              Some (r\<lparr>rr_claims := setContainerClaim (rr_claims r)\<rparr>))))))"

record pod_spec =
  ps_containers :: "container list"
  ps_init :: "container list"
  ps_ephemeral :: "container list"
  ps_claims :: "pod_claim list"
  ps_node_selector :: "string gomap"
  ps_tolerations :: "toleration list"
  ps_service_account :: string
  ps_pull_secrets :: "string list"

definition empty_pod_spec :: pod_spec where
  "empty_pod_spec = \<lparr>ps_containers = [], ps_init = [], ps_ephemeral = [], ps_claims = [],
     ps_node_selector = [], ps_tolerations = [], ps_service_account = '''', ps_pull_secrets = []\<rparr>"

abbreviation claims_of :: "container \<Rightarrow> container_claim list" where
  "claims_of c \<equiv> rr_claims (ct_resources c)"

definition HasDRAClaim :: "pod_spec option \<Rightarrow> bool" where
  "HasDRAClaim spec =
     (case spec of
        None \<Rightarrow> False
      | Some s \<Rightarrow> hasPodClaim (ps_claims s)
          \<or> list_ex (\<lambda>c. hasContainerClaim (claims_of c)) (ps_containers s)
          \<or> list_ex (\<lambda>c. hasContainerClaim (claims_of c)) (ps_init s)
          \<or> list_ex (\<lambda>c. hasContainerClaim (claims_of c)) (ps_ephemeral s))"

fun findNonTarget :: "nat \<Rightarrow> container list \<Rightarrow> nat option \<Rightarrow> string option" where
  "findNonTarget i [] target = None"
| "findNonTarget i (c # cs) target =
     (if Some i \<noteq> target \<and> hasContainerClaim (claims_of c) then Some (ct_name c)
      else findNonTarget (Suc i) cs target)"

text \<open>The target index -1 ("no regular container") is None.\<close>

definition ValidateDRAContainerClaims ::
  "container list \<Rightarrow> container list \<Rightarrow> container list \<Rightarrow> nat option \<Rightarrow> dra_error option" where
  "ValidateDRAContainerClaims containers initContainers ephemeralContainers targetIndex =
     (case findNonTarget 0 containers targetIndex of
        Some n \<Rightarrow> Some (ClaimOnNonTarget n)
      | None \<Rightarrow> (case findNonTarget 0 initContainers None of
          Some n \<Rightarrow> Some (ClaimOnInit n)
        | None \<Rightarrow> (case findNonTarget 0 ephemeralContainers None of
            Some n \<Rightarrow> Some (ClaimOnEphemeral n)
          | None \<Rightarrow> None)))"

definition dropClaim :: "container \<Rightarrow> container" where
  "dropClaim c = c\<lparr>ct_resources := (ct_resources c)\<lparr>rr_claims := removeContainerClaim (claims_of c)\<rparr>\<rparr>"

definition RemoveDRAContainerClaims ::
  "container list \<Rightarrow> container list \<Rightarrow> container list
     \<Rightarrow> container list \<times> container list \<times> container list" where
  "RemoveDRAContainerClaims containers initContainers ephemeralContainers =
     (map dropClaim containers, map dropClaim initContainers, map dropClaim ephemeralContainers)"

section \<open>Lemmas\<close>

lemmas claim_preds = hasPodClaim_def hasContainerClaim_def list_ex_iff

lemma filter_setLoop:
  "filter (\<lambda>c. \<not> reserved c) (setLoop reserved want found cs) = filter (\<lambda>c. \<not> reserved c) cs"
  if "reserved want"
  using that by (induction reserved want found cs rule: setLoop.induct) auto

lemma setLoop_found: "setLoop reserved want True cs = filter (\<lambda>c. \<not> reserved c) cs"
  by (induction cs) auto

lemma setLoop_reserved:
  "reserved want \<Longrightarrow> filter reserved (setLoop reserved want False cs) = [want]"
  by (induction cs) (auto simp: setLoop_found filter_empty_conv)

lemma setLoop_absent:
  "\<forall>c \<in> set cs. \<not> reserved c \<Longrightarrow> setLoop reserved want False cs = cs @ [want]"
  by (induction cs) auto

lemma setLoop_idem:
  "reserved want \<Longrightarrow> setLoop reserved want False (setLoop reserved want False cs) = setLoop reserved want False cs"
  by (induction cs) (auto simp: setLoop_found)

interpretation pod_claims: reserved_entry_frame hasPodClaim "\<lambda>l. setPodClaim l t" removePodClaim
  "filter (\<lambda>c. pc_name c \<noteq> DRAClaimName)" for t
proof (unfold_locales, goal_cases)
  case (1 l)
  have "filter (\<lambda>c. pc_name c = DRAClaimName) (setPodClaim l t) \<noteq> []"
    by (simp add: setPodClaim_def setLoop_reserved)
  then show ?case by (auto simp: claim_preds filter_empty_conv)
qed (auto simp: setPodClaim_def removePodClaim_def setLoop_idem setLoop_absent filter_setLoop
    claim_preds filter_id_conv)

interpretation container_claims: reserved_entry_frame hasContainerClaim setContainerClaim
  removeContainerClaim "filter (\<lambda>c. cc_name c \<noteq> DRAClaimName)"
proof (unfold_locales, goal_cases)
  case (1 l)
  have "filter (\<lambda>c. cc_name c = DRAClaimName) (setContainerClaim l) \<noteq> []"
    by (simp add: setContainerClaim_def setLoop_reserved)
  then show ?case by (auto simp: claim_preds filter_empty_conv)
qed (auto simp: setContainerClaim_def removeContainerClaim_def setLoop_idem setLoop_absent
    filter_setLoop claim_preds filter_id_conv)

lemma hasPodClaimForLoop_True:
  "hasPodClaimForLoop cs t True \<longleftrightarrow> (\<forall>c \<in> set cs. pc_name c = DRAClaimName \<longrightarrow> pc_template c = Some t)"
  by (induction cs t True rule: hasPodClaimForLoop.induct) auto

lemma hasPodClaimFor_iff:
  "hasPodClaimFor cs t \<longleftrightarrow> hasPodClaim cs \<and>
     (\<forall>c \<in> set cs. pc_name c = DRAClaimName \<longrightarrow> pc_template c = Some t)"
  unfolding hasPodClaimFor_def
  by (induction cs t False rule: hasPodClaimForLoop.induct) (auto simp: hasPodClaimForLoop_True claim_preds)

lemma setPodClaim_reserved:
  "filter (\<lambda>c. pc_name c = DRAClaimName) (setPodClaim cs t) =
     [\<lparr>pc_name = DRAClaimName, pc_claim = None, pc_template = Some t\<rparr>]"
  by (simp add: setPodClaim_def setLoop_reserved)

lemma setContainerClaim_reserved:
  "filter (\<lambda>c. cc_name c = DRAClaimName) (setContainerClaim cs) = [\<lparr>cc_name = DRAClaimName, cc_request = ''''\<rparr>]"
  by (simp add: setContainerClaim_def setLoop_reserved)

lemma hasPodClaimFor_set: "hasPodClaimFor (setPodClaim cs t) t"
proof -
  have "c = \<lparr>pc_name = DRAClaimName, pc_claim = None, pc_template = Some t\<rparr>"
    if "c \<in> set (setPodClaim cs t)" "pc_name c = DRAClaimName" for c
  proof -
    from that have "c \<in> set (filter (\<lambda>c. pc_name c = DRAClaimName) (setPodClaim cs t))" by simp
    then show ?thesis unfolding setPodClaim_reserved by simp
  qed
  then show ?thesis by (fastforce simp: hasPodClaimFor_iff pod_claims.has_ins)
qed

lemma findNonTarget_None:
  "findNonTarget i cs target = None \<longleftrightarrow>
     (\<forall>j < length cs. Some (i + j) \<noteq> target \<longrightarrow> \<not> hasContainerClaim (claims_of (cs ! j)))"
proof (induction cs arbitrary: i)
  case (Cons c cs)
  show ?case
    by (auto simp: Cons.IH All_less_Suc2)
qed simp

lemma dropClaim_no_claim [simp]: "\<not> hasContainerClaim (claims_of (dropClaim c))"
  by (simp add: dropClaim_def container_claims.not_has_del)

lemma ReconcileDRAClaims_stable:
  assumes "ReconcileDRAClaims pcs res old t changed = Inr (pcs', res')"
  shows "ReconcileDRAClaims pcs' res' old t changed = Inr (pcs', res')"
proof (cases "changed \<and> t \<noteq> ''''")
  case True
  then obtain r where r: "res = Some r"
    using assms by (auto simp: ReconcileDRAClaims_def Let_def split: if_splits option.splits)
  let ?pcs = "if old then removePodClaim pcs else pcs"
  let ?cl = "if old then removeContainerClaim (rr_claims r) else rr_claims r"
  from assms True r have eq: "pcs' = setPodClaim ?pcs t" "res' = Some (r\<lparr>rr_claims := setContainerClaim ?cl\<rparr>)"
    by (auto simp: ReconcileDRAClaims_def Let_def split: if_splits)
  show ?thesis
    using True hasPodClaimFor_set [of ?pcs t]
    by (auto simp: ReconcileDRAClaims_def Let_def eq pod_claims.ins_ins container_claims.ins_ins
        pod_claims.del_ins_del container_claims.del_ins_del)
next
  case False
  with assms show ?thesis
    by (auto simp: ReconcileDRAClaims_def Let_def pod_claims.del_del container_claims.del_del
        option.map_comp comp_def split: if_splits)
qed

lemma ReconcileDRAClaims_shape:
  "ReconcileDRAClaims pcs res old t ch = Inr (pcs', res') \<Longrightarrow> res' = None \<longleftrightarrow> res = None"
  by (auto simp: ReconcileDRAClaims_def split: if_splits option.splits)

lemma claims_update_id: "r\<lparr>rr_claims := c\<rparr> = r \<longleftrightarrow> c = rr_claims r"
  by (cases r) auto

lemma ReconcileDRAClaims_fixed_cong:
  assumes "ReconcileDRAClaims pcs res old t changed = Inr (pcs, res)"
    and "map_option rr_claims res2 = map_option rr_claims res"
  shows "ReconcileDRAClaims pcs res2 old t changed = Inr (pcs, res2)"
  using assms by (cases res; cases res2)
    (auto simp: ReconcileDRAClaims_def claims_update_id split: if_splits)

section \<open>Properties\<close>

text \<open>
  A reconciliation that binds a template leaves exactly one reserved claim in the pod,
  for that template, and exactly one in the target container; every other claim and the
  container's requests and limits are as they were.
\<close>

theorem ReconcileDRAClaims_binds:
  assumes "ReconcileDRAClaims pcs (Some r) old t True = Inr (pcs', r')" and "t \<noteq> ''''"
  shows "filter (\<lambda>c. pc_name c = DRAClaimName) pcs' =
           [\<lparr>pc_name = DRAClaimName, pc_claim = None, pc_template = Some t\<rparr>]
       \<and> filter (\<lambda>c. pc_name c \<noteq> DRAClaimName) pcs' = filter (\<lambda>c. pc_name c \<noteq> DRAClaimName) pcs
       \<and> (\<exists>claims. r' = Some (r\<lparr>rr_claims := claims\<rparr>)
            \<and> filter (\<lambda>c. cc_name c = DRAClaimName) claims = [\<lparr>cc_name = DRAClaimName, cc_request = ''''\<rparr>]
            \<and> filter (\<lambda>c. cc_name c \<noteq> DRAClaimName) claims =
                filter (\<lambda>c. cc_name c \<noteq> DRAClaimName) (rr_claims r))"
proof -
  let ?pcs = "if old then removePodClaim pcs else pcs"
  let ?cl = "if old then removeContainerClaim (rr_claims r) else rr_claims r"
  from assms have eq: "pcs' = setPodClaim ?pcs t" "r' = Some (r\<lparr>rr_claims := setContainerClaim ?cl\<rparr>)"
    by (auto simp: ReconcileDRAClaims_def Let_def split: if_splits)
  show ?thesis
    by (auto simp: eq setPodClaim_reserved setContainerClaim_reserved pod_claims.others_ins
        pod_claims.others_del container_claims.others_ins container_claims.others_del)
qed

definition cpu_claimed :: resource_reqs where
  "cpu_claimed = empty_resources\<lparr>rr_requests := [(''cpu'', 1)],
     rr_claims := [\<lparr>cc_name = ''nic'', cc_request = ''''\<rparr>]\<rparr>"

theorem ReconcileDRAClaims_binds_witness:
  "filter (\<lambda>c. pc_name c = DRAClaimName)
     (fst (projr (ReconcileDRAClaims [] (Some cpu_claimed) False ''tpl'' True)))
   = [\<lparr>pc_name = DRAClaimName, pc_claim = None, pc_template = Some ''tpl''\<rparr>]"
proof -
  obtain pcs' r' where r: "ReconcileDRAClaims [] (Some cpu_claimed) False ''tpl'' True = Inr (pcs', r')"
    by (simp add: ReconcileDRAClaims_def cpu_claimed_def empty_resources_def claim_preds DRAClaimName_def)
  from ReconcileDRAClaims_binds [OF r] show ?thesis by (simp add: r)
qed

text \<open>
  Reconciliation is idempotent, as the admission guidelines the comments cite
  require: running it again with the same arguments on its own result changes nothing and does
  not fail, although the reserved claim is now present.
\<close>

theorem ReconcileDRAClaims_idempotent:
  assumes "ReconcileDRAClaims pcs res old t changed = Inr (pcs', res')"
  shows "ReconcileDRAClaims pcs' res' old t changed = Inr (pcs', res')"
  using assms by (rule ReconcileDRAClaims_stable)

theorem ReconcileDRAClaims_idempotent_witness:
  "ReconcileDRAClaims
     [\<lparr>pc_name = ''a'', pc_claim = None, pc_template = None\<rparr>,
      \<lparr>pc_name = DRAClaimName, pc_claim = None, pc_template = Some ''tpl''\<rparr>]
     (Some (empty_resources\<lparr>rr_claims := [\<lparr>cc_name = DRAClaimName, cc_request = ''''\<rparr>]\<rparr>)) False ''tpl'' True
   = Inr ([\<lparr>pc_name = ''a'', pc_claim = None, pc_template = None\<rparr>,
      \<lparr>pc_name = DRAClaimName, pc_claim = None, pc_template = Some ''tpl''\<rparr>],
     Some (empty_resources\<lparr>rr_claims := [\<lparr>cc_name = DRAClaimName, cc_request = ''''\<rparr>]\<rparr>))"
  by (rule ReconcileDRAClaims_idempotent
      [of "[\<lparr>pc_name = ''a'', pc_claim = None, pc_template = None\<rparr>]" "Some empty_resources"])
    (simp add: ReconcileDRAClaims_def Let_def claim_preds setPodClaim_def setContainerClaim_def
      empty_resources_def DRAClaimName_def)

end
