(* ===== verification/HWP_Stage.thy ===== *)
theory HWP_Stage
  imports Connection_API HWP_Injector HWP_DRA
begin

text \<open>
  What the two inference webhooks share in applying hardware profiles: the record of API answers
  they work with, the stamping of the profile's namespace, and the lemmas that each piece of the
  hardware-profile step is stable on its own result.
\<close>

section \<open>Definitions\<close>

record webhook_env =
  env_secret :: "string \<Rightarrow> string \<Rightarrow> api_error + secret"
  env_create_sa :: "service_account \<Rightarrow> api_error option"
  env_lib :: unstructured_lib
  env_profile :: "string \<Rightarrow> string \<Rightarrow> api_error + json"         \<comment> \<open>uncached reader\<close>
  env_profile_cached :: "string \<Rightarrow> string \<Rightarrow> api_error + json"  \<comment> \<open>client of the manager\<close>
  env_template :: "string \<Rightarrow> string \<Rightarrow> api_error option"

definition stampNamespace :: "string \<Rightarrow> object_meta \<Rightarrow> object_meta" where
  "stampNamespace profileNamespace m =
     (if m_str (om_annotations m) HardwareProfileAnnotationNamespace = ''''
      then m\<lparr>om_annotations := m_put HardwareProfileAnnotationNamespace profileNamespace (om_annotations m)\<rparr>
      else m)"

section \<open>Lemmas: the parts are stable\<close>

lemma applyIdentifier_present:
  "map_of (rr_requests res) (ri_identifier i) \<noteq> None \<Longrightarrow> map_of (rr_limits res) (ri_identifier i) \<noteq> None
     \<Longrightarrow> applyIdentifier i res = res"
  by (auto simp: applyIdentifier_def)

lemma fold_applyIdentifier_present:
  "(\<And>i. i \<in> set ids \<Longrightarrow> map_of (rr_requests res) (ri_identifier i) \<noteq> None \<and>
      map_of (rr_limits res) (ri_identifier i) \<noteq> None) \<Longrightarrow> fold applyIdentifier ids res = res"
  by (induction ids) (simp_all add: applyIdentifier_present)

lemma first_default_member: "i \<in> set ids \<Longrightarrow> first_default ids (ri_identifier i) \<noteq> None"
  by (induction ids) auto

lemma fold_applyIdentifier_stable [simp]:
  "fold applyIdentifier ids (fold applyIdentifier ids res) = fold applyIdentifier ids res"
  by (rule fold_applyIdentifier_present)
    (auto simp: fold_applyIdentifier_request fold_applyIdentifier_limit dest: first_default_member
      split: option.splits)

lemma ApplyToIsvcResources_stable:
  "ApplyToIsvcResources p (Some r) = Some r' \<Longrightarrow> ApplyToIsvcResources p (Some r') = Some r'"
  by (auto simp: ApplyToIsvcResources_def split: if_splits)

lemma ApplyToIsvcResources_claims:
  "ApplyToIsvcResources p (Some r) = Some r' \<Longrightarrow> rr_claims r' = rr_claims r"
  by (auto simp: ApplyToIsvcResources_def split: if_splits)

lemma MergeNodeScheduling_stable:
  assumes "MergeNodeScheduling p ns tols n = (ns1, tols1, w)"
  shows "\<exists>w'. MergeNodeScheduling p ns1 tols1 n = (ns1, tols1, w')"
proof -
  have ns1: "ns1 = m_putall (rp_node_selector p) (m_putall ns [])"
    and t1: "tols1 = rp_tolerations p @ filter (\<lambda>t. TolerationKey t \<notin> TolerationKey ` set (rp_tolerations p)) tols"
    using assms by (auto simp: MergeNodeScheduling_def)
  have "m_putall (rp_node_selector p) (m_putall ns1 []) = ns1"
    unfolding ns1 by (simp add: m_putall_present)
  moreover have "rp_tolerations p @ filter (\<lambda>t. TolerationKey t \<notin> TolerationKey ` set (rp_tolerations p)) tols1 = tols1"
    unfolding t1 by (simp add: filter_empty_conv)
  ultimately show ?thesis by (simp add: MergeNodeScheduling_def)
qed

definition drop_pair :: "string \<times> string \<Rightarrow> string gomap \<Rightarrow> string gomap" where
  "drop_pair = (\<lambda>(k, v) ns. if map_of ns k = Some v then m_del k ns else ns)"

lemma remove_fold_none:
  "(\<And>k v. (k, v) \<in> set prof \<Longrightarrow> map_of ns k \<noteq> Some v) \<Longrightarrow> fold drop_pair prof ns = ns"
proof (induction prof)
  case (Cons q prof)
  then have "drop_pair q ns = ns" by (cases q) (simp add: drop_pair_def)
  with Cons show ?case by simp
qed simp

lemma remove_fold_mono:
  "map_of (fold drop_pair prof ns) k = Some v \<Longrightarrow> map_of ns k = Some v"
proof (induction prof arbitrary: ns)
  case (Cons x xs)
  then have "map_of (drop_pair x ns) k = Some v" by simp
  then show ?case by (cases x) (simp add: drop_pair_def split: if_splits)
qed simp

lemma remove_fold_result: "(k, v) \<in> set prof \<Longrightarrow> map_of (fold drop_pair prof ns) k \<noteq> Some v"
proof (induction prof arbitrary: ns)
  case (Cons q prof)
  show ?case
  proof (cases "q = (k, v)")
    case True
    then have "map_of (drop_pair q ns) k \<noteq> Some v" by (simp add: drop_pair_def)
    with remove_fold_mono [of prof "drop_pair q ns" k v] show ?thesis by auto
  qed (use Cons in simp)
qed simp

lemma remove_fold_wf: "wf_map ns \<Longrightarrow> wf_map (fold drop_pair prof ns)"
proof (induction prof arbitrary: ns)
  case (Cons q prof)
  then have "wf_map (drop_pair q ns)" by (cases q) (simp add: drop_pair_def)
  with Cons show ?case by simp
qed simp

lemma RemoveNodeScheduling_stable:
  "RemoveNodeScheduling p ns tols = (ns1, tols1) \<Longrightarrow> RemoveNodeScheduling p ns1 tols1 = (ns1, tols1)"
  unfolding RemoveNodeScheduling_def drop_pair_def [symmetric]
  by (auto simp: remove_fold_wf remove_fold_none remove_fold_result)

lemma dropClaim_stable [simp]: "dropClaim (dropClaim c) = dropClaim c"
  by (simp add: dropClaim_def container_claims.del_del)

definition dropped :: "bool \<Rightarrow> container list \<Rightarrow> container list" where
  "dropped old cs = (if old then map dropClaim cs else cs)"

lemma dropped_stable [simp]: "dropped old (dropped old cs) = dropped old cs"
  by (simp add: dropped_def)

section \<open>Lemmas: scheduling and labels\<close>

lemma ApplyKueueLabel_stable:
  "fst (ApplyKueueLabel p (fst (ApplyKueueLabel p m ch n)) ch n) = fst (ApplyKueueLabel p m ch n)"
  by (simp add: ApplyKueueLabel_def m_put_idem)

definition profile_meta :: "resolved_profile \<Rightarrow> bool \<Rightarrow> string \<Rightarrow> object_meta \<Rightarrow> object_meta" where
  "profile_meta p ch n m =
     (let m1 = (if ch then RemoveKueueLabel m else m)
      in if rp_queue p \<noteq> '''' then fst (ApplyKueueLabel p m1 ch n) else m1)"

definition profile_sched :: "resolved_profile \<Rightarrow> bool \<Rightarrow> string \<Rightarrow> string gomap \<times> toleration list
     \<Rightarrow> string gomap \<times> toleration list" where
  "profile_sched p ch n s =
     (if rp_queue p \<noteq> '''' then (if ch then ([], []) else s)
      else if ch then (m_putall (rp_node_selector p) [], rp_tolerations p)
      else (let (a, b, _) = MergeNodeScheduling p (fst s) (snd s) n in (a, b)))"

lemma profile_meta_stable: "profile_meta p ch n (profile_meta p ch n m) = profile_meta p ch n m"
  by (auto simp: profile_meta_def ApplyKueueLabel_def RemoveKueueLabel_def m_put_idem
      AList.delete_update_same AList.delete_idem)

lemma profile_sched_stable: "profile_sched p ch n (profile_sched p ch n s) = profile_sched p ch n s"
  by (auto simp: profile_sched_def split: prod.splits dest: MergeNodeScheduling_stable)

section \<open>Lemmas: the reference and its stamp\<close>

lemma ProfileRef_stamp:
  "ProfileRef (om_annotations m) (om_namespace m) = (n, ns) \<Longrightarrow>
     ProfileRef (om_annotations (stampNamespace ns m)) (om_namespace m) = (n, ns)"
  by (auto simp: ProfileRef_def stampNamespace_def hwp_names split: if_splits)

lemma stamp_stable:
  "ProfileRef (om_annotations m) (om_namespace m) = (n, ns) \<Longrightarrow>
     stampNamespace ns (stampNamespace ns m) = stampNamespace ns m"
  by (auto simp: stampNamespace_def m_put_idem)

lemma reference_cong:
  assumes "ProfileRef (om_annotations a) (om_namespace a) = ProfileRef (om_annotations b) (om_namespace b)"
  shows "ProfileReferenceChangedFromRequest req a x = ProfileReferenceChangedFromRequest req b x"
  unfolding ProfileReferenceChangedFromRequest_def ProfileReferenceChanged_def
  by (simp add: assms split: option.split)

lemma reference_removed:
  assumes "m_str (om_annotations a) HardwareProfileAnnotationName = ''''"
    "m_str (om_annotations b) HardwareProfileAnnotationName = ''''"
  shows "ProfileReferenceChangedFromRequest req a x = ProfileReferenceChangedFromRequest req b x"
  using assms
  by (simp add: ProfileReferenceChangedFromRequest_def ProfileReferenceChanged_def ProfileRef_def split: option.split)

definition unstamp :: "object_meta \<Rightarrow> object_meta" where
  "unstamp m = m\<lparr>om_annotations := m_del HardwareProfileAnnotationNamespace (om_annotations m)\<rparr>"

lemma unstamp_stable [simp]:
  "unstamp (unstamp m) = unstamp m"
  "unstamp (RemoveKueueLabel (unstamp (RemoveKueueLabel m))) = unstamp (RemoveKueueLabel m)"
  by (simp_all add: unstamp_def RemoveKueueLabel_def AList.delete_idem)

lemma stampNamespace_sel [simp]:
  "om_deleting (stampNamespace ns m) = om_deleting m" "om_namespace (stampNamespace ns m) = om_namespace m"
  by (simp_all add: stampNamespace_def)

lemma profile_meta_sel [simp]:
  "om_deleting (profile_meta p ch n m) = om_deleting m" "om_annotations (profile_meta p ch n m) = om_annotations m"
  "om_namespace (profile_meta p ch n m) = om_namespace m"
  by (simp_all add: profile_meta_def ApplyKueueLabel_def RemoveKueueLabel_def)

lemma stamp_fixed:
  "stampNamespace ns m = m \<Longrightarrow> om_annotations m' = om_annotations m \<Longrightarrow> stampNamespace ns m' = m'"
  by (simp add: stampNamespace_def split: if_splits) (metis object_meta.surjective object_meta.update_convs(5)
      object_meta.select_convs(5))

end
