(* ===== verification/ISVC_Webhook.thy ===== *)
theory ISVC_Webhook
  imports Connection_Target HWP_Stage
begin

text \<open>
  The InferenceService webhook (internal/webhook/serving/v1beta1/inferenceservice_webhook.go) and
  the helpers of internal/controller/utils/utils.go its validator calls. The API clients are the
  fields of \<open>webhook_env\<close>. The defaulter returns its ServiceAccount writes beside the mutated
  object; an error blocks the admission, so the object is then discarded.
\<close>

section \<open>Data\<close>

record storage_spec =
  st_key :: "string option"
  st_path :: "string option"

record model_spec =
  ms_uri :: "string option"
  ms_storage :: "storage_spec option"
  ms_resources :: resource_reqs

definition empty_model :: model_spec where
  "empty_model = \<lparr>ms_uri = None, ms_storage = None, ms_resources = empty_resources\<rparr>"

record predictor =
  pr_model :: "model_spec option"
  pr_pod :: pod_spec

record isvc =
  is_meta :: object_meta
  is_predictor :: predictor
  is_canaries :: nat

abbreviation isvc_pod :: "isvc \<Rightarrow> pod_spec" where
  "isvc_pod i \<equiv> pr_pod (is_predictor i)"

abbreviation isvc_model :: "isvc \<Rightarrow> model_spec option" where
  "isvc_model i \<equiv> pr_model (is_predictor i)"

definition set_pod :: "(pod_spec \<Rightarrow> pod_spec) \<Rightarrow> isvc \<Rightarrow> isvc" where
  "set_pod f i = i\<lparr>is_predictor := (is_predictor i)\<lparr>pr_pod := f (isvc_pod i)\<rparr>\<rparr>"

definition set_model :: "model_spec option \<Rightarrow> isvc \<Rightarrow> isvc" where
  "set_model m i = i\<lparr>is_predictor := (is_predictor i)\<lparr>pr_model := m\<rparr>\<rparr>"

definition set_meta :: "(object_meta \<Rightarrow> object_meta) \<Rightarrow> isvc \<Rightarrow> isvc" where
  "set_meta f i = i\<lparr>is_meta := f (is_meta i)\<rparr>"

datatype isvc_error =
    NameTooLong nat
  | AppNamespaceUnknown api_error
  | NamespaceProtected string
  | TooManyCanaries nat
  | DRARequiresModel
  | ConnectionError conn_error
  | ReferenceError hwp_error
  | ProfileNotFound string string
  | ProfileFetchFailed hwp_error
  | ClaimError dra_error
  | NilProfile  \<comment> \<open>dereference of a nil profile, shown unreachable\<close>

section \<open>Validation\<close>

definition MaxISVCLength :: nat where "MaxISVCLength = 53"

definition ValidateInferenceServiceNameLength :: "isvc \<Rightarrow> isvc_error option" where
  "ValidateInferenceServiceNameLength i =
     (let n = length (om_name (is_meta i)) in if n > MaxISVCLength then Some (NameTooLong n) else None)"

text \<open>
  The package variable \<open>_appNamespace\<close> is the first argument and the second result. The
  DSCInitialization objects are given by their \<open>spec.applicationsNamespace\<close>.
\<close>

definition GetApplicationNamespace ::
  "string option \<Rightarrow> string \<Rightarrow> api_error + string list \<Rightarrow> (api_error + string) \<times> string option" where
  "GetApplicationNamespace appNamespace podNamespace objectList =
     (case appNamespace of
        Some ns \<Rightarrow> (Inr ns, appNamespace)
      | None \<Rightarrow> (case objectList of
          Inl e \<Rightarrow> (Inl e, None)
        | Inr items \<Rightarrow>
            (let ns = fold (\<lambda>item acc. if item \<noteq> '''' then item else acc) items podNamespace
             in (Inr ns, Some ns))))"

definition maxCanaryCount :: nat where "maxCanaryCount = 3"

definition validateCanaryCount :: "isvc \<Rightarrow> isvc_error option" where
  "validateCanaryCount i =
     (if is_canaries i > maxCanaryCount then Some (TooManyCanaries (is_canaries i)) else None)"

definition validateHardwareProfileDRA ::
  "webhook_env \<Rightarrow> isvc option \<Rightarrow> isvc \<Rightarrow> isvc_error option" where
  "validateHardwareProfileDRA env oldISVC i =
     (let (name, namespace) = ProfileRef (om_annotations (is_meta i)) (om_namespace (is_meta i))
      in if name = '''' \<or> \<not> ProfileReferenceChanged (map_option is_meta oldISVC) (Some (is_meta i)) True
         then None
         else (case Resolve (env_lib env) (env_profile env) name namespace of
             Inl e \<Rightarrow> Some (ProfileFetchFailed e)
           | Inr None \<Rightarrow> Some NilProfile
           | Inr (Some profile) \<Rightarrow>
               if rp_template profile = '''' then None
               else if isvc_model i = None then Some DRARequiresModel
               else map_option ClaimError
                 (ValidateResourceClaimTemplate (env_template env) (rp_template profile)
                    (om_namespace (is_meta i)))))"

definition ValidateCreate ::
  "webhook_env \<Rightarrow> api_error + string \<Rightarrow> isvc \<Rightarrow> isvc_error option" where
  "ValidateCreate env appNamespace i =
     (case ValidateInferenceServiceNameLength i of
        Some e \<Rightarrow> Some e
      | None \<Rightarrow> (case appNamespace of
          Inl e \<Rightarrow> Some (AppNamespaceUnknown e)
        | Inr ns \<Rightarrow>
            if om_namespace (is_meta i) = ns then Some (NamespaceProtected ns)
            else (case validateCanaryCount i of
                Some e \<Rightarrow> Some e
              | None \<Rightarrow> validateHardwareProfileDRA env None i)))"

definition ValidateUpdate :: "webhook_env \<Rightarrow> isvc \<Rightarrow> isvc \<Rightarrow> isvc_error option" where
  "ValidateUpdate env oldISVC i =
     (case validateCanaryCount i of
        Some e \<Rightarrow> Some e
      | None \<Rightarrow> validateHardwareProfileDRA env (Some oldISVC) i)"

section \<open>Connections\<close>

definition oldStoragePath :: "isvc admission_request \<Rightarrow> string" where
  "oldStoragePath req =
     (if rq_operation req = Update then
        (case rq_old req of
           None \<Rightarrow> ''''
         | Some raw \<Rightarrow> (case raw_typed raw of
             None \<Rightarrow> ''''
           | Some old \<Rightarrow> (case isvc_model old of
               None \<Rightarrow> ''''
             | Some m \<Rightarrow> (case ms_storage m of
                 None \<Rightarrow> ''''
               | Some st \<Rightarrow> (case st_path st of None \<Rightarrow> '''' | Some p \<Rightarrow> p)))))
      else '''')"

definition injectStorage :: "connection_info \<Rightarrow> string \<Rightarrow> storage_spec option \<Rightarrow> storage_spec" where
  "injectStorage connInfo oldSpecPath storage =
     (let st = (case storage of None \<Rightarrow> \<lparr>st_key = None, st_path = None\<rparr> | Some st \<Rightarrow> st);
          st1 = st\<lparr>st_key := Some (ci_secret connInfo)\<rparr>
      in if st_path st1 \<noteq> None \<and> st_path st1 \<noteq> Some '''' then st1
         else if ci_path connInfo \<noteq> '''' then st1\<lparr>st_path := Some (ci_path connInfo)\<rparr>
         else if oldSpecPath \<noteq> '''' then st1\<lparr>st_path := Some oldSpecPath\<rparr>
         else st1)"

definition model_or_empty :: "model_spec option \<Rightarrow> model_spec" where
  "model_or_empty m = (case m of None \<Rightarrow> empty_model | Some x \<Rightarrow> x)"

definition performISVCInjection ::
  "isvc admission_request \<Rightarrow> isvc \<Rightarrow> connection_info \<Rightarrow> secret option \<Rightarrow> conn_error + isvc" where
  "performISVCInjection req i connInfo sec =
     (let t = ci_type connInfo;
          finish = (\<lambda>j. Inr (set_meta (\<lambda>m. SetInjectedConnectionType m t) j))
      in if t = ConnectionTypeProtocolOCI \<or> t = ConnectionTypeRefOCI then
           finish (set_pod (\<lambda>p. p\<lparr>ps_pull_secrets :=
             InjectOCIImagePullSecrets (ps_pull_secrets p) (ci_secret connInfo)\<rparr>) i)
         else if t = ConnectionTypeProtocolURI \<or> t = ConnectionTypeRefURI then
           (case sec of
              None \<Rightarrow> Inl NilSecret
            | Some s \<Rightarrow> (case GetURIValue s of
                Inl e \<Rightarrow> Inl e
              | Inr uriValue \<Rightarrow>
                  finish (set_model (Some ((model_or_empty (isvc_model i))\<lparr>ms_uri := Some uriValue\<rparr>)) i)))
         else if t = ConnectionTypeProtocolS3 \<or> t = ConnectionTypeRefS3 then
           (let j = set_pod (\<lambda>p. p\<lparr>ps_service_account :=
                  InjectServiceAccountName (ps_service_account p) (ci_secret connInfo @ ''-sa'')\<rparr>) i;
                m = model_or_empty (isvc_model i)
            in finish (set_model (Some (m\<lparr>ms_storage :=
                 Some (injectStorage connInfo (oldStoragePath req) (ms_storage m))\<rparr>)) j))
         else Inr i)"

definition performISVCCleanup :: "isvc \<Rightarrow> connection_info \<Rightarrow> isvc" where
  "performISVCCleanup i oldConn =
     (let t = ci_type oldConn;
          n = ci_secret oldConn;
          j = (if t = ConnectionTypeProtocolOCI \<or> t = ConnectionTypeRefOCI then
                 set_pod (\<lambda>p. p\<lparr>ps_pull_secrets := CleanupOCIImagePullSecrets (ps_pull_secrets p) n\<rparr>) i
               else if t = ConnectionTypeProtocolURI \<or> t = ConnectionTypeRefURI then
                 set_model (map_option (\<lambda>m. m\<lparr>ms_uri := None\<rparr>) (isvc_model i)) i
               else if t = ConnectionTypeProtocolS3 \<or> t = ConnectionTypeRefS3 then
                 set_model (map_option (\<lambda>m. m\<lparr>ms_storage := None\<rparr>) (isvc_model i))
                   (set_pod (\<lambda>p. p\<lparr>ps_service_account :=
                      RemoveServiceAccountName (ps_service_account p) (n @ ''-sa'')\<rparr>) i)
               else if t = '''' then
                 set_pod (\<lambda>p. p\<lparr>ps_service_account :=
                      RemoveServiceAccountName (ps_service_account p) (n @ ''-sa'')\<rparr>)
                   (set_model (map_option (\<lambda>m. m\<lparr>ms_uri := None, ms_storage := None\<rparr>) (isvc_model i))
                     (set_pod (\<lambda>p. p\<lparr>ps_pull_secrets :=
                        (if n \<noteq> '''' then CleanupOCIImagePullSecrets (ps_pull_secrets p) n else [])\<rparr>) i))
               else i)
      in set_meta RemoveInjectedConnectionType j)"

text \<open>
  \<open>dispatchISVC\<close> is the switch of \<open>applyConnectionsAPI\<close> on the chosen action.
\<close>

definition dispatchISVC ::
  "webhook_env \<Rightarrow> isvc admission_request \<Rightarrow> connection_action \<Rightarrow> connection_info \<Rightarrow> connection_info
     \<Rightarrow> secret option \<Rightarrow> isvc \<Rightarrow> service_account list \<times> (conn_error + isvc)" where
  "dispatchISVC env req action oldConn newConn sec i =
     (case action of
        ActionInject \<Rightarrow>
          (let (sas, err) = CreateServiceAccountIfNeeded (env_create_sa env) (ci_secret newConn)
                 (ci_type newConn) (rq_namespace req) (is_dry_run req)
           in case err of
                Some e \<Rightarrow> (sas, Inl e)
              | None \<Rightarrow> (sas, performISVCInjection req i newConn sec))
      | ActionRemove \<Rightarrow> ([], Inr (performISVCCleanup i oldConn))
      | ActionReplace \<Rightarrow>
          (let j = performISVCCleanup i oldConn;
               (sas, err) = CreateServiceAccountIfNeeded (env_create_sa env) (ci_secret newConn)
                 (ci_type newConn) (rq_namespace req) (is_dry_run req)
           in case err of
                Some e \<Rightarrow> (sas, Inl e)
              | None \<Rightarrow> (sas, performISVCInjection req j newConn sec))
      | ActionNone \<Rightarrow> ([], Inr i))"

definition applyConnectionsAPI ::
  "webhook_env \<Rightarrow> isvc admission_request \<Rightarrow> isvc \<Rightarrow> service_account list \<times> (conn_error + isvc)" where
  "applyConnectionsAPI env req i =
     (if om_deleting (is_meta i) then ([], Inr i)
      else (case ValidateConnectionAnnotation (env_secret env) (is_meta i) (rq_namespace req) of
          Inl e \<Rightarrow> ([], Inl e)
        | Inr (newConn, sec) \<Rightarrow>
            if rq_operation req = Update then
              (case GetOldConnectionInfo req (env_secret env) of
                 Inl e \<Rightarrow> ([], Inl e)
               | Inr oldConn \<Rightarrow>
                   dispatchISVC env req (DetermineAction oldConn newConn) oldConn newConn sec i)
            else dispatchISVC env req
              (if ci_secret newConn = '''' then ActionNone else ActionInject)
              no_connection newConn sec i))"

section \<open>Hardware profiles\<close>

definition reconcileISVCHardwareProfileDRA ::
  "isvc \<Rightarrow> bool \<Rightarrow> string \<Rightarrow> bool \<Rightarrow> isvc_error + isvc" where
  "reconcileISVCHardwareProfileDRA i oldProfileSelected selectedTemplate referenceChanged =
     (if \<not> referenceChanged then Inr i
      else (let pod = isvc_pod i;
                (cs, ics, ecs) = (if oldProfileSelected
                  then RemoveDRAContainerClaims (ps_containers pod) (ps_init pod) (ps_ephemeral pod)
                  else (ps_containers pod, ps_init pod, ps_ephemeral pod));
                j = set_pod (\<lambda>p. p\<lparr>ps_containers := cs, ps_init := ics, ps_ephemeral := ecs\<rparr>) i;
                blocked = (if selectedTemplate = '''' then None
                  else if isvc_model i = None then Some DRARequiresModel
                  else map_option ClaimError (ValidateDRAContainerClaims cs ics ecs None))
            in case blocked of
                 Some e \<Rightarrow> Inl e
               | None \<Rightarrow>
                   (case ReconcileDRAClaims (ps_claims pod) (map_option ms_resources (isvc_model i))
                          oldProfileSelected selectedTemplate referenceChanged of
                      Inl e \<Rightarrow> Inl (ClaimError e)
                    | Inr (claims, res) \<Rightarrow>
                        Inr (set_model (case isvc_model i of
                               None \<Rightarrow> None
                             | Some m \<Rightarrow> Some (case res of None \<Rightarrow> m | Some r \<Rightarrow> m\<lparr>ms_resources := r\<rparr>))
                           (set_pod (\<lambda>p. p\<lparr>ps_claims := claims\<rparr>) j)))))"

definition handleHWPRemovalISVC :: "webhook_env \<Rightarrow> isvc admission_request \<Rightarrow> isvc \<Rightarrow> isvc" where
  "handleHWPRemovalISVC env req i =
     (case rq_old req of
        None \<Rightarrow> i
      | Some raw \<Rightarrow> (case raw_unstructured raw of
          None \<Rightarrow> i
        | Some oldObj \<Rightarrow>
            (let oldProfileName = m_str (om_annotations oldObj) HardwareProfileAnnotationName;
                 ns = m_str (om_annotations oldObj) HardwareProfileAnnotationNamespace;
                 oldProfileNamespace = (if ns = '''' then om_namespace oldObj else ns);
                 unstamp = set_meta (\<lambda>m. m\<lparr>om_annotations :=
                   m_del HardwareProfileAnnotationNamespace (om_annotations m)\<rparr>)
             in if oldProfileName = '''' then i
                else (case Resolve (env_lib env) (env_profile_cached env) oldProfileName oldProfileNamespace of
                    Inl _ \<Rightarrow> unstamp i
                  | Inr None \<Rightarrow> unstamp i
                  | Inr (Some oldProfile) \<Rightarrow>
                      (let (newNS, newTols) = RemoveNodeScheduling oldProfile
                             (ps_node_selector (isvc_pod i)) (ps_tolerations (isvc_pod i));
                           j = set_pod (\<lambda>p. p\<lparr>ps_node_selector := newNS, ps_tolerations := newTols\<rparr>) i;
                           k = (if rp_queue oldProfile \<noteq> '''' then set_meta RemoveKueueLabel j else j)
                       in unstamp k)))))"

text \<open>The part of \<open>applyHardwareProfile\<close> after the claims: resources and scheduling.\<close>

definition applyProfileISVC :: "resolved_profile \<Rightarrow> bool \<Rightarrow> string \<Rightarrow> isvc \<Rightarrow> isvc" where
  "applyProfileISVC profile profileChanged profileName i =
     (let j = (if profileChanged
               then set_meta RemoveKueueLabel
                 (set_pod (\<lambda>p. p\<lparr>ps_node_selector := [], ps_tolerations := []\<rparr>) i)
               else i);
          k = set_model (case isvc_model j of
                None \<Rightarrow> None
              | Some m \<Rightarrow> (case ApplyToIsvcResources profile (Some (ms_resources m)) of
                  None \<Rightarrow> Some m
                | Some r \<Rightarrow> Some (m\<lparr>ms_resources := r\<rparr>))) j
      in if rp_queue profile \<noteq> ''''
         then set_meta (\<lambda>m. fst (ApplyKueueLabel profile m profileChanged profileName)) k
         else (let ns = ps_node_selector (isvc_pod k);
                   tols = ps_tolerations (isvc_pod k);
                   (newNS, newTols) = (if profileChanged then SetNodeScheduling profile ns tols
                     else (let (a, b, _) = MergeNodeScheduling profile ns tols profileName in (a, b)))
               in set_pod (\<lambda>p. p\<lparr>ps_node_selector := newNS, ps_tolerations := newTols\<rparr>) k))"

definition applyHardwareProfile ::
  "webhook_env \<Rightarrow> isvc admission_request \<Rightarrow> isvc \<Rightarrow> isvc_error + isvc" where
  "applyHardwareProfile env req i =
     (if om_deleting (is_meta i) then Inr i
      else (let (profileName, profileNamespace) =
                  ProfileRef (om_annotations (is_meta i)) (om_namespace (is_meta i))
            in case ProfileReferenceChangedFromRequest req (is_meta i) True of
                 Inl e \<Rightarrow> Inl (ReferenceError e)
               | Inr (oldProfileName, referenceChanged) \<Rightarrow>
                   if profileName = '''' then
                     (case reconcileISVCHardwareProfileDRA i (oldProfileName \<noteq> '''') '''' referenceChanged of
                        Inl e \<Rightarrow> Inl e
                      | Inr j \<Rightarrow> Inr (if rq_operation req = Update then handleHWPRemovalISVC env req j else j))
                   else (case Resolve (env_lib env) (env_profile env) profileName profileNamespace of
                       Inl (ProfileReadFailed NotFound) \<Rightarrow> Inl (ProfileNotFound profileName profileNamespace)
                     | Inl e \<Rightarrow> Inl (ProfileFetchFailed e)
                     | Inr None \<Rightarrow> Inl NilProfile
                     | Inr (Some profile) \<Rightarrow>
                         (case reconcileISVCHardwareProfileDRA (set_meta (stampNamespace profileNamespace) i)
                                 (oldProfileName \<noteq> '''') (rp_template profile) referenceChanged of
                            Inl e \<Rightarrow> Inl e
                          | Inr j \<Rightarrow> Inr (applyProfileISVC profile
                              (ProfileChanged req profileName profileNamespace) profileName j)))))"

definition Default ::
  "webhook_env \<Rightarrow> conn_error + isvc admission_request \<Rightarrow> isvc
     \<Rightarrow> service_account list \<times> (isvc_error + isvc)" where
  "Default env request i =
     (case request of
        Inl e \<Rightarrow> ([], Inl (ConnectionError e))
      | Inr req \<Rightarrow>
          (case applyConnectionsAPI env req i of
             (sas, Inl e) \<Rightarrow> (sas, Inl (ConnectionError e))
           | (sas, Inr j) \<Rightarrow> (sas, applyHardwareProfile env req j)))"

section \<open>Lemmas: the setters and the steps\<close>

lemmas isvc_setters = set_pod_def set_model_def set_meta_def

lemma set_meta_sel [simp]:
  "is_meta (set_meta f i) = f (is_meta i)" "is_predictor (set_meta f i) = is_predictor i"
  "is_canaries (set_meta f i) = is_canaries i"
  by (simp_all add: set_meta_def)

lemma set_pod_sel [simp]:
  "is_meta (set_pod g i) = is_meta i" "isvc_pod (set_pod g i) = g (isvc_pod i)"
  "isvc_model (set_pod g i) = isvc_model i" "is_canaries (set_pod g i) = is_canaries i"
  by (simp_all add: set_pod_def)

lemma set_model_sel [simp]:
  "is_meta (set_model m i) = is_meta i" "isvc_pod (set_model m i) = isvc_pod i"
  "isvc_model (set_model m i) = m" "is_canaries (set_model m i) = is_canaries i"
  by (simp_all add: set_model_def)

lemma isvc_eqI:
  fixes i j :: isvc
  assumes "is_meta i = is_meta j" "isvc_pod i = isvc_pod j" "isvc_model i = isvc_model j"
    "is_canaries i = is_canaries j"
  shows "i = j"
  using assms by (auto intro: isvc.equality predictor.equality)

lemma injectStorage_stable [simp]:
  "injectStorage c p (Some (injectStorage c p st)) = injectStorage c p st"
  by (cases st) (auto simp: injectStorage_def)

text \<open>Injection and cleanup, field by field.\<close>

definition injected_model ::
  "isvc admission_request \<Rightarrow> connection_info \<Rightarrow> string option \<Rightarrow> model_spec option \<Rightarrow> model_spec option" where
  "injected_model req c uri m =
     (case conn_kind (ci_type c) of
        KUri \<Rightarrow> Some ((model_or_empty m)\<lparr>ms_uri := uri\<rparr>)
      | KS3 \<Rightarrow> Some ((model_or_empty m)\<lparr>ms_storage :=
          Some (injectStorage c (oldStoragePath req) (ms_storage (model_or_empty m)))\<rparr>)
      | _ \<Rightarrow> m)"

definition cleaned_model :: "connection_info \<Rightarrow> model_spec option \<Rightarrow> model_spec option" where
  "cleaned_model c m =
     (case conn_kind (ci_type c) of
        KUri \<Rightarrow> map_option (\<lambda>x. x\<lparr>ms_uri := None\<rparr>) m
      | KS3 \<Rightarrow> map_option (\<lambda>x. x\<lparr>ms_storage := None\<rparr>) m
      | KEmpty \<Rightarrow> map_option (\<lambda>x. x\<lparr>ms_uri := None, ms_storage := None\<rparr>) m
      | _ \<Rightarrow> m)"

definition injected_isvc ::
  "isvc admission_request \<Rightarrow> connection_info \<Rightarrow> string option \<Rightarrow> isvc \<Rightarrow> isvc" where
  "injected_isvc req c uri i =
     set_meta (\<lambda>m. SetInjectedConnectionType m (ci_type c))
       (set_model (injected_model req c uri (isvc_model i))
         (set_pod (\<lambda>p. p\<lparr>ps_pull_secrets := injected_pulls c (ps_pull_secrets p),
                         ps_service_account := injected_sa c (ps_service_account p)\<rparr>) i))"

lemma set_pod_id [simp]: "set_pod (\<lambda>p. p) i = i" "set_model (isvc_model i) i = i"
  by (simp_all add: isvc_setters)

lemma performISVCInjection_eq:
  "performISVCInjection req i c s =
     (case conn_kind (ci_type c) of
        KOci \<Rightarrow> Inr (injected_isvc req c None i)
      | KS3 \<Rightarrow> Inr (injected_isvc req c None i)
      | KUri \<Rightarrow> (case s of None \<Rightarrow> Inl NilSecret | Some x \<Rightarrow>
          (case GetURIValue x of Inl e \<Rightarrow> Inl e | Inr u \<Rightarrow> Inr (injected_isvc req c (Some u) i)))
      | _ \<Rightarrow> Inr i)"
  unfolding performISVCInjection_def Let_def conn_kind_tests
  by (cases "conn_kind (ci_type c)")
    (auto simp: injected_isvc_def injected_model_def injected_pulls_def injected_sa_def
      intro!: isvc_eqI split: option.split sum.split)

lemma performISVCCleanup_eq:
  "performISVCCleanup i c =
     set_meta RemoveInjectedConnectionType
       (set_model (cleaned_model c (isvc_model i))
         (set_pod (\<lambda>p. p\<lparr>ps_pull_secrets := cleaned_pulls c (ps_pull_secrets p),
                         ps_service_account := cleaned_sa c (ps_service_account p)\<rparr>) i))"
  unfolding performISVCCleanup_def Let_def conn_kind_tests(1-3)
  by (cases "conn_kind (ci_type c)")
    (auto simp: cleaned_model_def cleaned_pulls_def cleaned_sa_def conn_kind_def intro!: isvc_eqI
      split: if_splits)

lemma model_stable [simp]:
  "injected_model req c u (injected_model req c u m) = injected_model req c u m"
  "cleaned_model c (cleaned_model c m) = cleaned_model c m"
  "injected_model req c u (cleaned_model d (injected_model req c u (cleaned_model d m))) =
     injected_model req c u (cleaned_model d m)"
proof -
  show "injected_model req c u (injected_model req c u m) = injected_model req c u m"
    by (auto simp: injected_model_def model_or_empty_def split: conn_kind.split option.split)
  show "cleaned_model c (cleaned_model c m) = cleaned_model c m"
    by (cases m) (auto simp: cleaned_model_def split: conn_kind.split)
  show "injected_model req c u (cleaned_model d (injected_model req c u (cleaned_model d m))) =
     injected_model req c u (cleaned_model d m)"
    by (cases m; cases "conn_kind (ci_type c)"; cases "conn_kind (ci_type d)")
      (simp_all add: injected_model_def cleaned_model_def model_or_empty_def empty_model_def)
qed

lemma inject_stable:
  "performISVCInjection req i c s = Inr j \<Longrightarrow> performISVCInjection req j c s = Inr j"
  by (auto simp: performISVCInjection_eq injected_isvc_def split: conn_kind.splits option.splits
      sum.splits intro!: isvc_eqI)

lemma cleanup_stable: "performISVCCleanup (performISVCCleanup i c) c = performISVCCleanup i c"
  by (auto simp: performISVCCleanup_eq intro!: isvc_eqI)

lemma replace_stable:
  "performISVCInjection req (performISVCCleanup i old) c s = Inr j \<Longrightarrow>
   performISVCInjection req (performISVCCleanup j old) c s = Inr j"
  by (auto simp: performISVCInjection_eq performISVCCleanup_eq injected_isvc_def
      split: conn_kind.splits option.splits sum.splits intro!: isvc_eqI)

lemma cleanup_frame: "same_meta_but_injected (is_meta i) (is_meta (performISVCCleanup i c))"
  by (simp add: performISVCCleanup_eq)

lemma inject_frame: "performISVCInjection req i c s = Inr j \<Longrightarrow> same_meta_but_injected (is_meta i) (is_meta j)"
  by (auto simp: performISVCInjection_eq injected_isvc_def split: conn_kind.splits option.splits sum.splits)

definition connection_decision ::
  "webhook_env \<Rightarrow> isvc admission_request \<Rightarrow> isvc
     \<Rightarrow> conn_error + connection_action \<times> connection_info \<times> connection_info \<times> secret option" where
  "connection_decision env req i = connection_choice (env_secret env) req (is_meta i)"

lemma applyConnectionsAPI_eq:
  "applyConnectionsAPI env req i =
     (if om_deleting (is_meta i) then ([], Inr i)
      else (case connection_decision env req i of
          Inl e \<Rightarrow> ([], Inl e)
        | Inr (a, old, c, s) \<Rightarrow> dispatchISVC env req a old c s i))"
  by (auto simp: applyConnectionsAPI_def connection_decision_def connection_choice_def split: sum.splits)

lemma dispatchISVC_eq:
  "dispatchISVC env req a old c s i =
     connection_effect (env_create_sa env) req (performISVCInjection req) performISVCCleanup performISVCCleanup
       (a, old, c, s) i"
  by (cases a) (auto simp: dispatchISVC_def connection_effect_def split: prod.split option.split)

interpretation isvc_target: connection_target "env_secret env" "env_create_sa env" is_meta
  performISVCInjection performISVCCleanup performISVCCleanup "applyConnectionsAPI env" for env
proof (unfold_locales, goal_cases)
  case (6 req i)
  show ?case by (simp add: applyConnectionsAPI_eq connection_decision_def dispatchISVC_eq split: sum.split)
qed (fact inject_stable cleanup_stable replace_stable inject_frame cleanup_frame)+

section \<open>Properties: connections\<close>

text \<open>
  Admission may call the defaulter again on its own output (reinvocation). With the
  same request and the same answers of the API server, the connection step then changes
  nothing more, does not fail and asks for the same ServiceAccount.
\<close>

theorem applyConnectionsAPI_idempotent:
  assumes "applyConnectionsAPI env req i = (w, Inr j)"
  shows "applyConnectionsAPI env req j = (w, Inr j)"
  using assms by (rule isvc_target.apply_stable)

definition plain_isvc :: isvc where
  "plain_isvc = \<lparr>is_meta = empty_meta\<lparr>om_name := ''m'', om_namespace := ''ns'',
       om_annotations := [(AnnotationConnections, ''conn'')]\<rparr>,
     is_predictor = \<lparr>pr_model = Some empty_model, pr_pod = empty_pod_spec\<rparr>, is_canaries = 0\<rparr>"

definition conn_secret :: "string \<Rightarrow> string \<Rightarrow> secret" where
  "conn_secret n t = \<lparr>sec_meta = empty_meta\<lparr>om_name := n, om_namespace := ''ns'',
      om_annotations := [(AnnotationConnectionTypeProtocol, t)]\<rparr>, sec_type = ''Opaque'',
      sec_data = [(''URI'', ''https://h/m'')]\<rparr>"

definition empty_lib :: unstructured_lib where
  "empty_lib = \<lparr>nested_string = (\<lambda>_ _. Inr None), nested_slice = (\<lambda>_ _. Inr None),
     nested_string_map = (\<lambda>_ _. Inr None), parse_quantity = (\<lambda>_. Inl ()), float_to_int64 = (\<lambda>_. 0)\<rparr>"

definition s3_env :: webhook_env where
  "s3_env = \<lparr>env_secret = (\<lambda>ns n. if n = ''conn'' \<or> n = ''old'' then Inr (conn_secret n ''s3'') else Inl NotFound),
     env_create_sa = (\<lambda>_. None), env_lib = empty_lib,
     env_profile = (\<lambda>_ _. Inl NotFound), env_profile_cached = (\<lambda>_ _. Inl NotFound),
     env_template = (\<lambda>_ _. None)\<rparr>"

definition create_request :: "isvc admission_request" where
  "create_request = \<lparr>rq_operation = Create, rq_namespace = ''ns'', rq_dry_run = None, rq_old = None\<rparr>"

lemmas isvc_examples = plain_isvc_def conn_secret_def s3_env_def create_request_def empty_lib_def
  empty_meta_def empty_model_def empty_pod_spec_def

definition injected_plain :: isvc where
  "injected_plain = projr (snd (applyConnectionsAPI s3_env create_request plain_isvc))"

lemma plain_isvc_injected:
  "applyConnectionsAPI s3_env create_request plain_isvc =
     ([\<lparr>sa_name = ''conn-sa'', sa_namespace = ''ns'', sa_secrets = [''conn'']\<rparr>], Inr injected_plain)"
  by (simp add: injected_plain_def applyConnectionsAPI_eq connection_decision_def connection_choice_def
      ValidateConnectionAnnotation_def ValidateConnectionType_def m_str_def isvc_examples
      annotation_names connection_types dispatchISVC_def CreateServiceAccountIfNeeded_def createSA_def
      is_dry_run_def performISVCInjection_def)

theorem applyConnectionsAPI_idempotent_witness:
  "applyConnectionsAPI s3_env create_request injected_plain =
     ([\<lparr>sa_name = ''conn-sa'', sa_namespace = ''ns'', sa_secrets = [''conn'']\<rparr>], Inr injected_plain)"
  by (rule applyConnectionsAPI_idempotent [OF plain_isvc_injected])

text \<open>
  Property C27. The connection step asks for a ServiceAccount only outside dry runs, only for an
  object that is not being deleted, and only when the Secret its annotation names exists in the
  request's namespace with the S3 type. It asks for at most one: \<open><secret>-sa\<close>, in the namespace of
  the request, with that Secret attached.
\<close>

theorem applyConnectionsAPI_writes:
  assumes "sa \<in> set (fst (applyConnectionsAPI env req i))"
  shows "\<not> is_dry_run req \<and> \<not> om_deleting (is_meta i) \<and> fst (applyConnectionsAPI env req i) = [sa] \<and>
    (\<exists>sec. env_secret env (rq_namespace req) (m_str (om_annotations (is_meta i)) AnnotationConnections) = Inr sec \<and>
       ValidateConnectionType (sec_meta sec) = (''s3'', True) \<and>
       sa = \<lparr>sa_name = om_name (sec_meta sec) @ ''-sa'', sa_namespace = rq_namespace req,
             sa_secrets = [om_name (sec_meta sec)]\<rparr>)"
  using assms by (rule isvc_target.apply_writes)

theorem applyConnectionsAPI_writes_witness:
  "\<not> is_dry_run create_request \<and> fst (applyConnectionsAPI s3_env create_request plain_isvc) =
     [\<lparr>sa_name = ''conn-sa'', sa_namespace = ''ns'', sa_secrets = [''conn'']\<rparr>]"
  using applyConnectionsAPI_writes [of "\<lparr>sa_name = ''conn-sa'', sa_namespace = ''ns'', sa_secrets = [''conn'']\<rparr>"
      s3_env create_request plain_isvc] plain_isvc_injected by simp

text \<open>An object no connection has been injected into.\<close>

definition clean_isvc :: "connection_info \<Rightarrow> isvc \<Rightarrow> bool" where
  "clean_isvc c i =
     (ci_secret c \<noteq> '''' \<and> ci_secret c \<notin> set (ps_pull_secrets (isvc_pod i)) \<and>
      ps_service_account (isvc_pod i) = '''' \<and>
      (case isvc_model i of None \<Rightarrow> False | Some m \<Rightarrow> ms_uri m = None \<and> ms_storage m = None) \<and>
      map_of (om_annotations (is_meta i)) AnnotationInjectedConnectionType = None)"

text \<open>
  Property C35. Injection followed by cleanup is a round trip for an object that uses none of the fields a connection takes: it has a
  model, with neither a storage URI nor a storage, no ServiceAccount name, not the connection's Secret among its pull
  secrets and no injected-type annotation (\<open>clean_isvc\<close>). Whatever supported type the connection has, cleaning up a freshly injected connection gives
  back the object as it was before, also when the type is no longer known at cleanup time (the Secret was deleted and the
  full cleanup of the empty type runs). Of other objects this cannot be said: the cleanup clears a storage URI whoever set it.
\<close>

theorem inject_cleanup_roundtrip:
  assumes "clean_isvc c i" and "ci_type c \<in> {''s3'', ''uri'', ''oci'', ''uri-v1'', ''oci-v1''}"
    and "performISVCInjection req i c s = Inr j"
  shows "performISVCCleanup j c = i \<and> performISVCCleanup j (c\<lparr>ci_type := ''''\<rparr>) = i"
proof -
  from assms(1) obtain m where m: "isvc_model i = Some m" "ms_uri m = None" "ms_storage m = None"
    by (auto simp: clean_isvc_def split: option.splits)
  from assms(2,3) obtain u where j: "j = injected_isvc req c u i" "conn_kind (ci_type c) \<in> {KOci, KUri, KS3}"
    using conn_kind_valid [OF assms(2)]
    by (auto simp: performISVCInjection_eq split: option.splits sum.splits)
  have meta: "RemoveInjectedConnectionType (is_meta i) = is_meta i"
    using assms(1) by (simp add: clean_isvc_def RemoveInjectedConnectionType_def m_del_absent)
  have pod: "filter (\<lambda>r. r \<noteq> ci_secret c) (ps_pull_secrets (isvc_pod i)) = ps_pull_secrets (isvc_pod i)"
    using assms(1) by (auto simp: clean_isvc_def filter_id_conv)
  have kE: "conn_kind '''' = KEmpty" by (simp add: conn_kind_def)
  show ?thesis
    using assms(1) j(2) m pod
    by (auto simp: j(1) performISVCCleanup_eq injected_isvc_def meta kE clean_isvc_def injected_model_def
        cleaned_model_def injected_pulls_def cleaned_pulls_def injected_sa_def cleaned_sa_def conn_defs m_del_put_absent
        model_or_empty_def intro!: isvc_eqI)
qed

definition s3_conn :: connection_info where
  "s3_conn = \<lparr>ci_secret = ''conn'', ci_type = ''s3'', ci_path = ''p''\<rparr>"

theorem inject_cleanup_roundtrip_witness:
  "performISVCCleanup (projr (performISVCInjection create_request plain_isvc s3_conn None)) s3_conn = plain_isvc"
proof -
  obtain j where j: "performISVCInjection create_request plain_isvc s3_conn None = Inr j"
    by (simp add: performISVCInjection_def s3_conn_def connection_types)
  have "clean_isvc s3_conn plain_isvc"
    by (simp add: clean_isvc_def s3_conn_def isvc_examples annotation_names)
  from inject_cleanup_roundtrip [OF this _ j] show ?thesis by (simp add: j) (simp add: s3_conn_def)
qed

text \<open>
  A ServiceAccount the user chose survives the connection step: if the pod's
  ServiceAccount is set and is not the one a connection of the old object would have injected, no
  create or update changes it.
\<close>

theorem user_service_account_kept:
  assumes "applyConnectionsAPI env req i = (w, Inr j)"
    and "ps_service_account (isvc_pod i) \<noteq> ''''"
    and "\<And>old. GetOldConnectionInfo req (env_secret env) = Inr old \<Longrightarrow>
           ps_service_account (isvc_pod i) \<noteq> ci_secret old @ ''-sa''"
  shows "ps_service_account (isvc_pod j) = ps_service_account (isvc_pod i)"
proof (cases "om_deleting (is_meta i)")
  case False
  with assms(1) obtain a old c s where d: "connection_decision env req i = Inr (a, old, c, s)"
    and r: "dispatchISVC env req a old c s i = (w, Inr j)"
    by (auto simp: applyConnectionsAPI_eq split: sum.splits)
  have inj: "ps_service_account (isvc_pod y) = ps_service_account (isvc_pod x)"
    if "performISVCInjection req x c s = Inr y" "ps_service_account (isvc_pod x) \<noteq> ''''" for x y
    using that by (auto simp: performISVCInjection_eq injected_isvc_def injected_sa_def
        InjectServiceAccountName_def split: conn_kind.splits option.splits sum.splits)
  have cl: "ps_service_account (isvc_pod (performISVCCleanup i old)) = ps_service_account (isvc_pod i)"
    if "rq_operation req = Update"
  proof -
    from that d have "GetOldConnectionInfo req (env_secret env) = Inr old"
      by (auto simp: connection_decision_def connection_choice_def split: sum.splits)
    from assms(3) [OF this] show ?thesis
      by (simp add: performISVCCleanup_eq cleaned_sa_def RemoveServiceAccountName_def)
  qed
  have up: "rq_operation req = Update" if "a = ActionRemove \<or> a = ActionReplace"
    using d that by (auto simp: connection_decision_def connection_choice_def split: sum.splits if_splits)
  from r show ?thesis
  proof (cases a)
    case ActionInject
    with r inj assms(2) show ?thesis by (auto simp: dispatchISVC_def split: prod.splits option.splits)
  next
    case ActionReplace
    with r inj [of "performISVCCleanup i old"] assms(2) cl up show ?thesis
      by (auto simp: dispatchISVC_def split: prod.splits option.splits)
  qed (use r cl up in \<open>auto simp: dispatchISVC_def\<close>)
qed (use assms(1) in \<open>simp add: applyConnectionsAPI_eq\<close>)

theorem user_service_account_kept_witness:
  "ps_service_account (isvc_pod (projr (snd (applyConnectionsAPI s3_env create_request
     (set_pod (\<lambda>p. p\<lparr>ps_service_account := ''mine''\<rparr>) plain_isvc))))) = ''mine''"
proof -
  let ?i = "set_pod (\<lambda>p. p\<lparr>ps_service_account := ''mine''\<rparr>) plain_isvc"
  obtain w j where j: "applyConnectionsAPI s3_env create_request ?i = (w, Inr j)"
    by (simp add: applyConnectionsAPI_eq connection_decision_def connection_choice_def
        ValidateConnectionAnnotation_def ValidateConnectionType_def m_str_def isvc_examples
        annotation_names connection_types dispatchISVC_def CreateServiceAccountIfNeeded_def createSA_def
        is_dry_run_def performISVCInjection_def)
  have "ps_service_account (isvc_pod j) = ps_service_account (isvc_pod ?i)"
    by (rule user_service_account_kept [OF j])
      (auto simp: GetOldConnectionInfo_def create_request_def no_connection_def)
  with j show ?thesis by simp
qed

text \<open>
  Replacing a connection forgets the old one. After an update that switches from a
  connection to another one with a different Secret, nothing the old type injects still
  refers to the old Secret: an S3 connection leaves no ServiceAccount and no storage key of it, an
  OCI connection no pull secret, and the recorded type is that of the new connection.
\<close>

theorem replace_forgets_old:
  assumes "applyConnectionsAPI env req i = (w, Inr j)" and "\<not> om_deleting (is_meta i)"
    and "connection_decision env req i = Inr (ActionReplace, old, c, s)"
    and "ci_secret c \<noteq> ci_secret old"
  shows "(conn_kind (ci_type old) \<in> {KS3, KEmpty} \<longrightarrow>
            ps_service_account (isvc_pod j) \<noteq> ci_secret old @ ''-sa'' \<and>
            (\<forall>m st. isvc_model j = Some m \<and> ms_storage m = Some st \<longrightarrow> st_key st \<noteq> Some (ci_secret old)))
       \<and> (conn_kind (ci_type old) \<in> {KOci, KEmpty} \<longrightarrow> ci_secret old \<notin> set (ps_pull_secrets (isvc_pod j)))
       \<and> m_str (om_annotations (is_meta j)) AnnotationInjectedConnectionType = ci_type c"
proof -
  from assms(1-3) have inj: "performISVCInjection req (performISVCCleanup i old) c s = Inr j"
    by (auto simp: applyConnectionsAPI_eq dispatchISVC_def split: prod.splits option.splits)
  from assms(3) have new: "ValidateConnectionAnnotation (env_secret env) (is_meta i) (rq_namespace req) = Inr (c, s)"
    and a: "DetermineAction old c = ActionReplace"
    by (auto simp: connection_decision_def connection_choice_def split: sum.splits if_splits)
  from a have named: "ci_secret c \<noteq> ''''" "ci_secret old \<noteq> ''''"
    by (auto simp: DetermineAction_def split: if_splits)
  with new have "conn_kind (ci_type c) \<in> {KOci, KUri, KS3}"
    by (intro conn_kind_valid) (auto dest!: ValidateConnectionAnnotation_Inr simp: no_connection_def)
  with inj obtain u where j: "j = injected_isvc req c u (performISVCCleanup i old)"
    by (auto simp: performISVCInjection_eq split: option.splits sum.splits)
  have sa: "injected_sa c (cleaned_sa old x) \<noteq> ci_secret old @ ''-sa''"
    if "conn_kind (ci_type old) \<in> {KS3, KEmpty}" for x
    using that assms(4) by (auto simp: injected_sa_def cleaned_sa_def conn_defs)
  have key: "st_key st \<noteq> Some (ci_secret old)"
    if "conn_kind (ci_type old) \<in> {KS3, KEmpty}"
      "injected_model req c u (cleaned_model old m) = Some m'" "ms_storage m' = Some st" for m m' st
    using that assms(4)
    by (cases m) (auto simp: injected_model_def cleaned_model_def model_or_empty_def empty_model_def
        injectStorage_def split: conn_kind.splits if_splits)
  have pull: "ci_secret old \<notin> set (injected_pulls c (cleaned_pulls old l))"
    if "conn_kind (ci_type old) \<in> {KOci, KEmpty}" for l
    using that assms(4) named by (auto simp: injected_pulls_def cleaned_pulls_def conn_defs)
  show ?thesis using sa key pull by (simp add: j injected_isvc_def performISVCCleanup_eq) blast
qed

definition stored_isvc :: "string \<Rightarrow> string \<Rightarrow> isvc" where
  "stored_isvc conn path = set_model (Some (empty_model\<lparr>ms_storage :=
       Some \<lparr>st_key = Some ''old'', st_path = Some path\<rparr>\<rparr>))
     (set_pod (\<lambda>p. p\<lparr>ps_service_account := ''old-sa''\<rparr>)
       (set_meta (\<lambda>m. m\<lparr>om_annotations := [(AnnotationConnections, conn), (AnnotationInjectedConnectionType, ''s3'')]\<rparr>)
         plain_isvc))"

definition update_request :: "isvc \<Rightarrow> isvc admission_request" where
  "update_request old = \<lparr>rq_operation = Update, rq_namespace = ''ns'', rq_dry_run = None,
     rq_old = Some \<lparr>raw_partial = Some (is_meta old), raw_metadata = Some (is_meta old),
       raw_unstructured = Some (is_meta old), raw_typed = Some old\<rparr>\<rparr>"

definition old_conn :: connection_info where
  "old_conn = \<lparr>ci_secret = ''old'', ci_type = ''s3'', ci_path = ''''\<rparr>"

definition new_conn :: connection_info where
  "new_conn = \<lparr>ci_secret = ''conn'', ci_type = ''s3'', ci_path = ''''\<rparr>"

lemma switch_decision:
  "connection_decision s3_env (update_request (stored_isvc ''old'' a)) (stored_isvc ''conn'' b) =
     Inr (ActionReplace, old_conn, new_conn, Some (conn_secret ''conn'' ''s3''))"
  by (simp add: connection_decision_def connection_choice_def ValidateConnectionAnnotation_def ValidateConnectionType_def
      GetOldConnectionInfo_def DetermineAction_def m_str_def isvc_examples stored_isvc_def isvc_setters
      update_request_def annotation_names connection_types old_conn_def new_conn_def)

lemma switch_result:
  "\<exists>w j. applyConnectionsAPI s3_env (update_request (stored_isvc ''old'' a)) (stored_isvc ''conn'' b) = (w, Inr j) \<and>
     ps_service_account (isvc_pod j) = ''conn-sa'' \<and>
     isvc_model j = Some (empty_model\<lparr>ms_storage := Some \<lparr>st_key = Some ''conn'',
       st_path = (if a = '''' then None else Some a)\<rparr>\<rparr>)"
  unfolding applyConnectionsAPI_eq switch_decision
  by (simp add: dispatchISVC_def CreateServiceAccountIfNeeded_def createSA_def s3_env_def new_conn_def performISVCInjection_eq performISVCCleanup_eq injected_isvc_def conn_kind_def
      injected_sa_def cleaned_sa_def conn_defs injected_model_def cleaned_model_def model_or_empty_def
      stored_isvc_def old_conn_def update_request_def oldStoragePath_def injectStorage_def
      connection_types is_dry_run_def empty_model_def plain_isvc_def empty_meta_def)

theorem replace_forgets_old_witness:
  "\<exists>w j. applyConnectionsAPI s3_env (update_request (stored_isvc ''old'' ''a'')) (stored_isvc ''conn'' ''b'') = (w, Inr j) \<and>
     ps_service_account (isvc_pod j) \<noteq> ''old-sa''"
proof -
  from switch_result [of "''a''" "''b''"] obtain w j where
    j: "applyConnectionsAPI s3_env (update_request (stored_isvc ''old'' ''a'')) (stored_isvc ''conn'' ''b'') = (w, Inr j)"
    by blast
  have "ps_service_account (isvc_pod j) \<noteq> ''old-sa''"
    using replace_forgets_old [OF j _ switch_decision]
    by (simp add: stored_isvc_def isvc_examples old_conn_def new_conn_def conn_kind_def)
  with j show ?thesis by blast
qed

text \<open>
  The comment on the storage path gives a path the user set priority over the path of
  the old spec. When an update switches from one S3 connection to another and sets a new path in
  the spec, the cleanup of the old connection drops the whole storage section first, so the
  injection finds no path and restores the path of the old object: the user's path is lost.
\<close>

theorem replace_discards_new_path:
  "\<exists>w j m st. applyConnectionsAPI s3_env (update_request (stored_isvc ''old'' ''old/path''))
       (stored_isvc ''conn'' ''new/path'') = (w, Inr j) \<and>
     isvc_model j = Some m \<and> ms_storage m = Some st \<and> st_path st = Some ''old/path''"
  using switch_result [of "''old/path''" "''new/path''"] by auto

end
