(* ===== verification/Admission.thy ===== *)
theory Admission
  imports Prelude
begin

text \<open>
  The contract of a mutating admission stage. A stage maps an object to an error, which blocks the
  admission, or to the mutated object. The API server may call a mutating webhook again
  with its own output, so a stage has to be stable there. Webhooks run several stages in a row;
  the second locale says when the sequence is a stage again.
\<close>

definition then_stage :: "('o \<Rightarrow> 'e + 'p) \<Rightarrow> ('p \<Rightarrow> 'e + 'q) \<Rightarrow> 'o \<Rightarrow> 'e + 'q" where
  "then_stage f g i = (case f i of Inl e \<Rightarrow> Inl e | Inr j \<Rightarrow> g j)"

definition map_error :: "('e \<Rightarrow> 'f) \<Rightarrow> 'e + 'a \<Rightarrow> 'f + 'a" where
  "map_error h r = (case r of Inl e \<Rightarrow> Inl (h e) | Inr x \<Rightarrow> Inr x)"

lemma map_error_Inr [simp]: "map_error h r = Inr x \<longleftrightarrow> r = Inr x"
  by (simp add: map_error_def split: sum.split)

locale admission_stage =
  fixes stage :: "'o \<Rightarrow> 'e + 'o"
  assumes reinvoked: "stage i = Inr j \<Longrightarrow> stage j = Inr j"
begin

lemma output_iff_fixed: "(\<exists>i. stage i = Inr j) \<longleftrightarrow> stage j = Inr j"
  using reinvoked by blast

lemma reinvoked_any_number:
  "stage i = Inr j \<Longrightarrow> ((\<lambda>r. case r of Inl e \<Rightarrow> Inl e | Inr x \<Rightarrow> stage x) ^^ n) (Inr j) = Inr j"
  by (induction n) (simp_all add: reinvoked)

end

text \<open>The second stage has to leave the fixed points of the first alone.\<close>

locale admission_pipeline = first: admission_stage f + second: admission_stage g
  for f g :: "'o \<Rightarrow> 'e + 'o" +
  assumes undisturbed: "f j = Inr j \<Longrightarrow> g j = Inr k \<Longrightarrow> f k = Inr k"
begin

lemma pipeline_reinvoked: "then_stage f g i = Inr k \<Longrightarrow> then_stage f g k = Inr k"
proof -
  assume "then_stage f g i = Inr k"
  then obtain j where "f i = Inr j" "g j = Inr k" by (auto simp: then_stage_def split: sum.splits)
  then have "f k = Inr k" "g k = Inr k"
    using first.reinvoked second.reinvoked undisturbed by blast+
  then show ?thesis by (simp add: then_stage_def)
qed

end

sublocale admission_pipeline \<subseteq> both: admission_stage "then_stage f g"
  by unfold_locales (rule pipeline_reinvoked)

end
