(* ===== verification/ISVC_Hardware.thy ===== *)
theory ISVC_Hardware
  imports ISVC_Webhook Admission
begin

text \<open>
  The hardware-profile half of the InferenceService defaulter, its validators, and the whole
  defaulter: what is proved of \<open>applyHardwareProfile\<close>, \<open>ValidateCreate\<close>,
  \<open>ValidateUpdate\<close> and \<open>Default\<close> of inferenceservice_webhook.go.
\<close>

section \<open>Lemmas: the claim step\<close>

definition claim_blocked :: "bool \<Rightarrow> string \<Rightarrow> bool \<Rightarrow> pod_spec \<Rightarrow> isvc_error option" where
  "claim_blocked old t has_model p =
     (if t = '''' then None else if \<not> has_model then Some DRARequiresModel
      else map_option ClaimError (ValidateDRAContainerClaims (dropped old (ps_containers p))
        (dropped old (ps_init p)) (dropped old (ps_ephemeral p)) None))"

definition with_resources :: "resource_reqs option \<Rightarrow> model_spec option \<Rightarrow> model_spec option" where
  "with_resources res m = map_option (\<lambda>x. case res of None \<Rightarrow> x | Some r \<Rightarrow> x\<lparr>ms_resources := r\<rparr>) m"

definition with_claims :: "bool \<Rightarrow> pod_claim list \<Rightarrow> resource_reqs option \<Rightarrow> isvc \<Rightarrow> isvc" where
  "with_claims old claims res i =
     set_model (with_resources res (isvc_model i))
       (set_pod (\<lambda>p. p\<lparr>ps_containers := dropped old (ps_containers p), ps_init := dropped old (ps_init p),
          ps_ephemeral := dropped old (ps_ephemeral p), ps_claims := claims\<rparr>) i)"

lemma reconcile_eq:
  "reconcileISVCHardwareProfileDRA i old t ch =
     (if \<not> ch then Inr i
      else (case claim_blocked old t (isvc_model i \<noteq> None) (isvc_pod i) of
          Some e \<Rightarrow> Inl e
        | None \<Rightarrow> (case ReconcileDRAClaims (ps_claims (isvc_pod i)) (map_option ms_resources (isvc_model i)) old t True of
            Inl e \<Rightarrow> Inl (ClaimError e)
          | Inr (claims, res) \<Rightarrow> Inr (with_claims old claims res i))))"
  by (cases old) (auto simp: reconcileISVCHardwareProfileDRA_def claim_blocked_def with_claims_def
      with_resources_def dropped_def RemoveDRAContainerClaims_def isvc_setters map_option_case
      split: option.splits sum.splits)

lemma reconcile_stable:
  assumes "reconcileISVCHardwareProfileDRA i old t ch = Inr j"
  shows "reconcileISVCHardwareProfileDRA j old t ch = Inr j"
proof (cases ch)
  case True
  let ?res = "map_option ms_resources (isvc_model i)"
  from assms True obtain claims res where
    b: "claim_blocked old t (isvc_model i \<noteq> None) (isvc_pod i) = None"
    and r: "ReconcileDRAClaims (ps_claims (isvc_pod i)) ?res old t True = Inr (claims, res)"
    and j: "j = with_claims old claims res i"
    by (auto simp: reconcile_eq split: option.splits sum.splits)
  from ReconcileDRAClaims_shape [OF r]
  have res: "map_option ms_resources (with_resources res (isvc_model i)) = res"
    by (cases "isvc_model i"; cases res) (auto simp: with_resources_def)
  have b2: "claim_blocked old t (isvc_model j \<noteq> None) (isvc_pod j) = None"
    using b by (simp add: j with_claims_def with_resources_def claim_blocked_def split: if_splits)
  have "with_claims old claims res j = j"
    by (cases "isvc_model i"; cases res)
      (auto simp: j with_claims_def with_resources_def intro!: isvc_eqI)
  with ReconcileDRAClaims_stable [OF r] b2 True show ?thesis
    by (simp add: reconcile_eq) (simp add: j with_claims_def res)
qed (use assms in \<open>simp add: reconcile_eq\<close>)

lemma with_claims_id:
  "with_claims old claims res i = i \<longleftrightarrow>
     with_resources res (isvc_model i) = isvc_model i \<and> claims = ps_claims (isvc_pod i) \<and>
     dropped old (ps_containers (isvc_pod i)) = ps_containers (isvc_pod i) \<and>
     dropped old (ps_init (isvc_pod i)) = ps_init (isvc_pod i) \<and>
     dropped old (ps_ephemeral (isvc_pod i)) = ps_ephemeral (isvc_pod i)"
  (is "?l \<longleftrightarrow> ?r")
proof
  assume ?l
  then have "isvc_model (with_claims old claims res i) = isvc_model i"
    "isvc_pod (with_claims old claims res i) = isvc_pod i" by simp_all
  then show ?r
    by (simp add: with_claims_def) (metis pod_spec.surjective pod_spec.select_convs(1-4) pod_spec.update_convs(1-4))
next
  assume ?r
  then show ?l by (auto simp: with_claims_def intro!: isvc_eqI)
qed

text \<open>The part of an object the claim step reads.\<close>

definition claim_view :: "isvc \<Rightarrow> container list \<times> container list \<times> container list \<times> pod_claim list
     \<times> container_claim list option" where
  "claim_view i = (ps_containers (isvc_pod i), ps_init (isvc_pod i), ps_ephemeral (isvc_pod i),
     ps_claims (isvc_pod i), map_option (\<lambda>m. rr_claims (ms_resources m)) (isvc_model i))"

lemma reconcile_fixed_cong:
  assumes fixed: "reconcileISVCHardwareProfileDRA i old t ch = Inr i" and view: "claim_view k = claim_view i"
  shows "reconcileISVCHardwareProfileDRA k old t ch = Inr k"
proof (cases ch)
  case True
  let ?res = "\<lambda>x. map_option ms_resources (isvc_model x)"
  from fixed True obtain claims res where
    b: "claim_blocked old t (isvc_model i \<noteq> None) (isvc_pod i) = None"
    and r: "ReconcileDRAClaims (ps_claims (isvc_pod i)) (?res i) old t True = Inr (claims, res)"
    and j: "with_claims old claims res i = i"
    by (auto simp: reconcile_eq split: option.splits sum.splits)
  note id = j [unfolded with_claims_id]
  have "res = ?res i"
    using ReconcileDRAClaims_shape [OF r] id
    by (cases "isvc_model i"; cases res) (auto simp: with_resources_def dest: arg_cong [where f = ms_resources])
  with r id have r1: "ReconcileDRAClaims (ps_claims (isvc_pod i)) (?res i) old t True = Inr (ps_claims (isvc_pod i), ?res i)"
    by simp
  have "map_option rr_claims (?res k) = map_option rr_claims (?res i)"
    using view by (simp add: claim_view_def option.map_comp comp_def)
  from ReconcileDRAClaims_fixed_cong [OF r1 this]
  have "ReconcileDRAClaims (ps_claims (isvc_pod k)) (?res k) old t True = Inr (ps_claims (isvc_pod k), ?res k)"
    using view by (simp add: claim_view_def)
  moreover have "with_resources (?res k) (isvc_model k) = isvc_model k"
    by (cases "isvc_model k") (auto simp: with_resources_def)
  with id view have "with_claims old (ps_claims (isvc_pod k)) (?res k) k = k"
    by (simp add: with_claims_id claim_view_def)
  moreover have "isvc_model k = None \<longleftrightarrow> isvc_model i = None"
    using view by (cases "isvc_model k"; cases "isvc_model i") (auto simp: claim_view_def)
  with b view have "claim_blocked old t (isvc_model k \<noteq> None) (isvc_pod k) = None"
    by (auto simp: claim_blocked_def claim_view_def split: if_splits)
  ultimately show ?thesis using True by (simp add: reconcile_eq)
qed (simp add: reconcile_eq)

section \<open>Lemmas: scheduling\<close>

definition profile_model :: "resolved_profile \<Rightarrow> model_spec option \<Rightarrow> model_spec option" where
  "profile_model p m = map_option (\<lambda>x. case ApplyToIsvcResources p (Some (ms_resources x)) of
     None \<Rightarrow> x | Some r \<Rightarrow> x\<lparr>ms_resources := r\<rparr>) m"

lemma applyProfileISVC_sel:
  "is_meta (applyProfileISVC p ch n i) = profile_meta p ch n (is_meta i)"
  "isvc_model (applyProfileISVC p ch n i) = profile_model p (isvc_model i)"
  "isvc_pod (applyProfileISVC p ch n i) =
     (let s = profile_sched p ch n (ps_node_selector (isvc_pod i), ps_tolerations (isvc_pod i))
      in (isvc_pod i)\<lparr>ps_node_selector := fst s, ps_tolerations := snd s\<rparr>)"
  "is_canaries (applyProfileISVC p ch n i) = is_canaries i"
  by (auto simp: applyProfileISVC_def profile_meta_def profile_model_def profile_sched_def
      SetNodeScheduling_def map_option_case split: prod.splits option.splits)

lemma profile_model_stable: "profile_model p (profile_model p m) = profile_model p m"
  by (cases m) (auto simp: profile_model_def split: option.splits dest: ApplyToIsvcResources_stable)

lemma applyProfileISVC_stable: "applyProfileISVC p ch n (applyProfileISVC p ch n i) = applyProfileISVC p ch n i"
  by (auto simp: applyProfileISVC_sel profile_model_stable profile_meta_stable profile_sched_stable intro!: isvc_eqI)

lemma applyProfileISVC_view: "claim_view (applyProfileISVC p ch n i) = claim_view i"
  by (cases "isvc_model i")
    (auto simp: claim_view_def applyProfileISVC_sel profile_model_def split: option.split
      dest: ApplyToIsvcResources_claims)

lemma handleHWPRemovalISVC_cases:
  "handleHWPRemovalISVC env req i = i \<and> (\<forall>j. handleHWPRemovalISVC env req j = j) \<or>
   (\<forall>j. handleHWPRemovalISVC env req j = set_meta unstamp j) \<or>
   (\<exists>p. \<forall>j. handleHWPRemovalISVC env req j =
      set_meta (\<lambda>m. unstamp (if rp_queue p \<noteq> '''' then RemoveKueueLabel m else m))
        (set_pod (\<lambda>q. q\<lparr>ps_node_selector := fst (RemoveNodeScheduling p (ps_node_selector q) (ps_tolerations q)),
            ps_tolerations := snd (RemoveNodeScheduling p (ps_node_selector q) (ps_tolerations q))\<rparr>) j))"
proof -
  have u: "(\<lambda>m. m\<lparr>om_annotations := m_del HardwareProfileAnnotationNamespace (om_annotations m)\<rparr>) = unstamp"
    by (simp add: unstamp_def fun_eq_iff)
  show ?thesis
    by (simp add: handleHWPRemovalISVC_def u isvc_setters split_def
        split: option.split sum.split)
      (intro conjI impI allI exI disjI2, auto simp: unstamp_def)
qed

lemma handleHWPRemovalISVC_stable:
  "handleHWPRemovalISVC env req (handleHWPRemovalISVC env req i) = handleHWPRemovalISVC env req i"
proof -
  have r: "RemoveNodeScheduling p (fst (RemoveNodeScheduling p a b)) (snd (RemoveNodeScheduling p a b)) =
      RemoveNodeScheduling p a b" for p a b
    using RemoveNodeScheduling_stable [of p a b] by (simp add: prod_eq_iff)
  show ?thesis
    using handleHWPRemovalISVC_cases [of env req i]
  proof (elim disjE exE conjE)
    fix p
    assume "\<forall>j. handleHWPRemovalISVC env req j =
      set_meta (\<lambda>m. unstamp (if rp_queue p \<noteq> '''' then RemoveKueueLabel m else m))
        (set_pod (\<lambda>q. q\<lparr>ps_node_selector := fst (RemoveNodeScheduling p (ps_node_selector q) (ps_tolerations q)),
            ps_tolerations := snd (RemoveNodeScheduling p (ps_node_selector q) (ps_tolerations q))\<rparr>) j)"
    then show ?thesis by (auto simp: r intro!: isvc_eqI)
  qed (auto intro!: isvc_eqI)
qed

lemma handleHWPRemovalISVC_frame:
  "claim_view (handleHWPRemovalISVC env req i) = claim_view i"
  "om_deleting (is_meta (handleHWPRemovalISVC env req i)) = om_deleting (is_meta i)"
  "m_str (om_annotations (is_meta (handleHWPRemovalISVC env req i))) HardwareProfileAnnotationName =
     m_str (om_annotations (is_meta i)) HardwareProfileAnnotationName"
  using handleHWPRemovalISVC_cases [of env req i]
  by (auto simp: claim_view_def unstamp_def RemoveKueueLabel_def hwp_names split: if_splits)

lemma reconcile_meta: "reconcileISVCHardwareProfileDRA i old t ch = Inr j \<Longrightarrow> is_meta j = is_meta i"
  by (auto simp: reconcile_eq with_claims_def split: if_splits option.splits sum.splits)

lemma applyHardwareProfile_removed:
  assumes "\<not> om_deleting (is_meta i)" "m_str (om_annotations (is_meta i)) HardwareProfileAnnotationName = ''''"
  shows "applyHardwareProfile env req i =
    (case ProfileReferenceChangedFromRequest req (is_meta i) True of
       Inl e \<Rightarrow> Inl (ReferenceError e)
     | Inr (old, ch) \<Rightarrow> (case reconcileISVCHardwareProfileDRA i (old \<noteq> '''') '''' ch of
         Inl e \<Rightarrow> Inl e
       | Inr j \<Rightarrow> Inr (if rq_operation req = Update then handleHWPRemovalISVC env req j else j)))"
  using assms by (simp add: applyHardwareProfile_def ProfileRef_def split: sum.split prod.split)

lemma applyHardwareProfile_Inr:
  assumes "applyHardwareProfile env req i = Inr j" and "\<not> om_deleting (is_meta i)"
    and ref: "ProfileRef (om_annotations (is_meta i)) (om_namespace (is_meta i)) = (n, ns)" and "n \<noteq> ''''"
  obtains old ch p k where
    "ProfileReferenceChangedFromRequest req (is_meta i) True = Inr (old, ch)"
    "Resolve (env_lib env) (env_profile env) n ns = Inr (Some p)"
    "reconcileISVCHardwareProfileDRA (set_meta (stampNamespace ns) i) (old \<noteq> '''') (rp_template p) ch = Inr k"
    "j = applyProfileISVC p (ProfileChanged req n ns) n k"
  using assms by (auto simp: applyHardwareProfile_def split: sum.splits option.splits hwp_error.splits api_error.splits)

lemma applyHardwareProfile_stable:
  assumes app: "applyHardwareProfile env req i = Inr j"
  shows "applyHardwareProfile env req j = Inr j"
proof (cases "om_deleting (is_meta i)")
  case nd: False
  obtain n ns where ref: "ProfileRef (om_annotations (is_meta i)) (om_namespace (is_meta i)) = (n, ns)"
    by (cases "ProfileRef (om_annotations (is_meta i)) (om_namespace (is_meta i))")
  show ?thesis
  proof (cases "n = ''''")
    case True
    then have n: "m_str (om_annotations (is_meta i)) HardwareProfileAnnotationName = ''''"
      using ref by (simp add: ProfileRef_def)
    from app obtain old ch k where
      r: "ProfileReferenceChangedFromRequest req (is_meta i) True = Inr (old, ch)"
      and k: "reconcileISVCHardwareProfileDRA i (old \<noteq> '''') '''' ch = Inr k"
      and j: "j = (if rq_operation req = Update then handleHWPRemovalISVC env req k else k)"
      by (auto simp: applyHardwareProfile_removed [OF nd n] split: sum.splits)
    have meta: "is_meta k = is_meta i" using reconcile_meta [OF k] .
    have jn: "\<not> om_deleting (is_meta j)" "m_str (om_annotations (is_meta j)) HardwareProfileAnnotationName = ''''"
      using nd n by (simp_all add: j meta handleHWPRemovalISVC_frame)
    have "ProfileReferenceChangedFromRequest req (is_meta j) True = Inr (old, ch)"
      using reference_removed [OF jn(2) n, of req True] r by simp
    moreover have "reconcileISVCHardwareProfileDRA j (old \<noteq> '''') '''' ch = Inr j"
      by (rule reconcile_fixed_cong [OF reconcile_stable [OF k]]) (simp add: j handleHWPRemovalISVC_frame)
    ultimately show ?thesis
      unfolding applyHardwareProfile_removed [OF jn] by (simp add: j handleHWPRemovalISVC_stable)
  next
    case False
    from applyHardwareProfile_Inr [OF app nd ref False] obtain old ch p k where
      r: "ProfileReferenceChangedFromRequest req (is_meta i) True = Inr (old, ch)"
      and p: "Resolve (env_lib env) (env_profile env) n ns = Inr (Some p)"
      and k: "reconcileISVCHardwareProfileDRA (set_meta (stampNamespace ns) i) (old \<noteq> '''') (rp_template p) ch = Inr k"
      and j: "j = applyProfileISVC p (ProfileChanged req n ns) n k" .
    have meta: "is_meta k = stampNamespace ns (is_meta i)" using reconcile_meta [OF k] by simp
    have jmeta: "\<not> om_deleting (is_meta j)" "ProfileRef (om_annotations (is_meta j)) (om_namespace (is_meta j)) = (n, ns)"
      using nd ProfileRef_stamp [OF ref] by (simp_all add: j applyProfileISVC_sel meta)
    have stamped: "set_meta (stampNamespace ns) j = j"
      using stamp_fixed [OF stamp_stable [OF ref], of "is_meta j"]
      by (simp add: j applyProfileISVC_sel meta set_meta_def)
    have "ProfileReferenceChangedFromRequest req (is_meta j) True = Inr (old, ch)"
      using reference_cong [of "is_meta j" "is_meta i" req True] jmeta ref r by simp
    moreover have "reconcileISVCHardwareProfileDRA j (old \<noteq> '''') (rp_template p) ch = Inr j"
      by (rule reconcile_fixed_cong [OF reconcile_stable [OF k]]) (simp add: j applyProfileISVC_view)
    ultimately show ?thesis
      using jmeta False p by (simp add: applyHardwareProfile_def stamped) (simp add: j applyProfileISVC_stable)
  qed
qed (use app in \<open>simp add: applyHardwareProfile_def\<close>)

interpretation hardware_stage: admission_stage "applyHardwareProfile env req" for env req
  by unfold_locales (rule applyHardwareProfile_stable)

interpretation connection_stage: admission_stage
  "\<lambda>i. map_error ConnectionError (snd (applyConnectionsAPI env req i))" for env req
  by unfold_locales (simp, metis isvc_target.apply_stable prod.collapse snd_conv)

section \<open>Lemmas: the two stages together\<close>

text \<open>What the hardware stage leaves alone: all that the connection stage reads and writes.\<close>

definition connection_view :: "isvc \<Rightarrow> bool \<times> string list \<times> string \<times> (string option \<times> storage_spec option) option" where
  "connection_view i = (om_deleting (is_meta i), ps_pull_secrets (isvc_pod i), ps_service_account (isvc_pod i),
     map_option (\<lambda>m. (ms_uri m, ms_storage m)) (isvc_model i))"

definition other_annotations :: "string gomap \<Rightarrow> string gomap \<Rightarrow> bool" where
  "other_annotations a b \<longleftrightarrow> (\<forall>k. k \<noteq> HardwareProfileAnnotationNamespace \<longrightarrow> map_of b k = map_of a k) \<and>
     (\<forall>t. m_put AnnotationInjectedConnectionType t a = a \<longrightarrow> m_put AnnotationInjectedConnectionType t b = b)"

lemma put_fixed_present: "m_put k v m = m \<Longrightarrow> map_of m k = Some v"
  by (metis map_of_put)

lemma m_put_del_fixed: "m_put k v m = m \<Longrightarrow> k \<noteq> l \<Longrightarrow> m_put k v (m_del l m) = m_del l m"
  by (metis AList.delete_update)

lemma other_annotations_refl [simp]: "other_annotations a a"
  by (simp add: other_annotations_def)

lemma other_annotations_put [simp]: "other_annotations a (m_put HardwareProfileAnnotationNamespace v a)"
proof -
  have "m_put AnnotationInjectedConnectionType t (m_put HardwareProfileAnnotationNamespace v a) =
      m_put HardwareProfileAnnotationNamespace v a"
    if "m_put AnnotationInjectedConnectionType t a = a" for t
    using that m_put_commute [of a AnnotationInjectedConnectionType HardwareProfileAnnotationNamespace t v]
      put_fixed_present [OF that] by (simp add: annotation_names hwp_names)
  then show ?thesis by (simp add: other_annotations_def)
qed

lemma other_annotations_del [simp]: "other_annotations a (m_del HardwareProfileAnnotationNamespace a)"
  by (simp add: other_annotations_def) (simp add: m_put_del_fixed annotation_names hwp_names)

lemma reconcile_connection_view:
  "reconcileISVCHardwareProfileDRA i old t ch = Inr j \<Longrightarrow> connection_view j = connection_view i"
  by (cases "isvc_model i")
    (auto simp: reconcile_eq with_claims_def with_resources_def connection_view_def
      split: if_splits option.splits sum.splits)

lemma applyProfile_connection_view: "connection_view (applyProfileISVC p ch n i) = connection_view i"
  by (cases "isvc_model i")
    (auto simp: connection_view_def applyProfileISVC_sel profile_model_def split: option.split)

lemma removal_connection_view:
  "connection_view (handleHWPRemovalISVC env req i) = connection_view i"
  "other_annotations (om_annotations (is_meta i)) (om_annotations (is_meta (handleHWPRemovalISVC env req i)))"
  using handleHWPRemovalISVC_cases [of env req i]
  by (auto simp: connection_view_def unstamp_def RemoveKueueLabel_def split: if_splits)

lemma hardware_frame:
  assumes "applyHardwareProfile env req i = Inr j"
  shows "connection_view j = connection_view i \<and>
     other_annotations (om_annotations (is_meta i)) (om_annotations (is_meta j))"
proof (cases "om_deleting (is_meta i)")
  case nd: False
  obtain n ns where ref: "ProfileRef (om_annotations (is_meta i)) (om_namespace (is_meta i)) = (n, ns)"
    by (cases "ProfileRef (om_annotations (is_meta i)) (om_namespace (is_meta i))")
  show ?thesis
  proof (cases "n = ''''")
    case True
    then have n: "m_str (om_annotations (is_meta i)) HardwareProfileAnnotationName = ''''"
      using ref by (simp add: ProfileRef_def)
    from assms obtain old ch k where
      "ProfileReferenceChangedFromRequest req (is_meta i) True = Inr (old, ch)"
      and k: "reconcileISVCHardwareProfileDRA i (old \<noteq> '''') '''' ch = Inr k"
      and j: "j = (if rq_operation req = Update then handleHWPRemovalISVC env req k else k)"
      by (auto simp: applyHardwareProfile_removed [OF nd n] split: sum.splits)
    from reconcile_meta [OF k] reconcile_connection_view [OF k] removal_connection_view(1) [of env req k] removal_connection_view(2) [of k env req]
    show ?thesis by (simp add: j)
  next
    case False
    from applyHardwareProfile_Inr [OF assms nd ref False] obtain old ch p k where
      "ProfileReferenceChangedFromRequest req (is_meta i) True = Inr (old, ch)"
      "Resolve (env_lib env) (env_profile env) n ns = Inr (Some p)"
      and k: "reconcileISVCHardwareProfileDRA (set_meta (stampNamespace ns) i) (old \<noteq> '''') (rp_template p) ch = Inr k"
      and j: "j = applyProfileISVC p (ProfileChanged req n ns) n k" .
    from reconcile_meta [OF k] reconcile_connection_view [OF k] show ?thesis
      by (simp add: j applyProfile_connection_view applyProfileISVC_sel)
        (simp add: connection_view_def stampNamespace_def)
  qed
qed (use assms in \<open>simp add: applyHardwareProfile_def\<close>)

definition creating :: "isvc admission_request \<Rightarrow> isvc admission_request" where
  "creating req = req\<lparr>rq_operation := Create\<rparr>"

lemma hardware_decision_cong:
  assumes "other_annotations (om_annotations (is_meta j)) (om_annotations (is_meta k))"
  shows "connection_decision env req k = connection_decision env req j"
proof -
  from assms have "ValidateConnectionAnnotation get (is_meta k) ns = ValidateConnectionAnnotation get (is_meta j) ns"
    for get ns
    by (intro ValidateConnectionAnnotation_cong)
      (simp_all add: other_annotations_def m_str_def annotation_names hwp_names)
  then show ?thesis by (simp add: connection_decision_def connection_choice_def)
qed

lemma injected_fixed:
  assumes fixed: "injected_isvc req c u j = j" and view: "connection_view k = connection_view j"
    and ann: "other_annotations (om_annotations (is_meta j)) (om_annotations (is_meta k))"
  shows "injected_isvc req c u k = k"
proof (rule isvc_eqI)
  from fixed have "is_meta (injected_isvc req c u j) = is_meta j" by simp
  then have "m_put AnnotationInjectedConnectionType (ci_type c) (om_annotations (is_meta j)) = om_annotations (is_meta j)"
    by (simp add: injected_isvc_def SetInjectedConnectionType_def) (metis object_meta.select_convs(5) object_meta.surjective object_meta.update_convs(5))
  with ann show "is_meta (injected_isvc req c u k) = is_meta k"
    by (simp add: injected_isvc_def SetInjectedConnectionType_def other_annotations_def)
  from fixed have "isvc_pod (injected_isvc req c u j) = isvc_pod j" by simp
  then have "injected_pulls c (ps_pull_secrets (isvc_pod j)) = ps_pull_secrets (isvc_pod j)"
    "injected_sa c (ps_service_account (isvc_pod j)) = ps_service_account (isvc_pod j)"
    by (simp_all add: injected_isvc_def)
      (metis pod_spec.select_convs(7,8) pod_spec.surjective pod_spec.update_convs(7,8))+
  with view show "isvc_pod (injected_isvc req c u k) = isvc_pod k"
    by (simp add: injected_isvc_def connection_view_def)
  from fixed have "isvc_model (injected_isvc req c u j) = isvc_model j" by simp
  then have mj: "injected_model req c u (isvc_model j) = isvc_model j" by (simp add: injected_isvc_def)
  have "injected_model req c u (isvc_model k) = isvc_model k"
  proof (cases "isvc_model j")
    case None
    with mj view show ?thesis
      by (cases "isvc_model k") (auto simp: injected_model_def connection_view_def split: conn_kind.splits)
  next
    case (Some m)
    with view obtain m' where m': "isvc_model k = Some m'" "ms_uri m' = ms_uri m" "ms_storage m' = ms_storage m"
      by (cases "isvc_model k") (auto simp: connection_view_def)
    from mj Some have eqs: "conn_kind (ci_type c) = KUri \<Longrightarrow> ms_uri m = u"
      "conn_kind (ci_type c) = KS3 \<Longrightarrow> ms_storage m = Some (injectStorage c (oldStoragePath req) (ms_storage m))"
      by (auto simp: injected_model_def model_or_empty_def dest: arg_cong [where f = ms_uri] arg_cong [where f = ms_storage])
    show ?thesis
      by (cases "conn_kind (ci_type c)")
        (use eqs m' in \<open>auto simp: injected_model_def model_or_empty_def intro: model_spec.equality\<close>)
  qed
  then show "isvc_model (injected_isvc req c u k) = isvc_model k" by (simp add: injected_isvc_def)
qed (simp add: injected_isvc_def)

lemma create_undisturbed:
  assumes fixed: "snd (applyConnectionsAPI env (creating req) j) = Inr j"
    and hw: "applyHardwareProfile env (creating req) j = Inr k"
  shows "applyConnectionsAPI env (creating req) k = (fst (applyConnectionsAPI env (creating req) j), Inr k)"
proof (cases "om_deleting (is_meta j)")
  case nd: False
  from hardware_frame [OF hw] have view: "connection_view k = connection_view j"
    and ann: "other_annotations (om_annotations (is_meta j)) (om_annotations (is_meta k))" by auto
  from view nd have ndk: "\<not> om_deleting (is_meta k)" by (simp add: connection_view_def)
  note dec = hardware_decision_cong [OF ann, of env "creating req"]
  from fixed nd obtain a old c s where d: "connection_decision env (creating req) j = Inr (a, old, c, s)"
    and disp: "snd (dispatchISVC env (creating req) a old c s j) = Inr j"
    by (auto simp: applyConnectionsAPI_eq split: sum.splits)
  have act: "a = ActionNone \<or> a = ActionInject"
    using d by (auto simp: connection_decision_def connection_choice_def creating_def split: sum.splits if_splits)
  have inj: "performISVCInjection (creating req) k c s = Inr k" if "performISVCInjection (creating req) j c s = Inr j"
    using that by (auto simp: performISVCInjection_eq split: conn_kind.splits option.splits sum.splits
        intro: injected_fixed [OF _ view ann])
  from act disp inj have "dispatchISVC env (creating req) a old c s k =
      (fst (dispatchISVC env (creating req) a old c s j), Inr k)"
    by (auto simp: dispatchISVC_def split: prod.splits option.splits)
  with d dec nd ndk show ?thesis by (simp add: applyConnectionsAPI_eq)
qed (use hw in \<open>simp add: applyHardwareProfile_def applyConnectionsAPI_eq\<close>)

interpretation create_pipeline: admission_pipeline
  "\<lambda>i. map_error ConnectionError (snd (applyConnectionsAPI env (creating req) i))"
  "applyHardwareProfile env (creating req)" for env req
  by unfold_locales (simp add: create_undisturbed)

lemma Default_stages:
  "snd (Default env (Inr req) i) =
     then_stage (\<lambda>i. map_error ConnectionError (snd (applyConnectionsAPI env req i))) (applyHardwareProfile env req) i"
  by (simp add: Default_def then_stage_def map_error_def split: prod.split sum.split)

lemma Default_writes: "fst (Default env (Inr req) i) = fst (applyConnectionsAPI env req i)"
  by (simp add: Default_def split: prod.split sum.split)

section \<open>Properties\<close>

text \<open>
  The hardware-profile step is idempotent: run again with the same request on its
  own output it accepts it and changes nothing, for a newly assigned, a kept, a switched
  and a removed profile alike.
\<close>

theorem applyHardwareProfile_idempotent:
  assumes "applyHardwareProfile env req i = Inr j"
  shows "applyHardwareProfile env req j = Inr j"
  using assms by (rule hardware_stage.reinvoked)

text \<open>
  Property C2. The whole defaulter is idempotent on creation: the hardware step does not undo
  what the connection step injected, so a second call on the admitted object returns it as it
  is and asks for the same ServiceAccount.
\<close>

theorem Default_create_idempotent:
  assumes "rq_operation req = Create" and "Default env (Inr req) i = (w, Inr j)"
  shows "Default env (Inr req) j = (w, Inr j)"
proof -
  have req: "creating req = req" using assms(1) by (simp add: creating_def)
  from assms(2) have s: "snd (Default env (Inr req) i) = Inr j" by simp
  have "snd (Default env (Inr req) j) = Inr j"
    using create_pipeline.pipeline_reinvoked [of env req i j] s unfolding req Default_stages by blast
  moreover from s obtain x where x: "applyConnectionsAPI env req i = (w, Inr x)" "applyHardwareProfile env req x = Inr j"
    using assms(2) by (auto simp: Default_def split: prod.splits sum.splits)
  from create_undisturbed [of env req x j] isvc_target.apply_stable [OF x(1)] x(2) req
  have "fst (Default env (Inr req) j) = w" by (simp add: Default_writes)
  ultimately show ?thesis by (simp add: prod_eq_iff)
qed

definition injected_default :: isvc where
  "injected_default = projr (snd (Default s3_env (Inr create_request) plain_isvc))"

lemma default_plain:
  "Default s3_env (Inr create_request) plain_isvc =
     ([\<lparr>sa_name = ''conn-sa'', sa_namespace = ''ns'', sa_secrets = [''conn'']\<rparr>], Inr injected_default)"
proof -
  have "is_meta injected_plain = (is_meta plain_isvc)\<lparr>om_annotations :=
      [(AnnotationConnections, ''conn''), (AnnotationInjectedConnectionType, ''s3'')]\<rparr>"
    by (simp add: injected_plain_def applyConnectionsAPI_eq connection_decision_def connection_choice_def
      ValidateConnectionAnnotation_def ValidateConnectionType_def m_str_def isvc_examples
      annotation_names connection_types dispatchISVC_def CreateServiceAccountIfNeeded_def createSA_def
      is_dry_run_def performISVCInjection_def conn_defs)
  then have "applyHardwareProfile s3_env create_request injected_plain = Inr injected_plain"
    by (simp add: applyHardwareProfile_def ProfileRef_def m_str_def annotation_names hwp_names
        ProfileReferenceChangedFromRequest_def ProfileReferenceChanged_def create_request_def
        reconcile_eq plain_isvc_def empty_meta_def)
  then show ?thesis by (simp add: Default_def plain_isvc_injected injected_default_def)
qed

theorem Default_create_idempotent_witness:
  "Default s3_env (Inr create_request) injected_default =
     ([\<lparr>sa_name = ''conn-sa'', sa_namespace = ''ns'', sa_secrets = [''conn'']\<rparr>], Inr injected_default)"
  by (rule Default_create_idempotent [OF _ default_plain]) (simp add: create_request_def)

theorem applyHardwareProfile_idempotent_witness:
  "applyHardwareProfile s3_env create_request injected_default = Inr injected_default"
proof -
  have "applyHardwareProfile s3_env create_request injected_plain = Inr injected_default"
    using default_plain by (simp add: Default_def plain_isvc_injected)
  then show ?thesis by (rule applyHardwareProfile_idempotent)
qed

text \<open>
  When an update switches the profile, the object's scheduling is exactly that
  of the new profile: with a Kueue profile the queue label is set and no node selector or
  toleration is left, with any other profile there is no queue label and the selector and the
  tolerations are those of the profile.
\<close>

theorem profile_switch_replaces_scheduling:
  assumes "applyHardwareProfile env req i = Inr j" and "\<not> om_deleting (is_meta i)"
    and "ProfileRef (om_annotations (is_meta i)) (om_namespace (is_meta i)) = (n, ns)" and "n \<noteq> ''''"
    and "ProfileChanged req n ns"
  shows "\<exists>p. Resolve (env_lib env) (env_profile env) n ns = Inr (Some p) \<and>
    map_of (om_labels (is_meta j)) KueueQueueNameLabel = (if rp_queue p = '''' then None else Some (rp_queue p)) \<and>
    ps_tolerations (isvc_pod j) = rp_tolerations p \<and>
    ps_node_selector (isvc_pod j) = m_putall (rp_node_selector p) []"
proof -
  from applyHardwareProfile_Inr [OF assms(1-4)] obtain old ch p k where
    "ProfileReferenceChangedFromRequest req (is_meta i) True = Inr (old, ch)"
    and p: "Resolve (env_lib env) (env_profile env) n ns = Inr (Some p)"
    and "reconcileISVCHardwareProfileDRA (set_meta (stampNamespace ns) i) (old \<noteq> '''') (rp_template p) ch = Inr k"
    and j: "j = applyProfileISVC p (ProfileChanged req n ns) n k" .
  from p have "rp_queue p \<noteq> '''' \<Longrightarrow> rp_node_selector p = [] \<and> rp_tolerations p = []"
    by (auto simp: Resolve_def dest: parseProfile_exclusive split: if_splits sum.splits)
  with p assms(5) show ?thesis
    by (auto simp: j applyProfileISVC_sel profile_meta_def profile_sched_def ApplyKueueLabel_def
        RemoveKueueLabel_def m_putall_def intro!: exI [of _ p])
qed

definition queue_lib :: unstructured_lib where
  "queue_lib = empty_lib\<lparr>nested_string := (\<lambda>_ path.
     if path = [''spec'', ''scheduling'', ''kueue'', ''localQueueName''] then Inr (Some ''q'') else Inr None)\<rparr>"

definition profile_env :: webhook_env where
  "profile_env = s3_env\<lparr>env_lib := queue_lib, env_profile := (\<lambda>_ _. Inr JNull)\<rparr>"

definition profiled :: "string \<Rightarrow> isvc" where
  "profiled n = set_pod (\<lambda>p. p\<lparr>ps_node_selector := [(''zone'', ''a'')]\<rparr>)
     (set_meta (\<lambda>m. m\<lparr>om_annotations := [(HardwareProfileAnnotationName, n)]\<rparr>) plain_isvc)"

theorem profile_switch_replaces_scheduling_witness:
  "\<exists>j. applyHardwareProfile profile_env (update_request (profiled ''old'')) (profiled ''new'') = Inr j \<and>
     map_of (om_labels (is_meta j)) KueueQueueNameLabel = Some ''q'' \<and> ps_node_selector (isvc_pod j) = []"
proof -
  let ?req = "update_request (profiled ''old'')"
  have ref: "ProfileRef (om_annotations (is_meta (profiled ''new''))) (om_namespace (is_meta (profiled ''new''))) = (''new'', ''ns'')"
    by (simp add: ProfileRef_def profiled_def m_str_def hwp_names plain_isvc_def empty_meta_def)
  have p: "Resolve (env_lib profile_env) (env_profile profile_env) ''new'' ''ns'' =
      Inr (Some (empty_profile\<lparr>rp_queue := ''q''\<rparr>))"
    by (simp add: Resolve_def profile_env_def queue_lib_def empty_lib_def parseProfile_def str_or_zero_def
        list_or_zero_def empty_profile_def)
  have ch: "ProfileChanged ?req ''new'' ''ns''"
    by (simp add: ProfileChanged_def ProfileReferenceChangedFromRequest_def ProfileReferenceChanged_def
        ProfileRef_def update_request_def profiled_def m_str_def hwp_names plain_isvc_def empty_meta_def)
  have rc: "ProfileReferenceChangedFromRequest ?req (is_meta (profiled ''new'')) True = Inr (''old'', True)"
    by (simp add: ProfileReferenceChangedFromRequest_def ProfileReferenceChanged_def
        ProfileRef_def update_request_def profiled_def m_str_def hwp_names plain_isvc_def empty_meta_def)
  have "\<exists>k. reconcileISVCHardwareProfileDRA x True '''' True = Inr k" for x
    by (simp add: reconcile_eq claim_blocked_def ReconcileDRAClaims_def)
  then obtain k where
    "reconcileISVCHardwareProfileDRA (set_meta (stampNamespace ''ns'') (profiled ''new'')) True '''' True = Inr k"
    by blast
  moreover have "rp_template (empty_profile\<lparr>rp_queue := ''q''\<rparr>) = ''''" by (simp add: empty_profile_def)
  moreover have nd: "\<not> om_deleting (is_meta (profiled ''new''))"
    by (simp add: profiled_def plain_isvc_def empty_meta_def)
  ultimately have j: "applyHardwareProfile profile_env ?req (profiled ''new'') =
      Inr (applyProfileISVC (empty_profile\<lparr>rp_queue := ''q''\<rparr>) (ProfileChanged ?req ''new'' ''ns'') ''new'' k)"
    by (simp add: applyHardwareProfile_def ref rc p)
  from profile_switch_replaces_scheduling [OF j nd ref _ ch] j p show ?thesis
    by (simp add: empty_profile_def m_putall_def)
qed

text \<open>
  The creation validator admits exactly the InferenceServices with a name of at
  most 53 characters, outside the namespace of the platform's applications, with at most three
  canaries, and whose hardware profile, if they name one, can be read and, if it has a resource
  claim template, comes with a model and an existing template.
\<close>

theorem ValidateCreate_accepts_iff:
  "ValidateCreate env app i = None \<longleftrightarrow>
     length (om_name (is_meta i)) \<le> 53 \<and>
     (\<exists>ns. app = Inr ns \<and> om_namespace (is_meta i) \<noteq> ns) \<and> is_canaries i \<le> 3 \<and>
     (case ProfileRef (om_annotations (is_meta i)) (om_namespace (is_meta i)) of (n, pns) \<Rightarrow>
        n = '''' \<or> (\<exists>p. Resolve (env_lib env) (env_profile env) n pns = Inr (Some p) \<and>
          (rp_template p = '''' \<or> isvc_model i \<noteq> None \<and>
             ValidateResourceClaimTemplate (env_template env) (rp_template p) (om_namespace (is_meta i)) = None)))"
  by (auto simp: ValidateCreate_def ValidateInferenceServiceNameLength_def MaxISVCLength_def
      validateCanaryCount_def maxCanaryCount_def validateHardwareProfileDRA_def ProfileReferenceChanged_def
      split: sum.splits option.splits prod.splits if_splits)

end
