(* ===== verification/LLM_Webhook.thy ===== *)
theory LLM_Webhook
  imports Connection_Target HWP_Stage
begin

text \<open>
  The LLMInferenceService webhook (internal/webhook/serving/v1alpha2/llminferenceservice_webhook.go),
  for both API versions: the code reaches the fields of either version through pointers, which are
  the fields of \<open>llmisvc\<close> here. The model URI, an \<open>apis.URL\<close>, is the text its \<open>String\<close>
  prints; \<open>le_parse_url\<close> stands for \<open>apis.ParseURL\<close> and gives that text again.
  \<open>le_managed_key\<close> is KServe's constant \<open>ManagedDRADeviceClassAnnotationKey\<close>.
\<close>

section \<open>Data\<close>

record llmisvc =
  ll_meta :: object_meta
  ll_uri :: string
  ll_template :: "pod_spec option"

record llm_env = webhook_env +
  le_parse_url :: "string \<Rightarrow> unit + string"
  le_managed_key :: string

datatype llm_error =
    LLMConnectionError conn_error
  | LLMReferenceError hwp_error
  | LLMProfileNotFound string string
  | LLMProfileFetchFailed hwp_error
  | ManagedDRAConflict
  | MainContainerRequired
  | LLMClaimError dra_error
  | LLMNoRequest
  | LLMNilProfile  \<comment> \<open>dereference of a nil profile, shown unreachable\<close>

text \<open>The fields of the warning event the code creates from its arguments.\<close>

record warning_event =
  ev_name :: string
  ev_namespace :: string
  ev_api :: string
  ev_kind :: string
  ev_object :: string
  ev_uid :: string
  ev_profile :: string

section \<open>Validation\<close>

definition validateLLMHardwareProfileDRA ::
  "llm_env \<Rightarrow> object_meta option \<Rightarrow> object_meta \<Rightarrow> pod_spec option \<Rightarrow> llm_error option" where
  "validateLLMHardwareProfileDRA env oldMeta meta template =
     (let (name, namespace) = ProfileRef (om_annotations meta) (om_namespace meta)
      in if name = '''' then None
         else (let changed = ProfileReferenceChanged oldMeta (Some meta) True;
                   active = (if \<not> changed then Inr (HasDRAClaim template, '''')
                     else (case Resolve (env_lib env) (env_profile env) name namespace of
                         Inl e \<Rightarrow> Inl (LLMProfileFetchFailed e)
                       | Inr None \<Rightarrow> Inl LLMNilProfile
                       | Inr (Some profile) \<Rightarrow> Inr (rp_template profile \<noteq> '''', rp_template profile)))
               in case active of
                    Inl e \<Rightarrow> Some e
                  | Inr (activeDRA, activeTemplate) \<Rightarrow>
                      if \<not> activeDRA then None
                      else if map_of (om_annotations meta) (le_managed_key env) \<noteq> None then Some ManagedDRAConflict
                      else if (case template of None \<Rightarrow> False
                               | Some p \<Rightarrow> ps_containers p \<noteq> [] \<and> mainContainerIndex (ps_containers p) = None)
                           then Some MainContainerRequired
                      else if changed
                           then map_option LLMClaimError
                             (ValidateResourceClaimTemplate (env_template env) activeTemplate (om_namespace meta))
                           else None))"

definition ValidateCreateLLM :: "llm_env \<Rightarrow> llmisvc \<Rightarrow> llm_error option" where
  "ValidateCreateLLM env obj = validateLLMHardwareProfileDRA env None (ll_meta obj) (ll_template obj)"

definition ValidateUpdateLLM :: "llm_env \<Rightarrow> llmisvc option \<Rightarrow> llmisvc \<Rightarrow> llm_error option" where
  "ValidateUpdateLLM env oldObj obj =
     validateLLMHardwareProfileDRA env (map_option ll_meta oldObj) (ll_meta obj) (ll_template obj)"

section \<open>Connections\<close>

definition pod_or_empty :: "pod_spec option \<Rightarrow> pod_spec" where
  "pod_or_empty t = (case t of None \<Rightarrow> empty_pod_spec | Some p \<Rightarrow> p)"

definition parsed_uri :: "llm_env \<Rightarrow> string \<Rightarrow> conn_error + string" where
  "parsed_uri env s = (case le_parse_url env s of Inl _ \<Rightarrow> Inl (InvalidURL s) | Inr u \<Rightarrow> Inr u)"

definition performLLMISVCInjection ::
  "llm_env \<Rightarrow> llmisvc \<Rightarrow> connection_info \<Rightarrow> secret option \<Rightarrow> conn_error + llmisvc" where
  "performLLMISVCInjection env obj connInfo sec =
     (let t = ci_type connInfo; p = pod_or_empty (ll_template obj)
      in if t = ConnectionTypeProtocolOCI \<or> t = ConnectionTypeRefOCI then
           Inr (obj\<lparr>ll_template := Some (p\<lparr>ps_pull_secrets :=
             InjectOCIImagePullSecrets (ps_pull_secrets p) (ci_secret connInfo)\<rparr>)\<rparr>)
         else if t = ConnectionTypeProtocolURI \<or> t = ConnectionTypeRefURI then
           (case sec of
              None \<Rightarrow> Inl NilSecret
            | Some s \<Rightarrow> (case GetURIValue s of
                Inl e \<Rightarrow> Inl e
              | Inr uriValue \<Rightarrow> (case parsed_uri env uriValue of
                  Inl e \<Rightarrow> Inl e
                | Inr u \<Rightarrow> Inr (obj\<lparr>ll_uri := u\<rparr>))))
         else if t = ConnectionTypeProtocolS3 \<or> t = ConnectionTypeRefS3 then
           (let obj1 = obj\<lparr>ll_template := Some (p\<lparr>ps_service_account :=
                  InjectServiceAccountName (ps_service_account p) (ci_secret connInfo @ ''-sa'')\<rparr>)\<rparr>
            in case sec of
                 None \<Rightarrow> Inl NilSecret
               | Some s \<Rightarrow> (case BuildS3URI s connInfo of
                   Inl e \<Rightarrow> Inl e
                 | Inr s3URI \<Rightarrow> (case parsed_uri env s3URI of
                     Inl e \<Rightarrow> Inl e
                   | Inr u \<Rightarrow> Inr (obj1\<lparr>ll_uri := u\<rparr>))))
         else Inr obj)"

definition performLLMISVCCleanup :: "llmisvc \<Rightarrow> connection_info \<Rightarrow> llmisvc" where
  "performLLMISVCCleanup obj oldConn =
     (let t = ci_type oldConn; n = ci_secret oldConn;
          dropSA = (\<lambda>p. p\<lparr>ps_service_account := RemoveServiceAccountName (ps_service_account p) (n @ ''-sa'')\<rparr>);
          dropPulls = (\<lambda>p. p\<lparr>ps_pull_secrets :=
            (if n \<noteq> '''' then CleanupOCIImagePullSecrets (ps_pull_secrets p) n else [])\<rparr>);
          dropURI = (\<lambda>o'. if ll_uri o' \<noteq> '''' then o'\<lparr>ll_uri := ''''\<rparr> else o')
      in if t = ConnectionTypeProtocolS3 \<or> t = ConnectionTypeRefS3 then
           dropURI (obj\<lparr>ll_template := map_option dropSA (ll_template obj)\<rparr>)
         else if t = ConnectionTypeProtocolOCI \<or> t = ConnectionTypeRefOCI then
           obj\<lparr>ll_template := map_option dropPulls (ll_template obj)\<rparr>
         else if t = ConnectionTypeProtocolURI \<or> t = ConnectionTypeRefURI then dropURI obj
         else if t = '''' then
           dropURI (obj\<lparr>ll_template := map_option (\<lambda>p. dropPulls (dropSA p)) (ll_template obj)\<rparr>)
         else obj)"

definition applyLLMISVCDefaults ::
  "llm_env \<Rightarrow> conn_error + llmisvc admission_request \<Rightarrow> llmisvc
     \<Rightarrow> service_account list \<times> (conn_error + llmisvc)" where
  "applyLLMISVCDefaults env request obj =
     (if om_deleting (ll_meta obj) then ([], Inr obj)
      else (case request of
          Inl e \<Rightarrow> ([], Inl e)
        | Inr req \<Rightarrow>
          (case ValidateConnectionAnnotation (env_secret env) (ll_meta obj) (rq_namespace req) of
             Inl e \<Rightarrow> ([], Inl e)
           | Inr (newConn, sec) \<Rightarrow>
             (let chosen = (if rq_operation req = Update
                    then (case GetOldConnectionInfo req (env_secret env) of
                        Inl e \<Rightarrow> Inl e
                      | Inr oldConn \<Rightarrow> Inr (DetermineAction oldConn newConn, oldConn))
                    else Inr (if ci_secret newConn = '''' then ActionNone else ActionInject, no_connection));
                  injectNew = (\<lambda>o'.
                    (case CreateServiceAccountIfNeeded (env_create_sa env) (ci_secret newConn)
                            (ci_type newConn) (rq_namespace req) (is_dry_run req) of
                       (sas, Some e) \<Rightarrow> (sas, Inl e)
                     | (sas, None) \<Rightarrow> (sas, case performLLMISVCInjection env o' newConn sec of
                         Inl e \<Rightarrow> Inl e
                       | Inr o1 \<Rightarrow> Inr (o1\<lparr>ll_meta := SetInjectedConnectionType (ll_meta o1) (ci_type newConn)\<rparr>))))
              in case chosen of
                   Inl e \<Rightarrow> ([], Inl e)
                 | Inr (ActionInject, _) \<Rightarrow> injectNew obj
                 | Inr (ActionRemove, oldConn) \<Rightarrow>
                     (let o1 = performLLMISVCCleanup obj oldConn
                      in ([], Inr (o1\<lparr>ll_meta := RemoveInjectedConnectionType (ll_meta o1)\<rparr>)))
                 | Inr (ActionReplace, oldConn) \<Rightarrow> injectNew (performLLMISVCCleanup obj oldConn)
                 | Inr (ActionNone, _) \<Rightarrow> ([], Inr obj)))))"

section \<open>Hardware profiles\<close>

definition putMainResources :: "nat option \<Rightarrow> resource_reqs option \<Rightarrow> container list \<Rightarrow> container list" where
  "putMainResources idx res cs =
     (case (idx, res) of
        (Some i, Some r) \<Rightarrow> cs[i := (cs ! i)\<lparr>ct_resources := r\<rparr>]
      | _ \<Rightarrow> cs)"

definition main_container :: container where
  "main_container = \<lparr>ct_name = LLMIsvcMainContainerName, ct_resources = empty_resources\<rparr>"

definition reconcileLLMHardwareProfileDRA ::
  "pod_spec option \<Rightarrow> bool \<Rightarrow> string \<Rightarrow> bool \<Rightarrow> llm_error + pod_spec option" where
  "reconcileLLMHardwareProfileDRA template oldProfileSelected selectedTemplate referenceChanged =
     (if \<not> referenceChanged then Inr template
      else (case (if selectedTemplate \<noteq> '''' \<and> template = None then Some empty_pod_spec else template) of
          None \<Rightarrow> (case ReconcileDRAClaims [] None oldProfileSelected selectedTemplate referenceChanged of
              Inl e \<Rightarrow> Inl (LLMClaimError e)
            | Inr _ \<Rightarrow> Inr None)
        | Some p \<Rightarrow>
            (let (cs1, ics, ecs) = (if oldProfileSelected
                   then RemoveDRAContainerClaims (ps_containers p) (ps_init p) (ps_ephemeral p)
                   else (ps_containers p, ps_init p, ps_ephemeral p));
                 cs = (if selectedTemplate \<noteq> '''' \<and> cs1 = [] then [main_container] else cs1);
                 idx = mainContainerIndex cs;
                 resources = map_option (\<lambda>i. ct_resources (cs ! i)) idx
             in if selectedTemplate \<noteq> '''' \<and> resources = None then Inl MainContainerRequired
                else (case (if selectedTemplate \<noteq> '''' then ValidateDRAContainerClaims cs ics ecs idx else None) of
                    Some e \<Rightarrow> Inl (LLMClaimError e)
                  | None \<Rightarrow>
                      (case ReconcileDRAClaims (ps_claims p) resources oldProfileSelected selectedTemplate
                              referenceChanged of
                         Inl e \<Rightarrow> Inl (LLMClaimError e)
                       | Inr (claims, res) \<Rightarrow>
                           Inr (Some (p\<lparr>ps_containers := putMainResources idx res cs, ps_init := ics,
                             ps_ephemeral := ecs, ps_claims := claims\<rparr>)))))))"

definition applyLLMHardwareProfileDRA ::
  "llm_env \<Rightarrow> llmisvc admission_request \<Rightarrow> llmisvc \<Rightarrow> string \<Rightarrow> llm_error + llmisvc" where
  "applyLLMHardwareProfileDRA env req obj selectedTemplate =
     (let meta = ll_meta obj in
      case ProfileReferenceChangedFromRequest req meta True of
        Inl e \<Rightarrow> Inl (LLMReferenceError e)
      | Inr (oldProfileName, referenceChanged) \<Rightarrow>
          (let (currentProfileName, _) = ProfileRef (om_annotations meta) (om_namespace meta);
               activeDRA = (referenceChanged \<and> selectedTemplate \<noteq> '''' \<or>
                 \<not> referenceChanged \<and> currentProfileName \<noteq> '''' \<and> HasDRAClaim (ll_template obj))
           in if activeDRA \<and> map_of (om_annotations meta) (le_managed_key env) \<noteq> None then Inl ManagedDRAConflict
              else (case reconcileLLMHardwareProfileDRA (ll_template obj) (oldProfileName \<noteq> '''')
                           selectedTemplate referenceChanged of
                  Inl e \<Rightarrow> Inl e
                | Inr t \<Rightarrow> Inr (obj\<lparr>ll_template := t\<rparr>))))"

definition handleHWPRemovalLLMISVC :: "llm_env \<Rightarrow> llmisvc admission_request \<Rightarrow> llmisvc \<Rightarrow> llmisvc" where
  "handleHWPRemovalLLMISVC env req obj =
     (case rq_old req of
        None \<Rightarrow> obj
      | Some raw \<Rightarrow> (case raw_unstructured raw of
          None \<Rightarrow> obj
        | Some oldObj \<Rightarrow>
            (let oldProfileName = m_str (om_annotations oldObj) HardwareProfileAnnotationName;
                 ns = m_str (om_annotations oldObj) HardwareProfileAnnotationNamespace;
                 oldProfileNamespace = (if ns = '''' then om_namespace oldObj else ns);
                 unstamped = (\<lambda>o'. o'\<lparr>ll_meta := (ll_meta o')\<lparr>om_annotations :=
                   m_del HardwareProfileAnnotationNamespace (om_annotations (ll_meta o'))\<rparr>\<rparr>)
             in if oldProfileName = '''' then obj
                else (case Resolve (env_lib env) (env_profile_cached env) oldProfileName oldProfileNamespace of
                    Inl _ \<Rightarrow> unstamped obj
                  | Inr None \<Rightarrow> unstamped obj
                  | Inr (Some oldProfile) \<Rightarrow>
                      (let o1 = obj\<lparr>ll_template := map_option (\<lambda>p.
                             (let (newNS, newTols) = RemoveNodeScheduling oldProfile (ps_node_selector p) (ps_tolerations p)
                              in p\<lparr>ps_node_selector := newNS, ps_tolerations := newTols\<rparr>)) (ll_template obj)\<rparr>;
                           o2 = (if rp_queue oldProfile \<noteq> '''' then o1\<lparr>ll_meta := RemoveKueueLabel (ll_meta o1)\<rparr> else o1)
                       in unstamped o2)))))"

definition emitContainerValidationEvent :: "object_meta \<Rightarrow> string \<Rightarrow> string \<Rightarrow> string \<Rightarrow> warning_event" where
  "emitContainerValidationEvent meta apiVersion kind profileName =
     \<lparr>ev_name = om_name meta @ ''.hwp-container-name-mismatch'', ev_namespace = om_namespace meta,
      ev_api = apiVersion, ev_kind = kind, ev_object = om_name meta, ev_uid = om_uid meta, ev_profile = profileName\<rparr>"

text \<open>The part of \<open>applyHardwareProfileLLMISVC\<close> from the profile switch on.\<close>

definition applyProfileLLM :: "resolved_profile \<Rightarrow> bool \<Rightarrow> string \<Rightarrow> llmisvc \<Rightarrow> llmisvc" where
  "applyProfileLLM profile profileChanged profileName obj =
     (let t1 = (if profileChanged
                then map_option (\<lambda>p. p\<lparr>ps_node_selector := [], ps_tolerations := []\<rparr>) (ll_template obj)
                else ll_template obj);
          m1 = (if profileChanged then RemoveKueueLabel (ll_meta obj) else ll_meta obj);
          existingContainers = (case t1 of None \<Rightarrow> [] | Some p \<Rightarrow> ps_containers p);
          newContainers = ApplyToLLMIsvcResources profile existingContainers;
          t2 = (if t1 = None \<and> newContainers \<noteq> [] then Some empty_pod_spec else t1);
          t3 = map_option (\<lambda>p. p\<lparr>ps_containers := newContainers\<rparr>) t2
      in if rp_queue profile \<noteq> ''''
         then obj\<lparr>ll_template := t3, ll_meta := fst (ApplyKueueLabel profile m1 profileChanged profileName)\<rparr>
         else if rp_node_selector profile \<noteq> [] \<or> rp_tolerations profile \<noteq> []
         then (let p = pod_or_empty t3;
                   (newNS, newTols) = (if profileChanged
                     then SetNodeScheduling profile (ps_node_selector p) (ps_tolerations p)
                     else (let (a, b, _) = MergeNodeScheduling profile (ps_node_selector p) (ps_tolerations p) profileName
                           in (a, b)))
               in obj\<lparr>ll_template := Some (p\<lparr>ps_node_selector := newNS, ps_tolerations := newTols\<rparr>), ll_meta := m1\<rparr>)
         else obj\<lparr>ll_template := t3, ll_meta := m1\<rparr>)"

definition applyHardwareProfileLLMISVC ::
  "llm_env \<Rightarrow> string \<Rightarrow> unit + llmisvc admission_request \<Rightarrow> llmisvc \<Rightarrow> warning_event list \<times> (llm_error + llmisvc)" where
  "applyHardwareProfileLLMISVC env apiVersion request obj =
     (if om_deleting (ll_meta obj) then ([], Inr obj)
      else (case request of
          Inl _ \<Rightarrow> ([], Inl LLMNoRequest)
        | Inr req \<Rightarrow>
          (let (profileName, profileNamespace) = ProfileRef (om_annotations (ll_meta obj)) (om_namespace (ll_meta obj))
           in if profileName = '''' then
                ([], case applyLLMHardwareProfileDRA env req obj '''' of
                   Inl e \<Rightarrow> Inl e
                 | Inr o1 \<Rightarrow> Inr (if rq_operation req = Update then handleHWPRemovalLLMISVC env req o1 else o1))
              else (case Resolve (env_lib env) (env_profile env) profileName profileNamespace of
                  Inl (ProfileReadFailed NotFound) \<Rightarrow> ([], Inl (LLMProfileNotFound profileName profileNamespace))
                | Inl e \<Rightarrow> ([], Inl (LLMProfileFetchFailed e))
                | Inr None \<Rightarrow> ([], Inl LLMNilProfile)
                | Inr (Some profile) \<Rightarrow>
                    (case applyLLMHardwareProfileDRA env req
                            (obj\<lparr>ll_meta := stampNamespace profileNamespace (ll_meta obj)\<rparr>) (rp_template profile) of
                       Inl e \<Rightarrow> ([], Inl e)
                     | Inr o1 \<Rightarrow>
                         if (case ll_template o1 of None \<Rightarrow> False
                             | Some p \<Rightarrow> ps_containers p \<noteq> [] \<and> mainContainerIndex (ps_containers p) = None)
                         then ([emitContainerValidationEvent (ll_meta o1) apiVersion ''LLMInferenceService'' profileName], Inr o1)
                         else ([], Inr (applyProfileLLM profile
                           (ProfileChanged req profileName profileNamespace) profileName o1)))))))"

definition DefaultLLM ::
  "llm_env \<Rightarrow> string \<Rightarrow> unit + llmisvc admission_request \<Rightarrow> llmisvc
     \<Rightarrow> (service_account list \<times> warning_event list) \<times> (llm_error + llmisvc)" where
  "DefaultLLM env apiVersion request obj =
     (case applyLLMISVCDefaults env (case request of Inl _ \<Rightarrow> Inl NoAdmissionRequest | Inr r \<Rightarrow> Inr r) obj of
        (sas, Inl e) \<Rightarrow> ((sas, []), Inl (LLMConnectionError e))
      | (sas, Inr o1) \<Rightarrow>
          (case applyHardwareProfileLLMISVC env apiVersion request o1 of (evs, r) \<Rightarrow> ((sas, evs), r)))"

section \<open>Lemmas: connections\<close>

definition injected_uri :: "connection_info \<Rightarrow> string \<Rightarrow> string \<Rightarrow> string" where
  "injected_uri c new u = (if conn_kind (ci_type c) \<in> {KUri, KS3} then new else u)"

definition cleaned_uri :: "connection_info \<Rightarrow> string \<Rightarrow> string" where
  "cleaned_uri c u = (if conn_kind (ci_type c) \<in> {KUri, KS3, KEmpty} then '''' else u)"

definition injected_template :: "connection_info \<Rightarrow> pod_spec option \<Rightarrow> pod_spec option" where
  "injected_template c t =
     (if conn_kind (ci_type c) \<in> {KOci, KS3}
      then Some ((pod_or_empty t)\<lparr>ps_pull_secrets := injected_pulls c (ps_pull_secrets (pod_or_empty t)),
                   ps_service_account := injected_sa c (ps_service_account (pod_or_empty t))\<rparr>)
      else t)"

definition llm_cleaned_pulls :: "connection_info \<Rightarrow> string list \<Rightarrow> string list" where
  "llm_cleaned_pulls c l =
     (if conn_kind (ci_type c) \<in> {KOci, KEmpty}
      then (if ci_secret c \<noteq> '''' then CleanupOCIImagePullSecrets l (ci_secret c) else []) else l)"

definition cleaned_template :: "connection_info \<Rightarrow> pod_spec option \<Rightarrow> pod_spec option" where
  "cleaned_template c t =
     map_option (\<lambda>p. p\<lparr>ps_pull_secrets := llm_cleaned_pulls c (ps_pull_secrets p),
                      ps_service_account := cleaned_sa c (ps_service_account p)\<rparr>) t"

lemma performLLMISVCCleanup_eq:
  "performLLMISVCCleanup obj c =
     obj\<lparr>ll_uri := cleaned_uri c (ll_uri obj), ll_template := cleaned_template c (ll_template obj)\<rparr>"
  unfolding performLLMISVCCleanup_def Let_def conn_kind_tests(1-3) conn_kind_tests(4) [of "ci_type c"]
    by (cases "conn_kind (ci_type c)"; cases "ll_template obj")
      (simp_all add: cleaned_uri_def cleaned_template_def llm_cleaned_pulls_def cleaned_sa_def)

text \<open>The URI an injection computes from the Secret; none for an OCI connection.\<close>

definition connection_uri :: "llm_env \<Rightarrow> connection_info \<Rightarrow> secret option \<Rightarrow> conn_error + string" where
  "connection_uri env c s =
     (case conn_kind (ci_type c) of
        KUri \<Rightarrow> (case s of None \<Rightarrow> Inl NilSecret | Some x \<Rightarrow>
          (case GetURIValue x of Inl e \<Rightarrow> Inl e | Inr v \<Rightarrow> parsed_uri env v))
      | KS3 \<Rightarrow> (case s of None \<Rightarrow> Inl NilSecret | Some x \<Rightarrow>
          (case BuildS3URI x c of Inl e \<Rightarrow> Inl e | Inr v \<Rightarrow> parsed_uri env v))
      | _ \<Rightarrow> Inr '''')"

lemma performLLMISVCInjection_eq:
  "performLLMISVCInjection env obj c s =
     (case connection_uri env c s of
        Inl e \<Rightarrow> Inl e
      | Inr u \<Rightarrow> Inr (obj\<lparr>ll_uri := injected_uri c u (ll_uri obj), ll_template := injected_template c (ll_template obj)\<rparr>))"
  unfolding performLLMISVCInjection_def Let_def conn_kind_tests
  by (cases "conn_kind (ci_type c)")
    (auto simp: connection_uri_def injected_uri_def injected_template_def injected_pulls_def injected_sa_def
      split: option.split sum.split)

definition llm_inject :: "llm_env \<Rightarrow> llmisvc admission_request \<Rightarrow> llmisvc \<Rightarrow> connection_info \<Rightarrow> secret option
     \<Rightarrow> conn_error + llmisvc" where
  "llm_inject env req obj c s =
     (case performLLMISVCInjection env obj c s of
        Inl e \<Rightarrow> Inl e
      | Inr o1 \<Rightarrow> Inr (o1\<lparr>ll_meta := SetInjectedConnectionType (ll_meta o1) (ci_type c)\<rparr>))"

definition llm_remove :: "llmisvc \<Rightarrow> connection_info \<Rightarrow> llmisvc" where
  "llm_remove obj c = (let o1 = performLLMISVCCleanup obj c in o1\<lparr>ll_meta := RemoveInjectedConnectionType (ll_meta o1)\<rparr>)"

lemma llm_pulls_stable [simp]:
  "llm_cleaned_pulls c (llm_cleaned_pulls c l) = llm_cleaned_pulls c l"
  "injected_pulls c (llm_cleaned_pulls d (injected_pulls c (llm_cleaned_pulls d l))) =
     injected_pulls c (llm_cleaned_pulls d l)"
  by (auto simp: injected_pulls_def llm_cleaned_pulls_def conn_defs)

lemma replace_from_nothing:
  "injected_pulls c (llm_cleaned_pulls d (injected_pulls c [])) = injected_pulls c []"
  "injected_sa c (cleaned_sa d (injected_sa c '''')) = injected_sa c ''''"
  by (auto simp: injected_pulls_def llm_cleaned_pulls_def injected_sa_def cleaned_sa_def conn_defs)

lemma llm_uri_stable [simp]:
  "injected_uri c u (injected_uri c u x) = injected_uri c u x"
  "cleaned_uri c (cleaned_uri c x) = cleaned_uri c x"
  "injected_uri c u (cleaned_uri d (injected_uri c u (cleaned_uri d x))) = injected_uri c u (cleaned_uri d x)"
  by (auto simp: injected_uri_def cleaned_uri_def)

lemma llm_template_stable [simp]:
  "injected_template c (injected_template c t) = injected_template c t"
  "cleaned_template c (cleaned_template c t) = cleaned_template c t"
proof -
  show "injected_template c (injected_template c t) = injected_template c t"
    by (auto simp: injected_template_def pod_or_empty_def)
  show "cleaned_template c (cleaned_template c t) = cleaned_template c t"
    by (cases t) (auto simp: cleaned_template_def)
qed

lemma llm_template_replace_stable [simp]:
  "injected_template c (cleaned_template d (injected_template c (cleaned_template d t))) =
     injected_template c (cleaned_template d t)"
  by (cases t; cases "conn_kind (ci_type c) \<in> {KOci, KS3}")
    (auto simp: injected_template_def cleaned_template_def pod_or_empty_def empty_pod_spec_def
      replace_from_nothing)

lemma applyLLMISVCDefaults_eq:
  "applyLLMISVCDefaults env (Inr req) obj =
     (if om_deleting (ll_meta obj) then ([], Inr obj)
      else (case connection_choice (env_secret env) req (ll_meta obj) of
          Inl e \<Rightarrow> ([], Inl e)
        | Inr ch \<Rightarrow> connection_effect (env_create_sa env) req (llm_inject env req) performLLMISVCCleanup llm_remove ch obj))"
proof (cases "om_deleting (ll_meta obj)")
  case False
  show ?thesis
  proof (cases "ValidateConnectionAnnotation (env_secret env) (ll_meta obj) (rq_namespace req)")
    case (Inr r)
    obtain c s where r: "r = (c, s)" by (cases r)
    let ?sa = "CreateServiceAccountIfNeeded (env_create_sa env) (ci_secret c) (ci_type c) (rq_namespace req) (is_dry_run req)"
    obtain sas err where sa: "?sa = (sas, err)" by (cases ?sa)
    show ?thesis
    proof (cases "rq_operation req = Update")
      case True
      show ?thesis
      proof (cases "GetOldConnectionInfo req (env_secret env)")
        case (Inr old)
        with True \<open>_ = Inr r\<close> r sa False show ?thesis
          by (cases "DetermineAction old c"; cases err)
            (simp_all add: applyLLMISVCDefaults_def connection_choice_def connection_effect_def llm_inject_def llm_remove_def)
      qed (use True Inr r False in \<open>simp add: applyLLMISVCDefaults_def connection_choice_def\<close>)
    next
      case upd: False
      with Inr r sa False show ?thesis
        by (cases err; cases "ci_secret c = []")
          (simp_all add: applyLLMISVCDefaults_def connection_choice_def connection_effect_def llm_inject_def)
    qed
  qed (use False in \<open>simp add: applyLLMISVCDefaults_def connection_choice_def\<close>)
qed (simp add: applyLLMISVCDefaults_def)

interpretation llm_target: connection_target "env_secret env" "env_create_sa env" ll_meta
  "llm_inject env" performLLMISVCCleanup llm_remove "\<lambda>req. applyLLMISVCDefaults env (Inr req)" for env :: llm_env
proof (unfold_locales, goal_cases)
  case (1 req i c s j)
  then show ?case by (auto simp: llm_inject_def performLLMISVCInjection_eq split: sum.splits)
next
  case (2 i c)
  show ?case by (simp add: llm_remove_def performLLMISVCCleanup_eq)
next
  case (3 req i old c s j)
  then show ?case
    by (auto simp: llm_inject_def performLLMISVCInjection_eq performLLMISVCCleanup_eq split: sum.splits)
next
  case (4 req i c s j)
  then show ?case by (auto simp: llm_inject_def performLLMISVCInjection_eq split: sum.splits)
qed (simp_all add: llm_remove_def performLLMISVCCleanup_eq applyLLMISVCDefaults_eq)

end
