(* ===== verification/LLM_Hardware.thy ===== *)
theory LLM_Hardware
  imports LLM_Webhook Admission
begin

text \<open>
  The properties of the LLMInferenceService webhook: its connection step, its hardware-profile
  step, the defaulter as a whole and the validator.
\<close>

section \<open>Lemmas: the main container\<close>

lemma mainContainerIndex_less: "mainContainerIndex cs = Some i \<Longrightarrow> i < length cs"
  by (induction cs arbitrary: i) (auto split: if_splits)

lemma mainContainerIndex_names: "map ct_name cs = map ct_name ds \<Longrightarrow> mainContainerIndex cs = mainContainerIndex ds"
proof (induction cs arbitrary: ds)
  case (Cons c cs)
  then show ?case by (cases ds) auto
qed simp

lemma dropped_simps: "dropped True cs = map dropClaim cs" "dropped False cs = cs"
  by (simp_all add: dropped_def)

lemma length_dropped [simp]: "length (dropped old cs) = length cs"
  by (simp add: dropped_def)

lemma names_dropped: "map ct_name (dropped old cs) = map ct_name cs"
  by (simp add: dropped_def dropClaim_def comp_def)

lemma names_put: "map ct_name (putMainResources idx res cs) = map ct_name cs"
  by (cases idx; cases res; cases "the idx < length cs")
    (auto simp: putMainResources_def map_update list_update_same_conv list_update_beyond)

lemma mainContainerIndex_simps [simp]:
  "mainContainerIndex (dropped old cs) = mainContainerIndex cs"
  "mainContainerIndex (putMainResources idx res cs) = mainContainerIndex cs"
  by (rule mainContainerIndex_names, simp add: names_dropped names_put)+

lemma dropped_main [simp]: "dropped old [main_container] = [main_container]"
  by (simp add: dropped_def main_container_def dropClaim_def empty_resources_def removeContainerClaim_def)

lemma dropClaim_put:
  "dropClaim (c\<lparr>ct_resources := r\<rparr>) = c\<lparr>ct_resources := r\<lparr>rr_claims := removeContainerClaim (rr_claims r)\<rparr>\<rparr>"
  by (simp add: dropClaim_def)

lemma dropped_update:
  "dropped old (cs[i := c]) = (dropped old cs)[i := (if old then dropClaim c else c)]"
  by (simp add: dropped_def map_update)

lemma findNonTarget_update:
  "findNonTarget k (cs[i := c]) (Some (k + i)) = findNonTarget k cs (Some (k + i))"
proof (induction cs arbitrary: k i)
  case (Cons d ds)
  show ?case
  proof (cases i)
    case (Suc j)
    with Cons [of "Suc k" j] show ?thesis by simp
  qed simp
qed simp

lemma ApplyToLLM_stable:
  "ApplyToLLMIsvcResources p (ApplyToLLMIsvcResources p cs) = ApplyToLLMIsvcResources p cs"
proof (cases "rp_identifiers p = []")
  case False
  define ds where "ds = (if cs = [] then [main_container] else cs)"
  show ?thesis
  proof (cases "mainContainerIndex ds")
    case None
    then have "ApplyToLLMIsvcResources p cs = ds" and "ds \<noteq> []"
      using False by (auto simp: ApplyToLLMIsvcResources_def ds_def main_container_def)
    with None False show ?thesis by (simp add: ApplyToLLMIsvcResources_def)
  next
    case (Some i)
    let ?c = "(ds ! i)\<lparr>ct_resources := fold applyIdentifier (rp_identifiers p) (ct_resources (ds ! i))\<rparr>"
    have len: "i < length ds" using Some by (rule mainContainerIndex_less)
    have a: "ApplyToLLMIsvcResources p cs = ds[i := ?c]"
      using Some False by (auto simp: ApplyToLLMIsvcResources_def ds_def main_container_def)
    have "map ct_name (ds[i := ?c]) = map ct_name ds"
      using len by (simp add: map_update list_update_same_conv)
    then have "mainContainerIndex (ds[i := ?c]) = Some i"
      using Some mainContainerIndex_names by metis
    with len False show ?thesis unfolding a by (auto simp: ApplyToLLMIsvcResources_def)
  qed
qed (simp add: ApplyToLLMIsvcResources_def)

section \<open>Lemmas: the claim step\<close>

lemma ReconcileDRAClaims_claims_dropped:
  "ReconcileDRAClaims pcs (Some (r\<lparr>rr_claims := removeContainerClaim (rr_claims r)\<rparr>)) True t ch =
     ReconcileDRAClaims pcs (Some r) True t ch" if ch
  using that by (simp add: ReconcileDRAClaims_def container_claims.del_del)

definition claim_containers :: "bool \<Rightarrow> string \<Rightarrow> container list \<Rightarrow> container list" where
  "claim_containers old t cs = (if t \<noteq> '''' \<and> cs = [] then [main_container] else dropped old cs)"

lemma claim_containers_eq:
  "(if t \<noteq> '''' \<and> dropped old cs = [] then [main_container] else dropped old cs) = claim_containers old t cs"
  by (simp add: claim_containers_def dropped_def)

lemma reconcileLLM_Some:
  "reconcileLLMHardwareProfileDRA (Some p) old t True =
     (let cs = claim_containers old t (ps_containers p); idx = mainContainerIndex cs;
          resources = map_option (\<lambda>i. ct_resources (cs ! i)) idx
      in if t \<noteq> '''' \<and> resources = None then Inl MainContainerRequired
         else (case (if t \<noteq> '''' then ValidateDRAContainerClaims cs (dropped old (ps_init p)) (dropped old (ps_ephemeral p)) idx else None) of
             Some e \<Rightarrow> Inl (LLMClaimError e)
           | None \<Rightarrow> (case ReconcileDRAClaims (ps_claims p) resources old t True of
               Inl e \<Rightarrow> Inl (LLMClaimError e)
             | Inr (claims, res) \<Rightarrow>
                 Inr (Some (p\<lparr>ps_containers := putMainResources idx res cs, ps_init := dropped old (ps_init p),
                   ps_ephemeral := dropped old (ps_ephemeral p), ps_claims := claims\<rparr>)))))"
  unfolding claim_containers_eq [symmetric]
  by (induct old) (unfold dropped_simps reconcileLLMHardwareProfileDRA_def RemoveDRAContainerClaims_def, auto)

lemma reconcileLLM_create:
  "t \<noteq> [] \<Longrightarrow> reconcileLLMHardwareProfileDRA None old t True = reconcileLLMHardwareProfileDRA (Some empty_pod_spec) old t True"
  unfolding reconcileLLMHardwareProfileDRA_def by simp

lemma reconcileLLM_stable:
  assumes "reconcileLLMHardwareProfileDRA tpl old t ch = Inr tpl'"
  shows "reconcileLLMHardwareProfileDRA tpl' old t ch = Inr tpl'"
proof (cases "ch \<and> \<not> (tpl = None \<and> t = '''')")
  case True
  then obtain p where p: "(if t \<noteq> '''' \<and> tpl = None then Some empty_pod_spec else tpl) = Some p" and ch
    by (cases tpl) auto
  then have run: "reconcileLLMHardwareProfileDRA (Some p) old t True = Inr tpl'"
    using assms reconcileLLM_create [of t old] by (cases tpl) (auto split: if_splits)
  define cs where "cs = claim_containers old t (ps_containers p)"
  define idx where "idx = mainContainerIndex cs"
  from run obtain claims res where
    v: "t = '''' \<or> idx \<noteq> None \<and> ValidateDRAContainerClaims cs (dropped old (ps_init p)) (dropped old (ps_ephemeral p)) idx = None"
    and r: "ReconcileDRAClaims (ps_claims p) (map_option (\<lambda>i. ct_resources (cs ! i)) idx) old t True = Inr (claims, res)"
    and q: "tpl' = Some (p\<lparr>ps_containers := putMainResources idx res cs, ps_init := dropped old (ps_init p),
        ps_ephemeral := dropped old (ps_ephemeral p), ps_claims := claims\<rparr>)"
    by (auto simp: reconcileLLM_Some cs_def [symmetric] idx_def [symmetric] split: if_splits option.splits sum.splits)
  note shape = ReconcileDRAClaims_shape [OF r]
  note again = ReconcileDRAClaims_stable [OF r]
  have cs_drop: "dropped old cs = cs" by (simp add: cs_def claim_containers_def)
  let ?ds = "claim_containers old t (putMainResources idx res cs)"
  have ds: "?ds = dropped old (putMainResources idx res cs)"
    using v by (auto simp: claim_containers_def putMainResources_def cs_def idx_def split: option.splits)
  have len: "idx = Some i \<Longrightarrow> i < length cs" for i unfolding idx_def by (rule mainContainerIndex_less)
  have di: "mainContainerIndex ?ds = idx" unfolding ds by (simp add: idx_def)
  have put: "putMainResources idx res ?ds = putMainResources idx res cs"
    unfolding ds by (cases idx; cases res)
      (auto simp: putMainResources_def dropped_update cs_drop dropClaim_put len)
  have val: "ValidateDRAContainerClaims ?ds a b idx = ValidateDRAContainerClaims cs a b idx" for a b
    unfolding ds using findNonTarget_update [of 0 cs "the idx"]
    by (cases idx; cases res)
      (auto simp: putMainResources_def dropped_update cs_drop ValidateDRAContainerClaims_def)
  have rec: "ReconcileDRAClaims claims (map_option (\<lambda>i. ct_resources (?ds ! i)) idx) old t True = Inr (claims, res)"
  proof (cases idx)
    case (Some i)
    with shape obtain x where x: "res = Some x" by auto
    have "i < length cs" using Some unfolding idx_def by (rule mainContainerIndex_less)
    then show ?thesis
      unfolding ds using again ReconcileDRAClaims_claims_dropped [of True claims x t]
      by (cases old) (simp_all add: Some x putMainResources_def dropped_update cs_drop dropClaim_put)
  qed (use again shape in simp)
  let ?q = "p\<lparr>ps_containers := putMainResources idx res cs, ps_init := dropped old (ps_init p),
      ps_ephemeral := dropped old (ps_ephemeral p), ps_claims := claims\<rparr>"
  have sel: "ps_containers ?q = putMainResources idx res cs" "ps_init ?q = dropped old (ps_init p)"
    "ps_ephemeral ?q = dropped old (ps_ephemeral p)" "ps_claims ?q = claims" by simp_all
  have "reconcileLLMHardwareProfileDRA (Some ?q) old t True = Inr (Some ?q)"
    unfolding reconcileLLM_Some Let_def sel di rec dropped_stable val sum.case prod.case put using v
    by auto
  with True show ?thesis by (simp add: q)
qed (use assms in \<open>auto simp: reconcileLLMHardwareProfileDRA_def ReconcileDRAClaims_def\<close>)

text \<open>A change of the main container's resources that respects its claims.\<close>

definition upd_main :: "(resource_reqs \<Rightarrow> resource_reqs) \<Rightarrow> container list \<Rightarrow> container list" where
  "upd_main g cs = (case mainContainerIndex cs of None \<Rightarrow> cs
     | Some i \<Rightarrow> cs[i := (cs ! i)\<lparr>ct_resources := g (ct_resources (cs ! i))\<rparr>])"

lemma upd_main_put: "upd_main g cs = putMainResources (mainContainerIndex cs)
    (map_option (\<lambda>i. g (ct_resources (cs ! i))) (mainContainerIndex cs)) cs"
  by (simp add: upd_main_def putMainResources_def split: option.split)

lemma mainContainerIndex_upd [simp]: "mainContainerIndex (upd_main g cs) = mainContainerIndex cs"
  by (simp add: upd_main_put)

lemma upd_main_Nil [simp]: "upd_main g cs = [] \<longleftrightarrow> cs = []"
  by (simp add: upd_main_def split: option.split)

lemma put_upd_main:
  assumes "mainContainerIndex cs = Some i"
  shows "putMainResources (Some i) (Some (g r)) (upd_main g cs) = upd_main g (putMainResources (Some i) (Some r) cs)"
proof -
  have "i < length cs" using assms by (rule mainContainerIndex_less)
  moreover have "mainContainerIndex (putMainResources (Some i) (Some r) cs) = Some i" using assms by simp
  ultimately show ?thesis using assms by (simp add: upd_main_def) (simp add: putMainResources_def)
qed

lemma claims_put [simp]:
  "map claims_of (cs[i := (cs ! i)\<lparr>ct_resources := r\<rparr>]) = (map claims_of cs)[i := rr_claims r]"
  by (simp add: map_update)

lemma dropClaim_upd:
  assumes "\<And>r c. g (r\<lparr>rr_claims := c\<rparr>) = (g r)\<lparr>rr_claims := c\<rparr>" and "\<And>r. rr_claims (g r) = rr_claims r"
  shows "dropClaim (c\<lparr>ct_resources := g (ct_resources c)\<rparr>) = (dropClaim c)\<lparr>ct_resources := g (ct_resources (dropClaim c))\<rparr>"
  using assms by (simp add: dropClaim_def)

lemma dropped_upd_main:
  assumes "\<And>r c. g (r\<lparr>rr_claims := c\<rparr>) = (g r)\<lparr>rr_claims := c\<rparr>" and "\<And>r. rr_claims (g r) = rr_claims r"
  shows "dropped old (upd_main g cs) = upd_main g (dropped old cs)"
proof (cases "mainContainerIndex cs")
  case (Some i)
  then have "i < length cs" by (rule mainContainerIndex_less)
  with Some show ?thesis
    by (cases old) (simp_all add: upd_main_def dropped_update dropClaim_upd [OF assms], simp_all add: dropped_def)
qed (simp add: upd_main_def)

lemma ReconcileDRAClaims_respects:
  assumes g: "\<And>r c. g (r\<lparr>rr_claims := c\<rparr>) = (g r)\<lparr>rr_claims := c\<rparr>" "\<And>r. rr_claims (g r) = rr_claims r"
    and "ReconcileDRAClaims pcs res old t ch = Inr (pcs', res')"
  shows "ReconcileDRAClaims pcs (map_option g res) old t ch = Inr (pcs', map_option g res')"
proof -
  have idem: "(g r)\<lparr>rr_claims := c\<rparr> = g (r\<lparr>rr_claims := c\<rparr>)" for r c by (simp add: g(1))
  from assms(3) show ?thesis
    by (cases res) (auto simp: ReconcileDRAClaims_def g(2) idem split: if_splits)
qed

lemma reconcileLLM_upd_fixed:
  assumes g: "\<And>r c. g (r\<lparr>rr_claims := c\<rparr>) = (g r)\<lparr>rr_claims := c\<rparr>" "\<And>r. rr_claims (g r) = rr_claims r"
    and fixed: "reconcileLLMHardwareProfileDRA (Some p) old t True = Inr (Some p)"
    and ne: "ps_containers p \<noteq> []"
    and q: "ps_containers q = upd_main g (ps_containers p)" "ps_init q = ps_init p" "ps_ephemeral q = ps_ephemeral p"
      "ps_claims q = ps_claims p"
  shows "reconcileLLMHardwareProfileDRA (Some q) old t True = Inr (Some q)"
proof -
  define cs where "cs = dropped old (ps_containers p)"
  define idx where "idx = mainContainerIndex cs"
  define rs where "rs = map_option (\<lambda>i. ct_resources (cs ! i)) idx"
  have cc: "claim_containers old t (ps_containers p) = cs" using ne by (simp add: claim_containers_def cs_def)
  from fixed obtain claims res where
    v: "t = '''' \<or> idx \<noteq> None \<and> ValidateDRAContainerClaims cs (dropped old (ps_init p)) (dropped old (ps_ephemeral p)) idx = None"
    and r: "ReconcileDRAClaims (ps_claims p) rs old t True = Inr (claims, res)"
    and eq: "p\<lparr>ps_containers := putMainResources idx res cs, ps_init := dropped old (ps_init p),
        ps_ephemeral := dropped old (ps_ephemeral p), ps_claims := claims\<rparr> = p"
    by (auto simp: reconcileLLM_Some cc idx_def [symmetric] rs_def split: if_splits option.splits sum.splits)
  have eqs: "putMainResources idx res cs = ps_containers p" "dropped old (ps_init p) = ps_init p"
    "dropped old (ps_ephemeral p) = ps_ephemeral p" "claims = ps_claims p"
    using arg_cong [OF eq, of ps_containers] arg_cong [OF eq, of ps_init] arg_cong [OF eq, of ps_ephemeral]
      arg_cong [OF eq, of ps_claims] by simp_all
  have len: "idx = Some i \<Longrightarrow> i < length cs" for i unfolding idx_def by (rule mainContainerIndex_less)
  have ds: "claim_containers old t (ps_containers q) = upd_main g cs"
    using ne by (simp add: claim_containers_def q(1) dropped_upd_main [OF g] cs_def)
  have di: "mainContainerIndex (upd_main g cs) = idx" by (simp add: idx_def)
  have dr: "map_option (\<lambda>i. ct_resources (upd_main g cs ! i)) idx = map_option g rs"
    by (cases idx) (auto simp: rs_def upd_main_def idx_def [symmetric] len)
  note r2 = ReconcileDRAClaims_respects [OF g r]
  from ReconcileDRAClaims_shape [OF r] have "res = None \<longleftrightarrow> idx = None" by (simp add: rs_def)
  then have "putMainResources idx (map_option g res) (upd_main g cs) = upd_main g (putMainResources idx res cs)"
    by (cases idx; cases res) (auto simp: put_upd_main idx_def, simp add: putMainResources_def upd_main_def)
  then have put: "putMainResources idx (map_option g res) (upd_main g cs) = ps_containers q"
    by (simp add: eqs q)
  have val: "ValidateDRAContainerClaims (upd_main g cs) a b idx = ValidateDRAContainerClaims cs a b idx" for a b
    using findNonTarget_update [of 0 cs "the idx"]
    by (cases idx) (auto simp: upd_main_def idx_def [symmetric] ValidateDRAContainerClaims_def)
  have "reconcileLLMHardwareProfileDRA (Some q) old t True =
      Inr (Some (q\<lparr>ps_containers := ps_containers q, ps_init := ps_init q, ps_ephemeral := ps_ephemeral q,
        ps_claims := ps_claims q\<rparr>))"
    unfolding reconcileLLM_Some Let_def ds di dr q(2-4) r2 val eqs(2,3) sum.case prod.case put eqs(4)
    using v by (auto simp: rs_def eqs)
  then show ?thesis by simp
qed

lemma dropped_fixed_iff: "dropped True cs = cs \<longleftrightarrow> \<not> list_ex (\<lambda>c. hasContainerClaim (claims_of c)) cs"
proof -
  have "dropClaim c = c \<longleftrightarrow> \<not> hasContainerClaim (claims_of c)" for c
    by (cases c) (auto simp: dropClaim_def claims_update_id container_claims.fixed_point_iff)
  then show ?thesis
    by (induction cs) (auto simp: dropped_def)
qed

lemma reconcileLLM_deselect:
  "reconcileLLMHardwareProfileDRA (Some p) old '''' True =
     Inr (Some (p\<lparr>ps_containers := dropped old (ps_containers p), ps_init := dropped old (ps_init p),
       ps_ephemeral := dropped old (ps_ephemeral p),
       ps_claims := (if old then removePodClaim (ps_claims p) else ps_claims p)\<rparr>))"
proof -
  let ?cs = "dropped old (ps_containers p)"
  let ?rs = "map_option (\<lambda>i. ct_resources (?cs ! i)) (mainContainerIndex (ps_containers p))"
  have cc: "claim_containers old '''' (ps_containers p) = ?cs" by (simp add: claim_containers_def)
  have "map_option (\<lambda>r. r\<lparr>rr_claims := removeContainerClaim (rr_claims r)\<rparr>) ?rs = ?rs" if old
  proof (cases "mainContainerIndex (ps_containers p)")
    case (Some i)
    then have "i < length (ps_containers p)" by (rule mainContainerIndex_less)
    then have "\<not> hasContainerClaim (claims_of (?cs ! i))" using that by (simp add: dropped_def)
    with Some show ?thesis by (simp add: claims_update_id container_claims.del_absent)
  qed simp
  then have r: "ReconcileDRAClaims (ps_claims p) ?rs old '''' True =
      Inr (if old then removePodClaim (ps_claims p) else ps_claims p, ?rs)"
    by (simp add: ReconcileDRAClaims_def)
  have put: "putMainResources (mainContainerIndex (ps_containers p)) ?rs ?cs = ?cs"
    by (auto simp: putMainResources_def split: option.split)
  show ?thesis
    unfolding reconcileLLM_Some Let_def cc mainContainerIndex_simps r put sum.case prod.case by simp
qed

lemma reconcileLLM_deselect_fixed:
  "reconcileLLMHardwareProfileDRA (Some p) old '''' True = Inr (Some p) \<longleftrightarrow> \<not> old \<or> \<not> HasDRAClaim (Some p)"
  (is "?l \<longleftrightarrow> ?r")
proof (cases old)
  case True
  have "?l \<longleftrightarrow> dropped True (ps_containers p) = ps_containers p \<and> dropped True (ps_init p) = ps_init p \<and>
      dropped True (ps_ephemeral p) = ps_ephemeral p \<and> removePodClaim (ps_claims p) = ps_claims p"
    using True by (cases p) (auto simp: reconcileLLM_deselect)
  then show ?thesis
    using True by (auto simp: dropped_fixed_iff HasDRAClaim_def pod_claims.fixed_point_iff)
qed (cases p, simp add: reconcileLLM_deselect dropped_def)

lemma reconcileLLM_selected_nonempty:
  assumes "reconcileLLMHardwareProfileDRA tpl old t True = Inr tpl'" and "t \<noteq> ''''"
  shows "\<exists>p. tpl' = Some p \<and> mainContainerIndex (ps_containers p) \<noteq> None"
proof -
  obtain p where "reconcileLLMHardwareProfileDRA (Some p) old t True = Inr tpl'"
    using assms reconcileLLM_create [of t old] by (cases tpl) auto
  with assms(2) show ?thesis
    by (auto simp: reconcileLLM_Some split: if_splits option.splits sum.splits)
qed

section \<open>Lemmas: applying a profile\<close>

definition llm_profile_template :: "resolved_profile \<Rightarrow> bool \<Rightarrow> string \<Rightarrow> pod_spec option \<Rightarrow> pod_spec option" where
  "llm_profile_template p ch n t =
     (let t1 = (if ch then map_option (\<lambda>q. q\<lparr>ps_node_selector := [], ps_tolerations := []\<rparr>) t else t);
          cs = ApplyToLLMIsvcResources p (case t1 of None \<Rightarrow> [] | Some q \<Rightarrow> ps_containers q);
          t3 = map_option (\<lambda>q. q\<lparr>ps_containers := cs\<rparr>)
                 (if t1 = None \<and> cs \<noteq> [] then Some empty_pod_spec else t1)
      in if rp_queue p = '''' \<and> (rp_node_selector p \<noteq> [] \<or> rp_tolerations p \<noteq> [])
         then (let q = pod_or_empty t3; s = profile_sched p ch n (ps_node_selector q, ps_tolerations q)
               in Some (q\<lparr>ps_node_selector := fst s, ps_tolerations := snd s\<rparr>))
         else t3)"

lemma applyProfileLLM_sel:
  "applyProfileLLM p ch n obj =
     obj\<lparr>ll_template := llm_profile_template p ch n (ll_template obj), ll_meta := profile_meta p ch n (ll_meta obj)\<rparr>"
  by (auto simp: applyProfileLLM_def llm_profile_template_def profile_meta_def profile_sched_def
      SetNodeScheduling_def split: prod.split)

lemma ApplyToLLM_Nil_iff: "ApplyToLLMIsvcResources p cs = [] \<longleftrightarrow> cs = [] \<and> rp_identifiers p = []"
  by (auto simp: ApplyToLLMIsvcResources_def split: option.splits)

lemma ApplyToLLM_no_ids: "rp_identifiers p = [] \<Longrightarrow> ApplyToLLMIsvcResources p cs = cs"
  by (simp add: ApplyToLLMIsvcResources_def)

lemma sched_pair: "profile_sched p ch n (fst (profile_sched p ch n s), snd (profile_sched p ch n s)) = profile_sched p ch n s"
  by (simp add: profile_sched_stable)

lemma sched_changed: "rp_queue p = '''' \<Longrightarrow> profile_sched p True n s = profile_sched p True n s'"
  by (simp add: profile_sched_def)

definition llm_schedules :: "resolved_profile \<Rightarrow> bool" where
  "llm_schedules p = (rp_queue p = '''' \<and> (rp_node_selector p \<noteq> [] \<or> rp_tolerations p \<noteq> []))"

text \<open>The two steps of \<open>llm_profile_template\<close>: the containers, then the scheduling.\<close>

definition llm_container_step :: "resolved_profile \<Rightarrow> bool \<Rightarrow> pod_spec option \<Rightarrow> pod_spec option" where
  "llm_container_step p ch t =
     (case t of
        None \<Rightarrow> if rp_identifiers p = [] then None
                else Some (empty_pod_spec\<lparr>ps_containers := ApplyToLLMIsvcResources p []\<rparr>)
      | Some q \<Rightarrow> Some (if ch then q\<lparr>ps_node_selector := [], ps_tolerations := [],
            ps_containers := ApplyToLLMIsvcResources p (ps_containers q)\<rparr>
          else q\<lparr>ps_containers := ApplyToLLMIsvcResources p (ps_containers q)\<rparr>))"

definition llm_sched_step :: "resolved_profile \<Rightarrow> bool \<Rightarrow> string \<Rightarrow> pod_spec option \<Rightarrow> pod_spec option" where
  "llm_sched_step p ch n t =
     (if llm_schedules p
      then (let q = pod_or_empty t; s = profile_sched p ch n (ps_node_selector q, ps_tolerations q)
            in Some (q\<lparr>ps_node_selector := fst s, ps_tolerations := snd s\<rparr>))
      else t)"

lemma llm_profile_template_steps: "llm_profile_template p ch n t = llm_sched_step p ch n (llm_container_step p ch t)"
proof -
  have "(if ch then map_option (\<lambda>q. q\<lparr>ps_node_selector := [], ps_tolerations := []\<rparr>) t else t) = None \<longleftrightarrow> t = None"
    by simp
  then show ?thesis
    by (cases t; cases ch)
      (auto simp: llm_profile_template_def llm_sched_step_def llm_container_step_def llm_schedules_def
        ApplyToLLM_Nil_iff)
qed

lemma llm_profile_template_stable:
  "llm_profile_template p ch n (llm_profile_template p ch n t) = llm_profile_template p ch n t"
proof (cases "llm_schedules p")
  case True
  define q where "q = pod_or_empty (llm_container_step p ch t)"
  define s where "s = profile_sched p ch n (ps_node_selector q, ps_tolerations q)"
  have eq: "llm_profile_template p ch n t = Some (q\<lparr>ps_node_selector := fst s, ps_tolerations := snd s\<rparr>)"
    using True by (simp add: llm_profile_template_steps llm_sched_step_def q_def s_def)
  have cs: "ApplyToLLMIsvcResources p (ps_containers q) = ps_containers q"
    by (cases t) (auto simp: q_def llm_container_step_def pod_or_empty_def ApplyToLLM_stable empty_pod_spec_def
        ApplyToLLM_no_ids)
  have "profile_sched p ch n (if ch then ([], []) else (fst s, snd s)) = s"
    using True sched_changed [of p n "([], [])" "(ps_node_selector q, ps_tolerations q)"]
    by (auto simp: s_def profile_sched_stable llm_schedules_def)
  then show ?thesis
    unfolding eq using True cs
    by (simp add: llm_profile_template_steps llm_sched_step_def llm_container_step_def pod_or_empty_def split: if_splits)
next
  case False
  then show ?thesis
    by (cases t) (auto simp: llm_profile_template_steps llm_sched_step_def llm_container_step_def ApplyToLLM_stable
        empty_pod_spec_def)
qed

lemma llm_profile_HasDRAClaim: "HasDRAClaim (llm_profile_template p ch n t) = HasDRAClaim t"
proof -
  have app: "list_ex (\<lambda>c. hasContainerClaim (claims_of c)) (ApplyToLLMIsvcResources p cs) =
      list_ex (\<lambda>c. hasContainerClaim (claims_of c)) cs" for cs
  proof (cases "mainContainerIndex cs")
    case (Some i)
    then have "i < length cs" by (rule mainContainerIndex_less)
    moreover have "cs \<noteq> []" using Some by auto
    moreover have ex: "list_ex (\<lambda>c. hasContainerClaim (claims_of c)) ds = (\<exists>x \<in> set (map claims_of ds). hasContainerClaim x)" for ds
      by (auto simp: list_ex_iff)
    moreover have "(map claims_of cs)[i := claims_of (cs ! i)] = map claims_of cs"
      using calculation(1) by (simp add: list_update_same_conv)
    ultimately show ?thesis
      using Some by (simp add: ApplyToLLMIsvcResources_def ex del: set_map)
  qed (auto simp: ApplyToLLMIsvcResources_def claim_preds empty_resources_def LLMIsvcMainContainerName_def)
  show ?thesis
    by (cases t) (auto simp: llm_profile_template_steps llm_sched_step_def llm_container_step_def pod_or_empty_def
        HasDRAClaim_def app empty_pod_spec_def hasPodClaim_def)
qed

lemma fold_applyIdentifier_set_claims:
  "fold applyIdentifier ids (r\<lparr>rr_claims := c\<rparr>) = (fold applyIdentifier ids r)\<lparr>rr_claims := c\<rparr>"
proof (induction ids arbitrary: r)
  case (Cons i ids)
  have "applyIdentifier i (r\<lparr>rr_claims := c\<rparr>) = (applyIdentifier i r)\<lparr>rr_claims := c\<rparr>"
    by (simp add: applyIdentifier_def split: option.split)
  then show ?case by (simp add: Cons)
qed simp

lemma ApplyToLLM_upd:
  "cs \<noteq> [] \<Longrightarrow> ApplyToLLMIsvcResources p cs = upd_main (fold applyIdentifier (rp_identifiers p)) cs"
  by (auto simp: ApplyToLLMIsvcResources_def upd_main_def split: option.split)

lemma llm_profile_template_Some:
  assumes "ps_containers x \<noteq> []"
  obtains q where "llm_profile_template p ch n (Some x) = Some q"
    and "ps_containers q = upd_main (fold applyIdentifier (rp_identifiers p)) (ps_containers x)"
    and "ps_init q = ps_init x" and "ps_ephemeral q = ps_ephemeral x" and "ps_claims q = ps_claims x"
  using that [of "the (llm_profile_template p ch n (Some x))"] assms
  by (simp add: llm_profile_template_steps llm_sched_step_def llm_container_step_def pod_or_empty_def ApplyToLLM_upd
      split: if_splits)

lemma reconcileLLM_profile_fixed:
  assumes "reconcileLLMHardwareProfileDRA tpl old t ch = Inr tpl"
  shows "reconcileLLMHardwareProfileDRA (llm_profile_template p pch n tpl) old t ch = Inr (llm_profile_template p pch n tpl)"
proof (cases ch)
  case True
  show ?thesis
  proof (cases "t = ''''")
    case t: True
    show ?thesis
    proof (cases "llm_profile_template p pch n tpl")
      case None
      then show ?thesis using t by (simp add: reconcileLLMHardwareProfileDRA_def ReconcileDRAClaims_def)
    next
      case (Some q)
      have "\<not> old \<or> \<not> HasDRAClaim tpl"
        using assms True t reconcileLLM_deselect_fixed by (cases tpl) (auto simp: HasDRAClaim_def)
      with Some True t llm_profile_HasDRAClaim [of p pch n tpl] show ?thesis
        by (simp add: reconcileLLM_deselect_fixed)
    qed
  next
    case False
    with assms True obtain x where x: "tpl = Some x" "mainContainerIndex (ps_containers x) \<noteq> None"
      using reconcileLLM_selected_nonempty [of tpl old t tpl] by auto
    then have ne: "ps_containers x \<noteq> []" by auto
    from llm_profile_template_Some [OF ne, of p pch n] obtain q where
      q: "llm_profile_template p pch n (Some x) = Some q"
        "ps_containers q = upd_main (fold applyIdentifier (rp_identifiers p)) (ps_containers x)"
        "ps_init q = ps_init x" "ps_ephemeral q = ps_ephemeral x" "ps_claims q = ps_claims x" .
    from reconcileLLM_upd_fixed [OF fold_applyIdentifier_set_claims fold_applyIdentifier_claims _ ne q(2-5)]
    show ?thesis using assms True x q(1) by simp
  qed
qed (simp add: reconcileLLMHardwareProfileDRA_def)

definition no_main :: "pod_spec option \<Rightarrow> bool" where
  "no_main t = (case t of None \<Rightarrow> False | Some p \<Rightarrow> ps_containers p \<noteq> [] \<and> mainContainerIndex (ps_containers p) = None)"

lemma llm_profile_has_main: "\<not> no_main t \<Longrightarrow> \<not> no_main (llm_profile_template p ch n t)"
proof -
  assume a: "\<not> no_main t"
  have "mainContainerIndex (ApplyToLLMIsvcResources p cs) \<noteq> None \<or> ApplyToLLMIsvcResources p cs = []"
    if "cs = [] \<or> mainContainerIndex cs \<noteq> None" for cs
  proof (cases "cs = []")
    case True
    then show ?thesis by (simp add: ApplyToLLMIsvcResources_def)
  next
    case False
    with that show ?thesis by (auto simp: ApplyToLLM_upd)
  qed
  with a show ?thesis
    by (cases t) (auto simp: no_main_def llm_profile_template_steps llm_sched_step_def llm_container_step_def
        pod_or_empty_def empty_pod_spec_def split: if_splits)
qed

section \<open>Lemmas: the whole step\<close>

definition unscheduled :: "resolved_profile \<Rightarrow> pod_spec \<Rightarrow> pod_spec" where
  "unscheduled p q = (let s = RemoveNodeScheduling p (ps_node_selector q) (ps_tolerations q)
     in q\<lparr>ps_node_selector := fst s, ps_tolerations := snd s\<rparr>)"

lemma unscheduled_stable: "unscheduled p (unscheduled p q) = unscheduled p q"
proof -
  have "RemoveNodeScheduling p (fst (RemoveNodeScheduling p a b)) (snd (RemoveNodeScheduling p a b)) =
      RemoveNodeScheduling p a b" for a b
    using RemoveNodeScheduling_stable [of p a b] by (simp add: prod_eq_iff)
  then show ?thesis by (simp add: unscheduled_def)
qed

lemma handleHWPRemovalLLMISVC_cases:
  "(\<forall>x. handleHWPRemovalLLMISVC env req x = x) \<or>
   (\<forall>x. handleHWPRemovalLLMISVC env req x = x\<lparr>ll_meta := unstamp (ll_meta x)\<rparr>) \<or>
   (\<exists>p. \<forall>x. handleHWPRemovalLLMISVC env req x =
      x\<lparr>ll_meta := unstamp (if rp_queue p \<noteq> '''' then RemoveKueueLabel (ll_meta x) else ll_meta x),
        ll_template := map_option (unscheduled p) (ll_template x)\<rparr>)"
proof -
  have un: "unscheduled p = (\<lambda>q. let (newNS, newTols) = RemoveNodeScheduling p (ps_node_selector q) (ps_tolerations q)
      in q\<lparr>ps_node_selector := newNS, ps_tolerations := newTols\<rparr>)" for p
    by (simp add: fun_eq_iff unscheduled_def split_def)
  show ?thesis
  proof (cases "rq_old req")
    case (Some raw)
    show ?thesis
    proof (cases "raw_unstructured raw")
      case old: (Some oldObj)
      let ?n = "m_str (om_annotations oldObj) HardwareProfileAnnotationName"
      let ?ns = "m_str (om_annotations oldObj) HardwareProfileAnnotationNamespace"
      let ?r = "Resolve (env_lib env) (env_profile_cached env) ?n (if ?ns = '''' then om_namespace oldObj else ?ns)"
      show ?thesis
      proof (cases "?n = '''' \<or> (\<forall>p. ?r \<noteq> Inr (Some p))")
        case True
        then show ?thesis
          using Some old
          by (cases "?n = ''''"; cases ?r) (auto simp: handleHWPRemovalLLMISVC_def unstamp_def split: option.split)
      next
        case False
        then obtain p where "?r = Inr (Some p)" "?n \<noteq> ''''" by auto
        then have "handleHWPRemovalLLMISVC env req x =
            x\<lparr>ll_meta := unstamp (if rp_queue p \<noteq> '''' then RemoveKueueLabel (ll_meta x) else ll_meta x),
              ll_template := map_option (unscheduled p) (ll_template x)\<rparr>" for x
          using Some old by (simp add: handleHWPRemovalLLMISVC_def unstamp_def un)
        then show ?thesis by blast
      qed
    qed (simp add: handleHWPRemovalLLMISVC_def Some)
  qed (simp add: handleHWPRemovalLLMISVC_def)
qed

lemma unscheduled_claims: "HasDRAClaim (map_option (unscheduled p) t) = HasDRAClaim t"
  by (cases t) (simp_all add: HasDRAClaim_def unscheduled_def)

lemma reconcileLLM_trivial:
  "reconcileLLMHardwareProfileDRA t old s False = Inr t"
  "reconcileLLMHardwareProfileDRA None old '''' ch = Inr None"
  by (simp_all add: reconcileLLMHardwareProfileDRA_def ReconcileDRAClaims_def)

lemma reconcileLLM_deselect_fixed':
  "reconcileLLMHardwareProfileDRA t old '''' ch = Inr t \<longleftrightarrow> \<not> ch \<or> \<not> old \<or> \<not> HasDRAClaim t"
proof (cases ch)
  case True
  then show ?thesis
    by (cases t) (simp_all add: reconcileLLM_deselect_fixed reconcileLLM_trivial HasDRAClaim_def)
qed (simp add: reconcileLLM_trivial)

lemma handleHWPRemovalLLMISVC_frame:
  "handleHWPRemovalLLMISVC env req (handleHWPRemovalLLMISVC env req x) = handleHWPRemovalLLMISVC env req x"
  "HasDRAClaim (ll_template (handleHWPRemovalLLMISVC env req x)) = HasDRAClaim (ll_template x)"
  "om_deleting (ll_meta (handleHWPRemovalLLMISVC env req x)) = om_deleting (ll_meta x)"
  "m_str (om_annotations (ll_meta (handleHWPRemovalLLMISVC env req x))) HardwareProfileAnnotationName =
     m_str (om_annotations (ll_meta x)) HardwareProfileAnnotationName"
proof -
  have comp: "map_option (unscheduled p) (map_option (unscheduled p) t) = map_option (unscheduled p) t" for p t
    by (cases t) (simp_all add: unscheduled_stable)
  from handleHWPRemovalLLMISVC_cases [of env req]
  show "handleHWPRemovalLLMISVC env req (handleHWPRemovalLLMISVC env req x) = handleHWPRemovalLLMISVC env req x"
    by (elim disjE exE) (simp_all add: comp)
  from handleHWPRemovalLLMISVC_cases [of env req]
  show "HasDRAClaim (ll_template (handleHWPRemovalLLMISVC env req x)) = HasDRAClaim (ll_template x)"
    by (elim disjE exE) (simp_all add: unscheduled_claims)
  from handleHWPRemovalLLMISVC_cases [of env req]
  show "om_deleting (ll_meta (handleHWPRemovalLLMISVC env req x)) = om_deleting (ll_meta x)"
    by (elim disjE exE) (simp_all add: unstamp_def RemoveKueueLabel_def)
  from handleHWPRemovalLLMISVC_cases [of env req]
  show "m_str (om_annotations (ll_meta (handleHWPRemovalLLMISVC env req x))) HardwareProfileAnnotationName =
     m_str (om_annotations (ll_meta x)) HardwareProfileAnnotationName"
    by (elim disjE exE) (simp_all add: unstamp_def RemoveKueueLabel_def hwp_names)
qed

lemma applyLLMDRA_Inr:
  "applyLLMHardwareProfileDRA env req obj sel = Inr o1 \<longleftrightarrow>
     (\<exists>old ch t. ProfileReferenceChangedFromRequest req (ll_meta obj) True = Inr (old, ch) \<and>
        reconcileLLMHardwareProfileDRA (ll_template obj) (old \<noteq> '''') sel ch = Inr t \<and>
        o1 = obj\<lparr>ll_template := t\<rparr> \<and>
        \<not> ((ch \<and> sel \<noteq> '''' \<or> \<not> ch \<and> fst (ProfileRef (om_annotations (ll_meta obj)) (om_namespace (ll_meta obj))) \<noteq> '''' \<and>
              HasDRAClaim (ll_template obj)) \<and>
           map_of (om_annotations (ll_meta obj)) (le_managed_key env) \<noteq> None))"
  by (cases "ProfileReferenceChangedFromRequest req (ll_meta obj) True")
    (auto simp: applyLLMHardwareProfileDRA_def split: prod.splits sum.splits)

lemma llm_removed:
  assumes "\<not> om_deleting (ll_meta obj)" "m_str (om_annotations (ll_meta obj)) HardwareProfileAnnotationName = ''''"
  shows "applyHardwareProfileLLMISVC env api (Inr req) obj =
    ([], case applyLLMHardwareProfileDRA env req obj '''' of
       Inl e \<Rightarrow> Inl e
     | Inr o1 \<Rightarrow> Inr (if rq_operation req = Update then handleHWPRemovalLLMISVC env req o1 else o1))"
  using assms unfolding applyHardwareProfileLLMISVC_def by (simp add: ProfileRef_def)

lemma llm_selected:
  assumes "applyHardwareProfileLLMISVC env api (Inr req) obj = (evs, Inr x)" and "\<not> om_deleting (ll_meta obj)"
    and "ProfileRef (om_annotations (ll_meta obj)) (om_namespace (ll_meta obj)) = (n, ns)" and "n \<noteq> ''''"
  obtains p o1 where "Resolve (env_lib env) (env_profile env) n ns = Inr (Some p)"
    "applyLLMHardwareProfileDRA env req (obj\<lparr>ll_meta := stampNamespace ns (ll_meta obj)\<rparr>) (rp_template p) = Inr o1"
    "no_main (ll_template o1) \<Longrightarrow> evs = [emitContainerValidationEvent (ll_meta o1) api ''LLMInferenceService'' n] \<and> x = o1"
    "\<not> no_main (ll_template o1) \<Longrightarrow> evs = [] \<and> x = applyProfileLLM p (ProfileChanged req n ns) n o1"
  using assms unfolding applyHardwareProfileLLMISVC_def no_main_def [symmetric]
  by (auto split: sum.splits option.splits hwp_error.splits api_error.splits if_splits)

lemma llm_selected_run:
  assumes "\<not> om_deleting (ll_meta obj)"
    and "ProfileRef (om_annotations (ll_meta obj)) (om_namespace (ll_meta obj)) = (n, ns)" and "n \<noteq> ''''"
    and "Resolve (env_lib env) (env_profile env) n ns = Inr (Some p)"
    and "applyLLMHardwareProfileDRA env req (obj\<lparr>ll_meta := stampNamespace ns (ll_meta obj)\<rparr>) (rp_template p) = Inr o1"
  shows "applyHardwareProfileLLMISVC env api (Inr req) obj =
    (if no_main (ll_template o1)
     then ([emitContainerValidationEvent (ll_meta o1) api ''LLMInferenceService'' n], Inr o1)
     else ([], Inr (applyProfileLLM p (ProfileChanged req n ns) n o1)))"
  using assms unfolding applyHardwareProfileLLMISVC_def no_main_def by simp

lemma llm_removed_stable:
  assumes app: "applyHardwareProfileLLMISVC env api (Inr req) obj = (evs, Inr x)" and nd: "\<not> om_deleting (ll_meta obj)"
    and n: "m_str (om_annotations (ll_meta obj)) HardwareProfileAnnotationName = []"
  shows "applyHardwareProfileLLMISVC env api (Inr req) x = (evs, Inr x)"
proof -
  from app obtain o1 where dra: "applyLLMHardwareProfileDRA env req obj '''' = Inr o1" and evs: "evs = []"
    and x: "x = (if rq_operation req = Update then handleHWPRemovalLLMISVC env req o1 else o1)"
    unfolding llm_removed [OF nd n] by (auto split: sum.splits)
  from dra obtain old ch t where r: "ProfileReferenceChangedFromRequest req (ll_meta obj) True = Inr (old, ch)"
    and t: "reconcileLLMHardwareProfileDRA (ll_template obj) (old \<noteq> '''') '''' ch = Inr t"
    and o1: "o1 = obj\<lparr>ll_template := t\<rparr>"
    unfolding applyLLMDRA_Inr by blast
  have xn: "\<not> om_deleting (ll_meta x)" "m_str (om_annotations (ll_meta x)) HardwareProfileAnnotationName = ''''"
    using nd n by (simp_all add: x o1 handleHWPRemovalLLMISVC_frame)
  have rx: "ProfileReferenceChangedFromRequest req (ll_meta x) True = Inr (old, ch)"
    using reference_removed [OF xn(2) n, of req True] r by simp
  have "\<not> ch \<or> old = '''' \<or> \<not> HasDRAClaim t"
    using reconcileLLM_stable [OF t] by (simp add: reconcileLLM_deselect_fixed')
  then have tx: "reconcileLLMHardwareProfileDRA (ll_template x) (old \<noteq> '''') '''' ch = Inr (ll_template x)"
    by (simp add: reconcileLLM_deselect_fixed' x o1 handleHWPRemovalLLMISVC_frame)
  have "applyLLMHardwareProfileDRA env req x '''' = Inr x"
    unfolding applyLLMDRA_Inr using rx tx xn(2)
    by (intro exI [of _ old] exI [of _ ch] exI [of _ "ll_template x"]) (simp add: ProfileRef_def)
  then show ?thesis
    unfolding llm_removed [OF xn] by (simp add: evs) (simp add: x handleHWPRemovalLLMISVC_frame)
qed

text \<open>What a successful run with a profile \<open>p\<close> leaves: the stamped metadata \<open>m\<close> and the template \<open>t\<close>
  after the claim step, with the profile applied unless there is no main container.\<close>

lemma llm_selected_shape:
  assumes app: "applyHardwareProfileLLMISVC env api (Inr req) obj = (evs, Inr x)" and nd: "\<not> om_deleting (ll_meta obj)"
    and ref: "ProfileRef (om_annotations (ll_meta obj)) (om_namespace (ll_meta obj)) = (n, ns)" and False: "n \<noteq> []"
  obtains p old ch t m where "Resolve (env_lib env) (env_profile env) n ns = Inr (Some p)"
    and "m = stampNamespace ns (ll_meta obj)"
    and "ProfileReferenceChangedFromRequest req m True = Inr (old, ch)"
    and "reconcileLLMHardwareProfileDRA (ll_template obj) (old \<noteq> []) (rp_template p) ch = Inr t"
    and "\<not> ((ch \<and> rp_template p \<noteq> [] \<or> \<not> ch \<and> HasDRAClaim t) \<and> map_of (om_annotations m) (le_managed_key env) \<noteq> None)"
    and "x = (if no_main t then obj\<lparr>ll_meta := m, ll_template := t\<rparr>
              else applyProfileLLM p (ProfileChanged req n ns) n (obj\<lparr>ll_meta := m, ll_template := t\<rparr>))"
    and "evs = (if no_main t then [emitContainerValidationEvent m api ''LLMInferenceService'' n] else [])"
    and "no_main (ll_template x) = no_main t" and "om_annotations (ll_meta x) = om_annotations m"
    and "om_deleting (ll_meta x) = om_deleting m" and "om_namespace (ll_meta x) = om_namespace m"
    and "ProfileRef (om_annotations (ll_meta x)) (om_namespace (ll_meta x)) = (n, ns)"
proof -
  from llm_selected [OF app nd ref False] obtain p o1 where
    p: "Resolve (env_lib env) (env_profile env) n ns = Inr (Some p)"
    and dra: "applyLLMHardwareProfileDRA env req (obj\<lparr>ll_meta := stampNamespace ns (ll_meta obj)\<rparr>) (rp_template p) = Inr o1"
    and main: "no_main (ll_template o1) \<Longrightarrow> evs = [emitContainerValidationEvent (ll_meta o1) api ''LLMInferenceService'' n] \<and> x = o1"
      "\<not> no_main (ll_template o1) \<Longrightarrow> evs = [] \<and> x = applyProfileLLM p (ProfileChanged req n ns) n o1"
    by blast
  let ?m = "stampNamespace ns (ll_meta obj)"
  from dra obtain old ch t where r: "ProfileReferenceChangedFromRequest req ?m True = Inr (old, ch)"
    and t: "reconcileLLMHardwareProfileDRA (ll_template obj) (old \<noteq> []) (rp_template p) ch = Inr t"
    and o1: "o1 = obj\<lparr>ll_meta := ?m, ll_template := t\<rparr>"
    and managed: "\<not> ((ch \<and> rp_template p \<noteq> [] \<or> \<not> ch \<and> HasDRAClaim (ll_template obj)) \<and>
         map_of (om_annotations ?m) (le_managed_key env) \<noteq> None)"
    unfolding applyLLMDRA_Inr using ProfileRef_stamp [OF ref] False by auto
  have un: "\<not> ch \<Longrightarrow> t = ll_template obj" using t by (simp add: reconcileLLM_trivial)
  have x: "x = (if no_main t then o1 else applyProfileLLM p (ProfileChanged req n ns) n o1)"
    "evs = (if no_main t then [emitContainerValidationEvent ?m api ''LLMInferenceService'' n] else [])"
    using main by (auto simp: o1)
  have "no_main (ll_template x) = no_main t" "om_annotations (ll_meta x) = om_annotations ?m"
    "om_deleting (ll_meta x) = om_deleting ?m" "om_namespace (ll_meta x) = om_namespace ?m"
    using llm_profile_has_main [of t p "ProfileChanged req n ns" n]
    by (simp_all add: x(1) o1 applyProfileLLM_sel)
  moreover from this have "ProfileRef (om_annotations (ll_meta x)) (om_namespace (ll_meta x)) = (n, ns)"
    using ProfileRef_stamp [OF ref] by simp
  ultimately show ?thesis using that [OF p refl r t _ x(1) [unfolded o1] x(2)] managed un by auto
qed

lemma llm_selected_stable:
  assumes app: "applyHardwareProfileLLMISVC env api (Inr req) obj = (evs, Inr x)" and nd: "\<not> om_deleting (ll_meta obj)"
    and ref: "ProfileRef (om_annotations (ll_meta obj)) (om_namespace (ll_meta obj)) = (n, ns)" and False: "n \<noteq> []"
  shows "applyHardwareProfileLLMISVC env api (Inr req) x = (evs, Inr x)"
proof -
  from llm_selected_shape [OF assms] obtain p old ch t m where
    p: "Resolve (env_lib env) (env_profile env) n ns = Inr (Some p)"
    and m: "m = stampNamespace ns (ll_meta obj)"
    and r: "ProfileReferenceChangedFromRequest req m True = Inr (old, ch)"
    and t: "reconcileLLMHardwareProfileDRA (ll_template obj) (old \<noteq> []) (rp_template p) ch = Inr t"
    and managed: "\<not> ((ch \<and> rp_template p \<noteq> [] \<or> \<not> ch \<and> HasDRAClaim t) \<and> map_of (om_annotations m) (le_managed_key env) \<noteq> None)"
    and x: "x = (if no_main t then obj\<lparr>ll_meta := m, ll_template := t\<rparr>
              else applyProfileLLM p (ProfileChanged req n ns) n (obj\<lparr>ll_meta := m, ll_template := t\<rparr>))"
    and evs: "evs = (if no_main t then [emitContainerValidationEvent m api ''LLMInferenceService'' n] else [])"
    and xm: "no_main (ll_template x) = no_main t" "om_annotations (ll_meta x) = om_annotations m"
      "om_deleting (ll_meta x) = om_deleting m" "om_namespace (ll_meta x) = om_namespace m"
      "ProfileRef (om_annotations (ll_meta x)) (om_namespace (ll_meta x)) = (n, ns)" .
  have ndx: "\<not> om_deleting (ll_meta x)" using nd by (simp add: xm m)
  have stamped: "x\<lparr>ll_meta := stampNamespace ns (ll_meta x)\<rparr> = x"
    using stamp_fixed [OF stamp_stable [OF ref] xm(2) [unfolded m]] by simp
  have rx: "ProfileReferenceChangedFromRequest req (ll_meta x) True = Inr (old, ch)"
    using reference_cong [of "ll_meta x" m req True] xm(5) ProfileRef_stamp [OF ref] r by (simp add: m)
  have hx: "ll_template x = (if no_main t then t else llm_profile_template p (ProfileChanged req n ns) n t)"
    by (simp add: x applyProfileLLM_sel)
  have tx: "reconcileLLMHardwareProfileDRA (ll_template x) (old \<noteq> []) (rp_template p) ch = Inr (ll_template x)"
    using reconcileLLM_stable [OF t] reconcileLLM_profile_fixed [OF reconcileLLM_stable [OF t]] by (simp add: hx)
  have hd: "HasDRAClaim (ll_template x) = HasDRAClaim t" by (simp add: hx llm_profile_HasDRAClaim)
  have "applyLLMHardwareProfileDRA env req x (rp_template p) = Inr x"
    unfolding applyLLMDRA_Inr using rx tx managed
    by (intro exI [of _ old] exI [of _ ch] exI [of _ "ll_template x"]) (auto simp: hd xm)
  with llm_selected_run [OF ndx xm(5) False p, of req x api] stamped xm(1) show ?thesis
    by (auto simp: evs x applyProfileLLM_sel llm_profile_template_stable profile_meta_stable)
qed

lemma applyHardwareProfileLLMISVC_stable:
  assumes "applyHardwareProfileLLMISVC env api (Inr req) obj = (evs, Inr x)"
  shows "applyHardwareProfileLLMISVC env api (Inr req) x = (evs, Inr x)"
proof (cases "om_deleting (ll_meta obj)")
  case False
  obtain n ns where ref: "ProfileRef (om_annotations (ll_meta obj)) (om_namespace (ll_meta obj)) = (n, ns)"
    by (cases "ProfileRef (om_annotations (ll_meta obj)) (om_namespace (ll_meta obj))")
  then have "n = [] \<Longrightarrow> m_str (om_annotations (ll_meta obj)) HardwareProfileAnnotationName = []"
    by (simp add: ProfileRef_def)
  with llm_removed_stable [OF assms False] llm_selected_stable [OF assms False ref] show ?thesis by blast
qed (use assms in \<open>simp add: applyHardwareProfileLLMISVC_def\<close>)

interpretation llm_hardware_stage: admission_stage "\<lambda>x. snd (applyHardwareProfileLLMISVC env api (Inr req) x)" for env api req
  by unfold_locales (metis applyHardwareProfileLLMISVC_stable prod.collapse snd_conv)

interpretation llm_connection_stage: admission_stage
  "\<lambda>x. map_error LLMConnectionError (snd (applyLLMISVCDefaults env (Inr req) x))" for env :: llm_env and req
  by unfold_locales (simp, metis llm_target.apply_stable prod.collapse snd_conv)

section \<open>Properties\<close>

text \<open>
  The connection step of the LLMInferenceService defaulter is idempotent on its own
  output, and it asks for a ServiceAccount only outside dry runs, for an S3 connection whose
  Secret exists, at most one, named after the Secret.
\<close>

theorem applyLLMISVCDefaults_idempotent:
  assumes "applyLLMISVCDefaults env (Inr req) obj = (w, Inr x)"
  shows "applyLLMISVCDefaults env (Inr req) x = (w, Inr x) \<and>
    (w = [] \<or> \<not> is_dry_run req \<and> (\<exists>sec.
       env_secret env (rq_namespace req) (m_str (om_annotations (ll_meta obj)) AnnotationConnections) = Inr sec \<and>
       ValidateConnectionType (sec_meta sec) = (''s3'', True) \<and>
       w = [\<lparr>sa_name = om_name (sec_meta sec) @ ''-sa'', sa_namespace = rq_namespace req,
              sa_secrets = [om_name (sec_meta sec)]\<rparr>]))"
proof
  show "applyLLMISVCDefaults env (Inr req) x = (w, Inr x)"
    using assms by (rule llm_target.apply_stable)
next
  show "w = [] \<or> \<not> is_dry_run req \<and> (\<exists>sec.
       env_secret env (rq_namespace req) (m_str (om_annotations (ll_meta obj)) AnnotationConnections) = Inr sec \<and>
       ValidateConnectionType (sec_meta sec) = (''s3'', True) \<and>
       w = [\<lparr>sa_name = om_name (sec_meta sec) @ ''-sa'', sa_namespace = rq_namespace req,
              sa_secrets = [om_name (sec_meta sec)]\<rparr>])"
  proof (cases w)
    case (Cons sa sas)
    then have "sa \<in> set (fst (applyLLMISVCDefaults env (Inr req) obj))" using assms by simp
    from llm_target.apply_writes [OF this] assms show ?thesis by auto
  qed simp
qed

definition llm_example_env :: llm_env where
  "llm_example_env = \<lparr>
     env_secret = (\<lambda>ns n. Inr \<lparr>sec_meta = empty_meta\<lparr>om_name := n, om_annotations := [(AnnotationConnectionTypeProtocol, ''uri'')]\<rparr>,
       sec_type = ''Opaque'', sec_data = [(''URI'', ''hf://m'')]\<rparr>),
     env_create_sa = (\<lambda>_. None),
     env_lib = \<lparr>nested_string = (\<lambda>_ path.
         if path = [''spec'', ''dra'', ''resourceClaimTemplateName''] then Inr (Some ''tpl'') else Inr None),
       nested_slice = (\<lambda>_ _. Inr None), nested_string_map = (\<lambda>_ _. Inr None),
       parse_quantity = (\<lambda>_. Inl ()), float_to_int64 = (\<lambda>_. 0)\<rparr>,
     env_profile = (\<lambda>_ _. Inr JNull), env_profile_cached = (\<lambda>_ _. Inl NotFound), env_template = (\<lambda>_ _. None),
     le_parse_url = Inr, le_managed_key = ''managed''\<rparr>"

definition llm_create :: "llmisvc admission_request" where
  "llm_create = \<lparr>rq_operation = Create, rq_namespace = ''ns'', rq_dry_run = None, rq_old = None\<rparr>"

definition llm_plain :: llmisvc where
  "llm_plain = \<lparr>ll_meta = empty_meta\<lparr>om_name := ''m'', om_namespace := ''ns'',
     om_annotations := [(AnnotationConnections, ''conn''), (HardwareProfileAnnotationName, ''hwp'')]\<rparr>,
     ll_uri = '''', ll_template = None\<rparr>"

definition llm_connected :: llmisvc where
  "llm_connected = llm_plain\<lparr>ll_uri := ''hf://m'', ll_meta := SetInjectedConnectionType (ll_meta llm_plain) ''uri''\<rparr>"

lemma llm_plain_connected: "applyLLMISVCDefaults llm_example_env (Inr llm_create) llm_plain = ([], Inr llm_connected)"
  by (simp add: applyLLMISVCDefaults_def llm_example_env_def llm_create_def llm_plain_def llm_connected_def
      ValidateConnectionAnnotation_def ValidateConnectionType_def m_str_def empty_meta_def annotation_names
      connection_types CreateServiceAccountIfNeeded_def performLLMISVCInjection_def GetURIValue_def parsed_uri_def
      hwp_names)

theorem applyLLMISVCDefaults_idempotent_witness:
  "applyLLMISVCDefaults llm_example_env (Inr llm_create) llm_connected = ([], Inr llm_connected)"
  using applyLLMISVCDefaults_idempotent [OF llm_plain_connected] by simp

text \<open>
  The hardware-profile step of the LLMInferenceService defaulter is idempotent: run
  again with the same request on its own output it returns the same object and emits the same
  events.
\<close>

theorem applyHardwareProfileLLMISVC_idempotent:
  assumes "applyHardwareProfileLLMISVC env api (Inr req) obj = (evs, Inr x)"
  shows "applyHardwareProfileLLMISVC env api (Inr req) x = (evs, Inr x)"
  using assms by (rule applyHardwareProfileLLMISVC_stable)

definition llm_claimed :: llmisvc where
  "llm_claimed = projr (snd (applyHardwareProfileLLMISVC llm_example_env ''v1alpha2'' (Inr llm_create) llm_plain))"

lemma llm_plain_claimed:
  "applyHardwareProfileLLMISVC llm_example_env ''v1alpha2'' (Inr llm_create) llm_plain = ([], Inr llm_claimed)"
proof -
  have p: "Resolve (env_lib llm_example_env) (env_profile llm_example_env) ''hwp'' ''ns'' =
      Inr (Some (empty_profile\<lparr>rp_template := ''tpl''\<rparr>))"
    by (simp add: Resolve_def llm_example_env_def parseProfile_def str_or_zero_def list_or_zero_def empty_profile_def)
  have ref: "ProfileRef (om_annotations (ll_meta llm_plain)) (om_namespace (ll_meta llm_plain)) = (''hwp'', ''ns'')"
    by (simp add: ProfileRef_def llm_plain_def m_str_def hwp_names annotation_names empty_meta_def)
  obtain t where t: "reconcileLLMHardwareProfileDRA None False ''tpl'' True = Inr (Some t)" "\<not> no_main (Some t)"
    by (simp add: reconcileLLMHardwareProfileDRA_def main_container_def empty_resources_def LLMIsvcMainContainerName_def
        ValidateDRAContainerClaims_def claim_preds empty_pod_spec_def ReconcileDRAClaims_def putMainResources_def no_main_def)
  let ?m = "stampNamespace ''ns'' (ll_meta llm_plain)"
  have ch: "ProfileReferenceChangedFromRequest llm_create ?m True = Inr ('''', True)"
    using ProfileRef_stamp [OF ref]
    by (simp add: ProfileReferenceChangedFromRequest_def llm_create_def ProfileReferenceChanged_def)
  have mk: "map_of (om_annotations ?m) (le_managed_key llm_example_env) = None"
    by (simp add: stampNamespace_def llm_plain_def llm_example_env_def hwp_names annotation_names m_str_def empty_meta_def)
  have tn: "ll_template llm_plain = None" by (simp add: llm_plain_def)
  have dra: "applyLLMHardwareProfileDRA llm_example_env llm_create (llm_plain\<lparr>ll_meta := ?m\<rparr>)
      (rp_template (empty_profile\<lparr>rp_template := ''tpl''\<rparr>)) = Inr (llm_plain\<lparr>ll_meta := ?m, ll_template := Some t\<rparr>)"
    unfolding applyLLMDRA_Inr using ch t(1) mk tn
    by (intro exI [of _ "''''"] exI [of _ True] exI [of _ "Some t"]) simp
  have nd: "\<not> om_deleting (ll_meta llm_plain)" by (simp add: llm_plain_def empty_meta_def)
  show ?thesis
    using llm_selected_run [OF nd ref _ p dra, of "''v1alpha2''"] t(2) by (simp add: llm_claimed_def)
qed

theorem applyHardwareProfileLLMISVC_idempotent_witness:
  "applyHardwareProfileLLMISVC llm_example_env ''v1alpha2'' (Inr llm_create) llm_claimed = ([], Inr llm_claimed)"
  by (rule applyHardwareProfileLLMISVC_idempotent [OF llm_plain_claimed])

text \<open>
  Property C30. The defaulter and the validator agree. Of an LLMInferenceService the defaulter let
  pass on creation, the validator rejects nothing but a resource claim template that cannot be read: the conflict
  with managed claims and the missing main container have been ruled out before.
\<close>

theorem default_satisfies_validator:
  assumes "applyHardwareProfileLLMISVC env api (Inr req) obj = (evs, Inr x)"
    and "\<not> om_deleting (ll_meta obj)" and "rq_operation req = Create"
  shows "ValidateCreateLLM env x =
    (case ProfileRef (om_annotations (ll_meta x)) (om_namespace (ll_meta x)) of (n, ns) \<Rightarrow>
       case Resolve (env_lib env) (env_profile env) n ns of
         Inr (Some p) \<Rightarrow> if rp_template p = '''' then None
           else map_option LLMClaimError (ValidateResourceClaimTemplate (env_template env) (rp_template p) (om_namespace (ll_meta x)))
       | _ \<Rightarrow> None)"
proof -
  obtain n ns where ref: "ProfileRef (om_annotations (ll_meta obj)) (om_namespace (ll_meta obj)) = (n, ns)"
    by (cases "ProfileRef (om_annotations (ll_meta obj)) (om_namespace (ll_meta obj))")
  show ?thesis
  proof (cases "n = ''''")
    case True
    then have n: "m_str (om_annotations (ll_meta obj)) HardwareProfileAnnotationName = ''''"
      using ref by (simp add: ProfileRef_def)
    from assms obtain o1 where "applyLLMHardwareProfileDRA env req obj '''' = Inr o1" "x = o1"
      unfolding llm_removed [OF assms(2) n] by (auto split: sum.splits)
    then have "ll_meta x = ll_meta obj" unfolding applyLLMDRA_Inr by auto
    with ref True show ?thesis
      by (simp add: ValidateCreateLLM_def validateLLMHardwareProfileDRA_def Resolve_def)
  next
    case False
    from llm_selected_shape [OF assms(1,2) ref False] obtain p old ch t m where
      p: "Resolve (env_lib env) (env_profile env) n ns = Inr (Some p)"
      and r: "ProfileReferenceChangedFromRequest req m True = Inr (old, ch)"
      and t: "reconcileLLMHardwareProfileDRA (ll_template obj) (old \<noteq> []) (rp_template p) ch = Inr t"
      and managed: "\<not> ((ch \<and> rp_template p \<noteq> [] \<or> \<not> ch \<and> HasDRAClaim t) \<and> map_of (om_annotations m) (le_managed_key env) \<noteq> None)"
      and xm: "no_main (ll_template x) = no_main t" "om_annotations (ll_meta x) = om_annotations m"
        "om_namespace (ll_meta x) = om_namespace m" "ProfileRef (om_annotations (ll_meta x)) (om_namespace (ll_meta x)) = (n, ns)"
      by metis
    have ch: "ch" using r assms(3) xm False
      by (auto simp: ProfileReferenceChangedFromRequest_def ProfileReferenceChanged_def split: option.splits)
    have main: "rp_template p \<noteq> '''' \<Longrightarrow> \<not> no_main (ll_template x)"
      using reconcileLLM_selected_nonempty [of "ll_template obj" "old \<noteq> []" "rp_template p" t] t ch
      by (auto simp: xm(1)) (auto simp: no_main_def)
    show ?thesis
      unfolding ValidateCreateLLM_def validateLLMHardwareProfileDRA_def no_main_def [symmetric]
      using p main managed ch False xm by (auto simp: ProfileReferenceChanged_def)
  qed
qed

theorem default_satisfies_validator_witness: "ValidateCreateLLM llm_example_env llm_claimed = None"
proof -
  have "\<not> om_deleting (ll_meta llm_plain)" by (simp add: llm_plain_def empty_meta_def)
  from default_satisfies_validator [OF llm_plain_claimed this] show ?thesis
    by (simp add: llm_create_def llm_example_env_def ValidateResourceClaimTemplate_def
        split: prod.split sum.split option.split)
qed

text \<open>
  The cleanup erases the model URI whatever it is. An update that removes a URI
  connection and sets a model URI of the user's own in the same request leaves the object
  without one, although the comment says that only previously injected values are removed.
\<close>

theorem removal_erases_user_uri:
  "\<exists>x. applyLLMISVCDefaults llm_example_env
      (Inr \<lparr>rq_operation = Update, rq_namespace = ''ns'', rq_dry_run = None,
         rq_old = Some \<lparr>raw_partial = Some (ll_meta llm_connected), raw_metadata = Some (ll_meta llm_connected),
           raw_unstructured = Some (ll_meta llm_connected), raw_typed = Some llm_connected\<rparr>\<rparr>)
      \<lparr>ll_meta = empty_meta\<lparr>om_name := ''m'', om_namespace := ''ns''\<rparr>, ll_uri = ''hf://mine'', ll_template = None\<rparr>
    = ([], Inr x) \<and> ll_uri x = ''''"
  by (simp add: applyLLMISVCDefaults_def llm_example_env_def llm_connected_def llm_plain_def m_str_def conn_defs
      ValidateConnectionAnnotation_def GetOldConnectionInfo_def DetermineAction_def performLLMISVCCleanup_def
      no_connection_def empty_meta_def annotation_names connection_types hwp_names)

end
