(* ===== verification/Graph_Webhook.thy ===== *)
theory Graph_Webhook
  imports K8s_Types
begin

text \<open>
  The InferenceGraph validator (internal/webhook/serving/v1alpha1/inferencegraph_webhook.go). A step
  may call a service by URL; only services of the graph's own namespace are allowed. \<open>url.Parse\<close>
  followed by \<open>Hostname\<close> is the parameter \<open>parse_host\<close>, an error or the host; the cluster
  domain is a parameter too.
\<close>

section \<open>Definitions\<close>

record graph_step =
  gs_service :: string
  gs_url :: string

record inference_graph =
  ig_meta :: object_meta
  ig_mode :: string  \<comment> \<open>the deployment mode in the status\<close>
  ig_nodes :: "graph_step list gomap"

datatype graph_reason = URLUnparsable | UnexpectedSubdomains | OtherNamespace | PublicHostname

definition hostReason :: "string \<Rightarrow> string \<Rightarrow> string \<Rightarrow> graph_reason option" where
  "hostReason clusterDomainName namespace serviceHost =
     (if has_suffix ''.svc'' serviceHost \<or> has_suffix (''.svc.'' @ clusterDomainName) serviceHost then
        (let host = trim_suffix (''.svc.'' @ clusterDomainName) (trim_suffix ''.svc'' serviceHost);
             components = split_on CHR ''.'' host
         in if length components \<noteq> 2 then Some UnexpectedSubdomains
            else if components ! 1 \<noteq> namespace then Some OtherNamespace
            else None)
      else Some PublicHostname)"

definition stepReason ::
  "(string \<Rightarrow> unit + string) \<Rightarrow> string \<Rightarrow> string \<Rightarrow> graph_step \<Rightarrow> graph_reason option" where
  "stepReason parse_host clusterDomainName namespace step =
     (if gs_url step = '''' then None
      else (case parse_host (gs_url step) of
          Inl _ \<Rightarrow> Some URLUnparsable
        | Inr host \<Rightarrow> hostReason clusterDomainName namespace host))"

fun nodeErrors ::
  "(graph_step \<Rightarrow> graph_reason option) \<Rightarrow> string \<Rightarrow> nat \<Rightarrow> graph_step list \<Rightarrow> (string \<times> nat \<times> graph_reason) list" where
  "nodeErrors check node idx [] = []"
| "nodeErrors check node idx (s # ss) =
     (case check s of
        Some r \<Rightarrow> (node, idx, r) # nodeErrors check node (Suc idx) ss
      | None \<Rightarrow> nodeErrors check node (Suc idx) ss)"

definition validateInferenceGraph ::
  "(string \<Rightarrow> unit + string) \<Rightarrow> string \<Rightarrow> inference_graph \<Rightarrow> (string \<times> nat \<times> graph_reason) list" where
  "validateInferenceGraph parse_host clusterDomainName graph =
     concat (map (\<lambda>(node, steps).
       nodeErrors (stepReason parse_host clusterDomainName (om_namespace (ig_meta graph))) node 0 steps)
       (ig_nodes graph))"

section \<open>Lemmas\<close>

lemma nodeErrors_iff:
  "(n, i, r) \<in> set (nodeErrors check node k ss) \<longleftrightarrow>
     n = node \<and> k \<le> i \<and> i < k + length ss \<and> check (ss ! (i - k)) = Some r"
proof (induction ss arbitrary: k)
  case (Cons s ss)
  show ?case
    using Cons.IH [of "Suc k"] by (cases "i = k") (auto simp: nth_Cons' Suc_diff_le split: option.split)
qed simp

definition dots :: "string \<Rightarrow> nat" where
  "dots s = length (filter (\<lambda>c. c = CHR ''.'') s)"

lemma dots_simps [simp]:
  "dots [] = 0" "dots (c # s) = (if c = CHR ''.'' then Suc (dots s) else dots s)" "dots (s @ t) = dots s + dots t"
  by (simp_all add: dots_def)

lemma dots_zero: "dots s = 0 \<longleftrightarrow> CHR ''.'' \<notin> set s"
  by (auto simp: dots_def filter_empty_conv)

lemma length_split_dots: "length (split_on CHR ''.'' s) = Suc (dots s)"
  by (induction s) (auto split: list.splits)

lemma split_two: "split_on CHR ''.'' s = [a, b] \<longleftrightarrow>
    s = a @ ''.'' @ b \<and> CHR ''.'' \<notin> set a \<and> CHR ''.'' \<notin> set b"
proof
  assume split: "split_on CHR ''.'' s = [a, b]"
  have "a @ ''.'' @ b = s" using join_split_on [of "CHR ''.''" s] by (simp add: split)
  moreover have "CHR ''.'' \<notin> set a" "CHR ''.'' \<notin> set b"
    using split_on_sep_free [of _ "CHR ''.''" s] by (simp_all add: split)
  ultimately show "s = a @ ''.'' @ b \<and> CHR ''.'' \<notin> set a \<and> CHR ''.'' \<notin> set b" by simp
qed (simp add: split_on_append split_on_no_sep)

lemma two_components:
  "length (split_on CHR ''.'' s) = 2 \<and> split_on CHR ''.'' s ! 1 = b \<longleftrightarrow>
     (\<exists>a. s = a @ ''.'' @ b \<and> CHR ''.'' \<notin> set a \<and> CHR ''.'' \<notin> set b)"
proof -
  have "length l = 2 \<and> l ! 1 = b \<longleftrightarrow> (\<exists>a. l = [a, b])" for l :: "string list"
    by (cases l; cases "tl l") auto
  then show ?thesis by (simp only: split_two)
qed

lemma trim_suffix_absent: "\<not> has_suffix p s \<Longrightarrow> trim_suffix p s = s"
  by (simp add: trim_suffix_def)

lemma trim_suffix_cases: "trim_suffix p s = t \<Longrightarrow> s = t @ p \<and> has_suffix p s \<or> s = t \<and> \<not> has_suffix p s"
  by (cases "has_suffix p s") (auto simp: trim_suffix_absent has_suffix_iff)

lemma few_dots_no_suffix: "dots s < dots p \<Longrightarrow> \<not> has_suffix p s"
  by (auto simp: has_suffix_iff)

section \<open>Properties\<close>

text \<open>A label and the namespace, followed by a suffix.\<close>

definition own_service_host :: "string \<Rightarrow> string \<Rightarrow> string \<Rightarrow> string \<Rightarrow> bool" where
  "own_service_host suffix ns svc host =
     (CHR ''.'' \<notin> set svc \<and> CHR ''.'' \<notin> set ns \<and> host = svc @ ''.'' @ ns @ suffix)"

lemma hostReason_None:
  assumes "\<not> has_suffix ''.svc'' (''.svc.'' @ cdom)"
  shows "hostReason cdom ns host = None \<longleftrightarrow>
     (\<exists>svc. own_service_host ''.svc'' ns svc host \<or> own_service_host (''.svc.'' @ cdom) ns svc host \<or>
        own_service_host (''.svc.'' @ cdom @ ''.svc'') ns svc host)"
proof -
  let ?full = "''.svc.'' @ cdom"
  let ?trimmed = "trim_suffix ?full (trim_suffix ''.svc'' host)"
  have acc: "hostReason cdom ns host = None \<longleftrightarrow> (has_suffix ''.svc'' host \<or> has_suffix ?full host) \<and>
      (\<exists>a. ?trimmed = a @ ''.'' @ ns \<and> CHR ''.'' \<notin> set a \<and> CHR ''.'' \<notin> set ns)"
    unfolding two_components [symmetric] by (auto simp: hostReason_def)
  have short: "\<not> has_suffix ?full (a @ ''.'' @ ns)" if "CHR ''.'' \<notin> set a" "CHR ''.'' \<notin> set ns" for a
    by (rule few_dots_no_suffix) (use that in \<open>simp add: dots_zero [symmetric]\<close>)
  have fullsvc: "\<not> has_suffix ''.svc'' (x @ ?full)" for x
  proof
    assume "has_suffix ''.svc'' (x @ ?full)"
    then obtain y where "x @ ?full = y @ ''.svc''" by (auto simp: has_suffix_iff)
    then consider us where "us @ ?full = ''.svc''" | us where "?full = us @ ''.svc''"
      by (auto simp only: append_eq_append_conv2)
    then have "has_suffix ''.svc'' ?full"
    proof cases
      case (1 us)
      then have "length us + length ?full = length ''.svc''" by (metis length_append)
      then show ?thesis by simp
    qed (metis has_suffix_iff)
    with assms show False by simp
  qed
  show ?thesis
  proof
    assume "hostReason cdom ns host = None"
    with acc obtain a where suf: "has_suffix ''.svc'' host \<or> has_suffix ?full host"
      and a: "?trimmed = a @ ''.'' @ ns" "CHR ''.'' \<notin> set a" "CHR ''.'' \<notin> set ns" by blast
    from trim_suffix_cases [OF a(1)] trim_suffix_cases [of "''.svc''" host, OF refl] suf a(2,3)
    show "\<exists>svc. own_service_host ''.svc'' ns svc host \<or> own_service_host ?full ns svc host \<or>
        own_service_host (''.svc.'' @ cdom @ ''.svc'') ns svc host"
      by (intro exI [of _ a]) (auto simp: own_service_host_def)
  next
    assume "\<exists>svc. own_service_host ''.svc'' ns svc host \<or> own_service_host ?full ns svc host \<or>
        own_service_host (''.svc.'' @ cdom @ ''.svc'') ns svc host"
    then obtain a where a: "CHR ''.'' \<notin> set a" "CHR ''.'' \<notin> set ns"
      and h: "host = (a @ ''.'' @ ns) @ ''.svc'' \<or> host = (a @ ''.'' @ ns) @ ?full \<or>
        host = ((a @ ''.'' @ ns) @ ?full) @ ''.svc''"
      by (auto simp: own_service_host_def)
    have "(has_suffix ''.svc'' host \<or> has_suffix ?full host) \<and> ?trimmed = a @ ''.'' @ ns"
      using h short [OF a] fullsvc [of "a @ ''.'' @ ns"]
      by (metis trim_suffix_append trim_suffix_absent has_suffix_iff)
    with acc a show "hostReason cdom ns host = None" by blast
  qed
qed

text \<open>
  Property C36. The set of graphs the validator accepts, for a cluster domain that does not end in \<open>.svc\<close>: the host of every step with a URL
  is a label without dots, a dot and the namespace of the graph, followed by \<open>.svc\<close>, by \<open>.svc.\<close> and the cluster domain, or by both. The first
  two are the internal names of a service of the namespace, as far as the label is not empty, which the validator does not check; the third, which is no
  name of a service, is accepted because the suffixes are trimmed one after the other.
\<close>

theorem validateInferenceGraph_accepts_iff:
  assumes "\<not> has_suffix ''.svc'' (''.svc.'' @ cdom)"
  shows "validateInferenceGraph parse_host cdom graph = [] \<longleftrightarrow>
    (\<forall>(node, steps) \<in> set (ig_nodes graph). \<forall>step \<in> set steps. gs_url step = '''' \<or>
       (\<exists>host svc. parse_host (gs_url step) = Inr host \<and>
          (own_service_host ''.svc'' (om_namespace (ig_meta graph)) svc host \<or>
           own_service_host (''.svc.'' @ cdom) (om_namespace (ig_meta graph)) svc host \<or>
           own_service_host (''.svc.'' @ cdom @ ''.svc'') (om_namespace (ig_meta graph)) svc host)))"
proof -
  let ?ns = "om_namespace (ig_meta graph)"
  have node: "nodeErrors check node k steps = [] \<longleftrightarrow> (\<forall>s \<in> set steps. check s = None)" for check node k steps
    by (induction steps arbitrary: k) (auto split: option.split)
  have step: "stepReason parse_host cdom ?ns s = None \<longleftrightarrow> gs_url s = '''' \<or>
      (\<exists>host svc. parse_host (gs_url s) = Inr host \<and> (own_service_host ''.svc'' ?ns svc host \<or>
         own_service_host (''.svc.'' @ cdom) ?ns svc host \<or> own_service_host (''.svc.'' @ cdom @ ''.svc'') ?ns svc host))" for s
    by (cases "parse_host (gs_url s)") (auto simp: stepReason_def hostReason_None [OF assms])
  show ?thesis by (simp add: validateInferenceGraph_def node step split_def)
qed

definition one_step_graph :: "string \<Rightarrow> inference_graph" where
  "one_step_graph url = \<lparr>ig_meta = empty_meta\<lparr>om_namespace := ''team''\<rparr>, ig_mode = [], ig_nodes = [(''root'', [\<lparr>gs_service = [], gs_url = url\<rparr>])]\<rparr>"

theorem validateInferenceGraph_accepts_iff_witness:
  "validateInferenceGraph Inr ''cluster.local'' (one_step_graph ''m.team.svc.cluster.local'') = []"
proof -
  have "\<not> has_suffix ''.svc'' (''.svc.'' @ ''cluster.local'')" by (simp add: has_suffix_def)
  from validateInferenceGraph_accepts_iff [OF this] show ?thesis
    by (auto simp: one_step_graph_def empty_meta_def own_service_host_def intro: exI [of _ "''m''"])
qed

text \<open>
  Because the two suffixes are trimmed one after the other, a host that carries both
  passes, although it is neither of the two forms of a cluster-internal name the check is meant
  for.
\<close>

theorem doubled_suffix_accepted:
  "validateInferenceGraph Inr ''cluster.local'' (one_step_graph ''m.team.svc.cluster.local.svc'') = []"
  by (simp add: validateInferenceGraph_def one_step_graph_def empty_meta_def stepReason_def hostReason_def
      has_suffix_def trim_suffix_def)

end
