(* ===== verification/Pod_Webhook.thy ===== *)
theory Pod_Webhook
  imports K8s_Types Admission
begin

text \<open>
  The pod webhook (internal/webhook/core/v1/pod_webhook.go), which gives Ray pods an init container
  that installs their certificates. The ConfigMap read for the image is the parameter \<open>get_data\<close>: the
  data of \<open>odh-model-controller-parameters\<close>. KServe's constant \<open>InferenceServiceContainerName\<close>
  is the parameter \<open>kserveName\<close>; the code also spells "kserve-container" out. The shell script of
  the init container is left out, with its other constant fields.
\<close>

section \<open>Data\<close>

record pod_container =
  pk_name :: string
  pk_image :: string
  pk_env :: "(string \<times> string) list"
  pk_mounts :: "(string \<times> string) list"

datatype volume_source = EmptyDir | FromSecret string

record ray_pod =
  rp_init :: "pod_container list"
  rp_containers :: "pod_container list"
  rp_volumes :: "(string \<times> volume_source) list"

datatype pod_error = ParametersUnreadable api_error | ImageKeyMissing

definition RayUseTlsEnvName :: string where "RayUseTlsEnvName = ''RAY_USE_TLS''"
definition RayTLSSecretName :: string where "RayTLSSecretName = ''ray-tls''"
definition RayTLSGeneratorInitContainerName :: string where
  "RayTLSGeneratorInitContainerName = ''ray-tls-generator''"
definition RayTLSVolumeName :: string where "RayTLSVolumeName = ''ray-tls''"
definition RayTLSSecretVolumeName :: string where "RayTLSSecretVolumeName = ''ray-tls-secret''"
definition RayTLSVolumeMountPath :: string where "RayTLSVolumeMountPath = ''/etc/ray/tls''"
definition RayTLSSecretMountPath :: string where "RayTLSSecretMountPath = ''/etc/ray-secret''"
definition WorkerContainerName :: string where "WorkerContainerName = ''worker-container''"

section \<open>Operations\<close>

definition needToAddRayTLSGenerator :: "string \<Rightarrow> ray_pod \<Rightarrow> bool" where
  "needToAddRayTLSGenerator kserveName pod =
     (if list_ex (\<lambda>c. pk_name c = RayTLSGeneratorInitContainerName) (rp_init pod) then False
      else list_ex (\<lambda>c. (pk_name c = kserveName \<or> pk_name c = WorkerContainerName) \<and>
             list_ex (\<lambda>(n, v). n = RayUseTlsEnvName \<and> v \<noteq> ''0'') (pk_env c)) (rp_containers pod))"

text \<open>The loop over the containers, which stops at the first of the two names.\<close>

fun mountRayTLS :: "pod_container list \<Rightarrow> pod_container list" where
  "mountRayTLS [] = []"
| "mountRayTLS (c # cs) =
     (if pk_name c = ''kserve-container'' \<or> pk_name c = ''worker-container''
      then c\<lparr>pk_mounts := pk_mounts c @ [(RayTLSVolumeName, RayTLSVolumeMountPath)]\<rparr> # cs
      else c # mountRayTLS cs)"

definition addRayTLSVolumesAndVolumeMounts :: "ray_pod \<Rightarrow> ray_pod" where
  "addRayTLSVolumesAndVolumeMounts pod =
     pod\<lparr>rp_volumes := rp_volumes pod @ [(RayTLSVolumeName, EmptyDir), (RayTLSSecretVolumeName, FromSecret RayTLSSecretName)],
         rp_containers := mountRayTLS (rp_containers pod)\<rparr>"

definition getRayCertGeneratorImage :: "api_error + string gomap \<Rightarrow> pod_error + string" where
  "getRayCertGeneratorImage get_data =
     (case get_data of
        Inl e \<Rightarrow> Inl (ParametersUnreadable e)
      | Inr data \<Rightarrow> (case map_of data ''ray-tls-generator-image'' of
          None \<Rightarrow> Inl ImageKeyMissing
        | Some img \<Rightarrow> Inr img))"

definition getRayTLSGeneratorScriptInitContainer :: "api_error + string gomap \<Rightarrow> pod_error + pod_container" where
  "getRayTLSGeneratorScriptInitContainer get_data =
     (case getRayCertGeneratorImage get_data of
        Inl e \<Rightarrow> Inl e
      | Inr img \<Rightarrow> Inr \<lparr>pk_name = RayTLSGeneratorInitContainerName, pk_image = img, pk_env = [(''POD_IP'', ''status.podIP'')],
          pk_mounts = [(RayTLSVolumeName, RayTLSVolumeMountPath), (RayTLSSecretVolumeName, RayTLSSecretMountPath)]\<rparr>)"

definition mutate :: "string \<Rightarrow> api_error + string gomap \<Rightarrow> ray_pod \<Rightarrow> pod_error + ray_pod" where
  "mutate kserveName get_data pod =
     (if needToAddRayTLSGenerator kserveName pod then
        (let pod1 = addRayTLSVolumesAndVolumeMounts pod
         in case getRayTLSGeneratorScriptInitContainer get_data of
              Inl e \<Rightarrow> Inl e
            | Inr c \<Rightarrow> Inr (pod1\<lparr>rp_init := rp_init pod1 @ [c]\<rparr>))
      else Inr pod)"

section \<open>Lemmas\<close>

lemma mountRayTLS_names: "map pk_name (mountRayTLS cs) = map pk_name cs"
  by (induction cs) auto

lemma mountRayTLS_mounts:
  "(\<exists>c \<in> set cs. pk_name c = ''kserve-container'' \<or> pk_name c = ''worker-container'') \<Longrightarrow>
   \<exists>c \<in> set (mountRayTLS cs). (RayTLSVolumeName, RayTLSVolumeMountPath) \<in> set (pk_mounts c)"
  by (induction cs) auto

lemma mutate_not_needed_after:
  "mutate k d pod = Inr pod' \<Longrightarrow> \<not> needToAddRayTLSGenerator k pod'"
  by (auto simp: mutate_def needToAddRayTLSGenerator_def getRayTLSGeneratorScriptInitContainer_def
      list_ex_iff split: if_splits sum.splits)

interpretation pod_stage: admission_stage "mutate k d" for k d
  by unfold_locales (simp add: mutate_def [of k d] mutate_not_needed_after split: if_splits,
      metis mutate_def mutate_not_needed_after)

section \<open>Properties\<close>

text \<open>
  The pod webhook is idempotent, and what it adds belongs together: a pod that needs
  the generator gets exactly one generator init container, both volumes, and, when one of the two
  serving containers asked for it, a mount of the certificates in a container; any
  other pod is left as it is.
\<close>

theorem mutate_spec:
  assumes "mutate ''kserve-container'' d pod = Inr pod'"
  shows "mutate ''kserve-container'' d pod' = Inr pod' \<and>
    (\<not> needToAddRayTLSGenerator ''kserve-container'' pod \<longrightarrow> pod' = pod) \<and>
    (needToAddRayTLSGenerator ''kserve-container'' pod \<longrightarrow>
       (\<exists>g. rp_init pod' = rp_init pod @ [g] \<and>
          filter (\<lambda>c. pk_name c = RayTLSGeneratorInitContainerName) (rp_init pod') = [g]) \<and>
       rp_volumes pod' = rp_volumes pod @ [(RayTLSVolumeName, EmptyDir), (RayTLSSecretVolumeName, FromSecret RayTLSSecretName)] \<and>
       (\<exists>c \<in> set (rp_containers pod'). (RayTLSVolumeName, RayTLSVolumeMountPath) \<in> set (pk_mounts c)))"
proof -
  have "(\<exists>c \<in> set (rp_containers pod). pk_name c = ''kserve-container'' \<or> pk_name c = ''worker-container'') \<and>
      filter (\<lambda>c. pk_name c = RayTLSGeneratorInitContainerName) (rp_init pod) = []"
    if "needToAddRayTLSGenerator ''kserve-container'' pod"
    using that by (auto simp: needToAddRayTLSGenerator_def list_ex_iff filter_empty_conv WorkerContainerName_def
        split: if_splits)
  with assms pod_stage.reinvoked [OF assms] mountRayTLS_mounts [of "rp_containers pod"] show ?thesis
    by (auto simp: mutate_def addRayTLSVolumesAndVolumeMounts_def getRayTLSGeneratorScriptInitContainer_def
        split: if_splits sum.splits)
qed

definition ray_example :: "string \<Rightarrow> ray_pod" where
  "ray_example v = \<lparr>rp_init = [], rp_containers = [\<lparr>pk_name = ''worker-container'', pk_image = ''i'',
     pk_env = [(RayUseTlsEnvName, v)], pk_mounts = []\<rparr>], rp_volumes = []\<rparr>"

theorem mutate_spec_witness:
  "\<exists>pod'. mutate ''kserve-container'' (Inr [(''ray-tls-generator-image'', ''img'')]) (ray_example ''1'') = Inr pod' \<and>
     mutate ''kserve-container'' (Inr [(''ray-tls-generator-image'', ''img'')]) pod' = Inr pod'"
proof -
  obtain pod' where p: "mutate ''kserve-container'' (Inr [(''ray-tls-generator-image'', ''img'')]) (ray_example ''1'') = Inr pod'"
    by (simp add: mutate_def needToAddRayTLSGenerator_def ray_example_def WorkerContainerName_def RayUseTlsEnvName_def
        getRayTLSGeneratorScriptInitContainer_def getRayCertGeneratorImage_def)
  with mutate_spec [OF p] show ?thesis by blast
qed

text \<open>
  The comments say the generator is added when \<open>RAY_USE_TLS\<close> is 1. The code adds it
  for every value but 0, "false" and the empty string included.
\<close>

theorem ray_tls_added_for_false:
  "needToAddRayTLSGenerator ''kserve-container'' (ray_example ''false'') \<and>
   needToAddRayTLSGenerator ''kserve-container'' (ray_example '''')"
  by (simp add: needToAddRayTLSGenerator_def ray_example_def WorkerContainerName_def RayUseTlsEnvName_def)

end
