(* ===== verification/NIM_Webhook.thy ===== *)
theory NIM_Webhook
  imports K8s_Types
begin

text \<open>
  The NIM Account validator (internal/webhook/nim/v1/account_webhook.go), which is meant to allow one Account
  per namespace, and the cluster around it. An Account is given by its namespace and name. The validator lists the Accounts
  through the cached client of the manager, and the API server stores a creation some time after the webhook has
  answered; the step relation has the stored Accounts, the cache and the creations that have been validated but not stored.
\<close>

section \<open>The validator\<close>

datatype account_error = AccountListFailed api_error | AccountExists string string

type_synonym account = "string \<times> string"

definition verifySingletonInNamespace :: "api_error + account list \<Rightarrow> account \<Rightarrow> account_error option" where
  "verifySingletonInNamespace accountList account =
     (case accountList of
        Inl e \<Rightarrow> Some (AccountListFailed e)
      | Inr items \<Rightarrow> if length items > 0 then Some (AccountExists (snd account) (fst account)) else None)"

definition ValidateCreateAccount :: "(string \<Rightarrow> api_error + account list) \<Rightarrow> account \<Rightarrow> account_error option" where
  "ValidateCreateAccount list_in account = verifySingletonInNamespace (list_in (fst account)) account"

section \<open>The cluster\<close>

definition in_namespace :: "account list \<Rightarrow> string \<Rightarrow> api_error + account list" where
  "in_namespace stored ns = Inr (filter (\<lambda>a. fst a = ns) stored)"

record account_cluster =
  ac_stored :: "account list"
  ac_cache :: "account list"
  ac_pending :: "account list"

text \<open>The cache is brought up to date at some time; an event that has not arrived yet leaves it behind the store.\<close>

inductive admission_step :: "account_cluster \<Rightarrow> account_cluster \<Rightarrow> bool" where
  validated: "ValidateCreateAccount (in_namespace (ac_cache s)) a = None \<Longrightarrow> admission_step s (s\<lparr>ac_pending := a # ac_pending s\<rparr>)"
| persisted: "a \<in> set (ac_pending s) \<Longrightarrow> a \<notin> set (ac_stored s) \<Longrightarrow>
     admission_step s (s\<lparr>ac_stored := a # ac_stored s, ac_pending := remove1 a (ac_pending s)\<rparr>)"
| dropped: "admission_step s (s\<lparr>ac_pending := remove1 a (ac_pending s)\<rparr>)"
| removed: "admission_step s (s\<lparr>ac_stored := removeAll a (ac_stored s)\<rparr>)"
| synced: "admission_step s (s\<lparr>ac_cache := ac_stored s\<rparr>)"

section \<open>Properties\<close>

lemma ValidateCreateAccount_None:
  "ValidateCreateAccount (in_namespace listed) a = None \<longleftrightarrow> fst a \<notin> fst ` set listed"
  by (auto simp: ValidateCreateAccount_def in_namespace_def verifySingletonInNamespace_def filter_empty_conv image_iff)
    (metis fst_conv)

definition accountsIn :: "string \<Rightarrow> account_cluster \<Rightarrow> nat" where
  "accountsIn ns s = length (filter (\<lambda>a. fst a = ns) (ac_stored s @ ac_pending s))"

text \<open>
  What the check achieves: as long as the cache has an Account of a namespace, the Accounts of that namespace, stored or on their way, become no more.
\<close>

theorem cached_account_blocks:
  assumes "admission_step s t" "ns \<in> fst ` set (ac_cache s)"
  shows "accountsIn ns t \<le> accountsIn ns s"
proof -
  have remove: "length (filter P (remove1 a xs)) = length (filter P xs) - of_bool (a \<in> set xs \<and> P a)" for P a and xs :: "account list"
    by (induction xs) (auto simp: filter_empty_conv Suc_diff_le, metis (no_types, lifting) Suc_pred filter_empty_conv length_greater_0_conv)
  have all: "length (filter (\<lambda>b. fst b = ns) (removeAll a xs)) \<le> length (filter (\<lambda>b. fst b = ns) xs)" for a and xs :: "account list"
    by (induction xs) auto
  from assms(1) show ?thesis
  proof cases
    case (validated a)
    then show ?thesis using assms(2) by (auto simp: accountsIn_def ValidateCreateAccount_None)
  next
    case (persisted a)
    then have "fst a = ns \<Longrightarrow> 0 < length (filter (\<lambda>b. fst b = ns) (ac_pending s))" by (auto simp: filter_empty_conv)
    with persisted show ?thesis by (auto simp: accountsIn_def remove)
  qed (simp_all add: accountsIn_def remove all)
qed

text \<open>
  It does not keep namespaces to one Account. Two creations that are both validated before the first is stored, or
  before the cache has seen it, are both admitted.
\<close>

theorem concurrent_accounts_reachable:
  "let s = \<lparr>ac_stored = [], ac_cache = [], ac_pending = []\<rparr>; a = (''ns'', ''a''); b = (''ns'', ''b'')
   in admission_step\<^sup>*\<^sup>* s \<lparr>ac_stored = [b, a], ac_cache = [], ac_pending = []\<rparr>"
proof -
  let ?a = "(''ns'', ''a'')" and ?b = "(''ns'', ''b'')"
  let ?s = "\<lambda>stored pending. \<lparr>ac_stored = stored, ac_cache = [], ac_pending = pending\<rparr>"
  have "admission_step (?s [] []) (?s [] [?a])" using validated [of "?s [] []" ?a] by (simp add: ValidateCreateAccount_None)
  moreover have "admission_step (?s [] [?a]) (?s [?a] [])" using persisted [of ?a "?s [] [?a]"] by simp
  moreover have "admission_step (?s [?a] []) (?s [?a] [?b])" using validated [of "?s [?a] []" ?b] by (simp add: ValidateCreateAccount_None)
  moreover have "admission_step (?s [?a] [?b]) (?s [?b, ?a] [])" using persisted [of ?b "?s [?a] [?b]"] by simp
  ultimately have "admission_step\<^sup>*\<^sup>* (?s [] []) (?s [?b, ?a] [])" by (meson converse_rtranclp_into_rtranclp rtranclp.rtrancl_refl)
  then show ?thesis by simp
qed

end
