(* ===== verification/Storage_Config.thy ===== *)
theory Storage_Config
  imports K8s_Types "HOL-Library.List_Lexorder" "HOL-Library.Char_ord"
begin

text \<open>
  The storage-config Secret (internal/controller/core/secret_controller.go): KServe reads the
  credentials of all data connections of a namespace from one Secret, which this controller builds. The
  answers of the API server are the fields of \<open>storage_api\<close>; the writes are returned as a list. \<open>retry\<close> stands for
  \<open>retry.RetryOnConflict\<close> of client-go: it is given the attempts and returns what one of them returned.
\<close>

section \<open>Data\<close>

record configmap =
  cm_meta :: object_meta
  cm_data :: "string gomap"

datatype secret_write = CreateSecret secret | UpdateSecret secret | DeleteSecret string string

text \<open>
  \<open>sapi_again\<close> and \<open>sapi_update\<close> answer the Get and the Update of the n-th attempt of the retried
  update.
\<close>

record storage_api =
  sapi_connections :: "api_error + secret list"
  sapi_configmap :: "string \<Rightarrow> api_error + configmap"
  sapi_found :: "string \<Rightarrow> api_error + secret"
  sapi_again :: "nat \<Rightarrow> api_error + secret"
  sapi_create :: "secret \<Rightarrow> api_error option"
  sapi_update :: "nat \<Rightarrow> secret \<Rightarrow> api_error option"
  sapi_delete :: "secret \<Rightarrow> api_error option"

definition DefaultStorageConfig :: string where "DefaultStorageConfig = ''storage-config''"
definition KServeCACertFileName :: string where "KServeCACertFileName = ''cabundle.crt''"
definition KServeCACertConfigMapName :: string where "KServeCACertConfigMapName = ''odh-kserve-custom-ca-bundle''"

section \<open>JSON objects of strings\<close>

text \<open>
  \<open>json.Marshal\<close> on a \<open>map[string]string\<close>: the keys in order, strings with Go's escapes (for ASCII
  text).
\<close>

definition hex_digit :: "nat \<Rightarrow> char" where
  "hex_digit n = ''0123456789abcdef'' ! n"

definition json_char :: "char \<Rightarrow> string" where
  "json_char c =
     (let n = (of_char c :: nat)
      in if n = 34 then [CHR 0x5C, CHR 0x22]
         else if n = 92 then [CHR 0x5C, CHR 0x5C]
         else if n = 8 then CHR 0x5C # ''b''
         else if n = 12 then CHR 0x5C # ''f''
         else if n = 10 then CHR 0x5C # ''n''
         else if n = 13 then CHR 0x5C # ''r''
         else if n = 9 then CHR 0x5C # ''t''
         else if n < 32 \<or> n = 60 \<or> n = 62 \<or> n = 38
         then CHR 0x5C # ''u00'' @ [hex_digit (n div 16), hex_digit (n mod 16)]
         else [c])"

definition json_string :: "string \<Rightarrow> string" where
  "json_string s = CHR 0x22 # concat (map json_char s) @ [CHR 0x22]"

definition json_object :: "string gomap \<Rightarrow> string" where
  "json_object m = ''{'' @ join_with '','' (map (\<lambda>k. json_string k @ '':'' @ json_string (m_str m k))
     (sort (remdups (map fst m)))) @ ''}''"

section \<open>The storage-config Secret\<close>

text \<open>One round of the loop: the element map is shared by all rounds, as in the code.\<close>

definition storageElement :: "string \<Rightarrow> secret \<Rightarrow> string gomap \<Rightarrow> string gomap" where
  "storageElement kserveCustomCertData sec element =
     (let e1 = m_put ''type'' (m_str (om_annotations (sec_meta sec)) ''opendatahub.io/connection-type'') element;
          e2 = m_put ''access_key_id'' (m_str (sec_data sec) ''AWS_ACCESS_KEY_ID'') e1;
          e3 = m_put ''secret_access_key'' (m_str (sec_data sec) ''AWS_SECRET_ACCESS_KEY'') e2;
          e4 = m_put ''endpoint_url'' (m_str (sec_data sec) ''AWS_S3_ENDPOINT'') e3;
          e5 = m_put ''bucket'' (m_str (sec_data sec) ''AWS_S3_BUCKET'') e4;
          e6 = m_put ''region'' (m_str (sec_data sec) ''AWS_DEFAULT_REGION'') e5
      in if kserveCustomCertData \<noteq> '''' \<and> has_prefix ''https://'' (m_str (sec_data sec) ''AWS_S3_ENDPOINT'')
         then m_put ''cabundle_configmap'' KServeCACertConfigMapName e6
         else m_del ''cabundle_configmap'' e6)"

fun storageLoop :: "string \<Rightarrow> secret list \<Rightarrow> string gomap \<Rightarrow> string gomap \<Rightarrow> string gomap" where
  "storageLoop cert [] element storage = storage"
| "storageLoop cert (sec # secs) element storage =
     (let e = storageElement cert sec element
      in storageLoop cert secs e (m_put (om_name (sec_meta sec)) (json_object e) storage))"

definition newStorageSecret :: "secret list \<Rightarrow> string \<Rightarrow> secret" where
  "newStorageSecret dataConnections kserveCustomCertData =
     \<lparr>sec_meta = empty_meta, sec_type = '''', sec_data = storageLoop kserveCustomCertData dataConnections [] []\<rparr>"

definition CompareStorageSecrets :: "secret \<Rightarrow> secret \<Rightarrow> bool" where
  "CompareStorageSecrets s1 s2 =
     (m_eq (om_labels (sec_meta s1)) (om_labels (sec_meta s2)) \<and> m_eq (sec_data s1) (sec_data s2))"

definition deleteStorageSecret :: "storage_api \<Rightarrow> string \<Rightarrow> secret_write list \<times> api_error option" where
  "deleteStorageSecret api namespace =
     (case sapi_found api DefaultStorageConfig of
        Inl _ \<Rightarrow> ([], None)
      | Inr found \<Rightarrow>
          if m_str (om_labels (sec_meta found)) ''opendatahub.io/managed'' = ''true''
          then ([DeleteSecret namespace (om_name (sec_meta found))], sapi_delete api found)
          else ([], None))"

definition desiredStorageSecret :: "secret list \<Rightarrow> string \<Rightarrow> string \<Rightarrow> secret" where
  "desiredStorageSecret connections certData namespace =
     (newStorageSecret connections certData)\<lparr>sec_meta := empty_meta\<lparr>om_name := DefaultStorageConfig,
        om_namespace := namespace, om_labels := [(''opendatahub.io/managed'', ''true'')]\<rparr>\<rparr>"

definition updateAttempt :: "storage_api \<Rightarrow> secret \<Rightarrow> nat \<Rightarrow> secret_write list \<times> api_error option" where
  "updateAttempt api desired n =
     (case sapi_again api n of
        Inl e \<Rightarrow> ([], Some e)
      | Inr found \<Rightarrow>
          (let found' = found\<lparr>sec_data := sec_data desired,
                 sec_meta := (sec_meta found)\<lparr>om_labels := om_labels (sec_meta desired)\<rparr>\<rparr>
           in ([UpdateSecret found'], sapi_update api n found')))"

definition fetchCertData :: "storage_api \<Rightarrow> api_error + string" where
  "fetchCertData api =
     (case sapi_configmap api KServeCACertConfigMapName of
        Inl NotFound \<Rightarrow> Inr ''''
      | Inl e \<Rightarrow> Inl e
      | Inr cm \<Rightarrow> Inr (m_str (cm_data cm) KServeCACertFileName))"

definition reconcileSecret ::
  "((nat \<Rightarrow> secret_write list \<times> api_error option) \<Rightarrow> secret_write list \<times> api_error option)
     \<Rightarrow> storage_api \<Rightarrow> string \<Rightarrow> secret_write list \<times> api_error option" where
  "reconcileSecret retry api namespace =
     (case sapi_connections api of
        Inl e \<Rightarrow> ([], Some e)
      | Inr [] \<Rightarrow> deleteStorageSecret api namespace
      | Inr connections \<Rightarrow>
          (case fetchCertData api of
             Inl e \<Rightarrow> ([], Some e)
           | Inr certData \<Rightarrow>
               (let desired = desiredStorageSecret connections certData namespace
                in case sapi_found api DefaultStorageConfig of
                     Inl NotFound \<Rightarrow> ([CreateSecret desired],
                       case sapi_create api desired of
                         Some AlreadyExists \<Rightarrow> None
                       | r \<Rightarrow> r)
                   | Inl e \<Rightarrow> ([], Some e)
                   | Inr found \<Rightarrow>
                       if CompareStorageSecrets desired found then ([], None)
                       else retry (updateAttempt api desired))))"

text \<open>\<open>Reconcile\<close> runs for the namespace of the request, whether the Secret that triggered it is still there or not.\<close>

definition ReconcileSecret ::
  "((nat \<Rightarrow> secret_write list \<times> api_error option) \<Rightarrow> secret_write list \<times> api_error option)
     \<Rightarrow> storage_api \<Rightarrow> api_error + secret \<Rightarrow> string \<Rightarrow> secret_write list \<times> api_error option" where
  "ReconcileSecret retry api got reqNamespace =
     (case got of
        Inl NotFound \<Rightarrow> reconcileSecret retry api reqNamespace
      | Inl e \<Rightarrow> ([], Some e)
      | Inr sec \<Rightarrow> reconcileSecret retry api (om_namespace (sec_meta sec)))"

section \<open>The event filter\<close>

definition checkOpenDataHubLabel :: "string gomap \<Rightarrow> bool" where
  "checkOpenDataHubLabel labels = (m_str labels ''opendatahub.io/managed'' = ''true'')"

definition IsRayTLSSecret :: "string \<Rightarrow> bool" where
  "IsRayTLSSecret name = (name = ''ray-ca-tls'' \<or> name = ''ray-tls'')"

text \<open>The three functions of the predicate, for creation, deletion and update, are the same.\<close>

definition reconcileOpenDataHubSecrets :: "object_meta \<Rightarrow> bool" where
  "reconcileOpenDataHubSecrets m = (checkOpenDataHubLabel (om_labels m) \<and> \<not> IsRayTLSSecret (om_name m))"

section \<open>Lemmas\<close>

lemma json_object_cong:
  assumes "map_of a = map_of b"
  shows "json_object a = json_object b"
proof -
  from assms have "fst ` set a = fst ` set b" by (metis dom_map_of_conv_image_fst)
  then have "set (map fst a) = set (map fst b)" by simp
  then have "sort (remdups (map fst a)) = sort (remdups (map fst b))"
    by (metis sorted_list_of_set_sort_remdups)
  moreover have "m_str a = m_str b" using assms by (simp add: m_str_def fun_eq_iff)
  ultimately show ?thesis by (simp add: json_object_def)
qed

definition storage_keys :: "string set" where
  "storage_keys = {''type'', ''access_key_id'', ''secret_access_key'', ''endpoint_url'', ''bucket'', ''region'',
     ''cabundle_configmap''}"

lemma storageElement_forgets:
  assumes "\<And>k. map_of el k \<noteq> None \<Longrightarrow> k \<in> storage_keys"
  shows "map_of (storageElement cert sec el) = map_of (storageElement cert sec [])"
proof
  fix k
  show "map_of (storageElement cert sec el) k = map_of (storageElement cert sec []) k"
    by (cases "map_of el k"; use assms [of k] in \<open>auto simp: storageElement_def storage_keys_def\<close>)
qed

lemma storageElement_keys: "map_of (storageElement cert sec []) k \<noteq> None \<Longrightarrow> k \<in> storage_keys"
  by (auto simp: storageElement_def storage_keys_def split: if_splits)

lemma storageLoop_entries:
  assumes "\<And>k. map_of el k \<noteq> None \<Longrightarrow> k \<in> storage_keys"
  shows "map_of (storageLoop cert secs el st) n =
    (case find (\<lambda>s. om_name (sec_meta s) = n) (rev secs) of
       Some s \<Rightarrow> Some (json_object (storageElement cert s []))
     | None \<Rightarrow> map_of st n)"
  using assms
proof (induction secs arbitrary: el st)
  case (Cons sec secs)
  let ?e = "storageElement cert sec el"
  have e: "map_of ?e = map_of (storageElement cert sec [])" by (rule storageElement_forgets) (rule Cons.prems)
  have find_append: "find P (xs @ ys) = (case find P xs of Some x \<Rightarrow> Some x | None \<Rightarrow> find P ys)" for P and xs ys :: "secret list"
    by (induction xs) auto
  have "map_of (storageLoop cert secs ?e (m_put (om_name (sec_meta sec)) (json_object ?e) st)) n =
    (case find (\<lambda>s. om_name (sec_meta s) = n) (rev secs) of
       Some s \<Rightarrow> Some (json_object (storageElement cert s []))
     | None \<Rightarrow> map_of (m_put (om_name (sec_meta sec)) (json_object ?e) st) n)"
    by (rule Cons.IH) (simp add: e storageElement_keys)
  then show ?case by (auto simp: find_append json_object_cong [OF e] split: option.split)
qed simp

text \<open>A namespace as a store, with an API server that answers from it and never fails.\<close>

record ns_store =
  nst_secrets :: "secret gomap"
  nst_configmaps :: "configmap gomap"

definition is_data_connection :: "secret \<Rightarrow> bool" where
  "is_data_connection s = (m_str (om_labels (sec_meta s)) ''opendatahub.io/managed'' = ''true'' \<and>
     m_str (om_labels (sec_meta s)) ''opendatahub.io/dashboard'' = ''true'')"

definition store_api :: "ns_store \<Rightarrow> storage_api" where
  "store_api st = \<lparr>
     sapi_connections = Inr (map snd (filter (\<lambda>(k, s). is_data_connection s) (nst_secrets st))),
     sapi_configmap = (\<lambda>n. from_option (map_of (nst_configmaps st) n)),
     sapi_found = (\<lambda>n. from_option (map_of (nst_secrets st) n)),
     sapi_again = (\<lambda>_. from_option (map_of (nst_secrets st) DefaultStorageConfig)),
     sapi_create = (\<lambda>_. None), sapi_update = (\<lambda>_ _. None), sapi_delete = (\<lambda>_. None)\<rparr>"

definition apply_secret_write :: "secret_write \<Rightarrow> ns_store \<Rightarrow> ns_store" where
  "apply_secret_write w st =
     (case w of
        CreateSecret s \<Rightarrow> st\<lparr>nst_secrets := m_put (om_name (sec_meta s)) s (nst_secrets st)\<rparr>
      | UpdateSecret s \<Rightarrow> st\<lparr>nst_secrets := m_put (om_name (sec_meta s)) s (nst_secrets st)\<rparr>
      | DeleteSecret ns n \<Rightarrow> st\<lparr>nst_secrets := m_del n (nst_secrets st)\<rparr>)"

lemma filter_put_other:
  "\<not> P (k, v) \<Longrightarrow> (\<And>x. (k, x) \<in> set m \<Longrightarrow> \<not> P (k, x)) \<Longrightarrow> filter P (m_put k v m) = filter P m"
  by (induction m) auto

lemma filter_del_other:
  "(\<And>x. (k, x) \<in> set m \<Longrightarrow> \<not> P (k, x)) \<Longrightarrow> filter P (m_del k m) = filter P m"
  by (induction m) (auto simp: AList.delete_eq)

text \<open>Secrets are stored under their names; the storage-config Secret itself may carry the labels of a connection.\<close>

definition named_store :: "ns_store \<Rightarrow> bool" where
  "named_store st = (wf_map (nst_secrets st) \<and> (\<forall>k s. map_of (nst_secrets st) k = Some s \<longrightarrow> om_name (sec_meta s) = k))"

definition config_unlabelled :: "ns_store \<Rightarrow> bool" where
  "config_unlabelled st = (\<forall>s. map_of (nst_secrets st) DefaultStorageConfig = Some s \<longrightarrow> \<not> is_data_connection s)"

lemma desired_not_connection: "\<not> is_data_connection (desiredStorageSecret cs cert ns)"
  by (simp add: is_data_connection_def desiredStorageSecret_def m_str_def)

lemma reconcileSecret_ready:
  assumes "sapi_connections api = Inr conns" and "conns \<noteq> []" and "fetchCertData api = Inr cert"
  shows "reconcileSecret retry api ns =
    (let desired = desiredStorageSecret conns cert ns
     in case sapi_found api DefaultStorageConfig of
          Inl NotFound \<Rightarrow> ([CreateSecret desired],
            case sapi_create api desired of Some AlreadyExists \<Rightarrow> None | r \<Rightarrow> r)
        | Inl e \<Rightarrow> ([], Some e)
        | Inr found \<Rightarrow>
            if CompareStorageSecrets desired found then ([], None) else retry (updateAttempt api desired))"
  using assms by (cases conns) (simp_all add: reconcileSecret_def)

section \<open>Properties\<close>

text \<open>
  Although the loop reuses one map for all data connections, no field of one leaks into
  the entry of another: the entry of each connection is the JSON object of its own fields, with
  the CA bundle named exactly when there is certificate data and the endpoint uses HTTPS. Of
  two connections with one name the later wins.
\<close>

theorem newStorageSecret_entries:
  "map_of (sec_data (newStorageSecret conns cert)) n =
     map_option (\<lambda>s. json_object (storageElement cert s []))
       (find (\<lambda>s. om_name (sec_meta s) = n) (rev conns))"
proof -
  have "map_of (storageLoop cert conns [] []) n =
    (case find (\<lambda>s. om_name (sec_meta s) = n) (rev conns) of
       Some s \<Rightarrow> Some (json_object (storageElement cert s [])) | None \<Rightarrow> map_of [] n)"
    by (rule storageLoop_entries) simp
  then show ?thesis by (simp add: newStorageSecret_def split: option.splits)
qed

text \<open>
  A reconciliation makes at most one write, and only the right one: it creates or
  updates the storage-config Secret with the entries of the namespace's data connections and
  the managed label, or, when there are no data connections, deletes a storage-config Secret
  that carries the managed label.
\<close>

theorem reconcileSecret_writes:
  assumes retry: "\<And>f. \<exists>n. retry f = f n" and "w \<in> set (fst (reconcileSecret retry api ns))"
  shows "fst (reconcileSecret retry api ns) = [w] \<and>
    (\<exists>conns cert. sapi_connections api = Inr conns \<and>
       (case w of
          CreateSecret s \<Rightarrow> conns \<noteq> [] \<and> s = desiredStorageSecret conns cert ns \<and>
            sapi_found api DefaultStorageConfig = Inl NotFound
        | UpdateSecret s \<Rightarrow> conns \<noteq> [] \<and> sec_data s = sec_data (desiredStorageSecret conns cert ns) \<and>
            om_labels (sec_meta s) = [(''opendatahub.io/managed'', ''true'')]
        | DeleteSecret n m \<Rightarrow> conns = [] \<and> (\<exists>found. sapi_found api DefaultStorageConfig = Inr found \<and>
            m_str (om_labels (sec_meta found)) ''opendatahub.io/managed'' = ''true'' \<and> n = ns \<and> m = om_name (sec_meta found))))"
proof (cases "sapi_connections api")
  case (Inr conns)
  show ?thesis
  proof (cases "conns = []")
    case True
    with Inr assms(2) show ?thesis
      by (auto simp: reconcileSecret_def deleteStorageSecret_def split: sum.splits if_splits)
  next
    case False
    show ?thesis
    proof (cases "fetchCertData api")
      case (Inl e)
      with \<open>sapi_connections api = Inr conns\<close> False assms(2) show ?thesis
        by (cases conns) (simp_all add: reconcileSecret_def)
    next
      case cert: (Inr cert)
      let ?d = "desiredStorageSecret conns cert ns"
      obtain n where n: "retry (updateAttempt api ?d) = updateAttempt api ?d n" using retry by blast
      from assms(2) show ?thesis
        unfolding reconcileSecret_ready [OF Inr False cert] using Inr False n
        by (intro conjI exI [of _ conns] exI [of _ cert])
          (auto simp: updateAttempt_def desiredStorageSecret_def split: sum.splits if_splits api_error.splits)
    qed
  qed
qed (use assms(2) in \<open>simp add: reconcileSecret_def\<close>)

definition s3_secret :: "string \<Rightarrow> secret" where
  "s3_secret n = \<lparr>sec_meta = empty_meta\<lparr>om_name := n, om_namespace := ''ns'',
       om_labels := [(''opendatahub.io/managed'', ''true''), (''opendatahub.io/dashboard'', ''true'')]\<rparr>,
     sec_type = ''Opaque'', sec_data = [(''AWS_S3_ENDPOINT'', ''https://s3'')]\<rparr>"

definition one_connection :: ns_store where
  "one_connection = \<lparr>nst_secrets = [(''conn'', s3_secret ''conn'')], nst_configmaps = []\<rparr>"

lemma one_connection_run:
  "reconcileSecret (\<lambda>f. f 0) (store_api one_connection) ''ns'' =
     ([CreateSecret (desiredStorageSecret [s3_secret ''conn''] '''' ''ns'')], None)"
  by (simp add: reconcileSecret_def store_api_def one_connection_def from_option_def s3_secret_def
      is_data_connection_def m_str_def DefaultStorageConfig_def fetchCertData_def)

theorem reconcileSecret_writes_witness:
  "\<exists>w. fst (reconcileSecret (\<lambda>f. f 0) (store_api one_connection) ''ns'') = [w]"
  using reconcileSecret_writes [of "\<lambda>f. f 0" _ "store_api one_connection" "''ns''"] one_connection_run by auto

abbreviation store_connections :: "ns_store \<Rightarrow> secret list" where
  "store_connections st \<equiv> map snd (filter (\<lambda>(k, s). is_data_connection s) (nst_secrets st))"

abbreviation put_storage :: "secret \<Rightarrow> ns_store \<Rightarrow> ns_store" where
  "put_storage s st \<equiv> st\<lparr>nst_secrets := m_put DefaultStorageConfig s (nst_secrets st)\<rparr>"

lemma fetchCertData_store: "\<exists>cert. fetchCertData (store_api st) = Inr cert"
  by (cases "map_of (nst_configmaps st) KServeCACertConfigMapName")
    (simp_all add: store_api_def from_option_def fetchCertData_def)

lemma unlabelled_member:
  assumes "named_store st" "config_unlabelled st" "(DefaultStorageConfig, s) \<in> set (nst_secrets st)"
  shows "\<not> is_data_connection s"
  using assms by (auto simp: named_store_def config_unlabelled_def wf_map_def)

text \<open>What a reconcile leaves, whatever the labels of the storage-config Secret.\<close>

lemma reconcileSecret_leaves:
  assumes st: "named_store st" and cert: "fetchCertData (store_api st) = Inr cert"
    and run: "reconcileSecret (\<lambda>f. f 0) (store_api st) ns = (ws, e)"
  obtains (same) "e = None" "ws = []"
    | (deleted) "e = None" "store_connections st = []" "fold apply_secret_write ws st = st\<lparr>nst_secrets := m_del DefaultStorageConfig (nst_secrets st)\<rparr>"
    | (stored) s where "e = None" "store_connections st \<noteq> []" "fold apply_secret_write ws st = put_storage s st" "om_name (sec_meta s) = DefaultStorageConfig"
        "\<not> is_data_connection s" "CompareStorageSecrets (desiredStorageSecret (store_connections st) cert ns) s"
proof (cases "store_connections st = []")
  case True
  have name: "om_name (sec_meta s) = DefaultStorageConfig" if "map_of (nst_secrets st) DefaultStorageConfig = Some s" for s
    using st that by (simp add: named_store_def)
  have "e = None \<and> (ws = [] \<or> fold apply_secret_write ws st = st\<lparr>nst_secrets := m_del DefaultStorageConfig (nst_secrets st)\<rparr>)"
    using True run name
    by (auto simp: reconcileSecret_def store_api_def deleteStorageSecret_def from_option_def apply_secret_write_def split: option.splits if_splits)
  with True same deleted show thesis by blast
next
  case False
  let ?d = "desiredStorageSecret (store_connections st) cert ns"
  have conns: "sapi_connections (store_api st) = Inr (store_connections st)" by (simp add: store_api_def)
  have ne: "filter (\<lambda>(k, s). is_data_connection s) (nst_secrets st) \<noteq> []" using False by simp
  note run' = reconcileSecret_ready [OF conns False cert, of "\<lambda>f. f 0" ns, unfolded run]
  show thesis
  proof (cases "map_of (nst_secrets st) DefaultStorageConfig")
    case None
    with run' have ws: "ws = [CreateSecret ?d]" "e = None" by (simp_all add: store_api_def from_option_def)
    show thesis
      by (rule stored [of ?d]) (simp_all add: ws ne desired_not_connection CompareStorageSecrets_def apply_secret_write_def,
          simp_all add: desiredStorageSecret_def)
  next
    case (Some s)
    let ?s = "s\<lparr>sec_data := sec_data ?d, sec_meta := (sec_meta s)\<lparr>om_labels := om_labels (sec_meta ?d)\<rparr>\<rparr>"
    have name: "om_name (sec_meta s) = DefaultStorageConfig" using st Some by (simp add: named_store_def)
    show thesis
    proof (cases "CompareStorageSecrets ?d s")
      case True
      with Some run' show thesis by (intro same) (simp_all add: store_api_def from_option_def)
    next
      case cmp: False
      with Some run' have ws: "ws = [UpdateSecret ?s]" "e = None"
        by (simp_all add: store_api_def from_option_def updateAttempt_def)
      show thesis
        by (rule stored [of ?s]) (simp_all add: ws ne name apply_secret_write_def,
            simp_all add: is_data_connection_def desiredStorageSecret_def m_str_def CompareStorageSecrets_def)
    qed
  qed
qed

lemma reconcileSecret_settled:
  assumes st: "named_store st" "config_unlabelled st" and run: "reconcileSecret (\<lambda>f. f 0) (store_api st) ns = (ws, e)"
  shows "reconcileSecret (\<lambda>f. f 0) (store_api (fold apply_secret_write ws st)) ns = ([], None)"
proof -
  obtain cert where cert: "fetchCertData (store_api st) = Inr cert" using fetchCertData_store by blast
  from st(1) cert run show ?thesis
  proof (cases rule: reconcileSecret_leaves)
    case same
    with run show ?thesis by simp
  next
    case deleted
    have "store_connections (st\<lparr>nst_secrets := m_del DefaultStorageConfig (nst_secrets st)\<rparr>) = []"
      using deleted(2) unlabelled_member [OF st] by (simp add: filter_del_other)
    then show ?thesis
      by (simp add: deleted(3) reconcileSecret_def store_api_def deleteStorageSecret_def from_option_def)
  next
    case (stored s)
    have "store_connections (put_storage s st) = store_connections st"
      using stored(5) unlabelled_member [OF st] by (simp add: filter_put_other)
    then have c: "sapi_connections (store_api (put_storage s st)) = Inr (store_connections st)" by (simp add: store_api_def)
    have "fetchCertData (store_api (put_storage s st)) = Inr cert" using cert by (simp add: store_api_def fetchCertData_def)
    from reconcileSecret_ready [OF c stored(2) this] stored(6) show ?thesis
      by (simp add: stored(3) store_api_def from_option_def)
  qed
qed

lemma reconcileSecret_unlabels:
  assumes st: "named_store st" and run: "reconcileSecret (\<lambda>f. f 0) (store_api st) ns = (ws, e)"
  shows "e = None \<and> (ws = [] \<or> named_store (fold apply_secret_write ws st) \<and> config_unlabelled (fold apply_secret_write ws st))"
proof -
  obtain cert where cert: "fetchCertData (store_api st) = Inr cert" using fetchCertData_store by blast
  from st cert run show ?thesis
  proof (cases rule: reconcileSecret_leaves)
    case deleted
    then show ?thesis using st by (auto simp: named_store_def config_unlabelled_def wf_map_del)
  next
    case (stored s)
    then show ?thesis using st by (auto simp: named_store_def config_unlabelled_def wf_map_put)
  qed simp
qed

text \<open>
  Property C37. The controller converges, with an API server that answers from the store of the namespace and accepts all
  writes. Reconciling succeeds; when the storage-config Secret does not itself carry the labels of a data connection, a second reconcile writes
  nothing. When it does, the first reconcile has taken it for a connection and replaced its labels, the second may write once more, and the third writes nothing.
\<close>

theorem reconcileSecret_converges:
  assumes "named_store st"
    and "reconcileSecret (\<lambda>f. f 0) (store_api st) ns = (ws, e)" "st' = fold apply_secret_write ws st"
    and "reconcileSecret (\<lambda>f. f 0) (store_api st') ns = (ws', e')"
  shows "e = None \<and> e' = None \<and>
    ((\<forall>s. map_of (nst_secrets st) ''storage-config'' = Some s \<longrightarrow> \<not> is_data_connection s) \<longrightarrow> ws' = []) \<and>
    reconcileSecret (\<lambda>f. f 0) (store_api (fold apply_secret_write ws' st')) ns = ([], None)"
proof -
  have one: "ws' = [] \<and> e' = None" if "config_unlabelled st"
    using reconcileSecret_settled [OF assms(1) that assms(2)] assms(3,4) by simp
  note first = reconcileSecret_unlabels [OF assms(1,2), folded assms(3)]
  have "e' = None \<and> reconcileSecret (\<lambda>f. f 0) (store_api (fold apply_secret_write ws' st')) ns = ([], None)"
  proof (cases "ws = []")
    case True
    then have "ws' = ws" "e' = e" using assms(2,3,4) by simp_all
    with True first assms(2,3) show ?thesis by simp
  next
    case False
    with first have st': "named_store st'" "config_unlabelled st'" by simp_all
    from reconcileSecret_settled [OF st' assms(4)] reconcileSecret_unlabels [OF st'(1) assms(4)] show ?thesis by simp
  qed
  with first one show ?thesis by (simp add: config_unlabelled_def DefaultStorageConfig_def)
qed

text \<open>A store whose storage-config Secret has the labels of a connection, beside one connection.\<close>

definition labelled_config :: ns_store where
  "labelled_config = \<lparr>nst_secrets = [(''storage-config'', s3_secret ''storage-config''), (''conn'', s3_secret ''conn'')], nst_configmaps = []\<rparr>"

theorem reconcileSecret_converges_witness:
  "let run = (\<lambda>st. reconcileSecret (\<lambda>f. f 0) (store_api st) ''ns''); after = (\<lambda>st. fold apply_secret_write (fst (run st)) st)
   in run (after one_connection) = ([], None) \<and> run (after (after labelled_config)) = ([], None)"
proof -
  have ne: "''storage-config'' \<noteq> ''conn''" by simp
  have n: "named_store one_connection" "named_store labelled_config"
    by (auto simp: named_store_def one_connection_def labelled_config_def s3_secret_def wf_map_def split: if_splits)
  have plain: "map_of (nst_secrets one_connection) ''storage-config'' = None" by (simp add: one_connection_def)
  show ?thesis
    using reconcileSecret_converges [OF n(1) prod.collapse [symmetric] refl prod.collapse [symmetric], of "''ns''"]
      reconcileSecret_converges [OF n(2) prod.collapse [symmetric] refl prod.collapse [symmetric], of "''ns''"] plain
    by (simp add: Let_def prod_eq_iff)
qed

text \<open>
  The comments of the event filter say that it keeps the storage-config Secret from
  triggering its own reconciliation. It does not: the Secret the controller builds carries the
  managed label and passes the filter.
\<close>

theorem storage_config_triggers_itself:
  "reconcileOpenDataHubSecrets (sec_meta (desiredStorageSecret conns cert ns))"
  by (simp add: reconcileOpenDataHubSecrets_def checkOpenDataHubLabel_def IsRayTLSSecret_def
      desiredStorageSecret_def m_str_def DefaultStorageConfig_def)

end
