(* ===== verification/CA_Bundle.thy ===== *)
theory CA_Bundle
  imports Storage_Config
begin

text \<open>
  The CA bundle ConfigMap for KServe (internal/controller/core/configmap_controller.go): the
  certificates of the platform's bundles, concatenated into one file, and the removal of the
  storage-config Secret when they change. \<open>bundle_api\<close> holds the answers of the API server.
\<close>

section \<open>Definitions\<close>

definition ODHGlobalCertConfigMapName :: string where "ODHGlobalCertConfigMapName = ''odh-trusted-ca-bundle''"
definition ODHClusterCACertFileName :: string where "ODHClusterCACertFileName = ''ca-bundle.crt''"
definition ODHCustomCACertFileName :: string where "ODHCustomCACertFileName = ''odh-ca-bundle.crt''"
definition ServiceCAConfigMapName :: string where "ServiceCAConfigMapName = ''openshift-service-ca.crt''"
definition ServiceCACertFileName :: string where "ServiceCACertFileName = ''service-ca.crt''"

definition CABundleConfigMaps :: "string list gomap" where
  "CABundleConfigMaps = [(ODHGlobalCertConfigMapName, [ODHClusterCACertFileName, ODHCustomCACertFileName]),
     (ServiceCAConfigMapName, [ServiceCACertFileName])]"

datatype bundle_write =
    CreateBundle configmap
  | UpdateBundle configmap
  | DeleteBundle configmap
  | DeleteStorageSecret string

record bundle_api =
  bapi_get :: "string \<Rightarrow> api_error + configmap"
  bapi_write :: "bundle_write \<Rightarrow> api_error option"
  bapi_storage :: "api_error + secret"

definition newline2 :: string where
  "newline2 = [CHR 0x0A, CHR 0x0A]"

text \<open>The inner loop over the files of one bundle.\<close>

fun addFiles :: "string gomap \<Rightarrow> string list \<Rightarrow> string \<Rightarrow> string" where
  "addFiles cmData [] certData = certData"
| "addFiles cmData (fileName # files) certData =
     (let fileData = trim_space (m_str cmData fileName)
      in addFiles cmData files
           (if fileData \<noteq> '''' then trim_prefix newline2 (certData @ newline2 @ fileData) else certData))"

text \<open>The outer loop over the sorted names of the bundles.\<close>

fun collectCerts :: "bundle_api \<Rightarrow> configmap \<Rightarrow> string list gomap \<Rightarrow> string list \<Rightarrow> string \<Rightarrow> api_error + string" where
  "collectCerts api cm bundles [] certData = Inr certData"
| "collectCerts api cm bundles (n # names) certData =
     (let files = (case map_of bundles n of None \<Rightarrow> [] | Some fs \<Rightarrow> fs)
      in if n = om_name (cm_meta cm)
         then collectCerts api cm bundles names (addFiles (cm_data cm) files certData)
         else (case bapi_get api n of
             Inl NotFound \<Rightarrow> collectCerts api cm bundles names certData
           | Inl e \<Rightarrow> Inl e
           | Inr bundle \<Rightarrow> collectCerts api cm bundles names (addFiles (cm_data bundle) files certData)))"

definition getDesiredCaCertConfigMapForKServe :: "string \<Rightarrow> string \<Rightarrow> string gomap \<Rightarrow> configmap" where
  "getDesiredCaCertConfigMapForKServe configmapName namespace caCertData =
     \<lparr>cm_meta = empty_meta\<lparr>om_name := configmapName, om_namespace := namespace,
        om_labels := [(''opendatahub.io/managed'', ''true'')]\<rparr>, cm_data = caCertData\<rparr>"

definition isAdded :: "configmap \<Rightarrow> configmap option \<Rightarrow> bool" where
  "isAdded desired existing = (m_str (cm_data desired) KServeCACertFileName \<noteq> '''' \<and> existing = None)"

definition isUpdated :: "configmap \<Rightarrow> configmap option \<Rightarrow> bool" where
  "isUpdated desired existing =
     (case existing of None \<Rightarrow> False
      | Some ex \<Rightarrow> m_str (cm_data desired) KServeCACertFileName \<noteq> '''' \<and> \<not> m_eq (cm_data desired) (cm_data ex))"

definition isRemoved :: "configmap \<Rightarrow> configmap option \<Rightarrow> bool" where
  "isRemoved desired existing = (existing \<noteq> None \<and> m_str (cm_data desired) KServeCACertFileName = '''')"

definition deleteBundleStorageSecret :: "bundle_api \<Rightarrow> string \<Rightarrow> bundle_write list \<times> api_error option" where
  "deleteBundleStorageSecret api namespace =
     (case bapi_storage api of
        Inl _ \<Rightarrow> ([], None)
      | Inr found \<Rightarrow>
          if m_str (om_labels (sec_meta found)) ''opendatahub.io/managed'' = ''true''
          then ([DeleteStorageSecret namespace], bapi_write api (DeleteStorageSecret namespace))
          else ([], None))"

text \<open>One of the three guarded writes of \<open>processDelta\<close>: what was written so far, with the error that ended it.\<close>

definition guardedWrite ::
  "bundle_api \<Rightarrow> bool \<Rightarrow> bundle_write \<Rightarrow> bundle_write list \<times> api_error option
     \<Rightarrow> bundle_write list \<times> api_error option" where
  "guardedWrite api guard w st =
     (case st of
        (ws, Some e) \<Rightarrow> (ws, Some e)
      | (ws, None) \<Rightarrow> if guard then (ws @ [w], bapi_write api w) else (ws, None))"

definition processDelta :: "bundle_api \<Rightarrow> configmap \<Rightarrow> configmap option \<Rightarrow> bundle_write list \<times> api_error option" where
  "processDelta api desired existing =
     (let ex = (case existing of None \<Rightarrow> desired | Some e \<Rightarrow> e);
          rp = desired\<lparr>cm_meta := (cm_meta desired)\<lparr>om_labels := om_labels (cm_meta ex)\<rparr>\<rparr>;
          st = guardedWrite api (isRemoved desired existing) (DeleteBundle ex)
                (guardedWrite api (isUpdated desired existing) (UpdateBundle rp)
                  (guardedWrite api (isAdded desired existing) (CreateBundle desired) ([], None)));
          hasChanged = (isAdded desired existing \<or> isUpdated desired existing \<or> isRemoved desired existing)
      in case st of
           (ws, Some e) \<Rightarrow> (ws, Some e)
         | (ws, None) \<Rightarrow>
             if \<not> hasChanged then (ws, None)
             else (let (ds, e) = deleteBundleStorageSecret api (om_namespace (cm_meta desired)) in (ws @ ds, e)))"

definition reconcileConfigMap :: "bundle_api \<Rightarrow> configmap \<Rightarrow> bundle_write list \<times> api_error option" where
  "reconcileConfigMap api cm =
     (case collectCerts api cm CABundleConfigMaps (sort (map fst CABundleConfigMaps)) '''' of
        Inl e \<Rightarrow> ([], Some e)
      | Inr certData \<Rightarrow>
          (let desired = getDesiredCaCertConfigMapForKServe KServeCACertConfigMapName (om_namespace (cm_meta cm))
                 [(KServeCACertFileName, certData)]
           in case bapi_get api KServeCACertConfigMapName of
                Inl NotFound \<Rightarrow> processDelta api desired None
              | Inl e \<Rightarrow> ([], Some e)
              | Inr existing \<Rightarrow> processDelta api desired (Some existing)))"

definition ReconcileConfigMap ::
  "bundle_api \<Rightarrow> api_error + configmap \<Rightarrow> string \<Rightarrow> string \<Rightarrow> bundle_write list \<times> api_error option" where
  "ReconcileConfigMap api got name namespace =
     (case got of
        Inl NotFound \<Rightarrow> reconcileConfigMap api
          \<lparr>cm_meta = empty_meta\<lparr>om_name := name, om_namespace := namespace\<rparr>, cm_data = []\<rparr>
      | Inl e \<Rightarrow> ([], Some e)
      | Inr cm \<Rightarrow> reconcileConfigMap api cm)"

definition checkOpenDataHubGlobalCertCAConfigMapName :: "string \<Rightarrow> bool" where
  "checkOpenDataHubGlobalCertCAConfigMapName n =
     (n = ODHGlobalCertConfigMapName \<or> n = KServeCACertConfigMapName \<or> n = ServiceCAConfigMapName)"

section \<open>Lemmas\<close>

definition file_parts :: "string gomap \<Rightarrow> string list \<Rightarrow> string list" where
  "file_parts cmData files = filter (\<lambda>s. s \<noteq> '''') (map (\<lambda>f. trim_space (m_str cmData f)) files)"

text \<open>The certificate texts of the bundles that exist, in the order of the names and files.\<close>

definition cert_parts :: "bundle_api \<Rightarrow> configmap \<Rightarrow> string list gomap \<Rightarrow> string list \<Rightarrow> string list" where
  "cert_parts api cm bundles names = concat (map (\<lambda>n.
     let files = (case map_of bundles n of None \<Rightarrow> [] | Some fs \<Rightarrow> fs)
     in if n = om_name (cm_meta cm) then file_parts (cm_data cm) files
        else (case bapi_get api n of Inl _ \<Rightarrow> [] | Inr b \<Rightarrow> file_parts (cm_data b) files)) names)"

definition solid :: "string list \<Rightarrow> bool" where
  "solid ps \<longleftrightarrow> (\<forall>p \<in> set ps. p \<noteq> '''' \<and> \<not> is_space (hd p))"

lemma solid_simps [simp]: "solid []" "solid (ps @ qs) \<longleftrightarrow> solid ps \<and> solid qs"
  by (auto simp: solid_def)

lemma solid_file_parts [simp]: "solid (file_parts d files)"
  by (auto simp: solid_def file_parts_def trim_space_no_lead)

lemma join_snoc: "ps \<noteq> [] \<Longrightarrow> join_with sep (ps @ [x]) = join_with sep ps @ sep @ x"
  by (induction sep ps rule: join_with.induct) auto

lemma join_hd: "ps \<noteq> [] \<Longrightarrow> hd ps \<noteq> '''' \<Longrightarrow> join_with sep ps \<noteq> '''' \<and> hd (join_with sep ps) = hd (hd ps)"
  by (cases ps; cases "tl ps") auto

lemma add_one_file:
  assumes "solid ps" and "f \<noteq> ''''"
  shows "trim_prefix newline2 (join_with newline2 ps @ newline2 @ f) = join_with newline2 (ps @ [f])"
proof (cases "ps = []")
  case False
  with assms(1) have "hd ps \<noteq> ''''" "\<not> is_space (hd (hd ps))" by (auto simp: solid_def)
  with join_hd [OF False, of newline2] have j: "join_with newline2 ps \<noteq> ''''" "\<not> is_space (hd (join_with newline2 ps))"
    by auto
  have "\<not> has_prefix newline2 (join_with newline2 ps @ newline2 @ f)"
    using j by (cases "join_with newline2 ps") (auto simp: has_prefix_iff newline2_def is_space_def)
  with False show ?thesis by (simp add: trim_prefix_def join_snoc)
qed simp

lemma addFiles_join:
  "solid ps \<Longrightarrow> addFiles d files (join_with newline2 ps) = join_with newline2 (ps @ file_parts d files)"
proof (induction files arbitrary: ps)
  case (Cons f files)
  let ?t = "trim_space (m_str d f)"
  have s: "solid (ps @ [?t])" if "?t \<noteq> ''''" using Cons.prems that by (simp add: solid_def trim_space_no_lead)
  show ?case
    using Cons.IH [OF Cons.prems] Cons.IH [OF s] add_one_file [OF Cons.prems, of ?t]
    by (simp add: file_parts_def)
qed (simp add: file_parts_def)

lemma collectCerts_join:
  "solid ps \<Longrightarrow> collectCerts api cm bundles names (join_with newline2 ps) = Inr r \<Longrightarrow>
     r = join_with newline2 (ps @ cert_parts api cm bundles names)"
proof (induction names arbitrary: ps)
  case (Cons n names)
  have step: "r = join_with newline2 ((ps @ file_parts d fs) @ cert_parts api cm bundles names)"
    if "collectCerts api cm bundles names (addFiles d fs (join_with newline2 ps)) = Inr r" for d fs
    by (rule Cons.IH) (use Cons.prems(1) that in \<open>simp_all add: addFiles_join\<close>)
  show ?case
    using Cons.prems Cons.IH [OF Cons.prems(1)]
    by (auto simp: cert_parts_def dest!: step split: if_splits sum.splits api_error.splits)
qed (simp add: cert_parts_def)

definition bundle_write_for :: "configmap \<Rightarrow> configmap option \<Rightarrow> bundle_write option" where
  "bundle_write_for desired existing =
     (case existing of
        None \<Rightarrow> if m_str (cm_data desired) KServeCACertFileName \<noteq> '''' then Some (CreateBundle desired) else None
      | Some ex \<Rightarrow>
          if m_str (cm_data desired) KServeCACertFileName = '''' then Some (DeleteBundle ex)
          else if m_eq (cm_data desired) (cm_data ex) then None
          else Some (UpdateBundle (desired\<lparr>cm_meta := (cm_meta desired)\<lparr>om_labels := om_labels (cm_meta ex)\<rparr>\<rparr>)))"

lemma processDelta_eq:
  "processDelta api desired existing =
     (case bundle_write_for desired existing of
        None \<Rightarrow> ([], None)
      | Some w \<Rightarrow> (case bapi_write api w of
          Some e \<Rightarrow> ([w], Some e)
        | None \<Rightarrow> (let (ds, e) = deleteBundleStorageSecret api (om_namespace (cm_meta desired)) in (w # ds, e))))"
  by (auto simp: processDelta_def guardedWrite_def isAdded_def isUpdated_def isRemoved_def bundle_write_for_def
      split: option.split prod.split)

section \<open>Properties\<close>

text \<open>
  The bundle KServe gets is the concatenation of all certificate files of the bundles
  that exist, in the fixed order of bundles and files, each without surrounding white space,
  separated by one blank line, and without the empty ones; a bundle that is missing contributes
  nothing.
\<close>

theorem collectCerts_spec:
  assumes "collectCerts api cm bundles names '''' = Inr certData"
  shows "certData = join_with newline2 (cert_parts api cm bundles names)"
  using collectCerts_join [of "[]" api cm bundles names certData] assms by simp

definition two_bundles :: bundle_api where
  "two_bundles = \<lparr>bapi_get = (\<lambda>n. if n = ODHGlobalCertConfigMapName
       then Inr \<lparr>cm_meta = empty_meta\<lparr>om_name := n\<rparr>, cm_data = [(ODHClusterCACertFileName, ''A ''), (ODHCustomCACertFileName, '' B'')]\<rparr>
       else Inl NotFound), bapi_write = (\<lambda>_. None), bapi_storage = Inl NotFound\<rparr>"

definition service_ca :: configmap where
  "service_ca = \<lparr>cm_meta = empty_meta\<lparr>om_name := ServiceCAConfigMapName, om_namespace := ''ns''\<rparr>,
     cm_data = [(ServiceCACertFileName, ''C'')]\<rparr>"

lemmas bundle_names = ODHGlobalCertConfigMapName_def ODHClusterCACertFileName_def ODHCustomCACertFileName_def
  ServiceCAConfigMapName_def ServiceCACertFileName_def CABundleConfigMaps_def

theorem collectCerts_spec_witness:
  "collectCerts two_bundles service_ca CABundleConfigMaps [ODHGlobalCertConfigMapName, ServiceCAConfigMapName] '''' =
     Inr (''A'' @ newline2 @ ''B'' @ newline2 @ ''C'')"
proof -
  obtain d where d: "collectCerts two_bundles service_ca CABundleConfigMaps
      [ODHGlobalCertConfigMapName, ServiceCAConfigMapName] '''' = Inr d"
    by (simp add: two_bundles_def service_ca_def bundle_names)
  from collectCerts_spec [OF d] have "d = ''A'' @ newline2 @ ''B'' @ newline2 @ ''C''"
    by (simp add: cert_parts_def file_parts_def two_bundles_def service_ca_def bundle_names m_str_def
        trim_space_def trim_left_space_def is_space_def)
  with d show ?thesis by simp
qed

text \<open>
  The three guarded writes exclude each other, and the storage-config Secret is
  removed exactly when one of them was made and succeeded and the Secret carries the managed
  label: never without a change of the certificates, and always after one.
\<close>

theorem processDelta_writes:
  "processDelta api desired existing =
     (case bundle_write_for desired existing of
        None \<Rightarrow> ([], None)
      | Some w \<Rightarrow>
          if bapi_write api w \<noteq> None then ([w], bapi_write api w)
          else (case bapi_storage api of
              Inr s \<Rightarrow> if m_str (om_labels (sec_meta s)) ''opendatahub.io/managed'' = ''true''
                then ([w, DeleteStorageSecret (om_namespace (cm_meta desired))],
                      bapi_write api (DeleteStorageSecret (om_namespace (cm_meta desired))))
                else ([w], None)
            | Inl _ \<Rightarrow> ([w], None)))"
  by (auto simp: processDelta_eq deleteBundleStorageSecret_def split: option.split sum.split)

text \<open>The ConfigMap a write leaves behind.\<close>

definition bundle_after :: "bundle_write option \<Rightarrow> configmap option \<Rightarrow> configmap option" where
  "bundle_after w existing =
     (case w of
        Some (CreateBundle c) \<Rightarrow> Some c
      | Some (UpdateBundle c) \<Rightarrow> Some c
      | Some (DeleteBundle c) \<Rightarrow> None
      | _ \<Rightarrow> existing)"

text \<open>
  The controller converges in one step: once its write has taken effect, the same
  certificates give no further write.
\<close>

theorem processDelta_converges:
  "processDelta api desired (bundle_after (bundle_write_for desired existing) existing) = ([], None)"
  by (auto simp: processDelta_eq bundle_write_for_def bundle_after_def split: option.split)

end
