(* ===== verification/Gateway_API.thy ===== *)
theory Gateway_API
  imports K8s_Types
begin

text \<open>
  The Gateway API data that the gateway controller
  (internal/controller/serving/llm/gateway_controller.go) and the discovery server
  (server/gateway/) read, and the contract of a listener's \<open>allowedRoutes\<close>. Each of the two programs has
  a \<open>listenerAllowsNamespace\<close> of its own; the contract is the locale \<open>namespace_rule\<close>, and each is
  an interpretation of it.
\<close>

section \<open>Data\<close>

record label_requirement =
  lr_key :: string
  lr_operator :: string
  lr_values :: "string list"

record label_selector =
  sl_labels :: "string gomap"
  sl_expressions :: "label_requirement list"

record route_namespaces =
  rn_from :: "string option"
  rn_selector :: "label_selector option"

record allowed_routes =
  ar_namespaces :: "route_namespaces option"

record listener =
  ls_name :: string
  ls_allowed :: "allowed_routes option"

record condition =
  cd_type :: string
  cd_status :: string

record gateway =
  gw_meta :: object_meta
  gw_listeners :: "listener list"
  gw_conditions :: "condition list"

abbreviation gw_name :: "gateway \<Rightarrow> string" where "gw_name g \<equiv> om_name (gw_meta g)"
abbreviation gw_namespace :: "gateway \<Rightarrow> string" where "gw_namespace g \<equiv> om_namespace (gw_meta g)"

text \<open>
  \<open>metav1.LabelSelectorAsSelector\<close> followed by \<open>Matches\<close>, of apimachinery: None when the selector
  does not parse.
\<close>

type_synonym selector_semantics = "label_selector \<Rightarrow> string gomap \<Rightarrow> bool option"

text \<open>\<open>AllowedRoutes.Namespaces.From\<close> and \<open>Selector\<close>, through the pointers on the way.\<close>

definition listener_from :: "listener \<Rightarrow> string option" where
  "listener_from l = Option.bind (Option.bind (ls_allowed l) ar_namespaces) rn_from"

definition listener_selector :: "listener \<Rightarrow> label_selector option" where
  "listener_selector l = Option.bind (Option.bind (ls_allowed l) ar_namespaces) rn_selector"

section \<open>The contract of allowedRoutes\<close>

locale namespace_rule =
  fixes sel :: selector_semantics
    and allows :: "listener \<Rightarrow> string \<Rightarrow> string \<Rightarrow> string gomap \<Rightarrow> bool"
  assumes unset: "listener_from l = None \<Longrightarrow> allows l gns ns labs = (gns = ns)"
    and from_all: "listener_from l = Some ''All'' \<Longrightarrow> allows l gns ns labs"
    and from_same: "listener_from l = Some ''Same'' \<Longrightarrow> allows l gns ns labs = (gns = ns)"
    and from_selector: "listener_from l = Some ''Selector'' \<Longrightarrow>
      allows l gns ns labs = (\<exists>s. listener_selector l = Some s \<and> sel s labs = Some True)"
    and from_other: "listener_from l = Some f \<Longrightarrow> f \<notin> {''All'', ''Same'', ''Selector''} \<Longrightarrow> \<not> allows l gns ns labs"
begin

lemma labels_irrelevant:
  assumes "listener_from l \<noteq> Some ''Selector''"
  shows "allows l gns ns labs = allows l gns ns labs'"
proof (cases "listener_from l")
  case (Some f)
  with assms show ?thesis
    by (cases "f = ''All''"; cases "f = ''Same''") (simp_all add: from_all from_same from_other)
qed (simp add: unset)

lemma changed_needs_selector:
  "\<exists>l \<in> set ls. allows l gns ns labs \<Longrightarrow> \<not> (\<exists>l \<in> set ls. allows l gns ns labs') \<Longrightarrow>
   \<exists>l \<in> set ls. listener_from l = Some ''Selector''"
  using labels_irrelevant by metis

lemma own_namespace:
  "listener_from l \<in> {None, Some ''Same'', Some ''All''} \<Longrightarrow> allows l ns ns labs"
  by (auto simp: unset from_same from_all)

lemma agrees:
  assumes "namespace_rule sel other"
  shows "other = allows"
proof (intro ext)
  fix l gns ns labs
  show "other l gns ns labs = allows l gns ns labs"
  proof (cases "listener_from l")
    case None
    with unset namespace_rule.unset [OF assms] show ?thesis by simp
  next
    case (Some f)
    show ?thesis
    proof (cases "f \<in> {''All'', ''Same'', ''Selector''}")
      case True
      with Some from_all from_same from_selector namespace_rule.from_all [OF assms]
        namespace_rule.from_same [OF assms] namespace_rule.from_selector [OF assms]
      show ?thesis by auto
    next
      case False
      with Some from_other namespace_rule.from_other [OF assms] show ?thesis by blast
    qed
  qed
qed

end

end
