(* ===== verification/Gateway_Refs.thy ===== *)
theory Gateway_Refs
  imports Gateway_API "HOL-Library.List_Lexorder" "HOL-Library.Char_ord" "HOL-Library.Product_Lexorder"
begin

text \<open>
  Which gateways an LLMInferenceService uses, and which gateways an event makes the gateway controller
  look at again (internal/controller/serving/llm/gateway_controller.go, from
  \<open>isGatewayReferencedByLLMService\<close> on). The API server's answers and the library calls are the fields of
  \<open>gateway_env\<close>.
\<close>

section \<open>Data\<close>

record gateway_ref =
  gr_name :: string
  gr_namespace :: string
  gr_section :: "string option"

text \<open>A router has a pointer to a gateway section, which has the references.\<close>

record router =
  rt_gateway :: "gateway_ref list option"

record llm_service =
  sv_meta :: object_meta
  sv_router :: "router option"
  sv_base_refs :: "string list"

record llm_config =
  cg_meta :: object_meta
  cg_router :: "router option"

abbreviation sv_namespace :: "llm_service \<Rightarrow> string" where "sv_namespace s \<equiv> om_namespace (sv_meta s)"

type_synonym namespaced_name = "string \<times> string"  \<comment> \<open>namespace and name\<close>

text \<open>
  \<open>ge_selector\<close>, \<open>ge_has_refs\<close> (KServe's \<open>GatewaySpec.HasRefs\<close>), \<open>ge_force_stop\<close> (KServe's
  \<open>GetForceStopRuntime\<close>) and \<open>ge_json\<close> (\<open>json.Unmarshal\<close>, as the string members of the object; None for an error)
  are library calls; \<open>ge_pod_namespace\<close> is the environment variable \<open>POD_NAMESPACE\<close> (empty when
  unset); the others answer the calls to the API server.
\<close>

record gateway_env =
  ge_selector :: selector_semantics
  ge_has_refs :: "gateway_ref list option \<Rightarrow> bool"
  ge_force_stop :: "object_meta \<Rightarrow> bool"
  ge_json :: "string \<Rightarrow> string gomap option"
  ge_pod_namespace :: string
  ge_configmap :: "string \<Rightarrow> string \<Rightarrow> api_error + string gomap"
  ge_namespace :: "string \<Rightarrow> api_error + string gomap"
  ge_config :: "string \<Rightarrow> string \<Rightarrow> api_error + llm_config"
  ge_services :: "api_error + llm_service list"
  ge_services_in :: "string \<Rightarrow> api_error + llm_service list"
  ge_gateways :: "api_error + gateway list"
  ge_gateway :: "string \<Rightarrow> string \<Rightarrow> api_error + gateway"

definition DefaultGatewayName :: string where "DefaultGatewayName = ''openshift-ai-inference''"
definition DefaultGatewayNamespace :: string where "DefaultGatewayNamespace = ''openshift-ingress''"
definition InferenceServiceConfigMapName :: string where
  "InferenceServiceConfigMapName = ''inferenceservice-config''"

section \<open>The default gateway\<close>

definition GetInferenceServiceConfigMap :: "('z) gateway_env_scheme \<Rightarrow> api_error + string gomap" where
  "GetInferenceServiceConfigMap env = ge_configmap env (ge_pod_namespace env) ''inferenceservice-config''"

definition GetDefaultGatewayRef :: "('z) gateway_env_scheme \<Rightarrow> api_error + namespaced_name" where
  "GetDefaultGatewayRef env =
     (let failed = Inl (ApiFailure ''failed to parse gateway info from configmap'')
      in case GetInferenceServiceConfigMap env of
           Inl e \<Rightarrow> Inl e
         | Inr data \<Rightarrow>
             if m_str data ''ingress'' = [] then failed
             else (case ge_json env (m_str data ''ingress'') of
                     None \<Rightarrow> failed
                   | Some config \<Rightarrow>
                       (case map_of config ''kserveIngressGateway'' of
                          None \<Rightarrow> failed
                        | Some gw \<Rightarrow>
                            (case split_on (CHR ''/'') gw of
                               [ns, n] \<Rightarrow> Inr (ns, n)
                             | _ \<Rightarrow> failed))))"

definition defaultGateway :: "('z) gateway_env_scheme \<Rightarrow> namespaced_name" where
  "defaultGateway env =
     (case GetDefaultGatewayRef env of
        Inl _ \<Rightarrow> (DefaultGatewayNamespace, DefaultGatewayName)
      | Inr key \<Rightarrow> key)"

section \<open>Listeners\<close>

definition listenerAllowsNamespace ::
    "selector_semantics \<Rightarrow> listener \<Rightarrow> string \<Rightarrow> string \<Rightarrow> string gomap \<Rightarrow> bool" where
  "listenerAllowsNamespace sel l gwNamespace targetNS nsLabels =
     (case ls_allowed l of
        None \<Rightarrow> gwNamespace = targetNS
      | Some routes \<Rightarrow>
          (case ar_namespaces routes of
             None \<Rightarrow> gwNamespace = targetNS
           | Some nss \<Rightarrow>
               (case rn_from nss of
                  None \<Rightarrow> gwNamespace = targetNS
                | Some from \<Rightarrow>
                    if from = ''All'' then True
                    else if from = ''Same'' then gwNamespace = targetNS
                    else if from = ''Selector'' then
                      (case rn_selector nss of
                         None \<Rightarrow> False
                       | Some s \<Rightarrow>
                           (case sel s nsLabels of
                              None \<Rightarrow> False
                            | Some matches \<Rightarrow> matches))
                    else False)))"

definition gatewayAllowsNamespace ::
    "selector_semantics \<Rightarrow> gateway \<Rightarrow> string \<Rightarrow> string gomap \<Rightarrow> bool" where
  "gatewayAllowsNamespace sel gw targetNS nsLabels =
     list_ex (\<lambda>l. listenerAllowsNamespace sel l (gw_namespace gw) targetNS nsLabels) (gw_listeners gw)"

definition hasSelectorListeners :: "gateway \<Rightarrow> bool" where
  "hasSelectorListeners gw =
     list_ex (\<lambda>l. case ls_allowed l of
         None \<Rightarrow> False
       | Some routes \<Rightarrow>
           (case ar_namespaces routes of
              None \<Rightarrow> False
            | Some nss \<Rightarrow> rn_from nss = Some ''Selector'')) (gw_listeners gw)"

section \<open>Effective references\<close>

definition ref_key :: "string \<Rightarrow> gateway_ref \<Rightarrow> namespaced_name" where
  "ref_key fallback r = (if gr_namespace r = [] then fallback else gr_namespace r, gr_name r)"

definition gateway_key :: "gateway \<Rightarrow> namespaced_name" where
  "gateway_key gw = (gw_namespace gw, gw_name gw)"

fun filterAllowedRefs ::
    "selector_semantics \<Rightarrow> gateway option \<Rightarrow> gateway_ref list \<Rightarrow> string \<Rightarrow> string gomap \<Rightarrow> gateway_ref list" where
  "filterAllowedRefs sel None refs targetNS nsLabels = refs"
| "filterAllowedRefs sel (Some gw) [] targetNS nsLabels = []"
| "filterAllowedRefs sel (Some gw) (r # refs) targetNS nsLabels =
     (if ref_key targetNS r \<noteq> gateway_key gw then r # filterAllowedRefs sel (Some gw) refs targetNS nsLabels
      else if gatewayAllowsNamespace sel gw targetNS nsLabels
      then r # filterAllowedRefs sel (Some gw) refs targetNS nsLabels
      else filterAllowedRefs sel (Some gw) refs targetNS nsLabels)"

definition routerRefs :: "('z) gateway_env_scheme \<Rightarrow> router option \<Rightarrow> gateway_ref list option" where
  "routerRefs env r =
     (case r of
        None \<Rightarrow> None
      | Some rt \<Rightarrow> if ge_has_refs env (rt_gateway rt) then rt_gateway rt else None)"

definition getGatewayRefs ::
    "('z) gateway_env_scheme \<Rightarrow> gateway option \<Rightarrow> llm_service \<Rightarrow> string gomap \<Rightarrow> gateway_ref list" where
  "getGatewayRefs env gw svc nsLabels =
     (case routerRefs env (sv_router svc) of
        None \<Rightarrow> []
      | Some refs \<Rightarrow> filterAllowedRefs (ge_selector env) gw refs (sv_namespace svc) nsLabels)"

definition fetchNamespaceLabels :: "('z) gateway_env_scheme \<Rightarrow> string \<Rightarrow> string gomap" where
  "fetchNamespaceLabels env ns = (case ge_namespace env ns of Inl _ \<Rightarrow> [] | Inr labs \<Rightarrow> labs)"

definition fetchLLMISvcConfig :: "('z) gateway_env_scheme \<Rightarrow> string \<Rightarrow> string \<Rightarrow> api_error + llm_config" where
  "fetchLLMISvcConfig env name ns =
     (case ge_config env ns name of
        Inr cfg \<Rightarrow> Inr cfg
      | Inl NotFound \<Rightarrow>
          if ge_pod_namespace env = [] then Inl NotFound
          else (case ge_config env (ge_pod_namespace env) name of Inl e \<Rightarrow> Inl e | Inr cfg \<Rightarrow> Inr cfg)
      | Inl e \<Rightarrow> Inl e)"

text \<open>The loop over the BaseRefs: the last config with references wins, one that cannot be fetched is skipped.\<close>

fun baseRefsLoop ::
    "('z) gateway_env_scheme \<Rightarrow> string \<Rightarrow> string list \<Rightarrow> gateway_ref list \<Rightarrow> gateway_ref list" where
  "baseRefsLoop env ns [] refs = refs"
| "baseRefsLoop env ns (b # bs) refs =
     (case fetchLLMISvcConfig env b ns of
        Inl _ \<Rightarrow> baseRefsLoop env ns bs refs
      | Inr cfg \<Rightarrow>
          (case routerRefs env (cg_router cfg) of
             None \<Rightarrow> baseRefsLoop env ns bs refs
           | Some rs \<Rightarrow> baseRefsLoop env ns bs rs))"

definition getEffectiveGatewayRefs ::
    "('z) gateway_env_scheme \<Rightarrow> gateway option \<Rightarrow> llm_service \<Rightarrow> gateway_ref list" where
  "getEffectiveGatewayRefs env gw svc =
     (let nsLabels = fetchNamespaceLabels env (sv_namespace svc);
          own = getGatewayRefs env gw svc nsLabels
      in if own \<noteq> [] then own
         else filterAllowedRefs (ge_selector env) gw (baseRefsLoop env (sv_namespace svc) (sv_base_refs svc) [])
                (sv_namespace svc) nsLabels)"

fun referencedLoop :: "('z) gateway_env_scheme \<Rightarrow> gateway \<Rightarrow> llm_service list \<Rightarrow> bool" where
  "referencedLoop env gw [] = False"
| "referencedLoop env gw (svc # svcs) =
     (if ge_force_stop env (sv_meta svc) then referencedLoop env gw svcs
      else if list_ex (\<lambda>r. ref_key (sv_namespace svc) r = gateway_key gw) (getEffectiveGatewayRefs env (Some gw) svc)
      then True
      else referencedLoop env gw svcs)"

definition isGatewayReferencedByLLMService :: "('z) gateway_env_scheme \<Rightarrow> gateway \<Rightarrow> api_error + bool" where
  "isGatewayReferencedByLLMService env gw =
     (if gateway_key gw = defaultGateway env then Inr True
      else (case ge_services env of
              Inl e \<Rightarrow> Inl e
            | Inr svcs \<Rightarrow> Inr (referencedLoop env gw svcs)))"

section \<open>Event handlers\<close>

definition gatewayRequestsFromRefs :: "gateway_ref list \<Rightarrow> string \<Rightarrow> namespaced_name list" where
  "gatewayRequestsFromRefs refs fallback = map (ref_key fallback) refs"

definition enqueueGatewaysFromLLMInferenceService ::
    "('z) gateway_env_scheme \<Rightarrow> llm_service \<Rightarrow> namespaced_name list" where
  "enqueueGatewaysFromLLMInferenceService env svc =
     (let requests = map (ref_key (sv_namespace svc)) (getEffectiveGatewayRefs env None svc)
      in if requests = [] then [defaultGateway env] else requests)"

definition getConfigGatewayRefs :: "('z) gateway_env_scheme \<Rightarrow> llm_config \<Rightarrow> gateway_ref list" where
  "getConfigGatewayRefs env cfg = (case routerRefs env (cg_router cfg) of None \<Rightarrow> [] | Some refs \<Rightarrow> refs)"

definition referencesConfig :: "llm_service \<Rightarrow> string \<Rightarrow> bool" where
  "referencesConfig svc configName = list_ex (\<lambda>b. b = configName) (sv_base_refs svc)"

text \<open>The map \<open>seen\<close> and the list built beside it, after one key.\<close>

fun addUnseen :: "namespaced_name \<Rightarrow> namespaced_name list \<times> namespaced_name list
    \<Rightarrow> namespaced_name list \<times> namespaced_name list" where
  "addUnseen key (seen, out) = (if key \<in> set seen then (seen, out) else (key # seen, out @ [key]))"

definition collectKeys :: "namespaced_name list \<Rightarrow> namespaced_name list" where
  "collectKeys keys = snd (fold addUnseen keys ([], []))"

definition enqueueGatewaysFromLLMInferenceServiceConfig ::
    "('z) gateway_env_scheme \<Rightarrow> llm_config \<Rightarrow> namespaced_name list" where
  "enqueueGatewaysFromLLMInferenceServiceConfig env cfg =
     (case ge_services env of
        Inl _ \<Rightarrow> gatewayRequestsFromRefs (getConfigGatewayRefs env cfg) (om_namespace (cg_meta cfg))
      | Inr svcs \<Rightarrow>
          collectKeys (concat (map (\<lambda>svc. map (ref_key (sv_namespace svc)) (getEffectiveGatewayRefs env None svc))
            (filter (\<lambda>svc. referencesConfig svc (om_name (cg_meta cfg))) svcs))))"

fun selectorRequests :: "('z) gateway_env_scheme \<Rightarrow> namespaced_name list \<Rightarrow> namespaced_name list" where
  "selectorRequests env [] = []"
| "selectorRequests env (key # keys) =
     (case ge_gateway env (fst key) (snd key) of
        Inl NotFound \<Rightarrow> selectorRequests env keys
      | Inl _ \<Rightarrow> key # selectorRequests env keys
      | Inr gw \<Rightarrow> if hasSelectorListeners gw then key # selectorRequests env keys else selectorRequests env keys)"

definition enqueueGatewaysFromNamespace :: "('z) gateway_env_scheme \<Rightarrow> string \<Rightarrow> namespaced_name list" where
  "enqueueGatewaysFromNamespace env ns =
     (case ge_services_in env ns of
        Inl _ \<Rightarrow> []
      | Inr svcs \<Rightarrow>
          if svcs = [] then []
          else selectorRequests env
            (collectKeys (concat (map (\<lambda>svc. map (ref_key ns) (getEffectiveGatewayRefs env None svc)) svcs))))"

definition enqueueGatewaysFromConfigMap :: "('z) gateway_env_scheme \<Rightarrow> object_meta \<Rightarrow> namespaced_name list" where
  "enqueueGatewaysFromConfigMap env obj =
     (if om_name obj \<noteq> InferenceServiceConfigMapName \<or> om_namespace obj \<noteq> ge_pod_namespace env then []
      else (case ge_gateways env of Inl _ \<Rightarrow> [] | Inr gws \<Rightarrow> map gateway_key gws))"

section \<open>Event filters\<close>

text \<open>
  \<open>slices.SortFunc\<close> with the comparison by namespace, name and section: only the sequence of keys
  is used afterwards, so the order among equal keys, which it leaves open, does not matter.
\<close>

definition section_of :: "gateway_ref \<Rightarrow> string" where
  "section_of r = (case gr_section r of None \<Rightarrow> [] | Some s \<Rightarrow> s)"

definition cmp_key :: "gateway_ref \<Rightarrow> string \<times> string \<times> string" where
  "cmp_key r = (gr_namespace r, gr_name r, section_of r)"

definition gatewayRefsEqual :: "gateway_ref list \<Rightarrow> gateway_ref list \<Rightarrow> bool" where
  "gatewayRefsEqual a b =
     (if length a \<noteq> length b then False
      else list_all2 (\<lambda>x y. gr_name x = gr_name y \<and> gr_namespace x = gr_namespace y \<and> section_of x = section_of y)
             (sort_key cmp_key a) (sort_key cmp_key b))"

definition configGatewayRefsChanged :: "('z) gateway_env_scheme \<Rightarrow> llm_config \<Rightarrow> llm_config \<Rightarrow> bool" where
  "configGatewayRefsChanged env oldCfg newCfg =
     (case (routerRefs env (cg_router oldCfg), routerRefs env (cg_router newCfg)) of
        (None, None) \<Rightarrow> False
      | (Some a, Some b) \<Rightarrow> \<not> gatewayRefsEqual a b
      | _ \<Rightarrow> True)"

definition gatewayRefsChanged :: "('z) gateway_env_scheme \<Rightarrow> llm_service \<Rightarrow> llm_service \<Rightarrow> bool" where
  "gatewayRefsChanged env old new =
     (if \<not> gatewayRefsEqual (getGatewayRefs env None old []) (getGatewayRefs env None new []) then True
      else if length (sv_base_refs old) \<noteq> length (sv_base_refs new) then True
      else sort (sv_base_refs old) \<noteq> sort (sv_base_refs new))"

definition serviceUpdateFunc :: "('z) gateway_env_scheme \<Rightarrow> llm_service \<Rightarrow> llm_service \<Rightarrow> bool" where
  "serviceUpdateFunc env old new =
     (if ge_force_stop env (sv_meta old) \<noteq> ge_force_stop env (sv_meta new) then True
      else gatewayRefsChanged env old new)"

section \<open>Lemmas\<close>

lemma listenerAllowsNamespace_cases:
  "listenerAllowsNamespace sel l gns ns labs =
     (case listener_from l of
        None \<Rightarrow> gns = ns
      | Some f \<Rightarrow> f = ''All'' \<or> f = ''Same'' \<and> gns = ns \<or>
          f = ''Selector'' \<and> (\<exists>s. listener_selector l = Some s \<and> sel s labs = Some True))"
  by (auto simp: listenerAllowsNamespace_def listener_from_def listener_selector_def split: option.splits)

interpretation controller_rule: namespace_rule sel "listenerAllowsNamespace sel" for sel
  by unfold_locales (simp_all add: listenerAllowsNamespace_cases)

lemma hasSelectorListeners_iff:
  "hasSelectorListeners gw \<longleftrightarrow> (\<exists>l \<in> set (gw_listeners gw). listener_from l = Some ''Selector'')"
proof -
  have "(case ls_allowed l of None \<Rightarrow> False
     | Some routes \<Rightarrow> (case ar_namespaces routes of None \<Rightarrow> False | Some nss \<Rightarrow> rn_from nss = Some ''Selector''))
     = (listener_from l = Some ''Selector'')" for l
    by (simp add: listener_from_def split: option.split)
  then show ?thesis by (simp add: hasSelectorListeners_def list_ex_iff)
qed

lemma gatewayAllowsNamespace_iff:
  "gatewayAllowsNamespace sel gw ns labs \<longleftrightarrow>
     (\<exists>l \<in> set (gw_listeners gw). listenerAllowsNamespace sel l (gw_namespace gw) ns labs)"
  by (simp add: gatewayAllowsNamespace_def list_ex_iff)

lemma allows_changed_has_selector:
  "gatewayAllowsNamespace sel gw ns labs \<noteq> gatewayAllowsNamespace sel gw ns labs' \<Longrightarrow> hasSelectorListeners gw"
  unfolding gatewayAllowsNamespace_iff hasSelectorListeners_iff
  using controller_rule.changed_needs_selector by blast

lemma filterAllowedRefs_None [simp]: "filterAllowedRefs sel None refs ns labs = refs"
  by simp

lemma filterAllowedRefs_hits:
  "gateway_key gw \<in> ref_key ns ` set (filterAllowedRefs sel (Some gw) refs ns labs) \<longleftrightarrow>
     gateway_key gw \<in> ref_key ns ` set refs \<and> gatewayAllowsNamespace sel gw ns labs"
  by (induction refs) auto

lemma filterAllowedRefs_emptied:
  "filterAllowedRefs sel (Some gw) refs ns labs = [] \<Longrightarrow> refs \<noteq> [] \<Longrightarrow> \<not> gatewayAllowsNamespace sel gw ns labs"
  by (cases refs) (auto split: if_splits)

lemma effective_hits:
  "gateway_key gw \<in> ref_key (sv_namespace svc) ` set (getEffectiveGatewayRefs env (Some gw) svc) \<longleftrightarrow>
     gateway_key gw \<in> ref_key (sv_namespace svc) ` set (getEffectiveGatewayRefs env None svc) \<and>
     gatewayAllowsNamespace (ge_selector env) gw (sv_namespace svc) (fetchNamespaceLabels env (sv_namespace svc))"
proof -
  let ?own = "getGatewayRefs env None svc []"
  let ?labs = "fetchNamespaceLabels env (sv_namespace svc)"
  let ?base = "baseRefsLoop env (sv_namespace svc) (sv_base_refs svc) []"
  let ?flt = "\<lambda>refs. filterAllowedRefs (ge_selector env) (Some gw) refs (sv_namespace svc) ?labs"
  have own: "getGatewayRefs env (Some gw) svc ?labs = ?flt ?own" "getGatewayRefs env None svc ?labs = ?own"
    by (simp_all add: getGatewayRefs_def split: option.split)
  have eff: "getEffectiveGatewayRefs env (Some gw) svc = (if ?flt ?own \<noteq> [] then ?flt ?own else ?flt ?base)"
    "getEffectiveGatewayRefs env None svc = (if ?own \<noteq> [] then ?own else ?base)"
    by (simp_all add: getEffectiveGatewayRefs_def own)
  show ?thesis
    unfolding eff using filterAllowedRefs_emptied [of "ge_selector env" gw ?own]
    by (cases "?own = []") (auto simp: filterAllowedRefs_hits simp del: filterAllowedRefs.simps(1,3))
qed

lemma referencedLoop_iff:
  "referencedLoop env gw svcs \<longleftrightarrow> (\<exists>svc \<in> set svcs. \<not> ge_force_stop env (sv_meta svc) \<and>
     gateway_key gw \<in> ref_key (sv_namespace svc) ` set (getEffectiveGatewayRefs env (Some gw) svc))"
  by (induction svcs) (auto simp: list_ex_iff image_iff eq_commute)

lemma collectKeys_invariant:
  "set seen = set out \<Longrightarrow> set (snd (fold addUnseen keys (seen, out))) = set keys \<union> set out \<and>
     (distinct out \<longrightarrow> distinct (snd (fold addUnseen keys (seen, out))))"
  by (induction keys arbitrary: seen out) auto

lemma set_collectKeys [simp]: "set (collectKeys keys) = set keys"
  and distinct_collectKeys [simp]: "distinct (collectKeys keys)"
  using collectKeys_invariant [of "[]" "[]" keys] by (simp_all add: collectKeys_def)

lemma selectorRequests_hits:
  "key \<in> set keys \<Longrightarrow> ge_gateway env (fst key) (snd key) = Inr gw \<Longrightarrow> hasSelectorListeners gw \<Longrightarrow>
   key \<in> set (selectorRequests env keys)"
  by (induction keys) (auto split: sum.splits api_error.splits)

text \<open>What is enqueued does not depend on the labels of any namespace.\<close>

lemma routerRefs_labels [simp]: "routerRefs (env\<lparr>ge_namespace := f\<rparr>) = routerRefs env"
  by (simp add: routerRefs_def fun_eq_iff split: option.split)

lemma getGatewayRefs_None:
  "getGatewayRefs env None svc labs = (case routerRefs env (sv_router svc) of None \<Rightarrow> [] | Some refs \<Rightarrow> refs)"
  by (simp add: getGatewayRefs_def split: option.split)

lemma baseRefsLoop_labels [simp]:
  "baseRefsLoop (env\<lparr>ge_namespace := f\<rparr>) ns bs refs = baseRefsLoop env ns bs refs"
proof (induction bs arbitrary: refs)
  case (Cons b bs)
  have "fetchLLMISvcConfig (env\<lparr>ge_namespace := f\<rparr>) b ns = fetchLLMISvcConfig env b ns"
    by (simp add: fetchLLMISvcConfig_def split: sum.split api_error.split)
  then show ?case using Cons.IH by (simp split: sum.split option.split)
qed simp

lemma effective_None_labels [simp]:
  "getEffectiveGatewayRefs (env\<lparr>ge_namespace := f\<rparr>) None svc = getEffectiveGatewayRefs env None svc"
  by (simp add: getEffectiveGatewayRefs_def getGatewayRefs_None)

lemma defaultGateway_labels [simp]: "defaultGateway (env\<lparr>ge_namespace := f\<rparr>) = defaultGateway env"
proof -
  have "GetDefaultGatewayRef (env\<lparr>ge_namespace := f\<rparr>) = GetDefaultGatewayRef env"
    unfolding GetDefaultGatewayRef_def GetInferenceServiceConfigMap_def
    by (cases "ge_configmap env (ge_pod_namespace env) ''inferenceservice-config''") simp_all
  then show ?thesis by (simp add: defaultGateway_def)
qed

lemma referenced_iff:
  "ge_services env = Inr svcs \<Longrightarrow>
   isGatewayReferencedByLLMService env gw = Inr (gateway_key gw = defaultGateway env \<or>
     (\<exists>svc \<in> set svcs. \<not> ge_force_stop env (sv_meta svc) \<and>
        gateway_key gw \<in> ref_key (sv_namespace svc) ` set (getEffectiveGatewayRefs env None svc) \<and>
        gatewayAllowsNamespace (ge_selector env) gw (sv_namespace svc) (fetchNamespaceLabels env (sv_namespace svc))))"
  by (simp add: isGatewayReferencedByLLMService_def referencedLoop_iff effective_hits)

lemma list_all2_keys:
  "list_all2 (\<lambda>x y. gr_name x = gr_name y \<and> gr_namespace x = gr_namespace y \<and> section_of x = section_of y) a b \<longleftrightarrow>
     map cmp_key a = map cmp_key b"
  by (induction a arbitrary: b) (auto simp: list_all2_Cons1 cmp_key_def Cons_eq_map_conv)

lemma map_sort_key: "map f (sort_key f xs) = sort (map f xs)"
  by (rule properties_for_sort [symmetric]) (simp_all add: mset_map [symmetric] del: mset_map, simp)

lemma sort_eq_iff: "sort xs = sort ys \<longleftrightarrow> mset xs = mset ys"
  by (metis mset_sort sorted_list_of_multiset_mset)

lemma refsEqual_iff: "gatewayRefsEqual a b \<longleftrightarrow> image_mset cmp_key (mset a) = image_mset cmp_key (mset b)"
proof -
  have "image_mset cmp_key (mset a) = image_mset cmp_key (mset b) \<Longrightarrow> length a = length b"
    by (metis size_image_mset size_mset)
  then show ?thesis
    by (auto simp: gatewayRefsEqual_def list_all2_keys map_sort_key sort_eq_iff)
qed

section \<open>Properties\<close>

text \<open>
  Property C29. A gateway counts as referenced exactly when it is the default gateway, or some service that is not
  stopped names it in its references in force (its own, or else those of its last BaseRef config that
  has any) and one of the gateway's listeners admits the service's namespace. In particular the code's fallback to
  the configs' references when the listeners rule out all of a service's own references never makes
  a gateway referenced that the service's own references do not name.
\<close>

theorem isGatewayReferenced_iff:
  assumes "ge_services env = Inr svcs"
  shows "isGatewayReferencedByLLMService env gw = Inr (gateway_key gw = defaultGateway env \<or>
    (\<exists>svc \<in> set svcs. \<not> ge_force_stop env (sv_meta svc) \<and>
       gateway_key gw \<in> ref_key (sv_namespace svc) ` set (getEffectiveGatewayRefs env None svc) \<and>
       gatewayAllowsNamespace (ge_selector env) gw (sv_namespace svc) (fetchNamespaceLabels env (sv_namespace svc))))"
  using assms by (rule referenced_iff)

text \<open>A small cluster: one service in \<open>apps\<close> that inherits its gateway from configs.\<close>

definition open_gateway :: "string \<Rightarrow> gateway" where
  "open_gateway n = \<lparr>gw_meta = empty_meta\<lparr>om_name := n, om_namespace := ''infra''\<rparr>,
     gw_listeners = [\<lparr>ls_name = ''https'', ls_allowed = Some \<lparr>ar_namespaces = Some
       \<lparr>rn_from = Some ''Selector'', rn_selector = Some \<lparr>sl_labels = [], sl_expressions = []\<rparr>\<rparr>\<rparr>\<rparr>],
     gw_conditions = []\<rparr>"

definition config_of :: "string \<Rightarrow> string \<Rightarrow> llm_config" where
  "config_of n gw = \<lparr>cg_meta = empty_meta\<lparr>om_name := n, om_namespace := ''apps''\<rparr>,
     cg_router = Some \<lparr>rt_gateway = Some [\<lparr>gr_name = gw, gr_namespace = ''infra'', gr_section = None\<rparr>]\<rparr>\<rparr>"

definition inheriting_service :: "string list \<Rightarrow> llm_service" where
  "inheriting_service bases = \<lparr>sv_meta = empty_meta\<lparr>om_name := ''svc'', om_namespace := ''apps''\<rparr>,
     sv_router = None, sv_base_refs = bases\<rparr>"

definition small_env :: "llm_config list \<Rightarrow> llm_service list \<Rightarrow> string gomap \<Rightarrow> gateway_env" where
  "small_env cfgs svcs labs = \<lparr>ge_selector = (\<lambda>s l. Some (l \<noteq> [])),
     ge_has_refs = (\<lambda>g. g \<noteq> None \<and> g \<noteq> Some []), ge_force_stop = (\<lambda>_. False), ge_json = (\<lambda>_. None),
     ge_pod_namespace = ''odh'', ge_configmap = (\<lambda>_ _. Inl NotFound),
     ge_namespace = (\<lambda>_. Inr labs),
     ge_config = (\<lambda>ns n. case find (\<lambda>c. om_name (cg_meta c) = n \<and> om_namespace (cg_meta c) = ns) cfgs of
        None \<Rightarrow> Inl NotFound | Some c \<Rightarrow> Inr c),
     ge_services = Inr svcs, ge_services_in = (\<lambda>ns. Inr (filter (\<lambda>s. sv_namespace s = ns) svcs)),
     ge_gateways = Inr [], ge_gateway = (\<lambda>ns n. Inr (open_gateway n))\<rparr>"

lemmas small_simps = small_env_def inheriting_service_def config_of_def open_gateway_def empty_meta_def
  isGatewayReferencedByLLMService_def defaultGateway_def GetDefaultGatewayRef_def GetInferenceServiceConfigMap_def
  DefaultGatewayNamespace_def DefaultGatewayName_def gateway_key_def ref_key_def getEffectiveGatewayRefs_def
  getGatewayRefs_def routerRefs_def fetchNamespaceLabels_def fetchLLMISvcConfig_def gatewayAllowsNamespace_def
  listenerAllowsNamespace_def

theorem isGatewayReferenced_iff_witness:
  "isGatewayReferencedByLLMService (small_env [config_of ''c'' ''g''] [inheriting_service [''c'']] [(''k'', ''v'')])
     (open_gateway ''g'') = Inr True"
proof -
  let ?svc = "inheriting_service [''c'']"
  let ?env = "small_env [config_of ''c'' ''g''] [?svc] [(''k'', ''v'')]"
  have "ge_services ?env = Inr [?svc]" by (simp add: small_env_def)
  from isGatewayReferenced_iff [OF this, of "open_gateway ''g''"] show ?thesis
    by (simp add: small_simps)
qed

text \<open>
  Property C39. No label change is missed: when new labels on a namespace, or its absence, change whether an existing
  gateway counts as referenced, the handler of the namespace event enqueues that gateway, if the services and the gateway can be read.
\<close>

theorem namespace_event_complete:
  assumes "ge_services env = Inr svcs"
    and "ge_services_in env ns = Inr (filter (\<lambda>s. sv_namespace s = ns) svcs)"
    and "ge_gateway env (gw_namespace gw) (gw_name gw) = Inr gw"
    and "env' = env\<lparr>ge_namespace := (ge_namespace env)(ns := r)\<rparr>"
    and "isGatewayReferencedByLLMService env' gw \<noteq> isGatewayReferencedByLLMService env gw"
  shows "gateway_key gw \<in> set (enqueueGatewaysFromNamespace env' ns)"
proof -
  let ?refs = "\<lambda>svc. ref_key (sv_namespace svc) ` set (getEffectiveGatewayRefs env None svc)"
  let ?ok = "\<lambda>e svc. gatewayAllowsNamespace (ge_selector env) gw (sv_namespace svc) (fetchNamespaceLabels e (sv_namespace svc))"
  have svcs': "ge_services env' = Inr svcs" using assms by simp
  have sel: "ge_selector env' = ge_selector env" "ge_force_stop env' = ge_force_stop env" using assms(4) by simp_all
  from assms(5) obtain svc where svc: "svc \<in> set svcs" "gateway_key gw \<in> ?refs svc" "?ok env' svc \<noteq> ?ok env svc"
    unfolding referenced_iff [OF svcs'] referenced_iff [OF assms(1)] sel by (auto simp: assms(4))
  from svc(3) have ns: "sv_namespace svc = ns"
    by (auto simp: assms(4) fetchNamespaceLabels_def split: if_splits)
  have has: "hasSelectorListeners gw" by (rule allows_changed_has_selector [OF svc(3)])
  have in_env: "ge_services_in env' ns = Inr (filter (\<lambda>s. sv_namespace s = ns) svcs)"
    "ge_gateway env' (fst (gateway_key gw)) (snd (gateway_key gw)) = Inr gw"
    using assms(2-4) by (simp_all add: gateway_key_def)
  let ?keys = "concat (map (\<lambda>svc. map (ref_key ns) (getEffectiveGatewayRefs env' None svc)) (filter (\<lambda>s. sv_namespace s = ns) svcs))"
  have "gateway_key gw \<in> set (collectKeys ?keys)" using svc ns by (auto simp: assms(4))
  then have "gateway_key gw \<in> set (selectorRequests env' (collectKeys ?keys))"
    using in_env(2) has by (rule selectorRequests_hits)
  moreover have "filter (\<lambda>s. sv_namespace s = ns) svcs \<noteq> []" using svc(1) ns by (auto simp: filter_empty_conv)
  ultimately show ?thesis by (simp add: enqueueGatewaysFromNamespace_def in_env(1))
qed

theorem namespace_event_complete_witness:
  "(''infra'', ''g'') \<in> set (enqueueGatewaysFromNamespace
     ((small_env [config_of ''c'' ''g''] [inheriting_service [''c'']] [(''k'', ''v'')])\<lparr>ge_namespace :=
        (ge_namespace (small_env [config_of ''c'' ''g''] [inheriting_service [''c'']] [(''k'', ''v'')]))(''apps'' := Inr [])\<rparr>)
     ''apps'')"
proof -
  let ?svc = "inheriting_service [''c'']"
  let ?env = "small_env [config_of ''c'' ''g''] [?svc] [(''k'', ''v'')]"
  let ?gw = "open_gateway ''g''"
  let ?env' = "?env\<lparr>ge_namespace := (ge_namespace ?env)(''apps'' := Inr [])\<rparr>"
  have "isGatewayReferencedByLLMService ?env' ?gw \<noteq> isGatewayReferencedByLLMService ?env ?gw"
    by (simp add: small_simps)
  moreover have "ge_services ?env = Inr [?svc]"
    "ge_services_in ?env ''apps'' = Inr (filter (\<lambda>s. sv_namespace s = ''apps'') [?svc])"
    "ge_gateway ?env (gw_namespace ?gw) (gw_name ?gw) = Inr ?gw"
    by (simp_all add: small_env_def open_gateway_def)
  ultimately have "gateway_key ?gw \<in> set (enqueueGatewaysFromNamespace ?env' ''apps'')"
    using namespace_event_complete [of ?env "[?svc]" "''apps''" ?gw ?env' "Inr []"] by simp
  then show ?thesis by (simp add: gateway_key_def open_gateway_def)
qed

text \<open>
  The comparison of two reference lists by sorting and comparing element by element decides
  equality as multisets of namespace, name and section, an unset section counting as the empty one.
\<close>

theorem gatewayRefsEqual_iff:
  "gatewayRefsEqual a b \<longleftrightarrow> image_mset cmp_key (mset a) = image_mset cmp_key (mset b)"
  by (rule refsEqual_iff)

text \<open>
  The update filter compares BaseRefs without regard to their order, although the last one
  with references decides the gateway: reordering them changes the gateway in use and the event is dropped.
\<close>

theorem base_ref_order_ignored:
  "\<exists>(env :: gateway_env) old new. \<not> serviceUpdateFunc env old new \<and>
     enqueueGatewaysFromLLMInferenceService env old = [(''infra'', ''g2'')] \<and>
     enqueueGatewaysFromLLMInferenceService env new = [(''infra'', ''g1'')]"
proof (intro exI conjI)
  let ?env = "small_env [config_of ''c1'' ''g1'', config_of ''c2'' ''g2''] [] []"
  show "\<not> serviceUpdateFunc ?env (inheriting_service [''c1'', ''c2'']) (inheriting_service [''c2'', ''c1''])"
    by (simp add: serviceUpdateFunc_def gatewayRefsChanged_def getGatewayRefs_None refsEqual_iff routerRefs_def
        sort_eq_iff inheriting_service_def)
  show "enqueueGatewaysFromLLMInferenceService ?env (inheriting_service [''c1'', ''c2'']) = [(''infra'', ''g2'')]"
    "enqueueGatewaysFromLLMInferenceService ?env (inheriting_service [''c2'', ''c1'']) = [(''infra'', ''g1'')]"
    by (simp_all add: enqueueGatewaysFromLLMInferenceService_def small_simps)
qed

text \<open>
  When a config that services inherit from changes its gateway, the handler enqueues the
  gateway the services use now, and not the one they used before: that one is no longer
  referenced, and keeps its EnvoyFilter, AuthPolicy and PodMonitor. The handler's answer for the
  old and for the new version of the config is the same.
\<close>

theorem config_change_misses_old_gateway:
  "\<exists>(before :: gateway_env) (after :: gateway_env) oldCfg newCfg gw.
     configGatewayRefsChanged after oldCfg newCfg \<and>
     isGatewayReferencedByLLMService before gw = Inr True \<and>
     isGatewayReferencedByLLMService after gw = Inr False \<and>
     gateway_key gw \<notin> set (enqueueGatewaysFromLLMInferenceServiceConfig after oldCfg) \<and>
     gateway_key gw \<notin> set (enqueueGatewaysFromLLMInferenceServiceConfig after newCfg)"
proof (intro exI conjI)
  let ?env = "\<lambda>g. small_env [config_of ''c'' g] [inheriting_service [''c'']] [(''k'', ''v'')]"
  let ?gw = "open_gateway ''g1''"
  show "configGatewayRefsChanged (?env ''g2'') (config_of ''c'' ''g1'') (config_of ''c'' ''g2'')"
    by (simp add: configGatewayRefsChanged_def routerRefs_def refsEqual_iff cmp_key_def config_of_def small_env_def)
  show "isGatewayReferencedByLLMService (?env ''g1'') ?gw = Inr True"
    "isGatewayReferencedByLLMService (?env ''g2'') ?gw = Inr False"
    by (simp_all add: small_simps)
  show "gateway_key ?gw \<notin> set (enqueueGatewaysFromLLMInferenceServiceConfig (?env ''g2'') (config_of ''c'' ''g1''))"
    "gateway_key ?gw \<notin> set (enqueueGatewaysFromLLMInferenceServiceConfig (?env ''g2'') (config_of ''c'' ''g2''))"
    by (simp_all add: enqueueGatewaysFromLLMInferenceServiceConfig_def referencesConfig_def small_simps)
qed

end
