(* ===== verification/Managed_Children.thy ===== *)
theory Managed_Children
  imports Gateway_Refs
begin

text \<open>
  Objects the controllers keep beside a gateway: when such an object counts as managed
  (internal/controller/utils/utils.go), what changed about it
  (internal/controller/processors/deltaProcessor.go) and the stores that write it
  (internal/controller/resources/envoyfilter.go; those of authpolicy.go have the same code). An
  operation takes the API server's answers for one kind of object and returns the writes it asks
  for, in order, and its error. The locales at the end are the contracts of such operations: they
  settle, and those with a guard leave foreign objects alone.
\<close>

section \<open>Data\<close>

record 'spec child =
  ch_meta :: object_meta
  ch_spec :: 'spec

datatype 'spec child_write = CreateChild "'spec child" | UpdateChild "'spec child" | DeleteChild namespaced_name

type_synonym 'spec child_result = "'spec child_write list \<times> api_error option"

text \<open>
  The API server's answers; \<open>ca_again\<close> and \<open>ca_update\<close> are those to the n-th attempt of a retried
  update, and \<open>ca_retry\<close> is \<open>retry.RetryOnConflict\<close> of client-go, which returns what one of the
  attempts returned.
\<close>

record 'spec child_api =
  ca_get :: "namespaced_name \<Rightarrow> api_error + 'spec child"
  ca_again :: "nat \<Rightarrow> namespaced_name \<Rightarrow> api_error + 'spec child"
  ca_create :: "'spec child \<Rightarrow> api_error option"
  ca_update :: "nat \<Rightarrow> 'spec child \<Rightarrow> api_error option"
  ca_delete :: "namespaced_name \<Rightarrow> api_error option"
  ca_retry :: "(nat \<Rightarrow> 'spec child_result) \<Rightarrow> 'spec child_result"

definition child_key :: "'spec child \<Rightarrow> namespaced_name" where
  "child_key c = (om_namespace (ch_meta c), om_name (ch_meta c))"

definition ODHManaged :: string where "ODHManaged = ''opendatahub.io/managed''"
definition AuthorinoTLSBootstrapAnnotation :: string where
  "AuthorinoTLSBootstrapAnnotation = ''security.opendatahub.io/authorino-tls-bootstrap''"

section \<open>Who manages an object\<close>

definition IsManagedByOdhController :: "object_meta \<Rightarrow> bool" where
  "IsManagedByOdhController m = (m_str (om_labels m) ''app.kubernetes.io/managed-by'' = ''odh-model-controller'')"

definition IsExplicitlyUnmanaged :: "object_meta \<Rightarrow> bool" where
  "IsExplicitlyUnmanaged m =
     (case map_of (om_labels m) ODHManaged of
        Some v \<Rightarrow> equal_fold (trim_space v) ''false''
      | None \<Rightarrow>
          (case map_of (om_annotations m) ODHManaged of
             Some v \<Rightarrow> equal_fold (trim_space v) ''false''
           | None \<Rightarrow> False))"

definition IsAuthorinoTLSBootstrapEnabled :: "object_meta \<Rightarrow> bool" where
  "IsAuthorinoTLSBootstrapEnabled m =
     (case map_of (om_annotations m) AuthorinoTLSBootstrapAnnotation of
        Some v \<Rightarrow> equal_fold (trim_space v) ''true''
      | None \<Rightarrow> False)"

definition IsManagedByOpenDataHub :: "object_meta \<Rightarrow> bool" where
  "IsManagedByOpenDataHub m = (if IsExplicitlyUnmanaged m then False else IsManagedByOdhController m)"

definition IsOwnedByPlatformController :: "object_meta \<Rightarrow> bool" where
  "IsOwnedByPlatformController m =
     list_ex (\<lambda>r. or_controller r = Some True \<and> or_kind r = ''GatewayConfig'') (om_owners m)"

definition ShouldCreateEnvoyFilterForGateway :: "object_meta \<Rightarrow> bool" where
  "ShouldCreateEnvoyFilterForGateway m =
     (if IsAuthorinoTLSBootstrapEnabled m then True
      else if IsOwnedByPlatformController m then False
      else \<not> IsExplicitlyUnmanaged m)"

text \<open>The entries of \<open>existing\<close> whose key \<open>desired\<close> does not have.\<close>

fun addMissing :: "string gomap \<Rightarrow> string gomap \<Rightarrow> string gomap" where
  "addMissing [] desired = desired"
| "addMissing ((k, v) # existing) desired =
     addMissing existing (case map_of desired k of None \<Rightarrow> m_put k v desired | Some _ \<Rightarrow> desired)"

definition MergeUserLabelsAndAnnotations :: "object_meta \<Rightarrow> object_meta \<Rightarrow> object_meta" where
  "MergeUserLabelsAndAnnotations desired existing =
     desired\<lparr>om_labels := addMissing (om_labels existing) (om_labels desired),
             om_annotations := addMissing (om_annotations existing) (om_annotations desired)\<rparr>"

section \<open>Deltas\<close>

record resource_delta =
  rd_added :: bool
  rd_updated :: bool
  rd_removed :: bool

definition ComputeDelta :: "('a \<Rightarrow> 'a \<Rightarrow> bool) \<Rightarrow> 'a option \<Rightarrow> 'a option \<Rightarrow> resource_delta" where
  "ComputeDelta comparator desired existing =
     (case (desired, existing) of
        (None, None) \<Rightarrow> \<lparr>rd_added = False, rd_updated = False, rd_removed = False\<rparr>
      | (Some _, None) \<Rightarrow> \<lparr>rd_added = True, rd_updated = False, rd_removed = False\<rparr>
      | (None, Some _) \<Rightarrow> \<lparr>rd_added = False, rd_updated = False, rd_removed = True\<rparr>
      | (Some d, Some e) \<Rightarrow> \<lparr>rd_added = False, rd_updated = \<not> comparator e d, rd_removed = False\<rparr>)"

definition HasChanges :: "resource_delta \<Rightarrow> bool" where
  "HasChanges d = (rd_added d \<or> rd_updated d \<or> rd_removed d)"

section \<open>Stores\<close>

definition storeRemove :: "'spec child_api \<Rightarrow> namespaced_name \<Rightarrow> 'spec child_result" where
  "storeRemove api key =
     ([DeleteChild key], case ca_delete api key of Some NotFound \<Rightarrow> None | r \<Rightarrow> r)"

definition storeCreate :: "'spec child_api \<Rightarrow> 'spec child \<Rightarrow> 'spec child_result" where
  "storeCreate api c = ([CreateChild c], ca_create api c)"

definition storeUpdate :: "'spec child_api \<Rightarrow> 'spec child \<Rightarrow> 'spec child_result" where
  "storeUpdate api c =
     ca_retry api (\<lambda>n.
       case ca_again api n (child_key c) of
         Inl e \<Rightarrow> ([], Some e)
       | Inr _ \<Rightarrow> ([UpdateChild c], ca_update api n c))"

section \<open>Lemmas\<close>

lemma map_of_addMissing:
  "map_of (addMissing existing desired) k =
     (case map_of desired k of Some v \<Rightarrow> Some v | None \<Rightarrow> map_of existing k)"
  by (induction existing desired rule: addMissing.induct) (auto split: option.splits)

lemma ComputeDelta_existing [simp]:
  "HasChanges (ComputeDelta cmp (Some d) (Some e)) = (\<not> cmp e d)"
  "rd_added (ComputeDelta cmp (Some d) (Some e)) = False"
  "rd_updated (ComputeDelta cmp (Some d) (Some e)) = (\<not> cmp e d)"
  by (simp_all add: ComputeDelta_def HasChanges_def)

lemma ComputeDelta_absent [simp]:
  "HasChanges (ComputeDelta cmp (Some d) None)" "rd_added (ComputeDelta cmp (Some d) None)"
  by (simp_all add: ComputeDelta_def HasChanges_def)

text \<open>An API server that answers from a store and accepts every write.\<close>

type_synonym 'spec child_store = "(namespaced_name \<times> 'spec child) list"

definition child_store_api :: "'spec child_store \<Rightarrow> 'spec child_api" where
  "child_store_api st = \<lparr>ca_get = (\<lambda>k. from_option (map_of st k)), ca_again = (\<lambda>_ k. from_option (map_of st k)),
     ca_create = (\<lambda>_. None), ca_update = (\<lambda>_ _. None), ca_delete = (\<lambda>_. None), ca_retry = (\<lambda>f. f 0)\<rparr>"

definition apply_child_write :: "'spec child_write \<Rightarrow> 'spec child_store \<Rightarrow> 'spec child_store" where
  "apply_child_write w st =
     (case w of
        CreateChild c \<Rightarrow> AList.update (child_key c) c st
      | UpdateChild c \<Rightarrow> AList.update (child_key c) c st
      | DeleteChild k \<Rightarrow> AList.delete k st)"

definition wf_children :: "'spec child_store \<Rightarrow> bool" where
  "wf_children st = (\<forall>(k, c) \<in> set st. child_key c = k)"

lemma wf_childrenD: "wf_children st \<Longrightarrow> map_of st k = Some c \<Longrightarrow> child_key c = k"
  by (auto simp: wf_children_def dest: map_of_SomeD)

lemma store_api_simps [simp]:
  "ca_get (child_store_api st) k = from_option (map_of st k)"
  "ca_again (child_store_api st) n k = from_option (map_of st k)"
  "ca_create (child_store_api st) c = None"
  "ca_update (child_store_api st) n c = None"
  "ca_delete (child_store_api st) k = None"
  "ca_retry (child_store_api st) f = f 0"
  by (simp_all add: child_store_api_def)

lemma from_option_simps [simp]: "from_option None = Inl NotFound" "from_option (Some v) = Inr v"
  by (simp_all add: from_option_def)

lemma storeWrites [simp]:
  "storeCreate (child_store_api st) c = ([CreateChild c], None)"
  "storeRemove (child_store_api st) k = ([DeleteChild k], None)"
  "map_of st (child_key c) = Some d \<Longrightarrow> storeUpdate (child_store_api st) c = ([UpdateChild c], None)"
  by (simp_all add: storeCreate_def storeRemove_def storeUpdate_def)

lemma apply_child_write_simps [simp]:
  "map_of (apply_child_write (CreateChild c) st) k = (if k = child_key c then Some c else map_of st k)"
  "map_of (apply_child_write (UpdateChild c) st) k = (if k = child_key c then Some c else map_of st k)"
  "map_of (apply_child_write (DeleteChild k') st) k = (if k = k' then None else map_of st k)"
  by (simp_all add: apply_child_write_def update_conv' delete_conv')

definition write_key :: "'spec child_write \<Rightarrow> namespaced_name" where
  "write_key w = (case w of CreateChild c \<Rightarrow> child_key c | UpdateChild c \<Rightarrow> child_key c | DeleteChild k \<Rightarrow> k)"

lemma write_key_simps [simp]:
  "write_key (CreateChild c) = child_key c" "write_key (UpdateChild c) = child_key c" "write_key (DeleteChild k) = k"
  by (simp_all add: write_key_def)

lemma apply_child_write_other: "write_key w \<noteq> k \<Longrightarrow> map_of (apply_child_write w st) k = map_of st k"
  by (cases w) auto

lemma fold_writes_other:
  "\<forall>w \<in> set ws. write_key w \<noteq> k \<Longrightarrow> map_of (fold apply_child_write ws st) k = map_of st k"
  by (induction ws arbitrary: st) (simp_all add: apply_child_write_other)

lemma fold_writes_cong:
  "map_of a k = map_of b k \<Longrightarrow> map_of (fold apply_child_write ws a) k = map_of (fold apply_child_write ws b) k"
proof (induction ws arbitrary: a b)
  case (Cons w ws)
  have "map_of (apply_child_write w a) k = map_of (apply_child_write w b) k" using Cons.prems by (cases w) simp_all
  from Cons.IH [OF this] show ?case by simp
qed simp

lemma set_AList_update: "set (AList.update k v al) \<subseteq> insert (k, v) (set al)"
  by (induction al) auto

lemma wf_apply_child_write [intro]: "wf_children st \<Longrightarrow> wf_children (apply_child_write w st)"
  using set_AList_update by (cases w) (fastforce simp: wf_children_def apply_child_write_def AList.delete_eq)+

lemma wf_fold_writes [intro]: "wf_children st \<Longrightarrow> wf_children (fold apply_child_write ws st)"
  by (induction ws arbitrary: st) auto

text \<open>
  Where code reads objects after it has written some, the API server is a function of the writes that have been asked for;
  \<open>store_world st\<close> answers from a store and takes every write into account.
\<close>

type_synonym 'spec child_world = "'spec child_write list \<Rightarrow> 'spec child_api"

definition store_world :: "'spec child_store \<Rightarrow> 'spec child_world" where
  "store_world st ws = child_store_api (fold apply_child_write ws st)"

lemma store_world_simps [simp]:
  "ca_get (store_world st ws) k = from_option (map_of (fold apply_child_write ws st) k)"
  "ca_create (store_world st ws) s = None" "ca_update (store_world st ws) n s = None" "ca_delete (store_world st ws) k = None"
  "store_world st [] = child_store_api st"
  by (simp_all add: store_world_def)

section \<open>Contracts\<close>

text \<open>
  An operation that settles: against a server that answers from a store, running it again
  after its writes took effect writes nothing and ends the same way.
\<close>

locale settling_operation =
  fixes op :: "'spec child_api \<Rightarrow> 'spec child_write list \<times> 'e option"
  assumes settles: "wf_children st \<Longrightarrow> op (child_store_api st) = (ws, e) \<Longrightarrow>
    op (child_store_api (fold apply_child_write ws st)) = ([], e)"
begin

definition after :: "'spec child_store \<Rightarrow> 'spec child_store" where
  "after st = fold apply_child_write (fst (op (child_store_api st))) st"

lemma settled: "wf_children st \<Longrightarrow> op (child_store_api (after st)) = ([], snd (op (child_store_api st)))"
  unfolding after_def by (rule settles) simp_all

lemma after_after: "wf_children st \<Longrightarrow> after (after st) = after st"
  by (subst (1) after_def) (simp add: settled)

end

text \<open>An operation with a guard: it writes only when the object is absent or one of its own.\<close>

locale owner_guarded =
  fixes op :: "'spec child_api \<Rightarrow> 'spec child_write list \<times> 'e option" and key :: namespaced_name and mine :: "'spec child \<Rightarrow> bool"
  assumes guard: "w \<in> set (fst (op api)) \<Longrightarrow>
    (case ca_get api key of Inl e \<Rightarrow> e = NotFound | Inr c \<Rightarrow> mine c)"
begin

lemma foreign_kept: "ca_get api key = Inr c \<Longrightarrow> \<not> mine c \<Longrightarrow> fst (op api) = []"
  using guard [of "hd (fst (op api))" api] by (cases "fst (op api)") simp_all

lemma failed_get_kept: "ca_get api key = Inl e \<Longrightarrow> e \<noteq> NotFound \<Longrightarrow> fst (op api) = []"
  using guard [of "hd (fst (op api))" api] by (cases "fst (op api)") simp_all

lemma foreign_survives:
  "map_of st key = Some c \<Longrightarrow> \<not> mine c \<Longrightarrow> fold apply_child_write (fst (op (child_store_api st))) st = st"
  by (simp add: foreign_kept)

end

text \<open>The guard of the gateway controller: the object is managed by the controller.\<close>

locale guarded_operation =
  owner_guarded op key "\<lambda>c. IsManagedByOpenDataHub (ch_meta c)"
  for op :: "'spec child_api \<Rightarrow> 'spec child_write list \<times> 'e option" and key :: namespaced_name

end
