(* ===== verification/Auth_Policy.thy ===== *)
theory Auth_Policy
  imports Managed_Children Storage_Config
begin

text \<open>
  What the gateway controller puts into the objects it keeps: the AuthPolicy and its options
  (internal/controller/resources/options.go and authpolicy.go), the EnvoyFilter (envoyfilter.go), the
  PodMonitor (desiredGatewayPodMonitor), the Grid configuration of a gateway (serving/llm/grid_config.go) and
  the lookups of the Kuadrant installation (utils/kuadrant.go) and of the audience and routing header
  (utils/utils.go). The rendering of the embedded YAML templates, the JSON decoder and the validators of
  apimachinery and x/net are fields of \<open>children_env\<close>; the metadata of a rendered object is written out from the template.
\<close>

section \<open>Data\<close>

record override =
  ov_expression :: string
  ov_value :: string

text \<open>One entry of \<open>spec.rules.authentication\<close>: the audiences of a TokenReview, if it is one, and the overrides.\<close>

record authentication =
  au_review :: "string list option"
  au_overrides :: "override gomap"

record auth_policy_spec =
  ap_scheme :: "authentication gomap option"  \<comment> \<open>\<open>AuthScheme.Authentication\<close>\<close>
  ap_rest :: string  \<comment> \<open>the rest of the spec, which no option touches\<close>

record envoy_target =
  et_group :: string
  et_kind :: string
  et_name :: string

record envoy_filter_spec =
  ef_targets :: "envoy_target list"
  ef_patches :: "string list"
  ef_priority :: int
  ef_workload :: "string gomap option"

record relabel_config =
  rl_sources :: "string list"
  rl_target :: string
  rl_regex :: string
  rl_action :: string
  rl_replacement :: "string option"

record metrics_endpoint =
  me_port :: "string option"
  me_path :: string
  me_scheme :: "string option"
  me_relabel :: "relabel_config list"
  me_metric_relabel :: "relabel_config list"

record pod_monitor_spec =
  pm_selector :: label_selector
  pm_endpoints :: "metrics_endpoint list"

type_synonym auth_policy = "auth_policy_spec child"
type_synonym envoy_filter = "envoy_filter_spec child"
type_synonym pod_monitor = "pod_monitor_spec child"

datatype auth_type = UserDefined | Anonymous | OtherAuth string

record auth_policy_target =
  at_kind :: string
  at_name :: string
  at_namespace :: string
  at_type :: auth_type
  at_header :: string

record policy_template_data =
  td_name :: string
  td_namespace :: string
  td_kind :: string
  td_target :: string
  td_header :: string

record envoy_template_data =
  en_name :: string
  en_namespace :: string
  en_kind :: string
  en_target :: string
  en_kuadrant :: string

record grid_config =
  gf_network :: string
  gf_namespace :: string
  gf_account :: string
  gf_secret :: string
  gf_site_labels :: "string gomap"
  gf_metrics :: bool
  gf_plaintext :: bool

text \<open>The annotation as decoded, with the labels still a string.\<close>

record grid_raw =
  gv_network :: string
  gv_namespace :: string
  gv_account :: string
  gv_secret :: string
  gv_site_labels :: string
  gv_metrics :: bool
  gv_plaintext :: bool

record authorino =
  ao_name :: string
  ao_tls :: "bool option"

text \<open>
  \<open>ce_child_name\<close> is \<open>kmeta.ChildName\<close>; \<open>ce_own\<close> is \<open>controllerutil.SetControllerReference\<close>; \<open>ce_env\<close> is
  \<open>os.LookupEnv\<close>; \<open>ce_policy\<close> and \<open>ce_envoy\<close> render and decode the specs of the templates;
  \<open>ce_derives\<close> and \<open>ce_derives_labels\<close> are \<open>equality.Semantic.DeepDerivative\<close>; \<open>ce_token\<close> is
  \<open>httpguts.ValidHeaderFieldName\<close>; \<open>ce_grid_json\<close> is \<open>UnmarshalStrict\<close> with its strict errors joined;
  \<open>ce_subdomain\<close> and \<open>ce_label\<close> are the DNS-1123 validators (no error reported); \<open>ce_label_map\<close> is
  \<open>labels.ConvertSelectorToLabelsMap\<close>; the others answer calls to the API server.
\<close>

record children_env = gateway_env +
  ce_child_name :: "string \<Rightarrow> string \<Rightarrow> string"
  ce_own :: "object_meta \<Rightarrow> object_meta \<Rightarrow> api_error + object_meta"
  ce_env :: "string \<Rightarrow> string option"
  ce_policy :: "auth_type \<Rightarrow> policy_template_data \<Rightarrow> api_error + auth_policy_spec"
  ce_envoy :: "envoy_template_data \<Rightarrow> api_error + envoy_filter_spec"
  ce_derives :: "auth_policy_spec \<Rightarrow> auth_policy_spec \<Rightarrow> bool"
  ce_derives_labels :: "string gomap \<Rightarrow> string gomap \<Rightarrow> bool"
  ce_token :: "string \<Rightarrow> bool"
  ce_grid_json :: "string \<Rightarrow> api_error + grid_raw"
  ce_subdomain :: "string \<Rightarrow> bool"
  ce_label :: "string \<Rightarrow> bool"
  ce_label_map :: "string \<Rightarrow> string gomap option"
  ce_kuadrants :: "api_error + namespaced_name list"
  ce_authorinos :: "string \<Rightarrow> api_error + authorino list"
  ce_issuer :: "api_error + string"

section \<open>Kuadrant\<close>

definition GetEnvOr :: "('z) children_env_scheme \<Rightarrow> string \<Rightarrow> string \<Rightarrow> string" where
  "GetEnvOr env k defaultValue = (case ce_env env k of Some v \<Rightarrow> v | None \<Rightarrow> defaultValue)"

definition GetKuadrantNamespace :: "('z) children_env_scheme \<Rightarrow> string" where
  "GetKuadrantNamespace env =
     (let kuadrantNamespace = GetEnvOr env ''KUADRANT_NAMESPACE'' ''kuadrant-system''
      in case ce_kuadrants env of
           Inl _ \<Rightarrow> kuadrantNamespace
         | Inr [] \<Rightarrow> kuadrantNamespace
         | Inr items \<Rightarrow>
             (let items = sort items
              in if list_ex (\<lambda>k. fst k = kuadrantNamespace) items then kuadrantNamespace else fst (hd items)))"

definition IsAuthorinoTLSEnabled :: "('z) children_env_scheme \<Rightarrow> string \<Rightarrow> bool" where
  "IsAuthorinoTLSEnabled env kuadrantNamespace =
     (case ce_authorinos env kuadrantNamespace of
        Inl _ \<Rightarrow> True
      | Inr [] \<Rightarrow> True
      | Inr items \<Rightarrow> (case ao_tls (hd (sort_key ao_name items)) of None \<Rightarrow> False | Some b \<Rightarrow> b))"

section \<open>Audience and routing header\<close>

definition KubernetesAudience :: string where "KubernetesAudience = ''https://kubernetes.default.svc''"
definition DefaultModelRoutingHeader :: string where "DefaultModelRoutingHeader = ''x-gateway-model-name''"

definition GetAuthAudience :: "('z) children_env_scheme \<Rightarrow> string \<Rightarrow> string list" where
  "GetAuthAudience env defaultAudience =
     (let aud = (case ce_env env ''AUTH_AUDIENCE'' of Some v \<Rightarrow> v | None \<Rightarrow> [])
      in if aud \<noteq> [] then map trim_space (split_on (CHR '','') aud)
         else (case ce_issuer env of
                 Inl _ \<Rightarrow> [defaultAudience]
               | Inr issuer \<Rightarrow> if issuer \<noteq> [] then [issuer] else [defaultAudience]))"

definition unsafe_chars :: "char set" where
  "unsafe_chars = {CHR 0x27, CHR 0x22, CHR 0x60, CHR 0x5C}"

definition isCELSafeHeaderName :: "('z) children_env_scheme \<Rightarrow> string \<Rightarrow> bool" where
  "isCELSafeHeaderName env name = (ce_token env name \<and> \<not> list_ex (\<lambda>c. c \<in> unsafe_chars) name)"

definition GetModelRoutingHeader :: "('z) children_env_scheme \<Rightarrow> string" where
  "GetModelRoutingHeader env =
     (case GetInferenceServiceConfigMap env of
        Inl _ \<Rightarrow> DefaultModelRoutingHeader
      | Inr data \<Rightarrow>
          if m_str data ''ingress'' = [] then DefaultModelRoutingHeader
          else (case ge_json env (m_str data ''ingress'') of
                  None \<Rightarrow> DefaultModelRoutingHeader
                | Some config \<Rightarrow>
                    (case map_of config ''modelBasedRoutingHeaderName'' of
                       None \<Rightarrow> DefaultModelRoutingHeader
                     | Some header \<Rightarrow>
                         if header = [] then DefaultModelRoutingHeader
                         else let lower = map lower_char header
                              in if isCELSafeHeaderName env lower then lower else DefaultModelRoutingHeader)))"

section \<open>AuthPolicy options\<close>

definition WithLabels :: "string gomap \<Rightarrow> 'spec child \<Rightarrow> 'spec child" where
  "WithLabels labs obj = obj\<lparr>ch_meta := (ch_meta obj)\<lparr>om_labels := m_putall labs (om_labels (ch_meta obj))\<rparr>\<rparr>"

text \<open>The loop over \<open>Authentication\<close>, which stores an updated entry under the same key.\<close>

definition map_authentication :: "(authentication \<Rightarrow> authentication) \<Rightarrow> auth_policy \<Rightarrow> auth_policy" where
  "map_authentication f ap =
     (case ap_scheme (ch_spec ap) of
        None \<Rightarrow> ap
      | Some scheme \<Rightarrow> ap\<lparr>ch_spec := (ch_spec ap)\<lparr>ap_scheme := Some (map (\<lambda>(k, a). (k, f a)) scheme)\<rparr>\<rparr>)"

definition WithAudiences :: "string list \<Rightarrow> auth_policy \<Rightarrow> auth_policy" where
  "WithAudiences audiences = map_authentication (\<lambda>auth.
     case au_review auth of
       None \<Rightarrow> auth
     | Some _ \<Rightarrow>
         let auth = auth\<lparr>au_review := Some audiences\<rparr>
         in case (audiences, map_of (au_overrides auth) ''fairness'') of
              (a # _, Some fairness) \<Rightarrow>
                auth\<lparr>au_overrides := m_put ''fairness'' (fairness\<lparr>ov_value := json_string a\<rparr>) (au_overrides auth)\<rparr>
            | _ \<Rightarrow> auth)"

definition WithObjectiveExpression :: "string \<Rightarrow> auth_policy \<Rightarrow> auth_policy" where
  "WithObjectiveExpression expression = map_authentication (\<lambda>auth.
     case map_of (au_overrides auth) ''objective'' of
       None \<Rightarrow> auth
     | Some objective \<Rightarrow>
         auth\<lparr>au_overrides := m_put ''objective'' (objective\<lparr>ov_expression := expression\<rparr>) (au_overrides auth)\<rparr>)"

text \<open>The verb \<open>%q\<close> of fmt, on ASCII text.\<close>

definition quote_char :: "char \<Rightarrow> string" where
  "quote_char c =
     (let n = (of_char c :: nat)
      in if n = 34 then [CHR 0x5C, CHR 0x22]
         else if n = 92 then [CHR 0x5C, CHR 0x5C]
         else if n = 7 then CHR 0x5C # ''a''
         else if n = 8 then CHR 0x5C # ''b''
         else if n = 12 then CHR 0x5C # ''f''
         else if n = 10 then CHR 0x5C # ''n''
         else if n = 13 then CHR 0x5C # ''r''
         else if n = 9 then CHR 0x5C # ''t''
         else if n = 11 then CHR 0x5C # ''v''
         else if n < 32 \<or> n = 127 then CHR 0x5C # ''x'' @ [hex_digit (n div 16), hex_digit (n mod 16)]
         else [c])"

definition go_quote :: "string \<Rightarrow> string" where
  "go_quote s = CHR 0x22 # concat (map quote_char s) @ [CHR 0x22]"

definition gridExpression :: "string \<Rightarrow> string \<Rightarrow> string \<Rightarrow> string" where
  "gridExpression username header fallback =
     ''auth.identity.user.username == '' @ go_quote username @ '' && '' @ go_quote header @
     '' in request.headers ? request.headers['' @ go_quote header @ ''] : ('' @ fallback @ '')''"

definition gridOverride :: "string \<Rightarrow> string \<times> string \<Rightarrow> override gomap \<Rightarrow> override gomap" where
  "gridOverride username nh overrides =
     (case map_of overrides (fst nh) of
        None \<Rightarrow> overrides
      | Some ov \<Rightarrow>
          let fallback = (if ov_expression ov = [] then ov_value ov else ov_expression ov)
          in if fallback = [] then overrides
             else m_put (fst nh) (ov\<lparr>ov_expression := gridExpression username (snd nh) fallback, ov_value := []\<rparr>) overrides)"

definition WithGridFlowControlHeaders :: "string \<Rightarrow> string \<Rightarrow> auth_policy \<Rightarrow> auth_policy" where
  "WithGridFlowControlHeaders namespace serviceAccount ap =
     (if namespace = [] \<or> serviceAccount = [] then ap
      else let username = ''system:serviceaccount:'' @ namespace @ '':'' @ serviceAccount
           in map_authentication (\<lambda>auth.
                case au_review auth of
                  None \<Rightarrow> auth
                | Some _ \<Rightarrow> auth\<lparr>au_overrides := fold (gridOverride username)
                    [(''fairness'', ''x-gateway-inference-fairness-id''),
                     (''objective'', ''x-gateway-inference-objective'')] (au_overrides auth)\<rparr>) ap)"

section \<open>The templates\<close>

definition AuthPolicyNameSuffix :: string where "AuthPolicyNameSuffix = ''-authn''"
definition EnvoyFilterNameSuffix :: string where "EnvoyFilterNameSuffix = ''-authn-ssl''"

definition GetAuthPolicyName :: "('z) children_env_scheme \<Rightarrow> string \<Rightarrow> string" where
  "GetAuthPolicyName env target = ce_child_name env target AuthPolicyNameSuffix"

definition GetGatewayEnvoyFilterName :: "('z) children_env_scheme \<Rightarrow> string \<Rightarrow> string" where
  "GetGatewayEnvoyFilterName env gw = ce_child_name env gw EnvoyFilterNameSuffix"

definition GetGatewayPodMonitorName :: "('z) children_env_scheme \<Rightarrow> string \<Rightarrow> string" where
  "GetGatewayPodMonitorName env gw = ce_child_name env gw ''-metrics''"

definition withManagedLabels :: "'spec child \<Rightarrow> 'spec child" where
  "withManagedLabels = WithLabels
     [(''app.kubernetes.io/component'', ''llminferenceservice-policies''),
      (''app.kubernetes.io/part-of'', ''llminferenceservice''),
      (''app.kubernetes.io/managed-by'', ''odh-model-controller'')]"

definition Load :: "('z) children_env_scheme \<Rightarrow> auth_policy_target \<Rightarrow> (auth_policy \<Rightarrow> auth_policy) list
    \<Rightarrow> api_error + auth_policy" where
  "Load env target opts =
     (case at_type target of
        OtherAuth t \<Rightarrow> Inl (ApiFailure (''unsupported auth type '' @ t))
      | tmpl \<Rightarrow>
          let header = (if at_header target = [] then DefaultModelRoutingHeader else at_header target)
          in if \<not> ce_token env header \<or> list_ex (\<lambda>c. c \<in> unsafe_chars) header
             then Inl (ApiFailure ''invalid model routing header name'')
             else (let name = ce_child_name env (at_name target) AuthPolicyNameSuffix
                   in case ce_policy env tmpl \<lparr>td_name = name, td_namespace = at_namespace target,
                             td_kind = at_kind target, td_target = at_name target, td_header = header\<rparr> of
                        Inl e \<Rightarrow> Inl e
                      | Inr spec \<Rightarrow>
                          let rendered = \<lparr>ch_meta = empty_meta\<lparr>om_name := name, om_namespace := at_namespace target\<rparr>,
                                          ch_spec = spec\<rparr>
                          in Inr (fold (\<lambda>opt obj. opt obj) opts (withManagedLabels rendered))))"

definition renderSSLTemplate :: "('z) children_env_scheme \<Rightarrow> string \<Rightarrow> string \<Rightarrow> string \<Rightarrow> api_error + envoy_filter" where
  "renderSSLTemplate env gatewayNamespace gatewayName kuadrantNamespace =
     (let name = GetGatewayEnvoyFilterName env gatewayName
      in case ce_envoy env \<lparr>en_name = name, en_namespace = gatewayNamespace, en_kind = ''Gateway'',
                en_target = gatewayName, en_kuadrant = kuadrantNamespace\<rparr> of
           Inl e \<Rightarrow> Inl e
         | Inr spec \<Rightarrow> Inr \<lparr>ch_meta = empty_meta\<lparr>om_name := name, om_namespace := gatewayNamespace,
               om_labels := [(''app.kubernetes.io/name'', ''llminferenceservice-auth''),
                 (''app.kubernetes.io/component'', ''llminferenceservice-policies''),
                 (''app.kubernetes.io/part-of'', ''llminferenceservice''),
                 (''app.kubernetes.io/managed-by'', ''odh-model-controller'')]\<rparr>, ch_spec = spec\<rparr>)"

definition LoadEnvoyFilter :: "('z) children_env_scheme \<Rightarrow> string \<Rightarrow> string \<Rightarrow> api_error + envoy_filter" where
  "LoadEnvoyFilter env gatewayNamespace gatewayName =
     renderSSLTemplate env gatewayNamespace gatewayName (GetKuadrantNamespace env)"

definition desiredGatewayPodMonitor :: "('z) children_env_scheme \<Rightarrow> gateway \<Rightarrow> pod_monitor" where
  "desiredGatewayPodMonitor env gw =
     \<lparr>ch_meta = empty_meta\<lparr>om_name := GetGatewayPodMonitorName env (gw_name gw), om_namespace := gw_namespace gw,
        om_labels := [(''app.kubernetes.io/component'', ''llm-monitoring''),
          (''app.kubernetes.io/part-of'', ''llminferenceservice''),
          (''app.kubernetes.io/managed-by'', ''odh-model-controller''),
          (''monitoring.opendatahub.io/scrape'', ''true'')]\<rparr>,
      ch_spec = \<lparr>pm_selector = \<lparr>sl_labels = [(''gateway.networking.k8s.io/gateway-name'', gw_name gw)], sl_expressions = []\<rparr>,
        pm_endpoints = [\<lparr>me_port = Some ''metrics'', me_path = ''/stats/prometheus'', me_scheme = Some ''http'',
          me_relabel =
            [\<lparr>rl_sources = [''__meta_kubernetes_pod_label_gateway_networking_k8s_io_gateway_name''],
              rl_target = ''gateway_name'', rl_regex = [], rl_action = ''replace'', rl_replacement = None\<rparr>,
             \<lparr>rl_sources = [], rl_target = ''llm_isvc_gateway'', rl_regex = [], rl_action = [],
              rl_replacement = Some ''true''\<rparr>],
          me_metric_relabel =
            [\<lparr>rl_sources = [''__name__''], rl_target = [],
              rl_regex = ''istio_requests_total|istio_request_duration_milliseconds_(bucket|sum|count)|istio_request_bytes_(bucket|sum|count)|istio_response_bytes_(bucket|sum|count)'',
              rl_action = ''keep'', rl_replacement = None\<rparr>]\<rparr>]\<rparr>\<rparr>"

section \<open>Comparators\<close>

definition GetEnvoyFilterComparator :: "('z) children_env_scheme \<Rightarrow> envoy_filter \<Rightarrow> envoy_filter \<Rightarrow> bool" where
  "GetEnvoyFilterComparator env current desired =
     (ef_targets (ch_spec desired) = ef_targets (ch_spec current) \<and>
      ef_patches (ch_spec desired) = ef_patches (ch_spec current) \<and>
      ef_priority (ch_spec desired) = ef_priority (ch_spec current) \<and>
      ce_derives_labels env (om_labels (ch_meta desired)) (om_labels (ch_meta current)))"

definition GetAuthPolicyComparator :: "('z) children_env_scheme \<Rightarrow> auth_policy \<Rightarrow> auth_policy \<Rightarrow> bool" where
  "GetAuthPolicyComparator env current desired =
     (ce_derives env (ch_spec desired) (ch_spec current) \<and>
      ce_derives_labels env (om_labels (ch_meta desired)) (om_labels (ch_meta current)))"

definition GetPodMonitorComparator :: "pod_monitor \<Rightarrow> pod_monitor \<Rightarrow> bool" where
  "GetPodMonitorComparator deployed requested = (ch_spec deployed = ch_spec requested)"

section \<open>Grid configuration\<close>

definition GridServingAnnotation :: string where "GridServingAnnotation = ''grid.opendatahub.io/serving''"
definition GridGatewayNamespacesEnv :: string where "GridGatewayNamespacesEnv = ''GRID_GATEWAY_NAMESPACES''"

definition gridNamespaceAllowed :: "('z) children_env_scheme \<Rightarrow> string \<Rightarrow> bool" where
  "gridNamespaceAllowed env ns =
     (let allowedNamespaces = (case ce_env env GridGatewayNamespacesEnv of
              Some v \<Rightarrow> v
            | None \<Rightarrow> ''openshift-ingress,redhat-ods-applications,opendatahub'')
      in list_ex (\<lambda>n. trim_space n \<noteq> [] \<and> trim_space n = ns) (split_on (CHR '','') allowedNamespaces))"

definition GridConfigFromGateway :: "('z) children_env_scheme \<Rightarrow> gateway \<Rightarrow> api_error + grid_config option" where
  "GridConfigFromGateway env gw =
     (let text = m_str (om_annotations (gw_meta gw)) GridServingAnnotation
      in if text = [] then Inr None
         else if \<not> gridNamespaceAllowed env (gw_namespace gw)
         then Inl (ApiFailure ''Gateway namespace is not allowed by GRID_GATEWAY_NAMESPACES'')
         else (case ce_grid_json env text of
                 Inl e \<Rightarrow> Inl e
               | Inr raw \<Rightarrow>
                   if \<not> list_all (ce_subdomain env) [gv_network raw, gv_namespace raw, gv_account raw, gv_secret raw]
                   then Inl (ApiFailure ''invalid grid.opendatahub.io/serving'')
                   else if \<not> ce_label env (gv_namespace raw)
                   then Inl (ApiFailure ''invalid grid.opendatahub.io/serving namespace'')
                   else (case ce_label_map env (gv_site_labels raw) of
                           None \<Rightarrow> Inl (ApiFailure ''invalid grid.opendatahub.io/serving siteLabels'')
                         | Some labs \<Rightarrow> Inr (Some \<lparr>gf_network = gv_network raw, gf_namespace = gv_namespace raw,
                             gf_account = gv_account raw, gf_secret = gv_secret raw, gf_site_labels = labs,
                             gf_metrics = gv_metrics raw, gf_plaintext = gv_plaintext raw\<rparr>))))"

section \<open>Lemmas\<close>

lemma map_of_managed_labels:
  "map_of (om_labels (ch_meta (withManagedLabels c))) ''app.kubernetes.io/managed-by'' = Some ''odh-model-controller''"
  by (simp add: withManagedLabels_def WithLabels_def m_putall_def)

lemma map_authentication_meta [simp]: "ch_meta (map_authentication f ap) = ch_meta ap"
  by (simp add: map_authentication_def split: option.split)

lemma option_meta [simp]:
  "ch_meta (WithAudiences auds ap) = ch_meta ap"
  "ch_meta (WithObjectiveExpression e ap) = ch_meta ap"
  "ch_meta (WithGridFlowControlHeaders ns sa ap) = ch_meta ap"
  by (simp_all add: WithAudiences_def WithObjectiveExpression_def WithGridFlowControlHeaders_def)

lemma WithLabels_meta:
  "ch_meta (WithLabels labs c) = (ch_meta c)\<lparr>om_labels := m_putall labs (om_labels (ch_meta c))\<rparr>"
  by (simp add: WithLabels_def)

lemma gridOverride_absent: "map_of ovs (fst nh) = None \<Longrightarrow> gridOverride u nh ovs = ovs"
  by (simp add: gridOverride_def)

lemma gridOverride_other: "k \<noteq> fst nh \<Longrightarrow> map_of (gridOverride u nh ovs) k = map_of ovs k"
  by (simp add: gridOverride_def split: option.split)

text \<open>The Kuadrant namespace is the configured one, or that of an installation.\<close>

lemma GetKuadrantNamespace_known:
  "GetKuadrantNamespace env = GetEnvOr env ''KUADRANT_NAMESPACE'' ''kuadrant-system'' \<or>
     (\<exists>items. ce_kuadrants env = Inr items \<and> GetKuadrantNamespace env \<in> fst ` set items)"
proof (cases "ce_kuadrants env")
  case (Inr items)
  have "hd (sort items) \<in> set items" if "items \<noteq> []"
  proof -
    from that have "sort items \<noteq> []" by (metis set_empty set_sort)
    then have "hd (sort items) \<in> set (sort items)" by (rule hd_in_set)
    then show ?thesis by simp
  qed
  with Inr show ?thesis by (cases items) (auto simp: GetKuadrantNamespace_def simp del: sort_key_simps)
qed (simp add: GetKuadrantNamespace_def)

text \<open>The routing header that is put into the policy can never break out of the CEL string it is put into.\<close>

lemma isCELSafeHeaderName_disjoint: "isCELSafeHeaderName env h \<Longrightarrow> set h \<inter> unsafe_chars = {}"
  by (auto simp: isCELSafeHeaderName_def list_ex_iff)

lemma DefaultModelRoutingHeader_disjoint: "set DefaultModelRoutingHeader \<inter> unsafe_chars = {}"
  by (simp add: DefaultModelRoutingHeader_def unsafe_chars_def)

lemma GetModelRoutingHeader_safe: "set (GetModelRoutingHeader env) \<inter> unsafe_chars = {}"
  using isCELSafeHeaderName_disjoint [of env] DefaultModelRoutingHeader_disjoint
  by (simp add: GetModelRoutingHeader_def del: set_map split: sum.split option.split)

end
