(* ===== verification/Gateway_Controller.thy ===== *)
theory Gateway_Controller
  imports Auth_Policy
begin

text \<open>
  The gateway controller (\<open>GatewayReconciler\<close> in
  internal/controller/serving/llm/gateway_controller.go): for a gateway that LLMInferenceServices use, or that asks for
  it by annotation, it keeps an EnvoyFilter, an AuthPolicy and a PodMonitor, and it removes its own when the
  gateway no longer qualifies. An operation on one kind of object returns its writes and its error; \<open>Reconcile\<close>
  runs the three in order. An error wrapped with \<open>%w\<close> is the error it wraps, as
  \<open>IsNotFound\<close> and \<open>IsNoMatchError\<close> see it. The event filters of \<open>SetupWithManager\<close> follow.
\<close>

section \<open>Operations on one kind of object\<close>

text \<open>\<open>err != nil && !IsNotFound(err)\<close>, with \<open>existing\<close> nil for an object that is not there.\<close>

definition existing_of :: "api_error + 'a \<Rightarrow> api_error + 'a option" where
  "existing_of r =
     (case r of
        Inr c \<Rightarrow> Inr (Some c)
      | Inl NotFound \<Rightarrow> Inr None
      | Inl e \<Rightarrow> Inl e)"

definition reconcileEnvoyFilter ::
    "('z) children_env_scheme \<Rightarrow> gateway \<Rightarrow> envoy_filter_spec child_api \<Rightarrow> envoy_filter_spec child_result" where
  "reconcileEnvoyFilter env gw api =
     (if \<not> IsAuthorinoTLSEnabled env (GetKuadrantNamespace env) then ([], None)
      else
        (let envoyFilterName = GetGatewayEnvoyFilterName env (gw_name gw)
         in case existing_of (ca_get api (gw_namespace gw, envoyFilterName)) of
              Inl e \<Rightarrow> ([], Some e)
            | Inr existing \<Rightarrow>
                (case LoadEnvoyFilter env (gw_namespace gw) (gw_name gw) of
                   Inl e \<Rightarrow> ([], Some e)
                 | Inr desired \<Rightarrow>
                     (let delta = ComputeDelta (GetEnvoyFilterComparator env) (Some desired) existing
                      in if \<not> HasChanges delta then ([], None)
                         else if rd_added delta then
                           (case ce_own env (gw_meta gw) (ch_meta desired) of
                              Inl e \<Rightarrow> ([], Some e)
                            | Inr m \<Rightarrow> storeCreate api (desired\<lparr>ch_meta := m\<rparr>))
                         else if rd_updated delta then
                           (case ce_own env (gw_meta gw) (ch_meta desired) of
                              Inl e \<Rightarrow> ([], Some e)
                            | Inr m \<Rightarrow> storeUpdate api (desired\<lparr>ch_meta := m\<rparr>))
                         else ([], None)))))"

definition DefaultObjectiveExpression :: string where
  "DefaultObjectiveExpression = ''auth.identity.user.username.startsWith('' @ [CHR 0x27] @ ''system:serviceaccount:'' @ [CHR 0x27] @
     '') ? auth.identity.user.username.split('' @ [CHR 0x27] @ '':'' @ [CHR 0x27] @ '')[2] : '' @ [CHR 0x27] @ ''authenticated'' @ [CHR 0x27]"

definition objectiveExpression :: "gateway \<Rightarrow> string" where
  "objectiveExpression gw =
     (case map_of (om_annotations (gw_meta gw)) ''inference.opendatahub.io/objective-expression'' of
        None \<Rightarrow> DefaultObjectiveExpression
      | Some e \<Rightarrow> if e \<noteq> [] then e else DefaultObjectiveExpression)"

definition authPolicyOptions :: "('z) children_env_scheme \<Rightarrow> gateway \<Rightarrow> (auth_policy \<Rightarrow> auth_policy) list" where
  "authPolicyOptions env gw =
     [WithLabels [(''app.kubernetes.io/name'', ''llminferenceservice-auth'')],
      WithAudiences (GetAuthAudience env KubernetesAudience),
      WithObjectiveExpression (objectiveExpression gw)] @
     (case GridConfigFromGateway env gw of
        Inr (Some cfg) \<Rightarrow> [WithGridFlowControlHeaders (gf_namespace cfg) (gf_account cfg)]
      | _ \<Rightarrow> [])"

definition authPolicyTarget :: "('z) children_env_scheme \<Rightarrow> gateway \<Rightarrow> auth_policy_target" where
  "authPolicyTarget env gw = \<lparr>at_kind = ''Gateway'', at_name = gw_name gw, at_namespace = gw_namespace gw,
     at_type = UserDefined, at_header = GetModelRoutingHeader env\<rparr>"

text \<open>The error of an invalid Grid configuration is kept until the policy without the exception is written.\<close>

definition gridConfigErr :: "('z) children_env_scheme \<Rightarrow> gateway \<Rightarrow> api_error option" where
  "gridConfigErr env gw = (case GridConfigFromGateway env gw of Inl e \<Rightarrow> Some e | Inr _ \<Rightarrow> None)"

definition reconcileAuthPolicy ::
    "('z) children_env_scheme \<Rightarrow> gateway \<Rightarrow> auth_policy_spec child_api \<Rightarrow> auth_policy_spec child_result" where
  "reconcileAuthPolicy env gw api =
     (let authPolicyName = GetAuthPolicyName env (gw_name gw)
      in case existing_of (ca_get api (gw_namespace gw, authPolicyName)) of
           Inl e \<Rightarrow> ([], Some e)
         | Inr existing \<Rightarrow>
             if (case existing of None \<Rightarrow> False | Some c \<Rightarrow> \<not> IsManagedByOpenDataHub (ch_meta c)) then ([], None)
             else
               (case Load env (authPolicyTarget env gw) (authPolicyOptions env gw) of
                  Inl e \<Rightarrow> ([], Some e)
                | Inr desired \<Rightarrow>
                    (let delta = ComputeDelta (GetAuthPolicyComparator env) (Some desired) existing
                     in if \<not> HasChanges delta then ([], gridConfigErr env gw)
                        else if rd_added delta then
                          (case ce_own env (gw_meta gw) (ch_meta desired) of
                             Inl e \<Rightarrow> ([], Some e)
                           | Inr m \<Rightarrow>
                               (case storeCreate api (desired\<lparr>ch_meta := m\<rparr>) of
                                  (ws, Some e) \<Rightarrow> (ws, Some e)
                                | (ws, None) \<Rightarrow> (ws, gridConfigErr env gw)))
                        else if rd_updated delta then
                          (case ce_own env (gw_meta gw) (ch_meta desired) of
                             Inl e \<Rightarrow> ([], Some e)
                           | Inr m \<Rightarrow>
                               (let merged = (case existing of None \<Rightarrow> m
                                      | Some c \<Rightarrow> MergeUserLabelsAndAnnotations m (ch_meta c))
                                in case storeUpdate api (desired\<lparr>ch_meta := merged\<rparr>) of
                                     (ws, Some e) \<Rightarrow> (ws, Some e)
                                   | (ws, None) \<Rightarrow> (ws, gridConfigErr env gw)))
                        else ([], gridConfigErr env gw))))"

definition reconcileGatewayPodMonitor ::
    "('z) children_env_scheme \<Rightarrow> gateway \<Rightarrow> pod_monitor_spec child_api \<Rightarrow> pod_monitor_spec child_result" where
  "reconcileGatewayPodMonitor env gw api =
     (let podMonitorName = GetGatewayPodMonitorName env (gw_name gw)
      in case existing_of (ca_get api (gw_namespace gw, podMonitorName)) of
           Inl e \<Rightarrow> ([], Some e)
         | Inr existing \<Rightarrow>
             if (case existing of None \<Rightarrow> False | Some c \<Rightarrow> \<not> IsManagedByOpenDataHub (ch_meta c)) then ([], None)
             else
               (let desired = desiredGatewayPodMonitor env gw;
                    delta = ComputeDelta GetPodMonitorComparator (Some desired) existing
                in if \<not> HasChanges delta then ([], None)
                   else if rd_added delta then
                     (case ce_own env (gw_meta gw) (ch_meta desired) of
                        Inl e \<Rightarrow> ([], Some e)
                      | Inr m \<Rightarrow> ([CreateChild (desired\<lparr>ch_meta := m\<rparr>)], ca_create api (desired\<lparr>ch_meta := m\<rparr>)))
                   else if rd_updated delta then
                     (case existing of
                        None \<Rightarrow> ([], None)
                      | Some c \<Rightarrow>
                          (case ce_own env (gw_meta gw) (ch_meta c) of
                             Inl e \<Rightarrow> ([], Some e)
                           | Inr m \<Rightarrow>
                               (let updated = c\<lparr>ch_spec := ch_spec desired, ch_meta := m\<rparr>
                                in ([UpdateChild updated], ca_update api 0 updated))))
                   else ([], None)))"

section \<open>Removal\<close>

definition deleteEnvoyFilterIfManaged ::
    "('z) children_env_scheme \<Rightarrow> gateway \<Rightarrow> envoy_filter_spec child_api \<Rightarrow> envoy_filter_spec child_result" where
  "deleteEnvoyFilterIfManaged env gw api =
     (let key = (gw_namespace gw, GetGatewayEnvoyFilterName env (gw_name gw))
      in case ca_get api key of
           Inl e \<Rightarrow> if e = NotFound then ([], None) else ([], Some e)
         | Inr existing \<Rightarrow>
             if \<not> IsManagedByOpenDataHub (ch_meta existing) then ([], None) else storeRemove api key)"

definition deleteAuthPolicyIfManaged ::
    "('z) children_env_scheme \<Rightarrow> gateway \<Rightarrow> auth_policy_spec child_api \<Rightarrow> auth_policy_spec child_result" where
  "deleteAuthPolicyIfManaged env gw api =
     (let key = (gw_namespace gw, GetAuthPolicyName env (gw_name gw))
      in case ca_get api key of
           Inl e \<Rightarrow> if e = NotFound then ([], None) else ([], Some e)
         | Inr existing \<Rightarrow>
             if \<not> IsManagedByOpenDataHub (ch_meta existing) then ([], None) else storeRemove api key)"

definition deleteGatewayPodMonitorIfManaged ::
    "('z) children_env_scheme \<Rightarrow> gateway \<Rightarrow> pod_monitor_spec child_api \<Rightarrow> pod_monitor_spec child_result" where
  "deleteGatewayPodMonitorIfManaged env gw api =
     (let key = (gw_namespace gw, GetGatewayPodMonitorName env (gw_name gw))
      in case ca_get api key of
           Inl e \<Rightarrow> if e = NotFound then ([], None) else ([], Some e)
         | Inr existing \<Rightarrow>
             if \<not> IsManagedByOpenDataHub (ch_meta existing) then ([], None)
             else ([DeleteChild (child_key existing)], ca_delete api (child_key existing)))"

section \<open>Reconcile\<close>

datatype gateway_write =
    EnvoyFilterWrite "envoy_filter_spec child_write"
  | AuthPolicyWrite "auth_policy_spec child_write"
  | PodMonitorWrite "pod_monitor_spec child_write"

record gateway_apis =
  gx_envoy :: "envoy_filter_spec child_api"
  gx_policy :: "auth_policy_spec child_api"
  gx_monitor :: "pod_monitor_spec child_api"

text \<open>\<open>err != nil && !meta.IsNoMatchError(err)\<close> ends the reconciliation with the error.\<close>

definition then_child :: "'w list \<times> api_error option \<Rightarrow> 'w list \<times> api_error option \<Rightarrow> 'w list \<times> api_error option" where
  "then_child r k =
     (case snd r of
        Some e \<Rightarrow> if e = NoMatch then (fst r @ fst k, snd k) else r
      | None \<Rightarrow> (fst r @ fst k, snd k))"

abbreviation lift_writes :: "('a \<Rightarrow> 'b) \<Rightarrow> 'a list \<times> 'e \<Rightarrow> 'b list \<times> 'e" where
  "lift_writes f r \<equiv> (map f (fst r), snd r)"

definition gatewayInUse :: "bool \<Rightarrow> gateway \<Rightarrow> bool" where
  "gatewayInUse referenced gw = (IsAuthorinoTLSBootstrapEnabled (gw_meta gw) \<or> referenced)"

definition shouldCreateEnvoyFilter :: "bool \<Rightarrow> gateway \<Rightarrow> bool" where
  "shouldCreateEnvoyFilter referenced gw =
     (gatewayInUse referenced gw \<and> ShouldCreateEnvoyFilterForGateway (gw_meta gw))"

definition shouldCreateAuthPolicy :: "bool \<Rightarrow> gateway \<Rightarrow> bool" where
  "shouldCreateAuthPolicy referenced gw =
     (gatewayInUse referenced gw \<and> \<not> IsExplicitlyUnmanaged (gw_meta gw) \<and> \<not> IsOwnedByPlatformController (gw_meta gw))"

definition RhoaiObservabilityLabel :: string where
  "RhoaiObservabilityLabel = ''monitoring.opendatahub.io/scrape''"

definition shouldCreatePodMonitor :: "bool \<Rightarrow> gateway \<Rightarrow> bool" where
  "shouldCreatePodMonitor referenced gw =
     (referenced \<and> m_str (om_labels (gw_meta gw)) RhoaiObservabilityLabel \<noteq> ''false'')"

definition envoyFilterStep :: "('z) children_env_scheme \<Rightarrow> bool \<Rightarrow> gateway \<Rightarrow> envoy_filter_spec child_api \<Rightarrow> envoy_filter_spec child_result" where
  "envoyFilterStep env referenced gw =
     (if shouldCreateEnvoyFilter referenced gw then reconcileEnvoyFilter env gw else deleteEnvoyFilterIfManaged env gw)"

definition authPolicyStep :: "('z) children_env_scheme \<Rightarrow> bool \<Rightarrow> gateway \<Rightarrow> auth_policy_spec child_api \<Rightarrow> auth_policy_spec child_result" where
  "authPolicyStep env referenced gw =
     (if shouldCreateAuthPolicy referenced gw then reconcileAuthPolicy env gw else deleteAuthPolicyIfManaged env gw)"

definition podMonitorStep :: "('z) children_env_scheme \<Rightarrow> bool \<Rightarrow> gateway \<Rightarrow> pod_monitor_spec child_api \<Rightarrow> pod_monitor_spec child_result" where
  "podMonitorStep env referenced gw =
     (if shouldCreatePodMonitor referenced gw then reconcileGatewayPodMonitor env gw
      else deleteGatewayPodMonitorIfManaged env gw)"

definition reconcileChildren :: "('z) children_env_scheme \<Rightarrow> bool \<Rightarrow> gateway \<Rightarrow> gateway_apis \<Rightarrow> gateway_write list \<times> api_error option" where
  "reconcileChildren env referenced gw apis =
     then_child (lift_writes EnvoyFilterWrite (envoyFilterStep env referenced gw (gx_envoy apis)))
       (then_child (lift_writes AuthPolicyWrite (authPolicyStep env referenced gw (gx_policy apis)))
         (then_child (lift_writes PodMonitorWrite (podMonitorStep env referenced gw (gx_monitor apis))) ([], None)))"

definition Reconcile :: "('z) children_env_scheme \<Rightarrow> gateway_apis \<Rightarrow> namespaced_name \<Rightarrow> gateway_write list \<times> api_error option" where
  "Reconcile env apis req =
     (case ge_gateway env (fst req) (snd req) of
        Inl e \<Rightarrow> if e = NotFound then ([], None) else ([], Some e)
      | Inr gw \<Rightarrow>
          if om_deleting (gw_meta gw) then ([], None)
          else (case isGatewayReferencedByLLMService env gw of
                  Inl e \<Rightarrow> ([], Some e)
                | Inr referenced \<Rightarrow> reconcileChildren env referenced gw apis))"

section \<open>Event filters\<close>

definition gatewayCreateFunc :: "gateway \<Rightarrow> bool" where
  "gatewayCreateFunc gw = ShouldCreateEnvoyFilterForGateway (gw_meta gw)"

definition gatewayUpdateFunc :: "gateway \<Rightarrow> gateway \<Rightarrow> bool" where
  "gatewayUpdateFunc old new =
     (let ol = om_labels (gw_meta old); nl = om_labels (gw_meta new);
          oa = om_annotations (gw_meta old); na = om_annotations (gw_meta new)
      in if m_str ol ODHManaged \<noteq> m_str nl ODHManaged then True
         else if m_str oa ODHManaged \<noteq> m_str na ODHManaged then True
         else if m_str oa GridServingAnnotation \<noteq> m_str na GridServingAnnotation then True
         else if m_str oa AuthorinoTLSBootstrapAnnotation \<noteq> m_str na AuthorinoTLSBootstrapAnnotation then True
         else if m_str ol RhoaiObservabilityLabel \<noteq> m_str nl RhoaiObservabilityLabel then True
         else ShouldCreateEnvoyFilterForGateway (gw_meta new))"

section \<open>Guards\<close>

lemma existing_of_simps [simp]:
  "existing_of (Inr c) = Inr (Some c)" "existing_of (Inl NotFound) = Inr None"
  "e \<noteq> NotFound \<Longrightarrow> existing_of (Inl e) = Inl e"
  by (simp_all add: existing_of_def split: api_error.splits)

lemma existing_of_eq:
  "existing_of r = Inr None \<longleftrightarrow> r = Inl NotFound" "existing_of r = Inr (Some c) \<longleftrightarrow> r = Inr c"
  "existing_of r = Inl e \<longleftrightarrow> r = Inl e \<and> e \<noteq> NotFound"
  by (auto simp: existing_of_def split: sum.splits api_error.splits)

interpretation policy_guard: guarded_operation "reconcileAuthPolicy env gw"
    "(gw_namespace gw, GetAuthPolicyName env (gw_name gw))" for env gw
proof (unfold_locales, goal_cases)
  case (1 w api)
  show ?case
  proof (cases "existing_of (ca_get api (gw_namespace gw, GetAuthPolicyName env (gw_name gw)))")
    case (Inl e)
    with 1 show ?thesis by (simp add: reconcileAuthPolicy_def)
  next
    case (Inr existing)
    with 1 show ?thesis by (cases existing) (auto simp: reconcileAuthPolicy_def existing_of_eq split: if_splits)
  qed
qed

interpretation monitor_guard: guarded_operation "reconcileGatewayPodMonitor env gw"
    "(gw_namespace gw, GetGatewayPodMonitorName env (gw_name gw))" for env gw
proof (unfold_locales, goal_cases)
  case (1 w api)
  show ?case
  proof (cases "existing_of (ca_get api (gw_namespace gw, GetGatewayPodMonitorName env (gw_name gw)))")
    case (Inl e)
    with 1 show ?thesis by (simp add: reconcileGatewayPodMonitor_def)
  next
    case (Inr existing)
    with 1 show ?thesis by (cases existing) (auto simp: reconcileGatewayPodMonitor_def existing_of_eq split: if_splits)
  qed
qed

interpretation envoy_removal: guarded_operation "deleteEnvoyFilterIfManaged env gw"
    "(gw_namespace gw, GetGatewayEnvoyFilterName env (gw_name gw))" for env gw
  by unfold_locales (auto simp: deleteEnvoyFilterIfManaged_def split: sum.splits if_splits)

interpretation policy_removal: guarded_operation "deleteAuthPolicyIfManaged env gw"
    "(gw_namespace gw, GetAuthPolicyName env (gw_name gw))" for env gw
  by unfold_locales (auto simp: deleteAuthPolicyIfManaged_def split: sum.splits if_splits)

interpretation monitor_removal: guarded_operation "deleteGatewayPodMonitorIfManaged env gw"
    "(gw_namespace gw, GetGatewayPodMonitorName env (gw_name gw))" for env gw
  by unfold_locales (auto simp: deleteGatewayPodMonitorIfManaged_def split: sum.splits if_splits)

section \<open>Settling\<close>

interpretation envoy_removal: settling_operation "deleteEnvoyFilterIfManaged env gw" for env gw
  by unfold_locales (auto simp: deleteEnvoyFilterIfManaged_def from_option_def split: option.splits if_splits)

interpretation policy_removal: settling_operation "deleteAuthPolicyIfManaged env gw" for env gw
  by unfold_locales (auto simp: deleteAuthPolicyIfManaged_def from_option_def split: option.splits if_splits)

interpretation monitor_removal: settling_operation "deleteGatewayPodMonitorIfManaged env gw" for env gw
  by unfold_locales
    (auto simp: deleteGatewayPodMonitorIfManaged_def from_option_def wf_childrenD split: option.splits if_splits)

text \<open>
  What the controller relies on in the libraries: \<open>SetControllerReference\<close> changes only the owners, and
  \<open>DeepDerivative\<close> holds of equal specs and of label maps one of which has all entries of the other.
\<close>

definition children_laws :: "('z) children_env_scheme \<Rightarrow> bool" where
  "children_laws env =
     ((\<forall>g m m'. ce_own env g m = Inr m' \<longrightarrow> (\<exists>os. m' = m\<lparr>om_owners := os\<rparr>)) \<and>
      (\<forall>s. ce_derives env s s) \<and>
      (\<forall>a b. (\<forall>k v. map_of a k = Some v \<longrightarrow> map_of b k = Some v) \<longrightarrow> ce_derives_labels env a b))"

lemma children_lawsD:
  assumes "children_laws env"
  shows "ce_own env g m = Inr m' \<Longrightarrow> \<exists>os. m' = m\<lparr>om_owners := os\<rparr>"
    and "ce_derives env s s"
    and "(\<And>k v. map_of a k = Some v \<Longrightarrow> map_of b k = Some v) \<Longrightarrow> ce_derives_labels env a b"
  using assms by (auto simp: children_laws_def)

lemma owners_key [simp]: "child_key (c\<lparr>ch_meta := (ch_meta c)\<lparr>om_owners := os\<rparr>\<rparr>) = child_key c"
  by (simp add: child_key_def)

lemma owners_managed [simp]: "IsManagedByOpenDataHub (m\<lparr>om_owners := os\<rparr>) = IsManagedByOpenDataHub m"
  by (simp add: IsManagedByOpenDataHub_def IsExplicitlyUnmanaged_def IsManagedByOdhController_def split: option.split)

lemma LoadEnvoyFilter_key:
  "LoadEnvoyFilter env (gw_namespace gw) (gw_name gw) = Inr d \<Longrightarrow>
   child_key d = (gw_namespace gw, GetGatewayEnvoyFilterName env (gw_name gw))"
  by (auto simp: LoadEnvoyFilter_def renderSSLTemplate_def child_key_def split: sum.splits)

lemma envoy_settles:
  assumes "children_laws env"
  shows "settling_operation (reconcileEnvoyFilter env gw)"
proof (unfold_locales, goal_cases)
  case (1 st ws e)
  let ?key = "(gw_namespace gw, GetGatewayEnvoyFilterName env (gw_name gw))"
  show ?case
  proof (cases "LoadEnvoyFilter env (gw_namespace gw) (gw_name gw)")
    case (Inr d)
    note key = LoadEnvoyFilter_key [OF Inr]
    have same: "GetEnvoyFilterComparator env (d\<lparr>ch_meta := (ch_meta d)\<lparr>om_owners := os\<rparr>\<rparr>) d" for os
      by (simp add: GetEnvoyFilterComparator_def children_lawsD(3) [OF assms])
    show ?thesis
    proof (cases "ce_own env (gw_meta gw) (ch_meta d)")
      case own: (Inr m)
      then obtain os where os: "m = (ch_meta d)\<lparr>om_owners := os\<rparr>" using children_lawsD(1) [OF assms] by blast
      show ?thesis
        using 1(2) Inr own os key same
        by (cases "map_of st ?key") (auto simp: reconcileEnvoyFilter_def split: if_splits)
    qed (use 1(2) Inr in \<open>cases "map_of st ?key"; auto simp: reconcileEnvoyFilter_def split: if_splits\<close>)
  qed (use 1(2) in \<open>cases "map_of st ?key"; auto simp: reconcileEnvoyFilter_def split: if_splits\<close>)
qed

lemma desiredGatewayPodMonitor_meta:
  "child_key (desiredGatewayPodMonitor env gw) = (gw_namespace gw, GetGatewayPodMonitorName env (gw_name gw))"
  "IsManagedByOpenDataHub (ch_meta (desiredGatewayPodMonitor env gw))"
  by (simp_all add: desiredGatewayPodMonitor_def child_key_def IsManagedByOpenDataHub_def IsExplicitlyUnmanaged_def
      IsManagedByOdhController_def ODHManaged_def m_str_def empty_meta_def)

lemma monitor_settles:
  assumes "children_laws env"
  shows "settling_operation (reconcileGatewayPodMonitor env gw)"
proof (unfold_locales, goal_cases)
  case (1 st ws e)
  let ?key = "(gw_namespace gw, GetGatewayPodMonitorName env (gw_name gw))"
  let ?d = "desiredGatewayPodMonitor env gw"
  show ?case
  proof (cases "map_of st ?key")
    case None
    show ?thesis
    proof (cases "ce_own env (gw_meta gw) (ch_meta ?d)")
      case own: (Inr m)
      then obtain os where os: "m = (ch_meta ?d)\<lparr>om_owners := os\<rparr>" using children_lawsD(1) [OF assms] by blast
      show ?thesis using 1(2) None own os
        by (auto simp: reconcileGatewayPodMonitor_def desiredGatewayPodMonitor_meta GetPodMonitorComparator_def)
    qed (use 1(2) None in \<open>auto simp: reconcileGatewayPodMonitor_def\<close>)
  next
    case (Some c)
    then have key: "child_key c = ?key" by (rule wf_childrenD [OF 1(1)])
    show ?thesis
    proof (cases "ce_own env (gw_meta gw) (ch_meta c)")
      case own: (Inr m)
      then obtain os where os: "m = (ch_meta c)\<lparr>om_owners := os\<rparr>" using children_lawsD(1) [OF assms] by blast
      have "child_key (c\<lparr>ch_spec := ch_spec ?d, ch_meta := m\<rparr>) = ?key" using key by (simp add: os child_key_def)
      then show ?thesis using 1(2) Some own os
        by (auto simp: reconcileGatewayPodMonitor_def GetPodMonitorComparator_def split: if_splits)
    qed (use 1(2) Some in \<open>auto simp: reconcileGatewayPodMonitor_def GetPodMonitorComparator_def split: if_splits\<close>)
  qed
qed

lemma policy_options_meta:
  "ch_meta (fold (\<lambda>opt obj. opt obj) (authPolicyOptions env gw) c) =
     (ch_meta c)\<lparr>om_labels := m_put ''app.kubernetes.io/name'' ''llminferenceservice-auth'' (om_labels (ch_meta c))\<rparr>"
  by (simp add: authPolicyOptions_def WithLabels_meta m_putall_def split: sum.split option.split)

lemma Load_policy_meta:
  assumes "Load env (authPolicyTarget env gw) (authPolicyOptions env gw) = Inr d"
  shows "ch_meta d = empty_meta\<lparr>om_name := GetAuthPolicyName env (gw_name gw), om_namespace := gw_namespace gw,
    om_labels := [(''app.kubernetes.io/component'', ''llminferenceservice-policies''),
      (''app.kubernetes.io/part-of'', ''llminferenceservice''),
      (''app.kubernetes.io/managed-by'', ''odh-model-controller''),
      (''app.kubernetes.io/name'', ''llminferenceservice-auth'')]\<rparr>"
  using assms
  by (auto simp: Load_def authPolicyTarget_def policy_options_meta withManagedLabels_def WithLabels_meta m_putall_def
      empty_meta_def GetAuthPolicyName_def split: sum.splits if_splits)

lemma merged_managed:
  assumes "map_of (om_labels m) ODHManaged = None" and "map_of (om_annotations m) ODHManaged = None"
    and "IsManagedByOdhController m" and "IsManagedByOpenDataHub m'"
  shows "IsManagedByOpenDataHub (MergeUserLabelsAndAnnotations m m')"
proof -
  have "\<not> IsExplicitlyUnmanaged (MergeUserLabelsAndAnnotations m m')"
    using assms by (simp add: IsManagedByOpenDataHub_def IsExplicitlyUnmanaged_def MergeUserLabelsAndAnnotations_def
        map_of_addMissing split: if_splits option.splits)
  moreover have "IsManagedByOdhController (MergeUserLabelsAndAnnotations m m')"
    using assms(3) by (auto simp: IsManagedByOdhController_def MergeUserLabelsAndAnnotations_def m_str_def
        map_of_addMissing split: option.splits)
  ultimately show ?thesis by (simp add: IsManagedByOpenDataHub_def)
qed

lemma policy_settles:
  assumes "children_laws env"
  shows "settling_operation (reconcileAuthPolicy env gw)"
proof (unfold_locales, goal_cases)
  case (1 st ws e)
  let ?key = "(gw_namespace gw, GetAuthPolicyName env (gw_name gw))"
  show ?case
  proof (cases "Load env (authPolicyTarget env gw) (authPolicyOptions env gw)")
    case (Inr d)
    note meta = Load_policy_meta [OF Inr]
    show ?thesis
    proof (cases "ce_own env (gw_meta gw) (ch_meta d)")
      case own: (Inr m)
      then obtain os where os: "m = (ch_meta d)\<lparr>om_owners := os\<rparr>" using children_lawsD(1) [OF assms] by blast
      have managed: "IsManagedByOdhController m" "map_of (om_labels m) ODHManaged = None" "map_of (om_annotations m) ODHManaged = None"
        by (simp_all add: os meta IsManagedByOdhController_def ODHManaged_def m_str_def empty_meta_def)
      have m: "IsManagedByOpenDataHub m" using managed by (simp add: IsManagedByOpenDataHub_def IsExplicitlyUnmanaged_def)
      have same: "GetAuthPolicyComparator env (d\<lparr>ch_meta := m\<rparr>) d"
        "GetAuthPolicyComparator env (d\<lparr>ch_meta := MergeUserLabelsAndAnnotations m m'\<rparr>) d" for m'
        by (auto simp: GetAuthPolicyComparator_def children_lawsD(2,3) [OF assms] os MergeUserLabelsAndAnnotations_def
            map_of_addMissing)
      have key: "child_key (d\<lparr>ch_meta := m\<rparr>) = ?key" "child_key (d\<lparr>ch_meta := MergeUserLabelsAndAnnotations m m'\<rparr>) = ?key" for m'
        by (simp_all add: child_key_def os meta MergeUserLabelsAndAnnotations_def)
      show ?thesis
        using 1(2) Inr own m same key merged_managed [OF managed(2,3,1)]
        by (cases "map_of st ?key") (auto simp: reconcileAuthPolicy_def split: if_splits)
    qed (use 1(2) Inr in \<open>cases "map_of st ?key"; auto simp: reconcileAuthPolicy_def split: if_splits\<close>)
  qed (use 1(2) in \<open>cases "map_of st ?key"; auto simp: reconcileAuthPolicy_def split: if_splits\<close>)
qed

text \<open>Each of the three steps of \<open>Reconcile\<close> settles.\<close>

lemma steps_settle:
  assumes "children_laws env"
  shows "settling_operation (envoyFilterStep env r gw)"
    and "settling_operation (authPolicyStep env r gw)"
    and "settling_operation (podMonitorStep env r gw)"
  by (simp_all add: envoyFilterStep_def authPolicyStep_def podMonitorStep_def
      envoy_settles [OF assms] policy_settles [OF assms] monitor_settles [OF assms]
      envoy_removal.settling_operation_axioms policy_removal.settling_operation_axioms
      monitor_removal.settling_operation_axioms)

section \<open>The cluster the controller works on\<close>

record gateway_store =
  gs_envoy :: "envoy_filter_spec child_store"
  gs_policy :: "auth_policy_spec child_store"
  gs_monitor :: "pod_monitor_spec child_store"

definition gateway_store_apis :: "gateway_store \<Rightarrow> gateway_apis" where
  "gateway_store_apis st = \<lparr>gx_envoy = child_store_api (gs_envoy st), gx_policy = child_store_api (gs_policy st),
     gx_monitor = child_store_api (gs_monitor st)\<rparr>"

definition apply_gateway_write :: "gateway_write \<Rightarrow> gateway_store \<Rightarrow> gateway_store" where
  "apply_gateway_write w st =
     (case w of
        EnvoyFilterWrite v \<Rightarrow> st\<lparr>gs_envoy := apply_child_write v (gs_envoy st)\<rparr>
      | AuthPolicyWrite v \<Rightarrow> st\<lparr>gs_policy := apply_child_write v (gs_policy st)\<rparr>
      | PodMonitorWrite v \<Rightarrow> st\<lparr>gs_monitor := apply_child_write v (gs_monitor st)\<rparr>)"

definition wf_gateway_store :: "gateway_store \<Rightarrow> bool" where
  "wf_gateway_store st = (wf_children (gs_envoy st) \<and> wf_children (gs_policy st) \<and> wf_children (gs_monitor st))"

lemma fold_envoy_writes:
  "fold apply_gateway_write (map EnvoyFilterWrite es) st = st\<lparr>gs_envoy := fold apply_child_write es (gs_envoy st)\<rparr>"
  by (induction es arbitrary: st) (simp_all add: apply_gateway_write_def)

lemma fold_policy_writes:
  "fold apply_gateway_write (map AuthPolicyWrite ps) st = st\<lparr>gs_policy := fold apply_child_write ps (gs_policy st)\<rparr>"
  by (induction ps arbitrary: st) (simp_all add: apply_gateway_write_def)

lemma fold_monitor_writes:
  "fold apply_gateway_write (map PodMonitorWrite ms) st = st\<lparr>gs_monitor := fold apply_child_write ms (gs_monitor st)\<rparr>"
  by (induction ms arbitrary: st) (simp_all add: apply_gateway_write_def)

lemmas fold_gateway_writes = fold_envoy_writes fold_policy_writes fold_monitor_writes

definition stops :: "api_error option \<Rightarrow> bool" where
  "stops e = (e \<noteq> None \<and> e \<noteq> Some NoMatch)"

lemma then_child_if: "then_child r k = (if stops (snd r) then r else (fst r @ fst k, snd k))"
  by (simp add: then_child_def stops_def split: option.split)

lemma reconcileChildren_settles:
  assumes laws: "children_laws env" and wf: "wf_gateway_store st"
    and run: "reconcileChildren env r gw (gateway_store_apis st) = (ws, e)"
  shows "reconcileChildren env r gw (gateway_store_apis (fold apply_gateway_write ws st)) = ([], e)"
proof -
  obtain es e1 where es: "envoyFilterStep env r gw (child_store_api (gs_envoy st)) = (es, e1)" by fastforce
  obtain ps e2 where ps: "authPolicyStep env r gw (child_store_api (gs_policy st)) = (ps, e2)" by fastforce
  obtain ms e3 where ms: "podMonitorStep env r gw (child_store_api (gs_monitor st)) = (ms, e3)" by fastforce
  from wf have w: "wf_children (gs_envoy st)" "wf_children (gs_policy st)" "wf_children (gs_monitor st)"
    by (simp_all add: wf_gateway_store_def)
  note again = settling_operation.settles [OF steps_settle(1) [OF laws] w(1) es]
    settling_operation.settles [OF steps_settle(2) [OF laws] w(2) ps]
    settling_operation.settles [OF steps_settle(3) [OF laws] w(3) ms]
  from run have ws: "(ws, e) =
    (if stops e1 then (map EnvoyFilterWrite es, e1)
     else if stops e2 then (map EnvoyFilterWrite es @ map AuthPolicyWrite ps, e2)
     else (map EnvoyFilterWrite es @ map AuthPolicyWrite ps @ map PodMonitorWrite ms, if stops e3 then e3 else None))"
    by (simp add: reconcileChildren_def then_child_if gateway_store_apis_def es ps ms split: if_splits)
  consider "stops e1" | "\<not> stops e1" "stops e2" | "\<not> stops e1" "\<not> stops e2" by blast
  then show ?thesis
    by cases (use ws in \<open>simp_all add: reconcileChildren_def then_child_if gateway_store_apis_def again fold_gateway_writes\<close>)
qed

lemma then_child_writes: "w \<in> set (fst (then_child r k)) \<Longrightarrow> w \<in> set (fst r) \<or> w \<in> set (fst k)"
  by (auto simp: then_child_def split: option.splits if_splits)

lemma reconcileChildren_writes:
  assumes "w \<in> set (fst (reconcileChildren env r gw apis))"
  shows "w \<in> EnvoyFilterWrite ` set (fst (envoyFilterStep env r gw (gx_envoy apis))) \<or>
    w \<in> AuthPolicyWrite ` set (fst (authPolicyStep env r gw (gx_policy apis))) \<or>
    w \<in> PodMonitorWrite ` set (fst (podMonitorStep env r gw (gx_monitor apis)))"
  using assms unfolding reconcileChildren_def by (auto dest!: then_child_writes)

lemma envoy_step_writes:
  assumes retry: "\<And>f. \<exists>n. ca_retry api f = f n" and hit: "v \<in> set (fst (envoyFilterStep env r gw api))"
  shows "case v of
      DeleteChild k \<Rightarrow> \<not> shouldCreateEnvoyFilter r gw \<and> (\<exists>c. ca_get api k = Inr c \<and> IsManagedByOpenDataHub (ch_meta c))
    | _ \<Rightarrow> shouldCreateEnvoyFilter r gw"
proof (cases "shouldCreateEnvoyFilter r gw")
  case True
  obtain n where n: "ca_retry api f = f (n f)" for f using retry by metis
  have "\<not> (\<exists>k. v = DeleteChild k)"
    using hit True n by (auto simp: envoyFilterStep_def reconcileEnvoyFilter_def storeCreate_def storeUpdate_def
        split: if_splits sum.splits)
  with True show ?thesis by (cases v) simp_all
next
  case False
  with hit show ?thesis
    by (auto simp: envoyFilterStep_def deleteEnvoyFilterIfManaged_def storeRemove_def split: if_splits sum.splits)
qed

section \<open>Properties\<close>

text \<open>
  Property C3. What a reconciliation may write: nothing for a gateway that is absent or being deleted; an AuthPolicy
  or PodMonitor only where none exists or the existing one is managed by this controller; an AuthPolicy is created or
  updated only for a gateway in use that is neither marked unmanaged nor owned by the platform; what is deleted is
  managed.
\<close>

theorem Reconcile_respects_owners:
  assumes "w \<in> set (fst (Reconcile env apis req))" and "\<And>f. \<exists>n. ca_retry (gx_envoy apis) f = f n"
  shows "\<exists>gw r. ge_gateway env (fst req) (snd req) = Inr gw \<and> \<not> om_deleting (gw_meta gw) \<and>
    isGatewayReferencedByLLMService env gw = Inr r \<and>
    (case w of
       EnvoyFilterWrite v \<Rightarrow>
         (case v of
            DeleteChild k \<Rightarrow> \<not> shouldCreateEnvoyFilter r gw \<and> (\<exists>c. ca_get (gx_envoy apis) k = Inr c \<and> IsManagedByOpenDataHub (ch_meta c))
          | _ \<Rightarrow> shouldCreateEnvoyFilter r gw)
     | AuthPolicyWrite v \<Rightarrow>
         (case ca_get (gx_policy apis) (gw_namespace gw, GetAuthPolicyName env (gw_name gw)) of
            Inl e \<Rightarrow> e = NotFound | Inr c \<Rightarrow> IsManagedByOpenDataHub (ch_meta c)) \<and>
         (shouldCreateAuthPolicy r gw \<or> v = DeleteChild (gw_namespace gw, GetAuthPolicyName env (gw_name gw)))
     | PodMonitorWrite v \<Rightarrow>
         (case ca_get (gx_monitor apis) (gw_namespace gw, GetGatewayPodMonitorName env (gw_name gw)) of
            Inl e \<Rightarrow> e = NotFound | Inr c \<Rightarrow> IsManagedByOpenDataHub (ch_meta c)) \<and>
         (shouldCreatePodMonitor r gw \<or> (\<exists>k. v = DeleteChild k)))"
proof -
  from assms(1) obtain gw r where gw: "ge_gateway env (fst req) (snd req) = Inr gw" "\<not> om_deleting (gw_meta gw)"
    "isGatewayReferencedByLLMService env gw = Inr r" and w: "w \<in> set (fst (reconcileChildren env r gw apis))"
    by (auto simp: Reconcile_def split: sum.splits if_splits)
  from reconcileChildren_writes [OF w] show ?thesis
  proof (elim disjE imageE)
    fix v assume "w = EnvoyFilterWrite v" "v \<in> set (fst (envoyFilterStep env r gw (gx_envoy apis)))"
    with gw envoy_step_writes [OF assms(2)] show ?thesis by auto
  next
    fix v assume v: "w = AuthPolicyWrite v" "v \<in> set (fst (authPolicyStep env r gw (gx_policy apis)))"
    then have "case ca_get (gx_policy apis) (gw_namespace gw, GetAuthPolicyName env (gw_name gw)) of
        Inl e \<Rightarrow> e = NotFound | Inr c \<Rightarrow> IsManagedByOpenDataHub (ch_meta c)"
      using policy_guard.guard policy_removal.guard by (cases "shouldCreateAuthPolicy r gw") (simp_all add: authPolicyStep_def)
    moreover have "v = DeleteChild (gw_namespace gw, GetAuthPolicyName env (gw_name gw))" if "\<not> shouldCreateAuthPolicy r gw"
      using v(2) that by (auto simp: authPolicyStep_def deleteAuthPolicyIfManaged_def storeRemove_def split: sum.splits if_splits)
    ultimately show ?thesis using gw v(1) by auto
  next
    fix v assume v: "w = PodMonitorWrite v" "v \<in> set (fst (podMonitorStep env r gw (gx_monitor apis)))"
    then have "case ca_get (gx_monitor apis) (gw_namespace gw, GetGatewayPodMonitorName env (gw_name gw)) of
        Inl e \<Rightarrow> e = NotFound | Inr c \<Rightarrow> IsManagedByOpenDataHub (ch_meta c)"
      using monitor_guard.guard monitor_removal.guard by (cases "shouldCreatePodMonitor r gw") (simp_all add: podMonitorStep_def)
    moreover have "\<exists>k. v = DeleteChild k" if "\<not> shouldCreatePodMonitor r gw"
      using v(2) that by (auto simp: podMonitorStep_def deleteGatewayPodMonitorIfManaged_def split: sum.splits if_splits)
    ultimately show ?thesis using gw v(1) by auto
  qed
qed

text \<open>A cluster with the default gateway, and libraries that do the least they promise.\<close>

definition demo_gateway :: gateway where
  "demo_gateway = \<lparr>gw_meta = empty_meta\<lparr>om_name := DefaultGatewayName, om_namespace := DefaultGatewayNamespace\<rparr>,
     gw_listeners = [], gw_conditions = []\<rparr>"

definition has_entries :: "string gomap \<Rightarrow> string gomap \<Rightarrow> bool" where
  "has_entries a b = list_all (\<lambda>(k, _). map_of b k = map_of a k) a"

definition demo_env :: children_env where
  "demo_env = gateway_env.extend ((small_env [] [] [])\<lparr>ge_gateway := (\<lambda>_ _. Inr demo_gateway)\<rparr>)
     \<lparr>ce_child_name = (\<lambda>a b. a @ b),
      ce_own = (\<lambda>g m. Inr (m\<lparr>om_owners := [\<lparr>or_api = [], or_kind = ''Gateway'', or_name = om_name g,
         or_uid = om_uid g, or_controller = Some True\<rparr>]\<rparr>)),
      ce_env = (\<lambda>_. None),
      ce_policy = (\<lambda>_ d. Inr \<lparr>ap_scheme = Some [], ap_rest = td_target d\<rparr>),
      ce_envoy = (\<lambda>d. Inr \<lparr>ef_targets = [\<lparr>et_group = ''gateway.networking.k8s.io'', et_kind = en_kind d, et_name = en_target d\<rparr>],
         ef_patches = [en_kuadrant d], ef_priority = -1, ef_workload = None\<rparr>),
      ce_derives = (=), ce_derives_labels = has_entries, ce_token = (\<lambda>_. True),
      ce_grid_json = (\<lambda>_. Inl (ApiFailure [])), ce_subdomain = (\<lambda>_. True), ce_label = (\<lambda>_. True),
      ce_label_map = (\<lambda>_. None), ce_kuadrants = Inr [], ce_authorinos = (\<lambda>_. Inr []), ce_issuer = Inl NotFound\<rparr>"

lemmas demo_simps = demo_env_def gateway_env.defs small_env_def demo_gateway_def empty_meta_def

lemma demo_laws: "children_laws demo_env"
  by (auto simp: children_laws_def demo_env_def gateway_env.defs has_entries_def list_all_iff) (metis weak_map_of_SomeI)

definition empty_store :: gateway_store where
  "empty_store = \<lparr>gs_envoy = [], gs_policy = [], gs_monitor = []\<rparr>"

lemma demo_referenced: "isGatewayReferencedByLLMService demo_env demo_gateway = Inr True"
  by (simp add: isGatewayReferencedByLLMService_def demo_simps gateway_key_def defaultGateway_def
      GetDefaultGatewayRef_def GetInferenceServiceConfigMap_def)

lemma demo_envoy_run:
  "envoyFilterStep demo_env True demo_gateway (child_store_api []) =
     ([CreateChild \<lparr>ch_meta = empty_meta\<lparr>om_name := ''openshift-ai-inference-authn-ssl'', om_namespace := ''openshift-ingress'',
          om_labels := [(''app.kubernetes.io/name'', ''llminferenceservice-auth''),
            (''app.kubernetes.io/component'', ''llminferenceservice-policies''),
            (''app.kubernetes.io/part-of'', ''llminferenceservice''),
            (''app.kubernetes.io/managed-by'', ''odh-model-controller'')],
          om_owners := [\<lparr>or_api = [], or_kind = ''Gateway'', or_name = ''openshift-ai-inference'', or_uid = [], or_controller = Some True\<rparr>]\<rparr>,
        ch_spec = \<lparr>ef_targets = [\<lparr>et_group = ''gateway.networking.k8s.io'', et_kind = ''Gateway'', et_name = ''openshift-ai-inference''\<rparr>],
          ef_patches = [''kuadrant-system''], ef_priority = -1, ef_workload = None\<rparr>\<rparr>], None)"
  by (simp add: envoyFilterStep_def shouldCreateEnvoyFilter_def gatewayInUse_def ShouldCreateEnvoyFilterForGateway_def
      IsAuthorinoTLSBootstrapEnabled_def IsOwnedByPlatformController_def IsExplicitlyUnmanaged_def reconcileEnvoyFilter_def
      IsAuthorinoTLSEnabled_def GetKuadrantNamespace_def GetEnvOr_def LoadEnvoyFilter_def renderSSLTemplate_def
      GetGatewayEnvoyFilterName_def EnvoyFilterNameSuffix_def demo_simps DefaultGatewayName_def DefaultGatewayNamespace_def)

theorem Reconcile_respects_owners_witness:
  "\<exists>w. w \<in> set (fst (Reconcile demo_env (gateway_store_apis empty_store) (DefaultGatewayNamespace, DefaultGatewayName))) \<and>
     shouldCreateEnvoyFilter True demo_gateway"
proof -
  let ?run = "Reconcile demo_env (gateway_store_apis empty_store) (DefaultGatewayNamespace, DefaultGatewayName)"
  have gw: "ge_gateway demo_env (fst (DefaultGatewayNamespace, DefaultGatewayName)) (snd (DefaultGatewayNamespace, DefaultGatewayName)) = Inr demo_gateway"
    "\<not> om_deleting (gw_meta demo_gateway)"
    by (simp_all add: demo_simps)
  obtain c where "envoyFilterStep demo_env True demo_gateway (child_store_api []) = ([CreateChild c], None)"
    using demo_envoy_run by blast
  with gw demo_referenced have w: "EnvoyFilterWrite (CreateChild c) \<in> set (fst ?run)"
    by (simp add: Reconcile_def reconcileChildren_def then_child_if gateway_store_apis_def empty_store_def stops_def)
  have retry: "\<exists>n. ca_retry (gx_envoy (gateway_store_apis empty_store)) f = f n" for f
    by (auto simp: gateway_store_apis_def)
  from Reconcile_respects_owners [OF w retry] demo_referenced gw w show ?thesis by auto
qed

text \<open>
  Property C28. The controller converges: against a server that answers from a store and accepts all writes, a
  second reconciliation after the writes of the first took effect writes nothing and ends the same way, also when the first
  stopped with an error such as that of an invalid Grid configuration.
\<close>

theorem Reconcile_converges:
  assumes "children_laws env" and "wf_gateway_store st"
    and "Reconcile env (gateway_store_apis st) req = (ws, e)"
  shows "Reconcile env (gateway_store_apis (fold apply_gateway_write ws st)) req = ([], e)"
proof (cases "ge_gateway env (fst req) (snd req)")
  case (Inr gw)
  show ?thesis
  proof (cases "isGatewayReferencedByLLMService env gw")
    case ref: (Inr r)
    show ?thesis
    proof (cases "om_deleting (gw_meta gw)")
      case False
      with assms(3) Inr ref have "reconcileChildren env r gw (gateway_store_apis st) = (ws, e)"
        by (simp add: Reconcile_def)
      from reconcileChildren_settles [OF assms(1,2) this] Inr ref False show ?thesis by (simp add: Reconcile_def)
    qed (use assms(3) Inr in \<open>simp add: Reconcile_def\<close>)
  qed (use assms(3) Inr in \<open>auto simp: Reconcile_def split: if_splits\<close>)
qed (use assms(3) in \<open>auto simp: Reconcile_def split: if_splits\<close>)

theorem Reconcile_converges_witness:
  "let req = (DefaultGatewayNamespace, DefaultGatewayName);
       ws = fst (Reconcile demo_env (gateway_store_apis empty_store) req)
   in ws \<noteq> [] \<and> fst (Reconcile demo_env (gateway_store_apis (fold apply_gateway_write ws empty_store)) req) = []"
proof -
  let ?req = "(DefaultGatewayNamespace, DefaultGatewayName)"
  let ?run = "Reconcile demo_env (gateway_store_apis empty_store) ?req"
  have "wf_gateway_store empty_store" by (simp add: wf_gateway_store_def empty_store_def wf_children_def)
  then have "fst (Reconcile demo_env (gateway_store_apis (fold apply_gateway_write (fst ?run) empty_store)) ?req) = []"
    using Reconcile_converges [OF demo_laws, of empty_store ?req "fst ?run" "snd ?run"] by simp
  moreover have "fst ?run \<noteq> []"
    using demo_referenced demo_envoy_run
    by (simp add: Reconcile_def reconcileChildren_def then_child_if gateway_store_apis_def empty_store_def stops_def demo_simps)
  ultimately show ?thesis by simp
qed

definition user_filter :: envoy_filter where
  "user_filter = \<lparr>ch_meta = empty_meta\<lparr>om_name := ''openshift-ai-inference-authn-ssl'', om_namespace := ''openshift-ingress'',
       om_labels := [(ODHManaged, ''false'')]\<rparr>,
     ch_spec = \<lparr>ef_targets = [], ef_patches = [''mine''], ef_priority = 0, ef_workload = None\<rparr>\<rparr>"

lemma user_filter_run:
  "\<exists>d. envoyFilterStep demo_env True demo_gateway (child_store_api [(child_key user_filter, user_filter)]) =
     ([UpdateChild d], None) \<and> child_key d = child_key user_filter \<and> om_labels (ch_meta d) \<noteq> om_labels (ch_meta user_filter)"
  by (simp add: envoyFilterStep_def shouldCreateEnvoyFilter_def gatewayInUse_def ShouldCreateEnvoyFilterForGateway_def
      IsAuthorinoTLSBootstrapEnabled_def IsOwnedByPlatformController_def IsExplicitlyUnmanaged_def reconcileEnvoyFilter_def
      IsAuthorinoTLSEnabled_def GetKuadrantNamespace_def GetEnvOr_def LoadEnvoyFilter_def renderSSLTemplate_def
      GetGatewayEnvoyFilterName_def EnvoyFilterNameSuffix_def demo_simps DefaultGatewayName_def DefaultGatewayNamespace_def
      user_filter_def child_key_def GetEnvoyFilterComparator_def storeUpdate_def)

text \<open>
  An existing AuthPolicy or PodMonitor that is not managed is left alone; an existing EnvoyFilter is
  not: one that the user marked as unmanaged is replaced, labels and all, by the controller's.
\<close>

theorem foreign_EnvoyFilter_overwritten:
  "\<exists>d. IsExplicitlyUnmanaged (ch_meta user_filter) \<and>
     EnvoyFilterWrite (UpdateChild d) \<in> set (fst (Reconcile demo_env
       (gateway_store_apis (empty_store\<lparr>gs_envoy := [(child_key user_filter, user_filter)]\<rparr>))
       (DefaultGatewayNamespace, DefaultGatewayName))) \<and>
     child_key d = child_key user_filter \<and> om_labels (ch_meta d) \<noteq> om_labels (ch_meta user_filter)"
proof -
  obtain d where d: "envoyFilterStep demo_env True demo_gateway (child_store_api [(child_key user_filter, user_filter)]) =
      ([UpdateChild d], None)" "child_key d = child_key user_filter" "om_labels (ch_meta d) \<noteq> om_labels (ch_meta user_filter)"
    using user_filter_run by blast
  have "IsExplicitlyUnmanaged (ch_meta user_filter)"
    by (simp add: user_filter_def IsExplicitlyUnmanaged_def trim_space_def trim_left_space_def is_space_def equal_fold_def)
  moreover have "ge_gateway demo_env ns n = Inr demo_gateway" "\<not> om_deleting (gw_meta demo_gateway)" for ns n
    by (simp_all add: demo_simps)
  ultimately show ?thesis
    using d demo_referenced
    by (intro exI [of _ d]) (simp add: Reconcile_def reconcileChildren_def then_child_if gateway_store_apis_def empty_store_def stops_def)
qed

end
