(* ===== verification/Gateway_Discovery.thy ===== *)
theory Gateway_Discovery
  imports Gateway_API
begin

text \<open>
  The discovery server (server/): it tells a user which gateway listeners a namespace may use. A request
  passes the bearer-token middleware and the handler; the discoverer reviews the user's access with the user's own token and
  then lists gateways with the server's credentials. The calls to the API server are recorded in order, so
  that a theorem can say which calls are made. The client library, the access review, the list and the
  validators of apimachinery are fields of \<open>discovery_env\<close>.
\<close>

section \<open>Data\<close>

record gateway_info =
  gi_name :: string
  gi_namespace :: string
  gi_listener :: string
  gi_status :: string
  gi_display_name :: string
  gi_description :: string

record review_status =
  rv_evaluation_error :: string
  rv_allowed :: bool

text \<open>The calls to the API server; the token or the server's own account (None) they are made with.\<close>

datatype api_call =
    ReviewAccess string string string string string  \<comment> \<open>token, namespace, verb, group, resource\<close>
  | ListGateways "string gomap"
  | GetNamespace string

record discovery_env =
  de_selector :: selector_semantics
  de_client :: "string \<Rightarrow> api_error option"  \<comment> \<open>the error of \<open>kubernetes.NewForConfig\<close>, if any\<close>
  de_review :: "string \<Rightarrow> string \<Rightarrow> api_error + review_status"
  de_list :: "string gomap \<Rightarrow> api_error + gateway list"
  de_namespace :: "string \<Rightarrow> api_error + string gomap"
  de_label_selector :: "string gomap"
  de_dns_label :: "string \<Rightarrow> bool"

section \<open>Listeners and status\<close>

definition listenerAllowsNamespace ::
    "selector_semantics \<Rightarrow> listener \<Rightarrow> string \<Rightarrow> string \<Rightarrow> string gomap \<Rightarrow> bool" where
  "listenerAllowsNamespace sel l gwNamespace targetNS nsLabels =
     (case ls_allowed l of
        None \<Rightarrow> gwNamespace = targetNS
      | Some routes \<Rightarrow>
          (case ar_namespaces routes of
             None \<Rightarrow> gwNamespace = targetNS
           | Some nss \<Rightarrow>
               (case rn_from nss of
                  None \<Rightarrow> gwNamespace = targetNS
                | Some from \<Rightarrow>
                    if from = ''All'' then True
                    else if from = ''Same'' then gwNamespace = targetNS
                    else if from = ''Selector'' then
                      (case rn_selector nss of
                         None \<Rightarrow> False
                       | Some s \<Rightarrow> (case sel s nsLabels of None \<Rightarrow> False | Some matches \<Rightarrow> matches))
                    else False)))"

fun findCondition :: "condition list \<Rightarrow> string \<Rightarrow> condition option" where
  "findCondition [] condType = None"
| "findCondition (c # cs) condType = (if cd_type c = condType then Some c else findCondition cs condType)"

definition cond_is :: "condition option \<Rightarrow> string \<Rightarrow> bool" where
  "cond_is c s = (case c of None \<Rightarrow> False | Some c \<Rightarrow> cd_status c = s)"

definition ExtractStatus :: "gateway option \<Rightarrow> string" where
  "ExtractStatus g =
     (case g of
        None \<Rightarrow> ''Unknown''
      | Some gw \<Rightarrow>
          (let accepted = findCondition (gw_conditions gw) ''Accepted'';
               programmed = findCondition (gw_conditions gw) ''Programmed''
           in if cond_is accepted ''True'' \<and> cond_is programmed ''True'' then ''Ready''
              else if cond_is accepted ''False'' \<or> cond_is programmed ''False'' then ''NotReady''
              else ''Unknown''))"

definition AnnotationDisplayName :: string where "AnnotationDisplayName = ''openshift.io/display-name''"
definition AnnotationDescription :: string where "AnnotationDescription = ''openshift.io/description''"

definition gatewayInfo :: "gateway \<Rightarrow> listener \<Rightarrow> gateway_info" where
  "gatewayInfo gw l = \<lparr>gi_name = gw_name gw, gi_namespace = gw_namespace gw, gi_listener = ls_name l,
     gi_status = ExtractStatus (Some gw),
     gi_display_name = m_str (om_annotations (gw_meta gw)) AnnotationDisplayName,
     gi_description = m_str (om_annotations (gw_meta gw)) AnnotationDescription\<rparr>"

fun FilterListeners :: "selector_semantics \<Rightarrow> gateway list \<Rightarrow> string \<Rightarrow> string gomap \<Rightarrow> gateway_info list" where
  "FilterListeners sel [] targetNS nsLabels = []"
| "FilterListeners sel (gw # gws) targetNS nsLabels =
     map (gatewayInfo gw)
       (filter (\<lambda>l. listenerAllowsNamespace sel l (gw_namespace gw) targetNS nsLabels) (gw_listeners gw)) @
     FilterListeners sel gws targetNS nsLabels"

definition NeedsNamespaceLabels :: "gateway list \<Rightarrow> bool" where
  "NeedsNamespaceLabels gws =
     list_ex (\<lambda>gw. list_ex (\<lambda>l.
       case ls_allowed l of
         None \<Rightarrow> False
       | Some routes \<Rightarrow>
           (case ar_namespaces routes of
              None \<Rightarrow> False
            | Some nss \<Rightarrow> rn_from nss = Some ''Selector'')) (gw_listeners gw)) gws"

section \<open>The discoverer\<close>

definition CheckAccess :: "discovery_env \<Rightarrow> string \<Rightarrow> string \<Rightarrow> api_call list \<times> (api_error + bool)" where
  "CheckAccess env userToken namespace =
     (case de_client env userToken of
        Some e \<Rightarrow> ([], Inl e)
      | None \<Rightarrow>
          ([ReviewAccess userToken namespace ''create'' ''serving.kserve.io'' ''llminferenceservices''],
           case de_review env userToken namespace of
             Inl e \<Rightarrow> Inl e
           | Inr status \<Rightarrow>
               if rv_evaluation_error status \<noteq> []
               then Inl (ApiFailure (''access review evaluation error: '' @ rv_evaluation_error status))
               else Inr (rv_allowed status)))"

definition listAllGateways :: "discovery_env \<Rightarrow> api_call list \<times> (api_error + gateway list)" where
  "listAllGateways env = ([ListGateways (de_label_selector env)], de_list env (de_label_selector env))"

definition Discover :: "discovery_env \<Rightarrow> string \<Rightarrow> string \<Rightarrow> api_call list \<times> (api_error + gateway_info list)" where
  "Discover env userToken targetNamespace =
     (case CheckAccess env userToken targetNamespace of
        (calls, Inl _) \<Rightarrow> (calls, Inr [])
      | (calls, Inr False) \<Rightarrow> (calls, Inr [])
      | (calls, Inr True) \<Rightarrow>
          (case listAllGateways env of
             (calls', Inl e) \<Rightarrow> (calls @ calls', Inl e)
           | (calls', Inr gateways) \<Rightarrow>
               if NeedsNamespaceLabels gateways then
                 (case de_namespace env targetNamespace of
                    Inl e \<Rightarrow> (calls @ calls' @ [GetNamespace targetNamespace], Inl e)
                  | Inr nsLabels \<Rightarrow> (calls @ calls' @ [GetNamespace targetNamespace],
                      Inr (FilterListeners (de_selector env) gateways targetNamespace nsLabels)))
               else (calls @ calls', Inr (FilterListeners (de_selector env) gateways targetNamespace []))))"

section \<open>HTTP\<close>

text \<open>The parts of a request the handlers read: \<open>rq_token\<close> is the value the middleware puts into the context.\<close>

record http_request =
  hq_method :: string
  hq_authorization :: string
  hq_namespace :: string
  hq_type :: string
  hq_topology :: string
  hq_token :: string

datatype http_body = ErrorBody string | GatewaysBody "gateway_info list" | YamlBody string

record http_response =
  hs_status :: nat
  hs_content_type :: string
  hs_body :: http_body

definition WriteJSONError :: "nat \<Rightarrow> string \<Rightarrow> http_response" where
  "WriteJSONError status msg = \<lparr>hs_status = status, hs_content_type = ''application/json'', hs_body = ErrorBody msg\<rparr>"

definition WriteJSON :: "nat \<Rightarrow> gateway_info list \<Rightarrow> http_response" where
  "WriteJSON status refs = \<lparr>hs_status = status, hs_content_type = ''application/json'', hs_body = GatewaysBody refs\<rparr>"

definition Auth :: "(http_request \<Rightarrow> api_call list \<times> http_response) \<Rightarrow> http_request \<Rightarrow> api_call list \<times> http_response" where
  "Auth next r =
     (if hq_authorization r = [] \<or> \<not> has_prefix ''Bearer '' (hq_authorization r)
      then ([], WriteJSONError 401 ''missing or invalid authorization header'')
      else
        (let token = trim_space (trim_prefix ''Bearer '' (hq_authorization r))
         in if token = [] then ([], WriteJSONError 401 ''missing or invalid authorization header'')
            else next (r\<lparr>hq_token := token\<rparr>)))"

definition ServeGateways :: "discovery_env option \<Rightarrow> http_request \<Rightarrow> api_call list \<times> http_response" where
  "ServeGateways discoverer r =
     (case discoverer of
        None \<Rightarrow> ([], WriteJSONError 500 ''service unavailable'')
      | Some env \<Rightarrow>
          if hq_method r \<noteq> ''GET'' then ([], WriteJSONError 405 ''method not allowed'')
          else if hq_namespace r = [] then ([], WriteJSONError 400 ''missing required query parameter: namespace'')
          else if \<not> de_dns_label env (hq_namespace r) then ([], WriteJSONError 400 ''invalid namespace: must match RFC 1123'')
          else if trim_space (hq_token r) = [] then ([], WriteJSONError 401 ''missing or invalid authorization header'')
          else (case Discover env (hq_token r) (hq_namespace r) of
                  (calls, Inl _) \<Rightarrow> (calls, WriteJSONError 500 ''internal server error'')
                | (calls, Inr refs) \<Rightarrow> (calls, WriteJSON 200 refs)))"

datatype sample_error = NotExist | InvalidPath | ReadFailure

definition ServeSamples :: "(string \<Rightarrow> sample_error + string) \<Rightarrow> http_request \<Rightarrow> http_response" where
  "ServeSamples readFile r =
     (if hq_method r \<noteq> ''GET'' then WriteJSONError 405 ''method not allowed''
      else if hq_type r = [] then WriteJSONError 400 ''missing required query parameter: type''
      else
        (let key = (if hq_type r = ''router'' \<and> has_suffix ''-pd'' (hq_topology r) then ''router-pd'' else hq_type r)
         in case readFile (key @ ''.yaml'') of
              Inl e \<Rightarrow>
                if e = NotExist \<or> e = InvalidPath then WriteJSONError 404 (''no sample found for type: '' @ hq_type r)
                else WriteJSONError 500 ''internal server error''
            | Inr data \<Rightarrow> \<lparr>hs_status = 200, hs_content_type = ''application/yaml'', hs_body = YamlBody data\<rparr>))"

section \<open>Configuration\<close>

datatype config_error = BadNumber | Negative | BadLabel string | BadKey string | BadValue string | EmptySelector

abbreviation atoi :: "string \<Rightarrow> int option" where
  "atoi \<equiv> parse_int 64"  \<comment> \<open>\<open>strconv.Atoi\<close>\<close>

definition parseIntEnv :: "string \<Rightarrow> int \<Rightarrow> config_error + int" where
  "parseIntEnv v defaultValue =
     (if v = [] then Inr defaultValue
      else (case atoi v of
              None \<Rightarrow> Inl BadNumber
            | Some n \<Rightarrow> if n < 0 then Inl Negative else Inr n))"

text \<open>\<open>strings.SplitN(s, sep, 2)\<close> when it returns two parts.\<close>

fun split_first :: "char \<Rightarrow> string \<Rightarrow> (string \<times> string) option" where
  "split_first c [] = None"
| "split_first c (x # xs) =
     (if x = c then Some ([], xs)
      else (case split_first c xs of None \<Rightarrow> None | Some (a, b) \<Rightarrow> Some (x # a, b)))"

text \<open>
  The validators are \<open>validation.IsQualifiedName\<close> and \<open>validation.IsValidLabelValue\<close> of apimachinery
  (no error reported).
\<close>

fun labelPairs :: "(string \<Rightarrow> bool) \<Rightarrow> (string \<Rightarrow> bool) \<Rightarrow> string list \<Rightarrow> string gomap \<Rightarrow> config_error + string gomap" where
  "labelPairs validKey validValue [] labs = Inr labs"
| "labelPairs validKey validValue (p # ps) labs =
     (let pair = trim_space p
      in if pair = [] then labelPairs validKey validValue ps labs
         else (case split_first (CHR ''='') pair of
                 None \<Rightarrow> Inl (BadLabel pair)
               | Some (key, val) \<Rightarrow>
                   if key = [] \<or> val = [] then Inl (BadLabel pair)
                   else if \<not> validKey key then Inl (BadKey key)
                   else if \<not> validValue val then Inl (BadValue val)
                   else labelPairs validKey validValue ps (m_put key val labs)))"

definition parseLabelSelector :: "(string \<Rightarrow> bool) \<Rightarrow> (string \<Rightarrow> bool) \<Rightarrow> string \<Rightarrow> config_error + string gomap" where
  "parseLabelSelector validKey validValue s =
     (case labelPairs validKey validValue (split_on (CHR '','') s) [] of
        Inl e \<Rightarrow> Inl e
      | Inr labs \<Rightarrow> if labs = [] then Inl EmptySelector else Inr labs)"

section \<open>Lemmas\<close>

lemma server_listener_cases:
  "listenerAllowsNamespace sel l gns ns labs =
     (case listener_from l of
        None \<Rightarrow> gns = ns
      | Some f \<Rightarrow> f = ''All'' \<or> f = ''Same'' \<and> gns = ns \<or>
          f = ''Selector'' \<and> (\<exists>s. listener_selector l = Some s \<and> sel s labs = Some True))"
  by (auto simp: listenerAllowsNamespace_def listener_from_def listener_selector_def split: option.splits)

interpretation server_rule: namespace_rule sel "listenerAllowsNamespace sel" for sel
  by unfold_locales (simp_all add: server_listener_cases)

lemma set_FilterListeners:
  "info \<in> set (FilterListeners sel gws ns labs) \<longleftrightarrow>
     (\<exists>gw \<in> set gws. \<exists>l \<in> set (gw_listeners gw). info = gatewayInfo gw l \<and> listenerAllowsNamespace sel l (gw_namespace gw) ns labs)"
  by (induction gws) auto

lemma NeedsNamespaceLabels_iff:
  "NeedsNamespaceLabels gws \<longleftrightarrow> (\<exists>gw \<in> set gws. \<exists>l \<in> set (gw_listeners gw). listener_from l = Some ''Selector'')"
proof -
  have "(case ls_allowed l of None \<Rightarrow> False
     | Some routes \<Rightarrow> (case ar_namespaces routes of None \<Rightarrow> False | Some nss \<Rightarrow> rn_from nss = Some ''Selector''))
     = (listener_from l = Some ''Selector'')" for l
    by (simp add: listener_from_def split: option.split)
  then show ?thesis by (simp add: NeedsNamespaceLabels_def list_ex_iff)
qed

definition namespace_labels :: "discovery_env \<Rightarrow> string \<Rightarrow> string gomap" where
  "namespace_labels env ns = (case de_namespace env ns of Inl _ \<Rightarrow> [] | Inr labs \<Rightarrow> labs)"

lemma FilterListeners_labels:
  assumes "\<not> NeedsNamespaceLabels gws"
  shows "info \<in> set (FilterListeners sel gws ns labs) \<longleftrightarrow> info \<in> set (FilterListeners sel gws ns labs')"
proof -
  have "listenerAllowsNamespace sel l (gw_namespace gw) ns labs = listenerAllowsNamespace sel l (gw_namespace gw) ns labs'"
    if "gw \<in> set gws" "l \<in> set (gw_listeners gw)" for gw l
    by (rule server_rule.labels_irrelevant) (use assms that in \<open>auto simp: NeedsNamespaceLabels_iff\<close>)
  then show ?thesis unfolding set_FilterListeners by blast
qed

lemma CheckAccess_calls:
  "set (fst (CheckAccess env tok ns)) \<subseteq> {ReviewAccess tok ns ''create'' ''serving.kserve.io'' ''llminferenceservices''}"
  by (simp add: CheckAccess_def split: option.split)

lemma Discover_denied:
  "snd (CheckAccess env tok ns) \<noteq> Inr True \<Longrightarrow> Discover env tok ns = (fst (CheckAccess env tok ns), Inr [])"
  by (auto simp: Discover_def split: prod.splits sum.splits bool.splits)

lemma Discover_allowed:
  assumes "snd (CheckAccess env tok ns) = Inr True" and "snd (Discover env tok ns) = Inr refs"
  shows "\<exists>gws. de_list env (de_label_selector env) = Inr gws \<and>
    (\<forall>info. info \<in> set refs \<longleftrightarrow> info \<in> set (FilterListeners (de_selector env) gws ns (namespace_labels env ns)))"
proof -
  obtain calls where c: "CheckAccess env tok ns = (calls, Inr True)" using assms(1) by (cases "CheckAccess env tok ns") simp
  with assms(2) obtain gws where gws: "de_list env (de_label_selector env) = Inr gws"
    by (auto simp: Discover_def listAllGateways_def split: sum.splits)
  show ?thesis
  proof (cases "NeedsNamespaceLabels gws")
    case True
    with c gws assms(2) show ?thesis
      by (auto simp: Discover_def listAllGateways_def namespace_labels_def split: sum.splits)
  next
    case False
    with c gws assms(2) have "refs = FilterListeners (de_selector env) gws ns []"
      by (simp add: Discover_def listAllGateways_def)
    with gws FilterListeners_labels [OF False] show ?thesis by blast
  qed
qed

text \<open>What it takes for access to be granted: the user's own client can be built and the review grants it without an evaluation error.\<close>

definition access_granted :: "discovery_env \<Rightarrow> string \<Rightarrow> string \<Rightarrow> bool" where
  "access_granted env tok ns =
     (de_client env tok = None \<and>
      (case de_review env tok ns of Inl _ \<Rightarrow> False | Inr st \<Rightarrow> rv_evaluation_error st = [] \<and> rv_allowed st))"

lemma CheckAccess_granted: "snd (CheckAccess env tok ns) = Inr True \<longleftrightarrow> access_granted env tok ns"
  by (auto simp: CheckAccess_def access_granted_def split: option.split sum.split)

section \<open>Properties\<close>

text \<open>
  Property C4. A discovery that succeeds reveals exactly what it may: nothing unless the review of the user's
  token said that the user may create LLMInferenceServices in the namespace, and then every listener of a selected
  gateway that admits the namespace under the namespace's labels, and no other. When the namespace is not
  read because no listener selects by label, the answer is the same as if it had been.
\<close>

theorem Discover_reveals:
  assumes "snd (Discover env tok ns) = Inr refs"
  shows "info \<in> set refs \<longleftrightarrow> access_granted env tok ns \<and>
    (\<exists>gws. de_list env (de_label_selector env) = Inr gws \<and>
      (\<exists>gw \<in> set gws. \<exists>l \<in> set (gw_listeners gw). info = gatewayInfo gw l \<and>
         listenerAllowsNamespace (de_selector env) l (gw_namespace gw) ns (namespace_labels env ns)))"
proof (cases "snd (CheckAccess env tok ns) = Inr True")
  case True
  from Discover_allowed [OF this assms] True show ?thesis by (auto simp: set_FilterListeners CheckAccess_granted)
next
  case False
  with assms Discover_denied [OF False] show ?thesis by (simp add: CheckAccess_granted)
qed

definition demo_listener :: listener where
  "demo_listener = \<lparr>ls_name = ''https'', ls_allowed = Some \<lparr>ar_namespaces = Some \<lparr>rn_from = Some ''All'', rn_selector = None\<rparr>\<rparr>\<rparr>"

definition demo_discovery :: "bool \<Rightarrow> discovery_env" where
  "demo_discovery ok = \<lparr>de_selector = (\<lambda>_ _. None), de_client = (\<lambda>_. None),
     de_review = (\<lambda>tok _. Inr \<lparr>rv_evaluation_error = [], rv_allowed = ok\<rparr>),
     de_list = (\<lambda>_. Inr [\<lparr>gw_meta = empty_meta\<lparr>om_name := ''gw'', om_namespace := ''infra''\<rparr>,
       gw_listeners = [demo_listener], gw_conditions = []\<rparr>]),
     de_namespace = (\<lambda>_. Inl NotFound), de_label_selector = [], de_dns_label = (\<lambda>_. True)\<rparr>"

lemma demo_discovery_run:
  "Discover (demo_discovery True) ''tok'' ''apps'' =
     ([ReviewAccess ''tok'' ''apps'' ''create'' ''serving.kserve.io'' ''llminferenceservices'', ListGateways []],
      Inr [\<lparr>gi_name = ''gw'', gi_namespace = ''infra'', gi_listener = ''https'', gi_status = ''Unknown'',
        gi_display_name = [], gi_description = []\<rparr>])"
  by (simp add: Discover_def CheckAccess_def listAllGateways_def demo_discovery_def NeedsNamespaceLabels_def demo_listener_def
      listenerAllowsNamespace_def gatewayInfo_def ExtractStatus_def cond_is_def empty_meta_def m_str_def)

theorem Discover_reveals_witness:
  "\<exists>info. info \<in> set (case snd (Discover (demo_discovery True) ''tok'' ''apps'') of Inr refs \<Rightarrow> refs | Inl _ \<Rightarrow> []) \<and>
     access_granted (demo_discovery True) ''tok'' ''apps''"
proof -
  obtain info where "snd (Discover (demo_discovery True) ''tok'' ''apps'') = Inr [info]"
    using demo_discovery_run by auto
  with Discover_reveals [of "demo_discovery True" "''tok''" "''apps''" "[info]" info] show ?thesis by auto
qed

text \<open>
  Property C9. The endpoint calls the API server only for a GET request with a valid namespace and a
  bearer token that is not blank. The first and only call before access is granted is the review, made with the
  user's token; the calls made with the server's own account follow only after the review granted access.
\<close>

theorem gateways_endpoint_calls:
  assumes "c \<in> set (fst (Auth (ServeGateways d) r))"
  shows "\<exists>env t. d = Some env \<and> hq_method r = ''GET'' \<and> hq_namespace r \<noteq> [] \<and> de_dns_label env (hq_namespace r) \<and>
    hq_authorization r = ''Bearer '' @ t \<and> trim_space t \<noteq> [] \<and>
    (c = ReviewAccess (trim_space t) (hq_namespace r) ''create'' ''serving.kserve.io'' ''llminferenceservices'' \<or>
     access_granted env (trim_space t) (hq_namespace r))"
proof -
  from assms obtain t where t: "hq_authorization r = ''Bearer '' @ t"
    by (auto simp: Auth_def has_prefix_iff split: if_splits)
  then have tok: "trim_prefix ''Bearer '' (hq_authorization r) = t" by (metis trim_prefix_append)
  let ?r = "r\<lparr>hq_token := trim_space t\<rparr>"
  from assms tok have ne: "trim_space t \<noteq> []" and c: "c \<in> set (fst (ServeGateways d ?r))"
    by (auto simp: Auth_def split: if_splits)
  from c obtain env where env: "d = Some env" by (cases d) (auto simp: ServeGateways_def)
  from c env have ok: "hq_method r = ''GET''" "hq_namespace r \<noteq> []" "de_dns_label env (hq_namespace r)"
    and call: "c \<in> set (fst (Discover env (trim_space t) (hq_namespace r)))"
    by (auto simp: ServeGateways_def split: if_splits prod.splits sum.splits)
  have "c = ReviewAccess (trim_space t) (hq_namespace r) ''create'' ''serving.kserve.io'' ''llminferenceservices''"
    if "\<not> access_granted env (trim_space t) (hq_namespace r)"
    using call Discover_denied [OF that [folded CheckAccess_granted]] CheckAccess_calls [of env "trim_space t" "hq_namespace r"] by auto
  with env ok t ne show ?thesis by blast
qed

theorem gateways_endpoint_calls_witness:
  "ListGateways [] \<in> set (fst (Auth (ServeGateways (Some (demo_discovery True)))
     \<lparr>hq_method = ''GET'', hq_authorization = ''Bearer tok'', hq_namespace = ''apps'', hq_type = [], hq_topology = [], hq_token = []\<rparr>)) \<and>
   access_granted (demo_discovery True) ''tok'' ''apps''"
proof -
  let ?r = "\<lparr>hq_method = ''GET'', hq_authorization = ''Bearer tok'', hq_namespace = ''apps'', hq_type = [], hq_topology = [], hq_token = []\<rparr>"
  have "de_dns_label (demo_discovery True) ''apps''" by (simp add: demo_discovery_def)
  then have "ListGateways [] \<in> set (fst (Auth (ServeGateways (Some (demo_discovery True))) ?r))"
    using demo_discovery_run
    by (simp add: Auth_def ServeGateways_def has_prefix_def trim_prefix_def trim_space_def trim_left_space_def is_space_def)
  from gateways_endpoint_calls [OF this] this show ?thesis
    by (auto simp: trim_space_def trim_left_space_def is_space_def)
qed

subsection \<open>Configuration values\<close>

text \<open>
  A number read from the environment is taken exactly when it is within 64 bits and not
  negative, and then it is the number written there.
\<close>

theorem parseIntEnv_bounds:
  "parseIntEnv (dec_int n) d =
     (if n < - (2 ^ 63) \<or> 2 ^ 63 \<le> n then Inl BadNumber else if n < 0 then Inl Negative else Inr n)"
  by (simp add: parseIntEnv_def parse_int_dec_int)

lemma split_first_append: "c \<notin> set a \<Longrightarrow> split_first c (a @ c # b) = Some (a, b)"
  by (induction a) auto

definition label_text :: "string \<times> string \<Rightarrow> string" where
  "label_text kv = fst kv @ ''='' @ snd kv"

text \<open>A label that the validators take and that has none of the characters the parser gives a meaning.\<close>

definition plain_label :: "(string \<Rightarrow> bool) \<Rightarrow> (string \<Rightarrow> bool) \<Rightarrow> string \<times> string \<Rightarrow> bool" where
  "plain_label validKey validValue kv =
     (fst kv \<noteq> [] \<and> snd kv \<noteq> [] \<and> validKey (fst kv) \<and> validValue (snd kv) \<and> CHR ''='' \<notin> set (fst kv) \<and>
      list_all (\<lambda>c. \<not> is_space c \<and> c \<noteq> CHR '','') (fst kv @ snd kv))"

lemma label_text_plain:
  assumes "plain_label vk vv kv"
  shows "trim_space (label_text kv) = label_text kv" "CHR '','' \<notin> set (label_text kv)" "label_text kv \<noteq> []"
    "split_first (CHR ''='') (label_text kv) = Some kv"
proof -
  have "\<forall>c \<in> set (label_text kv). \<not> is_space c \<and> c \<noteq> CHR '',''"
    using assms by (auto simp: plain_label_def label_text_def list_all_iff is_space_def)
  then show "trim_space (label_text kv) = label_text kv" "CHR '','' \<notin> set (label_text kv)"
    by (simp_all add: trim_space_free) blast
  show "label_text kv \<noteq> []" by (simp add: label_text_def)
  show "split_first (CHR ''='') (label_text kv) = Some kv"
    using assms split_first_append [of "CHR ''=''" "fst kv" "snd kv"] by (simp add: plain_label_def label_text_def)
qed

lemma split_on_join:
  "xs \<noteq> [] \<Longrightarrow> \<forall>x \<in> set xs. c \<notin> set x \<Longrightarrow> split_on c (join_with [c] xs) = xs"
  by (induction "[c]" xs rule: join_with.induct) (auto simp: split_on_no_sep split_on_append)

lemma labelPairs_plain:
  "list_all (plain_label vk vv) labs \<Longrightarrow> wf_map (acc @ labs) \<Longrightarrow> labelPairs vk vv (map label_text labs) acc = Inr (acc @ labs)"
proof (induction labs arbitrary: acc)
  case (Cons kv labs)
  obtain k v where kv: "kv = (k, v)" by (cases kv)
  from Cons.prems have plain: "plain_label vk vv kv" and rest: "list_all (plain_label vk vv) labs" by simp_all
  have "m_put k v acc = acc @ [kv]"
  proof -
    from Cons.prems(2) kv have "k \<notin> fst ` set acc" by (auto simp: wf_map_def)
    then show ?thesis unfolding kv by (induction acc) auto
  qed
  moreover from plain have "k \<noteq> []" "v \<noteq> []" "vk k" "vv v" by (simp_all add: plain_label_def kv)
  ultimately show ?case
    using Cons.IH [OF rest, of "acc @ [kv]"] Cons.prems(2) label_text_plain [OF plain]
    by (simp add: kv)
qed simp

text \<open>
  The label selector of the configuration round-trips: a selector written as comma-separated
  \<open>key=value\<close> pairs with distinct keys is read back as the labels it was written from.
\<close>

theorem parseLabelSelector_roundtrip:
  assumes "labs \<noteq> []" and "wf_map labs" and "list_all (plain_label validKey validValue) labs"
  shows "parseLabelSelector validKey validValue (join_with '','' (map label_text labs)) = Inr labs"
proof -
  have "split_on (CHR '','') (join_with '','' (map label_text labs)) = map label_text labs"
    by (rule split_on_join) (use assms label_text_plain(2) in \<open>auto simp: list_all_iff\<close>)
  with labelPairs_plain [OF assms(3), of "[]"] assms(1,2) show ?thesis by (simp add: parseLabelSelector_def)
qed

theorem parseLabelSelector_roundtrip_witness:
  "parseLabelSelector (\<lambda>k. length k < 64) (\<lambda>v. length v < 64) ''env=prod,tier=gold'' = Inr [(''env'', ''prod''), (''tier'', ''gold'')]"
proof -
  let ?labs = "[(''env'', ''prod''), (''tier'', ''gold'')]"
  have "list_all (plain_label (\<lambda>k. length k < 64) (\<lambda>v. length v < 64)) ?labs"
    by (simp add: plain_label_def is_space_def)
  from parseLabelSelector_roundtrip [OF _ _ this] show ?thesis
    by (simp add: wf_map_def label_text_def)
qed

end
