(* ===== verification/Grid_Endpoints.thy ===== *)
theory Grid_Endpoints
  imports Auth_Policy
begin

text \<open>
  Which address of an LLMInferenceService the Grid controller publishes for each gateway
  (\<open>gridAttachedEndpoints\<close>, \<open>gridPreferredAttachment\<close> and \<open>gridAddressModel\<close> in
  internal/controller/serving/llm/grid_controller.go). KServe's address helpers and the URL parser
  are fields of \<open>grid_lib\<close>.
\<close>

section \<open>Data\<close>

record address_url =
  ur_text :: string  \<comment> \<open>what \<open>String()\<close> gives\<close>
  ur_scheme :: string
  ur_user :: bool  \<comment> \<open>user information is present\<close>

record origin =
  og_group :: string
  og_kind :: string
  og_name :: string
  og_namespace :: "string option"

record sourced_address =
  ad_origin :: "origin option"
  ad_url :: "address_url option"
  ad_name :: "string option"
  ad_models :: "string list"

record service_reference =
  sr_group :: string
  sr_kind :: string
  sr_name :: string
  sr_namespace :: "string option"

record router_status =
  rs_gateways :: "(string \<times> string option) list"  \<comment> \<open>name and namespace of the observed gateways\<close>
  rs_group :: bool
  rs_scheduler :: "service_reference option"

record grid_service =
  sg_meta :: object_meta
  sg_model :: "string option"
  sg_has_group :: bool  \<comment> \<open>\<open>Spec.Router.HasGroup()\<close>\<close>
  sg_router :: "router_status option"
  sg_addresses :: "sourced_address list"

abbreviation sg_namespace :: "grid_service \<Rightarrow> string" where "sg_namespace s \<equiv> om_namespace (sg_meta s)"
abbreviation sg_name :: "grid_service \<Rightarrow> string" where "sg_name s \<equiv> om_name (sg_meta s)"

record attachment =
  at_gateway :: namespaced_name
  at_endpoint :: string
  at_model :: string

text \<open>
  \<open>gl_local\<close> is KServe's \<open>IsClusterLocalURL\<close>; \<open>gl_source_models\<close> the models of KServe's \<open>SourcedAddress\<close>
  for a URL and a model name; \<open>gl_path\<close> the path of a parsed URL, None when it does not parse.
\<close>

record grid_lib =
  gl_local :: "address_url \<Rightarrow> bool"
  gl_source_models :: "address_url option \<Rightarrow> string \<Rightarrow> grid_service \<Rightarrow> string list"
  gl_path :: "string \<Rightarrow> string option"

section \<open>Operations\<close>

definition modelName :: "grid_service \<Rightarrow> string" where
  "modelName svc =
     (let model = (case sg_model svc of None \<Rightarrow> sg_name svc | Some m \<Rightarrow> m)
      in if model = [] then sg_name svc else model)"

definition publisherName :: "grid_service \<Rightarrow> string \<Rightarrow> string" where
  "publisherName svc model = ''publishers/'' @ sg_namespace svc @ ''/models/'' @ model"

definition gridAddressModel :: "grid_lib \<Rightarrow> sourced_address \<Rightarrow> grid_service \<Rightarrow> string" where
  "gridAddressModel lib address svc =
     (let model = modelName svc;
          models = (if ad_models address = [] then gl_source_models lib (ad_url address) model svc else ad_models address)
      in case find (\<lambda>name. name \<in> set models) [model, publisherName svc model] of
           None \<Rightarrow> []
         | Some name \<Rightarrow> name)"

definition originNamespace :: "grid_service \<Rightarrow> string option \<Rightarrow> string" where
  "originNamespace svc ns =
     (case ns of None \<Rightarrow> sg_namespace svc | Some n \<Rightarrow> if n = [] then sg_namespace svc else n)"

text \<open>The address as a candidate, or None where the loop continues.\<close>

definition addressCandidate :: "grid_lib \<Rightarrow> grid_service \<Rightarrow> router_status \<Rightarrow> sourced_address \<Rightarrow> attachment option" where
  "addressCandidate lib svc status address =
     (case (ad_origin address, ad_url address) of
        (Some o', Some u) \<Rightarrow>
          (let name = (case ad_name address of None \<Rightarrow> [] | Some n \<Rightarrow> n);
               originNS = originNamespace svc (og_namespace o')
           in if name \<noteq> ''gateway-internal'' \<and> name \<noteq> ''gateway-internal-model-routing'' then None
              else if \<not> gl_local lib u \<or> (ur_scheme u \<noteq> ''http'' \<and> ur_scheme u \<noteq> ''https'') \<or> ur_user u then None
              else if og_kind o' \<noteq> ''Gateway'' \<or> og_group o' \<noteq> ''gateway.networking.k8s.io'' \<or>
                \<not> list_ex (\<lambda>(n, ns). n = og_name o' \<and> originNamespace svc ns = originNS) (rs_gateways status) then None
              else (let model = gridAddressModel lib address svc
                    in if model = [] then None
                       else Some \<lparr>at_gateway = (originNS, og_name o'), at_endpoint = ur_text u, at_model = model\<rparr>))
      | _ \<Rightarrow> None)"

definition trim_slashes_right :: "string \<Rightarrow> string" where
  "trim_slashes_right s = rev (dropWhile (\<lambda>c. c = CHR ''/'') (rev s))"

definition attachmentRank :: "grid_lib \<Rightarrow> grid_service \<Rightarrow> attachment \<Rightarrow> nat" where
  "attachmentRank lib svc candidate =
     (let model = modelName svc;
          fallback = (if at_model candidate = model then 3 else 4)
      in case gl_path lib (at_endpoint candidate) of
           None \<Rightarrow> fallback
         | Some p \<Rightarrow>
             (let path = trim_slashes_right p
              in if path = ''/'' @ publisherName svc model then 0
                 else if path = [] \<and> (sg_has_group svc \<or> (case sg_router svc of None \<Rightarrow> False | Some st \<Rightarrow> rs_group st)) then 1
                 else if at_model candidate = model \<and> path = ''/'' @ sg_namespace svc @ ''/'' @ sg_name svc then 2
                 else fallback))"

text \<open>The order of the comparison function: rank, HTTPS first, endpoint.\<close>

definition attachmentKey :: "grid_lib \<Rightarrow> grid_service \<Rightarrow> attachment \<Rightarrow> nat \<times> bool \<times> string" where
  "attachmentKey lib svc c = (attachmentRank lib svc c, \<not> has_prefix ''https://'' (at_endpoint c), at_endpoint c)"

definition gridPreferredAttachment :: "grid_lib \<Rightarrow> attachment list \<Rightarrow> grid_service \<Rightarrow> attachment" where
  "gridPreferredAttachment lib candidates svc = hd (sort_key (attachmentKey lib svc) candidates)"

definition key_text :: "namespaced_name \<Rightarrow> string" where
  "key_text k = fst k @ ''/'' @ snd k"

definition gridAttachedEndpoints :: "grid_lib \<Rightarrow> grid_service \<Rightarrow> attachment list" where
  "gridAttachedEndpoints lib svc =
     (case sg_router svc of
        None \<Rightarrow> []
      | Some status \<Rightarrow>
          (let candidates = List.map_filter (addressCandidate lib svc status) (sg_addresses svc);
               keys = sort_key key_text (remdups (map at_gateway candidates))
           in map (\<lambda>key. gridPreferredAttachment lib (filter (\<lambda>c. at_gateway c = key) candidates) svc) keys))"

section \<open>Lemmas\<close>

lemma hd_sort_key:
  assumes "xs \<noteq> []"
  shows "hd (sort_key f xs) \<in> set xs" and "x \<in> set xs \<Longrightarrow> f (hd (sort_key f xs)) \<le> f x"
proof -
  have ne: "sort_key f xs \<noteq> []" using assms by (metis set_empty set_sort)
  then show "hd (sort_key f xs) \<in> set xs" by (metis hd_in_set set_sort)
  have "sorted (map f (sort_key f xs))" by simp
  then show "f (hd (sort_key f xs)) \<le> f x" if "x \<in> set xs"
    using ne that by (cases "sort_key f xs") (auto simp: set_sort [of f xs, symmetric] simp del: set_sort)
qed

lemma preferred_in:
  "cs \<noteq> [] \<Longrightarrow> gridPreferredAttachment lib cs svc \<in> set cs"
  by (simp add: gridPreferredAttachment_def hd_sort_key)

lemma preferred_least:
  "c \<in> set cs \<Longrightarrow> attachmentKey lib svc (gridPreferredAttachment lib cs svc) \<le> attachmentKey lib svc c"
  unfolding gridPreferredAttachment_def by (rule hd_sort_key(2)) auto

lemma preferred_gateway:
  assumes "key \<in> set (map at_gateway cs)"
  shows "at_gateway (gridPreferredAttachment lib (filter (\<lambda>c. at_gateway c = key) cs) svc) = key"
proof -
  from assms have "filter (\<lambda>c. at_gateway c = key) cs \<noteq> []" by (auto simp: filter_empty_conv)
  from preferred_in [OF this, of lib svc] show ?thesis by simp
qed

section \<open>Properties\<close>

lemma best_per_gateway:
  fixes cs lib svc
  defines "keys \<equiv> sort_key key_text (remdups (map at_gateway cs))"
    and "pick \<equiv> \<lambda>key. gridPreferredAttachment lib (filter (\<lambda>c. at_gateway c = key) cs) svc"
  shows "map at_gateway (map pick keys) = keys"
    and "b \<in> set (map pick keys) \<Longrightarrow> b \<in> set cs"
    and "b \<in> set (map pick keys) \<Longrightarrow> c \<in> set cs \<Longrightarrow> at_gateway c = at_gateway b \<Longrightarrow>
      attachmentKey lib svc b \<le> attachmentKey lib svc c"
proof -
  have pick: "at_gateway (pick key) = key" if "key \<in> set keys" for key
    using that unfolding pick_def keys_def by (intro preferred_gateway) simp
  then show "map at_gateway (map pick keys) = keys" unfolding map_map comp_def by (rule map_idI)
  show "b \<in> set cs" if "b \<in> set (map pick keys)"
  proof -
    from that obtain key where key: "key \<in> set keys" "b = pick key" unfolding set_map by blast
    then have "filter (\<lambda>c. at_gateway c = key) cs \<noteq> []" by (auto simp: filter_empty_conv keys_def)
    from preferred_in [OF this, of lib svc] key(2) show ?thesis by (simp add: pick_def)
  qed
  show "attachmentKey lib svc b \<le> attachmentKey lib svc c"
    if b: "b \<in> set (map pick keys)" and c: "c \<in> set cs" "at_gateway c = at_gateway b"
  proof -
    from b obtain key where key: "key \<in> set keys" "b = pick key" unfolding set_map by blast
    with c pick [OF key(1)] have "c \<in> set (filter (\<lambda>c. at_gateway c = key) cs)" by simp
    then show ?thesis unfolding key(2) pick_def by (rule preferred_least)
  qed
qed

text \<open>
  What is published of a service: at most one endpoint per gateway; each is an address
  that KServe reported as gateway-internal for a gateway the service is observed on; and among the addresses of a gateway it
  is one of least rank, HTTPS before HTTP. Every gateway with such an address gets an endpoint.
\<close>

theorem gridAttachedEndpoints_spec:
  assumes "sg_router svc = Some status"
  shows "distinct (map at_gateway (gridAttachedEndpoints lib svc)) \<and>
    at_gateway ` set (gridAttachedEndpoints lib svc) =
      {g. \<exists>a \<in> set (sg_addresses svc). \<exists>c. addressCandidate lib svc status a = Some c \<and> at_gateway c = g} \<and>
    (\<forall>b \<in> set (gridAttachedEndpoints lib svc).
       (\<exists>a \<in> set (sg_addresses svc). addressCandidate lib svc status a = Some b) \<and>
       (\<forall>a \<in> set (sg_addresses svc). \<forall>c. addressCandidate lib svc status a = Some c \<longrightarrow> at_gateway c = at_gateway b \<longrightarrow>
          attachmentKey lib svc b \<le> attachmentKey lib svc c))"
proof -
  let ?cs = "List.map_filter (addressCandidate lib svc status) (sg_addresses svc)"
  let ?att = "gridAttachedEndpoints lib svc"
  have att: "?att = map (\<lambda>key. gridPreferredAttachment lib (filter (\<lambda>c. at_gateway c = key) ?cs) svc)
      (sort_key key_text (remdups (map at_gateway ?cs)))"
    by (simp add: gridAttachedEndpoints_def assms)
  note best = best_per_gateway [where lib = lib and cs = ?cs and svc = svc, folded att]
  have in_cs: "c \<in> set ?cs \<longleftrightarrow> (\<exists>a \<in> set (sg_addresses svc). addressCandidate lib svc status a = Some c)" for c
    by (force simp: List.map_filter_def)
  have "at_gateway ` set ?att = at_gateway ` set ?cs"
    unfolding set_map [symmetric] best(1) by simp
  also have "\<dots> = {g. \<exists>a \<in> set (sg_addresses svc). \<exists>c. addressCandidate lib svc status a = Some c \<and> at_gateway c = g}"
    using in_cs by blast
  finally have range: "at_gateway ` set ?att = \<dots>" .
  show ?thesis
  proof (intro conjI ballI allI impI)
    show "distinct (map at_gateway ?att)" unfolding best(1) by simp
    show "at_gateway ` set ?att =
        {g. \<exists>a \<in> set (sg_addresses svc). \<exists>c. addressCandidate lib svc status a = Some c \<and> at_gateway c = g}"
      by (rule range)
    fix b assume b: "b \<in> set ?att"
    show "\<exists>a \<in> set (sg_addresses svc). addressCandidate lib svc status a = Some b" using best(2) [OF b] in_cs by simp
    fix a c assume "a \<in> set (sg_addresses svc)" "addressCandidate lib svc status a = Some c" and gw: "at_gateway c = at_gateway b"
    then have "c \<in> set ?cs" using in_cs by blast
    then show "attachmentKey lib svc b \<le> attachmentKey lib svc c" using gw by (rule best(3) [OF b])
  qed
qed

definition internal_address :: "string \<Rightarrow> sourced_address" where
  "internal_address scheme = \<lparr>ad_origin = Some \<lparr>og_group = ''gateway.networking.k8s.io'', og_kind = ''Gateway'', og_name = ''gw'',
       og_namespace = Some ''infra''\<rparr>,
     ad_url = Some \<lparr>ur_text = scheme @ ''://gw/apps/svc'', ur_scheme = scheme, ur_user = False\<rparr>,
     ad_name = Some ''gateway-internal'', ad_models = [''svc'']\<rparr>"

definition demo_status :: router_status where
  "demo_status = \<lparr>rs_gateways = [(''gw'', Some ''infra'')], rs_group = False, rs_scheduler = None\<rparr>"

definition demo_grid_service :: grid_service where
  "demo_grid_service = \<lparr>sg_meta = empty_meta\<lparr>om_name := ''svc'', om_namespace := ''apps''\<rparr>, sg_model = None, sg_has_group = False,
     sg_router = Some demo_status, sg_addresses = [internal_address ''http'', internal_address ''https'']\<rparr>"

definition demo_grid_lib :: grid_lib where
  "demo_grid_lib = \<lparr>gl_local = (\<lambda>_. True), gl_source_models = (\<lambda>_ _ _. []), gl_path = (\<lambda>_. None)\<rparr>"

theorem gridAttachedEndpoints_spec_witness:
  "\<exists>b \<in> set (gridAttachedEndpoints demo_grid_lib demo_grid_service).
     at_gateway b = (''infra'', ''gw'') \<and> at_endpoint b = ''https://gw/apps/svc''"
proof -
  let ?att = "gridAttachedEndpoints demo_grid_lib demo_grid_service"
  let ?c = "\<lambda>s. \<lparr>at_gateway = (''infra'', ''gw''), at_endpoint = s @ ''://gw/apps/svc'', at_model = ''svc''\<rparr>"
  have cand: "addressCandidate demo_grid_lib demo_grid_service demo_status (internal_address s) =
      (if s = ''http'' \<or> s = ''https'' then Some (?c s) else None)" for s
    by (simp add: addressCandidate_def internal_address_def demo_grid_service_def demo_status_def demo_grid_lib_def
        originNamespace_def gridAddressModel_def modelName_def)
  have router: "sg_router demo_grid_service = Some demo_status" by (simp add: demo_grid_service_def)
  note spec = gridAttachedEndpoints_spec [OF router, of demo_grid_lib]
  have adr: "set (sg_addresses demo_grid_service) = {internal_address ''http'', internal_address ''https''}"
    by (simp add: demo_grid_service_def)
  from spec have "(''infra'', ''gw'') \<in> at_gateway ` set ?att" by (auto simp: adr cand)
  then obtain b where b: "b \<in> set ?att" "at_gateway b = (''infra'', ''gw'')" by auto
  with spec have "b = ?c ''http'' \<or> b = ?c ''https''"
    and "attachmentKey demo_grid_lib demo_grid_service b \<le> attachmentKey demo_grid_lib demo_grid_service (?c ''https'')"
    by (auto simp: adr cand)
  then have "b = ?c ''https''"
    by (auto simp: attachmentKey_def attachmentRank_def demo_grid_lib_def has_prefix_def)
  with b show ?thesis by (intro bexI [of _ b]) simp_all
qed

end
