(* ===== verification/Grid_Metrics.thy ===== *)
theory Grid_Metrics
  imports Prelude
begin

text \<open>
  Who owns the metrics section of a Grid provider (\<open>reconcileGridMetrics\<close> in
  internal/controller/serving/llm/grid_controller.go): the controller writes \<open>spec.metricsConfig\<close> only while it is absent or
  still carries the endpoint the controller recorded in an annotation, and never raises a refusal of
  plaintext. An unstructured object is a map of JSON values; the type assertion to an object fails, with a nil map, on
  every other value.
\<close>

section \<open>Model\<close>

datatype json = JStr string | JBool bool | JObj "json gomap" | JArr "json list" | JOther string

definition as_object :: "json option \<Rightarrow> json gomap option" where
  "as_object v = (case v of Some (JObj m) \<Rightarrow> Some m | _ \<Rightarrow> None)"

definition as_bool :: "json option \<Rightarrow> bool option" where
  "as_bool v = (case v of Some (JBool b) \<Rightarrow> Some b | _ \<Rightarrow> None)"

definition gridMetricsEndpoint :: string where "gridMetricsEndpoint = ''grid.opendatahub.io/metrics-endpoint''"

definition metricsAuth :: "json gomap \<Rightarrow> bool \<Rightarrow> bool \<Rightarrow> json gomap" where
  "metricsAuth current secure allowPlaintext =
     (let auth = (case as_object (map_of current ''auth'') of None \<Rightarrow> [] | Some a \<Rightarrow> a);
          auth = m_put ''type'' (JStr ''serviceAccountToken'') auth
      in case as_bool (map_of auth ''allowPlaintext'') of
           Some False \<Rightarrow> auth
         | _ \<Rightarrow> if \<not> secure \<and> allowPlaintext then m_put ''allowPlaintext'' (JBool True) auth
                else m_del ''allowPlaintext'' auth)"

definition serviceCA :: "string \<Rightarrow> json" where
  "serviceCA caNamespace = JObj [(''caConfigMapRef'', JObj
     [(''name'', JStr ''openshift-service-ca.crt''), (''namespace'', JStr caNamespace), (''key'', JStr ''service-ca.crt'')])]"

definition metricsConfig :: "json gomap \<Rightarrow> string \<Rightarrow> bool \<Rightarrow> bool \<Rightarrow> string \<Rightarrow> json gomap" where
  "metricsConfig current endpoint secure allowPlaintext caNamespace =
     (let auth = metricsAuth current secure allowPlaintext;
          current = (if secure then m_put ''tls'' (serviceCA caNamespace) current else m_del ''tls'' current)
      in m_put ''endpoint'' (JStr endpoint) (m_del ''metricsEndpoint'' (m_put ''auth'' (JObj auth) current)))"

definition ownMetrics :: "json gomap option \<Rightarrow> string gomap \<Rightarrow> bool" where
  "ownMetrics current annotations =
     (case map_of annotations gridMetricsEndpoint of
        None \<Rightarrow> False
      | Some generated \<Rightarrow>
          (case current of
             None \<Rightarrow> False
           | Some o' \<Rightarrow> map_of o' ''endpoint'' = Some (JStr generated) \<or> map_of o' ''metricsEndpoint'' = Some (JStr generated)))"

definition reconcileGridMetrics ::
    "json gomap \<Rightarrow> string gomap \<Rightarrow> string \<Rightarrow> bool \<Rightarrow> bool \<Rightarrow> string \<Rightarrow> json gomap \<times> string gomap" where
  "reconcileGridMetrics spec annotations endpoint secure allowPlaintext caNamespace =
     (let current = as_object (map_of spec ''metricsConfig'');
          recorded = (map_of annotations gridMetricsEndpoint \<noteq> None)
      in if current \<noteq> None \<and> \<not> ownMetrics current annotations
         then (spec, m_del gridMetricsEndpoint annotations)
         else if endpoint = [] then
           (if recorded then (m_del ''metricsConfig'' spec, m_del gridMetricsEndpoint annotations) else (spec, annotations))
         else
           (let cfg = metricsConfig (case current of None \<Rightarrow> [] | Some o' \<Rightarrow> o') endpoint secure allowPlaintext caNamespace
            in (m_put ''metricsConfig'' (JObj cfg) spec, m_put gridMetricsEndpoint endpoint annotations)))"

section \<open>Lemmas\<close>

lemma as_object_simps [simp]:
  "as_object None = None" "as_object (Some (JObj m)) = Some m" "as_object (Some (JStr s)) = None"
  "as_object (Some (JBool b)) = None" "as_object (Some (JOther s)) = None" "as_object (Some (JArr vs)) = None"
  by (simp_all add: as_object_def)

lemma as_bool_simps [simp]:
  "as_bool None = None" "as_bool (Some (JBool b)) = Some b" "as_bool (Some (JObj m)) = None"
  "as_bool (Some (JStr s)) = None" "as_bool (Some (JOther s)) = None" "as_bool (Some (JArr vs)) = None"
  by (simp_all add: as_bool_def)

lemma map_of_metricsConfig:
  "map_of (metricsConfig cur e sec al ns) k =
     (if k = ''endpoint'' then Some (JStr e)
      else if k = ''metricsEndpoint'' then None
      else if k = ''auth'' then Some (JObj (metricsAuth cur sec al))
      else if k = ''tls'' then (if sec then Some (serviceCA ns) else None)
      else map_of cur k)"
  by (simp add: metricsConfig_def)

definition plaintextSetting :: "json gomap \<Rightarrow> json option" where
  "plaintextSetting cur =
     (case as_object (map_of cur ''auth'') of None \<Rightarrow> None | Some a \<Rightarrow> map_of a ''allowPlaintext'')"

lemma metricsAuth_plaintext:
  "map_of (metricsAuth cur sec al) ''allowPlaintext'' =
     (if as_bool (plaintextSetting cur) = Some False then plaintextSetting cur
      else if \<not> sec \<and> al then Some (JBool True) else None)"
  by (auto simp: metricsAuth_def plaintextSetting_def split: option.splits bool.splits)

lemma as_bool_False: "as_bool v = Some False \<longleftrightarrow> v = Some (JBool False)"
  by (simp add: as_bool_def split: option.split json.split)

lemma ownMetrics_self [simp]: "ownMetrics (Some (metricsConfig cur e sec al ns)) (m_put gridMetricsEndpoint e ann)"
  by (simp add: ownMetrics_def map_of_metricsConfig)

lemma metricsAuth_other:
  "k \<noteq> ''allowPlaintext'' \<Longrightarrow> map_of (metricsAuth cur sec al) k =
     (if k = ''type'' then Some (JStr ''serviceAccountToken'')
      else case as_object (map_of cur ''auth'') of None \<Rightarrow> None | Some a \<Rightarrow> map_of a k)"
  by (simp add: metricsAuth_def split: option.split bool.split)

text \<open>No key twice in the section and in its \<open>auth\<close> part.\<close>

definition wf_section :: "json gomap \<Rightarrow> bool" where
  "wf_section cur = (wf_map cur \<and> (case as_object (map_of cur ''auth'') of None \<Rightarrow> True | Some a \<Rightarrow> wf_map a))"

definition wf_spec :: "json gomap \<Rightarrow> bool" where
  "wf_spec spec = (wf_map spec \<and> (case as_object (map_of spec ''metricsConfig'') of None \<Rightarrow> True | Some cur \<Rightarrow> wf_section cur))"

lemma wf_metricsAuth: "wf_section cur \<Longrightarrow> wf_map (metricsAuth cur sec al)"
proof -
  assume "wf_section cur"
  then have wf: "wf_map (case as_object (map_of cur ''auth'') of None \<Rightarrow> [] | Some a \<Rightarrow> a)"
    by (simp add: wf_section_def split: option.splits)
  define a where "a = (case as_object (map_of cur ''auth'') of None \<Rightarrow> [] | Some a \<Rightarrow> a)"
  from wf have "wf_map a" by (simp only: a_def)
  then show ?thesis unfolding metricsAuth_def Let_def a_def [symmetric] by (simp split: option.split bool.split)
qed

lemma wf_metricsConfig: "wf_section cur \<Longrightarrow> wf_section (metricsConfig cur e sec al ns)"
proof -
  assume wf: "wf_section cur"
  then have "wf_map (metricsConfig cur e sec al ns)" by (simp add: wf_section_def metricsConfig_def)
  with wf show ?thesis by (simp add: wf_section_def [of "metricsConfig cur e sec al ns"] map_of_metricsConfig wf_metricsAuth)
qed

text \<open>Writing the section over the section itself changes nothing.\<close>

lemma metricsAuth_again:
  assumes "wf_section cur"
  shows "metricsAuth (metricsConfig cur e sec al ns) sec al = metricsAuth cur sec al"
proof -
  let ?a = "metricsAuth cur sec al"
  have wf: "wf_map ?a" by (rule wf_metricsAuth [OF assms])
  have auth: "as_object (map_of (metricsConfig cur e sec al ns) ''auth'') = Some ?a" by (simp add: map_of_metricsConfig)
  have type: "m_put ''type'' (JStr ''serviceAccountToken'') ?a = ?a"
    by (rule m_put_present [OF wf]) (simp add: metricsAuth_other)
  have "(case as_bool (map_of ?a ''allowPlaintext'') of
        Some False \<Rightarrow> ?a
      | _ \<Rightarrow> if \<not> sec \<and> al then m_put ''allowPlaintext'' (JBool True) ?a else m_del ''allowPlaintext'' ?a) = ?a"
  proof (cases "as_bool (map_of ?a ''allowPlaintext'') = Some False")
    case False
    then have "map_of ?a ''allowPlaintext'' = (if \<not> sec \<and> al then Some (JBool True) else None)"
      using metricsAuth_plaintext [of cur sec al] by (auto split: if_splits)
    then show ?thesis using wf by (auto simp: m_put_present m_del_absent)
  qed simp
  then show ?thesis by (simp only: metricsAuth_def [of "metricsConfig cur e sec al ns"] Let_def auth option.case type)
qed

lemma metricsConfig_again:
  assumes "wf_section cur"
  shows "metricsConfig (metricsConfig cur e sec al ns) e sec al ns = metricsConfig cur e sec al ns"
proof -
  let ?c = "metricsConfig cur e sec al ns"
  have wf: "wf_map ?c" using wf_metricsConfig [OF assms] by (simp add: wf_section_def)
  have tls: "(if sec then m_put ''tls'' (serviceCA ns) ?c else m_del ''tls'' ?c) = ?c"
    using wf by (cases sec) (simp_all add: m_put_present m_del_absent map_of_metricsConfig)
  have "m_put ''auth'' (JObj (metricsAuth cur sec al)) ?c = ?c" "m_del ''metricsEndpoint'' ?c = ?c"
    "m_put ''endpoint'' (JStr e) ?c = ?c"
    using wf by (simp_all add: m_put_present m_del_absent map_of_metricsConfig)
  with tls metricsAuth_again [OF assms] show ?thesis
    by (simp add: metricsConfig_def [of ?c])
qed

section \<open>Properties\<close>

text \<open>
  The metrics section has one owner at a time. Nothing else of the spec and the annotations
  changes. A section the controller did not write is left as it is and its claim on it dropped. Otherwise
  the section is published with the recorded endpoint under one key only, or withdrawn; plaintext is allowed
  only for an endpoint without TLS under a grant, and an explicit refusal stays.
\<close>

theorem reconcileGridMetrics_owner:
  assumes "reconcileGridMetrics spec ann e secure allow ns = (spec', ann')"
  shows "(\<forall>k. k \<noteq> ''metricsConfig'' \<longrightarrow> map_of spec' k = map_of spec k) \<and>
    (\<forall>k. k \<noteq> gridMetricsEndpoint \<longrightarrow> map_of ann' k = map_of ann k) \<and>
    (let cur = as_object (map_of spec ''metricsConfig'')
     in if cur \<noteq> None \<and> \<not> ownMetrics cur ann then spec' = spec \<and> map_of ann' gridMetricsEndpoint = None
        else if e = [] then map_of ann' gridMetricsEndpoint = None \<and> (map_of ann gridMetricsEndpoint \<noteq> None \<longrightarrow> map_of spec' ''metricsConfig'' = None)
        else map_of ann' gridMetricsEndpoint = Some e \<and>
          (\<exists>cfg auth. map_of spec' ''metricsConfig'' = Some (JObj cfg) \<and> map_of cfg ''endpoint'' = Some (JStr e) \<and>
             map_of cfg ''metricsEndpoint'' = None \<and> map_of cfg ''auth'' = Some (JObj auth) \<and>
             (map_of auth ''allowPlaintext'' = Some (JBool True) \<longrightarrow> \<not> secure \<and> allow) \<and>
             (plaintextSetting (case cur of None \<Rightarrow> [] | Some o' \<Rightarrow> o') = Some (JBool False) \<longrightarrow>
                map_of auth ''allowPlaintext'' = Some (JBool False))))"
  using assms
  by (auto simp: reconcileGridMetrics_def map_of_metricsConfig metricsAuth_plaintext as_bool_False split: if_splits)

theorem reconcileGridMetrics_owner_witness:
  "let (spec', ann') = reconcileGridMetrics [] [] ''http://epp:9090'' False True ''grid''
   in map_of ann' gridMetricsEndpoint = Some ''http://epp:9090'' \<and> map_of spec' ''metricsConfig'' \<noteq> None"
proof -
  obtain spec' ann' where run: "reconcileGridMetrics [] [] ''http://epp:9090'' False True ''grid'' = (spec', ann')" by fastforce
  from reconcileGridMetrics_owner [OF run] run show ?thesis by auto
qed

text \<open>
  Publishing the metrics twice is publishing them once, and withdrawing a section the controller
  added restores the spec and the annotations.
\<close>

theorem reconcileGridMetrics_stable:
  assumes "wf_spec spec" and "wf_map ann" and "reconcileGridMetrics spec ann e secure allow ns = (spec', ann')"
  shows "reconcileGridMetrics spec' ann' e secure allow ns = (spec', ann') \<and>
    (map_of spec ''metricsConfig'' = None \<longrightarrow> map_of ann gridMetricsEndpoint = None \<longrightarrow> e \<noteq> [] \<longrightarrow>
       reconcileGridMetrics spec' ann' [] secure allow ns = (spec, ann))"
proof -
  let ?cur = "as_object (map_of spec ''metricsConfig'')"
  let ?o = "case ?cur of None \<Rightarrow> [] | Some o' \<Rightarrow> o'"
  let ?cfg = "metricsConfig ?o e secure allow ns"
  have wf: "wf_section ?o" using assms(1) by (simp add: wf_spec_def wf_section_def split: option.splits)
  have put: "m_put ''metricsConfig'' (JObj ?cfg) (m_put ''metricsConfig'' (JObj ?cfg) spec) = m_put ''metricsConfig'' (JObj ?cfg) spec"
    "m_put gridMetricsEndpoint e (m_put gridMetricsEndpoint e ann) = m_put gridMetricsEndpoint e ann"
    by (rule m_put_idem)+
  have del: "m_del gridMetricsEndpoint (m_del gridMetricsEndpoint ann) = m_del gridMetricsEndpoint ann"
    "m_del ''metricsConfig'' (m_del ''metricsConfig'' spec) = m_del ''metricsConfig'' spec"
    by (rule m_del_absent; simp)+
  have twice: "reconcileGridMetrics spec' ann' e secure allow ns = (spec', ann')"
  proof (cases "?cur \<noteq> None \<and> \<not> ownMetrics ?cur ann")
    case True
    with assms(3) del show ?thesis by (auto simp: reconcileGridMetrics_def ownMetrics_def)
  next
    case False
    show ?thesis
    proof (cases "e = []")
      case True
      with False assms(3) del show ?thesis by (auto simp: reconcileGridMetrics_def split: if_splits)
    next
      case ne: False
      with False assms(3) have s: "spec' = m_put ''metricsConfig'' (JObj ?cfg) spec" "ann' = m_put gridMetricsEndpoint e ann"
        by (auto simp: reconcileGridMetrics_def)
      show ?thesis unfolding s by (simp add: reconcileGridMetrics_def ne metricsConfig_again [OF wf] put)
    qed
  qed
  have "reconcileGridMetrics spec' ann' [] secure allow ns = (spec, ann)"
    if none: "map_of spec ''metricsConfig'' = None" "map_of ann gridMetricsEndpoint = None" "e \<noteq> []"
    using assms(3) none by (auto simp: reconcileGridMetrics_def m_del_put_absent ownMetrics_self [of "[]"])
  with twice show ?thesis by blast
qed

theorem reconcileGridMetrics_stable_witness:
  "case reconcileGridMetrics [(''endpoint'', JStr ''x'')] [] ''https://epp'' True False ''grid'' of (spec', ann') \<Rightarrow>
     reconcileGridMetrics spec' ann' [] True False ''grid'' = ([(''endpoint'', JStr ''x'')], [])"
proof -
  let ?s = "[(''endpoint'', JStr ''x'')]"
  obtain spec' ann' where run: "reconcileGridMetrics ?s [] ''https://epp'' True False ''grid'' = (spec', ann')" by fastforce
  have "wf_spec ?s" by (simp add: wf_spec_def wf_map_def)
  from reconcileGridMetrics_stable [OF this _ run] show ?thesis by (simp add: run)
qed

end
