(* ===== verification/Grid_Cleanup.thy ===== *)
theory Grid_Cleanup
  imports Grid_Endpoints Grid_Metrics
begin

text \<open>
  The objects the Grid controller creates for a service and how it takes them back (\<open>gridOwned\<close>,
  \<open>gridMetadata\<close>, \<open>deleteOwned\<close> and \<open>cleanupExcept\<close> in internal/controller/serving/llm/grid_controller.go). Every call to the
  API server is a function on a state, so that an object can change between two calls; \<open>grid_api\<close> is the record of
  the calls, with the state as its type parameter. The theorems use the API server of a store, in which a deleted
  object with finalizers stays until they are gone, and any call may fail.
\<close>

section \<open>Data\<close>

datatype grid_kind = PolicyKind | BindingKind | RoleKind | ProviderKind

record ingress_policy =
  ip_pods :: "string gomap"
  ip_namespace :: string  \<comment> \<open>the namespace admitted, by its \<open>kubernetes.io/metadata.name\<close> label\<close>
  ip_protocol :: string
  ip_port :: int_or_string

datatype grid_content =
    NoContent
  | RoleRules "policy_rule list"
  | BoundTo string string string  \<comment> \<open>role, service account, namespace of the account\<close>
  | AdmitsIngress ingress_policy
  | ProviderSpec "json gomap"

record grid_object =
  gb_kind :: grid_kind
  gb_meta :: object_meta
  gb_content :: grid_content

record epp_service =
  es_meta :: object_meta
  es_selector :: "string gomap"
  es_ports :: "service_port list"

text \<open>
  The calls to the API server. \<open>gp_create_or_update\<close> is \<open>controllerutil.CreateOrUpdate\<close>; its mutate function
  gets the object and whether it exists already (it has a resource version). \<open>gp_finalizer\<close> is the
  patch that adds or removes the finalizer of the service.
\<close>

record 's grid_api =
  gp_list :: "grid_kind \<Rightarrow> string \<Rightarrow> 's \<Rightarrow> (api_error + grid_object list) \<times> 's"
  gp_get :: "grid_kind \<Rightarrow> namespaced_name \<Rightarrow> 's \<Rightarrow> (api_error + grid_object) \<times> 's"
  gp_delete :: "grid_object \<Rightarrow> 's \<Rightarrow> api_error option \<times> 's"
  gp_create_or_update :: "grid_object \<Rightarrow> (bool \<Rightarrow> grid_object \<Rightarrow> api_error + grid_object) \<Rightarrow> 's \<Rightarrow> api_error option \<times> 's"
  gp_finalizer :: "bool \<Rightarrow> 's \<Rightarrow> api_error option \<times> 's"
  gp_service :: "namespaced_name \<Rightarrow> 's \<Rightarrow> (api_error + epp_service) \<times> 's"

definition gb_key :: "grid_object \<Rightarrow> namespaced_name" where
  "gb_key o' = (om_namespace (gb_meta o'), om_name (gb_meta o'))"

definition gridSourceUID :: string where "gridSourceUID = ''grid.praxis.fast/source-uid''"
definition gridSourceName :: string where "gridSourceName = ''grid.praxis.fast/source-name''"
definition gridSourceNamespace :: string where "gridSourceNamespace = ''grid.praxis.fast/source-namespace''"
definition gridFinalizer :: string where "gridFinalizer = ''grid.praxis.fast/inference-provider''"

section \<open>Ownership\<close>

text \<open>\<open>digest\<close> gives the first six bytes of the SHA-256 of a text in hexadecimal, \<open>child\<close> is \<open>kmeta.ChildName\<close>.\<close>

definition gridResourceName ::
    "(string \<Rightarrow> string) \<Rightarrow> (string \<Rightarrow> string \<Rightarrow> string) \<Rightarrow> grid_service \<Rightarrow> gateway \<Rightarrow> string" where
  "gridResourceName digest child svc gw =
     (let parent = ''grid-'' @ sg_namespace svc @ ''-'' @ map (\<lambda>c. if c = CHR ''.'' then CHR ''-'' else c) (sg_name svc);
          identity = digest (gw_namespace gw @ ''/'' @ gw_name gw @ ''/'' @ om_uid (gw_meta gw))
      in child parent (''-'' @ om_uid (sg_meta svc) @ ''-'' @ identity))"

definition gridMetadata :: "string \<Rightarrow> grid_service \<Rightarrow> gateway \<Rightarrow> object_meta" where
  "gridMetadata name svc gw = empty_meta\<lparr>om_name := name, om_labels := [(ODHManaged, ''true'')],
     om_annotations :=
       [(gridSourceUID, om_uid (sg_meta svc)), (gridSourceName, sg_name svc), (gridSourceNamespace, sg_namespace svc),
        (''grid.opendatahub.io/gateway-name'', gw_name gw), (''grid.opendatahub.io/gateway-namespace'', gw_namespace gw),
        (''grid.opendatahub.io/gateway-uid'', om_uid (gw_meta gw))]\<rparr>"

definition gridOwned :: "object_meta \<Rightarrow> grid_service \<Rightarrow> bool" where
  "gridOwned m svc =
     (m_str (om_annotations m) gridSourceUID = om_uid (sg_meta svc) \<and>
      m_str (om_annotations m) gridSourceName = sg_name svc \<and>
      m_str (om_annotations m) gridSourceNamespace = sg_namespace svc)"

definition deleteOwned :: "'s grid_api \<Rightarrow> grid_service \<Rightarrow> grid_kind \<Rightarrow> namespaced_name \<Rightarrow> 's \<Rightarrow> api_error option \<times> 's" where
  "deleteOwned api svc kind key s =
     (case gp_get api kind key s of
        (Inl e, s) \<Rightarrow> (if e = NotFound then None else Some e, s)
      | (Inr o', s) \<Rightarrow>
          if \<not> gridOwned (gb_meta o') svc then (None, s)
          else (case gp_delete api o' s of
                  (Some e, s) \<Rightarrow> (if e = NotFound then None else Some e, s)
                | (None, s) \<Rightarrow> (None, s)))"

section \<open>Cleanup\<close>

definition stale :: "grid_service \<Rightarrow> string list \<Rightarrow> grid_object \<Rightarrow> bool" where
  "stale svc keep o' = (gridOwned (gb_meta o') svc \<and> om_name (gb_meta o') \<notin> set keep)"

definition absent :: "api_error \<Rightarrow> bool" where
  "absent e = (e = NotFound \<or> e = NoMatch)"

text \<open>The objects to delete, in the order of the code: policies, bindings, roles, providers.\<close>

definition staleObjects :: "'s grid_api \<Rightarrow> grid_service \<Rightarrow> string list \<Rightarrow> 's \<Rightarrow> (api_error + grid_object list) \<times> 's" where
  "staleObjects api svc keep s =
     (case gp_list api RoleKind (sg_namespace svc) s of
        (Inl e, s) \<Rightarrow> (Inl e, s)
      | (Inr roles, s) \<Rightarrow>
          (case gp_list api BindingKind (sg_namespace svc) s of
             (Inl e, s) \<Rightarrow> (Inl e, s)
           | (Inr bindings, s) \<Rightarrow>
               (case gp_list api PolicyKind (sg_namespace svc) s of
                  (Inl e, s) \<Rightarrow> (Inl e, s)
                | (Inr policies, s) \<Rightarrow>
                    (let objects = filter (stale svc keep) policies @ filter (stale svc keep) bindings @ filter (stale svc keep) roles
                     in case gp_list api ProviderKind [] s of
                          (Inl e, s) \<Rightarrow> if absent e then (Inr objects, s) else (Inl e, s)
                        | (Inr providers, s) \<Rightarrow> (Inr (objects @ filter (stale svc keep) providers), s)))))"

fun deleteLoop :: "'s grid_api \<Rightarrow> grid_service \<Rightarrow> grid_object list \<Rightarrow> 's \<Rightarrow> api_error list \<times> 's" where
  "deleteLoop api svc [] s = ([], s)"
| "deleteLoop api svc (o' # os) s =
     (case gp_get api (gb_kind o') (gb_key o') s of
        (Inl e, s) \<Rightarrow>
          (case deleteLoop api svc os s of (errs, s) \<Rightarrow> (if absent e then errs else e # errs, s))
      | (Inr cur, s) \<Rightarrow>
          if \<not> gridOwned (gb_meta cur) svc then
            (case deleteLoop api svc os s of
               (errs, s) \<Rightarrow> (ApiFailure (''refusing to delete unmanaged Grid resource '' @ om_name (gb_meta cur)) # errs, s))
          else
            (case gp_delete api cur s of
               (r, s) \<Rightarrow>
                 (case deleteLoop api svc os s of
                    (errs, s) \<Rightarrow> (case r of None \<Rightarrow> errs | Some e \<Rightarrow> if e = NotFound then errs else e # errs, s))))"

fun confirmLoop :: "'s grid_api \<Rightarrow> grid_object list \<Rightarrow> bool \<Rightarrow> 's \<Rightarrow> (api_error + bool) \<times> 's" where
  "confirmLoop api [] complete s = (Inr complete, s)"
| "confirmLoop api (o' # os) complete s =
     (case gp_get api (gb_kind o') (gb_key o') s of
        (Inl e, s) \<Rightarrow> if absent e then confirmLoop api os complete s else (Inl e, s)
      | (Inr _, s) \<Rightarrow> confirmLoop api os False s)"

definition cleanupExcept :: "'s grid_api \<Rightarrow> grid_service \<Rightarrow> string list \<Rightarrow> 's \<Rightarrow> (api_error list + bool) \<times> 's" where
  "cleanupExcept api svc keep s =
     (case staleObjects api svc keep s of
        (Inl e, s) \<Rightarrow> (Inl [e], s)
      | (Inr objects, s) \<Rightarrow>
          (case deleteLoop api svc objects s of
             (errs, s) \<Rightarrow>
               if errs \<noteq> [] then (Inl errs, s)
               else (case confirmLoop api objects True s of
                       (Inl e, s) \<Rightarrow> (Inl [e], s)
                     | (Inr complete, s) \<Rightarrow> (Inr complete, s))))"

section \<open>The API server of a store\<close>

text \<open>
  Objects are found by kind, namespace and name; a provider has no namespace, and without its CRD calls about
  providers answer \<open>NoMatch\<close>. \<open>fault n\<close> is the failure of the n-th call, if it fails.
\<close>

record grid_store =
  st_objects :: "grid_object list"
  st_services :: "(namespaced_name \<times> epp_service) list"
  st_crd :: bool
  st_finalizer :: bool
  st_clock :: nat

definition is_object :: "grid_kind \<Rightarrow> namespaced_name \<Rightarrow> grid_object \<Rightarrow> bool" where
  "is_object kind key o' = (gb_kind o' = kind \<and> gb_key o' = key)"

definition call :: "(nat \<Rightarrow> api_error option) \<Rightarrow> (api_error \<Rightarrow> 'r) \<Rightarrow> (grid_store \<Rightarrow> 'r \<times> grid_store) \<Rightarrow> grid_store \<Rightarrow> 'r \<times> grid_store" where
  "call fault failed run s =
     (let s' = s\<lparr>st_clock := Suc (st_clock s)\<rparr>
      in case fault (st_clock s) of Some e \<Rightarrow> (failed e, s') | None \<Rightarrow> run s')"

definition store_delete :: "grid_object \<Rightarrow> grid_store \<Rightarrow> api_error option \<times> grid_store" where
  "store_delete o' s =
     (case find (is_object (gb_kind o') (gb_key o')) (st_objects s) of
        None \<Rightarrow> (Some NotFound, s)
      | Some cur \<Rightarrow>
          if om_uid (gb_meta cur) \<noteq> om_uid (gb_meta o') then (Some Conflict, s)
          else if om_finalizers (gb_meta cur) = []
          then (None, s\<lparr>st_objects := filter (\<lambda>x. \<not> is_object (gb_kind o') (gb_key o') x) (st_objects s)\<rparr>)
          else (None, s\<lparr>st_objects := map (\<lambda>x. if is_object (gb_kind o') (gb_key o') x
                  then x\<lparr>gb_meta := (gb_meta x)\<lparr>om_deleting := True\<rparr>\<rparr> else x) (st_objects s)\<rparr>))"

definition store_create_or_update ::
    "grid_object \<Rightarrow> (bool \<Rightarrow> grid_object \<Rightarrow> api_error + grid_object) \<Rightarrow> grid_store \<Rightarrow> api_error option \<times> grid_store" where
  "store_create_or_update o' mutate s =
     (case find (is_object (gb_kind o') (gb_key o')) (st_objects s) of
        None \<Rightarrow>
          (case mutate False o' of
             Inl e \<Rightarrow> (Some e, s)
           | Inr new \<Rightarrow> (None, s\<lparr>st_objects := new # st_objects s\<rparr>))
      | Some cur \<Rightarrow>
          (case mutate True cur of
             Inl e \<Rightarrow> (Some e, s)
           | Inr new \<Rightarrow> (None, s\<lparr>st_objects := map (\<lambda>x. if is_object (gb_kind o') (gb_key o') x then new else x) (st_objects s)\<rparr>)))"

definition grid_store_api :: "(nat \<Rightarrow> api_error option) \<Rightarrow> grid_store grid_api" where
  "grid_store_api fault = \<lparr>
     gp_list = (\<lambda>kind ns. call fault Inl (\<lambda>s.
       if kind = ProviderKind \<and> \<not> st_crd s then (Inl NoMatch, s)
       else (Inr (filter (\<lambda>x. gb_kind x = kind \<and> om_namespace (gb_meta x) = ns) (st_objects s)), s))),
     gp_get = (\<lambda>kind key. call fault Inl (\<lambda>s.
       if kind = ProviderKind \<and> \<not> st_crd s then (Inl NoMatch, s)
       else (from_option (find (is_object kind key) (st_objects s)), s))),
     gp_delete = (\<lambda>o'. call fault Some (store_delete o')),
     gp_create_or_update = (\<lambda>o' mutate. call fault Some (\<lambda>s.
       if gb_kind o' = ProviderKind \<and> \<not> st_crd s then (Some NoMatch, s) else store_create_or_update o' mutate s)),
     gp_finalizer = (\<lambda>add. call fault Some (\<lambda>s. (None, s\<lparr>st_finalizer := add\<rparr>))),
     gp_service = (\<lambda>key. call fault Inl (\<lambda>s. (from_option (map_of (st_services s) key), s)))\<rparr>"

text \<open>One object per kind and key, no providers without their CRD, and providers have no namespace.\<close>

definition wf_grid_store :: "grid_store \<Rightarrow> bool" where
  "wf_grid_store s =
     (distinct (map (\<lambda>x. (gb_kind x, gb_key x)) (st_objects s)) \<and>
      (\<forall>x \<in> set (st_objects s). gb_kind x = ProviderKind \<longrightarrow> st_crd s \<and> om_namespace (gb_meta x) = []))"

text \<open>A failed call does not pretend that the object is absent.\<close>

definition honest :: "(nat \<Rightarrow> api_error option) \<Rightarrow> bool" where
  "honest fault = (\<forall>n e. fault n = Some e \<longrightarrow> \<not> absent e)"

section \<open>Lemmas\<close>

text \<open>The same object, except that it may have been marked as being deleted since.\<close>

definition descends :: "grid_object \<Rightarrow> grid_object \<Rightarrow> bool" where
  "descends x y = (gb_kind y = gb_kind x \<and> (\<exists>d. gb_meta y = (gb_meta x)\<lparr>om_deleting := d\<rparr>) \<and> gb_content y = gb_content x)"

lemma descends_refl [simp]: "descends x x"
  by (auto simp: descends_def intro: exI [of _ "om_deleting (gb_meta x)"])

lemma descends_trans: "descends x y \<Longrightarrow> descends y z \<Longrightarrow> descends x z"
  by (auto simp: descends_def)

lemma descends_key: "descends x y \<Longrightarrow> gb_key y = gb_key x"
  by (auto simp: descends_def gb_key_def)

lemma descends_stale: "descends x y \<Longrightarrow> stale svc keep y = stale svc keep x"
  by (auto simp: descends_def stale_def gridOwned_def)

lemma find_object: "find (is_object k key) xs = Some x \<Longrightarrow> x \<in> set xs \<and> gb_kind x = k \<and> gb_key x = key"
  by (auto simp: find_Some_iff is_object_def)

lemma find_object_None: "find (is_object k key) xs = None \<longleftrightarrow> (\<forall>x \<in> set xs. \<not> is_object k key x)"
  by (auto simp: find_None_iff)

lemma unique_object:
  "wf_grid_store s \<Longrightarrow> x \<in> set (st_objects s) \<Longrightarrow> y \<in> set (st_objects s) \<Longrightarrow> gb_kind x = gb_kind y \<Longrightarrow> gb_key x = gb_key y \<Longrightarrow> x = y"
  by (auto simp: wf_grid_store_def distinct_map inj_on_def)

lemma store_delete_objects:
  assumes "store_delete c s = (r, s')"
  shows "(\<forall>y \<in> set (st_objects s'). \<exists>x \<in> set (st_objects s). descends x y) \<and>
    (\<forall>x \<in> set (st_objects s). \<not> is_object (gb_kind c) (gb_key c) x \<longrightarrow> x \<in> set (st_objects s')) \<and>
    st_crd s' = st_crd s \<and> st_finalizer s' = st_finalizer s"
proof -
  let ?p = "is_object (gb_kind c) (gb_key c)"
  have mark: "descends x (if ?p x then x\<lparr>gb_meta := (gb_meta x)\<lparr>om_deleting := True\<rparr>\<rparr> else x)" for x
    by (cases "?p x") (auto simp: descends_def [of x "x\<lparr>gb_meta := (gb_meta x)\<lparr>om_deleting := True\<rparr>\<rparr>"])
  from assms consider "s' = s" | "s' = s\<lparr>st_objects := filter (\<lambda>x. \<not> ?p x) (st_objects s)\<rparr>"
    | "s' = s\<lparr>st_objects := map (\<lambda>x. if ?p x then x\<lparr>gb_meta := (gb_meta x)\<lparr>om_deleting := True\<rparr>\<rparr> else x) (st_objects s)\<rparr>"
    by (auto simp: store_delete_def split: option.splits if_splits)
  then show ?thesis
  proof cases
    case 3
    have "\<exists>x \<in> set (st_objects s). descends x y" if "y \<in> set (st_objects s')" for y
    proof -
      from that obtain x where x: "x \<in> set (st_objects s)"
        "y = (if ?p x then x\<lparr>gb_meta := (gb_meta x)\<lparr>om_deleting := True\<rparr>\<rparr> else x)"
        unfolding 3 by (auto simp del: if_split)
      show ?thesis using x(1) mark [of x] unfolding x(2) by (rule bexI [rotated])
    qed
    moreover have "x \<in> set (st_objects s')" if "x \<in> set (st_objects s)" "\<not> ?p x" for x
      using that unfolding 3 by force
    ultimately show ?thesis by (simp add: 3)
  qed (auto intro: descends_refl)
qed

lemma store_delete_wf:
  assumes "store_delete c s = (r, s')" and "wf_grid_store s"
  shows "wf_grid_store s'"
proof -
  let ?p = "is_object (gb_kind c) (gb_key c)"
  let ?mark = "\<lambda>x. if ?p x then x\<lparr>gb_meta := (gb_meta x)\<lparr>om_deleting := True\<rparr>\<rparr> else x"
  have keys: "(\<lambda>x. (gb_kind x, gb_key x)) \<circ> ?mark = (\<lambda>x. (gb_kind x, gb_key x))"
    by (auto simp: fun_eq_iff gb_key_def)
  from assms(1) consider "s' = s" | "s' = s\<lparr>st_objects := filter (\<lambda>x. \<not> ?p x) (st_objects s)\<rparr>"
    | "s' = s\<lparr>st_objects := map ?mark (st_objects s)\<rparr>"
    by (auto simp: store_delete_def split: option.splits if_splits)
  then show ?thesis
  proof cases
    case 1
    with assms(2) show ?thesis by simp
  next
    case 2
    with assms(2) show ?thesis by (auto simp: wf_grid_store_def distinct_map_filter)
  next
    case 3
    with assms(2) keys show ?thesis by (auto simp: wf_grid_store_def)
  qed
qed

text \<open>Calls that only read.\<close>

lemma store_get:
  assumes "gp_get (grid_store_api fault) k key s = (r, s')"
  shows "st_objects s' = st_objects s" "st_crd s' = st_crd s" "st_finalizer s' = st_finalizer s"
    "r = Inr x \<Longrightarrow> x \<in> set (st_objects s) \<and> gb_kind x = k \<and> gb_key x = key"
    "wf_grid_store s \<Longrightarrow> honest fault \<Longrightarrow> r = Inl e \<Longrightarrow> absent e \<Longrightarrow>
       \<forall>x \<in> set (st_objects s). \<not> is_object k key x"
  using assms
  by (auto simp: grid_store_api_def call_def honest_def from_option_def find_object_None wf_grid_store_def is_object_def
      split: option.splits if_splits dest!: find_object)

lemma store_get_wf: "gp_get (grid_store_api fault) k key s = (r, s') \<Longrightarrow> wf_grid_store s' = wf_grid_store s"
  using store_get(1,2) [of fault k key s r s'] by (simp add: wf_grid_store_def)

lemma store_list:
  assumes "gp_list (grid_store_api fault) k ns s = (r, s')"
  shows "st_objects s' = st_objects s" "st_crd s' = st_crd s" "st_finalizer s' = st_finalizer s"
    "r = Inr xs \<Longrightarrow> xs = filter (\<lambda>x. gb_kind x = k \<and> om_namespace (gb_meta x) = ns) (st_objects s)"
    "honest fault \<Longrightarrow> r = Inl e \<Longrightarrow> absent e \<Longrightarrow> k = ProviderKind \<and> \<not> st_crd s"
  using assms by (auto simp: grid_store_api_def call_def honest_def split: option.splits if_splits)

lemma store_delete_call:
  assumes "gp_delete (grid_store_api fault) c s = (r, s')"
  shows "(\<forall>y \<in> set (st_objects s'). \<exists>x \<in> set (st_objects s). descends x y) \<and>
    (\<forall>x \<in> set (st_objects s). \<not> is_object (gb_kind c) (gb_key c) x \<longrightarrow> x \<in> set (st_objects s')) \<and>
    st_crd s' = st_crd s \<and> st_finalizer s' = st_finalizer s \<and> (wf_grid_store s \<longrightarrow> wf_grid_store s')"
proof (cases "fault (st_clock s)")
  case None
  with assms have run: "store_delete c (s\<lparr>st_clock := Suc (st_clock s)\<rparr>) = (r, s')"
    by (simp add: grid_store_api_def call_def)
  have wf: "wf_grid_store (s\<lparr>st_clock := Suc (st_clock s)\<rparr>) = wf_grid_store s" by (simp add: wf_grid_store_def)
  from store_delete_objects [OF run] store_delete_wf [OF run] wf show ?thesis by simp
next
  case (Some e)
  with assms show ?thesis
    by (auto simp: grid_store_api_def call_def wf_grid_store_def intro: descends_refl)
qed

section \<open>What the loops do to the store\<close>

lemma deleteLoop_store:
  assumes "deleteLoop (grid_store_api fault) svc os s = (errs, s')" and "wf_grid_store s"
    and "\<forall>o' \<in> set os. om_name (gb_meta o') \<notin> set keep"
  shows "(\<forall>y \<in> set (st_objects s'). \<exists>x \<in> set (st_objects s). descends x y) \<and>
    (\<forall>x \<in> set (st_objects s). \<not> stale svc keep x \<longrightarrow> x \<in> set (st_objects s')) \<and>
    st_crd s' = st_crd s \<and> st_finalizer s' = st_finalizer s \<and> wf_grid_store s'"
  using assms
proof (induction os arbitrary: s errs)
  case Nil
  then show ?case by (auto intro: descends_refl)
next
  case (Cons o' os)
  obtain r s1 where get: "gp_get (grid_store_api fault) (gb_kind o') (gb_key o') s = (r, s1)" by fastforce
  note g = store_get [OF get]
  have wf1: "wf_grid_store s1" using store_get_wf [OF get] Cons.prems(2) by simp
  have rest: "\<forall>x \<in> set os. om_name (gb_meta x) \<notin> set keep" using Cons.prems(3) by simp
  have step: "(\<forall>y \<in> set (st_objects s'). \<exists>x \<in> set (st_objects s2). descends x y) \<and>
      (\<forall>x \<in> set (st_objects s2). \<not> stale svc keep x \<longrightarrow> x \<in> set (st_objects s')) \<and>
      st_crd s' = st_crd s2 \<and> st_finalizer s' = st_finalizer s2 \<and> wf_grid_store s'"
    if "deleteLoop (grid_store_api fault) svc os s2 = (es, s')" "wf_grid_store s2" for s2 es
    by (rule Cons.IH [OF that rest])
  show ?case
  proof (cases "\<exists>cur. r = Inr cur \<and> gridOwned (gb_meta cur) svc")
    case False
    with Cons.prems(1) get obtain es where "deleteLoop (grid_store_api fault) svc os s1 = (es, s')"
      by (auto split: sum.splits prod.splits if_splits)
    from step [OF this wf1] g(1-3) show ?thesis by simp
  next
    case True
    then obtain cur where cur: "r = Inr cur" "gridOwned (gb_meta cur) svc" by blast
    obtain dr s2 where del: "gp_delete (grid_store_api fault) cur s1 = (dr, s2)" by fastforce
    with Cons.prems(1) get cur obtain es where run: "deleteLoop (grid_store_api fault) svc os s2 = (es, s')"
      by (auto split: prod.splits)
    note d = store_delete_call [OF del]
    with wf1 have wf2: "wf_grid_store s2" by simp
    have key: "gb_kind cur = gb_kind o'" "gb_key cur = gb_key o'" using g(4) [OF cur(1)] by simp_all
    then have st: "stale svc keep cur" using cur(2) Cons.prems(3) by (simp add: stale_def gb_key_def)
    have keep: "x \<in> set (st_objects s2)" if "x \<in> set (st_objects s)" "\<not> stale svc keep x" for x
    proof -
      have "\<not> is_object (gb_kind cur) (gb_key cur) x"
        using unique_object [OF Cons.prems(2) that(1), of cur] g(4) [OF cur(1)] st that(2) by (auto simp: is_object_def)
      then show ?thesis using d that(1) g(1) by simp
    qed
    note st' = step [OF run wf2]
    have "\<exists>x \<in> set (st_objects s). descends x y" if "y \<in> set (st_objects s')" for y
    proof -
      from st' that obtain z where z: "z \<in> set (st_objects s2)" "descends z y" by blast
      from d z(1) g(1) obtain x where "x \<in> set (st_objects s)" "descends x z" by auto
      with z(2) show ?thesis by (blast intro: descends_trans)
    qed
    with st' d g(2,3) keep show ?thesis by simp
  qed
qed

lemma confirmLoop_store:
  assumes "confirmLoop (grid_store_api fault) os c s = (Inr True, s')" and "wf_grid_store s"
    and "honest fault"
  shows "st_objects s' = st_objects s \<and> st_crd s' = st_crd s \<and> st_finalizer s' = st_finalizer s \<and> c \<and>
    (\<forall>o' \<in> set os. \<forall>x \<in> set (st_objects s). \<not> is_object (gb_kind o') (gb_key o') x)"
  using assms(1,2)
proof (induction os arbitrary: s c)
  case (Cons o' os)
  obtain r s1 where get: "gp_get (grid_store_api fault) (gb_kind o') (gb_key o') s = (r, s1)" by fastforce
  note g = store_get [OF get]
  have wf1: "wf_grid_store s1" using store_get_wf [OF get] Cons.prems(2) by simp
  show ?case
  proof (cases r)
    case (Inl e)
    with Cons.prems(1) get have e: "absent e" and run: "confirmLoop (grid_store_api fault) os c s1 = (Inr True, s')"
      by (auto split: if_splits)
    from Cons.IH [OF run wf1] g(1-3) g(5) [OF Cons.prems(2) assms(3) Inl e] show ?thesis by auto
  next
    case (Inr x)
    with Cons.prems(1) get have "confirmLoop (grid_store_api fault) os False s1 = (Inr True, s')" by simp
    from Cons.IH [OF this wf1] show ?thesis by simp
  qed
qed simp

definition in_scope :: "grid_service \<Rightarrow> grid_object \<Rightarrow> bool" where
  "in_scope svc x = (gb_kind x = ProviderKind \<or> om_namespace (gb_meta x) = sg_namespace svc)"

lemma staleObjects_store:
  assumes "staleObjects (grid_store_api fault) svc keep s = (r, s')" and "wf_grid_store s"
    and "honest fault"
  shows "st_objects s' = st_objects s \<and> st_crd s' = st_crd s \<and> st_finalizer s' = st_finalizer s \<and>
    (\<forall>os. r = Inr os \<longrightarrow> (\<forall>o' \<in> set os. om_name (gb_meta o') \<notin> set keep) \<and>
       (\<forall>x \<in> set (st_objects s). in_scope svc x \<longrightarrow> stale svc keep x \<longrightarrow> x \<in> set os))"
proof -
  obtain r1 s1 where l1: "gp_list (grid_store_api fault) RoleKind (sg_namespace svc) s = (r1, s1)" by fastforce
  obtain r2 s2 where l2: "gp_list (grid_store_api fault) BindingKind (sg_namespace svc) s1 = (r2, s2)" by fastforce
  obtain r3 s3 where l3: "gp_list (grid_store_api fault) PolicyKind (sg_namespace svc) s2 = (r3, s3)" by fastforce
  obtain r4 s4 where l4: "gp_list (grid_store_api fault) ProviderKind [] s3 = (r4, s4)" by fastforce
  note same = store_list(1-3) [OF l1] store_list(1-3) [OF l2] store_list(1-3) [OF l3] store_list(1-3) [OF l4]
  show ?thesis
  proof (cases "\<exists>a b c. r1 = Inr a \<and> r2 = Inr b \<and> r3 = Inr c")
    case False
    with assms(1) l1 l2 l3 same show ?thesis
      by (cases r1; cases r2; cases r3) (auto simp: staleObjects_def)
  next
    case True
    then obtain a b c where r: "r1 = Inr a" "r2 = Inr b" "r3 = Inr c" by blast
    note abc = store_list(4) [OF l1 r(1)] store_list(4) [OF l2 r(2)] store_list(4) [OF l3 r(3)]
    let ?os = "filter (stale svc keep) c @ filter (stale svc keep) b @ filter (stale svc keep) a"
    have mem: "x \<in> set ?os" if "x \<in> set (st_objects s)" "in_scope svc x" "stale svc keep x" "gb_kind x \<noteq> ProviderKind" for x
      using that by (cases "gb_kind x") (auto simp: abc same in_scope_def)
    have names: "\<forall>o' \<in> set ?os. om_name (gb_meta o') \<notin> set keep" by (auto simp: stale_def)
    show ?thesis
    proof (cases r4)
      case (Inl e)
      have "gb_kind x \<noteq> ProviderKind" if "absent e" "x \<in> set (st_objects s)" for x
        using store_list(5) [OF l4 assms(3) Inl that(1)] that(2) assms(2) same by (auto simp: wf_grid_store_def)
      with assms(1) l1 l2 l3 l4 r Inl same mem names show ?thesis
        by (auto simp: staleObjects_def split: if_splits)
    next
      case (Inr d)
      have "x \<in> set (filter (stale svc keep) d)" if "x \<in> set (st_objects s)" "stale svc keep x" "gb_kind x = ProviderKind" for x
        using that assms(2) by (auto simp: store_list(4) [OF l4 Inr] same wf_grid_store_def)
      moreover have "r = Inr (?os @ filter (stale svc keep) d)" "s' = s4"
        using assms(1) l1 l2 l3 l4 r Inr by (simp_all add: staleObjects_def)
      moreover have "x \<in> set (?os @ filter (stale svc keep) d)"
        if "x \<in> set (st_objects s)" "in_scope svc x" "stale svc keep x" for x
        using that mem [OF that] calculation(1) by (cases "gb_kind x = ProviderKind") auto
      moreover have "\<forall>o' \<in> set (?os @ filter (stale svc keep) d). om_name (gb_meta o') \<notin> set keep" by (auto simp: stale_def)
      ultimately show ?thesis using same by simp
    qed
  qed
qed

lemma cleanupExcept_store:
  assumes run: "cleanupExcept (grid_store_api fault) svc keep s = (r, s')" and wf: "wf_grid_store s"
    and fault: "honest fault"
  shows "(r = Inr True \<longrightarrow> (\<forall>y \<in> set (st_objects s'). in_scope svc y \<longrightarrow> \<not> stale svc keep y) \<and> wf_grid_store s' \<and> st_finalizer s' = st_finalizer s)"
proof (intro impI)
  assume r: "r = Inr True"
  obtain q s1 where q: "staleObjects (grid_store_api fault) svc keep s = (q, s1)" by fastforce
  with run r obtain os where os: "q = Inr os" by (auto simp: cleanupExcept_def split: sum.splits)
  note so = staleObjects_store [OF q wf fault]
  have wf1: "wf_grid_store s1" using wf so by (simp add: wf_grid_store_def)
  obtain errs s2 where d: "deleteLoop (grid_store_api fault) svc os s1 = (errs, s2)" by fastforce
  with run r q os have c: "confirmLoop (grid_store_api fault) os True s2 = (Inr True, s')"
    by (auto simp: cleanupExcept_def split: if_splits prod.splits sum.splits)
  have dl: "(\<forall>y \<in> set (st_objects s2). \<exists>x \<in> set (st_objects s1). descends x y) \<and>
    (\<forall>x \<in> set (st_objects s1). \<not> stale svc keep x \<longrightarrow> x \<in> set (st_objects s2)) \<and>
    st_crd s2 = st_crd s1 \<and> st_finalizer s2 = st_finalizer s1 \<and> wf_grid_store s2"
    by (rule deleteLoop_store [OF d wf1]) (use so os in auto)
  then have wf2: "wf_grid_store s2" by simp
  note cl = confirmLoop_store [OF c wf2 fault]
  have "\<not> stale svc keep y" if y: "y \<in> set (st_objects s')" "in_scope svc y" for y
  proof
    assume st: "stale svc keep y"
    from y(1) cl have y2: "y \<in> set (st_objects s2)" by simp
    with dl so obtain x where x: "x \<in> set (st_objects s)" "descends x y" by auto
    have "in_scope svc x" using x(2) y(2) by (auto simp: in_scope_def descends_def)
    moreover have "stale svc keep x" using descends_stale [OF x(2)] st by simp
    ultimately have "x \<in> set os" using so os x(1) by blast
    with cl y2 have "\<not> is_object (gb_kind x) (gb_key x) y" by blast
    then show False using x(2) descends_key [OF x(2)] by (simp add: is_object_def descends_def)
  qed
  moreover have "wf_grid_store s'" using wf2 cl by (simp add: wf_grid_store_def)
  ultimately show "(\<forall>y \<in> set (st_objects s'). in_scope svc y \<longrightarrow> \<not> stale svc keep y) \<and> wf_grid_store s' \<and> st_finalizer s' = st_finalizer s"
    using so dl cl by simp
qed

lemma confirmLoop_reads:
  "confirmLoop (grid_store_api fault) os c s = (r, s') \<Longrightarrow>
   st_objects s' = st_objects s \<and> st_crd s' = st_crd s \<and> st_finalizer s' = st_finalizer s"
proof (induction os arbitrary: s c)
  case (Cons o' os)
  obtain q s1 where get: "gp_get (grid_store_api fault) (gb_kind o') (gb_key o') s = (q, s1)" by fastforce
  have next_step: "st_objects s' = st_objects s1 \<and> st_crd s' = st_crd s1 \<and> st_finalizer s' = st_finalizer s1"
    using Cons get by (auto split: sum.splits if_splits)
  with store_get(1-3) [OF get] show ?case by simp
qed simp

lemma cleanupExcept_keeps:
  assumes run: "cleanupExcept (grid_store_api fault) svc keep s = (r, s')" and wf: "wf_grid_store s" and fault: "honest fault"
  shows "(\<forall>y \<in> set (st_objects s'). \<exists>x \<in> set (st_objects s). descends x y) \<and>
    (\<forall>x \<in> set (st_objects s). \<not> stale svc keep x \<longrightarrow> x \<in> set (st_objects s')) \<and>
    st_finalizer s' = st_finalizer s \<and> wf_grid_store s'"
proof -
  obtain q s1 where q: "staleObjects (grid_store_api fault) svc keep s = (q, s1)" by fastforce
  note so = staleObjects_store [OF q wf fault]
  have wf1: "wf_grid_store s1" using wf so by (simp add: wf_grid_store_def)
  show ?thesis
  proof (cases q)
    case (Inl e)
    with run q have "s' = s1" by (simp add: cleanupExcept_def)
    with so wf1 show ?thesis by (auto intro: descends_refl)
  next
    case (Inr os)
    obtain errs s2 where d: "deleteLoop (grid_store_api fault) svc os s1 = (errs, s2)" by fastforce
    have dl: "(\<forall>y \<in> set (st_objects s2). \<exists>x \<in> set (st_objects s1). descends x y) \<and>
      (\<forall>x \<in> set (st_objects s1). \<not> stale svc keep x \<longrightarrow> x \<in> set (st_objects s2)) \<and>
      st_crd s2 = st_crd s1 \<and> st_finalizer s2 = st_finalizer s1 \<and> wf_grid_store s2"
      by (rule deleteLoop_store [OF d wf1]) (use so Inr in auto)
    obtain cr s3 where c: "confirmLoop (grid_store_api fault) os True s2 = (cr, s3)" by fastforce
    note cl = confirmLoop_reads [OF c]
    have "s' = s2 \<or> s' = s3" using run q Inr d c by (auto simp: cleanupExcept_def split: if_splits sum.splits)
    then have same: "st_objects s' = st_objects s2" "st_crd s' = st_crd s2" "st_finalizer s' = st_finalizer s2" using cl by auto
    then have "wf_grid_store s' = wf_grid_store s2" by (simp only: wf_grid_store_def)
    with so dl same show ?thesis by simp
  qed
qed

section \<open>Properties\<close>

text \<open>
  Property C10. The cleanup takes back what the service owns and touches nothing else. An object that is not
  owned by the service, or that is to be kept, stays as it was, whatever the outcome; nothing new appears; and when the cleanup
  reports that it is complete, no object of the service that is not to be kept is left, not even
  one that is being deleted. Calls may fail at any point.
\<close>

theorem cleanupExcept_exact:
  assumes "cleanupExcept (grid_store_api fault) svc keep s = (r, s')" and "wf_grid_store s" and "honest fault"
  shows "(\<forall>x \<in> set (st_objects s). \<not> stale svc keep x \<longrightarrow> x \<in> set (st_objects s')) \<and>
    (\<forall>y \<in> set (st_objects s'). \<exists>x \<in> set (st_objects s). descends x y) \<and>
    (r = Inr True \<longrightarrow> (\<forall>y \<in> set (st_objects s'). in_scope svc y \<longrightarrow> \<not> stale svc keep y))"
  using cleanupExcept_keeps [OF assms] cleanupExcept_store [OF assms] by blast

definition grid_role :: "string list \<Rightarrow> grid_object" where
  "grid_role fins = \<lparr>gb_kind = RoleKind, gb_meta = (gridMetadata ''r'' demo_grid_service
       \<lparr>gw_meta = empty_meta, gw_listeners = [], gw_conditions = []\<rparr>)\<lparr>om_namespace := ''apps'', om_finalizers := fins\<rparr>,
     gb_content = RoleRules []\<rparr>"

definition one_role :: "string list \<Rightarrow> grid_store" where
  "one_role fins = \<lparr>st_objects = [grid_role fins], st_services = [], st_crd = False, st_finalizer = True, st_clock = 0\<rparr>"

lemma one_role_run:
  "fst (cleanupExcept (grid_store_api (\<lambda>_. None)) demo_grid_service [] (one_role [])) = Inr True"
  "fst (cleanupExcept (grid_store_api (\<lambda>_. None)) demo_grid_service [] (one_role [''hold''])) = Inr False"
  by (simp_all add: cleanupExcept_def staleObjects_def grid_store_api_def call_def one_role_def grid_role_def stale_def gridOwned_def
      gridMetadata_def demo_grid_service_def empty_meta_def gridSourceUID_def gridSourceName_def gridSourceNamespace_def m_str_def
      absent_def is_object_def gb_key_def from_option_def store_delete_def)

theorem cleanupExcept_exact_witness:
  "filter (\<lambda>y. in_scope demo_grid_service y \<and> stale demo_grid_service [] y)
     (st_objects (snd (cleanupExcept (grid_store_api (\<lambda>_. None)) demo_grid_service [] (one_role [])))) = []"
proof -
  obtain r s' where run: "cleanupExcept (grid_store_api (\<lambda>_. None)) demo_grid_service [] (one_role []) = (r, s')" by fastforce
  have "wf_grid_store (one_role [])" "honest (\<lambda>_. None)"
    by (simp_all add: wf_grid_store_def one_role_def grid_role_def honest_def)
  from cleanupExcept_exact [OF run this] one_role_run(1) run show ?thesis by (auto simp: filter_empty_conv)
qed

end
