(* ===== verification/Grid_Controller.thy ===== *)
theory Grid_Controller
  imports Grid_Cleanup
begin

text \<open>
  The Grid controller (\<open>GridInferenceProviderReconciler\<close> in internal/controller/serving/llm/grid_controller.go): for every gateway
  with a Grid configuration it publishes a service by a cluster-scoped provider and grants the Grid account
  access to it by a role, a binding and, for metrics, a network policy. A finalizer on the service makes sure that
  what was published is taken back before the service goes. Reads of objects that the controller does not write are fields of
  \<open>grid_env\<close>; the calls on its own objects go through \<open>grid_api\<close>.
\<close>

section \<open>Data\<close>

record publication =
  pb_gateway :: gateway
  pb_config :: grid_config
  pb_attachment :: attachment

record publication_plan =
  pp_service :: grid_service
  pp_publications :: "publication list"
  pp_errors :: "api_error list"
  pp_credential_errors :: "api_error list"

text \<open>
  \<open>gd_service\<close>, \<open>gd_namespace_meta\<close>, \<open>gd_spec\<close> (the spec of a config, an opaque text), \<open>gd_account\<close> and
  \<open>gd_secret\<close> answer Gets; \<open>gd_merge\<close> is KServe's \<open>MergeSpecs\<close> of the configs' specs and the service's own, of which the model
  name and whether the router has a group are read;
  \<open>gd_mapping\<close> is the error of the RESTMapping of the provider kind, if any; \<open>gd_controlled\<close> is
  \<open>metav1.IsControlledBy\<close>; \<open>gd_hostname\<close> is KServe's \<open>GetServiceHostname\<close>.
\<close>

record grid_env = children_env +
  gd_lib :: grid_lib
  gd_digest :: "string \<Rightarrow> string"
  gd_service :: "namespaced_name \<Rightarrow> api_error + grid_service"
  gd_base_refs :: "grid_service \<Rightarrow> string list"
  gd_namespace_meta :: "string \<Rightarrow> api_error + object_meta"
  gd_spec :: "string \<Rightarrow> string \<Rightarrow> api_error + string"
  gd_merge :: "string list \<Rightarrow> grid_service \<Rightarrow> api_error + string option \<times> bool"
  gd_mapping :: "api_error option"
  gd_account :: "namespaced_name \<Rightarrow> api_error + object_meta"
  gd_secret :: "namespaced_name \<Rightarrow> api_error + secret"
  gd_controlled :: "object_meta \<Rightarrow> object_meta \<Rightarrow> bool"
  gd_hostname :: "string \<Rightarrow> string \<Rightarrow> string"

definition resourceName :: "grid_env \<Rightarrow> grid_service \<Rightarrow> gateway \<Rightarrow> string" where
  "resourceName env = gridResourceName (gd_digest env) (ce_child_name env)"

section \<open>The plan\<close>

definition getConfig :: "grid_env \<Rightarrow> grid_service \<Rightarrow> string \<Rightarrow> api_error + string option" where
  "getConfig env svc name =
     (case gd_spec env (sg_namespace svc) name of
        Inr spec \<Rightarrow> Inr (Some spec)
      | Inl e \<Rightarrow>
          if e = NotFound then
            (if ge_pod_namespace env = [] then Inr None
             else (case gd_spec env (ge_pod_namespace env) name of Inl e \<Rightarrow> Inl e | Inr spec \<Rightarrow> Inr (Some spec)))
          else Inl e)"

fun baseSpecs :: "grid_env \<Rightarrow> grid_service \<Rightarrow> string list \<Rightarrow> api_error + string list" where
  "baseSpecs env svc [] = Inr []"
| "baseSpecs env svc (b # bs) =
     (case getConfig env svc b of
        Inl e \<Rightarrow> Inl e
      | Inr c \<Rightarrow>
          (case baseSpecs env svc bs of
             Inl e \<Rightarrow> Inl e
           | Inr specs \<Rightarrow> Inr (case c of None \<Rightarrow> specs | Some spec \<Rightarrow> spec # specs)))"

definition checkIdentity :: "grid_env \<Rightarrow> grid_config \<Rightarrow> api_error option" where
  "checkIdentity env cfg =
     (case gd_account env (gf_namespace cfg, gf_account cfg) of
        Inl e \<Rightarrow> Some e
      | Inr sa \<Rightarrow>
          (case gd_secret env (gf_namespace cfg, gf_secret cfg) of
             Inl e \<Rightarrow> Some e
           | Inr sec \<Rightarrow>
               if sec_type sec \<noteq> ''kubernetes.io/service-account-token'' \<or>
                  m_str (om_annotations (sec_meta sec)) ''kubernetes.io/service-account.name'' \<noteq> om_name sa \<or>
                  m_str (om_annotations (sec_meta sec)) ''kubernetes.io/service-account.uid'' \<noteq> om_uid sa \<or>
                  m_str (sec_data sec) ''token'' = []
               then Some (ApiFailure ''Grid credential Secret must contain a populated token'')
               else None))"

text \<open>The loop over the attached endpoints: publications, errors and credential errors collected so far.\<close>

fun planLoop :: "grid_env \<Rightarrow> attachment list \<Rightarrow> publication_plan \<Rightarrow> api_error + publication_plan" where
  "planLoop env [] plan = Inr plan"
| "planLoop env (a # as) plan =
     (case ge_gateway env (fst (at_gateway a)) (snd (at_gateway a)) of
        Inl e \<Rightarrow> if absent e then planLoop env as plan else Inl e
      | Inr gw \<Rightarrow>
          if om_deleting (gw_meta gw) then planLoop env as plan
          else (case GridConfigFromGateway env gw of
                  Inl e \<Rightarrow> planLoop env as (plan\<lparr>pp_errors := pp_errors plan @ [e]\<rparr>)
                | Inr None \<Rightarrow> planLoop env as plan
                | Inr (Some cfg) \<Rightarrow>
                    (case checkIdentity env cfg of
                       Some e \<Rightarrow> planLoop env as (plan\<lparr>pp_credential_errors := pp_credential_errors plan @ [e]\<rparr>)
                     | None \<Rightarrow> planLoop env as (plan\<lparr>pp_publications := pp_publications plan @
                         [\<lparr>pb_gateway = gw, pb_config = cfg, pb_attachment = a\<rparr>]\<rparr>))))"

definition GridAllowedLabel :: string where "GridAllowedLabel = ''grid.opendatahub.io/allowed''"

definition desiredPublications :: "grid_env \<Rightarrow> grid_service \<Rightarrow> api_error + publication_plan" where
  "desiredPublications env svc =
     (let plan = \<lparr>pp_service = svc, pp_publications = [], pp_errors = [], pp_credential_errors = []\<rparr>
      in if om_deleting (sg_meta svc) \<or> ge_force_stop env (sg_meta svc) then Inr plan
         else (case gd_namespace_meta env (sg_namespace svc) of
                 Inl e \<Rightarrow> Inl e
               | Inr ns \<Rightarrow>
                   if m_str (om_labels ns) GridAllowedLabel \<noteq> ''true'' \<or> om_deleting ns then Inr plan
                   else (case baseSpecs env svc (gd_base_refs env svc) of
                           Inl e \<Rightarrow> Inl e
                         | Inr specs \<Rightarrow>
                             (case gd_merge env specs svc of
                                Inl e \<Rightarrow> Inl e
                              | Inr (model, grouped) \<Rightarrow>
                                  (let publishSvc = svc\<lparr>sg_model := model, sg_has_group := grouped\<rparr>
                                   in case gd_mapping env of
                                        Some e \<Rightarrow> if e = NoMatch then Inr (plan\<lparr>pp_service := publishSvc\<rparr>) else Inl e
                                      | None \<Rightarrow> planLoop env (gridAttachedEndpoints (gd_lib env) publishSvc) (plan\<lparr>pp_service := publishSvc\<rparr>))))))"

section \<open>Access\<close>

definition trim_slashes :: "string \<Rightarrow> string" where
  "trim_slashes s = trim_slashes_right (dropWhile (\<lambda>c. c = CHR ''/'') s)"

definition gridPublisherModel :: "grid_env \<Rightarrow> grid_service \<Rightarrow> string \<Rightarrow> string" where
  "gridPublisherModel env svc endpoint =
     (case gl_path (gd_lib env) endpoint of
        None \<Rightarrow> []
      | Some p \<Rightarrow>
          (let path = trim_slashes p
           in if has_prefix (''publishers/'' @ sg_namespace svc @ ''/models/'') path then path else []))"

definition gridAccessRules :: "grid_env \<Rightarrow> grid_service \<Rightarrow> string \<Rightarrow> policy_rule list" where
  "gridAccessRules env svc endpoint =
     \<lparr>pr_groups = [''serving.kserve.io''], pr_resources = [''llminferenceservices''], pr_names = [sg_name svc], pr_verbs = [''get'']\<rparr> #
     (if gridPublisherModel env svc endpoint = [] then []
      else [\<lparr>pr_groups = [''serving.opendatahub.io''], pr_resources = [''models''],
             pr_names = [gridPublisherModel env svc endpoint], pr_verbs = [''post'']\<rparr>])"

text \<open>The checks of the mutate functions before they write the content.\<close>

definition mutateOwned :: "grid_env \<Rightarrow> grid_service \<Rightarrow> string \<Rightarrow> (grid_object \<Rightarrow> grid_content) \<Rightarrow> bool \<Rightarrow> grid_object \<Rightarrow> api_error + grid_object" where
  "mutateOwned env svc what content exists o' =
     (if exists \<and> \<not> gridOwned (gb_meta o') svc
      then Inl (ApiFailure (''refusing to overwrite unmanaged Grid '' @ what @ '' '' @ om_name (gb_meta o')))
      else if om_deleting (gb_meta o')
      then Inl (ApiFailure (''Grid '' @ what @ '' '' @ om_name (gb_meta o') @ '' is still deleting''))
      else (case ce_own env (sg_meta svc) (gb_meta o') of
              Inl e \<Rightarrow> Inl e
            | Inr m \<Rightarrow> Inr (o'\<lparr>gb_meta := m, gb_content := content o'\<rparr>)))"

definition accessObject :: "grid_env \<Rightarrow> grid_service \<Rightarrow> publication \<Rightarrow> grid_kind \<Rightarrow> grid_object" where
  "accessObject env svc p kind = \<lparr>gb_kind = kind,
     gb_meta = (gridMetadata (resourceName env svc (pb_gateway p)) svc (pb_gateway p))\<lparr>om_namespace := sg_namespace svc\<rparr>,
     gb_content = NoContent\<rparr>"

definition eppMetricsService :: "grid_env \<Rightarrow> 's grid_api \<Rightarrow> grid_service \<Rightarrow> 's \<Rightarrow> (api_error + (epp_service \<times> service_port) option) \<times> 's" where
  "eppMetricsService env api svc s =
     (case Option.bind (sg_router svc) rs_scheduler of
        None \<Rightarrow> (Inr None, s)
      | Some ref \<Rightarrow>
          (let ns = (case sr_namespace ref of None \<Rightarrow> [] | Some n \<Rightarrow> n)
           in if sr_group ref \<noteq> [] \<or> sr_kind ref \<noteq> ''Service'' \<or> sr_name ref = [] \<or> (ns \<noteq> [] \<and> ns \<noteq> sg_namespace svc)
              then (Inr None, s)
              else (case gp_service api (sg_namespace svc, sr_name ref) s of
                      (Inl e, s) \<Rightarrow> (if e = NotFound then Inr None else Inl e, s)
                    | (Inr service, s) \<Rightarrow>
                        if \<not> gd_controlled env (es_meta service) (sg_meta svc) then (Inr None, s)
                        else (case find (\<lambda>p. sp_name p = ''metrics'') (es_ports service) of
                                None \<Rightarrow> (Inr None, s)
                              | Some port \<Rightarrow> (Inr (Some (service, port)), s)))))"

definition metricsPolicy :: "grid_config \<Rightarrow> epp_service \<Rightarrow> service_port \<Rightarrow> ingress_policy" where
  "metricsPolicy cfg service port = \<lparr>ip_pods = es_selector service, ip_namespace = gf_namespace cfg,
     ip_protocol = (if sp_protocol port = [] then ''TCP'' else sp_protocol port),
     ip_port = (if sp_target port = PortNumber 0 then PortNumber (sp_port port) else sp_target port)\<rparr>"

definition reconcileMetricsAccess :: "grid_env \<Rightarrow> 's grid_api \<Rightarrow> grid_service \<Rightarrow> publication \<Rightarrow> 's \<Rightarrow> api_error option \<times> 's" where
  "reconcileMetricsAccess env api svc p s =
     (case (if gf_metrics (pb_config p) then eppMetricsService env api svc s else (Inr None, s)) of
        (Inl e, s) \<Rightarrow> (Some e, s)
      | (Inr found, s) \<Rightarrow>
          (let policy = accessObject env svc p PolicyKind
           in case found of
                None \<Rightarrow> deleteOwned api svc PolicyKind (gb_key policy) s
              | Some (service, port) \<Rightarrow>
                  if es_selector service = [] then deleteOwned api svc PolicyKind (gb_key policy) s
                  else gp_create_or_update api policy
                         (mutateOwned env svc ''access'' (\<lambda>_. AdmitsIngress (metricsPolicy (pb_config p) service port))) s))"

definition reconcileAccess :: "grid_env \<Rightarrow> 's grid_api \<Rightarrow> grid_service \<Rightarrow> publication \<Rightarrow> 's \<Rightarrow> api_error option \<times> 's" where
  "reconcileAccess env api svc p s =
     (let cfg = pb_config p; role = accessObject env svc p RoleKind; binding = accessObject env svc p BindingKind
      in case gp_create_or_update api role
             (mutateOwned env svc ''access'' (\<lambda>_. RoleRules (gridAccessRules env svc (at_endpoint (pb_attachment p))))) s of
           (Some e, s) \<Rightarrow> (Some e, s)
         | (None, s) \<Rightarrow>
             (case gp_create_or_update api binding
                 (mutateOwned env svc ''access'' (\<lambda>_. BoundTo (om_name (gb_meta role)) (gf_account cfg) (gf_namespace cfg))) s of
                (Some e, s) \<Rightarrow> (Some e, s)
              | (None, s) \<Rightarrow> reconcileMetricsAccess env api svc p s))"

section \<open>Provider\<close>

text \<open>\<open>net.JoinHostPort\<close>; a service host name has nothing that \<open>url.URL.String\<close> would escape.\<close>

definition joinHostPort :: "string \<Rightarrow> string \<Rightarrow> string" where
  "joinHostPort host port =
     (if CHR '':'' \<in> set host then ''['' @ host @ '']:'' @ port else host @ '':'' @ port)"

definition eppMetricsEndpoint :: "grid_env \<Rightarrow> 's grid_api \<Rightarrow> grid_service \<Rightarrow> 's \<Rightarrow> (api_error + string \<times> bool) \<times> 's" where
  "eppMetricsEndpoint env api svc s =
     (case eppMetricsService env api svc s of
        (Inl e, s) \<Rightarrow> (Inl e, s)
      | (Inr None, s) \<Rightarrow> (Inr ([], False), s)
      | (Inr (Some (service, port)), s) \<Rightarrow>
          (let secure = (sp_app_protocol port = Some ''https'');
               scheme = (if secure then ''https'' else ''http'');
               host = joinHostPort (gd_hostname env (om_name (es_meta service)) (om_namespace (es_meta service))) (dec_int (sp_port port))
           in (Inr (scheme @ ''://'' @ host, secure), s)))"

text \<open>The unstructured spec of the provider: \<open>unstructured.NestedMap\<close> fails on a spec that is not an object.\<close>

definition providerFields :: "grid_config \<Rightarrow> string \<Rightarrow> string \<Rightarrow> json gomap" where
  "providerFields cfg endpoint model =
     [(''gridNetworkRef'', JStr (gf_network cfg)), (''providerKind'', JStr ''vllm''), (''backendKind'', JStr ''local_model''),
      (''endpoint'', JStr endpoint),
      (''models'', JArr [JObj [(''name'', JStr model), (''capabilities'', JArr [JStr ''text_generation''])]]),
      (''siteSelector'', JObj [(''matchLabels'', JObj (map (\<lambda>(k, v). (k, JStr v)) (gf_site_labels cfg)))]),
      (''auth'', JObj [(''strategy'', JStr ''bearer_token''), (''manual'', JBool False),
         (''secretRef'', JObj [(''name'', JStr (gf_secret cfg)), (''namespace'', JStr (gf_namespace cfg)), (''key'', JStr ''token'')])])]"

definition mutateProvider ::
    "grid_service \<Rightarrow> publication \<Rightarrow> string \<Rightarrow> string \<Rightarrow> string \<times> bool \<Rightarrow> bool \<Rightarrow> grid_object \<Rightarrow> api_error + grid_object" where
  "mutateProvider svc p name endpoint metrics exists o' =
     (if exists \<and> \<not> gridOwned (gb_meta o') svc
      then Inl (ApiFailure (''refusing to overwrite unmanaged Grid provider '' @ om_name (gb_meta o')))
      else if om_deleting (gb_meta o') then Inl (ApiFailure (''Grid provider '' @ om_name (gb_meta o') @ '' is still deleting''))
      else
        (let metadata = gridMetadata name svc (pb_gateway p); cfg = pb_config p;
             annotations = m_putall (om_annotations metadata) (om_annotations (gb_meta o'));
             labs = m_put ODHManaged ''true'' (om_labels (gb_meta o'));
             model = (case sg_model svc of None \<Rightarrow> sg_name svc | Some m \<Rightarrow> if m = [] then sg_name svc else m)
         in case gb_content o' of
              ProviderSpec spec \<Rightarrow>
                (let (spec, annotations) = reconcileGridMetrics spec annotations (fst metrics) (snd metrics) (gf_plaintext cfg) (gf_namespace cfg)
                 in Inr (o'\<lparr>gb_meta := (gb_meta o')\<lparr>om_labels := labs, om_annotations := annotations\<rparr>,
                           gb_content := ProviderSpec (m_putall (providerFields cfg endpoint model) spec)\<rparr>))
            | NoContent \<Rightarrow>
                (let (spec, annotations) = reconcileGridMetrics [] annotations (fst metrics) (snd metrics) (gf_plaintext cfg) (gf_namespace cfg)
                 in Inr (o'\<lparr>gb_meta := (gb_meta o')\<lparr>om_labels := labs, om_annotations := annotations\<rparr>,
                           gb_content := ProviderSpec (m_putall (providerFields cfg endpoint model) spec)\<rparr>))
            | _ \<Rightarrow> Inl (ApiFailure ''spec accessor error'')))"

definition reconcileProvider :: "grid_env \<Rightarrow> 's grid_api \<Rightarrow> grid_service \<Rightarrow> publication \<Rightarrow> 's \<Rightarrow> api_error option \<times> 's" where
  "reconcileProvider env api svc p s =
     (case (if gf_metrics (pb_config p) then eppMetricsEndpoint env api svc s else (Inr ([], False), s)) of
        (Inl e, s) \<Rightarrow> (Some e, s)
      | (Inr metrics, s) \<Rightarrow>
          (let name = resourceName env svc (pb_gateway p)
           in gp_create_or_update api
                \<lparr>gb_kind = ProviderKind, gb_meta = empty_meta\<lparr>om_name := name\<rparr>, gb_content = NoContent\<rparr>
                (mutateProvider svc p name (at_endpoint (pb_attachment p)) metrics) s))"

section \<open>Reconcile\<close>

fun publishLoop :: "grid_env \<Rightarrow> 's grid_api \<Rightarrow> grid_service \<Rightarrow> grid_service \<Rightarrow> publication list \<Rightarrow> 's \<Rightarrow> api_error list \<times> 's" where
  "publishLoop env api svc publishSvc [] s = ([], s)"
| "publishLoop env api svc publishSvc (p # ps) s =
     (case reconcileAccess env api svc p s of
        (Some e, s) \<Rightarrow> (case publishLoop env api svc publishSvc ps s of (errs, s) \<Rightarrow> (e # errs, s))
      | (None, s) \<Rightarrow>
          (case reconcileProvider env api (publishSvc\<lparr>sg_model := Some (at_model (pb_attachment p))\<rparr>) p s of
             (r, s) \<Rightarrow>
               (case publishLoop env api svc publishSvc ps s of
                  (errs, s) \<Rightarrow> (case r of None \<Rightarrow> errs | Some e \<Rightarrow> e # errs, s))))"

datatype grid_result = Failed "api_error list" | RequeueAfter nat | Done  \<comment> \<open>seconds\<close>

definition ReconcileGrid :: "grid_env \<Rightarrow> 's grid_api \<Rightarrow> namespaced_name \<Rightarrow> 's \<Rightarrow> grid_result \<times> 's" where
  "ReconcileGrid env api req s =
     (case gd_service env req of
        Inl e \<Rightarrow> (if e = NotFound then Done else Failed [e], s)
      | Inr svc \<Rightarrow>
          (case desiredPublications env svc of
             Inl e \<Rightarrow> (Failed [e], s)
           | Inr plan \<Rightarrow>
               (let publications = pp_publications plan;
                    keep = map (\<lambda>p. resourceName env svc (pb_gateway p)) publications;
                    contains = gridFinalizer \<in> set (om_finalizers (sg_meta svc))
                in case (if publications \<noteq> [] \<and> \<not> contains then gp_finalizer api True s else (None, s)) of
                     (Some e, s) \<Rightarrow> (Failed [e], s)
                   | (None, s) \<Rightarrow>
                       (let contains = (contains \<or> publications \<noteq> [])
                        in case (if contains then cleanupExcept api svc keep s else (Inr True, s)) of
                             (Inl errs, s) \<Rightarrow> (Failed errs, s)
                           | (Inr complete, s) \<Rightarrow>
                               (case publishLoop env api svc (pp_service plan) publications s of
                                  (errs, s) \<Rightarrow>
                                    (case (if publications = [] \<and> complete \<and> contains then gp_finalizer api False s else (None, s)) of
                                       (Some e, s) \<Rightarrow> (Failed [e], s)
                                     | (None, s) \<Rightarrow>
                                         (if pp_errors plan @ errs \<noteq> [] then Failed (pp_errors plan @ errs)
                                          else if \<not> complete then RequeueAfter 5
                                          else if pp_credential_errors plan \<noteq> [] then RequeueAfter 60
                                          else if publications \<noteq> [] then RequeueAfter 60
                                          else Done, s)))))))"

section \<open>Events\<close>

text \<open>\<open>services\<close> answers the List of the services, of all namespaces or of one; a failure is logged and enqueues nothing.\<close>

definition resyncRequests :: "(string option \<Rightarrow> api_error + grid_service list) \<Rightarrow> string option \<Rightarrow> namespaced_name list" where
  "resyncRequests services ns =
     (case services ns of Inl _ \<Rightarrow> [] | Inr svcs \<Rightarrow> map (\<lambda>svc. (sg_namespace svc, sg_name svc)) svcs)"

definition providerRequests :: "object_meta \<Rightarrow> namespaced_name list" where
  "providerRequests m =
     (if m_str (om_annotations m) gridSourceName = [] \<or> m_str (om_annotations m) gridSourceNamespace = [] then []
      else [(m_str (om_annotations m) gridSourceNamespace, m_str (om_annotations m) gridSourceName)])"

section \<open>Lemmas\<close>

text \<open>Whatever happens to a provider enqueues the service that owns it.\<close>

lemma providerRequests_owner:
  "gridOwned m svc \<Longrightarrow> sg_name svc \<noteq> [] \<Longrightarrow> sg_namespace svc \<noteq> [] \<Longrightarrow> providerRequests m = [(sg_namespace svc, sg_name svc)]"
  by (simp add: providerRequests_def gridOwned_def)

text \<open>All calls but the finalizer patch leave the finalizer alone.\<close>

named_theorems keeps_finalizer \<open>calls and operations that leave the finalizer alone\<close>

lemma store_calls_finalizer [keeps_finalizer]:
  "gp_get (grid_store_api fault) k key s = (g, s') \<Longrightarrow> st_finalizer s' = st_finalizer s"
  "gp_service (grid_store_api fault) key s = (v, s') \<Longrightarrow> st_finalizer s' = st_finalizer s"
  "gp_delete (grid_store_api fault) o' s = (r, s') \<Longrightarrow> st_finalizer s' = st_finalizer s"
  "gp_create_or_update (grid_store_api fault) o' f s = (r, s') \<Longrightarrow> st_finalizer s' = st_finalizer s"
  by (auto simp: grid_store_api_def call_def store_delete_def store_create_or_update_def
      split: option.splits sum.splits if_splits)

lemma eppMetricsService_finalizer [keeps_finalizer]:
  "eppMetricsService env (grid_store_api fault) svc s = (r, s') \<Longrightarrow> st_finalizer s' = st_finalizer s"
  unfolding eppMetricsService_def Let_def
  by (auto split: option.splits prod.splits sum.splits if_splits dest: keeps_finalizer)

lemma eppMetricsEndpoint_finalizer [keeps_finalizer]:
  "eppMetricsEndpoint env (grid_store_api fault) svc s = (r, s') \<Longrightarrow> st_finalizer s' = st_finalizer s"
  unfolding eppMetricsEndpoint_def Let_def
  by (auto split: option.splits prod.splits sum.splits dest: keeps_finalizer)

lemma deleteOwned_finalizer [keeps_finalizer]:
  "deleteOwned (grid_store_api fault) svc k key s = (r, s') \<Longrightarrow> st_finalizer s' = st_finalizer s"
  unfolding deleteOwned_def by (auto split: option.splits prod.splits sum.splits if_splits dest!: keeps_finalizer)

lemma reconcileMetricsAccess_finalizer [keeps_finalizer]:
  "reconcileMetricsAccess env (grid_store_api fault) svc p s = (r, s') \<Longrightarrow> st_finalizer s' = st_finalizer s"
  unfolding reconcileMetricsAccess_def Let_def
  by (auto split: option.splits prod.splits sum.splits if_splits dest!: keeps_finalizer)

lemma reconcileAccess_finalizer [keeps_finalizer]:
  "reconcileAccess env (grid_store_api fault) svc p s = (r, s') \<Longrightarrow> st_finalizer s' = st_finalizer s"
  unfolding reconcileAccess_def Let_def
  by (auto split: option.splits prod.splits dest!: keeps_finalizer)

lemma reconcileProvider_finalizer [keeps_finalizer]:
  "reconcileProvider env (grid_store_api fault) svc p s = (r, s') \<Longrightarrow> st_finalizer s' = st_finalizer s"
  unfolding reconcileProvider_def Let_def
  by (auto split: option.splits prod.splits sum.splits if_splits dest!: keeps_finalizer)

lemma publishLoop_finalizer [keeps_finalizer]:
  "publishLoop env (grid_store_api fault) svc psvc ps s = (errs, s') \<Longrightarrow> st_finalizer s' = st_finalizer s"
proof (induction ps arbitrary: s errs)
  case (Cons p ps)
  obtain r s1 where access: "reconcileAccess env (grid_store_api fault) svc p s = (r, s1)" by fastforce
  note s1 = reconcileAccess_finalizer [OF access]
  show ?case
  proof (cases r)
    case None
    obtain q s2 where prov: "reconcileProvider env (grid_store_api fault)
        (psvc\<lparr>sg_model := Some (at_model (pb_attachment p))\<rparr>) p s1 = (q, s2)" by fastforce
    with Cons None access obtain es where "publishLoop env (grid_store_api fault) svc psvc ps s2 = (es, s')"
      by (auto split: prod.splits)
    from Cons.IH [OF this] reconcileProvider_finalizer [OF prov] s1 show ?thesis by simp
  next
    case (Some e)
    with Cons access obtain es where "publishLoop env (grid_store_api fault) svc psvc ps s1 = (es, s')"
      by (auto split: prod.splits)
    from Cons.IH [OF this] s1 show ?thesis by simp
  qed
qed simp

subsection \<open>The store stays well-formed\<close>

named_theorems keeps_wf \<open>calls and operations that keep the store well-formed\<close>

definition same_place :: "(bool \<Rightarrow> grid_object \<Rightarrow> api_error + grid_object) \<Rightarrow> bool" where
  "same_place mutate = (\<forall>b x y. mutate b x = Inr y \<longrightarrow> gb_kind y = gb_kind x \<and> gb_key y = gb_key x)"

lemma wf_clock [simp]: "wf_grid_store (s\<lparr>st_clock := n\<rparr>) = wf_grid_store s"
  by (simp add: wf_grid_store_def)

lemma provider_key: "gb_key y = gb_key x \<Longrightarrow> om_namespace (gb_meta y) = om_namespace (gb_meta x)"
  by (simp add: gb_key_def)

lemma store_create_or_update_wf:
  assumes run: "store_create_or_update o' mutate s = (r, s')" and wf: "wf_grid_store s" and same: "same_place mutate"
    and prov: "gb_kind o' = ProviderKind \<Longrightarrow> st_crd s \<and> om_namespace (gb_meta o') = []"
  shows "wf_grid_store s'"
proof (cases "find (is_object (gb_kind o') (gb_key o')) (st_objects s)")
  case None
  show ?thesis
  proof (cases "mutate False o'")
    case (Inr new)
    with same have new: "gb_kind new = gb_kind o'" "gb_key new = gb_key o'" by (auto simp: same_place_def)
    from run None Inr have "s' = s\<lparr>st_objects := new # st_objects s\<rparr>" by (simp add: store_create_or_update_def)
    with None new wf prov provider_key [OF new(2)] show ?thesis
      by (auto simp: wf_grid_store_def find_object_None is_object_def)
  qed (use run None wf in \<open>simp add: store_create_or_update_def\<close>)
next
  case (Some cur)
  note cur = find_object [OF Some]
  show ?thesis
  proof (cases "mutate True cur")
    case (Inr new)
    with same have new: "gb_kind new = gb_kind cur" "gb_key new = gb_key cur" by (auto simp: same_place_def)
    let ?put = "\<lambda>x. if is_object (gb_kind o') (gb_key o') x then new else x"
    have keys: "(gb_kind (?put x), gb_key (?put x)) = (gb_kind x, gb_key x)" for x using new cur by (simp add: is_object_def)
    then have m: "map (\<lambda>x. (gb_kind x, gb_key x)) (map ?put (st_objects s)) = map (\<lambda>x. (gb_kind x, gb_key x)) (st_objects s)"
      unfolding map_map comp_def by simp
    from run Some Inr have s': "s' = s\<lparr>st_objects := map ?put (st_objects s)\<rparr>" by (simp add: store_create_or_update_def)
    have "st_crd s' \<and> om_namespace (gb_meta y) = []" if y: "y \<in> set (st_objects s')" "gb_kind y = ProviderKind" for y
    proof -
      from y(1) obtain x where x: "x \<in> set (st_objects s)" "y = ?put x" unfolding s' by (auto simp del: if_split)
      with keys [of x] y(2) wf provider_key [of y x] show ?thesis by (auto simp: wf_grid_store_def s' simp del: if_split)
    qed
    then show ?thesis using wf m by (simp add: wf_grid_store_def s' del: map_map)
  qed (use run Some wf in \<open>simp add: store_create_or_update_def\<close>)
qed

lemma create_or_update_wf:
  assumes "gp_create_or_update (grid_store_api fault) o' mutate s = (r, s')" and "wf_grid_store s" and "same_place mutate"
    and "gb_kind o' = ProviderKind \<Longrightarrow> om_namespace (gb_meta o') = []"
  shows "wf_grid_store s'"
  using assms store_create_or_update_wf [of o' mutate "s\<lparr>st_clock := Suc (st_clock s)\<rparr>" r s']
  by (auto simp: grid_store_api_def call_def split: option.splits if_splits)

lemma store_reads_wf [keeps_wf]:
  "gp_get (grid_store_api fault) k key s = (g, s') \<Longrightarrow> wf_grid_store s \<Longrightarrow> wf_grid_store s'"
  "gp_service (grid_store_api fault) key s = (v, s') \<Longrightarrow> wf_grid_store s \<Longrightarrow> wf_grid_store s'"
  "gp_delete (grid_store_api fault) o' s = (r, s') \<Longrightarrow> wf_grid_store s \<Longrightarrow> wf_grid_store s'"
  using store_get_wf [of fault k key s g s'] store_delete_call [of fault o' s r s']
  by (auto simp: grid_store_api_def call_def split: option.splits)

lemma eppMetricsService_wf [keeps_wf]:
  "eppMetricsService env (grid_store_api fault) svc s = (r, s') \<Longrightarrow> wf_grid_store s \<Longrightarrow> wf_grid_store s'"
  unfolding eppMetricsService_def Let_def
  by (auto split: option.splits prod.splits sum.splits if_splits dest: keeps_wf)

lemma eppMetricsEndpoint_wf [keeps_wf]:
  "eppMetricsEndpoint env (grid_store_api fault) svc s = (r, s') \<Longrightarrow> wf_grid_store s \<Longrightarrow> wf_grid_store s'"
  unfolding eppMetricsEndpoint_def Let_def
  by (auto split: option.splits prod.splits sum.splits dest: keeps_wf)

lemma deleteOwned_wf [keeps_wf]:
  "deleteOwned (grid_store_api fault) svc k key s = (r, s') \<Longrightarrow> wf_grid_store s \<Longrightarrow> wf_grid_store s'"
  unfolding deleteOwned_def by (auto split: option.splits prod.splits sum.splits if_splits dest!: keeps_wf)

text \<open>\<open>SetControllerReference\<close> keeps name and namespace.\<close>

definition keeps_place :: "grid_env \<Rightarrow> bool" where
  "keeps_place env = (\<forall>g m m'. ce_own env g m = Inr m' \<longrightarrow> (\<exists>os. m' = m\<lparr>om_owners := os\<rparr>))"

lemma mutateOwned_place: "keeps_place env \<Longrightarrow> same_place (mutateOwned env svc what content)"
  by (fastforce simp: same_place_def mutateOwned_def gb_key_def keeps_place_def split: if_splits sum.splits)

lemma mutateProvider_place: "same_place (mutateProvider svc p name e metrics)"
  by (auto simp: same_place_def mutateProvider_def gb_key_def split: if_splits grid_content.splits prod.splits)

lemma reconcileMetricsAccess_wf:
  assumes "reconcileMetricsAccess env (grid_store_api fault) svc p s = (r, s')" "wf_grid_store s" "keeps_place env"
  shows "wf_grid_store s'"
  using assms unfolding reconcileMetricsAccess_def Let_def
  by (auto simp: accessObject_def mutateOwned_place split: option.splits prod.splits sum.splits if_splits
      dest: keeps_wf elim!: create_or_update_wf)

lemma reconcileAccess_wf:
  assumes "reconcileAccess env (grid_store_api fault) svc p s = (r, s')" "wf_grid_store s" "keeps_place env"
  shows "wf_grid_store s'"
proof -
  have place: "same_place (mutateOwned env svc ''access'' c)" for c using assms(3) by (rule mutateOwned_place)
  note cu = create_or_update_wf [OF _ _ place]
  from assms show ?thesis unfolding reconcileAccess_def Let_def
    by (auto simp: accessObject_def split: option.splits prod.splits
        elim!: cu reconcileMetricsAccess_wf [OF _ _ assms(3)])
qed

lemma reconcileProvider_wf:
  assumes "reconcileProvider env (grid_store_api fault) svc p s = (r, s')" "wf_grid_store s"
  shows "wf_grid_store s'"
  using assms unfolding reconcileProvider_def Let_def
  by (auto simp: mutateProvider_place empty_meta_def split: option.splits prod.splits sum.splits if_splits
      dest!: eppMetricsEndpoint_wf elim!: create_or_update_wf)

lemma publishLoop_wf:
  "publishLoop env (grid_store_api fault) svc psvc ps s = (errs, s') \<Longrightarrow> wf_grid_store s \<Longrightarrow> keeps_place env \<Longrightarrow> wf_grid_store s'"
proof (induction ps arbitrary: s errs)
  case (Cons p ps)
  obtain r s1 where access: "reconcileAccess env (grid_store_api fault) svc p s = (r, s1)" by fastforce
  note s1 = reconcileAccess_wf [OF access Cons.prems(2,3)]
  show ?case
  proof (cases r)
    case None
    obtain q s2 where prov: "reconcileProvider env (grid_store_api fault)
        (psvc\<lparr>sg_model := Some (at_model (pb_attachment p))\<rparr>) p s1 = (q, s2)" by fastforce
    with Cons None access obtain es where "publishLoop env (grid_store_api fault) svc psvc ps s2 = (es, s')"
      by (auto split: prod.splits)
    from Cons.IH [OF this reconcileProvider_wf [OF prov s1] Cons.prems(3)] show ?thesis .
  next
    case (Some e)
    with Cons access obtain es where "publishLoop env (grid_store_api fault) svc psvc ps s1 = (es, s')"
      by (auto split: prod.splits)
    from Cons.IH [OF this s1 Cons.prems(3)] show ?thesis .
  qed
qed simp

subsection \<open>The finalizer covers what is published\<close>

definition owned_left :: "grid_service \<Rightarrow> grid_store \<Rightarrow> bool" where
  "owned_left svc s = (\<exists>x \<in> set (st_objects s). in_scope svc x \<and> gridOwned (gb_meta x) svc)"

definition covered :: "grid_service \<Rightarrow> grid_store \<Rightarrow> bool" where
  "covered svc s = (owned_left svc s \<longrightarrow> st_finalizer s)"

lemma finalizer_call:
  "gp_finalizer (grid_store_api fault) add s = (r, s') \<Longrightarrow>
   st_objects s' = st_objects s \<and> st_crd s' = st_crd s \<and> st_finalizer s' = (if r = None then add else st_finalizer s)"
  by (auto simp: grid_store_api_def call_def split: option.splits)

lemma finalizer_call_wf: "gp_finalizer (grid_store_api fault) add s = (r, s') \<Longrightarrow> wf_grid_store s' = wf_grid_store s"
  by (frule finalizer_call) (simp add: wf_grid_store_def)

lemma covered_finalizer [simp]: "st_finalizer s \<Longrightarrow> covered svc s"
  by (simp add: covered_def)

lemma covered_objects:
  "st_objects s' = st_objects s \<Longrightarrow> st_finalizer s' = st_finalizer s \<Longrightarrow> covered svc s' = covered svc s"
  by (simp add: covered_def owned_left_def)

lemma cleanup_nothing_owned:
  assumes "cleanupExcept (grid_store_api fault) svc [] s = (Inr True, s')" "wf_grid_store s" "honest fault"
  shows "\<not> owned_left svc s'"
  using cleanupExcept_store [OF assms] by (auto simp: owned_left_def stale_def)

text \<open>The stages of Reconcile: adding the finalizer, the cleanup, the publications, removing the finalizer.\<close>

lemma ReconcileGrid_stages:
  assumes run: "ReconcileGrid env api req s = (res, s')" and svc: "gd_service env req = Inr svc"
    and plan: "desiredPublications env svc = Inr plan"
  obtains (add_failed) e where "pp_publications plan \<noteq> []" "gridFinalizer \<notin> set (om_finalizers (sg_meta svc))"
      "gp_finalizer api True s = (Some e, s')" "res = Failed [e]"
  | (cleanup_failed) s1 errs keep where
      "(if pp_publications plan \<noteq> [] \<and> gridFinalizer \<notin> set (om_finalizers (sg_meta svc)) then gp_finalizer api True s else (None, s)) = (None, s1)"
      "cleanupExcept api svc keep s1 = (Inl errs, s')" "res = Failed errs"
      "gridFinalizer \<in> set (om_finalizers (sg_meta svc)) \<or> pp_publications plan \<noteq> []"
  | (published) s1 s2 s3 complete errs r where
      "(if pp_publications plan \<noteq> [] \<and> gridFinalizer \<notin> set (om_finalizers (sg_meta svc)) then gp_finalizer api True s else (None, s)) = (None, s1)"
      "(if gridFinalizer \<in> set (om_finalizers (sg_meta svc)) \<or> pp_publications plan \<noteq> []
        then cleanupExcept api svc (map (\<lambda>p. resourceName env svc (pb_gateway p)) (pp_publications plan)) s1
        else (Inr True, s1)) = (Inr complete, s2)"
      "publishLoop env api svc (pp_service plan) (pp_publications plan) s2 = (errs, s3)"
      "(if pp_publications plan = [] \<and> complete \<and> gridFinalizer \<in> set (om_finalizers (sg_meta svc))
        then gp_finalizer api False s3 else (None, s3)) = (r, s')"
      "res = Done \<longrightarrow> r = None \<and> complete \<and> pp_publications plan = []"
proof -
  let ?fin = "gridFinalizer \<in> set (om_finalizers (sg_meta svc))"
  let ?contains = "?fin \<or> pp_publications plan \<noteq> []"
  let ?keep = "map (\<lambda>p. resourceName env svc (pb_gateway p)) (pp_publications plan)"
  obtain a s1 where a: "(if pp_publications plan \<noteq> [] \<and> \<not> ?fin then gp_finalizer api True s else (None, s)) = (a, s1)" by fastforce
  obtain c s2 where c: "(if ?contains then cleanupExcept api svc ?keep s1 else (Inr True, s1)) = (c, s2)" by fastforce
  obtain errs s3 where p: "publishLoop env api svc (pp_service plan) (pp_publications plan) s2 = (errs, s3)" by fastforce
  note unfolded = run [unfolded ReconcileGrid_def Let_def svc plan sum.case a prod.case]
  show thesis
  proof (cases a)
    case (Some e)
    with unfolded have "res = Failed [e]" "s' = s1" by simp_all
    with a Some show thesis by (intro add_failed) (auto split: if_splits)
  next
    case None
    note unfolded' = unfolded [unfolded None option.case c prod.case]
    show thesis
    proof (cases c)
      case (Inl errs)
      with unfolded' have "res = Failed errs" "s' = s2" by simp_all
      with a None c Inl show thesis by (intro cleanup_failed) (auto split: if_splits)
    next
      case (Inr complete)
      obtain r s4 where r: "(if pp_publications plan = [] \<and> complete \<and> ?fin then gp_finalizer api False s3 else (None, s3)) = (r, s4)" by fastforce
      then have r': "(if pp_publications plan = [] \<and> complete \<and> ?contains then gp_finalizer api False s3 else (None, s3)) = (r, s4)"
        by (auto split: if_splits)
      note u = unfolded' [unfolded Inr sum.case p prod.case r']
      have s4: "s4 = s'" and quiet: "res = Done \<longrightarrow> r = None \<and> complete \<and> pp_publications plan = []"
        using u by (auto split: option.splits if_splits)
      show thesis by (rule published [OF a [unfolded None] c [unfolded Inr] p r [unfolded s4] quiet])
    qed
  qed
qed

text \<open>The service the controller reads has the identity of \<open>svc\<close>, and its finalizer is the one in the store.\<close>

definition reads_service :: "grid_env \<Rightarrow> namespaced_name \<Rightarrow> grid_service \<Rightarrow> grid_store \<Rightarrow> bool" where
  "reads_service env req svc s =
     (case gd_service env req of
        Inl e \<Rightarrow> True
      | Inr cur \<Rightarrow> om_uid (sg_meta cur) = om_uid (sg_meta svc) \<and> sg_name cur = sg_name svc \<and> sg_namespace cur = sg_namespace svc \<and>
          (gridFinalizer \<in> set (om_finalizers (sg_meta cur))) = st_finalizer s)"

lemma same_identity:
  assumes "om_uid (sg_meta cur) = om_uid (sg_meta svc)" "sg_name cur = sg_name svc" "sg_namespace cur = sg_namespace svc"
  shows "covered cur s = covered svc s" "owned_left cur s = owned_left svc s"
  using assms by (simp_all add: covered_def owned_left_def in_scope_def gridOwned_def)

lemma covered_cleanup:
  assumes "cleanupExcept (grid_store_api fault) svc keep s = (r, s')" "wf_grid_store s" "honest fault" "st_finalizer s"
  shows "wf_grid_store s' \<and> st_finalizer s'"
  using cleanupExcept_keeps [OF assms(1-3)] assms(4) by simp

lemma ReconcileGrid_steps:
  assumes run: "ReconcileGrid env (grid_store_api fault) req s = (res, s')" and svc: "gd_service env req = Inr svc"
    and plan: "desiredPublications env svc = Inr plan"
    and fin: "(gridFinalizer \<in> set (om_finalizers (sg_meta svc))) = st_finalizer s"
    and wf: "wf_grid_store s" and cov: "covered svc s" and fault: "honest fault" and place: "keeps_place env"
  shows "wf_grid_store s' \<and> covered svc s' \<and> (res = Done \<longrightarrow> \<not> owned_left svc s' \<and> \<not> st_finalizer s')"
  using run svc plan
proof (cases rule: ReconcileGrid_stages)
  case (add_failed e)
  from finalizer_call [OF add_failed(3)] finalizer_call_wf [OF add_failed(3)] wf cov covered_objects [of s' s svc] add_failed(4)
  show ?thesis by simp
next
  case (cleanup_failed s1 errs keep)
  have s1: "wf_grid_store s1 \<and> st_finalizer s1"
    using cleanup_failed(1,4) fin wf finalizer_call [of fault True s None s1] finalizer_call_wf [of fault True s None s1]
    by (auto split: if_splits)
  from covered_cleanup [OF cleanup_failed(2) _ fault] s1 cleanup_failed(3) show ?thesis by simp
next
  case (published s1 s2 s3 complete errs r)
  let ?pubs = "pp_publications plan"
  show ?thesis
  proof (cases "st_finalizer s \<or> ?pubs \<noteq> []")
    case True
    have s1: "wf_grid_store s1" "st_finalizer s1"
      using published(1) True fin wf finalizer_call [of fault True s None s1] finalizer_call_wf [of fault True s None s1]
      by (auto split: if_splits)
    have c: "cleanupExcept (grid_store_api fault) svc (map (\<lambda>p. resourceName env svc (pb_gateway p)) ?pubs) s1 = (Inr complete, s2)"
      using published(2) True fin by simp
    from covered_cleanup [OF c s1(1) fault s1(2)] have s2: "wf_grid_store s2" "st_finalizer s2" by simp_all
    from publishLoop_wf [OF published(3) s2(1) place] publishLoop_finalizer [OF published(3)] s2(2)
    have s3: "wf_grid_store s3" "st_finalizer s3" by simp_all
    show ?thesis
    proof (cases "?pubs = [] \<and> complete")
      case True
      have "s3 = s2" using True published(3) by simp
      moreover have "\<not> owned_left svc s2" using cleanup_nothing_owned [OF _ s1(1) fault, of svc s2] c True by simp
      moreover have f: "gp_finalizer (grid_store_api fault) False s3 = (r, s')"
        using published(4) True fin \<open>st_finalizer s \<or> ?pubs \<noteq> []\<close> by simp
      ultimately show ?thesis
        using finalizer_call [OF f] finalizer_call_wf [OF f] s3 published(5) by (auto simp: covered_def owned_left_def)
    next
      case False
      then have "s' = s3" "res \<noteq> Done" using published(4,5) by auto
      with s3 show ?thesis by simp
    qed
  next
    case False
    then have "s' = s" using published fin by (auto split: if_splits)
    with False wf cov show ?thesis by (simp add: covered_def)
  qed
qed

lemma ReconcileGrid_covered:
  assumes run: "ReconcileGrid env (grid_store_api fault) req s = (res, s')" and reads: "reads_service env req svc s"
    and wf: "wf_grid_store s" and cov: "covered svc s" and fault: "honest fault" and place: "keeps_place env"
  shows "wf_grid_store s' \<and> covered svc s'"
proof (cases "\<exists>cur plan. gd_service env req = Inr cur \<and> desiredPublications env cur = Inr plan")
  case True
  then obtain cur plan where cur: "gd_service env req = Inr cur" "desiredPublications env cur = Inr plan" by blast
  note same = same_identity [of cur svc]
  from reads cur(1) cov same have "(gridFinalizer \<in> set (om_finalizers (sg_meta cur))) = st_finalizer s" "covered cur s"
    by (simp_all add: reads_service_def)
  from ReconcileGrid_steps [OF run cur this(1) wf this(2) fault place] reads cur(1) same show ?thesis
    by (simp add: reads_service_def)
next
  case False
  then have "s' = s" using run by (auto simp: ReconcileGrid_def split: sum.splits)
  with wf cov show ?thesis by simp
qed

section \<open>Properties\<close>

text \<open>
  The runs around one service: the controller reconciles, in any environment and with any failing calls, and other actors
  change the cluster in between; they neither make objects that carry the marks of the service nor touch the
  Grid finalizer.
\<close>

inductive grid_reach :: "namespaced_name \<Rightarrow> grid_service \<Rightarrow> grid_store \<Rightarrow> bool" for req svc where
  start: "wf_grid_store s \<Longrightarrow> \<not> owned_left svc s \<Longrightarrow> grid_reach req svc s"
| reconcile: "grid_reach req svc s \<Longrightarrow> reads_service env req svc s \<Longrightarrow> honest fault \<Longrightarrow> keeps_place env \<Longrightarrow>
    grid_reach req svc (snd (ReconcileGrid env (grid_store_api fault) req s))"
| others: "grid_reach req svc s \<Longrightarrow> wf_grid_store s' \<Longrightarrow> st_finalizer s' = st_finalizer s \<Longrightarrow>
    (owned_left svc s' \<longrightarrow> owned_left svc s) \<Longrightarrow> grid_reach req svc s'"

lemma grid_reach_inv: "grid_reach req svc s \<Longrightarrow> wf_grid_store s \<and> covered svc s"
proof (induction rule: grid_reach.induct)
  case (reconcile s env fault)
  then show ?case
    by (cases "ReconcileGrid env (grid_store_api fault) req s") (auto dest: ReconcileGrid_covered)
qed (auto simp: covered_def)

text \<open>
  Property C1. Access that was granted to Grid is never orphaned: in every state that reconciles and other actors reach, with API calls
  failing at any point, a role, binding, policy or provider that carries the marks of the service exists only
  while the service has the finalizer.
\<close>

theorem grid_access_covered:
  assumes "grid_reach req svc s" and "x \<in> set (st_objects s)" and "in_scope svc x" and "gridOwned (gb_meta x) svc"
  shows "st_finalizer s"
  using grid_reach_inv [OF assms(1)] assms(2-4) by (auto simp: covered_def owned_left_def)

text \<open>
  Property C20. A reconcile of an existing service that ends without an error and without a request to be called again has
  withdrawn everything: nothing that carries the marks of the service is left in the cluster and the
  finalizer is gone.
\<close>

theorem ReconcileGrid_done:
  assumes "ReconcileGrid env (grid_store_api fault) req s = (Done, s')" and "gd_service env req = Inr svc"
    and "grid_reach req svc s" and "reads_service env req svc s" and "honest fault" and "keeps_place env"
  shows "\<not> st_finalizer s' \<and> (\<forall>x \<in> set (st_objects s'). in_scope svc x \<longrightarrow> \<not> gridOwned (gb_meta x) svc)"
proof -
  obtain plan where plan: "desiredPublications env svc = Inr plan"
    using assms(1,2) by (auto simp: ReconcileGrid_def split: sum.splits)
  from grid_reach_inv [OF assms(3)] assms(2,4) ReconcileGrid_steps [OF assms(1,2) plan _ _ _ assms(5,6)]
  have "\<not> owned_left svc s' \<and> \<not> st_finalizer s'" by (simp add: reads_service_def)
  then show ?thesis by (simp add: owned_left_def)
qed

text \<open>A cluster in which the demo service is to be published by one gateway.\<close>

definition grid_gateway :: gateway where
  "grid_gateway = \<lparr>gw_meta = empty_meta\<lparr>om_name := ''gw'', om_namespace := ''opendatahub'', om_annotations := [(GridServingAnnotation, ''{}'')]\<rparr>,
     gw_listeners = [], gw_conditions = []\<rparr>"

definition demo_grid_env :: "grid_service \<Rightarrow> grid_env" where
  "demo_grid_env svc = children_env.extend (gateway_env.extend ((small_env [] [] [])\<lparr>ge_gateway := (\<lambda>_ _. Inr grid_gateway)\<rparr>)
     \<lparr>ce_child_name = (\<lambda>a b. a @ b),
      ce_own = (\<lambda>g m. Inr (m\<lparr>om_owners := [\<lparr>or_api = [], or_kind = ''LLMInferenceService'', or_name = om_name g,
         or_uid = om_uid g, or_controller = Some True\<rparr>]\<rparr>)),
      ce_env = (\<lambda>_. None), ce_policy = (\<lambda>_ _. Inl NotFound), ce_envoy = (\<lambda>_. Inl NotFound),
      ce_derives = (=), ce_derives_labels = (=), ce_token = (\<lambda>_. True),
      ce_grid_json = (\<lambda>_. Inr \<lparr>gv_network = ''n'', gv_namespace = ''grid'', gv_account = ''a'', gv_secret = ''s'',
         gv_site_labels = [], gv_metrics = False, gv_plaintext = False\<rparr>),
      ce_subdomain = (\<lambda>_. True), ce_label = (\<lambda>_. True), ce_label_map = (\<lambda>_. Some []),
      ce_kuadrants = Inr [], ce_authorinos = (\<lambda>_. Inr []), ce_issuer = Inl NotFound\<rparr>)
     \<lparr>gd_lib = demo_grid_lib, gd_digest = (\<lambda>_. ''d''), gd_service = (\<lambda>_. Inr svc), gd_base_refs = (\<lambda>_. []),
      gd_namespace_meta = (\<lambda>_. Inr (empty_meta\<lparr>om_labels := [(GridAllowedLabel, ''true'')]\<rparr>)),
      gd_spec = (\<lambda>_ _. Inl NotFound), gd_merge = (\<lambda>_ s. Inr (sg_model s, sg_has_group s)), gd_mapping = None,
      gd_account = (\<lambda>_. Inr (empty_meta\<lparr>om_name := ''a''\<rparr>)),
      gd_secret = (\<lambda>_. Inr \<lparr>sec_meta = empty_meta\<lparr>om_annotations := [(''kubernetes.io/service-account.name'', ''a'')]\<rparr>,
         sec_type = ''kubernetes.io/service-account-token'', sec_data = [(''token'', ''t'')]\<rparr>),
      gd_controlled = (\<lambda>_ _. False), gd_hostname = (\<lambda>a b. a)\<rparr>"

definition empty_grid :: "bool \<Rightarrow> grid_store" where
  "empty_grid fin = \<lparr>st_objects = [], st_services = [], st_crd = True, st_finalizer = fin, st_clock = 0\<rparr>"

definition demo_published :: grid_store where
  "demo_published = snd (ReconcileGrid (demo_grid_env demo_grid_service) (grid_store_api (\<lambda>_. None)) ([], []) (empty_grid False))"

lemma demo_published_role:
  "list_ex (\<lambda>x. gb_kind x = RoleKind \<and> in_scope demo_grid_service x \<and> gridOwned (gb_meta x) demo_grid_service) (st_objects demo_published)"
  by code_simp

lemma demo_grid_place: "keeps_place (demo_grid_env svc)"
  by (auto simp: keeps_place_def demo_grid_env_def children_env.defs gateway_env.defs)

lemma demo_grid_reads:
  "gd_service (demo_grid_env svc) req = Inr svc"
  "reads_service (demo_grid_env svc) req svc s \<longleftrightarrow> (gridFinalizer \<in> set (om_finalizers (sg_meta svc))) = st_finalizer s"
  by (simp_all add: reads_service_def demo_grid_env_def children_env.defs gateway_env.defs)

lemma demo_start: "grid_reach req svc (empty_grid fin)"
  by (rule grid_reach.start) (simp_all add: wf_grid_store_def owned_left_def empty_grid_def)

text \<open>The same service when it is being deleted: one reconcile takes everything back.\<close>

definition leaving_service :: grid_service where
  "leaving_service = demo_grid_service\<lparr>sg_meta := (sg_meta demo_grid_service)\<lparr>om_finalizers := [gridFinalizer], om_deleting := True\<rparr>\<rparr>"

lemma demo_published_reach:
  "svc = demo_grid_service \<or> svc = leaving_service \<Longrightarrow> grid_reach ([], []) svc demo_published"
  unfolding demo_published_def
  by (rule grid_reach.reconcile [OF demo_start])
    (auto simp: demo_grid_place demo_grid_reads(1) reads_service_def honest_def demo_grid_service_def empty_grid_def empty_meta_def
      leaving_service_def)

theorem grid_access_covered_witness: "st_objects demo_published \<noteq> [] \<and> st_finalizer demo_published"
  using demo_published_role grid_access_covered [OF demo_published_reach, of demo_grid_service] by (auto simp: list_ex_iff)

lemma leaving_run:
  "fst (ReconcileGrid (demo_grid_env leaving_service) (grid_store_api (\<lambda>_. None)) ([], []) demo_published) = Done"
  by code_simp

theorem ReconcileGrid_done_witness:
  "let s' = snd (ReconcileGrid (demo_grid_env leaving_service) (grid_store_api (\<lambda>_. None)) ([], []) demo_published)
   in \<not> st_finalizer s' \<and> filter (\<lambda>x. in_scope leaving_service x \<and> gridOwned (gb_meta x) leaving_service) (st_objects s') = []"
proof -
  let ?run = "ReconcileGrid (demo_grid_env leaving_service) (grid_store_api (\<lambda>_. None)) ([], []) demo_published"
  have run: "?run = (Done, snd ?run)" using leaving_run by (metis prod.collapse)
  have reach: "grid_reach ([], []) leaving_service demo_published" by (rule demo_published_reach) simp
  have "gridFinalizer \<in> set (om_finalizers (sg_meta leaving_service)) \<and> st_finalizer demo_published" by code_simp
  then have "reads_service (demo_grid_env leaving_service) ([], []) leaving_service demo_published"
    by (simp add: demo_grid_reads(2))
  from ReconcileGrid_done [OF run demo_grid_reads(1) reach this _ demo_grid_place] show ?thesis
    by (auto simp: honest_def filter_empty_conv)
qed

end
