(* ===== verification/Auth_Binding.thy ===== *)
theory Auth_Binding
  imports Managed_Children "HOL-Library.Word"
begin

text \<open>
  The ClusterRoleBinding that lets the authentication proxy of an InferenceService review tokens
  (internal/controller/serving/reconcilers/kserve_raw_clusterrolebinding_reconciler.go and
  internal/controller/resources/clusterrolebinding.go). A binding is cluster-scoped: the API server drops the namespace
  from its key, so it is found by its name.
\<close>

section \<open>Data\<close>

text \<open>
  What the reconcilers of an InferenceService read of it: the ServiceAccount and the timeouts of the components that
  are present, and the name and traffic percentage of each canary.
\<close>

record served_isvc =
  si_meta :: object_meta
  si_service_account :: string
  si_timeout :: "64 word option"
  si_transformer :: "64 word option option"
  si_explainer :: "64 word option option"
  si_canary :: "(string \<times> 32 word) list"

record binding_spec =
  bn_subjects :: "subject list"
  bn_role :: role_ref

type_synonym binding = "binding_spec child"

definition KserveServiceAccountName :: string where "KserveServiceAccountName = ''default''"
definition EnableAuthODHAnnotation :: string where "EnableAuthODHAnnotation = ''security.opendatahub.io/enable-auth''"

section \<open>The handler\<close>

definition GetClusterRoleBindingName :: "string \<Rightarrow> string \<Rightarrow> string" where
  "GetClusterRoleBindingName isvcNamespace serviceAccountName = isvcNamespace @ ''-'' @ serviceAccountName @ ''-auth-delegator''"

definition binding_key :: "string \<Rightarrow> string \<Rightarrow> namespaced_name" where
  "binding_key ns sa = ([], GetClusterRoleBindingName ns sa)"

definition CreateDesiredClusterRoleBinding :: "string \<Rightarrow> string \<Rightarrow> string \<Rightarrow> binding" where
  "CreateDesiredClusterRoleBinding crbName serviceAccountName namespace =
     \<lparr>ch_meta = empty_meta\<lparr>om_name := crbName\<rparr>,
      ch_spec = \<lparr>bn_subjects = [\<lparr>sb_kind = ''ServiceAccount'', sb_name = serviceAccountName, sb_namespace = namespace\<rparr>],
        bn_role = \<lparr>rf_group = ''rbac.authorization.k8s.io'', rf_kind = ''ClusterRole'', rf_name = ''system:auth-delegator''\<rparr>\<rparr>\<rparr>"

definition FetchClusterRoleBinding :: "binding_spec child_api \<Rightarrow> namespaced_name \<Rightarrow> api_error + binding option" where
  "FetchClusterRoleBinding api key =
     (case ca_get api key of Inl e \<Rightarrow> if e = NotFound then Inr None else Inl e | Inr c \<Rightarrow> Inr (Some c))"

definition DeleteClusterRoleBinding :: "binding_spec child_api \<Rightarrow> namespaced_name \<Rightarrow> binding_spec child_result" where
  "DeleteClusterRoleBinding api key =
     (case ca_get api key of
        Inl e \<Rightarrow> ([], if e = NotFound then None else Some e)
      | Inr c \<Rightarrow> ([DeleteChild (child_key c)], ca_delete api (child_key c)))"

definition GetClusterRoleBindingComparator :: "binding \<Rightarrow> binding \<Rightarrow> bool" where
  "GetClusterRoleBindingComparator deployed requested =
     (bn_role (ch_spec deployed) = bn_role (ch_spec requested) \<and> bn_subjects (ch_spec deployed) = bn_subjects (ch_spec requested))"

text \<open>At most one of the three flags of a delta is set, so the three steps of the code exclude each other.\<close>

definition ProcessDelta :: "binding_spec child_api \<Rightarrow> binding option \<Rightarrow> binding option \<Rightarrow> binding_spec child_result" where
  "ProcessDelta api desiredCRB existingCRB =
     (case (ComputeDelta GetClusterRoleBindingComparator desiredCRB existingCRB, desiredCRB, existingCRB) of
        (delta, Some desired, None) \<Rightarrow>
          if rd_added delta then
            ([CreateChild desired], case ca_create api desired of Some AlreadyExists \<Rightarrow> None | r \<Rightarrow> r)
          else ([], None)
      | (delta, Some desired, Some existing) \<Rightarrow>
          if rd_updated delta then
            (let rp = existing\<lparr>ch_spec := \<lparr>bn_subjects = bn_subjects (ch_spec desired), bn_role = bn_role (ch_spec desired)\<rparr>\<rparr>
             in ([UpdateChild rp], ca_update api 0 rp))
          else ([], None)
      | (delta, None, Some existing) \<Rightarrow>
          if rd_removed delta then ([DeleteChild (child_key existing)], ca_delete api (child_key existing)) else ([], None)
      | (delta, None, None) \<Rightarrow> ([], None))"

section \<open>The reconciler\<close>

definition authRequested :: "served_isvc \<Rightarrow> bool" where
  "authRequested isvc = (map_of (om_annotations (si_meta isvc)) EnableAuthODHAnnotation = Some ''true'')"

text \<open>\<open>isvcs\<close> answers the List of the InferenceServices of a namespace.\<close>

definition getExistingIsvcsWithTheSameSAandAuthEnabled ::
    "(string \<Rightarrow> api_error + served_isvc list) \<Rightarrow> string \<Rightarrow> string \<Rightarrow> api_error + served_isvc list" where
  "getExistingIsvcsWithTheSameSAandAuthEnabled isvcs isvcSA namespace =
     (case isvcs namespace of
        Inl e \<Rightarrow> Inl e
      | Inr items \<Rightarrow>
          Inr (filter (\<lambda>svc. \<not> om_deleting (si_meta svc) \<and> authRequested svc \<and>
            (isvcSA = KserveServiceAccountName \<and> si_service_account svc = [] \<or> isvcSA = si_service_account svc)) items))"

definition accountOf :: "served_isvc \<Rightarrow> string" where
  "accountOf isvc = (if si_service_account isvc \<noteq> [] then si_service_account isvc else KserveServiceAccountName)"

definition createDesiredBinding :: "(string \<Rightarrow> api_error + served_isvc list) \<Rightarrow> served_isvc \<Rightarrow> api_error + binding option" where
  "createDesiredBinding isvcs isvc =
     (let isvcSA = accountOf isvc; ns = om_namespace (si_meta isvc);
          desired = CreateDesiredClusterRoleBinding (GetClusterRoleBindingName ns isvcSA) isvcSA ns
      in if authRequested isvc then Inr (Some desired)
         else (case getExistingIsvcsWithTheSameSAandAuthEnabled isvcs isvcSA ns of
                 Inl e \<Rightarrow> Inl e
               | Inr existingIsvcs \<Rightarrow> Inr (if existingIsvcs = [] then None else Some desired)))"

definition getExistingBinding :: "binding_spec child_api \<Rightarrow> served_isvc \<Rightarrow> api_error + binding option" where
  "getExistingBinding api isvc =
     (let isvcSA = (if si_service_account isvc \<noteq> KserveServiceAccountName then si_service_account isvc else KserveServiceAccountName)
      in FetchClusterRoleBinding api (binding_key (om_namespace (si_meta isvc)) isvcSA))"

definition ReconcileBinding ::
    "(string \<Rightarrow> api_error + served_isvc list) \<Rightarrow> served_isvc \<Rightarrow> binding_spec child_api \<Rightarrow> binding_spec child_result" where
  "ReconcileBinding isvcs isvc api =
     (case createDesiredBinding isvcs isvc of
        Inl e \<Rightarrow> ([], Some e)
      | Inr desired \<Rightarrow>
          (case getExistingBinding api isvc of
             Inl e \<Rightarrow> ([], Some e)
           | Inr existing \<Rightarrow> ProcessDelta api desired existing))"

definition DeleteBinding ::
    "(string \<Rightarrow> api_error + served_isvc list) \<Rightarrow> served_isvc \<Rightarrow> binding_spec child_api \<Rightarrow> binding_spec child_result" where
  "DeleteBinding isvcs isvc api =
     (let isvcSA = accountOf isvc; ns = om_namespace (si_meta isvc)
      in case getExistingIsvcsWithTheSameSAandAuthEnabled isvcs isvcSA ns of
           Inl e \<Rightarrow> ([], Some e)
         | Inr existingIsvcs \<Rightarrow> if existingIsvcs = [] then DeleteClusterRoleBinding api (binding_key ns isvcSA) else ([], None))"

section \<open>Lemmas\<close>

text \<open>Who uses the account of a service and asks for authentication.\<close>

definition asksFor :: "served_isvc \<Rightarrow> served_isvc \<Rightarrow> bool" where
  "asksFor isvc o' = (\<not> om_deleting (si_meta o') \<and> authRequested o' \<and> accountOf o' = accountOf isvc)"

lemma same_account:
  "accountOf isvc = KserveServiceAccountName \<and> si_service_account svc = [] \<or> accountOf isvc = si_service_account svc \<longleftrightarrow>
   accountOf svc = accountOf isvc"
  by (auto simp: accountOf_def KserveServiceAccountName_def)

lemma getExisting_asks:
  "isvcs ns = Inr items \<Longrightarrow> getExistingIsvcsWithTheSameSAandAuthEnabled isvcs (accountOf isvc) ns = Inr (filter (asksFor isvc) items)"
  unfolding getExistingIsvcsWithTheSameSAandAuthEnabled_def same_account by (simp add: asksFor_def [abs_def])

definition bindingWanted :: "served_isvc \<Rightarrow> served_isvc list \<Rightarrow> bool" where
  "bindingWanted isvc items = (authRequested isvc \<or> list_ex (asksFor isvc) items)"

definition wantedBinding :: "served_isvc \<Rightarrow> binding" where
  "wantedBinding isvc = CreateDesiredClusterRoleBinding (GetClusterRoleBindingName (om_namespace (si_meta isvc)) (accountOf isvc))
     (accountOf isvc) (om_namespace (si_meta isvc))"

lemma createDesiredBinding_eq:
  "isvcs (om_namespace (si_meta isvc)) = Inr items \<Longrightarrow>
   createDesiredBinding isvcs isvc = Inr (if bindingWanted isvc items then Some (wantedBinding isvc) else None)"
  by (auto simp: createDesiredBinding_def Let_def getExisting_asks bindingWanted_def wantedBinding_def list_ex_iff filter_empty_conv)

lemma wantedBinding_key [simp]:
  "child_key (wantedBinding isvc) = binding_key (om_namespace (si_meta isvc)) (accountOf isvc)"
  by (simp add: child_key_def wantedBinding_def CreateDesiredClusterRoleBinding_def binding_key_def empty_meta_def)

lemma Fetch_store [simp]: "FetchClusterRoleBinding (child_store_api st) key = Inr (map_of st key)"
  by (cases "map_of st key") (simp_all add: FetchClusterRoleBinding_def)

lemma binding_rebuilt [simp]: "\<lparr>bn_subjects = bn_subjects x, bn_role = bn_role x\<rparr> = (x :: binding_spec)"
  by simp

lemma ProcessDelta_store:
  "ProcessDelta (child_store_api st) desired existing =
     (case (desired, existing) of
        (None, None) \<Rightarrow> ([], None)
      | (Some d, None) \<Rightarrow> ([CreateChild d], None)
      | (None, Some e) \<Rightarrow> ([DeleteChild (child_key e)], None)
      | (Some d, Some e) \<Rightarrow> if ch_spec e = ch_spec d then ([], None) else ([UpdateChild (e\<lparr>ch_spec := ch_spec d\<rparr>)], None))"
  by (auto simp: ProcessDelta_def ComputeDelta_def GetClusterRoleBindingComparator_def Let_def split: option.split)

lemma explicit_account:
  "si_service_account isvc \<noteq> [] \<Longrightarrow>
   getExistingBinding (child_store_api st) isvc = Inr (map_of st (binding_key (om_namespace (si_meta isvc)) (accountOf isvc)))"
  by (auto simp: getExistingBinding_def accountOf_def)

section \<open>Properties\<close>

text \<open>
  Property C38. For a service with a ServiceAccount of its own the reconcile makes the binding exactly right: it exists afterwards
  just when the service, or another one that uses the account and is not being deleted, asks for authentication; it then
  binds that account and nothing else. No other binding changes, and a second reconcile writes nothing. The services of the namespace can be
  listed, and the store keeps bindings under their names and accepts all writes.
\<close>

theorem ReconcileBinding_exact:
  assumes sa: "si_service_account isvc \<noteq> []" and items: "isvcs (om_namespace (si_meta isvc)) = Inr items" and wf: "wf_children st"
    and key: "key = binding_key (om_namespace (si_meta isvc)) (si_service_account isvc)"
    and after: "st' = fold apply_child_write (fst (ReconcileBinding isvcs isvc (child_store_api st))) st"
  shows "map_option ch_spec (map_of st' key) =
      (if authRequested isvc \<or> (\<exists>o' \<in> set items. \<not> om_deleting (si_meta o') \<and> authRequested o' \<and> accountOf o' = accountOf isvc)
       then Some \<lparr>bn_subjects = [\<lparr>sb_kind = ''ServiceAccount'', sb_name = si_service_account isvc, sb_namespace = om_namespace (si_meta isvc)\<rparr>],
         bn_role = \<lparr>rf_group = ''rbac.authorization.k8s.io'', rf_kind = ''ClusterRole'', rf_name = ''system:auth-delegator''\<rparr>\<rparr>
       else None) \<and>
    (\<forall>k. k \<noteq> key \<longrightarrow> map_of st' k = map_of st k) \<and> ReconcileBinding isvcs isvc (child_store_api st') = ([], None)"
proof -
  have acc: "accountOf isvc = si_service_account isvc" using sa by (simp add: accountOf_def)
  let ?want = "bindingWanted isvc items"
  have run: "ReconcileBinding isvcs isvc (child_store_api x) =
      ProcessDelta (child_store_api x) (if ?want then Some (wantedBinding isvc) else None) (map_of x key)" for x
    by (simp add: ReconcileBinding_def createDesiredBinding_eq [of isvcs isvc, OF items] explicit_account [OF sa] key acc)
  have k: "child_key c = key" if "map_of st key = Some c" for c using wf that by (rule wf_childrenD)
  have place: "child_key (c\<lparr>ch_spec := x\<rparr>) = child_key c" for c :: binding and x by (simp add: child_key_def)
  have state: "map_option ch_spec (map_of st' key) = (if ?want then Some (ch_spec (wantedBinding isvc)) else None)"
    "\<forall>k'. k' \<noteq> key \<longrightarrow> map_of st' k' = map_of st k'"
    unfolding after run ProcessDelta_store
    by (cases "map_of st key"; use k in \<open>force simp: key acc place\<close>)+
  moreover have "ReconcileBinding isvcs isvc (child_store_api st') = ([], None)"
    using state(1) unfolding run ProcessDelta_store by (auto split: option.split if_splits)
  moreover have "?want \<longleftrightarrow> authRequested isvc \<or> (\<exists>o' \<in> set items. \<not> om_deleting (si_meta o') \<and> authRequested o' \<and> accountOf o' = accountOf isvc)"
    by (auto simp: bindingWanted_def asksFor_def list_ex_iff)
  ultimately show ?thesis by (auto simp: wantedBinding_def CreateDesiredClusterRoleBinding_def acc)
qed

definition plain_service :: "string \<Rightarrow> string \<Rightarrow> bool \<Rightarrow> served_isvc" where
  "plain_service ns sa auth = \<lparr>si_meta = empty_meta\<lparr>om_name := ''m'', om_namespace := ns,
       om_annotations := (if auth then [(EnableAuthODHAnnotation, ''true'')] else [])\<rparr>,
     si_service_account = sa, si_timeout = None, si_transformer = None, si_explainer = None, si_canary = []\<rparr>"

lemma plain_simps [simp]:
  "authRequested (plain_service ns sa auth) = auth" "si_service_account (plain_service ns sa auth) = sa"
  "om_namespace (si_meta (plain_service ns sa auth)) = ns" "om_deleting (si_meta (plain_service ns sa auth)) = False"
  by (simp_all add: plain_service_def authRequested_def empty_meta_def)

theorem ReconcileBinding_exact_witness:
  "map_of (fold apply_child_write (fst (ReconcileBinding (\<lambda>_. Inr []) (plain_service ''ns'' ''sa'' True) (child_store_api []))) [])
     (binding_key ''ns'' ''sa'') \<noteq> None"
proof -
  have "wf_children ([] :: binding_spec child_store)" by (simp add: wf_children_def)
  from ReconcileBinding_exact [of "plain_service ''ns'' ''sa'' True" "\<lambda>_. Inr []" "[]", OF _ _ this refl refl]
  show ?thesis by auto
qed

text \<open>
  For a service that leaves the ServiceAccount to the default, the reconcile looks for the binding under another name
  than it is created with. A binding that is no longer wanted, because nobody asks for authentication any more, is not
  found and stays, whatever it binds; only the deletion of the service, which uses the right name, removes it.
\<close>

theorem default_account_binding_stays:
  assumes sa: "si_service_account isvc = []" and off: "\<not> authRequested isvc"
    and items: "isvcs (om_namespace (si_meta isvc)) = Inr items" "\<not> list_ex (asksFor isvc) items"
    and free: "map_of st (binding_key (om_namespace (si_meta isvc)) []) = None"
    and old: "map_of st (binding_key (om_namespace (si_meta isvc)) KserveServiceAccountName) = Some c" "wf_children st"
  shows "ReconcileBinding isvcs isvc (child_store_api st) = ([], None) \<and>
    DeleteBinding isvcs isvc (child_store_api st) =
      ([DeleteChild (binding_key (om_namespace (si_meta isvc)) KserveServiceAccountName)], None)"
proof -
  have acc: "accountOf isvc = KserveServiceAccountName" using sa by (simp add: accountOf_def)
  have "getExistingBinding (child_store_api st) isvc = Inr None"
    using sa free by (simp add: getExistingBinding_def KserveServiceAccountName_def)
  moreover have "createDesiredBinding isvcs isvc = Inr None"
    using off items by (simp add: createDesiredBinding_eq [of isvcs isvc, OF items(1)] bindingWanted_def)
  ultimately have "ReconcileBinding isvcs isvc (child_store_api st) = ([], None)"
    by (simp add: ReconcileBinding_def ProcessDelta_store)
  moreover have "filter (asksFor isvc) items = []" using items(2) by (auto simp: list_ex_iff filter_empty_conv)
  moreover have "child_key c = binding_key (om_namespace (si_meta isvc)) KserveServiceAccountName"
    using old by (simp add: wf_childrenD)
  ultimately show ?thesis
    using old getExisting_asks [of isvcs "om_namespace (si_meta isvc)" items isvc] items(1)
    by (simp add: DeleteBinding_def acc DeleteClusterRoleBinding_def)
qed

theorem default_account_binding_stays_witness:
  "fst (ReconcileBinding (\<lambda>_. Inr []) (plain_service ''ns'' [] False)
      (child_store_api [(binding_key ''ns'' ''default'', wantedBinding (plain_service ''ns'' [] True))])) = []"
proof -
  let ?b = "wantedBinding (plain_service ''ns'' [] True)"
  let ?st = "[(binding_key ''ns'' ''default'', ?b)]"
  have "wf_children ?st" by (simp add: wf_children_def accountOf_def KserveServiceAccountName_def)
  moreover have "map_of ?st (binding_key ''ns'' []) = None"
    by (simp add: binding_key_def GetClusterRoleBindingName_def)
  ultimately show ?thesis
    using default_account_binding_stays [of "plain_service ''ns'' [] False" "\<lambda>_. Inr []" "[]" ?st ?b]
    by (simp add: KserveServiceAccountName_def)
qed

text \<open>
  The name of a binding does not determine namespace and account: services of two namespaces can share one, and
  then each reconcile binds its own account in place of the other's.
\<close>

theorem bindings_collide:
  assumes "ns \<noteq> []" and "a \<noteq> []" and "b \<noteq> []"
  shows "let i = plain_service ns (a @ ''-'' @ b) True; j = plain_service (ns @ ''-'' @ a) b True;
      key = binding_key ns (a @ ''-'' @ b); run = (\<lambda>x st. fold apply_child_write (fst (ReconcileBinding (\<lambda>_. Inr []) x (child_store_api st))) st)
    in key = binding_key (ns @ ''-'' @ a) b \<and>
       map_option (map sb_namespace \<circ> bn_subjects \<circ> ch_spec) (map_of (run i []) key) = Some [ns] \<and>
       map_option (map sb_namespace \<circ> bn_subjects \<circ> ch_spec) (map_of (run j (run i [])) key) = Some [ns @ ''-'' @ a]"
proof -
  let ?i = "plain_service ns (a @ ''-'' @ b) True" and ?j = "plain_service (ns @ ''-'' @ a) b True"
  let ?run = "\<lambda>x st. fold apply_child_write (fst (ReconcileBinding (\<lambda>_. Inr []) x (child_store_api st))) st"
  have key: "binding_key ns (a @ ''-'' @ b) = binding_key (ns @ ''-'' @ a) b"
    by (simp add: binding_key_def GetClusterRoleBindingName_def)
  have acc: "accountOf ?i = a @ ''-'' @ b" "accountOf ?j = b" using assms by (simp_all add: accountOf_def)
  note acc = acc [simplified]
  have run_i: "?run ?i [] = [(binding_key ns (a @ ''-'' @ b), wantedBinding ?i)]"
    using assms by (simp add: ReconcileBinding_def createDesiredBinding_eq [of _ _ "[]"] explicit_account ProcessDelta_store
        bindingWanted_def apply_child_write_def acc)
  have "map_of (?run ?j (?run ?i [])) (binding_key (ns @ ''-'' @ a) b) = Some ((wantedBinding ?i)\<lparr>ch_spec := ch_spec (wantedBinding ?j)\<rparr>)"
    using assms key unfolding run_i
    by (simp add: ReconcileBinding_def createDesiredBinding_eq [of _ _ "[]"] explicit_account ProcessDelta_store
        bindingWanted_def acc child_key_def wantedBinding_def CreateDesiredClusterRoleBinding_def binding_key_def empty_meta_def)
  then show ?thesis using run_i key
    by (simp add: Let_def wantedBinding_def CreateDesiredClusterRoleBinding_def acc)
qed

theorem bindings_collide_witness: "binding_key ''dev'' ''ml-sa'' = binding_key ''dev-ml'' ''sa''"
  using bindings_collide [of "''dev''" "''ml''" "''sa''"] by (simp add: Let_def)

end
