(* ===== verification/Raw_Route.thy ===== *)
theory Raw_Route
  imports Auth_Binding
begin

text \<open>
  The OpenShift Route of an exposed InferenceService (internal/controller/serving/reconcilers/kserve_raw_route_reconciler.go,
  internal/controller/resources/route.go, internal/controller/comparators/route_comparator.go and the timeout in
  internal/controller/utils/utils.go). Percentages and weights are 32-bit and timeouts 64-bit integers, as in the code.
\<close>

section \<open>Data\<close>

record core_service =
  cs_name :: string
  cs_labels :: "string gomap"
  cs_ports :: "service_port list"

record route_target =
  to_name :: string
  to_weight :: "32 word"

record route_tls =
  tl_termination :: string
  tl_insecure :: string

record route_spec =
  ro_host :: string
  ro_to :: route_target
  ro_alternates :: "route_target list"
  ro_port :: "int_or_string option"
  ro_tls :: "route_tls option"
  ro_wildcard :: string

type_synonym route = "route_spec child"

text \<open>
  \<open>re_services\<close> answers the List of the services of a namespace that carry the label of an InferenceService,
  \<open>re_service\<close> a Get; \<open>re_own\<close> is \<open>SetControllerReference\<close>; \<open>re_isvc_api\<close> is the API version of InferenceServices.
\<close>

record route_env =
  re_services :: "string \<Rightarrow> string \<Rightarrow> api_error + core_service list"
  re_service :: "namespaced_name \<Rightarrow> api_error + core_service"
  re_own :: "object_meta \<Rightarrow> object_meta \<Rightarrow> api_error + object_meta"
  re_isvc_api :: string

definition RouteTimeoutAnnotationKey :: string where "RouteTimeoutAnnotationKey = ''haproxy.router.openshift.io/timeout''"
definition KserveNetworkVisibility :: string where "KserveNetworkVisibility = ''networking.kserve.io/visibility''"

section \<open>The desired route\<close>

text \<open>\<open>strconv.ParseBool\<close>.\<close>

definition parseBool :: "string \<Rightarrow> bool option" where
  "parseBool s =
     (if s \<in> {''1'', ''t'', ''T'', ''TRUE'', ''true'', ''True''} then Some True
      else if s \<in> {''0'', ''f'', ''F'', ''FALSE'', ''false'', ''False''} then Some False else None)"

definition enableSSL :: "served_isvc \<Rightarrow> bool" where
  "enableSSL isvc = (parseBool (m_str (om_annotations (si_meta isvc)) EnableAuthODHAnnotation) = Some True)"

definition routeEnabled :: "'z served_isvc_scheme \<Rightarrow> bool" where
  "routeEnabled isvc = (m_str (om_labels (si_meta isvc)) KserveNetworkVisibility = ''exposed'')"

text \<open>The loop over the services: the predictor and the transformer found so far.\<close>

fun pickServices ::
    "string \<Rightarrow> core_service list \<Rightarrow> core_service option \<times> core_service option \<Rightarrow> core_service option \<times> core_service option" where
  "pickServices predictorName [] found = found"
| "pickServices predictorName (svc # svcs) (predictor, transformer) =
     (if map_of (cs_labels svc) ''component'' = Some ''transformer'' then pickServices predictorName svcs (predictor, Some svc)
      else if cs_name svc = predictorName then pickServices predictorName svcs (Some svc, transformer)
      else if map_of (cs_labels svc) ''component'' = Some ''predictor'' \<and> predictor = None
      then pickServices predictorName svcs (Some svc, transformer)
      else pickServices predictorName svcs (predictor, transformer))"

definition setRouteTargetPort :: "bool \<Rightarrow> 'z core_service_scheme \<Rightarrow> api_error + int_or_string" where
  "setRouteTargetPort ssl svc =
     (case find (\<lambda>p. sp_name p = (if ssl then ''https'' else ''http'')) (cs_ports svc) of
        Some p \<Rightarrow> Inr (PortName (sp_name p))
      | None \<Rightarrow>
          (case find (\<lambda>p. sp_name p \<noteq> []) (cs_ports svc) of
             Some p \<Rightarrow> Inr (PortName (sp_name p))
           | None \<Rightarrow>
               (case cs_ports svc of
                  p # _ \<Rightarrow> Inr (PortNumber (sp_port p))
                | [] \<Rightarrow> Inl (ApiFailure (''service has no ports defined: '' @ cs_name svc)))))"

definition DefaultOpenshiftRouteTimeout :: "64 word" where "DefaultOpenshiftRouteTimeout = 30"

definition componentTimeout :: "64 word option \<Rightarrow> 64 word" where
  "componentTimeout t = (case t of Some v \<Rightarrow> v | None \<Rightarrow> DefaultOpenshiftRouteTimeout)"

definition routeTimeout :: "served_isvc \<Rightarrow> 64 word" where
  "routeTimeout isvc =
     componentTimeout (si_timeout isvc) +
     (case si_transformer isvc of None \<Rightarrow> 0 | Some t \<Rightarrow> componentTimeout t) +
     (case si_explainer isvc of None \<Rightarrow> 0 | Some t \<Rightarrow> componentTimeout t)"

definition SetOpenshiftRouteTimeoutForIsvc :: "served_isvc \<Rightarrow> string gomap \<Rightarrow> string gomap" where
  "SetOpenshiftRouteTimeoutForIsvc isvc annotations =
     (case map_of (om_annotations (si_meta isvc)) RouteTimeoutAnnotationKey of
        Some v \<Rightarrow> m_put RouteTimeoutAnnotationKey v annotations
      | None \<Rightarrow> m_put RouteTimeoutAnnotationKey (dec_int (sint (routeTimeout isvc)) @ ''s'') annotations)"

fun canaryBackends :: "route_env \<Rightarrow> served_isvc \<Rightarrow> (string \<times> 32 word) list \<Rightarrow> api_error + route_target list" where
  "canaryBackends env isvc [] = Inr []"
| "canaryBackends env isvc ((name, percent) # canaries) =
     (let canaryServiceName = om_name (si_meta isvc) @ ''-'' @ name @ ''-predictor''
      in case re_service env (om_namespace (si_meta isvc), canaryServiceName) of
           Inl e \<Rightarrow> Inl e
         | Inr _ \<Rightarrow>
             (case canaryBackends env isvc canaries of
                Inl e \<Rightarrow> Inl e
              | Inr backends \<Rightarrow> Inr (\<lparr>to_name = canaryServiceName, to_weight = percent\<rparr> # backends)))"

definition applyCanaryTrafficSplits :: "route_env \<Rightarrow> served_isvc \<Rightarrow> route_spec \<Rightarrow> api_error + route_spec" where
  "applyCanaryTrafficSplits env isvc spec =
     (let totalCanaryPercent = sum_list (map snd (si_canary isvc)); stableWeight = 100 - totalCanaryPercent
      in if sint stableWeight < 0 then Inl (ApiFailure ''canary traffic percents exceed 100'')
         else (case canaryBackends env isvc (si_canary isvc) of
                 Inl e \<Rightarrow> Inl e
               | Inr backends \<Rightarrow> Inr (spec\<lparr>ro_to := (ro_to spec)\<lparr>to_weight := stableWeight\<rparr>, ro_alternates := backends\<rparr>)))"

text \<open>With canaries a named target port is replaced by the target port that the service maps it to.\<close>

definition numericPort :: "core_service \<Rightarrow> int_or_string \<Rightarrow> api_error + int_or_string" where
  "numericPort svc port =
     (case port of
        PortNumber _ \<Rightarrow> Inr port
      | PortName n \<Rightarrow>
          (case find (\<lambda>p. sp_name p = n) (cs_ports svc) of
             Some p \<Rightarrow> Inr (sp_target p)
           | None \<Rightarrow> Inl (ApiFailure (''port not found on service '' @ cs_name svc))))"

definition targetService :: "route_env \<Rightarrow> served_isvc \<Rightarrow> api_error + core_service" where
  "targetService env isvc =
     (case re_services env (om_namespace (si_meta isvc)) (om_name (si_meta isvc)) of
        Inl e \<Rightarrow> Inl e
      | Inr services \<Rightarrow>
          if services = [] then Inl (ApiFailure (''no services found for InferenceService '' @ om_name (si_meta isvc)))
          else (case pickServices (om_name (si_meta isvc) @ ''-predictor'') services (None, None) of
                  (_, Some transformer) \<Rightarrow> Inr transformer
                | (Some predictor, None) \<Rightarrow> Inr predictor
                | (None, None) \<Rightarrow> Inl (ApiFailure (''no predictor or transformer Service found for InferenceService '' @ om_name (si_meta isvc)))))"

definition createDesiredRoute :: "route_env \<Rightarrow> served_isvc \<Rightarrow> api_error + route option" where
  "createDesiredRoute env isvc =
     (if \<not> routeEnabled isvc then Inr None
      else (case targetService env isvc of
              Inl e \<Rightarrow> Inl e
            | Inr svc \<Rightarrow>
                (case setRouteTargetPort (enableSSL isvc) svc of
                   Inl e \<Rightarrow> Inl e
                 | Inr port \<Rightarrow>
                     (let meta = empty_meta\<lparr>om_name := om_name (si_meta isvc), om_namespace := om_namespace (si_meta isvc),
                            om_labels := [(''inferenceservice-name'', om_name (si_meta isvc))],
                            om_annotations := SetOpenshiftRouteTimeoutForIsvc isvc []\<rparr>;
                          spec = \<lparr>ro_host = [], ro_to = \<lparr>to_name = cs_name svc, to_weight = 100\<rparr>, ro_alternates = [],
                            ro_port = Some port,
                            ro_tls = Some \<lparr>tl_termination = (if enableSSL isvc then ''reencrypt'' else ''edge''), tl_insecure = ''Redirect''\<rparr>,
                            ro_wildcard = ''None''\<rparr>
                      in case re_own env (si_meta isvc) meta of
                           Inl e \<Rightarrow> Inl e
                         | Inr meta \<Rightarrow>
                             if si_canary isvc = [] then Inr (Some \<lparr>ch_meta = meta, ch_spec = spec\<rparr>)
                             else (case numericPort svc port of
                                     Inl e \<Rightarrow> Inl e
                                   | Inr port \<Rightarrow>
                                       (case applyCanaryTrafficSplits env isvc (spec\<lparr>ro_port := Some port\<rparr>) of
                                          Inl e \<Rightarrow> Inl e
                                        | Inr spec \<Rightarrow> Inr (Some \<lparr>ch_meta = meta, ch_spec = spec\<rparr>)))))))"

section \<open>Reconciling\<close>

definition FetchRoute :: "route_spec child_api \<Rightarrow> namespaced_name \<Rightarrow> api_error + route option" where
  "FetchRoute api key =
     (case ca_get api key of Inl e \<Rightarrow> if e = NotFound then Inr None else Inl e | Inr c \<Rightarrow> Inr (Some c))"

definition getExistingRoute :: "route_spec child_api \<Rightarrow> served_isvc \<Rightarrow> api_error + route option" where
  "getExistingRoute api isvc = FetchRoute api (om_namespace (si_meta isvc), om_name (si_meta isvc))"

definition checkRouteTargetPort :: "route_env \<Rightarrow> route \<Rightarrow> api_error + route" where
  "checkRouteTargetPort env route =
     (if (case ro_port (ch_spec route) of
            None \<Rightarrow> False
          | Some (PortName n) \<Rightarrow> n \<noteq> []
          | Some (PortNumber n) \<Rightarrow> n \<noteq> 0)
      then Inr route
      else (case re_service env (om_namespace (ch_meta route), to_name (ro_to (ch_spec route))) of
              Inl e \<Rightarrow> Inl e
            | Inr svc \<Rightarrow>
                (let ssl = (case ro_tls (ch_spec route) of None \<Rightarrow> False | Some tls \<Rightarrow> tl_termination tls = ''reencrypt'')
                 in case setRouteTargetPort ssl svc of
                      Inl e \<Rightarrow> Inl e
                    | Inr port \<Rightarrow> Inr (route\<lparr>ch_spec := (ch_spec route)\<lparr>ro_port := Some port\<rparr>\<rparr>))))"

definition GetKServeRouteComparator :: "route \<Rightarrow> route \<Rightarrow> bool" where
  "GetKServeRouteComparator deployed requested =
     (ro_host (ch_spec deployed) = ro_host (ch_spec requested) \<and> ro_to (ch_spec deployed) = ro_to (ch_spec requested) \<and>
      ro_port (ch_spec deployed) = ro_port (ch_spec requested) \<and> ro_tls (ch_spec deployed) = ro_tls (ch_spec requested) \<and>
      ro_wildcard (ch_spec deployed) = ro_wildcard (ch_spec requested) \<and>
      ro_alternates (ch_spec deployed) = ro_alternates (ch_spec requested) \<and>
      m_eq (om_labels (ch_meta deployed)) (om_labels (ch_meta requested)) \<and>
      m_eq (om_annotations (ch_meta deployed)) (om_annotations (ch_meta requested)))"

definition processRouteDelta :: "route_env \<Rightarrow> route_spec child_api \<Rightarrow> route option \<Rightarrow> route option \<Rightarrow> route_spec child_result" where
  "processRouteDelta env api desiredRoute existingRoute =
     (case (ComputeDelta GetKServeRouteComparator desiredRoute existingRoute, desiredRoute, existingRoute) of
        (delta, Some desired, None) \<Rightarrow>
          if rd_added delta then
            (case checkRouteTargetPort env desired of
               Inl e \<Rightarrow> ([], Some e)
             | Inr desired \<Rightarrow> ([CreateChild desired], ca_create api desired))
          else ([], None)
      | (delta, Some desired, Some existing) \<Rightarrow>
          if rd_updated delta then
            (let rp = existing\<lparr>ch_meta := (ch_meta existing)\<lparr>om_labels := om_labels (ch_meta desired),
                   om_annotations := om_annotations (ch_meta desired)\<rparr>, ch_spec := ch_spec desired\<rparr>
             in case checkRouteTargetPort env rp of
                  Inl e \<Rightarrow> ([], Some e)
                | Inr rp \<Rightarrow> ([UpdateChild rp], ca_update api 0 rp))
          else ([], None)
      | (delta, None, Some existing) \<Rightarrow>
          if rd_removed delta then ([DeleteChild (child_key existing)], ca_delete api (child_key existing)) else ([], None)
      | (delta, None, None) \<Rightarrow> ([], None))"

definition ReconcileRoute :: "route_env \<Rightarrow> served_isvc \<Rightarrow> route_spec child_api \<Rightarrow> route_spec child_result" where
  "ReconcileRoute env isvc api =
     (case createDesiredRoute env isvc of
        Inl e \<Rightarrow> ([], Some e)
      | Inr desired \<Rightarrow>
          (case getExistingRoute api isvc of
             Inl e \<Rightarrow> ([], Some e)
           | Inr existing \<Rightarrow> processRouteDelta env api desired existing))"

section \<open>Removal when the policy failed\<close>

definition isInferenceServiceOwnerReference :: "string \<Rightarrow> owner_ref \<Rightarrow> bool" where
  "isInferenceServiceOwnerReference api ref =
     (or_api ref = api \<and> or_kind ref = ''InferenceService'' \<and> or_controller ref = Some True)"

definition isOwnedByInferenceServiceOwnerReferences :: "string \<Rightarrow> owner_ref list \<Rightarrow> 'z served_isvc_scheme \<Rightarrow> bool" where
  "isOwnedByInferenceServiceOwnerReferences api refs isvc =
     list_ex (\<lambda>ref. isInferenceServiceOwnerReference api ref \<and> or_name ref = om_name (si_meta isvc) \<and> or_uid ref = om_uid (si_meta isvc)) refs"

definition DeleteOwnedRouteIfNotExposed :: "route_env \<Rightarrow> served_isvc \<Rightarrow> route_spec child_api \<Rightarrow> route_spec child_result" where
  "DeleteOwnedRouteIfNotExposed env isvc api =
     (if routeEnabled isvc then ([], None)
      else (case getExistingRoute api isvc of
              Inl e \<Rightarrow> ([], Some e)
            | Inr None \<Rightarrow> ([], None)
            | Inr (Some existing) \<Rightarrow>
                if \<not> isOwnedByInferenceServiceOwnerReferences (re_isvc_api env) (om_owners (ch_meta existing)) isvc then ([], None)
                else ([DeleteChild (child_key existing)], case ca_delete api (child_key existing) of Some NotFound \<Rightarrow> None | r \<Rightarrow> r)))"

section \<open>Lemmas\<close>

lemma sint_add_small:
  fixes a b :: "32 word"
  assumes "- (2 ^ 31) \<le> sint a + sint b" "sint a + sint b < 2 ^ 31"
  shows "sint (a + b) = sint a + sint b"
  using assms by (simp add: sint_word_ariths signed_take_bit_int_eq_self)

lemma sint_sum_percents:
  fixes ws :: "32 word list"
  assumes "\<forall>w \<in> set ws. 0 \<le> sint w \<and> sint w \<le> 100" and "length ws \<le> 2 ^ 24"
  shows "sint (sum_list ws) = sum_list (map sint ws) \<and> 0 \<le> sum_list (map sint ws) \<and>
    sum_list (map sint ws) \<le> 100 * int (length ws)"
  using assms
proof (induction ws)
  case (Cons w ws)
  then have ih: "sint (sum_list ws) = sum_list (map sint ws)" "0 \<le> sum_list (map sint ws)"
    "sum_list (map sint ws) \<le> 100 * int (length ws)" and w: "0 \<le> sint w" "sint w \<le> 100" by simp_all
  have "int (length ws) < 2 ^ 24" using Cons.prems(2) by simp
  then have "sint w + sint (sum_list ws) < 2 ^ 31" using ih w by simp
  with ih w have "sint (w + sum_list ws) = sint w + sint (sum_list ws)" by (intro sint_add_small) simp_all
  with ih w show ?case by simp
qed simp

definition canaryService :: "served_isvc \<Rightarrow> string \<Rightarrow> string" where
  "canaryService isvc name = om_name (si_meta isvc) @ ''-'' @ name @ ''-predictor''"

lemma canaryBackends_Inr:
  "canaryBackends env isvc cs = Inr bs \<longleftrightarrow>
     bs = map (\<lambda>(name, percent). \<lparr>to_name = canaryService isvc name, to_weight = percent\<rparr>) cs \<and>
     (\<forall>(name, _) \<in> set cs. \<exists>svc. re_service env (om_namespace (si_meta isvc), canaryService isvc name) = Inr svc)"
proof (induction cs arbitrary: bs)
  case (Cons c cs)
  obtain name percent where c: "c = (name, percent)" by (cases c)
  have "canaryBackends env isvc (c # cs) = Inr bs \<longleftrightarrow>
      (\<exists>svc. re_service env (om_namespace (si_meta isvc), canaryService isvc name) = Inr svc) \<and>
      (\<exists>bs'. canaryBackends env isvc cs = Inr bs' \<and> bs = \<lparr>to_name = canaryService isvc name, to_weight = percent\<rparr> # bs')"
    by (auto simp: c Let_def canaryService_def split: sum.splits)
  then show ?case unfolding Cons.IH by (auto simp: c)
qed auto

lemma Fetch_route [simp]: "FetchRoute (child_store_api st) key = Inr (map_of st key)"
  by (cases "map_of st key") (simp_all add: FetchRoute_def)

subsection \<open>Convergence\<close>

text \<open>
  What the cluster promises: \<open>SetControllerReference\<close> changes the owners only, and the API server admits no service port
  and no target port that is zero or has an empty name.
\<close>

definition port_set :: "int_or_string \<Rightarrow> bool" where
  "port_set p = (case p of PortName n \<Rightarrow> n \<noteq> [] | PortNumber n \<Rightarrow> n \<noteq> 0)"

definition route_laws :: "route_env \<Rightarrow> bool" where
  "route_laws env =
     ((\<forall>g m m'. re_own env g m = Inr m' \<longrightarrow> (\<exists>os. m' = m\<lparr>om_owners := os\<rparr>)) \<and>
      (\<forall>ns n svcs. re_services env ns n = Inr svcs \<longrightarrow>
         (\<forall>svc \<in> set svcs. \<forall>p \<in> set (cs_ports svc). sp_port p \<noteq> 0 \<and> port_set (sp_target p))))"

lemma pickServices_mem:
  "pickServices n svcs (p, t) = (p', t') \<Longrightarrow>
   (\<forall>x. p' = Some x \<longrightarrow> p = Some x \<or> x \<in> set svcs) \<and> (\<forall>x. t' = Some x \<longrightarrow> t = Some x \<or> x \<in> set svcs)"
proof (induction svcs arbitrary: p t)
  case (Cons s svcs)
  then show ?case by (fastforce split: if_splits)
qed simp

lemma targetService_mem:
  assumes "targetService env isvc = Inr svc"
  obtains svcs where "re_services env (om_namespace (si_meta isvc)) (om_name (si_meta isvc)) = Inr svcs" "svc \<in> set svcs"
proof -
  from assms obtain svcs where svcs: "re_services env (om_namespace (si_meta isvc)) (om_name (si_meta isvc)) = Inr svcs"
    by (auto simp: targetService_def split: sum.splits)
  obtain p t where pick: "pickServices (om_name (si_meta isvc) @ ''-predictor'') svcs (None, None) = (p, t)" by fastforce
  from assms svcs pick have "t = Some svc \<or> p = Some svc"
    by (auto simp: targetService_def split: if_splits option.splits)
  with pickServices_mem [OF pick] have "svc \<in> set svcs" by auto
  with svcs show thesis by (rule that)
qed

lemma setRouteTargetPort_set:
  assumes "setRouteTargetPort ssl svc = Inr port" and "\<forall>p \<in> set (cs_ports svc). sp_port p \<noteq> 0"
  shows "port_set port"
  using assms unfolding setRouteTargetPort_def
  by (auto simp: port_set_def find_Some_iff split: option.splits list.splits if_splits)

lemma numericPort_set:
  assumes "numericPort svc port = Inr port'" and "port_set port" and "\<forall>p \<in> set (cs_ports svc). port_set (sp_target p)"
  shows "port_set port'"
  using assms unfolding numericPort_def
  by (auto simp: find_Some_iff split: int_or_string.splits option.splits)

lemma applyCanary_port: "applyCanaryTrafficSplits env isvc spec = Inr spec' \<Longrightarrow> ro_port spec' = ro_port spec"
  by (auto simp: applyCanaryTrafficSplits_def Let_def split: if_splits sum.splits)

lemma createDesiredRoute_shape:
  assumes "createDesiredRoute env isvc = Inr (Some d)" and "route_laws env"
  shows "child_key d = (om_namespace (si_meta isvc), om_name (si_meta isvc)) \<and> (\<exists>p. ro_port (ch_spec d) = Some p \<and> port_set p)"
proof -
  have enabled: "routeEnabled isvc" using assms(1) by (auto simp: createDesiredRoute_def split: if_splits)
  from assms(1) enabled obtain svc port where svc: "targetService env isvc = Inr svc"
    and port: "setRouteTargetPort (enableSSL isvc) svc = Inr port"
    by (auto simp: createDesiredRoute_def split: sum.splits)
  obtain svcs where svcs: "re_services env (om_namespace (si_meta isvc)) (om_name (si_meta isvc)) = Inr svcs" "svc \<in> set svcs"
    by (rule targetService_mem [OF svc])
  have ports: "sp_port p \<noteq> 0 \<and> port_set (sp_target p)" if "p \<in> set (cs_ports svc)" for p
    using assms(2) svcs that unfolding route_laws_def by blast
  have set1: "port_set port" by (rule setRouteTargetPort_set [OF port]) (use ports in blast)
  have set2: "port_set q" if "numericPort svc port = Inr q" for q
    by (rule numericPort_set [OF that set1]) (use ports in blast)
  have own: "om_namespace m' = om_namespace m \<and> om_name m' = om_name m" if "re_own env g m = Inr m'" for g m m'
    using assms(2) that unfolding route_laws_def by fastforce
  let ?meta = "empty_meta\<lparr>om_name := om_name (si_meta isvc), om_namespace := om_namespace (si_meta isvc),
    om_labels := [(''inferenceservice-name'', om_name (si_meta isvc))], om_annotations := SetOpenshiftRouteTimeoutForIsvc isvc []\<rparr>"
  note run = assms(1) [unfolded createDesiredRoute_def svc port Let_def sum.case]
  from run enabled obtain m where m: "re_own env (si_meta isvc) ?meta = Inr m" by (auto split: sum.splits)
  note run' = run [unfolded m sum.case]
  have key: "om_namespace m = om_namespace (si_meta isvc)" "om_name m = om_name (si_meta isvc)" using own [OF m] by simp_all
  show ?thesis
  proof (cases "si_canary isvc = []")
    case True
    with run' enabled have "d = \<lparr>ch_meta = m, ch_spec = ch_spec d\<rparr> \<and> ro_port (ch_spec d) = Some port" by auto
    then have "ch_meta d = m" "ro_port (ch_spec d) = Some port" by (metis child.select_convs(1))+
    then show ?thesis using key set1 by (simp add: child_key_def)
  next
    case False
    with run' enabled obtain q where q: "numericPort svc port = Inr q" by (auto split: sum.splits)
    with run' enabled False obtain spec spec' where split: "applyCanaryTrafficSplits env isvc spec = Inr spec'"
      and spec: "ro_port spec = Some q" and d: "d = \<lparr>ch_meta = m, ch_spec = spec'\<rparr>" by (auto split: sum.splits)
    from applyCanary_port [OF split] spec set2 [OF q] key show ?thesis by (simp add: d child_key_def)
  qed
qed

lemma checkRouteTargetPort_set:
  "ro_port (ch_spec r) = Some p \<Longrightarrow> port_set p \<Longrightarrow> checkRouteTargetPort env r = Inr r"
  by (cases p) (simp_all add: checkRouteTargetPort_def port_set_def)

text \<open>What an update writes, and why the next reconcile finds nothing to do.\<close>

definition routeUpdate :: "route \<Rightarrow> route \<Rightarrow> route" where
  "routeUpdate existing desired = existing\<lparr>ch_meta := (ch_meta existing)\<lparr>om_labels := om_labels (ch_meta desired),
     om_annotations := om_annotations (ch_meta desired)\<rparr>, ch_spec := ch_spec desired\<rparr>"

lemma routeUpdate_simps [simp]:
  "child_key (routeUpdate e d) = child_key e" "GetKServeRouteComparator (routeUpdate e d) d" "GetKServeRouteComparator d d"
  by (simp_all add: routeUpdate_def child_key_def GetKServeRouteComparator_def m_eq_refl)

lemma processRouteDelta_store:
  assumes "\<forall>d. desired = Some d \<longrightarrow> (\<exists>p. ro_port (ch_spec d) = Some p \<and> port_set p)"
  shows "processRouteDelta env (child_store_api st) desired existing =
     (case (desired, existing) of
        (None, None) \<Rightarrow> ([], None)
      | (Some d, None) \<Rightarrow> ([CreateChild d], None)
      | (None, Some e) \<Rightarrow> ([DeleteChild (child_key e)], None)
      | (Some d, Some e) \<Rightarrow> if GetKServeRouteComparator e d then ([], None) else ([UpdateChild (routeUpdate e d)], None))"
proof -
  have "checkRouteTargetPort env d = Inr d" "checkRouteTargetPort env (routeUpdate e d) = Inr (routeUpdate e d)" if "desired = Some d" for d e
    using assms that by (auto simp: routeUpdate_def intro!: checkRouteTargetPort_set)
  then show ?thesis
    by (cases desired; cases existing)
      (simp_all add: processRouteDelta_def ComputeDelta_def Let_def routeUpdate_def [symmetric])
qed

lemma ReconcileRoute_settles:
  assumes "route_laws env"
  shows "settling_operation (ReconcileRoute env isvc)"
proof
  fix st ws e
  assume wf: "wf_children st" and run: "ReconcileRoute env isvc (child_store_api st) = (ws, e)"
  let ?key = "(om_namespace (si_meta isvc), om_name (si_meta isvc))"
  show "ReconcileRoute env isvc (child_store_api (fold apply_child_write ws st)) = ([], e)"
  proof (cases "createDesiredRoute env isvc")
    case (Inl err)
    with run show ?thesis by (simp add: ReconcileRoute_def)
  next
    case (Inr desired)
    have set: "\<forall>d. desired = Some d \<longrightarrow> (\<exists>p. ro_port (ch_spec d) = Some p \<and> port_set p)"
      "\<And>d. desired = Some d \<Longrightarrow> child_key d = ?key"
      using createDesiredRoute_shape [OF _ assms, of isvc] Inr by simp_all
    have rec: "ReconcileRoute env isvc (child_store_api x) = processRouteDelta env (child_store_api x) desired (map_of x ?key)" for x
      using Inr by (simp add: ReconcileRoute_def getExistingRoute_def)
    have k: "child_key c = ?key" if "map_of st ?key = Some c" for c using wf that by (rule wf_childrenD)
    show ?thesis
      using run k set(2) unfolding rec processRouteDelta_store [OF set(1)]
      by (cases desired; cases "map_of st ?key") (auto split: if_splits)
  qed
qed

section \<open>Properties\<close>

text \<open>
  Property C34. The split of the traffic of a route with canaries, in 32-bit arithmetic: with percentages between 0 and 100 and no more
  than \<open>2 ^ 24\<close> canaries, it is made exactly when the percentages do not exceed 100 together and the Service of every canary can be read.
  Then the alternate backends are these Services with their percentages, in order, and the stable backend, under its old name, has the rest: the weights
  add up to 100 and none is negative.
\<close>

theorem canary_weights:
  assumes "\<forall>c \<in> set (si_canary isvc). 0 \<le> sint (snd c) \<and> sint (snd c) \<le> 100" and "length (si_canary isvc) \<le> 2 ^ 24"
  shows "applyCanaryTrafficSplits env isvc spec = Inr spec' \<longleftrightarrow>
    sum_list (map (sint \<circ> snd) (si_canary isvc)) \<le> 100 \<and>
    (\<forall>(name, _) \<in> set (si_canary isvc). \<exists>svc. re_service env (om_namespace (si_meta isvc), om_name (si_meta isvc) @ ''-'' @ name @ ''-predictor'') = Inr svc) \<and>
    (\<exists>w. sint w = 100 - sum_list (map (sint \<circ> snd) (si_canary isvc)) \<and>
       spec' = spec\<lparr>ro_to := \<lparr>to_name = to_name (ro_to spec), to_weight = w\<rparr>,
         ro_alternates := map (\<lambda>(name, percent). \<lparr>to_name = om_name (si_meta isvc) @ ''-'' @ name @ ''-predictor'', to_weight = percent\<rparr>) (si_canary isvc)\<rparr>)"
proof -
  let ?ws = "map snd (si_canary isvc)"
  let ?sum = "sum_list (map sint ?ws)"
  have s: "sint (sum_list ?ws) = ?sum" "0 \<le> ?sum" "?sum \<le> 100 * int (length ?ws)"
    using sint_sum_percents [of ?ws] assms by auto
  have "?sum < 2 ^ 31" using s(3) assms(2) by simp
  then have stable: "sint (100 - sum_list ?ws) = 100 - ?sum"
    using s by (simp add: sint_word_ariths signed_take_bit_int_eq_self)
  then have w: "sint w = 100 - ?sum \<longleftrightarrow> w = 100 - sum_list ?ws" for w :: "32 word" by (metis signed_word_eqI)
  have "applyCanaryTrafficSplits env isvc spec = Inr spec' \<longleftrightarrow> \<not> 100 - ?sum < 0 \<and>
      (\<exists>bs. canaryBackends env isvc (si_canary isvc) = Inr bs \<and> spec' = spec\<lparr>ro_to := (ro_to spec)\<lparr>to_weight := 100 - sum_list ?ws\<rparr>, ro_alternates := bs\<rparr>)"
    using stable by (auto simp: applyCanaryTrafficSplits_def Let_def split: sum.splits)
  moreover have "(ro_to spec)\<lparr>to_weight := x\<rparr> = \<lparr>to_name = to_name (ro_to spec), to_weight = x\<rparr>" for x by simp
  ultimately show ?thesis
    unfolding canaryBackends_Inr canaryService_def map_map [symmetric] w by auto
qed

definition canary_service :: "(string \<times> 32 word) list \<Rightarrow> served_isvc" where
  "canary_service cs = (plain_service ''ns'' [] False)\<lparr>si_canary := cs\<rparr>"

definition canary_env :: route_env where
  "canary_env = \<lparr>re_services = (\<lambda>_ _. Inr []), re_service = (\<lambda>k. Inr \<lparr>cs_name = snd k, cs_labels = [], cs_ports = []\<rparr>),
     re_own = (\<lambda>_ m. Inr m), re_isvc_api = ''v1beta1''\<rparr>"

definition plain_route :: route_spec where
  "plain_route = \<lparr>ro_host = [], ro_to = \<lparr>to_name = ''m-predictor'', to_weight = 100\<rparr>, ro_alternates = [], ro_port = None, ro_tls = None,
     ro_wildcard = ''None''\<rparr>"

theorem canary_weights_witness:
  "\<exists>w spec'. applyCanaryTrafficSplits canary_env (canary_service [(''v2'', 30)]) plain_route = Inr spec' \<and>
     ro_to spec' = \<lparr>to_name = ''m-predictor'', to_weight = w\<rparr> \<and> sint w = 70"
proof -
  have w: "sint (70 :: 32 word) = 70" by simp
  show ?thesis
    using canary_weights [of "canary_service [(''v2'', 30)]" canary_env plain_route
        "plain_route\<lparr>ro_to := \<lparr>to_name = ''m-predictor'', to_weight = 70\<rparr>, ro_alternates := [\<lparr>to_name = ''m-v2-predictor'', to_weight = 30\<rparr>]\<rparr>"] w
    by (force simp: canary_service_def plain_service_def canary_env_def plain_route_def)
qed

text \<open>
  The reconcile of a service that is not exposed deletes any Route of its name, whoever made it, while the removal that
  runs when the network policy failed leaves a Route that the service does not own in place.
\<close>

theorem foreign_route_deleted:
  assumes "\<not> routeEnabled isvc" and "map_of st (om_namespace (si_meta isvc), om_name (si_meta isvc)) = Some c" and "wf_children st"
    and "\<not> isOwnedByInferenceServiceOwnerReferences (re_isvc_api env) (om_owners (ch_meta c)) isvc"
  shows "ReconcileRoute env isvc (child_store_api st) = ([DeleteChild (om_namespace (si_meta isvc), om_name (si_meta isvc))], None) \<and>
    DeleteOwnedRouteIfNotExposed env isvc (child_store_api st) = ([], None)"
  using assms wf_childrenD [OF assms(3,2)]
  by (simp add: ReconcileRoute_def createDesiredRoute_def getExistingRoute_def processRouteDelta_store DeleteOwnedRouteIfNotExposed_def)

text \<open>
  The route settles: after the writes of a reconcile took effect, the next one writes nothing and ends the same way.
\<close>

theorem ReconcileRoute_converges:
  assumes "route_laws env" and "wf_children st" and "ReconcileRoute env isvc (child_store_api st) = (ws, e)"
  shows "ReconcileRoute env isvc (child_store_api (fold apply_child_write ws st)) = ([], e)"
  using assms(2,3) by (rule settling_operation.settles [OF ReconcileRoute_settles [OF assms(1)]])

end
