(* ===== verification/Serving_Runtime.thy ===== *)
theory Serving_Runtime
  imports Auth_Binding
begin

text \<open>
  Which ServingRuntime serves an InferenceService (\<open>FindSupportingRuntimeForISvc\<close> in
  internal/controller/utils/utils.go): the one it names, or else the newest one of the namespace that supports the
  model format. The metrics and network-policy reconcilers read their port from its annotations. The API
  server's answers are parameters; log lines are left out.
\<close>

section \<open>Data\<close>

record supported_format =
  sf_name :: string
  sf_auto :: "bool option"

record serving_runtime =
  sr_meta :: object_meta
  sr_created :: int  \<comment> \<open>the creation timestamp in seconds\<close>
  sr_disabled :: "bool option"
  sr_multi_model :: "bool option"
  sr_formats :: "supported_format list"
  sr_annotations :: "string gomap"  \<comment> \<open>those of the spec, not of the metadata\<close>

record predictor_model =
  pm_runtime :: "string option"
  pm_format :: string

text \<open>An InferenceService with the model of its predictor.\<close>

record model_isvc = served_isvc +
  si_model :: "predictor_model option"

record runtime_api =
  ra_get :: "namespaced_name \<Rightarrow> api_error + serving_runtime"
  ra_list :: "string \<Rightarrow> api_error + serving_runtime list"

definition empty_runtime :: serving_runtime where
  "empty_runtime = \<lparr>sr_meta = empty_meta, sr_created = 0, sr_disabled = None, sr_multi_model = None, sr_formats = [], sr_annotations = []\<rparr>"

definition NoSuitableRuntimeError :: string where
  "NoSuitableRuntimeError = ''not found error: no suitable runtime found.''"

section \<open>The choice\<close>

definition autoSelects :: "string \<Rightarrow> serving_runtime \<Rightarrow> bool" where
  "autoSelects format r = list_ex (\<lambda>f. sf_auto f = Some True \<and> sf_name f = format) (sr_formats r)"

definition eligibleRuntime :: "string \<Rightarrow> serving_runtime \<Rightarrow> bool" where
  "eligibleRuntime format r =
     (if sr_disabled r = Some True then False
      else if sr_multi_model r = Some False then False
      else autoSelects format r)"

text \<open>Newest first, and by name among those created at the same time.\<close>

definition creationOrder :: "serving_runtime \<Rightarrow> int \<times> string" where
  "creationOrder r = (- sr_created r, om_name (sr_meta r))"

definition FindSupportingRuntimeForISvc :: "runtime_api \<Rightarrow> 'z model_isvc_scheme \<Rightarrow> api_error + serving_runtime option" where
  "FindSupportingRuntimeForISvc api isvc =
     (case si_model isvc of
        None \<Rightarrow> Inr None
      | Some model \<Rightarrow>
          (case pm_runtime model of
             Some name \<Rightarrow>
               (case ra_get api (om_namespace (si_meta isvc), name) of
                  Inl e \<Rightarrow> if e = NotFound then Inl e else Inr (Some empty_runtime)
                | Inr r \<Rightarrow> Inr (Some r))
           | None \<Rightarrow>
               if pm_format model = [] then Inr None
               else (case ra_list api (om_namespace (si_meta isvc)) of
                       Inl e \<Rightarrow> Inl e
                     | Inr items \<Rightarrow>
                         (case find (eligibleRuntime (pm_format model)) (sort_key creationOrder items) of
                            Some r \<Rightarrow> Inr (Some r)
                          | None \<Rightarrow> Inl (ApiFailure NoSuitableRuntimeError)))))"

section \<open>Lemmas\<close>

lemma find_filter: "find P xs = (case filter P xs of [] \<Rightarrow> None | x # _ \<Rightarrow> Some x)"
  by (induction xs) auto

lemma find_sort_key:
  "find P (sort_key f xs) = (case sort_key f (filter P xs) of [] \<Rightarrow> None | x # _ \<Rightarrow> Some x)"
  by (simp add: find_filter filter_sort)

lemma find_sort_key_least:
  assumes "find P (sort_key f xs) = Some r"
  shows "r \<in> set xs \<and> P r \<and> (\<forall>x \<in> set xs. P x \<longrightarrow> f r \<le> f x)"
proof -
  from assms obtain rest where r: "sort_key f (filter P xs) = r # rest"
    by (auto simp: find_sort_key split: list.splits)
  then have set: "set (filter P xs) = insert r (set rest)" by (metis list.simps(15) set_sort)
  have "sorted (map f (r # rest))" by (metis r sorted_sort_key)
  with set show ?thesis by (auto simp: set_eq_iff)
qed

lemma creationOrder_le:
  "creationOrder a \<le> creationOrder b \<longleftrightarrow>
     sr_created b < sr_created a \<or> sr_created a = sr_created b \<and> om_name (sr_meta a) \<le> om_name (sr_meta b)"
  by (auto simp: creationOrder_def less_eq_prod_def)

section \<open>Properties\<close>

text \<open>
  A service that names no runtime gets the newest runtime of its namespace that is not disabled, does not say it is for
  single models only and selects the format automatically; the name decides between runtimes of the same age. If there is none it gets an
  error, and never another runtime.
\<close>

theorem newest_supporting_runtime:
  assumes "si_model isvc = Some model" "pm_runtime model = None" "pm_format model \<noteq> []"
    and "ra_list api (om_namespace (si_meta isvc)) = Inr items"
  shows "case FindSupportingRuntimeForISvc api isvc of
      Inr (Some r) \<Rightarrow> r \<in> set items \<and> eligibleRuntime (pm_format model) r \<and>
        (\<forall>x \<in> set items. eligibleRuntime (pm_format model) x \<longrightarrow>
           sr_created x < sr_created r \<or> sr_created x = sr_created r \<and> om_name (sr_meta r) \<le> om_name (sr_meta x))
    | Inr None \<Rightarrow> False
    | Inl e \<Rightarrow> e = ApiFailure NoSuitableRuntimeError \<and> (\<forall>x \<in> set items. \<not> eligibleRuntime (pm_format model) x)"
proof (cases "find (eligibleRuntime (pm_format model)) (sort_key creationOrder items)")
  case None
  then have "\<forall>x \<in> set items. \<not> eligibleRuntime (pm_format model) x" by (simp add: find_None_iff)
  with None assms show ?thesis by (simp add: FindSupportingRuntimeForISvc_def)
next
  case (Some r)
  from find_sort_key_least [OF this] Some assms show ?thesis
    by (auto simp: FindSupportingRuntimeForISvc_def creationOrder_le)
qed

definition demo_runtime :: "string \<Rightarrow> int \<Rightarrow> bool option \<Rightarrow> serving_runtime" where
  "demo_runtime n t multi = empty_runtime\<lparr>sr_meta := empty_meta\<lparr>om_name := n\<rparr>, sr_created := t, sr_multi_model := multi,
     sr_formats := [\<lparr>sf_name = ''onnx'', sf_auto = Some True\<rparr>]\<rparr>"

definition demo_model :: "string option \<Rightarrow> string \<Rightarrow> model_isvc" where
  "demo_model name format = served_isvc.extend (plain_service ''ns'' ''sa'' False)
     \<lparr>si_model = Some \<lparr>pm_runtime = name, pm_format = format\<rparr>\<rparr>"

definition demo_runtimes :: runtime_api where
  "demo_runtimes = \<lparr>ra_get = (\<lambda>_. Inl Conflict),
     ra_list = (\<lambda>_. Inr [demo_runtime ''old'' 1 None, demo_runtime ''single'' 5 (Some False), demo_runtime ''new'' 3 None])\<rparr>"

theorem newest_supporting_runtime_witness:
  "\<exists>r. FindSupportingRuntimeForISvc demo_runtimes (demo_model None ''onnx'') = Inr (Some r) \<and> sr_created r = 3"
proof -
  let ?i = "demo_model None ''onnx''"
  let ?items = "[demo_runtime ''old'' 1 None, demo_runtime ''single'' 5 (Some False), demo_runtime ''new'' 3 None]"
  have el: "eligibleRuntime ''onnx'' (demo_runtime n t None)" "\<not> eligibleRuntime ''onnx'' (demo_runtime n t (Some False))" for n t
    by (simp_all add: eligibleRuntime_def autoSelects_def demo_runtime_def empty_runtime_def)
  have cr: "sr_created (demo_runtime n t m) = t" for n t m by (simp add: demo_runtime_def)
  from newest_supporting_runtime [of ?i "\<lparr>pm_runtime = None, pm_format = ''onnx''\<rparr>" demo_runtimes ?items]
  show ?thesis
    by (auto simp: demo_model_def served_isvc.defs demo_runtimes_def el cr split: sum.splits option.splits)
qed

text \<open>
  A read failure other than NotFound is lost: the service that names its runtime gets an empty one, which no server has, and no
  error.
\<close>

theorem unreadable_runtime_empty:
  assumes "si_model isvc = Some model" "pm_runtime model = Some name"
    and "ra_get api (om_namespace (si_meta isvc), name) = Inl e" "e \<noteq> NotFound"
  shows "FindSupportingRuntimeForISvc api isvc = Inr (Some empty_runtime)"
  using assms by (simp add: FindSupportingRuntimeForISvc_def)

text \<open>A runtime that declares itself for single models is never selected automatically; one for many models is.\<close>

theorem single_model_runtime_skipped:
  "sr_multi_model r = Some False \<Longrightarrow> \<not> eligibleRuntime format r"
  "sr_multi_model r = Some True \<Longrightarrow> sr_disabled r \<noteq> Some True \<Longrightarrow> eligibleRuntime format r = autoSelects format r"
  by (simp_all add: eligibleRuntime_def)

end
