(* ===== verification/Network_Policy.thy ===== *)
theory Network_Policy
  imports Raw_Route Serving_Runtime Graph_Webhook
begin

text \<open>
  The NetworkPolicy of each component of a raw InferenceService
  (internal/controller/serving/reconcilers/kserve_raw_networkpolicy_reconciler.go): the ports it
  admits, the peers, and the desired policy. A NetworkPolicy gets its meaning by \<open>admits\<close>, the rule of the
  Kubernetes documentation, so that the theorems speak of connections and not of the shape of the object. KServe's
  constants and naming functions, \<open>url.Parse\<close>, \<open>kmeta.ChildName\<close> and
  \<open>SetControllerReference\<close> are parameters; log lines are left out.
\<close>

section \<open>Data\<close>

record net_service = core_service +
  ns_namespace :: string
  ns_owners :: "owner_ref list"
  ns_type :: string
  ns_cluster_ip :: string

record net_isvc = model_isvc +
  ni_mode :: string  \<comment> \<open>the deployment mode in the status\<close>
  ni_predictor :: string  \<comment> \<open>the name of the predictor\<close>
  ni_worker :: bool  \<comment> \<open>the predictor has a worker spec\<close>

record policy_peer =
  pe_namespaces :: "string gomap option"
  pe_pods :: "string gomap option"

record policy_port =
  pp_protocol :: "string option"
  pp_port :: "int_or_string option"
  pp_end :: "int option"

record policy_traffic =
  pt_peers :: "policy_peer list"
  pt_ports :: "policy_port list"

record policy_spec =
  po_pods :: "string gomap"
  po_types :: "string list"
  po_ingress :: "policy_traffic list"
  po_egress :: "policy_traffic list"

type_synonym network_policy = "policy_spec child"

text \<open>The parts of a parsed URL that the code reads: scheme, host name and port.\<close>

record parsed_url =
  pu_scheme :: string
  pu_host :: string
  pu_port :: string

text \<open>
  Constants and functions of KServe (first block), the naming and owner functions of the libraries, and the
  answers of the API server: the services with the label of an InferenceService, all services, one service, and the graphs.
\<close>

record net_env =
  kc_component :: string
  kc_explainer :: string
  kc_visibility :: string
  kc_cluster_local :: string
  kc_graph_label :: string
  kc_multi_node_role :: string
  kc_prometheus_port :: string
  kc_mode :: string
  kc_router_port :: int
  kc_standard :: "string \<Rightarrow> bool"  \<comment> \<open>\<open>ParseDeploymentMode\<close> gives Standard\<close>
  kc_predictor_name :: "string \<Rightarrow> string \<Rightarrow> string"
  kc_transformer_name :: "string \<Rightarrow> string"
  kc_isvc_api :: string
  kc_graph_api :: string
  nv_url :: "string \<Rightarrow> parsed_url option"
  nv_child_name :: "string \<Rightarrow> string \<Rightarrow> string"
  nv_own :: "string \<Rightarrow> string \<Rightarrow> object_meta \<Rightarrow> object_meta \<Rightarrow> api_error + object_meta"  \<comment> \<open>API version and kind of the owner first\<close>
  nv_monitoring :: string  \<comment> \<open>the variable \<open>MONITORING_NAMESPACE\<close>\<close>
  nv_labelled :: "string \<Rightarrow> string \<Rightarrow> api_error + net_service list"
  nv_services :: "string \<Rightarrow> api_error + net_service list"
  nv_service :: "namespaced_name \<Rightarrow> api_error + net_service"
  nv_graphs :: "string \<Rightarrow> api_error + inference_graph list"
  nv_runtimes :: runtime_api

definition predictorNetworkPolicyComponent :: string where "predictorNetworkPolicyComponent = ''predictor''"
definition transformerNetworkPolicyComponent :: string where "transformerNetworkPolicyComponent = ''transformer''"
definition rawNetworkPolicyNameSuffix :: string where "rawNetworkPolicyNameSuffix = ''-network-policy''"
definition rawNetworkPolicyManagedComponent :: string where
  "rawNetworkPolicyManagedComponent = ''kserve-inferenceservice-network-policy''"
definition openshiftIngressPolicyGroupLabel :: string where
  "openshiftIngressPolicyGroupLabel = ''policy-group.network.openshift.io/ingress''"
definition KserveGroupAnnotation :: string where "KserveGroupAnnotation = ''serving.kserve.io/inferenceservice''"

section \<open>Deployment modes\<close>

definition rawMode :: "net_env \<Rightarrow> string \<Rightarrow> object_meta \<Rightarrow> bool" where
  "rawMode env status m =
     (let mode = (if status = [] then m_str (om_annotations m) (kc_mode env) else status)
      in mode = [] \<or> kc_standard env mode)"

definition IsRawInferenceService :: "net_env \<Rightarrow> net_isvc \<Rightarrow> bool" where
  "IsRawInferenceService env isvc = rawMode env (ni_mode isvc) (si_meta isvc)"

definition IsRawInferenceGraph :: "net_env \<Rightarrow> inference_graph \<Rightarrow> bool" where
  "IsRawInferenceGraph env graph = rawMode env (ig_mode graph) (ig_meta graph)"

section \<open>Ports\<close>

text \<open>\<open>IntOrString.String\<close>.\<close>

definition port_text :: "int_or_string \<Rightarrow> string" where
  "port_text p = (case p of PortNumber n \<Rightarrow> dec_int n | PortName s \<Rightarrow> s)"

definition protocolOf :: "service_port \<Rightarrow> string" where
  "protocolOf sp = (if sp_protocol sp = [] then ''TCP'' else sp_protocol sp)"

definition targetOf :: "service_port \<Rightarrow> int_or_string" where
  "targetOf sp = (if port_set (sp_target sp) then sp_target sp else PortNumber (sp_port sp))"

fun policyPortLoop :: "(string \<times> string) list \<Rightarrow> service_port list \<Rightarrow> policy_port list" where
  "policyPortLoop seen [] = []"
| "policyPortLoop seen (sp # sps) =
     (let target = targetOf sp; key = (protocolOf sp, port_text target)
      in if \<not> port_set target \<or> key \<in> set seen then policyPortLoop seen sps
         else \<lparr>pp_protocol = Some (protocolOf sp), pp_port = Some target, pp_end = None\<rparr> # policyPortLoop (key # seen) sps)"

text \<open>The ports made here have a protocol and a port; the error of the Go function is always nil.\<close>

definition portOrder :: "policy_port \<Rightarrow> string" where
  "portOrder p = (case pp_protocol p of None \<Rightarrow> [] | Some s \<Rightarrow> s) @ '':'' @ (case pp_port p of None \<Rightarrow> [] | Some t \<Rightarrow> port_text t)"

definition networkPolicyPorts :: "service_port list \<Rightarrow> policy_port list" where
  "networkPolicyPorts servicePorts = sort_key portOrder (policyPortLoop [] servicePorts)"

definition selectedPort :: "int_or_string \<Rightarrow> service_port \<Rightarrow> bool" where
  "selectedPort selected sp = (case selected of PortName s \<Rightarrow> sp_name sp = s | PortNumber n \<Rightarrow> sp_port sp = n)"

fun servingPorts :: "net_env \<Rightarrow> net_service list \<Rightarrow> bool \<Rightarrow> api_error + service_port list" where
  "servingPorts env [] authEnabled = Inr []"
| "servingPorts env (svc # svcs) authEnabled =
     (if cs_ports svc = [] \<or> m_str (cs_labels svc) (kc_multi_node_role env) \<noteq> [] then servingPorts env svcs authEnabled
      else (case setRouteTargetPort authEnabled svc of
              Inl e \<Rightarrow> Inl e
            | Inr selected \<Rightarrow>
                (case servingPorts env svcs authEnabled of
                   Inl e \<Rightarrow> Inl e
                 | Inr ports \<Rightarrow> Inr (filter (selectedPort selected) (cs_ports svc) @ ports))))"

definition serviceTargetPorts :: "net_env \<Rightarrow> net_service list \<Rightarrow> bool \<Rightarrow> api_error + policy_port list" where
  "serviceTargetPorts env services authEnabled =
     (case servingPorts env services authEnabled of Inl e \<Rightarrow> Inl e | Inr ports \<Rightarrow> Inr (networkPolicyPorts ports))"

definition routeTargetPorts :: "net_env \<Rightarrow> net_service list \<Rightarrow> bool \<Rightarrow> api_error + policy_port list" where
  "routeTargetPorts env services authEnabled = serviceTargetPorts env services authEnabled"

definition rawAuthEnabled :: "net_isvc \<Rightarrow> bool" where
  "rawAuthEnabled isvc = (parseBool (trim_space (m_str (om_annotations (si_meta isvc)) EnableAuthODHAnnotation)) = Some True)"

section \<open>Peers\<close>

definition namespaceSelectorPeer :: "string \<Rightarrow> policy_peer" where
  "namespaceSelectorPeer namespace = \<lparr>pe_namespaces = Some [(''kubernetes.io/metadata.name'', namespace)], pe_pods = None\<rparr>"

definition routerPeer :: policy_peer where
  "routerPeer = \<lparr>pe_namespaces = Some [(openshiftIngressPolicyGroupLabel, [])], pe_pods = None\<rparr>"

definition everyPod :: policy_peer where
  "everyPod = \<lparr>pe_namespaces = Some [], pe_pods = Some []\<rparr>"

definition componentPeer :: "net_env \<Rightarrow> net_isvc \<Rightarrow> string \<Rightarrow> policy_peer" where
  "componentPeer env isvc component =
     \<lparr>pe_namespaces = None, pe_pods = Some [(KserveGroupAnnotation, om_name (si_meta isvc)), (kc_component env, component)]\<rparr>"

definition graphPeer :: "net_env \<Rightarrow> string \<Rightarrow> policy_peer" where
  "graphPeer env graph = \<lparr>pe_namespaces = None, pe_pods = Some [(kc_graph_label env, graph)]\<rparr>"

definition allPortsForProtocol :: "string \<Rightarrow> policy_port" where
  "allPortsForProtocol protocol = \<lparr>pp_protocol = Some protocol, pp_port = Some (PortNumber 1), pp_end = Some 65535\<rparr>"

definition multiNodePredictorPeer :: "net_env \<Rightarrow> net_isvc \<Rightarrow> policy_traffic" where
  "multiNodePredictorPeer env isvc =
     \<lparr>pt_peers = [componentPeer env isvc predictorNetworkPolicyComponent], pt_ports = map allPortsForProtocol [''TCP'', ''UDP'', ''SCTP'']\<rparr>"

text \<open>The loop over the names keeps the first occurrence of each.\<close>

definition monitoringNamespaces :: "net_env \<Rightarrow> string list" where
  "monitoringNamespaces env =
     (let extra = trim_space (nv_monitoring env);
          namespaces = [''openshift-monitoring'', ''openshift-user-workload-monitoring'', ''redhat-ods-monitoring''] @
            (if extra = [] then [] else [extra])
      in fold (\<lambda>n acc. if n \<in> set acc then acc else acc @ [n]) namespaces [])"

definition monitoringPeers :: "net_env \<Rightarrow> policy_peer list" where
  "monitoringPeers env = map namespaceSelectorPeer (monitoringNamespaces env)"

section \<open>Services of the components\<close>

record component_services =
  cv_predictor :: "net_service list"
  cv_transformer :: "net_service list"

definition servicesOf :: "component_services \<Rightarrow> string \<Rightarrow> net_service list" where
  "servicesOf services component =
     (if component = predictorNetworkPolicyComponent then cv_predictor services
      else if component = transformerNetworkPolicyComponent then cv_transformer services else [])"

definition ownService :: "net_env \<Rightarrow> net_isvc \<Rightarrow> net_service \<Rightarrow> bool" where
  "ownService env isvc svc = isOwnedByInferenceServiceOwnerReferences (kc_isvc_api env) (ns_owners svc) isvc"

definition listComponentServices :: "net_env \<Rightarrow> net_isvc \<Rightarrow> api_error + component_services" where
  "listComponentServices env isvc =
     (case nv_labelled env (om_namespace (si_meta isvc)) (om_name (si_meta isvc)) of
        Inl e \<Rightarrow> Inl e
      | Inr items \<Rightarrow>
          (let pick = (\<lambda>component. sort_key cs_name (filter (\<lambda>svc. ownService env isvc svc \<and>
                 m_str (cs_labels svc) (kc_component env) = component) items))
           in Inr \<lparr>cv_predictor = pick predictorNetworkPolicyComponent, cv_transformer = pick transformerNetworkPolicyComponent\<rparr>))"

definition routeComponent :: "component_services \<Rightarrow> string" where
  "routeComponent services =
     (if servicesOf services transformerNetworkPolicyComponent \<noteq> [] then transformerNetworkPolicyComponent
      else predictorNetworkPolicyComponent)"

definition graphTargetComponent :: "net_isvc \<Rightarrow> string" where
  "graphTargetComponent isvc =
     (if si_transformer isvc \<noteq> None then transformerNetworkPolicyComponent else predictorNetworkPolicyComponent)"

definition graphTargetServices :: "net_env \<Rightarrow> net_isvc \<Rightarrow> net_service list \<Rightarrow> net_service list" where
  "graphTargetServices env isvc services =
     (let serviceName = (if graphTargetComponent isvc = transformerNetworkPolicyComponent
            then kc_transformer_name env (om_name (si_meta isvc))
            else kc_predictor_name env (om_name (si_meta isvc)) (ni_predictor isvc))
      in filter (\<lambda>svc. cs_name svc = serviceName \<and> ns_type svc \<noteq> ''ExternalName'') services)"

section \<open>Calls of graphs\<close>

definition urlPort :: "parsed_url \<Rightarrow> int option" where
  "urlPort parsed =
     (if pu_scheme parsed \<notin> {''http'', ''https''} then None
      else if pu_port parsed \<noteq> [] then
        (case parse_int 64 (pu_port parsed) of
           None \<Rightarrow> None
         | Some port \<Rightarrow> if port < 1 \<or> 65535 < port then None else Some port)
      else Some (if pu_scheme parsed = ''http'' then 80 else 443))"

definition serviceHosts :: "net_service \<Rightarrow> string \<Rightarrow> string list" where
  "serviceHosts svc namespace =
     map (map lower_char)
       [cs_name svc, cs_name svc @ ''.'' @ namespace, cs_name svc @ ''.'' @ namespace @ ''.svc'',
        cs_name svc @ ''.'' @ namespace @ ''.svc.cluster.local'']"

definition endpointPort :: "net_service \<Rightarrow> service_port \<Rightarrow> int" where
  "endpointPort svc sp =
     (case sp_target sp of
        PortNumber n \<Rightarrow> if ns_cluster_ip svc = ''None'' \<and> n \<noteq> 0 then n else sp_port sp
      | PortName _ \<Rightarrow> sp_port sp)"

definition urlServicePort :: "net_env \<Rightarrow> string \<Rightarrow> string \<Rightarrow> int \<Rightarrow> net_service \<Rightarrow> service_port option" where
  "urlServicePort env namespace host port svc =
     (if ns_namespace svc \<noteq> namespace \<or> ns_type svc = ''ExternalName'' \<or> m_str (cs_labels svc) (kc_multi_node_role env) \<noteq> [] then None
      else if host \<notin> set (serviceHosts svc namespace) then None
      else find (\<lambda>sp. protocolOf sp = ''TCP'' \<and> endpointPort svc sp = port) (cs_ports svc))"

fun urlPortLoop :: "net_env \<Rightarrow> string \<Rightarrow> string \<Rightarrow> int \<Rightarrow> net_service list \<Rightarrow> policy_port list" where
  "urlPortLoop env namespace host port [] = []"
| "urlPortLoop env namespace host port (svc # svcs) =
     (case urlServicePort env namespace host port svc of
        Some sp \<Rightarrow> networkPolicyPorts [sp]
      | None \<Rightarrow> urlPortLoop env namespace host port svcs)"

definition GraphServiceURLPorts :: "net_env \<Rightarrow> string \<Rightarrow> string \<Rightarrow> net_service list \<Rightarrow> policy_port list" where
  "GraphServiceURLPorts env rawURL namespace services =
     (case nv_url env rawURL of
        None \<Rightarrow> []
      | Some parsed \<Rightarrow>
          if pu_host parsed = [] then []
          else (case urlPort parsed of
                  None \<Rightarrow> []
                | Some port \<Rightarrow> urlPortLoop env namespace (map lower_char (trim_suffix ''.'' (pu_host parsed))) port services))"

text \<open>\<open>equality.Semantic.DeepEqual\<close>: maps by their entries.\<close>

definition selector_eq :: "string gomap option \<Rightarrow> string gomap option \<Rightarrow> bool" where
  "selector_eq a b = (case (a, b) of (None, None) \<Rightarrow> True | (Some x, Some y) \<Rightarrow> m_eq x y | _ \<Rightarrow> False)"

definition peer_eq :: "policy_peer \<Rightarrow> policy_peer \<Rightarrow> bool" where
  "peer_eq a b = (selector_eq (pe_namespaces a) (pe_namespaces b) \<and> selector_eq (pe_pods a) (pe_pods b))"

definition traffic_eq :: "policy_traffic \<Rightarrow> policy_traffic \<Rightarrow> bool" where
  "traffic_eq a b = (list_all2 peer_eq (pt_peers a) (pt_peers b) \<and> pt_ports a = pt_ports b)"

definition containsIngressRule :: "policy_traffic list \<Rightarrow> policy_traffic \<Rightarrow> bool" where
  "containsIngressRule rules candidate = list_ex (\<lambda>r. traffic_eq r candidate) rules"

definition graphStepPorts ::
    "net_env \<Rightarrow> net_isvc \<Rightarrow> component_services \<Rightarrow> graph_step \<Rightarrow> string \<Rightarrow> api_error + policy_port list" where
  "graphStepPorts env isvc services step component =
     (if gs_service step \<noteq> [] \<and> gs_service step \<noteq> om_name (si_meta isvc) then Inr []
      else if gs_url step \<noteq> [] then
        Inr (GraphServiceURLPorts env (gs_url step) (om_namespace (si_meta isvc)) (servicesOf services component))
      else if gs_service step = om_name (si_meta isvc) \<and> component = graphTargetComponent isvc then
        serviceTargetPorts env (graphTargetServices env isvc (servicesOf services component)) (rawAuthEnabled isvc)
      else Inr [])"

definition addGraphRule :: "net_env \<Rightarrow> string \<Rightarrow> policy_port list \<Rightarrow> policy_traffic list \<Rightarrow> policy_traffic list" where
  "addGraphRule env graph ports rules =
     (let rule = \<lparr>pt_peers = [graphPeer env graph], pt_ports = ports\<rparr>
      in if ports = [] \<or> containsIngressRule rules rule then rules else rules @ [rule])"

text \<open>
  The steps of all raw graphs, in the order of the loops. The nodes of a graph are a Go map: their order is that
  of the iteration and may differ from one run to the next.
\<close>

definition graphCalls :: "net_env \<Rightarrow> inference_graph list \<Rightarrow> (string \<times> graph_step) list" where
  "graphCalls env graphs =
     concat (map (\<lambda>g. map (Pair (om_name (ig_meta g))) (concat (map snd (ig_nodes g))))
       (filter (IsRawInferenceGraph env) (sort_key (om_name \<circ> ig_meta) graphs)))"

fun graphRuleLoop ::
    "net_env \<Rightarrow> net_isvc \<Rightarrow> component_services \<Rightarrow> (string \<times> graph_step) list \<Rightarrow>
     policy_traffic list \<times> policy_traffic list \<Rightarrow> api_error + policy_traffic list \<times> policy_traffic list" where
  "graphRuleLoop env isvc services [] rules = Inr rules"
| "graphRuleLoop env isvc services ((graph, step) # calls) (predictor, transformer) =
     (case graphStepPorts env isvc services step predictorNetworkPolicyComponent of
        Inl e \<Rightarrow> Inl e
      | Inr ports \<Rightarrow>
          (case graphStepPorts env isvc services step transformerNetworkPolicyComponent of
             Inl e \<Rightarrow> Inl e
           | Inr ports' \<Rightarrow>
               graphRuleLoop env isvc services calls
                 (addGraphRule env graph ports predictor, addGraphRule env graph ports' transformer)))"

definition graphIngressRules ::
    "net_env \<Rightarrow> net_isvc \<Rightarrow> component_services \<Rightarrow> api_error + policy_traffic list \<times> policy_traffic list" where
  "graphIngressRules env isvc services =
     (if \<not> IsRawInferenceService env isvc then Inr ([], [])
      else (case nv_graphs env (om_namespace (si_meta isvc)) of
              Inl e \<Rightarrow> Inl e
            | Inr graphs \<Rightarrow> graphRuleLoop env isvc services (graphCalls env graphs) ([], [])))"

section \<open>Metrics\<close>

definition getMetricsServiceName :: "'z served_isvc_scheme \<Rightarrow> string" where
  "getMetricsServiceName isvc = om_name (si_meta isvc) @ ''-metrics''"

text \<open>The port of the runtime's annotation when it is valid.\<close>

definition runtimeMetricsPort :: "net_env \<Rightarrow> net_isvc \<Rightarrow> int option" where
  "runtimeMetricsPort env isvc =
     (case FindSupportingRuntimeForISvc (nv_runtimes env) isvc of
        Inl _ \<Rightarrow> None
      | Inr None \<Rightarrow> None
      | Inr (Some r) \<Rightarrow>
          (case parse_int 32 (trim_space (m_str (sr_annotations r) (kc_prometheus_port env))) of
             None \<Rightarrow> None
           | Some port \<Rightarrow> if port < 1 \<or> 65535 < port then None else Some port))"

definition metricsPorts :: "net_env \<Rightarrow> net_isvc \<Rightarrow> policy_port list" where
  "metricsPorts env isvc =
     (case runtimeMetricsPort env isvc of
        None \<Rightarrow> []
      | Some port \<Rightarrow>
          (let fallback = networkPolicyPorts [\<lparr>sp_name = [], sp_port = port, sp_protocol = ''TCP'', sp_target = PortNumber port, sp_app_protocol = None\<rparr>]
           in case nv_service env (om_namespace (si_meta isvc), getMetricsServiceName isvc) of
                Inl _ \<Rightarrow> fallback
              | Inr svc \<Rightarrow>
                  if ownService env isvc svc \<and> networkPolicyPorts (cs_ports svc) \<noteq> [] then networkPolicyPorts (cs_ports svc) else fallback))"

section \<open>The desired policy\<close>

definition rawNetworkPolicyName :: "net_env \<Rightarrow> net_isvc \<Rightarrow> string \<Rightarrow> string" where
  "rawNetworkPolicyName env isvc component =
     nv_child_name env (om_name (si_meta isvc)) (''-'' @ component @ rawNetworkPolicyNameSuffix)"

definition policyMeta :: "net_env \<Rightarrow> net_isvc \<Rightarrow> string \<Rightarrow> object_meta" where
  "policyMeta env isvc component =
     empty_meta\<lparr>om_name := rawNetworkPolicyName env isvc component, om_namespace := om_namespace (si_meta isvc),
       om_labels := [(''app.kubernetes.io/component'', rawNetworkPolicyManagedComponent), (''app.kubernetes.io/part-of'', ''kserve''),
         (''app.kubernetes.io/managed-by'', ''odh-model-controller''), (kc_component env, component),
         (KserveGroupAnnotation, om_name (si_meta isvc))]\<rparr>"

definition rule_if :: "policy_peer list \<Rightarrow> policy_port list \<Rightarrow> policy_traffic list" where
  "rule_if peers ports = (if ports = [] then [] else [\<lparr>pt_peers = peers, pt_ports = ports\<rparr>])"

definition routeRules :: "net_env \<Rightarrow> net_isvc \<Rightarrow> string \<Rightarrow> component_services \<Rightarrow> api_error + policy_traffic list" where
  "routeRules env isvc component services =
     (if routeEnabled isvc \<and>
         (routeComponent services = component \<or> component = predictorNetworkPolicyComponent \<and> si_canary isvc \<noteq> []) then
        (case routeTargetPorts env (servicesOf services component) (rawAuthEnabled isvc) of
           Inl e \<Rightarrow> Inl e
         | Inr ports \<Rightarrow> Inr (rule_if [routerPeer] ports))
      else Inr [])"

definition clusterLocalRules :: "net_env \<Rightarrow> net_isvc \<Rightarrow> string \<Rightarrow> component_services \<Rightarrow> api_error + policy_traffic list" where
  "clusterLocalRules env isvc component services =
     (if m_str (om_labels (si_meta isvc)) (kc_visibility env) = kc_cluster_local env \<and> component = graphTargetComponent isvc then
        (case serviceTargetPorts env (graphTargetServices env isvc (servicesOf services component)) (rawAuthEnabled isvc) of
           Inl e \<Rightarrow> Inl e
         | Inr ports \<Rightarrow> Inr (rule_if [everyPod] ports))
      else Inr [])"

definition predictorCallers :: "net_env \<Rightarrow> net_isvc \<Rightarrow> component_services \<Rightarrow> string list" where
  "predictorCallers env isvc services =
     (if servicesOf services transformerNetworkPolicyComponent \<noteq> [] then [transformerNetworkPolicyComponent] else []) @
     (if si_explainer isvc \<noteq> None then [kc_explainer env] else [])"

definition callerRules :: "net_env \<Rightarrow> net_isvc \<Rightarrow> string \<Rightarrow> component_services \<Rightarrow> api_error + policy_traffic list" where
  "callerRules env isvc component services =
     (if component = predictorNetworkPolicyComponent \<and> predictorCallers env isvc services \<noteq> [] then
        (case serviceTargetPorts env (servicesOf services predictorNetworkPolicyComponent) (rawAuthEnabled isvc) of
           Inl e \<Rightarrow> Inl e
         | Inr ports \<Rightarrow>
             Inr (concat (map (\<lambda>caller. rule_if [componentPeer env isvc caller] ports) (predictorCallers env isvc services))))
      else Inr [])"

definition desiredNetworkPolicy ::
    "net_env \<Rightarrow> net_isvc \<Rightarrow> string \<Rightarrow> component_services \<Rightarrow> policy_port list \<Rightarrow> bool \<Rightarrow> policy_traffic list \<Rightarrow>
     api_error + network_policy" where
  "desiredNetworkPolicy env isvc component services metrics multiNode graphRules =
     (case nv_own env (kc_isvc_api env) ''InferenceService'' (si_meta isvc) (policyMeta env isvc component) of
        Inl e \<Rightarrow> Inl e
      | Inr meta \<Rightarrow>
          (case routeRules env isvc component services of
             Inl e \<Rightarrow> Inl e
           | Inr route \<Rightarrow>
               (case clusterLocalRules env isvc component services of
                  Inl e \<Rightarrow> Inl e
                | Inr local \<Rightarrow>
                    (case callerRules env isvc component services of
                       Inl e \<Rightarrow> Inl e
                     | Inr callers \<Rightarrow>
                         Inr \<lparr>ch_meta = meta,
                           ch_spec = \<lparr>po_pods = [(KserveGroupAnnotation, om_name (si_meta isvc)), (kc_component env, component)],
                             po_types = [''Ingress'', ''Egress''],
                             po_ingress = route @ local @ callers @ graphRules @ rule_if (monitoringPeers env) metrics @
                               (if component = predictorNetworkPolicyComponent \<and> multiNode then [multiNodePredictorPeer env isvc] else []),
                             po_egress = [\<lparr>pt_peers = [], pt_ports = []\<rparr>]\<rparr>\<rparr>))))"

section \<open>What a policy admits\<close>

text \<open>
  A source is a pod with the namespace it is in. Named ports are those of the containers of the target pod, by
  protocol and name. An empty list of peers stands for every source, an empty list of ports for every port.
\<close>

record traffic_source =
  ts_namespace :: string
  ts_namespace_labels :: "string gomap"
  ts_labels :: "string gomap"

definition labels_match :: "string gomap \<Rightarrow> string gomap \<Rightarrow> bool" where
  "labels_match sel labels = list_all (\<lambda>(k, v). map_of labels k = Some v) sel"

definition peer_admits :: "string \<Rightarrow> policy_peer \<Rightarrow> traffic_source \<Rightarrow> bool" where
  "peer_admits ns peer src =
     (case (pe_namespaces peer, pe_pods peer) of
        (None, None) \<Rightarrow> False
      | (None, Some pods) \<Rightarrow> ts_namespace src = ns \<and> labels_match pods (ts_labels src)
      | (Some nss, None) \<Rightarrow> labels_match nss (ts_namespace_labels src)
      | (Some nss, Some pods) \<Rightarrow> labels_match nss (ts_namespace_labels src) \<and> labels_match pods (ts_labels src))"

definition target_is :: "(string \<Rightarrow> string \<Rightarrow> int option) \<Rightarrow> string \<Rightarrow> int \<Rightarrow> int_or_string \<Rightarrow> bool" where
  "target_is named protocol n target =
     (case target of PortNumber p \<Rightarrow> p = n | PortName s \<Rightarrow> named protocol s = Some n)"

definition port_admits :: "(string \<Rightarrow> string \<Rightarrow> int option) \<Rightarrow> policy_port \<Rightarrow> string \<Rightarrow> int \<Rightarrow> bool" where
  "port_admits named port protocol n =
     ((case pp_protocol port of None \<Rightarrow> ''TCP'' | Some p \<Rightarrow> p) = protocol \<and>
      (case pp_port port of
         None \<Rightarrow> True
       | Some target \<Rightarrow>
           (case (target, pp_end port) of
              (PortNumber p, Some q) \<Rightarrow> p \<le> n \<and> n \<le> q
            | _ \<Rightarrow> target_is named protocol n target)))"

definition rule_admits ::
    "(string \<Rightarrow> string \<Rightarrow> int option) \<Rightarrow> string \<Rightarrow> policy_traffic \<Rightarrow> traffic_source \<Rightarrow> string \<Rightarrow> int \<Rightarrow> bool" where
  "rule_admits named ns rule src protocol n =
     ((pt_peers rule = [] \<or> list_ex (\<lambda>p. peer_admits ns p src) (pt_peers rule)) \<and>
      (pt_ports rule = [] \<or> list_ex (\<lambda>p. port_admits named p protocol n) (pt_ports rule)))"

definition admits :: "(string \<Rightarrow> string \<Rightarrow> int option) \<Rightarrow> network_policy \<Rightarrow> traffic_source \<Rightarrow> string \<Rightarrow> int \<Rightarrow> bool" where
  "admits named policy src protocol n =
     list_ex (\<lambda>rule. rule_admits named (om_namespace (ch_meta policy)) rule src protocol n) (po_ingress (ch_spec policy))"

section \<open>Lemmas\<close>

named_theorems access_simps \<open>what the pieces of a policy admit\<close>

text \<open>
  The names of ports: the API server admits no name that is a number, and no protocol but its own three, none of which has a colon. The
  first is what keeps apart a named and a numbered port in the loop that drops duplicates.
\<close>

definition port_names_ok :: "service_port list \<Rightarrow> bool" where
  "port_names_ok sps = (\<forall>sp \<in> set sps. \<forall>s. sp_target sp = PortName s \<longrightarrow> (\<forall>n. s \<noteq> dec_int n))"

definition service_port_admits :: "(string \<Rightarrow> string \<Rightarrow> int option) \<Rightarrow> service_port \<Rightarrow> string \<Rightarrow> int \<Rightarrow> bool" where
  "service_port_admits named sp protocol n =
     (protocolOf sp = protocol \<and> port_set (targetOf sp) \<and> target_is named protocol n (targetOf sp))"

lemma port_text_inj:
  assumes "port_text a = port_text b" "\<forall>s n. a = PortName s \<longrightarrow> s \<noteq> dec_int n" "\<forall>s n. b = PortName s \<longrightarrow> s \<noteq> dec_int n"
  shows "a = b"
  using assms by (cases a; cases b) (auto simp: port_text_def dec_int_inj)

lemma targetOf_name: "targetOf sp = PortName s \<Longrightarrow> sp_target sp = PortName s"
  by (auto simp: targetOf_def split: if_splits)

lemma policyPortLoop_admits:
  assumes "port_names_ok sps"
  shows "list_ex (\<lambda>p. port_admits named p protocol n) (policyPortLoop seen sps) \<longleftrightarrow>
    (\<exists>sp \<in> set sps. service_port_admits named sp protocol n \<and> (protocolOf sp, port_text (targetOf sp)) \<notin> set seen)"
  using assms
proof (induction seen sps rule: policyPortLoop.induct)
  case (2 seen sp sps)
  let ?key = "(protocolOf sp, port_text (targetOf sp))"
  have ok: "port_names_ok sps" "port_names_ok [sp]" using "2.prems" by (auto simp: port_names_ok_def)
  have same: "service_port_admits named x protocol n = service_port_admits named sp protocol n"
    if "x \<in> set sps" "(protocolOf x, port_text (targetOf x)) = ?key" for x
  proof -
    have "targetOf x = targetOf sp"
      by (rule port_text_inj) (use that ok in \<open>auto simp: port_names_ok_def dest: targetOf_name\<close>)
    with that show ?thesis by (simp add: service_port_admits_def)
  qed
  have here: "port_admits named \<lparr>pp_protocol = Some (protocolOf sp), pp_port = Some (targetOf sp), pp_end = None\<rparr> protocol n \<longleftrightarrow>
      service_port_admits named sp protocol n" if "port_set (targetOf sp)"
    using that by (auto simp: port_admits_def service_port_admits_def split: int_or_string.splits)
  show ?case
  proof (cases "\<not> port_set (targetOf sp) \<or> ?key \<in> set seen")
    case True
    then show ?thesis using "2.IH"(1) [OF refl refl True ok(1)]
      by (auto simp: service_port_admits_def)
  next
    case False
    from "2.IH"(2) [OF refl refl False ok(1)] show ?thesis
      using False here same by auto
  qed
qed simp

lemma networkPolicyPorts_admits [access_simps]:
  "port_names_ok sps \<Longrightarrow>
   list_ex (\<lambda>p. port_admits named p protocol n) (networkPolicyPorts sps) \<longleftrightarrow> (\<exists>sp \<in> set sps. service_port_admits named sp protocol n)"
  using policyPortLoop_admits [where seen = "[]"] by (simp add: networkPolicyPorts_def list_ex_iff)

lemma networkPolicyPorts_Nil: "networkPolicyPorts sps = [] \<longleftrightarrow> (\<forall>sp \<in> set sps. \<not> port_set (targetOf sp))"
proof -
  have "policyPortLoop [] sps = [] \<longleftrightarrow> (\<forall>sp \<in> set sps. \<not> port_set (targetOf sp))" by (induction sps) (auto simp: Let_def)
  moreover have "sort_key portOrder xs = [] \<longleftrightarrow> xs = []" for xs by (metis length_0_conv length_sort)
  ultimately show ?thesis by (simp add: networkPolicyPorts_def)
qed

text \<open>The ports at which the pods behind the services serve requests, and whether one of them is the given one.\<close>

definition entryPort :: "net_env \<Rightarrow> bool \<Rightarrow> net_service \<Rightarrow> service_port \<Rightarrow> bool" where
  "entryPort env auth svc sp =
     (m_str (cs_labels svc) (kc_multi_node_role env) = [] \<and> sp \<in> set (cs_ports svc) \<and>
      (case setRouteTargetPort auth svc of Inl _ \<Rightarrow> False | Inr selected \<Rightarrow> selectedPort selected sp))"

definition serves ::
    "net_env \<Rightarrow> (string \<Rightarrow> string \<Rightarrow> int option) \<Rightarrow> bool \<Rightarrow> net_service list \<Rightarrow> string \<Rightarrow> int \<Rightarrow> bool" where
  "serves env named auth svcs protocol n =
     list_ex (\<lambda>svc. list_ex (\<lambda>sp. entryPort env auth svc sp \<and> service_port_admits named sp protocol n) (cs_ports svc)) svcs"

definition services_ok :: "net_service list \<Rightarrow> bool" where
  "services_ok svcs = (\<forall>svc \<in> set svcs. port_names_ok (cs_ports svc))"

lemma setRouteTargetPort_total: "cs_ports svc \<noteq> [] \<Longrightarrow> \<exists>p. setRouteTargetPort auth svc = Inr p"
  by (auto simp: setRouteTargetPort_def split: option.splits list.splits)

lemma servingPorts_spec:
  "\<exists>ports. servingPorts env svcs auth = Inr ports \<and> set ports = {sp. \<exists>svc \<in> set svcs. entryPort env auth svc sp}"
proof (induction svcs)
  case (Cons svc svcs)
  then obtain ports where ports: "servingPorts env svcs auth = Inr ports" "set ports = {sp. \<exists>svc \<in> set svcs. entryPort env auth svc sp}"
    by blast
  show ?case
  proof (cases "cs_ports svc = [] \<or> m_str (cs_labels svc) (kc_multi_node_role env) \<noteq> []")
    case True
    with ports show ?thesis by (auto simp: entryPort_def)
  next
    case False
    with setRouteTargetPort_total obtain p where "setRouteTargetPort auth svc = Inr p" by blast
    with False ports show ?thesis by (auto simp: entryPort_def)
  qed
qed simp

lemma serviceTargetPorts_total: "\<exists>ports. serviceTargetPorts env svcs auth = Inr ports"
  using servingPorts_spec [of env svcs auth] by (auto simp: serviceTargetPorts_def)

lemma serviceTargetPorts_admits [access_simps]:
  assumes "serviceTargetPorts env svcs auth = Inr ports" "services_ok svcs"
  shows "list_ex (\<lambda>p. port_admits named p protocol n) ports \<longleftrightarrow> serves env named auth svcs protocol n"
proof -
  obtain sps where sps: "servingPorts env svcs auth = Inr sps" "set sps = {sp. \<exists>svc \<in> set svcs. entryPort env auth svc sp}"
    using servingPorts_spec by blast
  with assms(1) have ports: "ports = networkPolicyPorts sps" by (simp add: serviceTargetPorts_def)
  have "port_names_ok sps" using assms(2) sps(2) by (auto simp: services_ok_def port_names_ok_def entryPort_def)
  then have "list_ex (\<lambda>p. port_admits named p protocol n) ports \<longleftrightarrow>
      (\<exists>sp svc. svc \<in> set svcs \<and> entryPort env auth svc sp \<and> service_port_admits named sp protocol n)"
    unfolding ports by (auto simp: networkPolicyPorts_admits sps(2))
  then show ?thesis by (auto simp: serves_def list_ex_iff entryPort_def)
qed

lemma rule_if_admits [access_simps]:
  "peers \<noteq> [] \<Longrightarrow>
   list_ex (\<lambda>rule. rule_admits named ns rule src protocol n) (rule_if peers ports) \<longleftrightarrow>
     list_ex (\<lambda>p. peer_admits ns p src) peers \<and> list_ex (\<lambda>p. port_admits named p protocol n) ports"
  by (auto simp: rule_if_def rule_admits_def)

definition podOf :: "net_env \<Rightarrow> net_isvc \<Rightarrow> string \<Rightarrow> traffic_source \<Rightarrow> bool" where
  "podOf env isvc component src =
     (ts_namespace src = om_namespace (si_meta isvc) \<and>
      map_of (ts_labels src) KserveGroupAnnotation = Some (om_name (si_meta isvc)) \<and>
      map_of (ts_labels src) (kc_component env) = Some component)"

definition routerOf :: "net_env \<Rightarrow> string \<Rightarrow> string \<Rightarrow> traffic_source \<Rightarrow> bool" where
  "routerOf env ns graph src = (ts_namespace src = ns \<and> map_of (ts_labels src) (kc_graph_label env) = Some graph)"

lemma peer_admits_simps [access_simps]:
  "peer_admits ns routerPeer src \<longleftrightarrow> map_of (ts_namespace_labels src) openshiftIngressPolicyGroupLabel = Some []"
  "peer_admits ns everyPod src"
  "peer_admits (om_namespace (si_meta isvc)) (componentPeer env isvc component) src \<longleftrightarrow> podOf env isvc component src"
  "peer_admits ns (graphPeer env graph) src \<longleftrightarrow> routerOf env ns graph src"
  "peer_admits ns (namespaceSelectorPeer m) src \<longleftrightarrow> map_of (ts_namespace_labels src) ''kubernetes.io/metadata.name'' = Some m"
  by (simp_all add: peer_admits_def routerPeer_def everyPod_def componentPeer_def graphPeer_def namespaceSelectorPeer_def
      labels_match_def podOf_def routerOf_def)

lemma allPorts_admits [access_simps]:
  "port_admits named (allPortsForProtocol p) protocol n \<longleftrightarrow> p = protocol \<and> 1 \<le> n \<and> n \<le> 65535"
  by (simp add: port_admits_def allPortsForProtocol_def)

lemma monitoringPeers_ne [simp]: "monitoringPeers env \<noteq> []"
proof -
  have "fold (\<lambda>n acc. if n \<in> set acc then acc else acc @ [n]) xs acc \<noteq> []" if "acc \<noteq> []" for xs and acc :: "string list"
    using that by (induction xs arbitrary: acc) auto
  then show ?thesis by (simp add: monitoringPeers_def monitoringNamespaces_def)
qed

lemma list_ex_False: "\<not> list_ex (\<lambda>_. False) xs"
  by (simp add: list_ex_iff)

lemma callerRules_admits:
  "list_ex P (concat (map (\<lambda>c. rule_if [componentPeer env isvc c] ports) cs)) \<longleftrightarrow>
     list_ex (\<lambda>c. list_ex P (rule_if [componentPeer env isvc c] ports)) cs"
  by (auto simp: list_ex_iff)

text \<open>\<open>SetControllerReference\<close> sets the owners and nothing else, and the new owner is among them.\<close>

definition net_laws :: "net_env \<Rightarrow> bool" where
  "net_laws env =
     (\<forall>api kind g m m'. nv_own env api kind g m = Inr m' \<longrightarrow>
        (\<exists>os. m' = m\<lparr>om_owners := os\<rparr> \<and>
           \<lparr>or_api = api, or_kind = kind, or_name = om_name g, or_uid = om_uid g, or_controller = Some True\<rparr> \<in> set os))"

lemma net_lawsD:
  assumes "net_laws env" "nv_own env api kind g m = Inr m'"
  obtains os where "m' = m\<lparr>om_owners := os\<rparr>"
    "\<lparr>or_api = api, or_kind = kind, or_name = om_name g, or_uid = om_uid g, or_controller = Some True\<rparr> \<in> set os"
  using assms unfolding net_laws_def by blast

lemma desired_total:
  "nv_own env (kc_isvc_api env) ''InferenceService'' (si_meta isvc) (policyMeta env isvc component) = Inr meta \<Longrightarrow>
   \<exists>d. desiredNetworkPolicy env isvc component services metrics multi rules = Inr d"
proof -
  assume own: "nv_own env (kc_isvc_api env) ''InferenceService'' (si_meta isvc) (policyMeta env isvc component) = Inr meta"
  have "serviceTargetPorts env svcs auth \<noteq> Inl e" for svcs auth e using serviceTargetPorts_total [of env svcs auth] by auto
  then obtain a b c where "routeRules env isvc component services = Inr a" "clusterLocalRules env isvc component services = Inr b"
      "callerRules env isvc component services = Inr c"
    by (cases "routeRules env isvc component services"; cases "clusterLocalRules env isvc component services";
        cases "callerRules env isvc component services")
      (auto simp: routeRules_def routeTargetPorts_def clusterLocalRules_def callerRules_def split: sum.splits if_splits)
  with own show ?thesis by (simp add: desiredNetworkPolicy_def)
qed

subsection \<open>Rules of graphs\<close>

definition graph_rule :: "net_env \<Rightarrow> policy_traffic \<Rightarrow> bool" where
  "graph_rule env rule = (\<exists>g ports. rule = \<lparr>pt_peers = [graphPeer env g], pt_ports = ports\<rparr> \<and> ports \<noteq> [])"

lemma traffic_eq_graph:
  "traffic_eq \<lparr>pt_peers = [graphPeer env g], pt_ports = ps\<rparr> \<lparr>pt_peers = [graphPeer env h], pt_ports = qs\<rparr> \<longleftrightarrow> g = h \<and> ps = qs"
  by (auto simp: traffic_eq_def peer_eq_def selector_eq_def graphPeer_def m_eq_def)

lemma addGraphRule_set:
  assumes "\<forall>r \<in> set rules. graph_rule env r"
  shows "set (addGraphRule env g ports rules) =
    (if ports = [] then {} else {\<lparr>pt_peers = [graphPeer env g], pt_ports = ports\<rparr>}) \<union> set rules"
    and "\<forall>r \<in> set (addGraphRule env g ports rules). graph_rule env r"
proof -
  have "containsIngressRule rules \<lparr>pt_peers = [graphPeer env g], pt_ports = ports\<rparr> \<Longrightarrow>
      \<lparr>pt_peers = [graphPeer env g], pt_ports = ports\<rparr> \<in> set rules"
    using assms by (fastforce simp: containsIngressRule_def list_ex_iff graph_rule_def traffic_eq_graph)
  then show eq: "set (addGraphRule env g ports rules) =
    (if ports = [] then {} else {\<lparr>pt_peers = [graphPeer env g], pt_ports = ports\<rparr>}) \<union> set rules"
    by (auto simp: addGraphRule_def)
  show "\<forall>r \<in> set (addGraphRule env g ports rules). graph_rule env r"
    unfolding eq using assms by (auto simp: graph_rule_def)
qed

definition call_rules :: "net_env \<Rightarrow> net_isvc \<Rightarrow> component_services \<Rightarrow> (string \<times> graph_step) list \<Rightarrow> string \<Rightarrow> policy_traffic set" where
  "call_rules env isvc services calls component =
     {\<lparr>pt_peers = [graphPeer env g], pt_ports = ports\<rparr> | g step ports.
        (g, step) \<in> set calls \<and> graphStepPorts env isvc services step component = Inr ports \<and> ports \<noteq> []}"

lemma call_rules_simps:
  "call_rules env isvc services [] component = {}"
  "graphStepPorts env isvc services step component = Inr ports \<Longrightarrow>
   call_rules env isvc services ((g, step) # calls) component =
     (if ports = [] then {} else {\<lparr>pt_peers = [graphPeer env g], pt_ports = ports\<rparr>}) \<union> call_rules env isvc services calls component"
  by (auto simp: call_rules_def)

lemma graphRuleLoop_set:
  assumes "graphRuleLoop env isvc services calls (p, t) = Inr (p', t')"
    and "\<forall>r \<in> set p. graph_rule env r" "\<forall>r \<in> set t. graph_rule env r"
  shows "set p' = call_rules env isvc services calls predictorNetworkPolicyComponent \<union> set p \<and>
    set t' = call_rules env isvc services calls transformerNetworkPolicyComponent \<union> set t"
  using assms
proof (induction calls arbitrary: p t)
  case (Cons c calls)
  obtain g step where c: "c = (g, step)" by (cases c)
  from Cons.prems(1) obtain ps qs where
    ps: "graphStepPorts env isvc services step predictorNetworkPolicyComponent = Inr ps"
      "graphStepPorts env isvc services step transformerNetworkPolicyComponent = Inr qs"
    and rest: "graphRuleLoop env isvc services calls (addGraphRule env g ps p, addGraphRule env g qs t) = Inr (p', t')"
    by (auto simp: c split: sum.splits)
  from Cons.IH [OF rest addGraphRule_set(2) [OF Cons.prems(2)] addGraphRule_set(2) [OF Cons.prems(3)]]
  show ?case
    unfolding c call_rules_simps(2) [OF ps(1)] call_rules_simps(2) [OF ps(2)] addGraphRule_set(1) [OF Cons.prems(2)] addGraphRule_set(1) [OF Cons.prems(3)]
    by blast
qed (simp add: call_rules_simps)

lemma graphStepPorts_total: "\<exists>ports. graphStepPorts env isvc services step component = Inr ports"
  using serviceTargetPorts_total by (auto simp: graphStepPorts_def)

lemma graphRuleLoop_total: "\<exists>r. graphRuleLoop env isvc services calls rules = Inr r"
proof (induction calls arbitrary: rules)
  case (Cons c calls)
  obtain g step where c: "c = (g, step)" by (cases c)
  obtain p t where "rules = (p, t)" by (cases rules)
  moreover obtain ps qs where "graphStepPorts env isvc services step predictorNetworkPolicyComponent = Inr ps"
      "graphStepPorts env isvc services step transformerNetworkPolicyComponent = Inr qs"
    using graphStepPorts_total by blast
  ultimately show ?case using Cons.IH by (simp add: c)
qed simp

lemma graph_rules_admit:
  "(\<exists>r \<in> call_rules env isvc services calls component. rule_admits named ns r src protocol n) \<longleftrightarrow>
     (\<exists>g step ports. (g, step) \<in> set calls \<and> routerOf env ns g src \<and>
        graphStepPorts env isvc services step component = Inr ports \<and> list_ex (\<lambda>p. port_admits named p protocol n) ports)"
proof -
  have rule: "rule_admits named ns \<lparr>pt_peers = [graphPeer env g], pt_ports = ports\<rparr> src protocol n \<longleftrightarrow>
      routerOf env ns g src \<and> list_ex (\<lambda>p. port_admits named p protocol n) ports" if "ports \<noteq> []" for g ports
    using that by (simp add: rule_admits_def access_simps)
  have ne: "ports \<noteq> []" if "list_ex (\<lambda>p. port_admits named p protocol n) ports" for ports
    using that by auto
  show ?thesis
  proof
    assume "\<exists>r \<in> call_rules env isvc services calls component. rule_admits named ns r src protocol n"
    then show "\<exists>g step ports. (g, step) \<in> set calls \<and> routerOf env ns g src \<and>
        graphStepPorts env isvc services step component = Inr ports \<and> list_ex (\<lambda>p. port_admits named p protocol n) ports"
      unfolding call_rules_def using rule by blast
  next
    assume "\<exists>g step ports. (g, step) \<in> set calls \<and> routerOf env ns g src \<and>
        graphStepPorts env isvc services step component = Inr ports \<and> list_ex (\<lambda>p. port_admits named p protocol n) ports"
    then show "\<exists>r \<in> call_rules env isvc services calls component. rule_admits named ns r src protocol n"
      unfolding call_rules_def using rule ne by blast
  qed
qed

text \<open>The calls that count for a service, and those admitted to a component.\<close>

definition countedCalls :: "net_env \<Rightarrow> net_isvc \<Rightarrow> (string \<times> graph_step) list" where
  "countedCalls env isvc =
     (if \<not> IsRawInferenceService env isvc then []
      else case nv_graphs env (om_namespace (si_meta isvc)) of Inl _ \<Rightarrow> [] | Inr graphs \<Rightarrow> graphCalls env graphs)"

definition graphCallAdmitted ::
    "net_env \<Rightarrow> net_isvc \<Rightarrow> component_services \<Rightarrow> string \<Rightarrow> (string \<Rightarrow> string \<Rightarrow> int option) \<Rightarrow> traffic_source \<Rightarrow> string \<Rightarrow> int \<Rightarrow> bool" where
  "graphCallAdmitted env isvc services component named src protocol n =
     (\<exists>g step ports. (g, step) \<in> set (countedCalls env isvc) \<and> routerOf env (om_namespace (si_meta isvc)) g src \<and>
        graphStepPorts env isvc services step component = Inr ports \<and> list_ex (\<lambda>p. port_admits named p protocol n) ports)"

lemma graphIngressRules_set:
  assumes "graphIngressRules env isvc services = Inr (p, t)"
  shows "set p = call_rules env isvc services (countedCalls env isvc) predictorNetworkPolicyComponent"
    and "set t = call_rules env isvc services (countedCalls env isvc) transformerNetworkPolicyComponent"
  using assms graphRuleLoop_set [of env isvc services _ "[]" "[]" p t]
  by (auto simp: graphIngressRules_def countedCalls_def call_rules_simps split: if_splits sum.splits)

lemma graphIngressRules_admit:
  assumes "graphIngressRules env isvc services = Inr (p, t)"
  shows "list_ex (\<lambda>r. rule_admits named (om_namespace (si_meta isvc)) r src protocol n) p \<longleftrightarrow>
      graphCallAdmitted env isvc services predictorNetworkPolicyComponent named src protocol n"
    and "list_ex (\<lambda>r. rule_admits named (om_namespace (si_meta isvc)) r src protocol n) t \<longleftrightarrow>
      graphCallAdmitted env isvc services transformerNetworkPolicyComponent named src protocol n"
  by (simp_all only: list_ex_iff graphIngressRules_set [OF assms] graph_rules_admit graphCallAdmitted_def)

section \<open>Properties\<close>

text \<open>The rules a policy is made of, by what each admits.\<close>

lemma routeRules_admit:
  assumes "routeRules env isvc component services = Inr rules" "services_ok (servicesOf services component)"
  shows "list_ex (\<lambda>r. rule_admits named ns r src protocol n) rules \<longleftrightarrow>
    routeEnabled isvc \<and> (routeComponent services = component \<or> component = predictorNetworkPolicyComponent \<and> si_canary isvc \<noteq> []) \<and>
    map_of (ts_namespace_labels src) openshiftIngressPolicyGroupLabel = Some [] \<and>
    serves env named (rawAuthEnabled isvc) (servicesOf services component) protocol n"
  using assms by (auto simp: routeRules_def routeTargetPorts_def access_simps split: if_splits sum.splits)

lemma clusterLocalRules_admit:
  assumes "clusterLocalRules env isvc component services = Inr rules" "services_ok (servicesOf services component)"
  shows "list_ex (\<lambda>r. rule_admits named ns r src protocol n) rules \<longleftrightarrow>
    m_str (om_labels (si_meta isvc)) (kc_visibility env) = kc_cluster_local env \<and> component = graphTargetComponent isvc \<and>
    serves env named (rawAuthEnabled isvc) (graphTargetServices env isvc (servicesOf services component)) protocol n"
proof -
  have "services_ok (graphTargetServices env isvc (servicesOf services component))"
    using assms(2) by (simp add: services_ok_def graphTargetServices_def)
  with assms show ?thesis by (auto simp: clusterLocalRules_def access_simps split: if_splits sum.splits)
qed

lemma callerRules_admit:
  assumes "callerRules env isvc component services = Inr rules" "services_ok (servicesOf services predictorNetworkPolicyComponent)"
  shows "list_ex (\<lambda>r. rule_admits named (om_namespace (si_meta isvc)) r src protocol n) rules \<longleftrightarrow>
    component = predictorNetworkPolicyComponent \<and>
    list_ex (\<lambda>c. podOf env isvc c src) (predictorCallers env isvc services) \<and>
    serves env named (rawAuthEnabled isvc) (servicesOf services predictorNetworkPolicyComponent) protocol n"
  using assms
  by (cases "serves env named (rawAuthEnabled isvc) (servicesOf services predictorNetworkPolicyComponent) protocol n")
    (auto simp: callerRules_def callerRules_admits access_simps list_ex_False split: if_splits sum.splits)

text \<open>
  Property C5. What the policy of a component lets in: the router of the cluster, at the serving ports, when a Route leads to the
  component; every pod, when the service is visible in the cluster and the component is its entry; the transformer and the explainer
  of the same service, for the predictor; the routers of graphs that call the service, at the ports they call; monitoring, at the
  metrics ports; and the pods of the same predictor, at every port, when the model runs on several nodes. Nothing else is let in.
\<close>

theorem policy_admits_iff:
  assumes laws: "net_laws env"
    and policy: "desiredNetworkPolicy env isvc component services (metricsPorts env isvc) (ni_worker isvc)
      (if component = predictorNetworkPolicyComponent then p else t) = Inr policy"
    and graphs: "graphIngressRules env isvc services = Inr (p, t)"
    and component: "component \<in> {predictorNetworkPolicyComponent, transformerNetworkPolicyComponent}"
    and ok: "services_ok (cv_predictor services)" "services_ok (cv_transformer services)"
  shows "admits named policy src protocol n \<longleftrightarrow>
    routeEnabled isvc \<and> (routeComponent services = component \<or> component = predictorNetworkPolicyComponent \<and> si_canary isvc \<noteq> []) \<and>
      map_of (ts_namespace_labels src) openshiftIngressPolicyGroupLabel = Some [] \<and>
      serves env named (rawAuthEnabled isvc) (servicesOf services component) protocol n \<or>
    m_str (om_labels (si_meta isvc)) (kc_visibility env) = kc_cluster_local env \<and> component = graphTargetComponent isvc \<and>
      serves env named (rawAuthEnabled isvc) (graphTargetServices env isvc (servicesOf services component)) protocol n \<or>
    component = predictorNetworkPolicyComponent \<and> (\<exists>c \<in> set (predictorCallers env isvc services). podOf env isvc c src) \<and>
      serves env named (rawAuthEnabled isvc) (cv_predictor services) protocol n \<or>
    graphCallAdmitted env isvc services component named src protocol n \<or>
    (\<exists>m \<in> set (monitoringNamespaces env). map_of (ts_namespace_labels src) ''kubernetes.io/metadata.name'' = Some m) \<and>
      list_ex (\<lambda>q. port_admits named q protocol n) (metricsPorts env isvc) \<or>
    component = predictorNetworkPolicyComponent \<and> ni_worker isvc \<and> podOf env isvc component src \<and>
      protocol \<in> {''TCP'', ''UDP'', ''SCTP''} \<and> 1 \<le> n \<and> n \<le> 65535"
proof -
  let ?ns = "om_namespace (si_meta isvc)"
  let ?A = "\<lambda>rules. list_ex (\<lambda>r. rule_admits named ?ns r src protocol n) rules"
  have oks: "services_ok (servicesOf services c)" for c using ok by (simp add: servicesOf_def services_ok_def)
  have pred: "servicesOf services predictorNetworkPolicyComponent = cv_predictor services" by (simp add: servicesOf_def)
  from policy obtain meta route local callers where parts: "nv_own env (kc_isvc_api env) ''InferenceService'' (si_meta isvc) (policyMeta env isvc component) = Inr meta"
      "routeRules env isvc component services = Inr route" "clusterLocalRules env isvc component services = Inr local"
      "callerRules env isvc component services = Inr callers"
    and ing: "po_ingress (ch_spec policy) = route @ local @ callers @ (if component = predictorNetworkPolicyComponent then p else t) @
      rule_if (monitoringPeers env) (metricsPorts env isvc) @
      (if component = predictorNetworkPolicyComponent \<and> ni_worker isvc then [multiNodePredictorPeer env isvc] else [])"
    and meta: "ch_meta policy = meta"
    by (auto simp: desiredNetworkPolicy_def split: sum.splits)
  have ns: "om_namespace (ch_meta policy) = ?ns"
    by (rule net_lawsD [OF laws parts(1)]) (simp add: meta policyMeta_def)
  have "?A (if component = predictorNetworkPolicyComponent then p else t) \<longleftrightarrow> graphCallAdmitted env isvc services component named src protocol n"
    using component graphIngressRules_admit [OF graphs] by auto
  moreover have "?A (rule_if (monitoringPeers env) (metricsPorts env isvc)) \<longleftrightarrow>
      (\<exists>m \<in> set (monitoringNamespaces env). map_of (ts_namespace_labels src) ''kubernetes.io/metadata.name'' = Some m) \<and>
      list_ex (\<lambda>q. port_admits named q protocol n) (metricsPorts env isvc)"
    by (simp add: access_simps) (auto simp: monitoringPeers_def list_ex_iff access_simps)
  moreover have "rule_admits named ?ns (multiNodePredictorPeer env isvc) src protocol n \<longleftrightarrow>
      podOf env isvc predictorNetworkPolicyComponent src \<and> protocol \<in> {''TCP'', ''UDP'', ''SCTP''} \<and> 1 \<le> n \<and> n \<le> 65535"
    by (auto simp: rule_admits_def multiNodePredictorPeer_def access_simps)
  ultimately show ?thesis
    unfolding admits_def ing ns list_ex_append routeRules_admit [OF parts(2) oks] clusterLocalRules_admit [OF parts(3) oks]
      callerRules_admit [OF parts(4) oks] pred list_ex_iff [of _ "predictorCallers env isvc services"]
    by auto
qed

subsection \<open>An example cluster\<close>

definition demo_own :: "string \<Rightarrow> string \<Rightarrow> object_meta \<Rightarrow> object_meta \<Rightarrow> api_error + object_meta" where
  "demo_own api kind g m = Inr (m\<lparr>om_owners := om_owners m @
     [\<lparr>or_api = api, or_kind = kind, or_name = om_name g, or_uid = om_uid g, or_controller = Some True\<rparr>]\<rparr>)"

definition demo_url :: "string \<Rightarrow> parsed_url option" where
  "demo_url u =
     (if u = ''http://m-predictor'' then Some \<lparr>pu_scheme = ''http'', pu_host = ''m-predictor'', pu_port = []\<rparr>
      else if u = ''http://m-predictor:81'' then Some \<lparr>pu_scheme = ''http'', pu_host = ''m-predictor'', pu_port = ''81''\<rparr> else None)"

definition demo_port :: "string \<Rightarrow> int \<Rightarrow> int_or_string \<Rightarrow> service_port" where
  "demo_port name p target = \<lparr>sp_name = name, sp_port = p, sp_protocol = ''TCP'', sp_target = target, sp_app_protocol = None\<rparr>"

definition demo_predictor :: net_service where
  "demo_predictor = \<lparr>cs_name = ''m-predictor'', cs_labels = [(''component'', ''predictor'')],
     cs_ports = [demo_port ''http'' 80 (PortNumber 8080), demo_port ''https'' 443 (PortName ''proxy''), demo_port ''alt'' 81 (PortNumber 9090)],
     ns_namespace = ''ns'', ns_owners = [\<lparr>or_api = ''serving.kserve.io/v1beta1'', or_kind = ''InferenceService'', or_name = ''m'', or_uid = ''u1'',
       or_controller = Some True\<rparr>], ns_type = ''ClusterIP'', ns_cluster_ip = ''10.0.0.1''\<rparr>"

definition demo_isvc :: "string gomap \<Rightarrow> string gomap \<Rightarrow> net_isvc" where
  "demo_isvc labels annotations = \<lparr>si_meta = empty_meta\<lparr>om_name := ''m'', om_namespace := ''ns'', om_uid := ''u1'', om_labels := labels,
       om_annotations := annotations\<rparr>, si_service_account = [], si_timeout = None, si_transformer = None, si_explainer = None, si_canary = [],
     si_model = None, ni_mode = [], ni_predictor = [], ni_worker = False\<rparr>"

definition demo_net :: "net_service list \<Rightarrow> inference_graph list \<Rightarrow> net_env" where
  "demo_net services graphs = \<lparr>kc_component = ''component'', kc_explainer = ''explainer'', kc_visibility = ''networking.kserve.io/visibility'',
     kc_cluster_local = ''cluster-local'', kc_graph_label = ''serving.kserve.io/inferencegraph'', kc_multi_node_role = ''multinode/role'',
     kc_prometheus_port = ''prometheus.io/port'', kc_mode = ''serving.kserve.io/deploymentMode'', kc_router_port = 8080,
     kc_standard = (\<lambda>m. m = ''Standard''), kc_predictor_name = (\<lambda>n _. n @ ''-predictor''), kc_transformer_name = (\<lambda>n. n @ ''-transformer''),
     kc_isvc_api = ''serving.kserve.io/v1beta1'', kc_graph_api = ''serving.kserve.io/v1alpha1'', nv_url = demo_url, nv_child_name = (\<lambda>a b. a @ b),
     nv_own = demo_own, nv_monitoring = [], nv_labelled = (\<lambda>_ _. Inr services), nv_services = (\<lambda>_. Inr services),
     nv_service = (\<lambda>_. Inl NotFound), nv_graphs = (\<lambda>_. Inr graphs), nv_runtimes = \<lparr>ra_get = (\<lambda>_. Inl NotFound), ra_list = (\<lambda>_. Inr [])\<rparr>\<rparr>"

definition exposed_label :: "string gomap" where
  "exposed_label = [(KserveNetworkVisibility, ''exposed'')]"

lemma demo_net_laws: "net_laws (demo_net services graphs)"
  unfolding net_laws_def demo_net_def demo_own_def
  by simp (intro allI exI conjI, rule refl, simp)

definition demo_services :: component_services where
  "demo_services = \<lparr>cv_predictor = [demo_predictor], cv_transformer = []\<rparr>"

definition router_pod :: traffic_source where
  "router_pod = \<lparr>ts_namespace = ''openshift-ingress'', ts_namespace_labels = [(openshiftIngressPolicyGroupLabel, [])], ts_labels = []\<rparr>"

definition demo_policy :: "string gomap \<Rightarrow> network_policy" where
  "demo_policy annotations =
     projr (desiredNetworkPolicy (demo_net [demo_predictor] []) (demo_isvc exposed_label annotations) ''predictor'' demo_services
       (metricsPorts (demo_net [demo_predictor] []) (demo_isvc exposed_label annotations)) False [])"

lemma demo_policy_run:
  "desiredNetworkPolicy (demo_net [demo_predictor] []) (demo_isvc exposed_label a) ''predictor'' demo_services
     (metricsPorts (demo_net [demo_predictor] []) (demo_isvc exposed_label a)) False [] = Inr (demo_policy a)"
  "graphIngressRules (demo_net [demo_predictor] []) (demo_isvc exposed_label []) demo_services = Inr ([], [])"
proof -
  obtain d where d: "desiredNetworkPolicy (demo_net [demo_predictor] []) (demo_isvc exposed_label a) ''predictor'' demo_services
     (metricsPorts (demo_net [demo_predictor] []) (demo_isvc exposed_label a)) False [] = Inr d"
    using desired_total [of "demo_net [demo_predictor] []"] by (fastforce simp: demo_net_def demo_own_def)
  then show "desiredNetworkPolicy (demo_net [demo_predictor] []) (demo_isvc exposed_label a) ''predictor'' demo_services
     (metricsPorts (demo_net [demo_predictor] []) (demo_isvc exposed_label a)) False [] = Inr (demo_policy a)"
    by (simp add: demo_policy_def)
qed (simp add: graphIngressRules_def demo_net_def graphCalls_def)

lemma demo_services_ok: "services_ok [demo_predictor]"
proof -
  have "''proxy'' \<noteq> dec_int n" for n
  proof
    assume "''proxy'' = dec_int n"
    then have "CHR ''p'' \<in> set (dec_int n)" by (metis list.set_intros(1))
    from dec_int_chars [OF this] show False by (simp add: is_digit_def)
  qed
  then show ?thesis by (simp add: services_ok_def port_names_ok_def demo_predictor_def demo_port_def)
qed

lemma demo_serves:
  "serves (demo_net [demo_predictor] []) (\<lambda>_ _. None) False [demo_predictor] protocol n \<longleftrightarrow> protocol = ''TCP'' \<and> n = 8080"
  by (auto simp: serves_def entryPort_def demo_predictor_def demo_port_def demo_net_def m_str_def setRouteTargetPort_def selectedPort_def
      service_port_admits_def protocolOf_def targetOf_def port_set_def target_is_def)

theorem policy_admits_iff_witness:
  "admits (\<lambda>_ _. None) (demo_policy []) router_pod ''TCP'' 8080 \<and> \<not> admits (\<lambda>_ _. None) (demo_policy []) router_pod ''TCP'' 9090"
proof -
  let ?env = "demo_net [demo_predictor] []" and ?i = "demo_isvc exposed_label []"
  have parts: "ni_worker ?i = False" "si_canary ?i = []" "rawAuthEnabled ?i = False" "routeEnabled ?i" "metricsPorts ?env ?i = []"
      "countedCalls ?env ?i = []" "m_str (om_labels (si_meta ?i)) (kc_visibility ?env) \<noteq> kc_cluster_local ?env"
      "predictorCallers ?env ?i demo_services = []" "cv_predictor demo_services = [demo_predictor]" "cv_transformer demo_services = []"
    by (simp_all add: demo_isvc_def rawAuthEnabled_def empty_meta_def m_str_def parseBool_def trim_space_def trim_left_space_def routeEnabled_def
        exposed_label_def metricsPorts_def runtimeMetricsPort_def FindSupportingRuntimeForISvc_def countedCalls_def demo_net_def graphCalls_def
        KserveNetworkVisibility_def predictorCallers_def demo_services_def servicesOf_def predictorNetworkPolicyComponent_def transformerNetworkPolicyComponent_def)
  have iff: "admits (\<lambda>_ _. None) (demo_policy []) router_pod protocol n \<longleftrightarrow> protocol = ''TCP'' \<and> n = 8080" for protocol n
    using policy_admits_iff [OF demo_net_laws [of "[demo_predictor]" "[]"], where isvc = ?i and component = "''predictor''" and services = demo_services and p = "[]" and t = "[]"
        and policy = "demo_policy []" and named = "\<lambda>_ _. None" and src = router_pod and protocol = protocol and n = n]
      demo_policy_run(1) [of "[]"] demo_policy_run(2) demo_services_ok
    by (simp add: parts demo_serves router_pod_def graphCallAdmitted_def servicesOf_def predictorNetworkPolicyComponent_def
        routeComponent_def transformerNetworkPolicyComponent_def services_ok_def)
  show ?thesis by (simp add: iff)
qed

end
