(* ===== verification/KEDA_Auth.thy ===== *)
theory KEDA_Auth
  imports K8s_Types
begin

text \<open>
  The objects that let KEDA read Prometheus for autoscaling (internal/controller/serving/reconcilers/
  keda_prometheus_auth.go, kserve_isvc_keda_reconciler.go, kserve_llmisvc_keda_reconciler.go and meta.go). All services of a
  namespace that scale on Prometheus share one ServiceAccount, Secret, Role, RoleBinding and TriggerAuthentication, and each
  adds itself as an owner. The calls to the API server are functions on a state (\<open>keda_api\<close>); what the theorems need of
  them is the locale \<open>keda_server\<close>.
\<close>

section \<open>Data\<close>

datatype keda_kind = AccountRes | SecretRes | RoleRes | BindingRes | TriggerRes

record secret_target =
  tg_parameter :: string
  tg_name :: string
  tg_key :: string

datatype keda_content =
    AccountContent
  | SecretContent string "string gomap"  \<comment> \<open>type and data\<close>
  | RoleContent "policy_rule list"
  | BindingContent "subject list" role_ref
  | TriggerContent "secret_target list"

record keda_object =
  kd_kind :: keda_kind
  kd_meta :: object_meta
  kd_content :: keda_content

type_synonym keda_key = "keda_kind \<times> string \<times> string"

definition kd_key :: "keda_object \<Rightarrow> keda_key" where
  "kd_key o' = (kd_kind o', om_namespace (kd_meta o'), om_name (kd_meta o'))"

text \<open>The backends of the external metrics of an InferenceService, and the trigger types of an LLMInferenceService.\<close>

record keda_isvc =
  ki_meta :: object_meta
  ki_metrics :: "string option list option"

record keda_scaling =
  kc_triggers :: "string list option"

record keda_llmisvc =
  kl_meta :: object_meta
  kl_scaling :: "keda_scaling option"
  kl_prefill :: "keda_scaling option option"

text \<open>
  \<open>kp_retry\<close> is \<open>retry.RetryOnConflict\<close>. \<open>keda_lib\<close> holds \<open>equality.Semantic.DeepDerivative\<close> at the types it is used
  with, and KServe's names for the Prometheus backend, the API version of InferenceServices, and the API version and kind of
  LLMInferenceServices.
\<close>

record 's keda_api =
  kp_get :: "keda_key \<Rightarrow> 's \<Rightarrow> (api_error + keda_object) \<times> 's"
  kp_create :: "keda_object \<Rightarrow> 's \<Rightarrow> api_error option \<times> 's"
  kp_update :: "keda_object \<Rightarrow> 's \<Rightarrow> api_error option \<times> 's"
  kp_delete :: "keda_key \<Rightarrow> 's \<Rightarrow> api_error option \<times> 's"
  kp_isvcs :: "string \<Rightarrow> 's \<Rightarrow> (api_error + keda_isvc list) \<times> 's"
  kp_llmisvcs :: "string \<Rightarrow> 's \<Rightarrow> (api_error + keda_llmisvc list) \<times> 's"
  kp_retry :: "('s \<Rightarrow> api_error option \<times> 's) \<Rightarrow> 's \<Rightarrow> api_error option \<times> 's"

record keda_lib =
  kb_derives_map :: "string gomap \<Rightarrow> string gomap \<Rightarrow> bool"
  kb_derives_owners :: "owner_ref list \<Rightarrow> owner_ref list \<Rightarrow> bool"
  kb_derives_rules :: "policy_rule list \<Rightarrow> policy_rule list \<Rightarrow> bool"
  kb_derives_subjects :: "subject list \<Rightarrow> subject list \<Rightarrow> bool"
  kb_derives_ref :: "role_ref \<Rightarrow> role_ref \<Rightarrow> bool"
  kb_derives_targets :: "secret_target list \<Rightarrow> secret_target list \<Rightarrow> bool"
  kb_prometheus :: string
  kb_isvc_api :: string
  kb_llm_api :: string
  kb_llm_kind :: string

section \<open>Owners\<close>

definition AsOwnerRef :: "object_meta \<Rightarrow> string \<Rightarrow> string \<Rightarrow> owner_ref" where
  "AsOwnerRef m api kind = \<lparr>or_api = api, or_kind = kind, or_name = om_name m, or_uid = om_uid m, or_controller = Some False\<rparr>"

definition AsIsvcOwnerRef :: "keda_lib \<Rightarrow> keda_isvc \<Rightarrow> owner_ref" where
  "AsIsvcOwnerRef lib isvc = AsOwnerRef (ki_meta isvc) (kb_isvc_api lib) ''InferenceService''"

definition AsLLMIsvcOwnerRef :: "keda_lib \<Rightarrow> keda_llmisvc \<Rightarrow> owner_ref" where
  "AsLLMIsvcOwnerRef lib llmisvc = AsOwnerRef (kl_meta llmisvc) (kb_llm_api lib) (kb_llm_kind lib)"

definition same_owner :: "owner_ref \<Rightarrow> owner_ref \<Rightarrow> bool" where
  "same_owner expected ref = (or_api ref = or_api expected \<and> or_kind ref = or_kind expected \<and> or_name ref = or_name expected)"

definition upsertOwnerReference :: "owner_ref \<Rightarrow> owner_ref list \<Rightarrow> owner_ref list" where
  "upsertOwnerReference expected references =
     map (\<lambda>ref. if same_owner expected ref then expected else ref) references @
     (if list_ex (same_owner expected) references then [] else [expected])"

section \<open>The expected objects\<close>

definition KEDAPrometheusAuthResourceName :: string where "KEDAPrometheusAuthResourceName = ''inference-prometheus-auth''"

definition getKedaLabels :: "string gomap" where
  "getKedaLabels = [(''odh-model-controller'', ''keda-reconciler'')]"

definition keda_meta :: "string \<Rightarrow> owner_ref \<Rightarrow> string gomap \<Rightarrow> object_meta" where
  "keda_meta namespace ownerRef annotations = empty_meta\<lparr>om_name := KEDAPrometheusAuthResourceName, om_namespace := namespace,
     om_owners := [ownerRef], om_labels := getKedaLabels, om_annotations := annotations\<rparr>"

definition expectedServiceAccount :: "string \<Rightarrow> owner_ref \<Rightarrow> keda_object" where
  "expectedServiceAccount namespace ownerRef =
     \<lparr>kd_kind = AccountRes, kd_meta = keda_meta namespace ownerRef [], kd_content = AccountContent\<rparr>"

definition expectedSecret :: "string \<Rightarrow> owner_ref \<Rightarrow> keda_object" where
  "expectedSecret namespace ownerRef =
     \<lparr>kd_kind = SecretRes,
      kd_meta = keda_meta namespace ownerRef [(''kubernetes.io/service-account.name'', KEDAPrometheusAuthResourceName)],
      kd_content = SecretContent ''kubernetes.io/service-account-token'' []\<rparr>"

definition expectedRole :: "string \<Rightarrow> owner_ref \<Rightarrow> string gomap \<Rightarrow> keda_object" where
  "expectedRole namespace ownerRef annotations =
     \<lparr>kd_kind = RoleRes, kd_meta = keda_meta namespace ownerRef annotations,
      kd_content = RoleContent
        [\<lparr>pr_groups = [[]], pr_resources = [''pods''], pr_names = [], pr_verbs = [''get'']\<rparr>,
         \<lparr>pr_groups = [''metrics.k8s.io''], pr_resources = [''pods'', ''nodes''], pr_names = [],
          pr_verbs = [''get'', ''list'', ''watch'']\<rparr>]\<rparr>"

definition expectedRoleBinding :: "string \<Rightarrow> owner_ref \<Rightarrow> string gomap \<Rightarrow> keda_object" where
  "expectedRoleBinding namespace ownerRef annotations =
     \<lparr>kd_kind = BindingRes, kd_meta = keda_meta namespace ownerRef annotations,
      kd_content = BindingContent
        [\<lparr>sb_kind = ''ServiceAccount'', sb_name = KEDAPrometheusAuthResourceName, sb_namespace = namespace\<rparr>]
        \<lparr>rf_group = ''rbac.authorization.k8s.io'', rf_kind = ''Role'', rf_name = KEDAPrometheusAuthResourceName\<rparr>\<rparr>"

definition expectedTriggerAuthentication :: "string \<Rightarrow> owner_ref \<Rightarrow> string gomap \<Rightarrow> keda_object" where
  "expectedTriggerAuthentication namespace ownerRef annotations =
     \<lparr>kd_kind = TriggerRes, kd_meta = keda_meta namespace ownerRef annotations,
      kd_content = TriggerContent
        [\<lparr>tg_parameter = ''bearerToken'', tg_name = KEDAPrometheusAuthResourceName, tg_key = ''token''\<rparr>,
         \<lparr>tg_parameter = ''ca'', tg_name = KEDAPrometheusAuthResourceName, tg_key = ''ca.crt''\<rparr>]\<rparr>"

section \<open>Reconciling\<close>

definition orAlreadyExists :: "api_error option \<times> 's \<Rightarrow> api_error option \<times> 's" where
  "orAlreadyExists res = (case res of (r, s) \<Rightarrow> (if r = Some AlreadyExists then None else r, s))"

definition createServiceAccount :: "'s keda_api \<Rightarrow> string \<Rightarrow> owner_ref \<Rightarrow> 's \<Rightarrow> api_error option \<times> 's" where
  "createServiceAccount api namespace ownerRef s = orAlreadyExists (kp_create api (expectedServiceAccount namespace ownerRef) s)"

definition createSecret :: "'s keda_api \<Rightarrow> string \<Rightarrow> owner_ref \<Rightarrow> 's \<Rightarrow> api_error option \<times> 's" where
  "createSecret api namespace ownerRef s = orAlreadyExists (kp_create api (expectedSecret namespace ownerRef) s)"

definition createRole :: "'s keda_api \<Rightarrow> string \<Rightarrow> owner_ref \<Rightarrow> string gomap \<Rightarrow> 's \<Rightarrow> api_error option \<times> 's" where
  "createRole api namespace ownerRef annotations s = orAlreadyExists (kp_create api (expectedRole namespace ownerRef annotations) s)"

definition createRoleBinding :: "'s keda_api \<Rightarrow> string \<Rightarrow> owner_ref \<Rightarrow> string gomap \<Rightarrow> 's \<Rightarrow> api_error option \<times> 's" where
  "createRoleBinding api namespace ownerRef annotations s =
     orAlreadyExists (kp_create api (expectedRoleBinding namespace ownerRef annotations) s)"

definition createTriggerAuthentication ::
    "'s keda_api \<Rightarrow> string \<Rightarrow> owner_ref \<Rightarrow> string gomap \<Rightarrow> 's \<Rightarrow> api_error option \<times> 's" where
  "createTriggerAuthentication api namespace ownerRef annotations s =
     orAlreadyExists (kp_create api (expectedTriggerAuthentication namespace ownerRef annotations) s)"

text \<open>
  The five operations have one shape: read, create what is missing, adopt the owners of what is there, and update it unless
  it is up to date. \<open>keep\<close> is what the written object takes over from the current one.
\<close>

definition reconcileObject ::
    "'s keda_api \<Rightarrow> keda_object \<Rightarrow> owner_ref \<Rightarrow> ('s \<Rightarrow> api_error option \<times> 's) \<Rightarrow> (keda_object \<Rightarrow> keda_object \<Rightarrow> bool) \<Rightarrow>
     (keda_object \<Rightarrow> keda_object \<Rightarrow> keda_object) \<Rightarrow> 's \<Rightarrow> api_error option \<times> 's" where
  "reconcileObject api expected ownerRef create upToDate keep s =
     (case kp_get api (kd_key expected) s of
        (Inl e, s) \<Rightarrow> if e = NotFound then create s else (Some e, s)
      | (Inr current, s) \<Rightarrow>
          (let expected = expected\<lparr>kd_meta := (kd_meta expected)\<lparr>om_owners := upsertOwnerReference ownerRef (om_owners (kd_meta current))\<rparr>\<rparr>
           in if upToDate expected current then (None, s) else kp_update api (keep expected current) s))"

definition metaUpToDate :: "keda_lib \<Rightarrow> keda_object \<Rightarrow> keda_object \<Rightarrow> bool" where
  "metaUpToDate lib expected current =
     (kb_derives_map lib (om_labels (kd_meta expected)) (om_labels (kd_meta current)) \<and>
      kb_derives_map lib (om_annotations (kd_meta expected)) (om_annotations (kd_meta current)) \<and>
      kb_derives_owners lib (om_owners (kd_meta expected)) (om_owners (kd_meta current)))"

definition contentUpToDate :: "keda_lib \<Rightarrow> keda_content \<Rightarrow> keda_content \<Rightarrow> bool" where
  "contentUpToDate lib expected current =
     (case (expected, current) of
        (AccountContent, _) \<Rightarrow> True
      | (SecretContent t _, SecretContent t' _) \<Rightarrow> t = t'
      | (RoleContent rs, RoleContent rs') \<Rightarrow> kb_derives_rules lib rs rs'
      | (BindingContent sbs r, BindingContent sbs' r') \<Rightarrow> kb_derives_subjects lib sbs sbs' \<and> kb_derives_ref lib r r'
      | (TriggerContent ts, TriggerContent ts') \<Rightarrow> kb_derives_targets lib ts ts'
      | _ \<Rightarrow> False)"

definition upToDate :: "keda_lib \<Rightarrow> keda_object \<Rightarrow> keda_object \<Rightarrow> bool" where
  "upToDate lib expected current = (contentUpToDate lib (kd_content expected) (kd_content current) \<and> metaUpToDate lib expected current)"

definition keepSecretData :: "keda_object \<Rightarrow> keda_object \<Rightarrow> keda_object" where
  "keepSecretData expected current =
     (case (kd_content expected, kd_content current) of
        (SecretContent t _, SecretContent _ d) \<Rightarrow> expected\<lparr>kd_content := SecretContent t d\<rparr>
      | _ \<Rightarrow> expected)"

definition reconcileServiceAccount :: "keda_lib \<Rightarrow> 's keda_api \<Rightarrow> string \<Rightarrow> owner_ref \<Rightarrow> 's \<Rightarrow> api_error option \<times> 's" where
  "reconcileServiceAccount lib api namespace ownerRef =
     reconcileObject api (expectedServiceAccount namespace ownerRef) ownerRef (createServiceAccount api namespace ownerRef)
       (upToDate lib) (\<lambda>expected _. expected)"

definition reconcileKedaSecret :: "keda_lib \<Rightarrow> 's keda_api \<Rightarrow> string \<Rightarrow> owner_ref \<Rightarrow> 's \<Rightarrow> api_error option \<times> 's" where
  "reconcileKedaSecret lib api namespace ownerRef =
     reconcileObject api (expectedSecret namespace ownerRef) ownerRef (createSecret api namespace ownerRef)
       (upToDate lib) keepSecretData"

definition reconcileRole ::
    "keda_lib \<Rightarrow> 's keda_api \<Rightarrow> string \<Rightarrow> owner_ref \<Rightarrow> string gomap \<Rightarrow> 's \<Rightarrow> api_error option \<times> 's" where
  "reconcileRole lib api namespace ownerRef annotations =
     reconcileObject api (expectedRole namespace ownerRef annotations) ownerRef (createRole api namespace ownerRef annotations)
       (upToDate lib) (\<lambda>expected _. expected)"

definition reconcileRoleBinding ::
    "keda_lib \<Rightarrow> 's keda_api \<Rightarrow> string \<Rightarrow> owner_ref \<Rightarrow> string gomap \<Rightarrow> 's \<Rightarrow> api_error option \<times> 's" where
  "reconcileRoleBinding lib api namespace ownerRef annotations =
     reconcileObject api (expectedRoleBinding namespace ownerRef annotations) ownerRef
       (createRoleBinding api namespace ownerRef annotations) (upToDate lib) (\<lambda>expected _. expected)"

definition reconcileTriggerAuthentication ::
    "keda_lib \<Rightarrow> 's keda_api \<Rightarrow> string \<Rightarrow> owner_ref \<Rightarrow> string gomap \<Rightarrow> 's \<Rightarrow> api_error option \<times> 's" where
  "reconcileTriggerAuthentication lib api namespace ownerRef annotations =
     reconcileObject api (expectedTriggerAuthentication namespace ownerRef annotations) ownerRef
       (createTriggerAuthentication api namespace ownerRef annotations) (upToDate lib) (\<lambda>expected _. expected)"

definition reconcileKeda ::
    "keda_lib \<Rightarrow> 's keda_api \<Rightarrow> string \<Rightarrow> owner_ref \<Rightarrow> string gomap \<Rightarrow> 's \<Rightarrow> api_error option \<times> 's" where
  "reconcileKeda lib api namespace ownerRef annotations s =
     (case kp_retry api (reconcileServiceAccount lib api namespace ownerRef) s of
        (Some e, s) \<Rightarrow> (Some e, s)
      | (None, s) \<Rightarrow>
          (case kp_retry api (reconcileKedaSecret lib api namespace ownerRef) s of
             (Some e, s) \<Rightarrow> (Some e, s)
           | (None, s) \<Rightarrow>
               (case kp_retry api (reconcileRole lib api namespace ownerRef annotations) s of
                  (Some e, s) \<Rightarrow> (Some e, s)
                | (None, s) \<Rightarrow>
                    (case kp_retry api (reconcileRoleBinding lib api namespace ownerRef annotations) s of
                       (Some e, s) \<Rightarrow> (Some e, s)
                     | (None, s) \<Rightarrow>
                         (case kp_retry api (reconcileTriggerAuthentication lib api namespace ownerRef annotations) s of
                            (Some e, s) \<Rightarrow> (if e = NoMatch then None else Some e, s)
                          | (None, s) \<Rightarrow> (None, s))))))"

section \<open>Taking an owner away\<close>

definition resourcesToCleanup :: "keda_kind list" where
  "resourcesToCleanup = [AccountRes, SecretRes, RoleRes, BindingRes, TriggerRes]"

definition keda_absent :: "api_error \<Rightarrow> bool" where
  "keda_absent e = (e = NotFound \<or> e = NoMatch)"

definition removeOwnerReferenceFromObject :: "'s keda_api \<Rightarrow> keda_kind \<Rightarrow> string \<Rightarrow> owner_ref \<Rightarrow> 's \<Rightarrow> api_error option \<times> 's" where
  "removeOwnerReferenceFromObject api kind namespace ownerRefToRemove s =
     (case kp_get api (kind, namespace, KEDAPrometheusAuthResourceName) s of
        (Inl e, s) \<Rightarrow> (if keda_absent e then None else Some e, s)
      | (Inr obj, s) \<Rightarrow>
          (let originalOwnerReferences = om_owners (kd_meta obj);
               newOwnerReferences = filter (\<lambda>ref. or_uid ref \<noteq> or_uid ownerRefToRemove) originalOwnerReferences
           in if originalOwnerReferences = [] \<or> newOwnerReferences = originalOwnerReferences then (None, s)
              else (case kp_update api (obj\<lparr>kd_meta := (kd_meta obj)\<lparr>om_owners := newOwnerReferences\<rparr>\<rparr>) s of
                      (Some e, s) \<Rightarrow> (if keda_absent e then None else Some e, s)
                    | (None, s) \<Rightarrow> (None, s))))"

fun removeLoop :: "'s keda_api \<Rightarrow> keda_kind list \<Rightarrow> string \<Rightarrow> owner_ref \<Rightarrow> 's \<Rightarrow> api_error list \<times> 's" where
  "removeLoop api [] namespace ref s = ([], s)"
| "removeLoop api (k # ks) namespace ref s =
     (case kp_retry api (removeOwnerReferenceFromObject api k namespace ref) s of
        (r, s) \<Rightarrow> (case removeLoop api ks namespace ref s of
                   (errs, s) \<Rightarrow> (case r of None \<Rightarrow> errs | Some e \<Rightarrow> e # errs, s)))"

definition removeOwnerReference :: "'s keda_api \<Rightarrow> string \<Rightarrow> owner_ref \<Rightarrow> 's \<Rightarrow> api_error list \<times> 's" where
  "removeOwnerReference api namespace ref = removeLoop api resourcesToCleanup namespace ref"

fun cleanupLoop :: "'s keda_api \<Rightarrow> keda_kind list \<Rightarrow> string \<Rightarrow> 's \<Rightarrow> api_error list \<times> 's" where
  "cleanupLoop api [] namespace s = ([], s)"
| "cleanupLoop api (k # ks) namespace s =
     (case kp_delete api (k, namespace, KEDAPrometheusAuthResourceName) s of
        (r, s) \<Rightarrow> (case cleanupLoop api ks namespace s of
                   (errs, s) \<Rightarrow> (case r of None \<Rightarrow> errs | Some e \<Rightarrow> if keda_absent e then errs else e # errs, s)))"

definition cleanupNamespace :: "'s keda_api \<Rightarrow> string \<Rightarrow> 's \<Rightarrow> api_error list \<times> 's" where
  "cleanupNamespace api namespace = cleanupLoop api resourcesToCleanup namespace"

section \<open>Who needs the objects\<close>

definition hasPrometheusExternalAutoscalingMetric :: "keda_lib \<Rightarrow> keda_isvc \<Rightarrow> bool" where
  "hasPrometheusExternalAutoscalingMetric lib isvc =
     (case ki_metrics isvc of None \<Rightarrow> False | Some metrics \<Rightarrow> list_ex (\<lambda>m. m = Some (kb_prometheus lib)) metrics)"

definition scalingHasPrometheusTrigger :: "keda_scaling option \<Rightarrow> bool" where
  "scalingHasPrometheusTrigger scaling =
     (case scaling of
        None \<Rightarrow> False
      | Some sc \<Rightarrow> (case kc_triggers sc of None \<Rightarrow> False | Some triggers \<Rightarrow> list_ex (\<lambda>t. t = ''prometheus'') triggers))"

definition hasPrometheusKEDATrigger :: "keda_llmisvc \<Rightarrow> bool" where
  "hasPrometheusKEDATrigger llmisvc =
     (scalingHasPrometheusTrigger (kl_scaling llmisvc) \<or>
      (case kl_prefill llmisvc of None \<Rightarrow> False | Some sc \<Rightarrow> scalingHasPrometheusTrigger sc))"

definition cleanupNamespaceIfUnused :: "keda_lib \<Rightarrow> 's keda_api \<Rightarrow> string \<Rightarrow> 's \<Rightarrow> api_error list \<times> 's" where
  "cleanupNamespaceIfUnused lib api namespace s =
     (case kp_isvcs api namespace s of
        (Inl e, s) \<Rightarrow> ([e], s)
      | (Inr isvcs, s) \<Rightarrow>
          if list_ex (\<lambda>i. \<not> om_deleting (ki_meta i) \<and> hasPrometheusExternalAutoscalingMetric lib i) isvcs then ([], s)
          else (case kp_llmisvcs api namespace s of
                  (Inl e, s) \<Rightarrow> if e = NoMatch then cleanupNamespace api namespace s else ([e], s)
                | (Inr llmisvcs, s) \<Rightarrow>
                    if list_ex (\<lambda>l. \<not> om_deleting (kl_meta l) \<and> hasPrometheusKEDATrigger l) llmisvcs then ([], s)
                    else cleanupNamespace api namespace s))"

definition resourcesExist :: "'s keda_api \<Rightarrow> string \<Rightarrow> 's \<Rightarrow> (api_error + bool) \<times> 's" where
  "resourcesExist api namespace s =
     (case kp_get api (AccountRes, namespace, KEDAPrometheusAuthResourceName) s of
        (Inl e, s) \<Rightarrow> (if e = NotFound then Inr False else Inl e, s)
      | (Inr _, s) \<Rightarrow> (Inr True, s))"

definition removeOwnerReferenceIfPresent :: "keda_lib \<Rightarrow> 's keda_api \<Rightarrow> string \<Rightarrow> owner_ref \<Rightarrow> 's \<Rightarrow> api_error list \<times> 's" where
  "removeOwnerReferenceIfPresent lib api namespace ownerRef s =
     (case resourcesExist api namespace s of
        (Inl e, s) \<Rightarrow> ([e], s)
      | (Inr False, s) \<Rightarrow> ([], s)
      | (Inr True, s) \<Rightarrow>
          (case removeOwnerReference api namespace ownerRef s of
             (errs, s) \<Rightarrow> if errs \<noteq> [] then (errs, s) else cleanupNamespaceIfUnused lib api namespace s))"

section \<open>The two reconcilers\<close>

definition errors_of :: "api_error option \<times> 's \<Rightarrow> api_error list \<times> 's" where
  "errors_of res = (case res of (r, s) \<Rightarrow> (case r of None \<Rightarrow> [] | Some e \<Rightarrow> [e], s))"

definition ReconcileISVCKeda :: "keda_lib \<Rightarrow> 's keda_api \<Rightarrow> keda_isvc \<Rightarrow> 's \<Rightarrow> api_error list \<times> 's" where
  "ReconcileISVCKeda lib api isvc s =
     (let ns = om_namespace (ki_meta isvc); ref = AsIsvcOwnerRef lib isvc
      in if \<not> hasPrometheusExternalAutoscalingMetric lib isvc then removeOwnerReferenceIfPresent lib api ns ref s
         else errors_of (reconcileKeda lib api ns ref (om_annotations (ki_meta isvc)) s))"

definition DeleteISVCKeda :: "keda_lib \<Rightarrow> 's keda_api \<Rightarrow> keda_isvc \<Rightarrow> 's \<Rightarrow> api_error list \<times> 's" where
  "DeleteISVCKeda lib api isvc = removeOwnerReferenceIfPresent lib api (om_namespace (ki_meta isvc)) (AsIsvcOwnerRef lib isvc)"

definition CleanupISVCKeda :: "keda_lib \<Rightarrow> 's keda_api \<Rightarrow> string \<Rightarrow> 's \<Rightarrow> api_error list \<times> 's" where
  "CleanupISVCKeda lib api isvcNs = cleanupNamespaceIfUnused lib api isvcNs"

definition ReconcileLLMKeda :: "keda_lib \<Rightarrow> 's keda_api \<Rightarrow> keda_llmisvc \<Rightarrow> 's \<Rightarrow> api_error list \<times> 's" where
  "ReconcileLLMKeda lib api llmisvc s =
     (let ns = om_namespace (kl_meta llmisvc); ref = AsLLMIsvcOwnerRef lib llmisvc
      in if \<not> hasPrometheusKEDATrigger llmisvc then removeOwnerReferenceIfPresent lib api ns ref s
         else errors_of (reconcileKeda lib api ns ref (om_annotations (kl_meta llmisvc)) s))"

definition DeleteLLMKeda :: "keda_lib \<Rightarrow> 's keda_api \<Rightarrow> keda_llmisvc \<Rightarrow> 's \<Rightarrow> api_error list \<times> 's" where
  "DeleteLLMKeda lib api llmisvc = removeOwnerReferenceIfPresent lib api (om_namespace (kl_meta llmisvc)) (AsLLMIsvcOwnerRef lib llmisvc)"

definition CleanupLLMKeda :: "keda_lib \<Rightarrow> 's keda_api \<Rightarrow> string \<Rightarrow> 's \<Rightarrow> api_error list \<times> 's" where
  "CleanupLLMKeda lib api llmIsvcNs = cleanupNamespaceIfUnused lib api llmIsvcNs"

section \<open>Operations and state predicates\<close>

definition keeps :: "('s \<Rightarrow> bool) \<Rightarrow> ('s \<Rightarrow> 'r \<times> 's) \<Rightarrow> bool" where
  "keeps P f = (\<forall>s r s'. f s = (r, s') \<longrightarrow> P s \<longrightarrow> P s')"

named_theorems keeps_intro \<open>operations that keep a predicate of the state\<close>

lemma keepsI: "(\<And>s r s'. f s = (r, s') \<Longrightarrow> P s \<Longrightarrow> P s') \<Longrightarrow> keeps P f"
  by (auto simp: keeps_def)

lemma keepsD: "keeps P f \<Longrightarrow> f s = (r, s') \<Longrightarrow> P s \<Longrightarrow> P s'"
  by (auto simp: keeps_def)

lemma keeps_snd: "keeps P f \<Longrightarrow> P s \<Longrightarrow> P (snd (f s))"
  by (cases "f s") (auto dest: keepsD)

text \<open>\<open>RetryOnConflict\<close> gives the result of the last of a series of runs, all earlier ones of which met a conflict.\<close>

inductive retried :: "('s \<Rightarrow> api_error option \<times> 's) \<Rightarrow> 's \<Rightarrow> api_error option \<Rightarrow> 's \<Rightarrow> bool" for f where
  once: "f s = (r, s') \<Longrightarrow> retried f s r s'"
| again: "f s = (Some Conflict, s1) \<Longrightarrow> retried f s1 r s' \<Longrightarrow> retried f s r s'"

lemma retried_last: "retried f s r s' \<Longrightarrow> keeps P f \<Longrightarrow> P s \<Longrightarrow> \<exists>s1. P s1 \<and> f s1 = (r, s')"
  by (induction rule: retried.induct) (auto dest: keepsD)

section \<open>The API server\<close>

locale keda_server =
  fixes api :: "'s keda_api"
    and look :: "'s \<Rightarrow> keda_key \<Rightarrow> keda_object option"
    and users :: "'s \<Rightarrow> (string \<Rightarrow> keda_isvc list) \<times> (string \<Rightarrow> keda_llmisvc list)"
    and has_trigger :: bool
  assumes get: "kp_get api key s = (r, s') \<Longrightarrow> look s' = look s \<and> users s' = users s \<and>
      (case r of Inr o' \<Rightarrow> look s key = Some o' | Inl e \<Rightarrow> keda_absent e \<longrightarrow> look s key = None)"
    and create: "kp_create api o' s = (q, s') \<Longrightarrow> users s' = users s \<and>
      (case q of None \<Rightarrow> look s' = (look s)(kd_key o' \<mapsto> o')
       | Some e \<Rightarrow> look s' = look s \<and> (e = AlreadyExists \<longrightarrow> look s (kd_key o') \<noteq> None))"
    and update: "kp_update api o' s = (q, s') \<Longrightarrow> users s' = users s \<and>
      (case q of None \<Rightarrow> look s' = (look s)(kd_key o' \<mapsto> o')
       | Some e \<Rightarrow> look s' = look s \<and> (keda_absent e \<longrightarrow> look s (kd_key o') = None))"
    and delete: "kp_delete api key s = (q, s') \<Longrightarrow> users s' = users s \<and>
      (case q of None \<Rightarrow> look s' = (look s)(key := None)
       | Some e \<Rightarrow> look s' = look s \<and> (keda_absent e \<longrightarrow> look s key = None))"
    and isvcs: "kp_isvcs api ns s = (is, s') \<Longrightarrow> look s' = look s \<and> users s' = users s \<and>
      (\<forall>xs. is = Inr xs \<longrightarrow> xs = fst (users s) ns)"
    and llmisvcs: "kp_llmisvcs api ns s = (ls, s') \<Longrightarrow> look s' = look s \<and> users s' = users s \<and>
      (case ls of Inr xs \<Rightarrow> xs = snd (users s) ns | Inl e \<Rightarrow> e = NoMatch \<longrightarrow> snd (users s) ns = [])"
    and retry: "retried f s (fst (kp_retry api f s)) (snd (kp_retry api f s))"
    and keyed: "look s key = Some o' \<Longrightarrow> kd_key o' = key"
    and no_match: "has_trigger \<Longrightarrow> kp_get api key s \<noteq> (Inl NoMatch, s')"
      "has_trigger \<Longrightarrow> kp_create api o' s \<noteq> (Some NoMatch, s')" "has_trigger \<Longrightarrow> kp_update api o' s \<noteq> (Some NoMatch, s')"
begin

lemma retry_keeps [keeps_intro]: "keeps P f \<Longrightarrow> keeps P (kp_retry api f)"
  using retry [of f] by (metis keepsD keepsI retried_last fst_conv snd_conv)

lemma retry_last: "kp_retry api f s = (r, s') \<Longrightarrow> keeps P f \<Longrightarrow> P s \<Longrightarrow> \<exists>s1. P s1 \<and> f s1 = (r, s')"
  using retry [of f s] by (metis retried_last fst_conv snd_conv)

end

text \<open>The object is there and has the owner.\<close>

definition holds_ref :: "owner_ref \<Rightarrow> keda_object option \<Rightarrow> bool" where
  "holds_ref ref x = (\<exists>o'. x = Some o' \<and> ref \<in> set (om_owners (kd_meta o')))"

lemma upsert_has: "e \<in> set (upsertOwnerReference e refs)"
  by (auto simp: upsertOwnerReference_def list_ex_iff)

lemma upsert_keeps: "r \<in> set refs \<Longrightarrow> \<not> same_owner e r \<Longrightarrow> r \<in> set (upsertOwnerReference e refs)"
  by (force simp: upsertOwnerReference_def)

text \<open>
  What is known of \<open>DeepDerivative\<close>: fields that are set in the first argument are compared. \<open>full_ref\<close> says that all
  fields of a reference are set.
\<close>

definition full_ref :: "owner_ref \<Rightarrow> bool" where
  "full_ref r = (or_api r \<noteq> [] \<and> or_kind r \<noteq> [] \<and> or_name r \<noteq> [] \<and> or_uid r \<noteq> [] \<and> or_controller r \<noteq> None)"

definition derive_laws :: "keda_lib \<Rightarrow> bool" where
  "derive_laws lib =
     ((\<forall>a b. kb_derives_owners lib a b \<longrightarrow> (\<forall>r \<in> set a. full_ref r \<longrightarrow> r \<in> set b)) \<and>
      (\<forall>a b. kb_derives_map lib a b \<longrightarrow> (\<forall>k v. map_of a k = Some v \<longrightarrow> v \<noteq> [] \<longrightarrow> map_of b k = Some v)))"

text \<open>What the writer of an object may change of the expected one: not its place, its owners or its annotations.\<close>

definition harmless :: "(keda_object \<Rightarrow> keda_object \<Rightarrow> keda_object) \<Rightarrow> bool" where
  "harmless keep = (\<forall>e c. kd_key (keep e c) = kd_key e \<and> kd_meta (keep e c) = kd_meta e)"

lemma harmless_keeps [simp]: "harmless (\<lambda>e c. e)" "harmless keepSecretData"
  by (auto simp: harmless_def keepSecretData_def kd_key_def split: keda_content.splits)

lemma harmlessD: "harmless keep \<Longrightarrow> kd_key (keep e c) = kd_key e" "harmless keep \<Longrightarrow> kd_meta (keep e c) = kd_meta e"
  by (simp_all add: harmless_def)

lemma kd_key_owners [simp]: "kd_key (o'\<lparr>kd_meta := (kd_meta o')\<lparr>om_owners := os\<rparr>\<rparr>) = kd_key o'"
  by (simp add: kd_key_def)

context keda_server
begin

text \<open>Nothing is written but the object in question, and the owners of other services stay.\<close>

definition still :: "_ \<Rightarrow> owner_ref \<Rightarrow> keda_key \<Rightarrow> 's \<Rightarrow> bool" where
  "still u ref key s = (users s = u \<and> holds_ref ref (look s key))"

lemma reconcileObject_still [keeps_intro]:
  assumes other: "\<not> same_owner ownerRef ref" and keep: "harmless keep"
  shows "keeps (still u ref key)
     (reconcileObject api expected ownerRef (\<lambda>s. orAlreadyExists (kp_create api expected s)) upd keep)"
proof (rule keepsI)
  fix s r s'
  assume run: "reconcileObject api expected ownerRef (\<lambda>s. orAlreadyExists (kp_create api expected s)) upd keep s = (r, s')"
    and P: "still u ref key s"
  obtain g s1 where g: "kp_get api (kd_key expected) s = (g, s1)" by fastforce
  note gl = get [OF g]
  show "still u ref key s'"
  proof (cases g)
    case (Inl e)
    show ?thesis
    proof (cases "e = NotFound")
      case True
      then have none: "look s1 (kd_key expected) = None" using gl Inl by (simp add: keda_absent_def)
      then have "key \<noteq> kd_key expected" using P gl by (auto simp: still_def holds_ref_def)
      moreover obtain q s2 where c: "kp_create api expected s1 = (q, s2)" by fastforce
      moreover have "s' = s2" using run g Inl True c by (simp add: reconcileObject_def orAlreadyExists_def)
      ultimately show ?thesis using create [OF c] gl P by (auto simp: still_def split: option.splits)
    next
      case False
      then have "s' = s1" using run g Inl by (simp add: reconcileObject_def)
      then show ?thesis using gl P by (simp add: still_def)
    qed
  next
    case (Inr cur)
    let ?e = "expected\<lparr>kd_meta := (kd_meta expected)\<lparr>om_owners := upsertOwnerReference ownerRef (om_owners (kd_meta cur))\<rparr>\<rparr>"
    obtain q s2 where c: "kp_update api (keep ?e cur) s1 = (q, s2)" by fastforce
    have s': "s' = s1 \<or> s' = s2" using run g Inr c by (auto simp: reconcileObject_def Let_def split: if_splits)
    have "holds_ref ref (Some (keep ?e cur))" if "key = kd_key expected"
      using that P gl Inr upsert_keeps [OF _ other]
      by (auto simp: still_def holds_ref_def harmlessD [OF keep])
    then have "still u ref key s2" using update [OF c] gl P
      by (auto simp: still_def harmlessD [OF keep] split: option.splits)
    then show ?thesis using s' gl P by (auto simp: still_def)
  qed
qed

lemma reconcileObject_result:
  assumes run: "reconcileObject api expected ownerRef (\<lambda>s. orAlreadyExists (kp_create api expected s)) (upToDate lib) keep s = (None, s')"
    and keep: "harmless keep" and laws: "derive_laws lib" and full: "full_ref ownerRef"
    and own: "om_owners (kd_meta expected) = [ownerRef]"
  shows "\<exists>o'. look s' (kd_key expected) = Some o' \<and> ownerRef \<in> set (om_owners (kd_meta o')) \<and>
    (\<forall>k v. map_of (om_annotations (kd_meta expected)) k = Some v \<longrightarrow> v \<noteq> [] \<longrightarrow> map_of (om_annotations (kd_meta o')) k = Some v)"
proof -
  obtain g s1 where g: "kp_get api (kd_key expected) s = (g, s1)" by fastforce
  note gl = get [OF g]
  show ?thesis
  proof (cases g)
    case (Inl e)
    with run g have e: "e = NotFound" by (auto simp: reconcileObject_def split: if_splits)
    obtain q s2 where c: "kp_create api expected s1 = (q, s2)" by fastforce
    have q: "s' = s2" "q = None \<or> q = Some AlreadyExists"
      using run g Inl e c by (auto simp: reconcileObject_def orAlreadyExists_def split: if_splits)
    have "look s1 (kd_key expected) = None" using gl Inl e by (simp add: keda_absent_def)
    with create [OF c] q own show ?thesis by auto
  next
    case (Inr cur)
    let ?e = "expected\<lparr>kd_meta := (kd_meta expected)\<lparr>om_owners := upsertOwnerReference ownerRef (om_owners (kd_meta cur))\<rparr>\<rparr>"
    show ?thesis
    proof (cases "upToDate lib ?e cur")
      case True
      have mine: "ownerRef \<in> set (upsertOwnerReference ownerRef (om_owners (kd_meta cur)))" by (rule upsert_has)
      from True have d: "kb_derives_owners lib (om_owners (kd_meta ?e)) (om_owners (kd_meta cur))"
        "kb_derives_map lib (om_annotations (kd_meta ?e)) (om_annotations (kd_meta cur))"
        by (simp_all add: upToDate_def metaUpToDate_def)
      have "s' = s1" using run g Inr True by (simp add: reconcileObject_def)
      then have "look s' (kd_key expected) = Some cur" using gl Inr by simp
      moreover have "ownerRef \<in> set (om_owners (kd_meta cur))" using laws d(1) mine full by (simp add: derive_laws_def)
      ultimately show ?thesis using laws d(2) by (simp add: derive_laws_def)
    next
      case False
      then have c: "kp_update api (keep ?e cur) s1 = (None, s')" using run g Inr by (simp add: reconcileObject_def)
      from update [OF c] show ?thesis by (auto simp: harmlessD [OF keep] upsert_has)
    qed
  qed
qed

end

subsection \<open>Owners of other services\<close>

text \<open>Somebody in the namespace needs the objects.\<close>

definition needed :: "keda_lib \<Rightarrow> (string \<Rightarrow> keda_isvc list) \<times> (string \<Rightarrow> keda_llmisvc list) \<Rightarrow> string \<Rightarrow> bool" where
  "needed lib u ns =
     (list_ex (\<lambda>i. \<not> om_deleting (ki_meta i) \<and> hasPrometheusExternalAutoscalingMetric lib i) (fst u ns) \<or>
      list_ex (\<lambda>l. \<not> om_deleting (kl_meta l) \<and> hasPrometheusKEDATrigger l) (snd u ns))"

lemma reconcile_shapes:
  "reconcileServiceAccount lib api ns ref = reconcileObject api (expectedServiceAccount ns ref) ref
     (\<lambda>s. orAlreadyExists (kp_create api (expectedServiceAccount ns ref) s)) (upToDate lib) (\<lambda>e _. e)"
  "reconcileKedaSecret lib api ns ref = reconcileObject api (expectedSecret ns ref) ref
     (\<lambda>s. orAlreadyExists (kp_create api (expectedSecret ns ref) s)) (upToDate lib) keepSecretData"
  "reconcileRole lib api ns ref ann = reconcileObject api (expectedRole ns ref ann) ref
     (\<lambda>s. orAlreadyExists (kp_create api (expectedRole ns ref ann) s)) (upToDate lib) (\<lambda>e _. e)"
  "reconcileRoleBinding lib api ns ref ann = reconcileObject api (expectedRoleBinding ns ref ann) ref
     (\<lambda>s. orAlreadyExists (kp_create api (expectedRoleBinding ns ref ann) s)) (upToDate lib) (\<lambda>e _. e)"
  "reconcileTriggerAuthentication lib api ns ref ann = reconcileObject api (expectedTriggerAuthentication ns ref ann) ref
     (\<lambda>s. orAlreadyExists (kp_create api (expectedTriggerAuthentication ns ref ann) s)) (upToDate lib) (\<lambda>e _. e)"
  by (simp_all add: reconcileServiceAccount_def reconcileKedaSecret_def reconcileRole_def reconcileRoleBinding_def
      reconcileTriggerAuthentication_def createServiceAccount_def [abs_def] createSecret_def [abs_def] createRole_def [abs_def]
      createRoleBinding_def [abs_def] createTriggerAuthentication_def [abs_def])

text \<open>A predicate that the five steps keep is kept by the whole.\<close>

lemma reconcileKeda_keeps:
  assumes "keeps P (kp_retry api (reconcileServiceAccount lib api ns ref))"
    and "keeps P (kp_retry api (reconcileKedaSecret lib api ns ref))"
    and "keeps P (kp_retry api (reconcileRole lib api ns ref ann))"
    and "keeps P (kp_retry api (reconcileRoleBinding lib api ns ref ann))"
    and "keeps P (kp_retry api (reconcileTriggerAuthentication lib api ns ref ann))"
  shows "keeps P (reconcileKeda lib api ns ref ann)"
  using assms [THEN keepsD]
  by (intro keepsI) (auto simp: reconcileKeda_def split: prod.splits option.splits)

context keda_server
begin

lemma reconcileKeda_still:
  assumes "\<not> same_owner ownerRef ref"
  shows "keeps (still u ref key) (reconcileKeda lib api ns ownerRef ann)"
  by (rule reconcileKeda_keeps; unfold reconcile_shapes; intro retry_keeps reconcileObject_still assms harmless_keeps)

lemma removeOwnerReferenceFromObject_still:
  assumes "or_uid ref' \<noteq> or_uid ref"
  shows "keeps (still u ref key) (removeOwnerReferenceFromObject api k ns ref')"
proof (rule keepsI)
  fix s r s'
  assume run: "removeOwnerReferenceFromObject api k ns ref' s = (r, s')" and P: "still u ref key s"
  let ?key = "(k, ns, KEDAPrometheusAuthResourceName)"
  obtain g s1 where g: "kp_get api ?key s = (g, s1)" by fastforce
  note gl = get [OF g]
  show "still u ref key s'"
  proof (cases g)
    case (Inl e)
    then show ?thesis using run g gl P by (simp add: removeOwnerReferenceFromObject_def still_def)
  next
    case (Inr o')
    let ?o = "o'\<lparr>kd_meta := (kd_meta o')\<lparr>om_owners := filter (\<lambda>r. or_uid r \<noteq> or_uid ref') (om_owners (kd_meta o'))\<rparr>\<rparr>"
    obtain q s2 where c: "kp_update api ?o s1 = (q, s2)" by fastforce
    have s': "s' = s1 \<or> s' = s2"
      using run g Inr c by (auto simp: removeOwnerReferenceFromObject_def Let_def split: if_splits option.splits)
    have key: "kd_key o' = ?key" by (rule keyed [of s]) (use gl Inr in simp)
    have "holds_ref ref (Some ?o)" if "key = ?key" using that P gl Inr assms by (auto simp: still_def holds_ref_def)
    then have "still u ref key s2" using update [OF c] gl P key by (auto simp: still_def split: option.splits)
    then show ?thesis using s' gl P by (auto simp: still_def)
  qed
qed

lemma removeLoop_still:
  assumes "or_uid ref' \<noteq> or_uid ref"
  shows "keeps (still u ref key) (removeLoop api ks ns ref')"
proof (induction ks)
  case (Cons k ks)
  note step = retry_keeps [OF removeOwnerReferenceFromObject_still [OF assms]]
  show ?case
    by (rule keepsI) (auto split: prod.splits dest!: keepsD [OF step] keepsD [OF Cons.IH])
qed (simp add: keeps_def)

lemma cleanupLoop_still:
  assumes "fst (snd key) \<noteq> ns"
  shows "keeps (still u ref key) (cleanupLoop api ks ns)"
proof (induction ks)
  case (Cons k ks)
  have step: "keeps (still u ref key) (kp_delete api (k, ns, KEDAPrometheusAuthResourceName))"
    by (rule keepsI) (use assms in \<open>auto simp: still_def dest!: delete split: option.splits\<close>)
  show ?case
    by (rule keepsI) (auto split: prod.splits dest!: keepsD [OF step] keepsD [OF Cons.IH])
qed (simp add: keeps_def)

lemma isvcs_still: "keeps (still u ref key) (kp_isvcs api ns)"
  by (rule keepsI) (auto simp: still_def dest!: isvcs)

lemma llmisvcs_still: "keeps (still u ref key) (kp_llmisvcs api ns)"
  by (rule keepsI) (auto simp: still_def dest!: llmisvcs)

lemma cleanupNamespaceIfUnused_still:
  assumes "needed lib u (fst (snd key))"
  shows "keeps (still u ref key) (cleanupNamespaceIfUnused lib api ns)"
proof (rule keepsI)
  fix s r s'
  assume run: "cleanupNamespaceIfUnused lib api ns s = (r, s')" and P: "still u ref key s"
  obtain is1 s1 where i: "kp_isvcs api ns s = (is1, s1)" by fastforce
  obtain ls s2 where l: "kp_llmisvcs api ns s1 = (ls, s2)" by fastforce
  have P1: "still u ref key s1" using i P by (rule keepsD [OF isvcs_still])
  have P2: "still u ref key s2" using l P1 by (rule keepsD [OF llmisvcs_still])
  have u: "users s = u" "users s1 = u" using P P1 by (simp_all add: still_def)
  show "still u ref key s'"
  proof (cases "fst (snd key) = ns")
    case True
    have "s' = s1 \<or> s' = s2"
      using run i l isvcs [OF i] llmisvcs [OF l] assms [unfolded True needed_def] u
      by (auto simp: cleanupNamespaceIfUnused_def split: sum.splits if_splits)
    then show ?thesis using P1 P2 by blast
  next
    case False
    have "s' = s1 \<or> s' = s2 \<or> cleanupNamespace api ns s2 = (r, s')"
      using run i l by (auto simp: cleanupNamespaceIfUnused_def split: sum.splits if_splits)
    then show ?thesis
      using P1 P2 keepsD [OF cleanupLoop_still [OF False, of u ref resourcesToCleanup]] by (auto simp: cleanupNamespace_def)
  qed
qed

lemma removeOwnerReferenceIfPresent_still:
  assumes "or_uid ref' \<noteq> or_uid ref" and "needed lib u (fst (snd key))"
  shows "keeps (still u ref key) (removeOwnerReferenceIfPresent lib api ns ref')"
proof (rule keepsI)
  fix s r s'
  assume run: "removeOwnerReferenceIfPresent lib api ns ref' s = (r, s')" and P: "still u ref key s"
  obtain g s1 where g: "resourcesExist api ns s = (g, s1)" by fastforce
  then have P1: "still u ref key s1"
    using P by (auto simp: resourcesExist_def still_def split: prod.splits sum.splits dest!: get)
  obtain errs s2 where m: "removeOwnerReference api ns ref' s1 = (errs, s2)" by fastforce
  then have P2: "still u ref key s2" using P1 keepsD [OF removeLoop_still [OF assms(1)]] by (simp add: removeOwnerReference_def)
  have "s' = s1 \<or> s' = s2 \<or> cleanupNamespaceIfUnused lib api ns s2 = (r, s')"
    using run g m by (auto simp: removeOwnerReferenceIfPresent_def split: sum.splits bool.splits if_splits)
  then show "still u ref key s'" using P1 P2 keepsD [OF cleanupNamespaceIfUnused_still [OF assms(2)]] by blast
qed

end

subsection \<open>Results\<close>

context keda_server
begin

lemma reconcileObject_frame:
  assumes "kd_key expected \<noteq> key" and keep: "harmless keep"
  shows "keeps (\<lambda>s. look s key = x)
     (reconcileObject api expected ownerRef (\<lambda>s. orAlreadyExists (kp_create api expected s)) upd keep)"
  by (rule keepsI)
    (use assms in \<open>auto simp: reconcileObject_def orAlreadyExists_def Let_def harmlessD [OF keep]
      split: prod.splits sum.splits option.splits if_splits dest!: get create update\<close>)

lemma reconcileObject_no_match:
  "has_trigger \<Longrightarrow> reconcileObject api expected ownerRef (\<lambda>s. orAlreadyExists (kp_create api expected s)) upd keep s \<noteq> (Some NoMatch, s')"
  by (auto simp: reconcileObject_def orAlreadyExists_def Let_def no_match split: prod.splits sum.splits if_splits)

end

lemma expected_keys [simp]:
  "kd_key (expectedServiceAccount ns ref) = (AccountRes, ns, KEDAPrometheusAuthResourceName)"
  "kd_key (expectedSecret ns ref) = (SecretRes, ns, KEDAPrometheusAuthResourceName)"
  "kd_key (expectedRole ns ref ann) = (RoleRes, ns, KEDAPrometheusAuthResourceName)"
  "kd_key (expectedRoleBinding ns ref ann) = (BindingRes, ns, KEDAPrometheusAuthResourceName)"
  "kd_key (expectedTriggerAuthentication ns ref ann) = (TriggerRes, ns, KEDAPrometheusAuthResourceName)"
  by (simp_all add: kd_key_def keda_meta_def expectedServiceAccount_def expectedSecret_def expectedRole_def
      expectedRoleBinding_def expectedTriggerAuthentication_def)

lemma expected_owners [simp]:
  "om_owners (kd_meta (expectedServiceAccount ns ref)) = [ref]"
  "om_owners (kd_meta (expectedSecret ns ref)) = [ref]"
  "om_owners (kd_meta (expectedRole ns ref ann)) = [ref]"
  "om_owners (kd_meta (expectedRoleBinding ns ref ann)) = [ref]"
  "om_owners (kd_meta (expectedTriggerAuthentication ns ref ann)) = [ref]"
  by (simp_all add: keda_meta_def expectedServiceAccount_def expectedSecret_def expectedRole_def
      expectedRoleBinding_def expectedTriggerAuthentication_def)

lemma expected_annotations [simp]:
  "om_annotations (kd_meta (expectedRole ns ref ann)) = ann"
  "om_annotations (kd_meta (expectedRoleBinding ns ref ann)) = ann"
  "om_annotations (kd_meta (expectedTriggerAuthentication ns ref ann)) = ann"
  by (simp_all add: keda_meta_def expectedRole_def expectedRoleBinding_def expectedTriggerAuthentication_def)

text \<open>The object is there, has the owner and carries the annotations.\<close>

definition granted :: "owner_ref \<Rightarrow> string gomap \<Rightarrow> keda_object option \<Rightarrow> bool" where
  "granted ref ann x =
     (\<exists>o'. x = Some o' \<and> ref \<in> set (om_owners (kd_meta o')) \<and>
        (\<forall>k v. map_of ann k = Some v \<longrightarrow> v \<noteq> [] \<longrightarrow> map_of (om_annotations (kd_meta o')) k = Some v))"

lemma granted_holds: "granted ref ann x \<Longrightarrow> holds_ref ref x"
  by (auto simp: granted_def holds_ref_def)

lemma granted_empty: "granted ref ann x \<Longrightarrow> granted ref [] x"
  by (auto simp: granted_def)

context keda_server
begin

lemma reconcileObject_granted:
  assumes "kp_retry api (reconcileObject api expected ownerRef (\<lambda>s. orAlreadyExists (kp_create api expected s)) (upToDate lib) keep) s = (None, s')"
    and "harmless keep" "derive_laws lib" "full_ref ownerRef" "om_owners (kd_meta expected) = [ownerRef]"
  shows "granted ownerRef (om_annotations (kd_meta expected)) (look s' (kd_key expected))"
proof -
  have "keeps (\<lambda>_. True) (reconcileObject api expected ownerRef (\<lambda>s. orAlreadyExists (kp_create api expected s)) (upToDate lib) keep)"
    by (simp add: keeps_def)
  from retry_last [OF assms(1) this] obtain s1 where
    "reconcileObject api expected ownerRef (\<lambda>s. orAlreadyExists (kp_create api expected s)) (upToDate lib) keep s1 = (None, s')" by blast
  from reconcileObject_result [OF this assms(2-5)] show ?thesis by (simp add: granted_def)
qed

lemma reconcileObject_elsewhere:
  assumes "kp_retry api (reconcileObject api expected ownerRef (\<lambda>s. orAlreadyExists (kp_create api expected s)) upd keep) s = (r, s')"
    and "harmless keep" and "kd_key expected \<noteq> key"
  shows "look s' key = look s key"
  using keepsD [OF retry_keeps [OF reconcileObject_frame [OF assms(3,2)]] assms(1)] by simp

lemma reconcileKeda_granted:
  assumes run: "reconcileKeda lib api ns ref ann s = (None, s')" and laws: "derive_laws lib" and full: "full_ref ref"
  shows "k \<noteq> TriggerRes \<or> has_trigger \<Longrightarrow>
      granted ref (if k = AccountRes \<or> k = SecretRes then [] else ann) (look s' (k, ns, KEDAPrometheusAuthResourceName))"
proof -
  assume k: "k \<noteq> TriggerRes \<or> has_trigger"
  let ?n = KEDAPrometheusAuthResourceName
  obtain r1 s1 where a: "kp_retry api (reconcileServiceAccount lib api ns ref) s = (r1, s1)" by fastforce
  obtain r2 s2 where b: "kp_retry api (reconcileKedaSecret lib api ns ref) s1 = (r2, s2)" by fastforce
  obtain r3 s3 where c: "kp_retry api (reconcileRole lib api ns ref ann) s2 = (r3, s3)" by fastforce
  obtain r4 s4 where d: "kp_retry api (reconcileRoleBinding lib api ns ref ann) s3 = (r4, s4)" by fastforce
  obtain r5 s5 where e: "kp_retry api (reconcileTriggerAuthentication lib api ns ref ann) s4 = (r5, s5)" by fastforce
  have ok: "r1 = None" "r2 = None" "r3 = None" "r4 = None" "r5 = None \<or> r5 = Some NoMatch" "s' = s5"
    using run a b c d e by (auto simp: reconcileKeda_def split: option.splits if_splits)
  note runs = a [unfolded reconcile_shapes ok] b [unfolded reconcile_shapes ok] c [unfolded reconcile_shapes ok]
    d [unfolded reconcile_shapes ok] e [unfolded reconcile_shapes]
  note grants = runs(1-4) [THEN reconcileObject_granted, OF _ laws full, simplified]
  have moved: "look s5 (x, ns, ?n) = look s4 (x, ns, ?n)" if "x \<noteq> TriggerRes" for x
    using reconcileObject_elsewhere [OF runs(5)] that by simp
  have moved4: "look s4 (x, ns, ?n) = look s3 (x, ns, ?n)" if "x \<noteq> BindingRes" for x
    using reconcileObject_elsewhere [OF runs(4)] that by simp
  have moved3: "look s3 (x, ns, ?n) = look s2 (x, ns, ?n)" if "x \<noteq> RoleRes" for x
    using reconcileObject_elsewhere [OF runs(3)] that by simp
  have moved2: "look s2 (x, ns, ?n) = look s1 (x, ns, ?n)" if "x \<noteq> SecretRes" for x
    using reconcileObject_elsewhere [OF runs(2)] that by simp
  show ?thesis
  proof (cases k)
    case TriggerRes
    have "r5 \<noteq> Some NoMatch" if has_trigger
      using retry_last [OF runs(5), of "\<lambda>_. True"] reconcileObject_no_match [OF that] by (auto simp: keeps_def)
    then have "r5 = None" using ok(5) k TriggerRes by blast
    with runs(5) have "granted ref ann (look s5 (TriggerRes, ns, ?n))"
      using reconcileObject_granted [OF _ _ laws full, of "expectedTriggerAuthentication ns ref ann"] by simp
    then show ?thesis using ok TriggerRes by simp
  qed (use grants ok granted_empty in \<open>auto simp: moved moved4 moved3 moved2\<close>)
qed

end

section \<open>The API server of a store\<close>

datatype keda_fault = Busy | Broken

record keda_store =
  ks_objects :: "keda_object list"
  ks_isvcs :: "keda_isvc list"
  ks_llmisvcs :: "keda_llmisvc list"
  ks_clock :: nat

definition keda_call ::
    "(nat \<Rightarrow> keda_fault option) \<Rightarrow> (api_error \<Rightarrow> 'r) \<Rightarrow> (keda_store \<Rightarrow> 'r \<times> keda_store) \<Rightarrow> keda_store \<Rightarrow> 'r \<times> keda_store" where
  "keda_call fault failed run s =
     (let s' = s\<lparr>ks_clock := Suc (ks_clock s)\<rparr>
      in case fault (ks_clock s) of
           Some Busy \<Rightarrow> (failed Conflict, s')
         | Some Broken \<Rightarrow> (failed (ApiFailure []), s')
         | None \<Rightarrow> run s')"

definition ks_look :: "keda_store \<Rightarrow> keda_key \<Rightarrow> keda_object option" where
  "ks_look s key = find (\<lambda>o'. kd_key o' = key) (ks_objects s)"

definition ks_users :: "keda_store \<Rightarrow> (string \<Rightarrow> keda_isvc list) \<times> (string \<Rightarrow> keda_llmisvc list)" where
  "ks_users s =
     ((\<lambda>ns. filter (\<lambda>i. om_namespace (ki_meta i) = ns) (ks_isvcs s)),
      (\<lambda>ns. filter (\<lambda>l. om_namespace (kl_meta l) = ns) (ks_llmisvcs s)))"

fun retryConflict :: "nat \<Rightarrow> ('s \<Rightarrow> api_error option \<times> 's) \<Rightarrow> 's \<Rightarrow> api_error option \<times> 's" where
  "retryConflict 0 f s = f s"
| "retryConflict (Suc n) f s = (case f s of (r, s') \<Rightarrow> if r = Some Conflict then retryConflict n f s' else (r, s'))"

text \<open>\<open>crd\<close> says whether the TriggerAuthentication CRD is installed, \<open>fault n\<close> how the n-th call fails, if it does.\<close>

definition keda_store_api :: "bool \<Rightarrow> (nat \<Rightarrow> keda_fault option) \<Rightarrow> keda_store keda_api" where
  "keda_store_api crd fault = \<lparr>
     kp_get = (\<lambda>key. keda_call fault Inl (\<lambda>s.
       (case ks_look s key of Some o' \<Rightarrow> Inr o' | None \<Rightarrow> if fst key = TriggerRes \<and> \<not> crd then Inl NoMatch else Inl NotFound, s))),
     kp_create = (\<lambda>o'. keda_call fault Some (\<lambda>s.
       if kd_kind o' = TriggerRes \<and> \<not> crd then (Some NoMatch, s)
       else if ks_look s (kd_key o') \<noteq> None then (Some AlreadyExists, s)
       else (None, s\<lparr>ks_objects := o' # ks_objects s\<rparr>))),
     kp_update = (\<lambda>o'. keda_call fault Some (\<lambda>s.
       if ks_look s (kd_key o') = None then (Some NotFound, s)
       else (None, s\<lparr>ks_objects := map (\<lambda>x. if kd_key x = kd_key o' then o' else x) (ks_objects s)\<rparr>))),
     kp_delete = (\<lambda>key. keda_call fault Some (\<lambda>s.
       if ks_look s key = None then (Some NotFound, s)
       else (None, s\<lparr>ks_objects := filter (\<lambda>x. kd_key x \<noteq> key) (ks_objects s)\<rparr>))),
     kp_isvcs = (\<lambda>ns. keda_call fault Inl (\<lambda>s. (Inr (fst (ks_users s) ns), s))),
     kp_llmisvcs = (\<lambda>ns. keda_call fault Inl (\<lambda>s. (Inr (snd (ks_users s) ns), s))),
     kp_retry = retryConflict 4\<rparr>"

lemma ks_clock_simps [simp]:
  "ks_look (s\<lparr>ks_clock := n\<rparr>) = ks_look s" "ks_users (s\<lparr>ks_clock := n\<rparr>) = ks_users s"
  "ks_users (s\<lparr>ks_objects := os\<rparr>) = ks_users s"
  by (simp_all add: ks_look_def [abs_def] ks_users_def)

lemma ks_look_create: "ks_look s (kd_key o') = None \<Longrightarrow> ks_look (s\<lparr>ks_clock := n, ks_objects := o' # ks_objects s\<rparr>) = (ks_look s)(kd_key o' \<mapsto> o')"
  by (auto simp: ks_look_def fun_eq_iff)

lemma find_put:
  "find (\<lambda>x. kd_key x = key) (map (\<lambda>x. if kd_key x = kd_key o' then o' else x) xs) =
     (if key = kd_key o' then map_option (\<lambda>_. o') (find (\<lambda>x. kd_key x = key) xs) else find (\<lambda>x. kd_key x = key) xs)"
  by (induction xs) auto

lemma ks_look_update:
  "ks_look s (kd_key o') = Some x \<Longrightarrow>
   ks_look (s\<lparr>ks_clock := n, ks_objects := map (\<lambda>x. if kd_key x = kd_key o' then o' else x) (ks_objects s)\<rparr>) = (ks_look s)(kd_key o' \<mapsto> o')"
  by (auto simp: ks_look_def fun_eq_iff find_put)

lemma find_drop: "find (\<lambda>x. kd_key x = key) (filter (\<lambda>x. kd_key x \<noteq> key') xs) = (if key = key' then None else find (\<lambda>x. kd_key x = key) xs)"
  by (induction xs) auto

lemma ks_look_delete: "ks_look (s\<lparr>ks_clock := n, ks_objects := filter (\<lambda>x. kd_key x \<noteq> key) (ks_objects s)\<rparr>) = (ks_look s)(key := None)"
  by (auto simp: ks_look_def fun_eq_iff find_drop)

lemma retryConflict_retried: "retried f s (fst (retryConflict n f s)) (snd (retryConflict n f s))"
  by (induction n f s rule: retryConflict.induct)
    (auto split: prod.splits intro: retried.intros simp del: split_paired_Ex)

interpretation store: keda_server "keda_store_api crd fault" ks_look ks_users crd
proof (unfold_locales, goal_cases)
  case (7 f s)
  show ?case by (simp add: keda_store_api_def retryConflict_retried)
next
  case (8 s key o')
  then show ?case by (auto simp: ks_look_def find_Some_iff)
qed (auto simp: keda_store_api_def keda_call_def keda_absent_def ks_look_create ks_look_update ks_look_delete
      split: option.splits keda_fault.splits if_splits)

section \<open>Properties\<close>

datatype keda_op =
    ReconcilesISVC keda_isvc
  | DeletesISVC keda_isvc
  | CleansUp string
  | ReconcilesLLM keda_llmisvc
  | DeletesLLM keda_llmisvc

definition run_keda :: "keda_lib \<Rightarrow> 's keda_api \<Rightarrow> keda_op \<Rightarrow> 's \<Rightarrow> api_error list \<times> 's" where
  "run_keda lib api op' =
     (case op' of
        ReconcilesISVC i \<Rightarrow> ReconcileISVCKeda lib api i
      | DeletesISVC i \<Rightarrow> DeleteISVCKeda lib api i
      | CleansUp ns \<Rightarrow> CleanupISVCKeda lib api ns
      | ReconcilesLLM l \<Rightarrow> ReconcileLLMKeda lib api l
      | DeletesLLM l \<Rightarrow> DeleteLLMKeda lib api l)"

text \<open>The operation is not one of the service that the reference is of.\<close>

definition foreign_op :: "keda_lib \<Rightarrow> owner_ref \<Rightarrow> keda_op \<Rightarrow> bool" where
  "foreign_op lib ref op' =
     (case op' of
        ReconcilesISVC i \<Rightarrow> \<not> same_owner (AsIsvcOwnerRef lib i) ref \<and> or_uid (AsIsvcOwnerRef lib i) \<noteq> or_uid ref
      | DeletesISVC i \<Rightarrow> or_uid (AsIsvcOwnerRef lib i) \<noteq> or_uid ref
      | CleansUp ns \<Rightarrow> True
      | ReconcilesLLM l \<Rightarrow> \<not> same_owner (AsLLMIsvcOwnerRef lib l) ref \<and> or_uid (AsLLMIsvcOwnerRef lib l) \<noteq> or_uid ref
      | DeletesLLM l \<Rightarrow> or_uid (AsLLMIsvcOwnerRef lib l) \<noteq> or_uid ref)"

context keda_server
begin

lemma run_keda_still:
  assumes "foreign_op lib ref op'" and "needed lib u (fst (snd key))"
  shows "keeps (still u ref key) (run_keda lib api op')"
proof -
  have errs: "keeps P (\<lambda>s. errors_of (f s))" if "keeps P f" for P and f :: "'s \<Rightarrow> _"
    using that by (auto simp: keeps_def errors_of_def split: prod.splits)
  note parts = removeOwnerReferenceIfPresent_still [OF _ assms(2)] cleanupNamespaceIfUnused_still [OF assms(2)]
    errs [OF reconcileKeda_still]
  have branch: "keeps P (\<lambda>s. if c then f s else g s)" if "keeps P f" "keeps P g" for P c and f g :: "'s \<Rightarrow> _"
    using that by (cases c) simp_all
  show ?thesis using assms(1)
    by (cases op')
      (auto simp: run_keda_def foreign_op_def ReconcileISVCKeda_def [abs_def] DeleteISVCKeda_def CleanupISVCKeda_def
        ReconcileLLMKeda_def [abs_def] DeleteLLMKeda_def Let_def intro!: parts branch)
qed

end

text \<open>
  Property C19. Services that share the objects cannot take them from each other. As long as some service of the namespace
  that is not being deleted scales on Prometheus, a service that owns one of the objects keeps it through any sequence of
  reconciles, deletions and cleanups of other services, with API calls failing at any point: the object stays and so does the
  owner reference.
\<close>

theorem keda_access_kept:
  assumes "needed lib (ks_users s) ns" and "holds_ref ref (ks_look s (k, ns, n))" and "list_all (foreign_op lib ref) ops"
  shows "holds_ref ref (ks_look (fold (\<lambda>op' s. snd (run_keda lib (keda_store_api crd fault) op' s)) ops s) (k, ns, n))"
proof -
  have "store.still (ks_users s) ref (k, ns, n) s" using assms(2) by (simp add: store.still_def)
  then have "store.still (ks_users s) ref (k, ns, n) (fold (\<lambda>op' s. snd (run_keda lib (keda_store_api crd fault) op' s)) ops s)"
    using assms(3)
  proof (induction ops rule: rev_induct)
    case (snoc op' ops)
    have "keeps (store.still (ks_users s) ref (k, ns, n)) (run_keda lib (keda_store_api crd fault) op')"
      by (rule store.run_keda_still) (use snoc.prems assms(1) in simp_all)
    from keeps_snd [OF this] snoc show ?case by simp
  qed simp
  then show ?thesis by (simp add: store.still_def)
qed

text \<open>
  A reconcile of an InferenceService that scales on Prometheus and ends without an error has set everything up: each
  of the five objects exists in its namespace, the TriggerAuthentication if its CRD is installed, and has the service among its
  owners; role, binding and TriggerAuthentication carry the annotations of the service.
\<close>

theorem keda_reconcile_grants:
  assumes "ReconcileISVCKeda lib (keda_store_api crd fault) isvc s = ([], s')"
    and "hasPrometheusExternalAutoscalingMetric lib isvc" and "derive_laws lib" and "full_ref (AsIsvcOwnerRef lib isvc)"
    and "k \<noteq> TriggerRes \<or> crd"
  shows "granted (AsIsvcOwnerRef lib isvc) (if k = AccountRes \<or> k = SecretRes then [] else om_annotations (ki_meta isvc))
    (ks_look s' (k, om_namespace (ki_meta isvc), KEDAPrometheusAuthResourceName))"
proof -
  from assms(1,2) have "reconcileKeda lib (keda_store_api crd fault) (om_namespace (ki_meta isvc)) (AsIsvcOwnerRef lib isvc)
      (om_annotations (ki_meta isvc)) s = (None, s')"
    by (auto simp: ReconcileISVCKeda_def Let_def errors_of_def split: prod.splits option.splits)
  then show ?thesis using assms(3-5) by (rule store.reconcileKeda_granted)
qed

text \<open>
  Two services of a namespace whose annotations differ never come to rest: there is no state in which the
  reconciles of both succeed and change nothing, because each writes its own annotations over those of the other.
\<close>

theorem keda_annotations_never_settle:
  assumes "derive_laws lib" and "full_ref (AsIsvcOwnerRef lib i)" and "full_ref (AsIsvcOwnerRef lib j)"
    and "hasPrometheusExternalAutoscalingMetric lib i" and "hasPrometheusExternalAutoscalingMetric lib j"
    and "om_namespace (ki_meta i) = om_namespace (ki_meta j)"
    and "map_of (om_annotations (ki_meta i)) a = Some v" and "map_of (om_annotations (ki_meta j)) a = Some w"
    and "v \<noteq> w" and "v \<noteq> []" and "w \<noteq> []"
  shows "\<nexists>s s1 s2. ReconcileISVCKeda lib (keda_store_api crd fault) i s = ([], s1) \<and> ks_objects s1 = ks_objects s \<and>
    ReconcileISVCKeda lib (keda_store_api crd fault) j s = ([], s2) \<and> ks_objects s2 = ks_objects s"
proof (intro notI, elim exE conjE)
  fix s s1 s2
  let ?key = "(RoleRes, om_namespace (ki_meta j), KEDAPrometheusAuthResourceName)"
  assume i: "ReconcileISVCKeda lib (keda_store_api crd fault) i s = ([], s1)" "ks_objects s1 = ks_objects s"
    and j: "ReconcileISVCKeda lib (keda_store_api crd fault) j s = ([], s2)" "ks_objects s2 = ks_objects s"
  have granted_of: "granted (AsIsvcOwnerRef lib x) (om_annotations (ki_meta x)) (ks_look s' (RoleRes, om_namespace (ki_meta x), KEDAPrometheusAuthResourceName))"
    if "ReconcileISVCKeda lib (keda_store_api crd fault) x s = ([], s')" "hasPrometheusExternalAutoscalingMetric lib x"
      "full_ref (AsIsvcOwnerRef lib x)" for x s'
    using that assms(1) store.reconcileKeda_granted [of lib crd fault _ _ _ s s' RoleRes]
    by (auto simp: ReconcileISVCKeda_def Let_def errors_of_def split: prod.splits option.splits)
  have same: "ks_look s1 ?key = ks_look s2 ?key" by (simp add: ks_look_def i(2) j(2))
  from granted_of [OF i(1) assms(4,2)] assms(6) obtain x where x: "ks_look s1 ?key = Some x"
    "map_of (om_annotations (kd_meta x)) a = Some v" using assms(7,10) by (auto simp: granted_def)
  from granted_of [OF j(1) assms(5,3)] obtain y where "ks_look s2 ?key = Some y"
    "map_of (om_annotations (kd_meta y)) a = Some w" using assms(8,11) by (auto simp: granted_def)
  with x same assms(9) show False by simp
qed

definition demo_keda_lib :: keda_lib where
  "demo_keda_lib = \<lparr>kb_derives_map = (\<lambda>a b. list_all (\<lambda>(k, v). v = [] \<or> map_of b k = Some v) a),
     kb_derives_owners = (\<lambda>a b. take (length a) b = a), kb_derives_rules = (=), kb_derives_subjects = (=), kb_derives_ref = (=),
     kb_derives_targets = (=), kb_prometheus = ''prometheus'', kb_isvc_api = ''v1beta1'', kb_llm_api = ''v1alpha2'',
     kb_llm_kind = ''LLMInferenceService''\<rparr>"

lemma demo_derive_laws: "derive_laws demo_keda_lib"
proof -
  have "r \<in> set b" if "take (length a) b = a" "r \<in> set a" for a b :: "owner_ref list" and r
    using that by (metis in_set_takeD)
  then show ?thesis by (fastforce simp: derive_laws_def demo_keda_lib_def list_all_iff dest: map_of_SomeD)
qed

definition scaled_isvc :: "string \<Rightarrow> string option \<Rightarrow> keda_isvc" where
  "scaled_isvc name backend = \<lparr>ki_meta = empty_meta\<lparr>om_name := name, om_namespace := ''apps'', om_uid := ''uid-'' @ name,
       om_annotations := [(''team'', name)]\<rparr>,
     ki_metrics = Some [backend]\<rparr>"

definition keda_cluster :: "keda_isvc list \<Rightarrow> keda_store" where
  "keda_cluster is = \<lparr>ks_objects = [], ks_isvcs = is, ks_llmisvcs = [], ks_clock = 0\<rparr>"

text \<open>One service is set up; the other does not need the objects any more.\<close>

definition keda_pair :: keda_store where
  "keda_pair = snd (run_keda demo_keda_lib (keda_store_api True (\<lambda>_. None)) (ReconcilesISVC (scaled_isvc ''a'' (Some ''prometheus'')))
     (keda_cluster [scaled_isvc ''a'' (Some ''prometheus''), scaled_isvc ''b'' None]))"

lemma scaled_simps:
  "hasPrometheusExternalAutoscalingMetric demo_keda_lib (scaled_isvc n b) \<longleftrightarrow> b = Some ''prometheus''"
  "full_ref (AsIsvcOwnerRef demo_keda_lib (scaled_isvc n b)) \<longleftrightarrow> n \<noteq> []"
  "om_namespace (ki_meta (scaled_isvc n b)) = ''apps''"
  "om_annotations (ki_meta (scaled_isvc n b)) = [(''team'', n)]"
  by (auto simp: hasPrometheusExternalAutoscalingMetric_def demo_keda_lib_def scaled_isvc_def full_ref_def AsIsvcOwnerRef_def
      AsOwnerRef_def empty_meta_def)

lemma keda_pair_state:
  "needed demo_keda_lib (ks_users keda_pair) ''apps''"
  "case ks_look keda_pair (RoleRes, ''apps'', KEDAPrometheusAuthResourceName) of None \<Rightarrow> False
   | Some o' \<Rightarrow> AsIsvcOwnerRef demo_keda_lib (scaled_isvc ''a'' (Some ''prometheus'')) \<in> set (om_owners (kd_meta o'))"
  "foreign_op demo_keda_lib (AsIsvcOwnerRef demo_keda_lib (scaled_isvc ''a'' (Some ''prometheus''))) (ReconcilesISVC (scaled_isvc ''b'' None))"
  by code_simp+

theorem keda_access_kept_witness:
  "holds_ref (AsIsvcOwnerRef demo_keda_lib (scaled_isvc ''a'' (Some ''prometheus'')))
     (ks_look (snd (run_keda demo_keda_lib (keda_store_api True (\<lambda>_. None)) (ReconcilesISVC (scaled_isvc ''b'' None)) keda_pair))
       (RoleRes, ''apps'', KEDAPrometheusAuthResourceName))"
proof -
  let ?ref = "AsIsvcOwnerRef demo_keda_lib (scaled_isvc ''a'' (Some ''prometheus''))"
  have "holds_ref ?ref (ks_look keda_pair (RoleRes, ''apps'', KEDAPrometheusAuthResourceName))"
    using keda_pair_state(2) by (auto simp: holds_ref_def split: option.splits)
  from keda_access_kept [OF keda_pair_state(1) this, of "[ReconcilesISVC (scaled_isvc ''b'' None)]" True "\<lambda>_. None"] keda_pair_state(3)
  show ?thesis by simp
qed

lemma keda_pair_run:
  "fst (ReconcileISVCKeda demo_keda_lib (keda_store_api True (\<lambda>_. None)) (scaled_isvc ''b'' (Some ''prometheus'')) keda_pair) = []"
  by code_simp

theorem keda_reconcile_grants_witness:
  "granted (AsIsvcOwnerRef demo_keda_lib (scaled_isvc ''b'' (Some ''prometheus''))) [(''team'', ''b'')]
     (ks_look (snd (ReconcileISVCKeda demo_keda_lib (keda_store_api True (\<lambda>_. None)) (scaled_isvc ''b'' (Some ''prometheus'')) keda_pair))
       (TriggerRes, ''apps'', KEDAPrometheusAuthResourceName))"
proof -
  let ?run = "ReconcileISVCKeda demo_keda_lib (keda_store_api True (\<lambda>_. None)) (scaled_isvc ''b'' (Some ''prometheus'')) keda_pair"
  have "?run = ([], snd ?run)" using keda_pair_run by (metis prod.collapse)
  from keda_reconcile_grants [OF this _ demo_derive_laws, of TriggerRes] show ?thesis by (simp add: scaled_simps)
qed

theorem keda_annotations_never_settle_witness:
  "let r = ReconcileISVCKeda demo_keda_lib (keda_store_api True (\<lambda>_. None));
       i = scaled_isvc ''a'' (Some ''prometheus''); j = scaled_isvc ''b'' (Some ''prometheus'')
   in fst (r i keda_pair) = [] \<and> fst (r j keda_pair) = [] \<and>
      \<not> (ks_objects (snd (r i keda_pair)) = ks_objects keda_pair \<and> ks_objects (snd (r j keda_pair)) = ks_objects keda_pair)"
proof -
  let ?r = "ReconcileISVCKeda demo_keda_lib (keda_store_api True (\<lambda>_. None))"
  let ?i = "scaled_isvc ''a'' (Some ''prometheus'')" and ?j = "scaled_isvc ''b'' (Some ''prometheus'')"
  have i: "fst (?r ?i keda_pair) = []" by code_simp
  have "\<nexists>s s1 s2. ?r ?i s = ([], s1) \<and> ks_objects s1 = ks_objects s \<and> ?r ?j s = ([], s2) \<and> ks_objects s2 = ks_objects s"
    by (rule keda_annotations_never_settle [OF demo_derive_laws, where a = "''team''" and v = "''a''" and w = "''b''"])
      (simp_all add: scaled_simps)
  with i keda_pair_run show ?thesis unfolding Let_def by (metis prod.collapse)
qed

text \<open>
  The check for one object does not stand for the whole set. The cleanup deletes the ServiceAccount first; when a
  later deletion fails, the reconcile that repeats it finds no ServiceAccount, reports success, and the role stays behind with
  nobody in the namespace that needs it.
\<close>

theorem keda_partial_cleanup_orphans:
  "\<exists>fault. let i = scaled_isvc ''a'' None; run = (\<lambda>s. ReconcileISVCKeda demo_keda_lib (keda_store_api True fault) i s);
       s0 = keda_pair\<lparr>ks_isvcs := [i], ks_clock := 0\<rparr>; (errs1, s1) = run s0; (errs2, s2) = run s1
   in errs1 \<noteq> [] \<and> errs2 = [] \<and> ks_objects s2 = ks_objects s1 \<and>
      ks_look s2 (AccountRes, ''apps'', KEDAPrometheusAuthResourceName) = None \<and>
      ks_look s2 (RoleRes, ''apps'', KEDAPrometheusAuthResourceName) \<noteq> None \<and> \<not> needed demo_keda_lib (ks_users s2) ''apps''"
  by (rule exI [of _ "\<lambda>n. if n = 15 then Some Broken else None"]) code_simp

end
