(* ===== verification/ISVC_Controller.thy ===== *)
theory ISVC_Controller
  imports KEDA_Auth Gateway_Refs
begin

text \<open>
  The InferenceService controller (internal/controller/serving/inferenceservice_controller.go) and the list of sub-reconcilers it
  drives (internal/controller/serving/reconcilers/kserve_raw_inferenceservice_reconciler.go). A sub-reconciler is the record of
  the three methods of the Go interface, and of the removal that only the route reconciler has; it acts on the
  state of the cluster, of which nothing is assumed. An InferenceService is its metadata and a spec that only the
  sub-reconcilers read.
\<close>

section \<open>Data\<close>

datatype sub_kind = NetworkPolicySub | RouteSub | OtherSub

record 'spec served =
  sd_meta :: object_meta
  sd_spec :: 'spec

record ('spec, 's) sub_reconciler =
  sub_kind :: sub_kind
  sub_reconcile :: "'spec served \<Rightarrow> 's \<Rightarrow> api_error list \<times> 's"
  sub_delete :: "'spec served \<Rightarrow> 's \<Rightarrow> api_error list \<times> 's"
  sub_cleanup :: "string \<Rightarrow> 's \<Rightarrow> api_error list \<times> 's"
  sub_unexpose :: "'spec served \<Rightarrow> 's \<Rightarrow> api_error list \<times> 's"  \<comment> \<open>\<open>DeleteOwnedRouteIfNotExposed\<close>\<close>

text \<open>\<open>sv_patch\<close> is the patch that adds or removes the finalizer, \<open>sv_registry\<close> the model registry reconciler with its requeue time.\<close>

record ('spec, 's) serving_api =
  sv_get :: "namespaced_name \<Rightarrow> 's \<Rightarrow> (api_error + 'spec served) \<times> 's"
  sv_list :: "string \<Rightarrow> 's \<Rightarrow> (api_error + 'spec served list) \<times> 's"
  sv_patch :: "'spec served \<Rightarrow> 's \<Rightarrow> api_error option \<times> 's"
  sv_registry :: "(api_error + (namespaced_name \<Rightarrow> 's \<Rightarrow> (nat \<times> api_error list) \<times> 's)) option"

definition InferenceServiceODHFinalizerName :: string where
  "InferenceServiceODHFinalizerName = ''odh.inferenceservice.finalizers''"

definition AddFinalizer :: "'spec served \<Rightarrow> 'spec served" where
  "AddFinalizer i = i\<lparr>sd_meta := (sd_meta i)\<lparr>om_finalizers := om_finalizers (sd_meta i) @ [InferenceServiceODHFinalizerName]\<rparr>\<rparr>"

definition RemoveFinalizer :: "'spec served \<Rightarrow> 'spec served" where
  "RemoveFinalizer i = i\<lparr>sd_meta := (sd_meta i)\<lparr>om_finalizers := removeAll InferenceServiceODHFinalizerName (om_finalizers (sd_meta i))\<rparr>\<rparr>"

section \<open>The sub-reconcilers\<close>

fun rawReconcile ::
    "('spec, 's) sub_reconciler list \<Rightarrow> 'spec served \<Rightarrow> bool \<Rightarrow> 's \<Rightarrow> api_error list \<times> 's" where
  "rawReconcile [] isvc networkPolicyFailed s = ([], s)"
| "rawReconcile (r # rs) isvc networkPolicyFailed s =
     (if networkPolicyFailed \<and> sub_kind r = RouteSub then
        (case sub_unexpose r isvc s of
           (errs, s) \<Rightarrow> (case rawReconcile rs isvc networkPolicyFailed s of (errs', s) \<Rightarrow> (errs @ errs', s)))
      else
        (case sub_reconcile r isvc s of
           (errs, s) \<Rightarrow>
             (case rawReconcile rs isvc (networkPolicyFailed \<or> errs \<noteq> [] \<and> sub_kind r = NetworkPolicySub) s of
                (errs', s) \<Rightarrow> (errs @ errs', s))))"

fun OnDeletionOfKserveInferenceService ::
    "('spec, 's) sub_reconciler list \<Rightarrow> 'spec served \<Rightarrow> 's \<Rightarrow> api_error list \<times> 's" where
  "OnDeletionOfKserveInferenceService [] isvc s = ([], s)"
| "OnDeletionOfKserveInferenceService (r # rs) isvc s =
     (case sub_delete r isvc s of
        (errs, s) \<Rightarrow> (case OnDeletionOfKserveInferenceService rs isvc s of (errs', s) \<Rightarrow> (errs @ errs', s)))"

fun CleanupNamespaceIfNoRawKserveIsvcExists :: "('spec, 's) sub_reconciler list \<Rightarrow> string \<Rightarrow> 's \<Rightarrow> api_error list \<times> 's" where
  "CleanupNamespaceIfNoRawKserveIsvcExists [] ns s = ([], s)"
| "CleanupNamespaceIfNoRawKserveIsvcExists (r # rs) ns s =
     (case sub_cleanup r ns s of
        (errs, s) \<Rightarrow> (case CleanupNamespaceIfNoRawKserveIsvcExists rs ns s of (errs', s) \<Rightarrow> (errs @ errs', s)))"

section \<open>The controller\<close>

definition DeleteResourcesIfNoIsvcExists ::
    "('spec, 's) serving_api \<Rightarrow> ('spec, 's) sub_reconciler list \<Rightarrow> string \<Rightarrow> 's \<Rightarrow> api_error list \<times> 's" where
  "DeleteResourcesIfNoIsvcExists api subs ns s =
     (case sv_list api ns s of
        (Inl e, s) \<Rightarrow> ([e], s)
      | (Inr isvcs, s) \<Rightarrow>
          if list_ex (\<lambda>i. \<not> om_deleting (sd_meta i)) isvcs then ([], s)
          else CleanupNamespaceIfNoRawKserveIsvcExists subs ns s)"

definition ReconcileServing ::
    "('spec, 's) serving_api \<Rightarrow> ('spec, 's) sub_reconciler list \<Rightarrow> namespaced_name \<Rightarrow> 's \<Rightarrow> api_error list \<times> 's" where
  "ReconcileServing api subs req s =
     (case sv_get api req s of
        (Inl e, s) \<Rightarrow> if e = NotFound then DeleteResourcesIfNoIsvcExists api subs (fst req) s else ([e], s)
      | (Inr isvc, s) \<Rightarrow>
          if \<not> om_deleting (sd_meta isvc) then
            (if InferenceServiceODHFinalizerName \<in> set (om_finalizers (sd_meta isvc)) then rawReconcile subs isvc False s
             else (case sv_patch api (AddFinalizer isvc) s of
                     (Some e, s) \<Rightarrow> ([e], s)
                   | (None, s) \<Rightarrow> rawReconcile subs (AddFinalizer isvc) False s))
          else if InferenceServiceODHFinalizerName \<in> set (om_finalizers (sd_meta isvc)) then
            (case OnDeletionOfKserveInferenceService subs isvc s of
               (errs, s) \<Rightarrow>
                 (case DeleteResourcesIfNoIsvcExists api subs (fst req) s of
                    (errs', s) \<Rightarrow>
                      if errs @ errs' \<noteq> [] then (errs @ errs', s)
                      else (case sv_patch api (RemoveFinalizer isvc) s of
                              (Some e, s) \<Rightarrow> ([e], s)
                            | (None, s) \<Rightarrow> ([], s))))
          else ([], s))"

text \<open>The result is the requeue time in seconds, 0 for none, and the errors.\<close>

definition ReconcileISVC ::
    "('spec, 's) serving_api \<Rightarrow> ('spec, 's) sub_reconciler list \<Rightarrow> namespaced_name \<Rightarrow> 's \<Rightarrow> (nat \<times> api_error list) \<times> 's" where
  "ReconcileISVC api subs req s =
     (case ReconcileServing api subs req s of
        (errs, s) \<Rightarrow>
          (case sv_registry api of
             None \<Rightarrow> ((0, errs), s)
           | Some (Inl e) \<Rightarrow> ((0, errs @ [e]), s)
           | Some (Inr reconcile) \<Rightarrow>
               (case reconcile req s of ((after, errs'), s) \<Rightarrow> ((after, errs @ errs'), s))))"

section \<open>Lemmas\<close>

lemma rawReconcile_failed_route:
  "rawReconcile (map (\<lambda>r. if sub_kind r = RouteSub then r\<lparr>sub_reconcile := f\<rparr> else r) rs) isvc True s = rawReconcile rs isvc True s"
  by (induction rs arbitrary: s) (simp_all split: prod.split)

lemma rawReconcile_append:
  "rawReconcile (xs @ r # ys) isvc False s =
     (case rawReconcile xs isvc False s of
        (errs, s1) \<Rightarrow>
          (case rawReconcile (r # ys) isvc False s1 of (errs', s') \<Rightarrow> (errs @ errs', s')))"
  if "list_all (\<lambda>x. sub_kind x \<noteq> NetworkPolicySub) xs"
  using that by (induction xs arbitrary: s) (auto split: prod.split)

text \<open>
  \<open>fin\<close> says whether the service has the finalizer in the cluster. Nothing but the patch removes it, and a patch that has it keeps
  it.
\<close>

definition leavesFinalizer :: "('s \<Rightarrow> bool) \<Rightarrow> ('spec, 's) serving_api \<Rightarrow> ('spec, 's) sub_reconciler list \<Rightarrow> bool" where
  "leavesFinalizer fin api subs =
     ((\<forall>r \<in> set subs. \<forall>i ns. keeps fin (sub_reconcile r i) \<and> keeps fin (sub_delete r i) \<and> keeps fin (sub_cleanup r ns) \<and>
         keeps fin (sub_unexpose r i)) \<and>
      (\<forall>req. keeps fin (sv_get api req)) \<and> (\<forall>ns. keeps fin (sv_list api ns)) \<and>
      (\<forall>i. InferenceServiceODHFinalizerName \<in> set (om_finalizers (sd_meta i)) \<longrightarrow> keeps fin (sv_patch api i)))"

lemma rawReconcile_keeps:
  "\<forall>r \<in> set rs. keeps P (sub_reconcile r i) \<and> keeps P (sub_unexpose r i) \<Longrightarrow> keeps P (rawReconcile rs i b)"
proof (induction rs arbitrary: b)
  case (Cons r rs)
  have rest: "keeps P (rawReconcile rs i b)" for b using Cons by simp
  have r: "keeps P (sub_reconcile r i)" "keeps P (sub_unexpose r i)" using Cons.prems by simp_all
  show ?case
    by (rule keepsI) (auto split: prod.splits if_splits dest!: keepsD [OF rest] keepsD [OF r(1)] keepsD [OF r(2)])
qed (simp add: keeps_def)

lemma OnDeletion_keeps:
  "\<forall>r \<in> set rs. keeps P (sub_delete r i) \<Longrightarrow> keeps P (OnDeletionOfKserveInferenceService rs i)"
  by (induction rs) (auto simp: keeps_def split: prod.splits)

lemma Cleanup_keeps:
  "\<forall>r \<in> set rs. keeps P (sub_cleanup r ns) \<Longrightarrow> keeps P (CleanupNamespaceIfNoRawKserveIsvcExists rs ns)"
  by (induction rs) (auto simp: keeps_def split: prod.splits)

lemma DeleteResources_keeps:
  assumes "keeps P (sv_list api ns)" and "\<forall>r \<in> set subs. keeps P (sub_cleanup r ns)"
  shows "keeps P (DeleteResourcesIfNoIsvcExists api subs ns)"
  using assms(1) Cleanup_keeps [OF assms(2)]
  by (auto simp: keeps_def DeleteResourcesIfNoIsvcExists_def split: prod.splits sum.splits if_splits)

section \<open>Properties\<close>

text \<open>
  A Route is never created or changed while the network policy is not in place: when the reconcile of the policy
  reports an error, nothing in the outcome depends on what the reconcile of the route would do. The others still run.
\<close>

theorem route_waits_for_policy:
  assumes "list_all (\<lambda>x. sub_kind x = OtherSub) xs" and "sub_kind np = NetworkPolicySub"
    and "rawReconcile xs isvc False s = (errs, s1)" and "fst (sub_reconcile np isvc s1) \<noteq> []"
  shows "rawReconcile (xs @ np # map (\<lambda>r. if sub_kind r = RouteSub then r\<lparr>sub_reconcile := f\<rparr> else r) ys) isvc False s =
    rawReconcile (xs @ np # ys) isvc False s"
proof -
  have "list_all (\<lambda>x. sub_kind x \<noteq> NetworkPolicySub) xs" using assms(1) by (simp add: list_all_iff)
  moreover obtain es s2 where "sub_reconcile np isvc s1 = (es, s2)" by fastforce
  moreover from this have "es \<noteq> []" using assms(4) by simp
  ultimately show ?thesis using assms(2,3)
    by (simp add: rawReconcile_append rawReconcile_failed_route)
qed

text \<open>The reconcilers of the code in a cluster whose state is the log of the calls; the policy fails.\<close>

definition logging :: "sub_kind \<Rightarrow> string \<Rightarrow> api_error list \<Rightarrow> (unit, string list) sub_reconciler" where
  "logging k n errs = \<lparr>sub_kind = k, sub_reconcile = (\<lambda>_ s. (errs, s @ [n])), sub_delete = (\<lambda>_ s. ([], s)),
     sub_cleanup = (\<lambda>_ s. ([], s)), sub_unexpose = (\<lambda>_ s. ([], s @ [''unexpose '' @ n]))\<rparr>"

theorem route_waits_for_policy_witness:
  "snd (rawReconcile [logging OtherSub ''binding'' [], logging NetworkPolicySub ''policy'' [Conflict],
      logging RouteSub ''route'' [], logging OtherSub ''metrics'' []] \<lparr>sd_meta = empty_meta, sd_spec = ()\<rparr> False []) =
     [''binding'', ''policy'', ''unexpose route'', ''metrics'']"
proof -
  let ?i = "\<lparr>sd_meta = empty_meta, sd_spec = ()\<rparr>"
  from route_waits_for_policy [of "[logging OtherSub ''binding'' []]" "logging NetworkPolicySub ''policy'' [Conflict]" ?i "[]" "[]" "[''binding'']"
      "\<lambda>_ s. ([Conflict], [])" "[logging RouteSub ''route'' [], logging OtherSub ''metrics'' []]"]
  show ?thesis by (simp add: logging_def)
qed

text \<open>
  Property C33. The finalizer is released last. If a reconcile makes the finalizer of the service disappear, then the service was being
  deleted, all sub-reconcilers have deleted what they made for it without an error, and the cleanup of the namespace ended
  without an error too.
\<close>

theorem finalizer_released_last:
  assumes leaves: "leavesFinalizer fin api subs" and had: "fin s"
    and run: "ReconcileServing api subs req s = (es, s')" and gone: "\<not> fin s'"
  shows "\<exists>isvc s0 s1 s2. sv_get api req s = (Inr isvc, s0) \<and> om_deleting (sd_meta isvc) \<and>
    OnDeletionOfKserveInferenceService subs isvc s0 = ([], s1) \<and> DeleteResourcesIfNoIsvcExists api subs (fst req) s1 = ([], s2)"
proof -
  have k: "keeps fin (rawReconcile subs i b)" "keeps fin (OnDeletionOfKserveInferenceService subs i)"
      "keeps fin (DeleteResourcesIfNoIsvcExists api subs ns)" "keeps fin (sv_get api req)"
      "keeps fin (sv_patch api (AddFinalizer i))" for i b ns
    using leaves by (auto simp: leavesFinalizer_def AddFinalizer_def intro!: rawReconcile_keeps OnDeletion_keeps DeleteResources_keeps
        simp del: split_paired_All)
  obtain g s0 where g: "sv_get api req s = (g, s0)" by fastforce
  have f0: "fin s0" using keepsD [OF k(4) g had] .
  show ?thesis
  proof (cases "\<exists>i. g = Inr i \<and> om_deleting (sd_meta i) \<and> InferenceServiceODHFinalizerName \<in> set (om_finalizers (sd_meta i))")
    case True
    then obtain i where i: "g = Inr i" "om_deleting (sd_meta i)" "InferenceServiceODHFinalizerName \<in> set (om_finalizers (sd_meta i))" by blast
    obtain e1 s1 where d: "OnDeletionOfKserveInferenceService subs i s0 = (e1, s1)" by fastforce
    obtain e2 s2 where c: "DeleteResourcesIfNoIsvcExists api subs (fst req) s1 = (e2, s2)" by fastforce
    have "fin s2" using keepsD [OF k(3) c keepsD [OF k(2) d f0]] .
    then have "e1 = [] \<and> e2 = []" using run gone g i d c by (auto simp: ReconcileServing_def split: if_splits)
    then show ?thesis using g i d c by blast
  next
    case False
    have "fin s'"
      using run g f0 False
      by (auto simp: ReconcileServing_def split: sum.splits if_splits prod.splits option.splits dest: keepsD [OF k(1)] keepsD [OF k(3)] keepsD [OF k(5)])
    with gone show ?thesis by simp
  qed
qed

text \<open>A service that is being deleted, in a cluster whose state is the finalizer and the log of the deletions.\<close>

definition leaving_isvc :: "unit served" where
  "leaving_isvc = \<lparr>sd_meta = empty_meta\<lparr>om_deleting := True, om_finalizers := [InferenceServiceODHFinalizerName]\<rparr>, sd_spec = ()\<rparr>"

definition leaving_api :: "(unit, bool \<times> string list) serving_api" where
  "leaving_api = \<lparr>sv_get = (\<lambda>_ s. (Inr leaving_isvc, s)), sv_list = (\<lambda>_ s. (Inr [leaving_isvc], s)),
     sv_patch = (\<lambda>i (_, l). (None, (InferenceServiceODHFinalizerName \<in> set (om_finalizers (sd_meta i)), l))), sv_registry = None\<rparr>"

definition deleting_sub :: "string \<Rightarrow> (unit, bool \<times> string list) sub_reconciler" where
  "deleting_sub n = \<lparr>sub_kind = OtherSub, sub_reconcile = (\<lambda>_ s. ([], s)), sub_delete = (\<lambda>_ (f, l). ([], (f, l @ [n]))),
     sub_cleanup = (\<lambda>_ s. ([], s)), sub_unexpose = (\<lambda>_ s. ([], s))\<rparr>"

lemma leaving_isvc_run:
  "ReconcileServing leaving_api [deleting_sub ''binding'', deleting_sub ''keda''] ([], []) (True, []) = ([], (False, [''binding'', ''keda'']))"
  by (simp add: ReconcileServing_def leaving_api_def leaving_isvc_def deleting_sub_def DeleteResourcesIfNoIsvcExists_def empty_meta_def
      RemoveFinalizer_def InferenceServiceODHFinalizerName_def)

theorem finalizer_released_last_witness:
  "\<exists>isvc s0 s1. sv_get leaving_api ([], []) (True, []) = (Inr isvc, s0) \<and>
     OnDeletionOfKserveInferenceService [deleting_sub ''binding'', deleting_sub ''keda''] isvc s0 = ([], s1)"
proof -
  have "leavesFinalizer fst leaving_api [deleting_sub ''binding'', deleting_sub ''keda'']"
    by (auto simp: leavesFinalizer_def leaving_api_def deleting_sub_def keeps_def)
  from finalizer_released_last [OF this _ leaving_isvc_run] show ?thesis by fastforce
qed

end
