(* ===== verification/Policy_Reconciler.thy ===== *)
theory Policy_Reconciler
  imports Network_Policy ISVC_Controller
begin

text \<open>
  Keeping the NetworkPolicies of InferenceServices and of InferenceGraphs
  (internal/controller/serving/reconcilers/kserve_raw_networkpolicy_reconciler.go,
  kserve_raw_inferencegraph_networkpolicy_reconciler.go beside it, and internal/controller/serving/inferencegraph_controller.go), and
  the events of graphs that reach the services (\<open>inferenceGraphInferenceServiceRequests\<close> in
  internal/controller/serving/inferenceservice_controller.go). The two reconcilers have the same code up to the owner; \<open>applyPolicy\<close> and
  \<open>removePolicy\<close> are that code, and the locale \<open>owner_guarded\<close> is its contract.
\<close>

section \<open>One policy\<close>

definition spec_eq :: "policy_spec \<Rightarrow> policy_spec \<Rightarrow> bool" where
  "spec_eq a b =
     (m_eq (po_pods a) (po_pods b) \<and> po_types a = po_types b \<and>
      list_all2 traffic_eq (po_ingress a) (po_ingress b) \<and> list_all2 traffic_eq (po_egress a) (po_egress b))"

definition policy_eq :: "network_policy \<Rightarrow> network_policy \<Rightarrow> bool" where
  "policy_eq existing desired =
     (spec_eq (ch_spec existing) (ch_spec desired) \<and>
      m_eq (om_labels (ch_meta existing)) (om_labels (ch_meta desired)) \<and>
      m_eq (om_annotations (ch_meta existing)) (om_annotations (ch_meta desired)) \<and>
      om_owners (ch_meta existing) = om_owners (ch_meta desired))"

definition updatedPolicy :: "network_policy \<Rightarrow> network_policy \<Rightarrow> network_policy" where
  "updatedPolicy existing desired =
     \<lparr>ch_meta = (ch_meta existing)\<lparr>om_labels := om_labels (ch_meta desired), om_annotations := om_annotations (ch_meta desired),
        om_owners := om_owners (ch_meta desired)\<rparr>, ch_spec = ch_spec desired\<rparr>"

definition applyPolicy ::
    "(owner_ref list \<Rightarrow> bool) \<Rightarrow> network_policy \<Rightarrow> policy_spec child_api \<Rightarrow> policy_spec child_result" where
  "applyPolicy mine desired api =
     (case ca_get api (child_key desired) of
        Inl e \<Rightarrow> if e = NotFound then ([CreateChild desired], ca_create api desired) else ([], Some e)
      | Inr existing \<Rightarrow>
          if \<not> mine (om_owners (ch_meta existing)) then ([], Some (ApiFailure ''refusing to overwrite NetworkPolicy''))
          else if om_deleting (ch_meta existing) then ([], Some (ApiFailure ''NetworkPolicy is still deleting''))
          else if policy_eq existing desired then ([], None)
          else ([UpdateChild (updatedPolicy existing desired)], ca_update api 0 (updatedPolicy existing desired)))"

definition removePolicy ::
    "(owner_ref list \<Rightarrow> bool) \<Rightarrow> namespaced_name \<Rightarrow> policy_spec child_api \<Rightarrow> policy_spec child_result" where
  "removePolicy mine key api =
     (case ca_get api key of
        Inl e \<Rightarrow> ([], if e = NotFound then None else Some e)
      | Inr policy \<Rightarrow>
          if \<not> mine (om_owners (ch_meta policy)) then ([], None)
          else ([DeleteChild (child_key policy)], case ca_delete api (child_key policy) of Some NotFound \<Rightarrow> None | r \<Rightarrow> r))"

section \<open>Policies of an InferenceService\<close>

definition isOwnedByInferenceService :: "net_env \<Rightarrow> net_isvc \<Rightarrow> owner_ref list \<Rightarrow> bool" where
  "isOwnedByInferenceService env isvc owners = isOwnedByInferenceServiceOwnerReferences (kc_isvc_api env) owners isvc"

definition hasInferenceServiceOwner :: "net_env \<Rightarrow> owner_ref list \<Rightarrow> bool" where
  "hasInferenceServiceOwner env owners =
     list_ex (\<lambda>ref. isInferenceServiceOwnerReference (kc_isvc_api env) ref \<and> or_name ref \<noteq> []) owners"

definition policyKey :: "net_env \<Rightarrow> net_isvc \<Rightarrow> string \<Rightarrow> namespaced_name" where
  "policyKey env isvc component = (om_namespace (si_meta isvc), rawNetworkPolicyName env isvc component)"

definition reconcileNetworkPolicy :: "net_env \<Rightarrow> net_isvc \<Rightarrow> network_policy \<Rightarrow> policy_spec child_api \<Rightarrow> policy_spec child_result" where
  "reconcileNetworkPolicy env isvc = applyPolicy (isOwnedByInferenceService env isvc)"

definition deleteOwnedNetworkPolicy :: "net_env \<Rightarrow> net_isvc \<Rightarrow> string \<Rightarrow> policy_spec child_api \<Rightarrow> policy_spec child_result" where
  "deleteOwnedNetworkPolicy env isvc component = removePolicy (isOwnedByInferenceService env isvc) (policyKey env isvc component)"

text \<open>The steps of a reconcile go on after an error; the errors are collected.\<close>

definition then_policy ::
    "policy_spec child_write list \<times> api_error list \<Rightarrow> policy_spec child_result \<Rightarrow> policy_spec child_write list \<times> api_error list" where
  "then_policy r s = (fst r @ fst s, snd r @ (case snd s of None \<Rightarrow> [] | Some e \<Rightarrow> [e]))"

definition componentStep ::
    "net_env \<Rightarrow> net_isvc \<Rightarrow> component_services \<Rightarrow> policy_traffic list \<times> policy_traffic list \<Rightarrow> string \<Rightarrow>
     policy_spec child_api \<Rightarrow> policy_spec child_result" where
  "componentStep env isvc services graphRules component api =
     (case desiredNetworkPolicy env isvc component services (metricsPorts env isvc) (ni_worker isvc)
             (if component = predictorNetworkPolicyComponent then fst graphRules else snd graphRules) of
        Inl e \<Rightarrow> ([], Some e)
      | Inr desired \<Rightarrow> reconcileNetworkPolicy env isvc desired api)"

definition ReconcilePolicies :: "net_env \<Rightarrow> net_isvc \<Rightarrow> policy_spec child_api \<Rightarrow> policy_spec child_write list \<times> api_error list" where
  "ReconcilePolicies env isvc api =
     (case listComponentServices env isvc of
        Inl e \<Rightarrow> ([], [e])
      | Inr services \<Rightarrow>
          (case graphIngressRules env isvc services of
             Inl e \<Rightarrow> ([], [e])
           | Inr graphRules \<Rightarrow>
               (let step = componentStep env isvc services graphRules;
                    hasTransformer = (si_transformer isvc \<noteq> None \<or> servicesOf services transformerNetworkPolicyComponent \<noteq> []);
                    first = then_policy ([], []) (step predictorNetworkPolicyComponent api)
                in if hasTransformer then then_policy first (step transformerNetworkPolicyComponent api)
                   else then_policy first (deleteOwnedNetworkPolicy env isvc transformerNetworkPolicyComponent api))))"

definition DeletePolicies :: "net_env \<Rightarrow> net_isvc \<Rightarrow> policy_spec child_api \<Rightarrow> policy_spec child_write list \<times> api_error list" where
  "DeletePolicies env isvc api =
     then_policy (then_policy ([], []) (deleteOwnedNetworkPolicy env isvc predictorNetworkPolicyComponent api))
       (deleteOwnedNetworkPolicy env isvc transformerNetworkPolicyComponent api)"

definition orphaned :: "net_env \<Rightarrow> network_policy \<Rightarrow> bool" where
  "orphaned env policy =
     (m_str (om_labels (ch_meta policy)) ''app.kubernetes.io/component'' = rawNetworkPolicyManagedComponent \<and>
      hasInferenceServiceOwner env (om_owners (ch_meta policy)))"

text \<open>\<open>managed\<close> answers the List of the policies of a namespace with the managed-by label of the controller.\<close>

fun cleanupLoop :: "net_env \<Rightarrow> policy_spec child_api \<Rightarrow> network_policy list \<Rightarrow> policy_spec child_write list \<times> api_error list" where
  "cleanupLoop env api [] = ([], [])"
| "cleanupLoop env api (policy # policies) =
     (if \<not> orphaned env policy then cleanupLoop env api policies
      else (case cleanupLoop env api policies of
              (ws, es) \<Rightarrow>
                (DeleteChild (child_key policy) # ws,
                 (case ca_delete api (child_key policy) of None \<Rightarrow> es | Some e \<Rightarrow> if e = NotFound then es else e # es))))"

definition CleanupPolicies ::
    "net_env \<Rightarrow> (string \<Rightarrow> api_error + network_policy list) \<Rightarrow> string \<Rightarrow> policy_spec child_api \<Rightarrow>
     policy_spec child_write list \<times> api_error list" where
  "CleanupPolicies env managed namespace api =
     (case managed namespace of Inl e \<Rightarrow> ([], [e]) | Inr policies \<Rightarrow> cleanupLoop env api policies)"

section \<open>The policy of an InferenceGraph\<close>

definition inferenceGraphNetworkPolicyName :: "net_env \<Rightarrow> inference_graph \<Rightarrow> string" where
  "inferenceGraphNetworkPolicyName env graph = nv_child_name env (om_name (ig_meta graph)) ''-inferencegraph-network-policy''"

definition isOwnedByInferenceGraph :: "net_env \<Rightarrow> inference_graph \<Rightarrow> owner_ref list \<Rightarrow> bool" where
  "isOwnedByInferenceGraph env graph owners =
     list_ex (\<lambda>ref. or_api ref = kc_graph_api env \<and> or_kind ref = ''InferenceGraph'' \<and> or_name ref = om_name (ig_meta graph) \<and>
       or_controller ref = Some True \<and> or_uid ref = om_uid (ig_meta graph)) owners"

definition isClusterLocalInferenceGraph :: "net_env \<Rightarrow> inference_graph \<Rightarrow> bool" where
  "isClusterLocalInferenceGraph env graph =
     (IsRawInferenceGraph env graph \<and> m_str (om_labels (ig_meta graph)) (kc_visibility env) = kc_cluster_local env)"

definition networkPolicyPortTCP :: "int \<Rightarrow> policy_port" where
  "networkPolicyPortTCP port = \<lparr>pp_protocol = Some ''TCP'', pp_port = Some (PortNumber port), pp_end = None\<rparr>"

definition desiredGraphPolicy :: "net_env \<Rightarrow> inference_graph \<Rightarrow> api_error + network_policy" where
  "desiredGraphPolicy env graph =
     (let meta = empty_meta\<lparr>om_name := inferenceGraphNetworkPolicyName env graph, om_namespace := om_namespace (ig_meta graph),
            om_labels := [(''app.kubernetes.io/component'', ''kserve-inferencegraph-network-policy''), (''app.kubernetes.io/part-of'', ''kserve''),
              (''app.kubernetes.io/managed-by'', ''odh-model-controller''), (kc_graph_label env, om_name (ig_meta graph))]\<rparr>;
          peer = (if isClusterLocalInferenceGraph env graph then everyPod else routerPeer)
      in case nv_own env (kc_graph_api env) ''InferenceGraph'' (ig_meta graph) meta of
           Inl e \<Rightarrow> Inl e
         | Inr meta \<Rightarrow>
             Inr \<lparr>ch_meta = meta,
               ch_spec = \<lparr>po_pods = [(kc_graph_label env, om_name (ig_meta graph))], po_types = [''Ingress'', ''Egress''],
                 po_ingress = [\<lparr>pt_peers = [peer], pt_ports = [networkPolicyPortTCP (kc_router_port env)]\<rparr>],
                 po_egress = [\<lparr>pt_peers = [], pt_ports = []\<rparr>]\<rparr>\<rparr>)"

definition reconcileGraphNetworkPolicy ::
    "net_env \<Rightarrow> inference_graph \<Rightarrow> network_policy \<Rightarrow> policy_spec child_api \<Rightarrow> policy_spec child_result" where
  "reconcileGraphNetworkPolicy env graph = applyPolicy (isOwnedByInferenceGraph env graph)"

definition DeleteGraphPolicy :: "net_env \<Rightarrow> inference_graph \<Rightarrow> policy_spec child_api \<Rightarrow> policy_spec child_result" where
  "DeleteGraphPolicy env graph =
     removePolicy (isOwnedByInferenceGraph env graph) (om_namespace (ig_meta graph), inferenceGraphNetworkPolicyName env graph)"

definition ReconcileGraphPolicy :: "net_env \<Rightarrow> inference_graph \<Rightarrow> policy_spec child_api \<Rightarrow> policy_spec child_result" where
  "ReconcileGraphPolicy env graph api =
     (case desiredGraphPolicy env graph of
        Inl e \<Rightarrow> ([], Some e)
      | Inr desired \<Rightarrow> reconcileGraphNetworkPolicy env graph desired api)"

text \<open>\<open>get\<close> answers the Get of the graph.\<close>

definition ReconcileGraph ::
    "net_env \<Rightarrow> (namespaced_name \<Rightarrow> api_error + inference_graph) \<Rightarrow> namespaced_name \<Rightarrow> policy_spec child_api \<Rightarrow> policy_spec child_result" where
  "ReconcileGraph env get req api =
     (case get req of
        Inl e \<Rightarrow> ([], if e = NotFound then None else Some e)
      | Inr ig \<Rightarrow>
          if om_deleting (ig_meta ig) \<or> \<not> IsRawInferenceGraph env ig then DeleteGraphPolicy env ig api
          else ReconcileGraphPolicy env ig api)"

section \<open>Events of graphs\<close>

text \<open>\<open>metav1.GetControllerOf\<close>: the first owner reference that is a controller.\<close>

definition controllerOf :: "owner_ref list \<Rightarrow> owner_ref option" where
  "controllerOf owners = find (\<lambda>r. or_controller r = Some True) owners"

definition urlTargets :: "net_env \<Rightarrow> string \<Rightarrow> string list \<Rightarrow> net_service list \<Rightarrow> string list" where
  "urlTargets env namespace urls services =
     concat (map (\<lambda>svc. case controllerOf (ns_owners svc) of
         None \<Rightarrow> []
       | Some owner \<Rightarrow>
           if or_api owner \<noteq> kc_isvc_api env \<or> or_kind owner \<noteq> ''InferenceService'' then []
           else if list_ex (\<lambda>u. GraphServiceURLPorts env u namespace [svc] \<noteq> []) urls then [or_name owner] else []) services)"

definition inferenceGraphInferenceServiceRequests :: "net_env \<Rightarrow> inference_graph \<Rightarrow> namespaced_name list" where
  "inferenceGraphInferenceServiceRequests env graph =
     (let steps = concat (map snd (ig_nodes graph)); namespace = om_namespace (ig_meta graph);
          names = map gs_service (filter (\<lambda>s. gs_service s \<noteq> []) steps);
          urls = map gs_url (filter (\<lambda>s. gs_service s = [] \<and> gs_url s \<noteq> []) steps);
          found = (if urls = [] then []
            else case nv_services env namespace of Inl _ \<Rightarrow> [] | Inr services \<Rightarrow> urlTargets env namespace urls services)
      in map (Pair namespace) (sort (remdups (names @ found))))"

section \<open>Contracts\<close>

lemma applyPolicy_guard:
  "w \<in> set (fst (applyPolicy mine desired api)) \<Longrightarrow>
   (case ca_get api (child_key desired) of Inl e \<Rightarrow> e = NotFound | Inr c \<Rightarrow> mine (om_owners (ch_meta c)))"
  by (auto simp: applyPolicy_def split: sum.splits if_splits)

lemma removePolicy_guard:
  "w \<in> set (fst (removePolicy mine key api)) \<Longrightarrow>
   (case ca_get api key of Inl e \<Rightarrow> e = NotFound | Inr c \<Rightarrow> mine (om_owners (ch_meta c)))"
  by (auto simp: removePolicy_def split: sum.splits if_splits)

interpretation isvc_policy: owner_guarded "reconcileNetworkPolicy env isvc desired" "child_key desired"
    "\<lambda>c. isOwnedByInferenceService env isvc (om_owners (ch_meta c))" for env isvc desired
  by unfold_locales (simp add: reconcileNetworkPolicy_def applyPolicy_guard)

interpretation isvc_removal: owner_guarded "deleteOwnedNetworkPolicy env isvc component" "policyKey env isvc component"
    "\<lambda>c. isOwnedByInferenceService env isvc (om_owners (ch_meta c))" for env isvc component
  by unfold_locales (simp add: deleteOwnedNetworkPolicy_def removePolicy_guard)

interpretation graph_removal: owner_guarded "DeleteGraphPolicy env graph"
    "(om_namespace (ig_meta graph), inferenceGraphNetworkPolicyName env graph)"
    "\<lambda>c. isOwnedByInferenceGraph env graph (om_owners (ch_meta c))" for env graph
  by unfold_locales (simp add: DeleteGraphPolicy_def removePolicy_guard)

lemma traffic_eq_refl [simp]: "traffic_eq a a"
  by (simp add: traffic_eq_def peer_eq_def selector_eq_def list.rel_refl split: option.split)

lemma policy_eq_refl [simp]: "spec_eq a a" "policy_eq (updatedPolicy c d) d" "policy_eq d d"
  by (simp_all add: spec_eq_def policy_eq_def updatedPolicy_def list.rel_refl)

lemma updatedPolicy_sel [simp]:
  "child_key (updatedPolicy c d) = child_key c" "om_owners (ch_meta (updatedPolicy c d)) = om_owners (ch_meta d)"
  "om_deleting (ch_meta (updatedPolicy c d)) = om_deleting (ch_meta c)" "ch_spec (updatedPolicy c d) = ch_spec d"
  by (simp_all add: updatedPolicy_def child_key_def)

text \<open>A second run settles, even when other objects change in between.\<close>

lemma applyPolicy_after:
  assumes "wf_children st" "mine (om_owners (ch_meta desired))" "\<not> om_deleting (ch_meta desired)"
    and "applyPolicy mine desired (child_store_api st) = (ws, e)"
  shows "w \<in> set ws \<Longrightarrow> write_key w = child_key desired"
    and "map_of st' (child_key desired) = map_of (fold apply_child_write ws st) (child_key desired) \<Longrightarrow>
      applyPolicy mine desired (child_store_api st') = ([], e)"
    and "e = None \<Longrightarrow> \<exists>c. map_of (fold apply_child_write ws st) (child_key desired) = Some c \<and> policy_eq c desired \<and> child_key c = child_key desired"
  using assms
  by (auto simp: applyPolicy_def wf_childrenD split: option.splits if_splits; cases "map_of st (child_key desired)"; auto simp: wf_childrenD split: if_splits)+

lemma removePolicy_after:
  assumes "wf_children st" and "removePolicy mine key (child_store_api st) = (ws, e)"
  shows "w \<in> set ws \<Longrightarrow> write_key w = key"
    and "map_of st' key = map_of (fold apply_child_write ws st) key \<Longrightarrow> removePolicy mine key (child_store_api st') = ([], e)"
    and "map_of (fold apply_child_write ws st) key = Some c \<Longrightarrow> \<not> mine (om_owners (ch_meta c))"
  using assms
  by (cases "map_of st key"; force simp: removePolicy_def wf_childrenD split: if_splits)+

lemma ReconcileGraph_guard:
  assumes "net_laws env" "w \<in> set (fst (ReconcileGraphPolicy env graph api))"
  shows "case ca_get api (om_namespace (ig_meta graph), inferenceGraphNetworkPolicyName env graph) of
      Inl e \<Rightarrow> e = NotFound | Inr c \<Rightarrow> isOwnedByInferenceGraph env graph (om_owners (ch_meta c))"
proof -
  from assms(2) obtain d where d: "desiredGraphPolicy env graph = Inr d" and w: "w \<in> set (fst (reconcileGraphNetworkPolicy env graph d api))"
    by (auto simp: ReconcileGraphPolicy_def split: sum.splits)
  from d obtain meta where own: "nv_own env (kc_graph_api env) ''InferenceGraph'' (ig_meta graph)
      (empty_meta\<lparr>om_name := inferenceGraphNetworkPolicyName env graph, om_namespace := om_namespace (ig_meta graph),
            om_labels := [(''app.kubernetes.io/component'', ''kserve-inferencegraph-network-policy''), (''app.kubernetes.io/part-of'', ''kserve''),
              (''app.kubernetes.io/managed-by'', ''odh-model-controller''), (kc_graph_label env, om_name (ig_meta graph))]\<rparr>) = Inr meta"
    and m: "ch_meta d = meta" by (auto simp: desiredGraphPolicy_def Let_def split: sum.splits)
  have "child_key d = (om_namespace (ig_meta graph), inferenceGraphNetworkPolicyName env graph)"
    by (rule net_lawsD [OF assms(1) own]) (simp add: child_key_def m)
  with w show ?thesis using applyPolicy_guard [of w "isOwnedByInferenceGraph env graph" d api] by (simp add: reconcileGraphNetworkPolicy_def)
qed

lemma desired_facts:
  assumes "net_laws env" "desiredNetworkPolicy env isvc component services metrics multi rules = Inr d"
  shows "child_key d = policyKey env isvc component \<and> isOwnedByInferenceService env isvc (om_owners (ch_meta d)) \<and>
    \<not> om_deleting (ch_meta d)"
proof -
  from assms(2) have "nv_own env (kc_isvc_api env) ''InferenceService'' (si_meta isvc) (policyMeta env isvc component) = Inr (ch_meta d)"
    by (auto simp: desiredNetworkPolicy_def split: sum.splits)
  then obtain os where m: "ch_meta d = (policyMeta env isvc component)\<lparr>om_owners := os\<rparr>"
    and os: "\<lparr>or_api = kc_isvc_api env, or_kind = ''InferenceService'', or_name = om_name (si_meta isvc), or_uid = om_uid (si_meta isvc),
       or_controller = Some True\<rparr> \<in> set os"
    using net_lawsD [OF assms(1)] by metis
  have "isOwnedByInferenceService env isvc os"
    using os by (force simp: isOwnedByInferenceService_def isOwnedByInferenceServiceOwnerReferences_def
        isInferenceServiceOwnerReference_def list_ex_iff)
  then show ?thesis by (simp add: m policyMeta_def child_key_def policyKey_def empty_meta_def)
qed

text \<open>A step of the reconcile: its desired policy, if there is one, is applied.\<close>

definition stepDesired ::
    "net_env \<Rightarrow> net_isvc \<Rightarrow> component_services \<Rightarrow> policy_traffic list \<times> policy_traffic list \<Rightarrow> string \<Rightarrow> api_error + network_policy" where
  "stepDesired env isvc services rules component =
     desiredNetworkPolicy env isvc component services (metricsPorts env isvc) (ni_worker isvc)
       (if component = predictorNetworkPolicyComponent then fst rules else snd rules)"

lemma componentStep_after:
  assumes laws: "net_laws env" and wf: "wf_children st"
    and step: "componentStep env isvc services rules component (child_store_api st) = (ws, e)"
  shows "w \<in> set ws \<Longrightarrow> write_key w = policyKey env isvc component"
    and "map_of st' (policyKey env isvc component) = map_of (fold apply_child_write ws st) (policyKey env isvc component) \<Longrightarrow>
      componentStep env isvc services rules component (child_store_api st') = ([], e)"
    and "e = None \<Longrightarrow> \<exists>d c. stepDesired env isvc services rules component = Inr d \<and>
      map_of (fold apply_child_write ws st) (policyKey env isvc component) = Some c \<and> policy_eq c d \<and> child_key c = policyKey env isvc component"
proof -
  consider e' where "stepDesired env isvc services rules component = Inl e'" "ws = []" "e = Some e'"
    | d where "stepDesired env isvc services rules component = Inr d" "applyPolicy (isOwnedByInferenceService env isvc) d (child_store_api st) = (ws, e)"
    using step by (auto simp: componentStep_def stepDesired_def reconcileNetworkPolicy_def split: sum.splits)
  then have "(w \<in> set ws \<longrightarrow> write_key w = policyKey env isvc component) \<and>
    (map_of st' (policyKey env isvc component) = map_of (fold apply_child_write ws st) (policyKey env isvc component) \<longrightarrow>
      componentStep env isvc services rules component (child_store_api st') = ([], e)) \<and>
    (e = None \<longrightarrow> (\<exists>d c. stepDesired env isvc services rules component = Inr d \<and>
      map_of (fold apply_child_write ws st) (policyKey env isvc component) = Some c \<and> policy_eq c d \<and> child_key c = policyKey env isvc component))"
  proof cases
    case 1
    then show ?thesis by (simp add: componentStep_def stepDesired_def)
  next
    case (2 d)
    note d = desired_facts [OF laws 2(1) [unfolded stepDesired_def]]
    note after = applyPolicy_after [OF wf conjunct1 [OF conjunct2 [OF d]] conjunct2 [OF conjunct2 [OF d]] 2(2), unfolded conjunct1 [OF d]]
    from after(1,2,3) 2(1) show ?thesis by (simp add: componentStep_def stepDesired_def reconcileNetworkPolicy_def)
  qed
  then show "w \<in> set ws \<Longrightarrow> write_key w = policyKey env isvc component"
    and "map_of st' (policyKey env isvc component) = map_of (fold apply_child_write ws st) (policyKey env isvc component) \<Longrightarrow>
      componentStep env isvc services rules component (child_store_api st') = ([], e)"
    and "e = None \<Longrightarrow> \<exists>d c. stepDesired env isvc services rules component = Inr d \<and>
      map_of (fold apply_child_write ws st) (policyKey env isvc component) = Some c \<and> policy_eq c d \<and> child_key c = policyKey env isvc component"
    by blast+
qed

lemma deleteOwned_after:
  assumes "wf_children st" "deleteOwnedNetworkPolicy env isvc component (child_store_api st) = (ws, e)"
  shows "w \<in> set ws \<Longrightarrow> write_key w = policyKey env isvc component"
    and "map_of st' (policyKey env isvc component) = map_of (fold apply_child_write ws st) (policyKey env isvc component) \<Longrightarrow>
      deleteOwnedNetworkPolicy env isvc component (child_store_api st') = ([], e)"
    and "map_of (fold apply_child_write ws st) (policyKey env isvc component) = Some c \<Longrightarrow>
      \<not> isOwnedByInferenceService env isvc (om_owners (ch_meta c))"
  using removePolicy_after [OF assms(1), of "isOwnedByInferenceService env isvc" "policyKey env isvc component" ws e] assms(2)
  by (simp_all add: deleteOwnedNetworkPolicy_def)

text \<open>Two steps with different keys, both computed from the same store.\<close>

lemma two_steps:
  assumes "\<forall>w \<in> set ws1. write_key w = k1" "\<forall>w \<in> set ws2. write_key w = k2" "k1 \<noteq> k2"
  shows "map_of (fold apply_child_write (ws1 @ ws2) st) k1 = map_of (fold apply_child_write ws1 st) k1"
    and "map_of (fold apply_child_write (ws1 @ ws2) st) k2 = map_of (fold apply_child_write ws2 st) k2"
proof -
  show "map_of (fold apply_child_write (ws1 @ ws2) st) k1 = map_of (fold apply_child_write ws1 st) k1"
    using assms by (simp add: fold_writes_other)
  have "map_of (fold apply_child_write ws1 st) k2 = map_of st k2" using assms by (intro fold_writes_other) auto
  then show "map_of (fold apply_child_write (ws1 @ ws2) st) k2 = map_of (fold apply_child_write ws2 st) k2"
    by (simp add: fold_writes_cong [of "fold apply_child_write ws1 st" k2 st ws2])
qed

subsection \<open>Equal policies admit the same\<close>

definition wf_peer :: "policy_peer \<Rightarrow> bool" where
  "wf_peer p = ((\<forall>m. pe_namespaces p = Some m \<longrightarrow> wf_map m) \<and> (\<forall>m. pe_pods p = Some m \<longrightarrow> wf_map m))"

definition wf_policy :: "network_policy \<Rightarrow> bool" where
  "wf_policy c = (\<forall>r \<in> set (po_ingress (ch_spec c)). \<forall>p \<in> set (pt_peers r). wf_peer p)"

lemma labels_match_eq: "wf_map a \<Longrightarrow> wf_map b \<Longrightarrow> m_eq a b \<Longrightarrow> labels_match a l = labels_match b l"
  by (simp add: labels_match_def list_all_iff m_eq_iff wf_map_def map_of_inject_set)

lemma peer_eq_admits: "wf_peer a \<Longrightarrow> wf_peer b \<Longrightarrow> peer_eq a b \<Longrightarrow> peer_admits ns a src = peer_admits ns b src"
  using labels_match_eq [of "the (pe_namespaces a)" "the (pe_namespaces b)"] labels_match_eq [of "the (pe_pods a)" "the (pe_pods b)"]
  by (cases "pe_namespaces a"; cases "pe_namespaces b"; cases "pe_pods a"; cases "pe_pods b")
    (simp_all add: wf_peer_def peer_eq_def peer_admits_def selector_eq_def)

lemma list_ex_all2: "list_all2 R xs ys \<Longrightarrow> (\<And>x y. x \<in> set xs \<Longrightarrow> y \<in> set ys \<Longrightarrow> R x y \<Longrightarrow> P x = P y) \<Longrightarrow> list_ex P xs = list_ex P ys"
proof (induction xs ys rule: list_all2_induct)
  case (Cons x xs y ys)
  have "P x = P y" by (rule Cons.prems) (use Cons.hyps in simp_all)
  moreover have "list_ex P xs = list_ex P ys" by (rule Cons.IH) (use Cons.prems in auto)
  ultimately show ?case by simp
qed simp

lemma policy_eq_admits:
  assumes eq: "policy_eq c d" and wf: "wf_policy c" "wf_policy d" and key: "child_key c = child_key d"
  shows "admits named c src protocol n = admits named d src protocol n"
proof -
  let ?ns = "om_namespace (ch_meta d)"
  have ns: "om_namespace (ch_meta c) = ?ns" using key by (simp add: child_key_def)
  have rules: "list_all2 traffic_eq (po_ingress (ch_spec c)) (po_ingress (ch_spec d))"
    using eq by (simp add: policy_eq_def spec_eq_def)
  have "rule_admits named ?ns r src protocol n = rule_admits named ?ns q src protocol n"
    if "r \<in> set (po_ingress (ch_spec c))" "q \<in> set (po_ingress (ch_spec d))" "traffic_eq r q" for r q
  proof -
    have peers: "list_all2 peer_eq (pt_peers r) (pt_peers q)" "pt_ports r = pt_ports q" using that(3) by (simp_all add: traffic_eq_def)
    have "list_ex (\<lambda>p. peer_admits ?ns p src) (pt_peers r) = list_ex (\<lambda>p. peer_admits ?ns p src) (pt_peers q)"
      using wf that by (intro list_ex_all2 [OF peers(1)] peer_eq_admits) (auto simp: wf_policy_def)
    moreover have "pt_peers r = [] \<longleftrightarrow> pt_peers q = []" using peers(1) by auto
    ultimately show ?thesis by (simp add: rule_admits_def peers(2))
  qed
  then show ?thesis unfolding admits_def ns by (intro list_ex_all2 [OF rules])
qed

text \<open>The component label and the label with the name of the service are different keys.\<close>

lemma desired_wf:
  assumes "kc_component env \<noteq> KserveGroupAnnotation" "stepDesired env isvc services rules component = Inr d"
    and "graphIngressRules env isvc services = Inr rules" "component \<in> {predictorNetworkPolicyComponent, transformerNetworkPolicyComponent}"
  shows "wf_policy d"
proof -
  have wf: "wf_peer routerPeer" "wf_peer everyPod" "wf_peer (componentPeer env isvc x)" "wf_peer (graphPeer env g)" "wf_peer (namespaceSelectorPeer m)" for x g m
    using assms(1) by (simp_all add: wf_peer_def routerPeer_def everyPod_def componentPeer_def graphPeer_def namespaceSelectorPeer_def wf_map_def)
  obtain p t where rules: "rules = (p, t)" by (cases rules)
  have graph: "\<forall>r \<in> set p \<union> set t. \<forall>x \<in> set (pt_peers r). wf_peer x"
    using graphIngressRules_set [OF assms(3) [unfolded rules]] by (auto simp: call_rules_def wf)
  let ?ok = "\<lambda>rs. \<forall>r \<in> set rs. \<forall>x \<in> set (pt_peers r). wf_peer x"
  from assms(2) obtain route local callers where parts: "routeRules env isvc component services = Inr route"
      "clusterLocalRules env isvc component services = Inr local" "callerRules env isvc component services = Inr callers"
    and ing: "po_ingress (ch_spec d) = route @ local @ callers @ (if component = predictorNetworkPolicyComponent then p else t) @
      rule_if (monitoringPeers env) (metricsPorts env isvc) @
      (if component = predictorNetworkPolicyComponent \<and> ni_worker isvc then [multiNodePredictorPeer env isvc] else [])"
    by (auto simp: stepDesired_def rules desiredNetworkPolicy_def split: sum.splits)
  have "?ok route" using parts(1) by (auto simp: routeRules_def rule_if_def wf split: if_splits sum.splits)
  moreover have "?ok local" using parts(2) by (auto simp: clusterLocalRules_def rule_if_def wf split: if_splits sum.splits)
  moreover have "?ok callers" using parts(3) by (auto simp: callerRules_def rule_if_def wf split: if_splits sum.splits)
  moreover have "?ok (rule_if (monitoringPeers env) (metricsPorts env isvc))" by (auto simp: rule_if_def monitoringPeers_def wf)
  moreover have "\<forall>x \<in> set (pt_peers (multiNodePredictorPeer env isvc)). wf_peer x" by (simp add: multiNodePredictorPeer_def wf)
  ultimately show ?thesis unfolding wf_policy_def ing using graph by (simp add: ball_Un)
qed

section \<open>Properties\<close>

definition transformerStep ::
    "net_env \<Rightarrow> net_isvc \<Rightarrow> component_services \<Rightarrow> policy_traffic list \<times> policy_traffic list \<Rightarrow> policy_spec child_api \<Rightarrow> policy_spec child_result" where
  "transformerStep env isvc services rules =
     (if si_transformer isvc \<noteq> None \<or> cv_transformer services \<noteq> [] then componentStep env isvc services rules transformerNetworkPolicyComponent
      else deleteOwnedNetworkPolicy env isvc transformerNetworkPolicyComponent)"

lemma servicesOf_simps [simp]:
  "servicesOf services predictorNetworkPolicyComponent = cv_predictor services"
  "servicesOf services transformerNetworkPolicyComponent = cv_transformer services"
  by (simp_all add: servicesOf_def predictorNetworkPolicyComponent_def transformerNetworkPolicyComponent_def)

lemma ReconcilePolicies_steps:
  assumes "listComponentServices env isvc = Inr services" "graphIngressRules env isvc services = Inr rules"
  shows "ReconcilePolicies env isvc api =
    then_policy (then_policy ([], []) (componentStep env isvc services rules predictorNetworkPolicyComponent api)) (transformerStep env isvc services rules api)"
  using assms by (simp add: ReconcilePolicies_def transformerStep_def)

lemma componentStep_writes:
  assumes "net_laws env" "w \<in> set (fst (componentStep env isvc services rules component api))"
  shows "case w of
      CreateChild d \<Rightarrow> ca_get api (policyKey env isvc component) = Inl NotFound \<and> child_key d = policyKey env isvc component
    | UpdateChild d \<Rightarrow> \<exists>c. ca_get api (policyKey env isvc component) = Inr c \<and> isOwnedByInferenceService env isvc (om_owners (ch_meta c)) \<and>
        \<not> om_deleting (ch_meta c) \<and> child_key d = child_key c
    | DeleteChild k \<Rightarrow> False"
proof -
  from assms(2) obtain d where d: "stepDesired env isvc services rules component = Inr d"
    and w: "w \<in> set (fst (applyPolicy (isOwnedByInferenceService env isvc) d api))"
    by (auto simp: componentStep_def stepDesired_def reconcileNetworkPolicy_def split: sum.splits)
  from desired_facts [OF assms(1) d [unfolded stepDesired_def]] w show ?thesis
    by (auto simp: applyPolicy_def split: sum.splits if_splits)
qed

lemma deleteOwned_writes:
  assumes "w \<in> set (fst (deleteOwnedNetworkPolicy env isvc component api))"
  obtains c where "w = DeleteChild (child_key c)" "ca_get api (policyKey env isvc component) = Inr c"
    "isOwnedByInferenceService env isvc (om_owners (ch_meta c))"
  using assms by (auto simp: deleteOwnedNetworkPolicy_def removePolicy_def split: sum.splits if_splits)

text \<open>
  Property C22. Reconciling and deleting the policies of a service touches nothing of others, whatever the API server answers: a policy is
  created only under the two names of the service and only where none is, and changed or deleted only when its controller is this very
  service, by name and UID. A policy that is going away is not changed.
\<close>

theorem policies_respect_owners:
  assumes "net_laws env"
    and "w \<in> set (fst (ReconcilePolicies env isvc api)) \<union> set (fst (DeletePolicies env isvc api))"
  shows "\<exists>component \<in> {predictorNetworkPolicyComponent, transformerNetworkPolicyComponent}.
    case w of
      CreateChild d \<Rightarrow> ca_get api (policyKey env isvc component) = Inl NotFound \<and> child_key d = policyKey env isvc component
    | UpdateChild d \<Rightarrow> \<exists>c. ca_get api (policyKey env isvc component) = Inr c \<and> isOwnedByInferenceService env isvc (om_owners (ch_meta c)) \<and>
        \<not> om_deleting (ch_meta c) \<and> child_key d = child_key c
    | DeleteChild k \<Rightarrow> \<exists>c. ca_get api (policyKey env isvc component) = Inr c \<and> isOwnedByInferenceService env isvc (om_owners (ch_meta c)) \<and>
        k = child_key c"
proof -
  let ?C = "{predictorNetworkPolicyComponent, transformerNetworkPolicyComponent}"
  have "(\<exists>component services rules. component \<in> ?C \<and> w \<in> set (fst (componentStep env isvc services rules component api))) \<or>
      (\<exists>component. component \<in> ?C \<and> w \<in> set (fst (deleteOwnedNetworkPolicy env isvc component api)))"
    using assms(2) unfolding Un_iff
  proof (elim disjE)
    assume w: "w \<in> set (fst (ReconcilePolicies env isvc api))"
    then obtain services rules where ok: "listComponentServices env isvc = Inr services" "graphIngressRules env isvc services = Inr rules"
      by (auto simp: ReconcilePolicies_def split: sum.splits)
    have "w \<in> set (fst (componentStep env isvc services rules predictorNetworkPolicyComponent api)) \<or>
        w \<in> set (fst (transformerStep env isvc services rules api))"
      using w by (simp add: ReconcilePolicies_steps [OF ok] then_policy_def)
    moreover have "transformerStep env isvc services rules = componentStep env isvc services rules transformerNetworkPolicyComponent \<or>
        transformerStep env isvc services rules = deleteOwnedNetworkPolicy env isvc transformerNetworkPolicyComponent"
      by (simp add: transformerStep_def)
    ultimately show ?thesis by (metis insertCI)
  qed (auto simp: DeletePolicies_def then_policy_def)
  then consider component services rules where "component \<in> ?C" "w \<in> set (fst (componentStep env isvc services rules component api))"
    | component where "component \<in> ?C" "w \<in> set (fst (deleteOwnedNetworkPolicy env isvc component api))" by blast
  then show ?thesis
  proof cases
    case 1
    from componentStep_writes [OF assms(1) 1(2)] 1(1) show ?thesis by (cases w) auto
  next
    case 2
    from 2(2) show ?thesis by (rule deleteOwned_writes) (use 2(1) in auto)
  qed
qed

text \<open>A policy that does in the cluster what the reconciler wants for the component.\<close>

definition in_force ::
    "net_env \<Rightarrow> net_isvc \<Rightarrow> component_services \<Rightarrow> policy_traffic list \<times> policy_traffic list \<Rightarrow> policy_spec child_store \<Rightarrow> string \<Rightarrow> bool" where
  "in_force env isvc services rules st component =
     (\<exists>d c. stepDesired env isvc services rules component = Inr d \<and> map_of st (policyKey env isvc component) = Some c \<and>
        po_pods (ch_spec d) = [(KserveGroupAnnotation, om_name (si_meta isvc)), (kc_component env, component)] \<and>
        m_eq (po_pods (ch_spec c)) (po_pods (ch_spec d)) \<and>
        (wf_policy c \<longrightarrow> (\<forall>named src protocol n. admits named c src protocol n = admits named d src protocol n)))"

lemma in_forceI:
  assumes laws: "net_laws env" "kc_component env \<noteq> KserveGroupAnnotation" and d: "stepDesired env isvc services rules component = Inr d"
    and rules: "graphIngressRules env isvc services = Inr rules"
    and c: "map_of st (policyKey env isvc component) = Some c" "policy_eq c d" "child_key c = policyKey env isvc component"
    and component: "component \<in> {predictorNetworkPolicyComponent, transformerNetworkPolicyComponent}"
  shows "in_force env isvc services rules st component"
proof -
  have "wf_policy d" by (rule desired_wf [OF laws(2) d rules component])
  moreover have "child_key d = policyKey env isvc component" using desired_facts [OF laws(1) d [unfolded stepDesired_def]] by simp
  moreover have "po_pods (ch_spec d) = [(KserveGroupAnnotation, om_name (si_meta isvc)), (kc_component env, component)]"
    using d by (auto simp: stepDesired_def desiredNetworkPolicy_def split: sum.splits)
  moreover have "m_eq (po_pods (ch_spec c)) (po_pods (ch_spec d))" using c(2) by (simp add: policy_eq_def spec_eq_def)
  ultimately show ?thesis using d c policy_eq_admits [OF c(2)] unfolding in_force_def by auto
qed

definition transformer_settled ::
    "net_env \<Rightarrow> net_isvc \<Rightarrow> component_services \<Rightarrow> policy_traffic list \<times> policy_traffic list \<Rightarrow> policy_spec child_store \<Rightarrow> bool" where
  "transformer_settled env isvc services rules st =
     (if si_transformer isvc \<noteq> None \<or> cv_transformer services \<noteq> [] then in_force env isvc services rules st transformerNetworkPolicyComponent
      else \<forall>c. map_of st (policyKey env isvc transformerNetworkPolicyComponent) = Some c \<longrightarrow>
             \<not> isOwnedByInferenceService env isvc (om_owners (ch_meta c)))"

lemma componentStep_in_force:
  assumes "net_laws env" "kc_component env \<noteq> KserveGroupAnnotation" "wf_children st" "graphIngressRules env isvc services = Inr rules"
    and "componentStep env isvc services rules component (child_store_api st) = (ws, None)"
    and "component \<in> {predictorNetworkPolicyComponent, transformerNetworkPolicyComponent}"
    and "map_of st' (policyKey env isvc component) = map_of (fold apply_child_write ws st) (policyKey env isvc component)"
  shows "in_force env isvc services rules st' component"
  using componentStep_after(3) [OF assms(1,3,5) refl] assms(6) unfolding assms(7) [symmetric]
  by (auto intro: in_forceI [OF assms(1,2) _ assms(4)])

lemma transformerStep_after:
  assumes laws: "net_laws env" and wf: "wf_children st"
    and step: "transformerStep env isvc services rules (child_store_api st) = (ws, e)"
  shows "w \<in> set ws \<Longrightarrow> write_key w = policyKey env isvc transformerNetworkPolicyComponent"
    and "map_of st' (policyKey env isvc transformerNetworkPolicyComponent) =
        map_of (fold apply_child_write ws st) (policyKey env isvc transformerNetworkPolicyComponent) \<Longrightarrow>
      transformerStep env isvc services rules (child_store_api st') = ([], e)"
  using componentStep_after(1,2) [OF laws wf, of isvc services rules transformerNetworkPolicyComponent ws e]
    deleteOwned_after(1,2) [OF wf, of env isvc transformerNetworkPolicyComponent ws e] step
  by (auto simp: transformerStep_def split: if_splits)

lemma transformerStep_settled:
  assumes laws: "net_laws env" "kc_component env \<noteq> KserveGroupAnnotation" and wf: "wf_children st"
    and rules: "graphIngressRules env isvc services = Inr rules"
    and step: "transformerStep env isvc services rules (child_store_api st) = (ws, None)"
    and same: "map_of st' (policyKey env isvc transformerNetworkPolicyComponent) =
        map_of (fold apply_child_write ws st) (policyKey env isvc transformerNetworkPolicyComponent)"
  shows "transformer_settled env isvc services rules st'"
  using step componentStep_in_force [OF laws wf rules _ _ same] deleteOwned_after(3) [OF wf, of env isvc transformerNetworkPolicyComponent ws None] same
  by (auto simp: transformerStep_def transformer_settled_def split: if_splits)

lemma ReconcilePolicies_after:
  assumes laws: "net_laws env" "kc_component env \<noteq> KserveGroupAnnotation"
    and names: "rawNetworkPolicyName env isvc predictorNetworkPolicyComponent \<noteq> rawNetworkPolicyName env isvc transformerNetworkPolicyComponent"
    and wf: "wf_children st"
    and inputs: "listComponentServices env isvc = Inr services" "graphIngressRules env isvc services = Inr rules"
    and run: "ReconcilePolicies env isvc (child_store_api st) = (ws, es)" "st' = fold apply_child_write ws st"
  shows "ReconcilePolicies env isvc (child_store_api st') = ([], es) \<and>
    (es = [] \<longrightarrow> in_force env isvc services rules st' predictorNetworkPolicyComponent \<and> transformer_settled env isvc services rules st') \<and>
    (\<forall>k. k \<noteq> policyKey env isvc predictorNetworkPolicyComponent \<and> k \<noteq> policyKey env isvc transformerNetworkPolicyComponent \<longrightarrow>
       map_of st' k = map_of st k)"
proof -
  let ?p = "policyKey env isvc predictorNetworkPolicyComponent" and ?t = "policyKey env isvc transformerNetworkPolicyComponent"
  obtain ws1 e1 where one: "componentStep env isvc services rules predictorNetworkPolicyComponent (child_store_api st) = (ws1, e1)" by fastforce
  obtain ws2 e2 where two: "transformerStep env isvc services rules (child_store_api st) = (ws2, e2)" by fastforce
  have run': "ws = ws1 @ ws2" "es = (case e1 of None \<Rightarrow> [] | Some e \<Rightarrow> [e]) @ (case e2 of None \<Rightarrow> [] | Some e \<Rightarrow> [e])"
    using run(1) by (simp_all add: ReconcilePolicies_steps [OF inputs] one two then_policy_def)
  have keys: "\<forall>w \<in> set ws1. write_key w = ?p" "\<forall>w \<in> set ws2. write_key w = ?t" "?p \<noteq> ?t"
    using componentStep_after(1) [OF laws(1) wf one] transformerStep_after(1) [OF laws(1) wf two] names by (auto simp: policyKey_def)
  note at = two_steps [OF keys, of st, folded run'(1), folded run(2)]
  have "ReconcilePolicies env isvc (child_store_api st') = ([], es)"
    by (simp add: ReconcilePolicies_steps [OF inputs] componentStep_after(2) [OF laws(1) wf one at(1)]
        transformerStep_after(2) [OF laws(1) wf two at(2)] then_policy_def run'(2))
  moreover have "map_of st' k = map_of st k" if "k \<noteq> ?p" "k \<noteq> ?t" for k
    using that keys unfolding run(2) by (intro fold_writes_other) (auto simp: run'(1))
  moreover have "in_force env isvc services rules st' predictorNetworkPolicyComponent \<and> transformer_settled env isvc services rules st'" if "es = []"
  proof -
    have "e1 = None" "e2 = None" using that by (simp_all add: run'(2) split: option.splits)
    with one two show ?thesis
      using componentStep_in_force [OF laws wf inputs(2) _ _ at(1)] transformerStep_settled [OF laws wf inputs(2) _ at(2)] by simp
  qed
  ultimately show ?thesis by blast
qed

lemma demo_inputs:
  "listComponentServices (demo_net [demo_predictor] graphs) (demo_isvc labels annotations) = Inr demo_services"
  by (simp add: listComponentServices_def demo_net_def demo_services_def ownService_def isOwnedByInferenceServiceOwnerReferences_def
      isInferenceServiceOwnerReference_def demo_predictor_def demo_isvc_def m_str_def predictorNetworkPolicyComponent_def
      transformerNetworkPolicyComponent_def)

lemma demo_reconcile:
  "ReconcilePolicies (demo_net [demo_predictor] []) (demo_isvc exposed_label []) (child_store_api []) = ([CreateChild (demo_policy [])], [])"
proof -
  let ?env = "demo_net [demo_predictor] []" and ?i = "demo_isvc exposed_label []"
  have i: "si_transformer ?i = None" "ni_worker ?i = False" "cv_transformer demo_services = []" by (simp_all add: demo_isvc_def demo_services_def)
  show ?thesis
    using demo_policy_run(1) [of "[]"]
    by (simp add: ReconcilePolicies_steps [OF demo_inputs demo_policy_run(2)] componentStep_def then_policy_def transformerStep_def i
        predictorNetworkPolicyComponent_def reconcileNetworkPolicy_def applyPolicy_def deleteOwnedNetworkPolicy_def removePolicy_def)
qed

lemma demo_names:
  "rawNetworkPolicyName (demo_net s g) i predictorNetworkPolicyComponent \<noteq> rawNetworkPolicyName (demo_net s g) i transformerNetworkPolicyComponent"
  "kc_component (demo_net s g) \<noteq> KserveGroupAnnotation"
  by (simp_all add: rawNetworkPolicyName_def demo_net_def predictorNetworkPolicyComponent_def transformerNetworkPolicyComponent_def KserveGroupAnnotation_def)

theorem policies_respect_owners_witness:
  "child_key (demo_policy []) \<in> {policyKey (demo_net [demo_predictor] []) (demo_isvc exposed_label []) ''predictor'',
     policyKey (demo_net [demo_predictor] []) (demo_isvc exposed_label []) ''transformer''}"
proof -
  let ?env = "demo_net [demo_predictor] []" and ?i = "demo_isvc exposed_label []"
  have "CreateChild (demo_policy []) \<in> set (fst (ReconcilePolicies ?env ?i (child_store_api []))) \<union> set (fst (DeletePolicies ?env ?i (child_store_api [])))"
    by (simp add: demo_reconcile)
  from policies_respect_owners [OF demo_net_laws this] show ?thesis
    by (auto simp: predictorNetworkPolicyComponent_def transformerNetworkPolicyComponent_def)
qed

section \<open>Events of graphs\<close>

lemma urlPortLoop_single:
  "urlPortLoop env ns host port svcs \<noteq> [] \<Longrightarrow> \<exists>svc \<in> set svcs. urlPortLoop env ns host port [svc] \<noteq> []"
  by (induction svcs) (auto split: option.splits)

lemma GraphServiceURLPorts_single:
  "GraphServiceURLPorts env u ns svcs \<noteq> [] \<Longrightarrow> \<exists>svc \<in> set svcs. GraphServiceURLPorts env u ns [svc] \<noteq> []"
proof -
  assume "GraphServiceURLPorts env u ns svcs \<noteq> []"
  then obtain parsed port where p: "nv_url env u = Some parsed" "pu_host parsed \<noteq> []" "urlPort parsed = Some port"
    and ne: "urlPortLoop env ns (map lower_char (trim_suffix ''.'' (pu_host parsed))) port svcs \<noteq> []"
    by (auto simp: GraphServiceURLPorts_def split: option.splits if_splits)
  from urlPortLoop_single [OF ne] p show ?thesis unfolding GraphServiceURLPorts_def by simp
qed

text \<open>What the API server promises of owner references: at most one of an object is a controller.\<close>

definition one_controller :: "net_service list \<Rightarrow> bool" where
  "one_controller svcs =
     (\<forall>svc \<in> set svcs. \<forall>r \<in> set (ns_owners svc). or_controller r = Some True \<longrightarrow> controllerOf (ns_owners svc) = Some r)"

lemma servicesOf_owned:
  assumes "listComponentServices env isvc = Inr services" "svc \<in> set (servicesOf services component)"
  obtains items where "nv_labelled env (om_namespace (si_meta isvc)) (om_name (si_meta isvc)) = Inr items" "svc \<in> set items" "ownService env isvc svc"
  using assms by (auto simp: listComponentServices_def servicesOf_def split: sum.splits if_splits)

lemma owned_controller:
  assumes "ownService env isvc svc" "one_controller svcs" "svc \<in> set svcs"
  shows "\<exists>r. controllerOf (ns_owners svc) = Some r \<and> or_api r = kc_isvc_api env \<and> or_kind r = ''InferenceService'' \<and> or_name r = om_name (si_meta isvc)"
  using assms
  by (fastforce simp: ownService_def isOwnedByInferenceServiceOwnerReferences_def isInferenceServiceOwnerReference_def list_ex_iff one_controller_def)

text \<open>
  Property C24. No event of a graph is missed: when a step of a raw graph gives a rule to a component of a service, then the event of the
  graph asks for a reconcile of that service. So a change of the graph that adds or drops a call always reaches the policy, since
  updates are mapped with the old and with the new graph.
\<close>

theorem graph_event_complete:
  assumes step: "step \<in> set (concat (map snd (ig_nodes graph)))" "om_namespace (ig_meta graph) = om_namespace (si_meta isvc)"
    and services: "listComponentServices env isvc = Inr services"
    and rule: "graphStepPorts env isvc services step component = Inr ports" "ports \<noteq> []"
    and listed: "nv_services env (om_namespace (si_meta isvc)) = Inr allServices" "one_controller allServices"
      "\<forall>items. nv_labelled env (om_namespace (si_meta isvc)) (om_name (si_meta isvc)) = Inr items \<longrightarrow> set items \<subseteq> set allServices"
    and name: "om_name (si_meta isvc) \<noteq> []"
  shows "(om_namespace (si_meta isvc), om_name (si_meta isvc)) \<in> set (inferenceGraphInferenceServiceRequests env graph)"
proof (cases "gs_service step = []")
  case False
  with rule have "gs_service step = om_name (si_meta isvc)" by (auto simp: graphStepPorts_def split: if_splits)
  then have "om_name (si_meta isvc) \<in> set (map gs_service (filter (\<lambda>s. gs_service s \<noteq> []) (concat (map snd (ig_nodes graph)))))"
    unfolding set_map by (intro image_eqI [of _ _ step]) (use step(1) name in simp_all)
  then show ?thesis unfolding inferenceGraphInferenceServiceRequests_def Let_def step(2) by simp
next
  case True
  with rule name have url: "gs_url step \<noteq> []" "GraphServiceURLPorts env (gs_url step) (om_namespace (si_meta isvc)) (servicesOf services component) \<noteq> []"
    by (auto simp: graphStepPorts_def split: if_splits)
  from GraphServiceURLPorts_single [OF url(2)] obtain svc where
    svc: "svc \<in> set (servicesOf services component)" "GraphServiceURLPorts env (gs_url step) (om_namespace (si_meta isvc)) [svc] \<noteq> []" by blast
  obtain items where own: "nv_labelled env (om_namespace (si_meta isvc)) (om_name (si_meta isvc)) = Inr items" "svc \<in> set items" "ownService env isvc svc"
    by (rule servicesOf_owned [OF services svc(1)])
  have all: "svc \<in> set allServices" using own listed(3) by blast
  let ?urls = "map gs_url (filter (\<lambda>s. gs_service s = [] \<and> gs_url s \<noteq> []) (concat (map snd (ig_nodes graph))))"
  have "gs_url step \<in> set ?urls" using step(1) True url(1) by auto
  then have "list_ex (\<lambda>u. GraphServiceURLPorts env u (om_namespace (si_meta isvc)) [svc] \<noteq> []) ?urls" using svc(2) unfolding list_ex_iff by blast
  then have "om_name (si_meta isvc) \<in> set (urlTargets env (om_namespace (si_meta isvc)) ?urls allServices)"
    using owned_controller [OF own(3) listed(2) all] all by (auto simp: urlTargets_def intro!: bexI [of _ svc])
  moreover have "?urls \<noteq> []" using \<open>gs_url step \<in> set ?urls\<close> by (metis empty_iff empty_set)
  ultimately show ?thesis unfolding inferenceGraphInferenceServiceRequests_def Let_def step(2) listed(1) by simp
qed

definition demo_graph :: "graph_step list gomap \<Rightarrow> inference_graph" where
  "demo_graph nodes = \<lparr>ig_meta = empty_meta\<lparr>om_name := ''g'', om_namespace := ''ns''\<rparr>, ig_mode = [], ig_nodes = nodes\<rparr>"

definition call_step :: "string \<Rightarrow> graph_step" where
  "call_step u = \<lparr>gs_service = [], gs_url = u\<rparr>"

definition number_rule :: "int \<Rightarrow> policy_traffic" where
  "number_rule n = \<lparr>pt_peers = [graphPeer (demo_net [] []) ''g''],
     pt_ports = [\<lparr>pp_protocol = Some ''TCP'', pp_port = Some (PortNumber n), pp_end = None\<rparr>]\<rparr>"

lemma demo_url_ports:
  "GraphServiceURLPorts (demo_net s g) ''http://m-predictor'' ''ns'' [demo_predictor] =
     [\<lparr>pp_protocol = Some ''TCP'', pp_port = Some (PortNumber 8080), pp_end = None\<rparr>]"
  "GraphServiceURLPorts (demo_net s g) ''http://m-predictor:81'' ''ns'' [demo_predictor] =
     [\<lparr>pp_protocol = Some ''TCP'', pp_port = Some (PortNumber 9090), pp_end = None\<rparr>]"
proof -
  have n: "parse_int 64 ''81'' = Some 81" by code_simp
  have low: "map lower_char ''m-predictor'' = ''m-predictor''" by code_simp
  have trim: "trim_suffix ''.'' ''m-predictor'' = ''m-predictor''" by code_simp
  show "GraphServiceURLPorts (demo_net s g) ''http://m-predictor'' ''ns'' [demo_predictor] =
     [\<lparr>pp_protocol = Some ''TCP'', pp_port = Some (PortNumber 8080), pp_end = None\<rparr>]"
    "GraphServiceURLPorts (demo_net s g) ''http://m-predictor:81'' ''ns'' [demo_predictor] =
     [\<lparr>pp_protocol = Some ''TCP'', pp_port = Some (PortNumber 9090), pp_end = None\<rparr>]"
    using n low trim
    by (simp_all add: GraphServiceURLPorts_def demo_net_def demo_url_def urlPort_def urlServicePort_def demo_predictor_def m_str_def serviceHosts_def
        demo_port_def protocolOf_def endpointPort_def networkPolicyPorts_def targetOf_def port_set_def)
qed

theorem graph_event_complete_witness:
  "(''ns'', ''m'') \<in> set (inferenceGraphInferenceServiceRequests (demo_net [demo_predictor] []) (demo_graph [(''root'', [call_step ''http://m-predictor''])]))"
proof -
  let ?env = "demo_net [demo_predictor] []" and ?i = "demo_isvc [] []" and ?g = "demo_graph [(''root'', [call_step ''http://m-predictor''])]"
  have "graphStepPorts ?env ?i demo_services (call_step ''http://m-predictor'') ''predictor'' =
      Inr [\<lparr>pp_protocol = Some ''TCP'', pp_port = Some (PortNumber 8080), pp_end = None\<rparr>]"
    using demo_url_ports(1) by (simp add: graphStepPorts_def call_step_def demo_isvc_def servicesOf_def demo_services_def predictorNetworkPolicyComponent_def)
  from graph_event_complete [of "call_step ''http://m-predictor''" ?g ?i, OF _ _ demo_inputs this, of "[demo_predictor]"]
  show ?thesis by (simp add: demo_graph_def demo_isvc_def demo_net_def one_controller_def demo_predictor_def controllerOf_def)
qed

section \<open>The order of the nodes\<close>

definition two_nodes :: "graph_step list gomap" where
  "two_nodes = [(''a'', [call_step ''http://m-predictor'']), (''b'', [call_step ''http://m-predictor:81''])]"

lemma demo_graph_rules:
  "graphIngressRules (demo_net [demo_predictor] [demo_graph two_nodes]) (demo_isvc [] []) demo_services = Inr ([number_rule 8080, number_rule 9090], [])"
  "graphIngressRules (demo_net [demo_predictor] [demo_graph (rev two_nodes)]) (demo_isvc [] []) demo_services = Inr ([number_rule 9090, number_rule 8080], [])"
proof -
  have none: "GraphServiceURLPorts env u ns [] = []" for env u ns by (simp add: GraphServiceURLPorts_def split: option.splits)
  have peer: "graphPeer (demo_net s g) = graphPeer (demo_net [] [])" for s g by (simp add: fun_eq_iff graphPeer_def demo_net_def)
  have ports: "graphStepPorts (demo_net s g) (demo_isvc [] []) demo_services (call_step u) predictorNetworkPolicyComponent =
        Inr (GraphServiceURLPorts (demo_net s g) u ''ns'' [demo_predictor])"
      "graphStepPorts (demo_net s g) (demo_isvc [] []) demo_services (call_step u) transformerNetworkPolicyComponent = Inr []" if "u \<noteq> []" for s g u
    using that by (simp_all add: graphStepPorts_def call_step_def demo_isvc_def demo_services_def none)
  have calls: "graphCalls (demo_net s g) [demo_graph nodes] = map (Pair ''g'') (concat (map snd nodes))" for s g nodes
    by (simp add: graphCalls_def demo_graph_def IsRawInferenceGraph_def rawMode_def empty_meta_def m_str_def)
  have raw: "IsRawInferenceService (demo_net s g) (demo_isvc [] [])" for s g
    by (simp add: IsRawInferenceService_def rawMode_def demo_isvc_def empty_meta_def m_str_def)
  have graphs: "nv_graphs (demo_net s g) ns = Inr g" for s g ns by (simp add: demo_net_def)
  show "graphIngressRules (demo_net [demo_predictor] [demo_graph two_nodes]) (demo_isvc [] []) demo_services = Inr ([number_rule 8080, number_rule 9090], [])"
    "graphIngressRules (demo_net [demo_predictor] [demo_graph (rev two_nodes)]) (demo_isvc [] []) demo_services = Inr ([number_rule 9090, number_rule 8080], [])"
    by (simp_all add: graphIngressRules_def raw graphs calls two_nodes_def ports demo_url_ports addGraphRule_def containsIngressRule_def
        number_rule_def traffic_eq_def peer [of "[demo_predictor]"])
qed

definition plain_policy :: "policy_traffic list \<Rightarrow> network_policy" where
  "plain_policy rules = \<lparr>ch_meta = projr (demo_own ''serving.kserve.io/v1beta1'' ''InferenceService'' (si_meta (demo_isvc [] []))
       (policyMeta (demo_net [] []) (demo_isvc [] []) ''predictor'')),
     ch_spec = \<lparr>po_pods = [(KserveGroupAnnotation, ''m''), (''component'', ''predictor'')], po_types = [''Ingress'', ''Egress''], po_ingress = rules,
       po_egress = [\<lparr>pt_peers = [], pt_ports = []\<rparr>]\<rparr>\<rparr>"

lemma demo_desired:
  "stepDesired (demo_net [demo_predictor] [graph]) (demo_isvc [] []) demo_services (rules, []) predictorNetworkPolicyComponent = Inr (plain_policy rules)"
  by (simp add: stepDesired_def desiredNetworkPolicy_def demo_net_def demo_own_def plain_policy_def routeRules_def routeEnabled_def clusterLocalRules_def
      callerRules_def predictorCallers_def demo_isvc_def demo_services_def metricsPorts_def runtimeMetricsPort_def FindSupportingRuntimeForISvc_def
      rule_if_def empty_meta_def m_str_def predictorNetworkPolicyComponent_def policyMeta_def rawNetworkPolicyName_def servicesOf_def
      transformerNetworkPolicyComponent_def)

lemma plain_policy_sel:
  "child_key (plain_policy rules) = (''ns'', ''m-predictor-network-policy'')" "\<not> om_deleting (ch_meta (plain_policy rules))"
  "isOwnedByInferenceService (demo_net s g) (demo_isvc [] []) (om_owners (ch_meta (plain_policy rules)))"
  by (simp_all add: plain_policy_def child_key_def demo_own_def demo_isvc_def isOwnedByInferenceService_def isOwnedByInferenceServiceOwnerReferences_def
      isInferenceServiceOwnerReference_def demo_net_def policyMeta_def rawNetworkPolicyName_def rawNetworkPolicyNameSuffix_def empty_meta_def)

lemma plain_policy_ingress: "po_ingress (ch_spec (plain_policy rs)) = rs"
  by (simp add: plain_policy_def)

lemma plain_policy_order: "policy_eq c (plain_policy rs) \<Longrightarrow> list_all2 traffic_eq (po_ingress (ch_spec c)) rs"
  by (simp add: policy_eq_def spec_eq_def plain_policy_def)

lemma demo_graph_run:
  assumes "graphIngressRules (demo_net [demo_predictor] [graph]) (demo_isvc [] []) demo_services = Inr (rules, [])"
    and that: "map_of st (''ns'', ''m-transformer-network-policy'') = None"
  shows "ReconcilePolicies (demo_net [demo_predictor] [graph]) (demo_isvc [] []) (child_store_api st) =
    (case applyPolicy (isOwnedByInferenceService (demo_net [demo_predictor] [graph]) (demo_isvc [] [])) (plain_policy rules) (child_store_api st) of
       (ws, e) \<Rightarrow> (ws, case e of None \<Rightarrow> [] | Some x \<Rightarrow> [x]))"
proof -
  let ?env = "demo_net [demo_predictor] [graph]" and ?i = "demo_isvc [] []"
  have i: "si_transformer ?i = None" "cv_transformer demo_services = []" by (simp_all add: demo_isvc_def demo_services_def)
  have key: "policyKey ?env ?i transformerNetworkPolicyComponent = (''ns'', ''m-transformer-network-policy'')"
    by (simp add: policyKey_def rawNetworkPolicyName_def rawNetworkPolicyNameSuffix_def demo_net_def demo_isvc_def transformerNetworkPolicyComponent_def)
  show ?thesis
    using demo_desired [of graph rules] that
    by (simp add: ReconcilePolicies_steps [OF demo_inputs assms(1)] then_policy_def transformerStep_def i componentStep_def stepDesired_def
        reconcileNetworkPolicy_def deleteOwnedNetworkPolicy_def removePolicy_def key split: prod.split)
qed

text \<open>
  The policy of a service that a graph calls at two ports does not come to rest: the rules are in the order in which Go iterates over the
  nodes of the graph, a map, and that order may change from one reconcile to the next. When it does, the reconcile finds the policy it has itself written
  different and writes it again, although both let in the same traffic.
\<close>

theorem node_order_rewrites_policy:
  "let run = (\<lambda>nodes st. ReconcilePolicies (demo_net [demo_predictor] [demo_graph nodes]) (demo_isvc [] []) (child_store_api st));
       st = fold apply_child_write (fst (run two_nodes [])) [];
       st' = fold apply_child_write (fst (run (rev two_nodes) st)) st
   in run two_nodes st = ([], []) \<and> fst (run (rev two_nodes) st) \<noteq> [] \<and> fst (run two_nodes st') \<noteq> []"
proof -
  let ?a = "number_rule 8080" and ?b = "number_rule 9090"
  have ports: "?a \<noteq> ?b" "\<not> traffic_eq ?a ?b" "\<not> traffic_eq ?b ?a" by (simp_all add: number_rule_def traffic_eq_def)
  have diff: "\<not> policy_eq (plain_policy [?a, ?b]) (plain_policy [?b, ?a])"
      "\<not> policy_eq (updatedPolicy (plain_policy [?a, ?b]) (plain_policy [?b, ?a])) (plain_policy [?a, ?b])"
    using ports by (auto dest!: plain_policy_order simp: plain_policy_ingress)
  show ?thesis
    by (simp add: Let_def demo_graph_run [OF demo_graph_rules(1)] demo_graph_run [OF demo_graph_rules(2)] applyPolicy_def plain_policy_sel diff
        apply_child_write_def)
qed

section \<open>Reading the authentication annotation\<close>

text \<open>
  The Route reconciler parses the annotation as it is, the policy after trimming spaces. With spaces around the value the Route leads to the plain port of
  the service while the policy opens the authenticated one only, so the router cannot reach the pods.
\<close>

theorem auth_reading_differs:
  "let i = demo_isvc exposed_label [(EnableAuthODHAnnotation, '' true '')]
   in setRouteTargetPort (enableSSL (served_isvc.truncate i)) demo_predictor = Inr (PortName ''http'') \<and>
      servingPorts (demo_net [demo_predictor] []) [demo_predictor] (rawAuthEnabled i) = Inr [demo_port ''https'' 443 (PortName ''proxy'')]"
  by (simp add: demo_isvc_def served_isvc.defs enableSSL_def rawAuthEnabled_def m_str_def parseBool_def trim_space_def trim_left_space_def is_space_def
      setRouteTargetPort_def demo_predictor_def demo_port_def demo_net_def selectedPort_def)

end
