(* ===== verification/Policy_Order.thy ===== *)
theory Policy_Order
  imports Policy_Reconciler "HOL-Library.Multiset"
begin

text \<open>
  The network policies of a service over several reconciles (internal/controller/serving/reconcilers/kserve_raw_networkpolicy_reconciler.go). The nodes
  of an InferenceGraph are a Go map, which each reconcile iterates over in an order of its own, so two reconciles of the same cluster see the graphs
  up to the order of their nodes. Here is what that order cannot change: the traffic the policies let in.
\<close>

section \<open>The same graphs in another order\<close>

definition reordered_nodes :: "inference_graph \<Rightarrow> inference_graph \<Rightarrow> bool" where
  "reordered_nodes g g' = (ig_meta g' = ig_meta g \<and> ig_mode g' = ig_mode g \<and> mset (ig_nodes g') = mset (ig_nodes g))"

definition reordered :: "net_env \<Rightarrow> net_env \<Rightarrow> bool" where
  "reordered env env' =
     (\<exists>graphs. env' = env\<lparr>nv_graphs := graphs\<rparr> \<and> (\<forall>ns. rel_sum (=) (list_all2 reordered_nodes) (nv_graphs env ns) (graphs ns)))"

lemma reordered_refl: "reordered env env"
  unfolding reordered_def
  by (intro exI [of _ "nv_graphs env"] conjI allI) (simp_all add: reordered_nodes_def sum.rel_refl list.rel_refl)

text \<open>Everything but the calls of graphs is computed from the other fields.\<close>

lemma graphs_fields:
  "kc_component (env\<lparr>nv_graphs := g\<rparr>) = kc_component env" "kc_explainer (env\<lparr>nv_graphs := g\<rparr>) = kc_explainer env"
  "kc_visibility (env\<lparr>nv_graphs := g\<rparr>) = kc_visibility env" "kc_cluster_local (env\<lparr>nv_graphs := g\<rparr>) = kc_cluster_local env"
  "kc_graph_label (env\<lparr>nv_graphs := g\<rparr>) = kc_graph_label env" "kc_multi_node_role (env\<lparr>nv_graphs := g\<rparr>) = kc_multi_node_role env"
  "kc_prometheus_port (env\<lparr>nv_graphs := g\<rparr>) = kc_prometheus_port env" "kc_mode (env\<lparr>nv_graphs := g\<rparr>) = kc_mode env"
  "kc_standard (env\<lparr>nv_graphs := g\<rparr>) = kc_standard env" "kc_predictor_name (env\<lparr>nv_graphs := g\<rparr>) = kc_predictor_name env"
  "kc_transformer_name (env\<lparr>nv_graphs := g\<rparr>) = kc_transformer_name env" "kc_isvc_api (env\<lparr>nv_graphs := g\<rparr>) = kc_isvc_api env"
  "nv_url (env\<lparr>nv_graphs := g\<rparr>) = nv_url env" "nv_child_name (env\<lparr>nv_graphs := g\<rparr>) = nv_child_name env"
  "nv_own (env\<lparr>nv_graphs := g\<rparr>) = nv_own env" "nv_monitoring (env\<lparr>nv_graphs := g\<rparr>) = nv_monitoring env"
  "nv_labelled (env\<lparr>nv_graphs := g\<rparr>) = nv_labelled env" "nv_service (env\<lparr>nv_graphs := g\<rparr>) = nv_service env"
  "nv_runtimes (env\<lparr>nv_graphs := g\<rparr>) = nv_runtimes env" "nv_graphs (env\<lparr>nv_graphs := g\<rparr>) = g"
  by simp_all

lemma graphs_ports:
  "servingPorts (env\<lparr>nv_graphs := g\<rparr>) svcs ssl = servingPorts env svcs ssl"
  "urlPortLoop (env\<lparr>nv_graphs := g\<rparr>) ns host port svcs = urlPortLoop env ns host port svcs"
proof -
  show "servingPorts (env\<lparr>nv_graphs := g\<rparr>) svcs ssl = servingPorts env svcs ssl"
    by (induction svcs) (simp_all split: sum.splits)
  have "urlServicePort (env\<lparr>nv_graphs := g\<rparr>) = urlServicePort env" by (intro ext) (simp add: urlServicePort_def)
  then show "urlPortLoop (env\<lparr>nv_graphs := g\<rparr>) ns host port svcs = urlPortLoop env ns host port svcs"
    by (induction svcs) (simp_all split: option.splits)
qed

lemma graphs_parts:
  "rawMode (env\<lparr>nv_graphs := g\<rparr>) = rawMode env" "serviceTargetPorts (env\<lparr>nv_graphs := g\<rparr>) = serviceTargetPorts env"
  "routeTargetPorts (env\<lparr>nv_graphs := g\<rparr>) = routeTargetPorts env" "componentPeer (env\<lparr>nv_graphs := g\<rparr>) = componentPeer env"
  "graphPeer (env\<lparr>nv_graphs := g\<rparr>) = graphPeer env" "monitoringNamespaces (env\<lparr>nv_graphs := g\<rparr>) = monitoringNamespaces env"
  "ownService (env\<lparr>nv_graphs := g\<rparr>) = ownService env" "graphTargetServices (env\<lparr>nv_graphs := g\<rparr>) = graphTargetServices env"
  "GraphServiceURLPorts (env\<lparr>nv_graphs := g\<rparr>) = GraphServiceURLPorts env" "runtimeMetricsPort (env\<lparr>nv_graphs := g\<rparr>) = runtimeMetricsPort env"
  "rawNetworkPolicyName (env\<lparr>nv_graphs := g\<rparr>) = rawNetworkPolicyName env" "predictorCallers (env\<lparr>nv_graphs := g\<rparr>) = predictorCallers env"
  by (unfold fun_eq_iff rawMode_def serviceTargetPorts_def routeTargetPorts_def componentPeer_def graphPeer_def monitoringNamespaces_def ownService_def
      graphTargetServices_def GraphServiceURLPorts_def runtimeMetricsPort_def rawNetworkPolicyName_def predictorCallers_def graphs_fields graphs_ports) simp_all

lemma graphs_rules:
  "IsRawInferenceService (env\<lparr>nv_graphs := g\<rparr>) = IsRawInferenceService env" "IsRawInferenceGraph (env\<lparr>nv_graphs := g\<rparr>) = IsRawInferenceGraph env"
  "graphStepPorts (env\<lparr>nv_graphs := g\<rparr>) = graphStepPorts env" "listComponentServices (env\<lparr>nv_graphs := g\<rparr>) = listComponentServices env"
  "metricsPorts (env\<lparr>nv_graphs := g\<rparr>) = metricsPorts env" "policyMeta (env\<lparr>nv_graphs := g\<rparr>) = policyMeta env"
  "routeRules (env\<lparr>nv_graphs := g\<rparr>) = routeRules env" "clusterLocalRules (env\<lparr>nv_graphs := g\<rparr>) = clusterLocalRules env"
  "callerRules (env\<lparr>nv_graphs := g\<rparr>) = callerRules env" "monitoringPeers (env\<lparr>nv_graphs := g\<rparr>) = monitoringPeers env"
  "multiNodePredictorPeer (env\<lparr>nv_graphs := g\<rparr>) = multiNodePredictorPeer env"
  "isOwnedByInferenceService (env\<lparr>nv_graphs := g\<rparr>) = isOwnedByInferenceService env" "policyKey (env\<lparr>nv_graphs := g\<rparr>) = policyKey env"
  by (unfold fun_eq_iff IsRawInferenceService_def IsRawInferenceGraph_def graphStepPorts_def listComponentServices_def metricsPorts_def policyMeta_def
      routeRules_def clusterLocalRules_def callerRules_def monitoringPeers_def multiNodePredictorPeer_def isOwnedByInferenceService_def policyKey_def
      graphs_fields graphs_parts) simp_all

lemma graphs_desired:
  "desiredNetworkPolicy (env\<lparr>nv_graphs := g\<rparr>) = desiredNetworkPolicy env"
  by (intro ext) (unfold desiredNetworkPolicy_def graphs_fields graphs_rules, rule refl)

lemma graphs_steps:
  "stepDesired (env\<lparr>nv_graphs := g\<rparr>) = stepDesired env" "componentStep (env\<lparr>nv_graphs := g\<rparr>) = componentStep env"
  "deleteOwnedNetworkPolicy (env\<lparr>nv_graphs := g\<rparr>) = deleteOwnedNetworkPolicy env"
  by (unfold fun_eq_iff stepDesired_def componentStep_def reconcileNetworkPolicy_def deleteOwnedNetworkPolicy_def graphs_rules graphs_desired) simp_all

lemma reordered_same:
  assumes "reordered env env'"
  shows "listComponentServices env' = listComponentServices env" "stepDesired env' = stepDesired env" "componentStep env' = componentStep env"
    "transformerStep env' = transformerStep env" "policyKey env' = policyKey env" "graphStepPorts env' = graphStepPorts env" "graphPeer env' = graphPeer env"
    "IsRawInferenceService env' = IsRawInferenceService env" "isOwnedByInferenceService env' = isOwnedByInferenceService env"
  using assms by (auto simp: reordered_def fun_eq_iff transformerStep_def graphs_parts graphs_rules graphs_steps)

section \<open>The rules\<close>

lemma reordered_steps:
  "reordered_nodes g g' \<Longrightarrow> set (concat (map snd (ig_nodes g'))) = set (concat (map snd (ig_nodes g)))"
  unfolding set_concat set_map reordered_nodes_def by (metis set_mset_mset)

lemma reordered_calls:
  assumes "list_all2 reordered_nodes graphs graphs'" and raw: "\<And>g g'. reordered_nodes g g' \<Longrightarrow> raw g' = raw g"
  shows "(\<Union>g \<in> {g \<in> set graphs'. raw g}. Pair (om_name (ig_meta g)) ` set (concat (map snd (ig_nodes g)))) =
    (\<Union>g \<in> {g \<in> set graphs. raw g}. Pair (om_name (ig_meta g)) ` set (concat (map snd (ig_nodes g))))"
  using assms(1)
proof (induction rule: list_all2_induct)
  case (Cons g graphs g' graphs')
  have split: "{x \<in> set (y # ys). raw x} = (if raw y then {y} else {}) \<union> {x \<in> set ys. raw x}" for y ys by auto
  have "ig_meta g' = ig_meta g" using Cons.hyps(1) by (simp add: reordered_nodes_def)
  then show ?case unfolding split UN_Un Cons.IH raw [OF Cons.hyps(1)] using reordered_steps [OF Cons.hyps(1)] by simp
qed simp

lemma set_graphCalls:
  "set (graphCalls env graphs) =
     (\<Union>g \<in> {g \<in> set graphs. IsRawInferenceGraph env g}. Pair (om_name (ig_meta g)) ` set (concat (map snd (ig_nodes g))))"
  unfolding graphCalls_def set_concat set_map set_filter set_sort image_image by simp

lemma reordered_graphCalls:
  assumes "list_all2 reordered_nodes graphs graphs'"
  shows "set (graphCalls env graphs') = set (graphCalls env graphs)"
  unfolding set_graphCalls by (rule reordered_calls [OF assms]) (simp add: IsRawInferenceGraph_def reordered_nodes_def)

lemma reordered_graphs:
  assumes "reordered env env'"
  shows "rel_sum (=) (list_all2 reordered_nodes) (nv_graphs env ns) (nv_graphs env' ns)" "graphCalls env' = graphCalls env"
  using assms by (auto simp: reordered_def fun_eq_iff graphCalls_def graphs_rules)

lemma reordered_counted:
  assumes "reordered env env'"
  shows "set (countedCalls env' isvc) = set (countedCalls env isvc)"
  using reordered_graphs(1) [OF assms, of "om_namespace (si_meta isvc)"]
  by (cases "nv_graphs env (om_namespace (si_meta isvc))"; cases "nv_graphs env' (om_namespace (si_meta isvc))")
    (simp_all add: countedCalls_def reordered_same [OF assms] reordered_graphs(2) [OF assms] reordered_graphCalls)

lemma reordered_rules:
  assumes r: "reordered env env'" and rules: "graphIngressRules env isvc services = Inr (p, t)"
  obtains p' t' where "graphIngressRules env' isvc services = Inr (p', t')" "set p' = set p" "set t' = set t"
proof -
  have "\<exists>rules'. graphIngressRules env' isvc services = Inr rules'"
  proof (cases "nv_graphs env' (om_namespace (si_meta isvc))")
    case (Inl e)
    then obtain e' where "nv_graphs env (om_namespace (si_meta isvc)) = Inl e'"
      using reordered_graphs(1) [OF r, of "om_namespace (si_meta isvc)"] by (cases "nv_graphs env (om_namespace (si_meta isvc))") simp_all
    then have "\<not> IsRawInferenceService env isvc" using rules by (auto simp: graphIngressRules_def)
    then show ?thesis by (simp add: graphIngressRules_def reordered_same [OF r])
  next
    case (Inr graphs)
    then show ?thesis using graphRuleLoop_total by (auto simp: graphIngressRules_def)
  qed
  then obtain p' t' where rules': "graphIngressRules env' isvc services = Inr (p', t')" by auto
  have "call_rules env' isvc services calls' c = call_rules env isvc services calls c" if "set calls' = set calls" for calls calls' c
    using that by (simp add: call_rules_def reordered_same [OF r])
  with graphIngressRules_set [OF rules'] graphIngressRules_set [OF rules] reordered_counted [OF r] rules' that show thesis by metis
qed

section \<open>The policies\<close>

text \<open>Two lists of graph rules with the same members give policies with the same traffic, for the same pods and under the same name.\<close>

lemma desired_same_traffic:
  assumes "stepDesired env isvc services rules component = r" "set (fst rules') = set (fst rules)" "set (snd rules') = set (snd rules)"
  shows "case r of Inl e \<Rightarrow> stepDesired env isvc services rules' component = Inl e
    | Inr d \<Rightarrow> \<exists>d'. stepDesired env isvc services rules' component = Inr d' \<and> ch_meta d' = ch_meta d \<and> po_pods (ch_spec d') = po_pods (ch_spec d) \<and>
        set (po_ingress (ch_spec d')) = set (po_ingress (ch_spec d))"
  using assms by (auto simp: stepDesired_def desiredNetworkPolicy_def split: sum.splits)

lemma admits_set: "ch_meta d' = ch_meta d \<Longrightarrow> set (po_ingress (ch_spec d')) = set (po_ingress (ch_spec d)) \<Longrightarrow> admits named d' = admits named d"
  by (simp add: admits_def fun_eq_iff list_ex_iff)

text \<open>Whether a policy can be applied does not depend on its rules.\<close>

lemma applyPolicy_error:
  "child_key d' = child_key d \<Longrightarrow> snd (applyPolicy mine d' (child_store_api st)) = snd (applyPolicy mine d (child_store_api st))"
  by (cases "map_of st (child_key d)") (simp_all add: applyPolicy_def)

lemma componentStep_error:
  assumes "set (fst rules') = set (fst rules)" "set (snd rules') = set (snd rules)"
  shows "snd (componentStep env isvc services rules' component (child_store_api st)) = snd (componentStep env isvc services rules component (child_store_api st))"
  using desired_same_traffic [OF refl assms, of env isvc services component]
  by (auto simp: componentStep_def stepDesired_def reconcileNetworkPolicy_def child_key_def intro!: applyPolicy_error split: sum.splits)

lemma transformerStep_error:
  assumes "set (fst rules') = set (fst rules)" "set (snd rules') = set (snd rules)"
  shows "snd (transformerStep env isvc services rules' (child_store_api st)) = snd (transformerStep env isvc services rules (child_store_api st))"
  using componentStep_error [OF assms] by (simp add: transformerStep_def)

lemma in_force_reordered:
  assumes r: "reordered env env'" and rules: "set (fst rules') = set (fst rules)" "set (snd rules') = set (snd rules)"
    and f: "in_force env' isvc services rules' st component"
  shows "in_force env isvc services rules st component"
proof -
  have k: "kc_component env' = kc_component env" using r by (auto simp: reordered_def)
  from f obtain d' c where d': "stepDesired env isvc services rules' component = Inr d'" and c: "map_of st (policyKey env isvc component) = Some c"
    and pods: "po_pods (ch_spec d') = [(KserveGroupAnnotation, om_name (si_meta isvc)), (kc_component env, component)]" "m_eq (po_pods (ch_spec c)) (po_pods (ch_spec d'))"
    and adm: "wf_policy c \<longrightarrow> (\<forall>named src protocol n. admits named c src protocol n = admits named d' src protocol n)"
    unfolding in_force_def reordered_same [OF r] k by blast
  from desired_same_traffic [OF d' rules [symmetric]] obtain d where d: "stepDesired env isvc services rules component = Inr d" "ch_meta d = ch_meta d'"
    "po_pods (ch_spec d) = po_pods (ch_spec d')" "set (po_ingress (ch_spec d)) = set (po_ingress (ch_spec d'))" by auto
  with adm admits_set [OF d(2,4)] have "wf_policy c \<longrightarrow> (\<forall>named src protocol n. admits named c src protocol n = admits named d src protocol n)" by simp
  with d(1,3) c pods show ?thesis unfolding in_force_def by auto
qed

lemma settled_reordered:
  assumes r: "reordered env env'" and rules: "set (fst rules') = set (fst rules)" "set (snd rules') = set (snd rules)"
    and s: "transformer_settled env' isvc services rules' st"
  shows "transformer_settled env isvc services rules st"
  using s in_force_reordered [OF r rules] by (auto simp: transformer_settled_def reordered_same [OF r] split: if_splits)

lemma ReconcilePolicies_errors:
  assumes "listComponentServices env isvc = Inr services" "graphIngressRules env isvc services = Inr rules"
  shows "snd (ReconcilePolicies env isvc api) =
    (case snd (componentStep env isvc services rules predictorNetworkPolicyComponent api) of None \<Rightarrow> [] | Some e \<Rightarrow> [e]) @
    (case snd (transformerStep env isvc services rules api) of None \<Rightarrow> [] | Some e \<Rightarrow> [e])"
  by (simp add: ReconcilePolicies_steps [OF assms] then_policy_def)

lemma reordered_errors:
  assumes r: "reordered env env'" and services: "listComponentServices env isvc = Inr services"
    and rules: "graphIngressRules env isvc services = Inr rules" "graphIngressRules env' isvc services = Inr rules'"
    and sets: "set (fst rules') = set (fst rules)" "set (snd rules') = set (snd rules)"
  shows "snd (ReconcilePolicies env' isvc (child_store_api st)) = snd (ReconcilePolicies env isvc (child_store_api st))"
proof -
  have services': "listComponentServices env' isvc = Inr services" using services by (simp add: reordered_same [OF r])
  show ?thesis
    unfolding ReconcilePolicies_errors [OF services rules(1)] ReconcilePolicies_errors [OF services' rules(2)] reordered_same [OF r]
      componentStep_error [OF sets] transformerStep_error [OF sets] ..
qed

section \<open>Properties\<close>

text \<open>
  Property C21. A reconcile that reports no error leaves in force, for each component of the service, the policy it computed: it selects the
  pods of the component and lets in the same traffic. Without a transformer no policy of the service for one is left, and other policies of the
  cluster are not touched. This stays so: any later reconcile of the same cluster, which may see the nodes of the graphs in another order, reports the same errors and, after
  its writes, the policies let in the same traffic as before. It writes nothing when the calls of the graphs give their rules in the same order; in another order it may write the policy
  again (\<open>node_order_rewrites_policy\<close>).
\<close>

theorem policies_in_force:
  assumes laws: "net_laws env" "kc_component env \<noteq> KserveGroupAnnotation"
    and names: "rawNetworkPolicyName env isvc predictorNetworkPolicyComponent \<noteq> rawNetworkPolicyName env isvc transformerNetworkPolicyComponent"
    and wf: "wf_children st"
    and inputs: "listComponentServices env isvc = Inr services" "graphIngressRules env isvc services = Inr rules"
    and run: "ReconcilePolicies env isvc (child_store_api st) = (ws, es)" "st' = fold apply_child_write ws st"
    and again: "reordered env env'" "ReconcilePolicies env' isvc (child_store_api st') = (ws', es')" "st'' = fold apply_child_write ws' st'"
  shows "es' = es \<and> (graphIngressRules env' isvc services = Inr rules \<longrightarrow> ws' = []) \<and>
    (es = [] \<longrightarrow> in_force env isvc services rules st' predictorNetworkPolicyComponent \<and> transformer_settled env isvc services rules st' \<and>
       in_force env isvc services rules st'' predictorNetworkPolicyComponent \<and> transformer_settled env isvc services rules st'') \<and>
    (\<forall>k. k \<noteq> policyKey env isvc predictorNetworkPolicyComponent \<and> k \<noteq> policyKey env isvc transformerNetworkPolicyComponent \<longrightarrow>
       map_of st' k = map_of st k \<and> map_of st'' k = map_of st k)"
proof -
  note first = ReconcilePolicies_after [OF laws names wf inputs run]
  obtain p t where pt: "rules = (p, t)" by (cases rules)
  from reordered_rules [OF again(1) inputs(2) [unfolded pt]] obtain rules' where
    rules': "graphIngressRules env' isvc services = Inr rules'" "set (fst rules') = set (fst rules)" "set (snd rules') = set (snd rules)"
    unfolding pt by (metis fst_conv snd_conv)
  have services': "listComponentServices env' isvc = Inr services" using inputs(1) by (simp add: reordered_same [OF again(1)])
  have laws': "net_laws env'" "kc_component env' \<noteq> KserveGroupAnnotation"
    "rawNetworkPolicyName env' isvc predictorNetworkPolicyComponent \<noteq> rawNetworkPolicyName env' isvc transformerNetworkPolicyComponent"
    using again(1) laws names by (auto simp: reordered_def net_laws_def rawNetworkPolicyName_def)
  have wf': "wf_children st'" unfolding run(2) by (rule wf_fold_writes [OF wf])
  note second = ReconcilePolicies_after [OF laws' wf' services' rules'(1) again(2,3), unfolded reordered_same [OF again(1)]]
  have es: "es' = es"
    using reordered_errors [OF again(1) inputs rules', of st'] first again(2) by simp
  have same: "ws' = []" if "graphIngressRules env' isvc services = Inr rules"
  proof -
    have "ReconcilePolicies env' isvc (child_store_api st') = ReconcilePolicies env isvc (child_store_api st')"
      by (simp add: ReconcilePolicies_steps [OF inputs] ReconcilePolicies_steps [OF services' that] reordered_same [OF again(1)])
    with first again(2) show ?thesis by simp
  qed
  have "in_force env isvc services rules st'' predictorNetworkPolicyComponent \<and> transformer_settled env isvc services rules st''" if "es = []"
    using that second es in_force_reordered [OF again(1) rules'(2,3)] settled_reordered [OF again(1) rules'(2,3)] by blast
  with es same first second show ?thesis by metis
qed

text \<open>A graph that calls the service at two ports, seen in both orders: the second reconcile changes the order of the rules and nothing else.\<close>

theorem policies_in_force_witness:
  "\<exists>ws ws'. let env = (\<lambda>nodes. demo_net [demo_predictor] [demo_graph nodes]);
       st = fold apply_child_write ws []; st' = fold apply_child_write ws' st
   in ReconcilePolicies (env two_nodes) (demo_isvc [] []) (child_store_api []) = (ws, []) \<and>
      ReconcilePolicies (env (rev two_nodes)) (demo_isvc [] []) (child_store_api st) = (ws', []) \<and>
      in_force (env two_nodes) (demo_isvc [] []) demo_services ([number_rule 8080, number_rule 9090], []) st' predictorNetworkPolicyComponent"
proof -
  let ?env = "\<lambda>nodes. demo_net [demo_predictor] [demo_graph nodes]" and ?i = "demo_isvc [] []"
  have r: "reordered (?env two_nodes) (?env (rev two_nodes))"
    unfolding reordered_def
    by (intro exI [of _ "\<lambda>_. Inr [demo_graph (rev two_nodes)]"] conjI allI) (simp_all add: demo_net_def reordered_nodes_def demo_graph_def)
  obtain ws es where run: "ReconcilePolicies (?env two_nodes) ?i (child_store_api []) = (ws, es)" by fastforce
  have es: "es = []" using run by (simp add: demo_graph_run [OF demo_graph_rules(1)] applyPolicy_def)
  obtain ws' es' where run': "ReconcilePolicies (?env (rev two_nodes)) ?i (child_store_api (fold apply_child_write ws [])) = (ws', es')" by fastforce
  have wf: "wf_children ([] :: policy_spec child_store)" by (simp add: wf_children_def)
  show ?thesis
    using policies_in_force [OF demo_net_laws demo_names(2) demo_names(1) wf demo_inputs demo_graph_rules(1) run refl r run' refl] run run' es
    by (intro exI [of _ ws] exI [of _ ws']) (simp add: Let_def)
qed

end
