(* ===== verification/Metrics_Objects.thy ===== *)
theory Metrics_Objects
  imports Serving_Runtime
begin

text \<open>
  The objects that make the metrics of an InferenceService available: the metrics Service, the ServiceMonitor and the ConfigMap of the
  dashboard (kserve_metrics_service_reconciler.go, kserve_metrics_servicemonitor_reconciler.go and
  kserve_metrics_dashboard_reconciler.go in internal/controller/serving/reconcilers, with their handlers in internal/controller/resources and
  comparators in internal/controller/comparators). The three reconcilers compute a desired object, read the existing one and write the
  difference; the locale \<open>delta_reconciler\<close> is what they share. Parameters are KServe's annotation keys,
  the texts of the queries (internal/controller/constants/runtime-metrics.go) and \<open>SetControllerReference\<close>, given by the owners it sets.
\<close>

section \<open>Data\<close>

datatype metrics_kind = NIMMetrics | OvmsMetrics | VllmMetrics | VllmOmniMetrics | TgisMetrics | MLServerMetrics | AutogluonMetrics

record metrics_env =
  me_runtimes :: runtime_api
  me_own :: "object_meta \<Rightarrow> object_meta \<Rightarrow> api_error + owner_ref list"
  me_port_key :: string
  me_path_key :: string
  me_text :: "metrics_kind \<Rightarrow> string"

record service_spec =
  se_ports :: "service_port list"
  se_type :: string
  se_selector :: "string gomap"

record monitor_spec =
  mo_port :: string
  mo_scheme :: string
  mo_path :: string
  mo_selector :: "string gomap"

text \<open>What can go wrong for the dashboard: an error of a call, or the code dereferences a nil pointer.\<close>

datatype dashboard_error = CallFailed api_error | NilPointer

section \<open>Writing the difference\<close>

definition FetchChild :: "'spec child_api \<Rightarrow> namespaced_name \<Rightarrow> api_error + 'spec child option" where
  "FetchChild api key =
     (case ca_get api key of Inl e \<Rightarrow> if e = NotFound then Inr None else Inl e | Inr c \<Rightarrow> Inr (Some c))"

definition processDeltaOf ::
    "('spec child \<Rightarrow> 'spec child \<Rightarrow> bool) \<Rightarrow> ('spec child \<Rightarrow> 'spec child \<Rightarrow> 'spec child) \<Rightarrow> 'spec child option \<Rightarrow> 'spec child option \<Rightarrow>
     'spec child_api \<Rightarrow> 'spec child_result" where
  "processDeltaOf comparator merge desired existing api =
     (case (desired, existing) of
        (None, None) \<Rightarrow> ([], None)
      | (Some d, None) \<Rightarrow> ([CreateChild d], ca_create api d)
      | (Some d, Some c) \<Rightarrow>
          if HasChanges (ComputeDelta comparator (Some d) (Some c)) then ([UpdateChild (merge c d)], ca_update api 0 (merge c d)) else ([], None)
      | (None, Some c) \<Rightarrow> ([DeleteChild (child_key c)], ca_delete api (child_key c)))"

definition reconcileDelta ::
    "api_error + 'spec child option \<Rightarrow> namespaced_name \<Rightarrow> ('spec child \<Rightarrow> 'spec child \<Rightarrow> bool) \<Rightarrow> ('spec child \<Rightarrow> 'spec child \<Rightarrow> 'spec child) \<Rightarrow>
     'spec child_api \<Rightarrow> 'spec child_result" where
  "reconcileDelta desired key comparator merge api =
     (case desired of
        Inl e \<Rightarrow> ([], Some e)
      | Inr d \<Rightarrow>
          (case FetchChild api key of
             Inl e \<Rightarrow> ([], Some e)
           | Inr c \<Rightarrow> processDeltaOf comparator merge d c api))"

section \<open>The metrics Service\<close>

definition RhoaiObservabilityLabel :: string where "RhoaiObservabilityLabel = ''monitoring.opendatahub.io/scrape''"

definition metricsName :: "'z served_isvc_scheme \<Rightarrow> string" where
  "metricsName isvc = om_name (si_meta isvc) @ ''-metrics''"

definition metricsKey :: "'z served_isvc_scheme \<Rightarrow> namespaced_name" where
  "metricsKey isvc = (om_namespace (si_meta isvc), metricsName isvc)"

text \<open>The Go conversion \<open>int32(n)\<close>.\<close>

definition int32 :: "int \<Rightarrow> int" where
  "int32 n = sint (word_of_int n :: 32 word)"

definition owned :: "metrics_env \<Rightarrow> 'z served_isvc_scheme \<Rightarrow> 'spec child \<Rightarrow> api_error + 'spec child" where
  "owned env isvc c =
     (case me_own env (si_meta isvc) (ch_meta c) of Inl e \<Rightarrow> Inl e | Inr os \<Rightarrow> Inr (c\<lparr>ch_meta := (ch_meta c)\<lparr>om_owners := os\<rparr>\<rparr>))"

definition createDesiredMetricsService :: "metrics_env \<Rightarrow> 'z model_isvc_scheme \<Rightarrow> api_error + service_spec child option" where
  "createDesiredMetricsService env isvc =
     (case FindSupportingRuntimeForISvc (me_runtimes env) isvc of
        Inl e \<Rightarrow> Inl e
      | Inr None \<Rightarrow> Inr None
      | Inr (Some r) \<Rightarrow>
          if m_str (sr_annotations r) (me_port_key env) = [] then Inr None
          else (case parse_int 64 (m_str (sr_annotations r) (me_port_key env)) of
                  None \<Rightarrow> Inl (ApiFailure ''invalid syntax'')
                | Some port \<Rightarrow>
                    map_sum id Some (owned env isvc
                      \<lparr>ch_meta = empty_meta\<lparr>om_name := metricsName isvc, om_namespace := om_namespace (si_meta isvc),
                         om_labels := [(''name'', metricsName isvc), (RhoaiObservabilityLabel, ''true'')]\<rparr>,
                       ch_spec = \<lparr>se_ports = [\<lparr>sp_name = om_name (sr_meta r) @ ''-metrics'', sp_port = int32 port, sp_protocol = ''TCP'',
                           sp_target = PortNumber (int32 port), sp_app_protocol = None\<rparr>],
                         se_type = ''ClusterIP'', se_selector = [(''serving.kserve.io/inferenceservice'', om_name (si_meta isvc))]\<rparr>\<rparr>)))"

definition GetServiceComparator :: "service_spec child \<Rightarrow> service_spec child \<Rightarrow> bool" where
  "GetServiceComparator deployed requested =
     (se_ports (ch_spec deployed) = se_ports (ch_spec requested) \<and> se_type (ch_spec deployed) = se_type (ch_spec requested) \<and>
      m_eq (se_selector (ch_spec deployed)) (se_selector (ch_spec requested)) \<and>
      m_eq (om_annotations (ch_meta deployed)) (om_annotations (ch_meta requested)) \<and>
      m_eq (om_labels (ch_meta deployed)) (om_labels (ch_meta requested)))"

definition mergeService :: "service_spec child \<Rightarrow> service_spec child \<Rightarrow> service_spec child" where
  "mergeService existing desired =
     \<lparr>ch_meta = (ch_meta existing)\<lparr>om_annotations := om_annotations (ch_meta desired), om_labels := om_labels (ch_meta desired)\<rparr>, ch_spec = ch_spec desired\<rparr>"

definition ReconcileMetricsService :: "metrics_env \<Rightarrow> 'z model_isvc_scheme \<Rightarrow> service_spec child_api \<Rightarrow> service_spec child_result" where
  "ReconcileMetricsService env isvc =
     reconcileDelta (createDesiredMetricsService env isvc) (metricsKey isvc) GetServiceComparator mergeService"

section \<open>The ServiceMonitor\<close>

definition metricsPath :: "metrics_env \<Rightarrow> serving_runtime \<Rightarrow> string" where
  "metricsPath env r =
     (case map_of (sr_annotations r) (me_path_key env) of
        None \<Rightarrow> []
      | Some raw \<Rightarrow>
          (let path = trim_space raw
           in if path = [] then [] else if has_prefix ''/'' path then path else CHR ''/'' # path))"

definition createDesiredServiceMonitor :: "metrics_env \<Rightarrow> 'z model_isvc_scheme \<Rightarrow> api_error + monitor_spec child option" where
  "createDesiredServiceMonitor env isvc =
     (case FindSupportingRuntimeForISvc (me_runtimes env) isvc of
        Inl e \<Rightarrow> Inl e
      | Inr None \<Rightarrow> Inr None
      | Inr (Some r) \<Rightarrow>
          map_sum id Some (owned env isvc
            \<lparr>ch_meta = empty_meta\<lparr>om_name := metricsName isvc, om_namespace := om_namespace (si_meta isvc),
               om_labels := [(RhoaiObservabilityLabel, ''true'')]\<rparr>,
             ch_spec = \<lparr>mo_port = om_name (sr_meta r) @ ''-metrics'', mo_scheme = ''http'', mo_path = metricsPath env r,
               mo_selector = [(''name'', metricsName isvc)]\<rparr>\<rparr>))"

definition GetServiceMonitorComparator :: "monitor_spec child \<Rightarrow> monitor_spec child \<Rightarrow> bool" where
  "GetServiceMonitorComparator deployed requested =
     (mo_port (ch_spec deployed) = mo_port (ch_spec requested) \<and> mo_scheme (ch_spec deployed) = mo_scheme (ch_spec requested) \<and>
      mo_path (ch_spec deployed) = mo_path (ch_spec requested) \<and> m_eq (mo_selector (ch_spec deployed)) (mo_selector (ch_spec requested)))"

definition mergeMonitor :: "monitor_spec child \<Rightarrow> monitor_spec child \<Rightarrow> monitor_spec child" where
  "mergeMonitor existing desired = existing\<lparr>ch_spec := ch_spec desired\<rparr>"

definition ReconcileServiceMonitor :: "metrics_env \<Rightarrow> 'z model_isvc_scheme \<Rightarrow> monitor_spec child_api \<Rightarrow> monitor_spec child_result" where
  "ReconcileServiceMonitor env isvc =
     reconcileDelta (createDesiredServiceMonitor env isvc) (metricsKey isvc) GetServiceMonitorComparator mergeMonitor"

section \<open>The dashboard\<close>

text \<open>
  \<open>strings.NewReplacer\<close>: from left to right the first variable that starts here is replaced, and the text put in is not
  looked at again.
\<close>

function replaceAll :: "(string \<times> string) list \<Rightarrow> string \<Rightarrow> string" where
  "replaceAll pairs [] = []"
| "replaceAll pairs (c # s) =
     (case find (\<lambda>(old, _). old \<noteq> [] \<and> has_prefix old (c # s)) pairs of
        Some (old, new) \<Rightarrow> new @ replaceAll pairs (drop (length old) (c # s))
      | None \<Rightarrow> c # replaceAll pairs s)"
  by pat_completeness auto

termination replaceAll
proof (relation "measure (length \<circ> snd)")
  fix pairs c s x old new
  assume "find (\<lambda>(old, _). old \<noteq> [] \<and> has_prefix old (c # s)) pairs = Some x" "(old, new) = x"
  then have "old \<noteq> []" by (auto simp: find_Some_iff)
  then show "((pairs, drop (length old) (c # s)), pairs, c # s) \<in> measure (length \<circ> snd)" by (cases old) auto
qed auto

definition dashboardVariables :: "string \<Rightarrow> string \<Rightarrow> (string \<times> string) list" where
  "dashboardVariables namespace name =
     [(''${NAMESPACE}'', namespace), (''${MODEL_NAME}'', name), (''${RATE_INTERVAL}'', ''1m''), (''${REQUEST_RATE_INTERVAL}'', ''5m''),
      (''${KV_CACHE_SAMPLING_RATE}'', ''24h'')]"

definition SubstituteVariablesInQueries :: "string \<Rightarrow> string \<Rightarrow> string \<Rightarrow> string" where
  "SubstituteVariablesInQueries data namespace name = replaceAll (dashboardVariables namespace name) data"

definition runtimeKinds :: "(string \<times> metrics_kind) list" where
  "runtimeKinds = [(''ovms'', OvmsMetrics), (''vllm'', VllmMetrics), (''vllm-omni'', VllmOmniMetrics), (''tgis'', TgisMetrics),
     (''mlserver'', MLServerMetrics), (''autogluon'', AutogluonMetrics)]"

definition getMetricsData :: "serving_runtime \<Rightarrow> metrics_kind option" where
  "getMetricsData r =
     (if m_str (om_annotations (sr_meta r)) ''runtimes.opendatahub.io/nvidia-nim'' = ''true'' then Some NIMMetrics
      else map_of runtimeKinds (m_str (sr_annotations r) ''opendatahub.io/kserve-runtime''))"

definition dashboardKey :: "'z served_isvc_scheme \<Rightarrow> namespaced_name" where
  "dashboardKey isvc = (om_namespace (si_meta isvc), om_name (si_meta isvc) @ ''-metrics-dashboard'')"

definition createConfigMap :: "metrics_env \<Rightarrow> 'z served_isvc_scheme \<Rightarrow> bool \<Rightarrow> api_error + string gomap child" where
  "createConfigMap env isvc supported =
     owned env isvc
       \<lparr>ch_meta = empty_meta\<lparr>om_name := snd (dashboardKey isvc), om_namespace := om_namespace (si_meta isvc),
          om_labels := [(''opendatahub.io/managed'', ''true''), (''app.kubernetes.io/name'', ''odh-model-controller''),
            (''app.kubernetes.io/component'', ''kserve''), (''app.kubernetes.io/part-of'', ''odh-model-serving''),
            (''app.kubernetes.io/managed-by'', ''odh-model-controller'')]\<rparr>,
        ch_spec = [(''supported'', if supported then ''true'' else ''false'')]\<rparr>"

definition createDesiredDashboard :: "metrics_env \<Rightarrow> 'z model_isvc_scheme \<Rightarrow> dashboard_error + string gomap child" where
  "createDesiredDashboard env isvc =
     (if si_model isvc = None then map_sum CallFailed id (createConfigMap env isvc False)
      else (case FindSupportingRuntimeForISvc (me_runtimes env) isvc of
              Inl e \<Rightarrow> if e = ApiFailure NoSuitableRuntimeError then map_sum CallFailed id (createConfigMap env isvc False) else Inl (CallFailed e)
            | Inr None \<Rightarrow> Inl NilPointer
            | Inr (Some r) \<Rightarrow>
                (case createConfigMap env isvc (getMetricsData r \<noteq> None) of
                   Inl e \<Rightarrow> Inl (CallFailed e)
                 | Inr cm \<Rightarrow>
                     Inr (case getMetricsData r of
                            None \<Rightarrow> cm
                          | Some kind \<Rightarrow> cm\<lparr>ch_spec := m_put ''metrics''
                              (SubstituteVariablesInQueries (me_text env kind) (om_namespace (si_meta isvc)) (om_name (si_meta isvc))) (ch_spec cm)\<rparr>))))"

definition GetConfigMapComparator :: "string gomap child \<Rightarrow> string gomap child \<Rightarrow> bool" where
  "GetConfigMapComparator deployed requested =
     (m_eq (ch_spec deployed) (ch_spec requested) \<and> m_eq (om_labels (ch_meta deployed)) (om_labels (ch_meta requested)))"

definition mergeConfigMap :: "string gomap child \<Rightarrow> string gomap child \<Rightarrow> string gomap child" where
  "mergeConfigMap existing desired =
     \<lparr>ch_meta = (ch_meta existing)\<lparr>om_labels := om_labels (ch_meta desired)\<rparr>, ch_spec = ch_spec desired\<rparr>"

text \<open>The result is None when the code panics.\<close>

definition dashboardDesired :: "metrics_env \<Rightarrow> 'z model_isvc_scheme \<Rightarrow> api_error + string gomap child option" where
  "dashboardDesired env isvc =
     (case createDesiredDashboard env isvc of Inl NilPointer \<Rightarrow> Inr None | Inl (CallFailed e) \<Rightarrow> Inl e | Inr d \<Rightarrow> Inr (Some d))"

definition ReconcileDashboard :: "metrics_env \<Rightarrow> 'z model_isvc_scheme \<Rightarrow> string gomap child_api \<Rightarrow> string gomap child_result option" where
  "ReconcileDashboard env isvc api =
     (if createDesiredDashboard env isvc = Inl NilPointer then None
      else Some (reconcileDelta (dashboardDesired env isvc) (dashboardKey isvc) GetConfigMapComparator mergeConfigMap api))"

section \<open>Contracts\<close>

lemma reconcileDelta_store: "reconcileDelta desired key comparator merge (child_store_api st) =
    (case desired of Inl e \<Rightarrow> ([], Some e) | Inr d \<Rightarrow> processDeltaOf comparator merge d (map_of st key) (child_store_api st))"
  by (cases "map_of st key") (auto simp: reconcileDelta_def FetchChild_def split: sum.split)

locale delta_reconciler =
  fixes desired :: "api_error + 'spec child option" and key :: namespaced_name
    and comparator :: "'spec child \<Rightarrow> 'spec child \<Rightarrow> bool" and merge :: "'spec child \<Rightarrow> 'spec child \<Rightarrow> 'spec child"
  assumes desired_key: "desired = Inr (Some d) \<Longrightarrow> child_key d = key"
    and created: "comparator d d"
    and merged: "comparator (merge c d) d" "child_key (merge c d) = child_key c"
begin

lemma delta_settles:
  assumes "wf_children st" "reconcileDelta desired key comparator merge (child_store_api st) = (ws, e)"
  shows "reconcileDelta desired key comparator merge (child_store_api (fold apply_child_write ws st)) = ([], e)"
proof (cases desired)
  case (Inr d)
  show ?thesis
  proof (cases d; cases "map_of st key")
    fix x c assume "d = Some x" "map_of st key = Some c"
    then show ?thesis using assms Inr desired_key merged wf_childrenD [OF assms(1), of key c]
      by (auto simp: reconcileDelta_store processDeltaOf_def split: if_splits)
  qed (use assms Inr desired_key created wf_childrenD [OF assms(1)] in \<open>auto simp: reconcileDelta_store processDeltaOf_def\<close>)
qed (use assms in \<open>simp add: reconcileDelta_store\<close>)

lemma desired_stored:
  assumes "wf_children st" "desired = Inr (Some d)"
  shows "\<exists>c. map_of (fold apply_child_write (fst (reconcileDelta desired key comparator merge (child_store_api st))) st) key = Some c \<and> comparator c d"
  using assms desired_key [OF assms(2)] created merged wf_childrenD [OF assms(1)]
  by (cases "map_of st key") (auto simp: reconcileDelta_store processDeltaOf_def)

end

sublocale delta_reconciler < settling_operation "reconcileDelta desired key comparator merge"
  by unfold_locales (rule delta_settles)

lemma owned_Inr: "owned env isvc c = Inr d \<Longrightarrow> \<exists>os. d = c\<lparr>ch_meta := (ch_meta c)\<lparr>om_owners := os\<rparr>\<rparr>"
  by (auto simp: owned_def split: sum.splits)

lemma owned_key: "owned env isvc c = Inr d \<Longrightarrow> child_key d = child_key c \<and> ch_spec d = ch_spec c \<and> om_labels (ch_meta d) = om_labels (ch_meta c)"
  by (auto simp: child_key_def dest!: owned_Inr)

lemma map_sum_Inr: "map_sum id Some r = Inr (Some d) \<longleftrightarrow> r = Inr d" "map_sum CallFailed id r = Inr e \<longleftrightarrow> r = Inr e"
  by (cases r; simp)+

interpretation metrics_service: delta_reconciler "createDesiredMetricsService env isvc" "metricsKey isvc" GetServiceComparator mergeService
  for env and isvc :: "'z model_isvc_scheme"
  by unfold_locales
    (auto simp: createDesiredMetricsService_def map_sum_Inr GetServiceComparator_def mergeService_def child_key_def metricsKey_def
      split: sum.splits option.splits if_splits dest!: owned_Inr)

interpretation service_monitor: delta_reconciler "createDesiredServiceMonitor env isvc" "metricsKey isvc" GetServiceMonitorComparator mergeMonitor
  for env and isvc :: "'z model_isvc_scheme"
  by unfold_locales
    (auto simp: createDesiredServiceMonitor_def map_sum_Inr GetServiceMonitorComparator_def mergeMonitor_def child_key_def metricsKey_def
      split: sum.splits option.splits if_splits dest!: owned_Inr)

interpretation dashboard: delta_reconciler "dashboardDesired env isvc" "dashboardKey isvc" GetConfigMapComparator mergeConfigMap
  for env and isvc :: "'z model_isvc_scheme"
  by unfold_locales
    (auto simp: dashboardDesired_def createDesiredDashboard_def createConfigMap_def map_sum_Inr child_key_def dashboardKey_def GetConfigMapComparator_def
      mergeConfigMap_def split: sum.splits option.splits if_splits dashboard_error.splits dest!: owned_Inr)

section \<open>Properties\<close>

text \<open>
  The metrics objects come to rest: after the writes of a reconcile took effect, the reconcilers of the metrics Service, the
  ServiceMonitor and the dashboard write nothing more and end the same way.
\<close>

theorem metrics_objects_settle:
  assumes "wf_children services" "wf_children monitors" "wf_children configs"
  shows "ReconcileMetricsService env isvc
        (child_store_api (fold apply_child_write (fst (ReconcileMetricsService env isvc (child_store_api services))) services)) =
      ([], snd (ReconcileMetricsService env isvc (child_store_api services))) \<and>
    ReconcileServiceMonitor env isvc
        (child_store_api (fold apply_child_write (fst (ReconcileServiceMonitor env isvc (child_store_api monitors))) monitors)) =
      ([], snd (ReconcileServiceMonitor env isvc (child_store_api monitors))) \<and>
    (case ReconcileDashboard env isvc (child_store_api configs) of
       None \<Rightarrow> True
     | Some (ws, e) \<Rightarrow> ReconcileDashboard env isvc (child_store_api (fold apply_child_write ws configs)) = Some ([], e))"
  using metrics_service.settled [OF assms(1), of env isvc] service_monitor.settled [OF assms(2), of env isvc] dashboard.settled [OF assms(3), of env isvc]
  by (auto simp: ReconcileMetricsService_def ReconcileServiceMonitor_def ReconcileDashboard_def metrics_service.after_def service_monitor.after_def
      dashboard.after_def split: prod.split)

text \<open>A runtime \<open>rt\<close> with a metrics port, named by the service.\<close>

definition scraped_runtime :: "string \<Rightarrow> serving_runtime" where
  "scraped_runtime port = empty_runtime\<lparr>sr_meta := empty_meta\<lparr>om_name := ''rt''\<rparr>,
     sr_annotations := [(''prometheus.io/port'', port), (''opendatahub.io/kserve-runtime'', ''vllm'')]\<rparr>"

definition scraped_env :: "string \<Rightarrow> metrics_env" where
  "scraped_env port = \<lparr>me_runtimes = \<lparr>ra_get = (\<lambda>_. Inr (scraped_runtime port)), ra_list = (\<lambda>_. Inr [])\<rparr>, me_own = (\<lambda>_ _. Inr []),
     me_port_key = ''prometheus.io/port'', me_path_key = ''prometheus.io/path'', me_text = (\<lambda>_. ''q{ns='' @ ''${NAMESPACE}'' @ ''}'')\<rparr>"

theorem metrics_objects_settle_witness:
  "\<exists>d. ReconcileMetricsService (scraped_env ''8080'') (demo_model (Some ''rt'') []) (child_store_api []) = ([CreateChild d], None) \<and>
     ReconcileMetricsService (scraped_env ''8080'') (demo_model (Some ''rt'') []) (child_store_api (apply_child_write (CreateChild d) [])) = ([], None)"
proof -
  let ?i = "demo_model (Some ''rt'') []"
  have "parse_int 64 ''8080'' = Some 8080" by code_simp
  then obtain d where run: "ReconcileMetricsService (scraped_env ''8080'') ?i (child_store_api []) = ([CreateChild d], None)"
    by (fastforce simp: ReconcileMetricsService_def reconcileDelta_store createDesiredMetricsService_def scraped_env_def
        FindSupportingRuntimeForISvc_def demo_model_def served_isvc.defs scraped_runtime_def m_str_def owned_def processDeltaOf_def)
  have "wf_children ([] :: 'a child_store)" by (simp add: wf_children_def)
  from metrics_objects_settle [OF this this this, of "scraped_env ''8080''" ?i] run show ?thesis by auto
qed

text \<open>
  A dashboard is computed for every service but one that names neither a runtime nor a format: the search then has no
  result and no error, and the code reads the annotations of a nil pointer.
\<close>

theorem dashboard_panics:
  assumes "si_model isvc = Some \<lparr>pm_runtime = None, pm_format = []\<rparr>"
  shows "ReconcileDashboard env isvc api = None"
  using assms by (simp add: ReconcileDashboard_def createDesiredDashboard_def FindSupportingRuntimeForISvc_def)

subsection \<open>Ports\<close>

lemma int32_small: "- (2 ^ 31) \<le> n \<Longrightarrow> n < 2 ^ 31 \<Longrightarrow> int32 n = n"
  by (simp add: int32_def signed_of_int signed_take_bit_int_eq_self)

lemma desired_service_port:
  assumes "FindSupportingRuntimeForISvc (me_runtimes env) isvc = Inr (Some r)" "parse_int 64 (m_str (sr_annotations r) (me_port_key env)) = Some n"
    and "createDesiredMetricsService env isvc = Inr (Some s)"
  shows "se_ports (ch_spec s) = [\<lparr>sp_name = om_name (sr_meta r) @ ''-metrics'', sp_port = int32 n, sp_protocol = ''TCP'',
      sp_target = PortNumber (int32 n), sp_app_protocol = None\<rparr>]"
    and "om_labels (ch_meta s) = [(''name'', metricsName isvc), (RhoaiObservabilityLabel, ''true'')]"
  using assms by (auto simp: createDesiredMetricsService_def map_sum_Inr split: option.splits if_splits dest!: owned_key)

lemma desired_monitor:
  assumes "FindSupportingRuntimeForISvc (me_runtimes env) isvc = Inr (Some r)" "createDesiredServiceMonitor env isvc = Inr (Some m)"
  shows "mo_port (ch_spec m) = om_name (sr_meta r) @ ''-metrics''" "mo_selector (ch_spec m) = [(''name'', metricsName isvc)]"
  using assms by (auto simp: createDesiredServiceMonitor_def map_sum_Inr dest!: owned_key)

text \<open>The port is converted to 32 bits without a check: an annotation beyond them gives a Service with another port.\<close>

theorem metrics_port_wraps:
  "\<exists>s. createDesiredMetricsService (scraped_env ''4294975376'') (demo_model (Some ''rt'') []) = Inr (Some s) \<and>
     map sp_port (se_ports (ch_spec s)) = [8080]"
proof -
  have "parse_int 64 ''4294975376'' = Some 4294975376" by (simp add: parse_int_def undec_def dec_digit_def is_digit_def)
  moreover have "int32 4294975376 = 8080" by (simp add: int32_def)
  ultimately show ?thesis
    by (simp add: createDesiredMetricsService_def scraped_env_def FindSupportingRuntimeForISvc_def demo_model_def served_isvc.defs
        scraped_runtime_def m_str_def owned_def)
qed

subsection \<open>Queries\<close>

text \<open>A template of a query: literal text and variables.\<close>

datatype chunk = Lit string | Var string

fun chunk_text :: "chunk \<Rightarrow> string" where
  "chunk_text (Lit s) = s"
| "chunk_text (Var v) = v"

definition render :: "(string \<times> string) list \<Rightarrow> chunk \<Rightarrow> string" where
  "render vars c = (case c of Lit s \<Rightarrow> s | Var v \<Rightarrow> m_str vars v)"

definition chunk_ok :: "(string \<times> string) list \<Rightarrow> chunk \<Rightarrow> bool" where
  "chunk_ok vars c = (case c of Lit s \<Rightarrow> CHR ''$'' \<notin> set s | Var v \<Rightarrow> v \<in> fst ` set vars)"

lemma replaceAll_literal:
  "\<forall>(old, _) \<in> set pairs. has_prefix ''$'' old \<Longrightarrow> CHR ''$'' \<notin> set s \<Longrightarrow> replaceAll pairs (s @ t) = s @ replaceAll pairs t"
proof (induction s)
  case (Cons c s)
  have "find (\<lambda>(old, _). old \<noteq> [] \<and> has_prefix old (c # s @ t)) pairs = None"
    using Cons.prems by (fastforce simp: find_None_iff has_prefix_iff)
  then show ?case using Cons by simp
qed simp

lemma replaceAll_variable:
  "v \<in> fst ` set (dashboardVariables ns n) \<Longrightarrow>
   replaceAll (dashboardVariables ns n) (v @ t) = m_str (dashboardVariables ns n) v @ replaceAll (dashboardVariables ns n) t"
  by (auto simp: dashboardVariables_def has_prefix_def m_str_def)

text \<open>
  Filling in a query replaces every variable by its value and nothing else: a template of texts without a dollar sign and of the
  known variables becomes the texts with the values in between, whatever the name and the namespace of the service are.
\<close>

theorem SubstituteVariablesInQueries_render:
  assumes "list_all (chunk_ok (dashboardVariables ns n)) chunks"
  shows "SubstituteVariablesInQueries (concat (map chunk_text chunks)) ns n = concat (map (render (dashboardVariables ns n)) chunks)"
  using assms
proof (induction chunks)
  case (Cons c chunks)
  have "\<forall>(old, _) \<in> set (dashboardVariables ns n). has_prefix ''$'' old" by (simp add: dashboardVariables_def has_prefix_def)
  with Cons show ?case
    by (cases c) (auto simp: SubstituteVariablesInQueries_def chunk_ok_def render_def replaceAll_literal replaceAll_variable)
qed (simp add: SubstituteVariablesInQueries_def)

theorem SubstituteVariablesInQueries_render_witness:
  "SubstituteVariablesInQueries ''q{ns=${NAMESPACE}}[${RATE_INTERVAL}]'' ''team'' ''m'' = ''q{ns=team}[1m]''"
  using SubstituteVariablesInQueries_render [of "''team''" "''m''" "[Lit ''q{ns='', Var ''${NAMESPACE}'', Lit ''}['', Var ''${RATE_INTERVAL}'', Lit '']'']"]
  by (simp add: chunk_ok_def render_def dashboardVariables_def m_str_def)

end
