(* ===== verification/PEM_Codec.thy ===== *)
theory PEM_Codec
  imports Prelude
begin

text \<open>
  PEM texts as the certificate code writes and reads them (internal/controller/utils/cert.go). A byte is a character.
  \<open>base64_encode\<close>, \<open>base64_decode\<close> and \<open>pem_encode\<close> are the parts of Go's encoding/base64 and encoding/pem the code uses:
  the standard alphabet with padding, where the decoder skips carriage returns and line feeds, and lines of 64 characters
  between the BEGIN and the END line.
\<close>

section \<open>Base64\<close>

abbreviation LF :: char where "LF \<equiv> CHR 0x0A"
abbreviation CR :: char where "CR \<equiv> CHR 0x0D"

definition b64_char :: "nat \<Rightarrow> char" where
  "b64_char n = (if n < 26 then char_of (65 + n) else if n < 52 then char_of (71 + n)
     else if n < 62 then char_of (n - 4) else if n = 62 then CHR ''+'' else CHR ''/'')"

definition b64_val :: "char \<Rightarrow> nat option" where
  "b64_val c = (let n = of_char c :: nat in
     if 65 \<le> n \<and> n \<le> 90 then Some (n - 65) else if 97 \<le> n \<and> n \<le> 122 then Some (n - 71)
     else if 48 \<le> n \<and> n \<le> 57 then Some (n + 4) else if n = 43 then Some 62 else if n = 47 then Some 63 else None)"

abbreviation byte :: "char \<Rightarrow> nat" where "byte c \<equiv> of_char c"

fun base64_encode :: "string \<Rightarrow> string" where
  "base64_encode [] = []"
| "base64_encode [a] = [b64_char (byte a div 4), b64_char (byte a mod 4 * 16), CHR ''='', CHR ''='']"
| "base64_encode [a, b] =
     [b64_char (byte a div 4), b64_char (byte a mod 4 * 16 + byte b div 16), b64_char (byte b mod 16 * 4), CHR ''='']"
| "base64_encode (a # b # c # bs) =
     b64_char (byte a div 4) # b64_char (byte a mod 4 * 16 + byte b div 16) #
     b64_char (byte b mod 16 * 4 + byte c div 64) # b64_char (byte c mod 64) # base64_encode bs"

text \<open>The last group may be padded; trailing bits are not checked.\<close>

fun b64_quads :: "string \<Rightarrow> string option" where
  "b64_quads [] = Some []"
| "b64_quads (p # q # r # s # rest) =
     (case (b64_val p, b64_val q) of
        (Some x, Some y) \<Rightarrow>
          (let a = char_of (x * 4 + y div 16)
           in if r = CHR ''='' then (if s = CHR ''='' \<and> rest = [] then Some [a] else None)
              else (case b64_val r of
                      None \<Rightarrow> None
                    | Some z \<Rightarrow>
                        (let b = char_of (y mod 16 * 16 + z div 4)
                         in if s = CHR ''='' then (if rest = [] then Some [a, b] else None)
                            else (case (b64_val s, b64_quads rest) of
                                    (Some w, Some bs) \<Rightarrow> Some (a # b # char_of (z mod 4 * 64 + w) # bs)
                                  | _ \<Rightarrow> None))))
      | _ \<Rightarrow> None)"
| "b64_quads _ = None"

definition base64_decode :: "string \<Rightarrow> string option" where
  "base64_decode s = b64_quads (filter (\<lambda>c. c \<noteq> CR \<and> c \<noteq> LF) s)"

section \<open>PEM\<close>

function chunks :: "nat \<Rightarrow> 'a list \<Rightarrow> 'a list list" where
  "chunks n xs = (if n = 0 \<or> xs = [] then [] else take n xs # chunks n (drop n xs))"
  by pat_completeness auto
termination by (relation "measure (\<lambda>(n, xs). length xs)") auto

declare chunks.simps [simp del]

definition pem_encode :: "string \<Rightarrow> string \<Rightarrow> string" where
  "pem_encode type bytes =
     ''-----BEGIN '' @ type @ ''-----'' @ [LF] @ concat (map (\<lambda>l. l @ [LF]) (chunks 64 (base64_encode bytes))) @
     ''-----END '' @ type @ ''-----'' @ [LF]"

definition removePEMLines :: "string \<Rightarrow> string option" where
  "removePEMLines cert =
     base64_decode (join_with [LF]
       (filter (\<lambda>line. \<not> has_prefix ''-----BEGIN'' line \<and> \<not> has_prefix ''-----END'' line) (split_on LF cert)))"

section \<open>Lemmas\<close>

lemma b64_char_cases: "n < 64 \<Longrightarrow> b64_val (b64_char n) = Some n"
  by (auto simp: b64_val_def b64_char_def Let_def)

lemma b64_char_neq: "n < 64 \<Longrightarrow> b64_char n \<notin> {CR, LF, CHR ''='', CHR ''-''}"
  using b64_char_cases [of n] by (auto simp: b64_val_def)

lemma b64_char_eq: "n < 64 \<Longrightarrow> (b64_char n = CHR ''='') = False"
  using b64_char_neq [of n] by simp


text \<open>The four sextets of three bytes, and the bytes back from them.\<close>

lemma byte_div: "byte a div 4 < 64" "byte a div 16 < 16" "byte a div 64 < 4"
  "byte a mod 4 < 4" "byte a mod 16 < 16" "byte a mod 64 < 64"
  using nat_of_char_less_256 [of a] by (simp_all add: less_mult_imp_div_less del: nat_of_char_less_256)

lemma sextets:
  "byte a div 4 < 64" "byte a mod 4 * 16 + byte b div 16 < 64" "byte b mod 16 * 4 + byte c div 64 < 64" "byte c mod 64 < 64"
  "byte a mod 4 * 16 < 64" "byte b mod 16 * 4 < 64"
  using byte_div [of a] byte_div [of b] byte_div [of c] by linarith+

lemma join_digits: "y < m \<Longrightarrow> (x * m + y) div m = x" "y < m \<Longrightarrow> (x * m + y) mod m = y" for x y m :: nat
  by simp_all

lemma unsextets:
  "byte a div 4 * 4 + (byte a mod 4 * 16 + byte b div 16) div 16 = byte a"
  "(byte a mod 4 * 16 + byte b div 16) mod 16 * 16 + (byte b mod 16 * 4 + byte c div 64) div 4 = byte b"
  "(byte b mod 16 * 4 + byte c div 64) mod 4 * 64 + byte c mod 64 = byte c"
  "byte a div 4 * 4 + (byte a mod 4 * 16) div 16 = byte a"
  "(byte a mod 4 * 16 + byte b div 16) mod 16 * 16 + (byte b mod 16 * 4) div 4 = byte b"
proof -
  show "byte a div 4 * 4 + (byte a mod 4 * 16 + byte b div 16) div 16 = byte a"
    "(byte a mod 4 * 16 + byte b div 16) mod 16 * 16 + (byte b mod 16 * 4 + byte c div 64) div 4 = byte b"
    "(byte b mod 16 * 4 + byte c div 64) mod 4 * 64 + byte c mod 64 = byte c"
    "byte a div 4 * 4 + (byte a mod 4 * 16) div 16 = byte a"
    "(byte a mod 4 * 16 + byte b div 16) mod 16 * 16 + (byte b mod 16 * 4) div 4 = byte b"
    using byte_div [of b] byte_div [of c] by (simp_all add: join_digits)
qed

lemma b64_quads_encode: "b64_quads (base64_encode bs) = Some bs"
  by (induction bs rule: base64_encode.induct)
    (simp_all only: base64_encode.simps b64_quads.simps b64_char_cases sextets unsextets b64_char_eq
      option.case prod.case Let_def if_False if_True simp_thms char_of_char prod.inject option.inject)

lemma base64_chars: "c \<in> set (base64_encode bs) \<Longrightarrow> c \<notin> {CR, LF, CHR ''-''}"
  by (induction bs rule: base64_encode.induct) (use b64_char_neq [OF sextets(1)] b64_char_neq [OF sextets(2)]
      b64_char_neq [OF sextets(3)] b64_char_neq [OF sextets(4)] b64_char_neq [OF sextets(5)] b64_char_neq [OF sextets(6)] in auto)

lemma concat_chunks: "0 < n \<Longrightarrow> concat (chunks n xs) = xs"
  by (induction n xs rule: chunks.induct) (subst chunks.simps, simp)

lemma split_on_lines:
  "\<forall>l \<in> set ls. c \<notin> set l \<Longrightarrow> split_on c (concat (map (\<lambda>l. l @ [c]) ls) @ s) = ls @ split_on c s"
  by (induction ls) (simp_all add: split_on_append)

lemma filter_join: "\<not> P c \<Longrightarrow> filter P (join_with [c] ls) = filter P (concat ls)"
  by (induction "[c]" ls rule: join_with.induct) auto

lemma b64_line_kept:
  assumes "l \<in> set (chunks 64 (base64_encode bs))"
  shows "LF \<notin> set l \<and> \<not> has_prefix ''-----BEGIN'' l \<and> \<not> has_prefix ''-----END'' l"
proof -
  have "set l \<subseteq> set (base64_encode bs)"
    using assms concat_chunks [of 64 "base64_encode bs"] by (metis UN_I set_concat subsetI zero_less_numeral)
  with base64_chars [of _ bs] show ?thesis by (fastforce simp: has_prefix_iff)
qed

section \<open>Properties\<close>

text \<open>
  Reading back what \<open>pem.Encode\<close> wrote gives the bytes that were written, whatever their length and
  whatever the type of the block, as long as it is on one line.
\<close>

lemma removePEMLines_pem_encode:
  assumes "LF \<notin> set type"
  shows "removePEMLines (pem_encode type bytes) = Some bytes"
proof -
  let ?b = "base64_encode bytes" and ?keep = "\<lambda>c. c \<noteq> CR \<and> c \<noteq> LF"
  have "split_on LF (pem_encode type bytes) =
      (''-----BEGIN '' @ type @ ''-----'') # chunks 64 ?b @ [''-----END '' @ type @ ''-----'', []]"
    using assms b64_line_kept [of _ bytes]
      split_on_append [of LF "''-----BEGIN '' @ type @ ''-----''"] split_on_append [of LF "''-----END '' @ type @ ''-----''" "[]"]
    by (simp add: pem_encode_def split_on_lines)
  moreover have "filter (\<lambda>l. \<not> has_prefix ''-----BEGIN'' l \<and> \<not> has_prefix ''-----END'' l) (chunks 64 ?b) = chunks 64 ?b"
    using b64_line_kept [of _ bytes] by (simp add: filter_id_conv)
  ultimately have "removePEMLines (pem_encode type bytes) = base64_decode (join_with [LF] (chunks 64 ?b @ [[]]))"
    by (simp add: removePEMLines_def has_prefix_def)
  also have "\<dots> = b64_quads (filter ?keep ?b)"
    by (simp add: base64_decode_def filter_join concat_chunks)
  also have "filter ?keep ?b = ?b"
    using base64_chars [of _ bytes] by (auto simp: filter_id_conv)
  finally show ?thesis by (simp add: b64_quads_encode)
qed

end
