(* ===== verification/Certificates.thy ===== *)
theory Certificates
  imports PEM_Codec Managed_Children
begin

text \<open>
  The self-signed certificates of internal/controller/utils/cert.go: their templates, the Secrets that hold them, when one
  counts as expired, and how the Secret is created and replaced. Keys, serial numbers, signing and the parsing of DER bytes are
  Go's crypto packages, the parameter \<open>crypto\<close>; \<open>NilMapWrite\<close> is Go's panic on
  a write to a nil map. A time is the number of nanoseconds since 1970, and \<open>AddDate\<close> is
  worked out on the Gregorian calendar as Go's time package does.
\<close>

section \<open>Time\<close>

definition second :: int where "second = 1000000000"
definition day_length :: int where "day_length = 24 * 60 * 60 * second"

definition is_leap :: "int \<Rightarrow> bool" where
  "is_leap y = (y mod 4 = 0 \<and> (y mod 100 \<noteq> 0 \<or> y mod 400 = 0))"

text \<open>Days since the first of January of the year 1.\<close>

definition year_start :: "int \<Rightarrow> int" where
  "year_start y = 365 * (y - 1) + (y - 1) div 4 - (y - 1) div 100 + (y - 1) div 400"

definition month_start :: "int \<Rightarrow> nat \<Rightarrow> int" where
  "month_start y m = [0, 31, 59, 90, 120, 151, 181, 212, 243, 273, 304, 334] ! m + (if is_leap y \<and> 2 \<le> m then 1 else 0)"

text \<open>The year of a day, by the cycles of 400, 100, 4 and 1 years.\<close>

definition year_of :: "int \<Rightarrow> int" where
  "year_of n =
     (let n400 = n div 146097; r400 = n mod 146097;
          n100 = min 3 (r400 div 36524); r100 = r400 - 36524 * n100;
          n4 = r100 div 1461; r4 = r100 mod 1461;
          n1 = min 3 (r4 div 365)
      in 400 * n400 + 100 * n100 + 4 * n4 + n1 + 1)"

definition month_of :: "int \<Rightarrow> nat" where
  "month_of n = last (filter (\<lambda>m. month_start (year_of n) m \<le> n - year_start (year_of n)) [0..<12])"

text \<open>
  \<open>t.AddDate(years, 0, 0)\<close>: the same month and day, counted from the start of the month in the other year, so that the
  29th of February becomes the first of March of a year without one.
\<close>

definition AddDate_years :: "int \<Rightarrow> int \<Rightarrow> int" where
  "AddDate_years k t =
     (let n = t div day_length + 719162; y = year_of n; m = month_of n; d = n - year_start y - month_start y m
      in t + (year_start (y + k) + month_start (y + k) m + d - n) * day_length)"

section \<open>Certificates\<close>

datatype key_usage = KeyEncipherment | DigitalSignature | CertSign | DataEncipherment

text \<open>\<open>x509.Certificate\<close>: a template before signing, and what is parsed from the signed bytes.\<close>

record x509 =
  x_raw :: string
  x_serial :: int
  x_common_name :: string
  x_organization :: "string list"
  x_not_before :: int
  x_not_after :: int
  x_usage :: "key_usage list"
  x_server_auth :: bool
  x_is_ca :: bool
  x_ips :: "string option list"
  x_dns :: "string list"

datatype cert_error = KeyFailed | SerialFailed | SigningFailed | BadBase64 | BadCertificate | BadKey | NilMapWrite | CertApi api_error

record 'k crypto =
  cy_now :: int
  cy_generate :: "cert_error + 'k"
  cy_serial :: "cert_error + int"
  cy_parse_ip :: "string \<Rightarrow> string option"
  cy_sign :: "x509 \<Rightarrow> x509 \<Rightarrow> 'k \<Rightarrow> 'k \<Rightarrow> cert_error + string"
  cy_parse :: "string \<Rightarrow> cert_error + x509"
  cy_pkcs1 :: "'k \<Rightarrow> string"
  cy_parse_pkcs1 :: "string \<Rightarrow> cert_error + 'k"
  cy_pkcs8 :: "'k \<Rightarrow> cert_error + string"

definition caTemplate :: "'k crypto \<Rightarrow> int \<Rightarrow> string \<Rightarrow> x509" where
  "caTemplate cy serial addr =
     (let base = \<lparr>x_raw = [], x_serial = serial, x_common_name = ''self-signed-ca-cert'', x_organization = [''opendatahub-self-signed''],
            x_not_before = cy_now cy, x_not_after = cy_now cy + second * 60 * 60 * 24 * 365 * 5,
            x_usage = [KeyEncipherment, DigitalSignature, CertSign], x_server_auth = True, x_is_ca = True, x_ips = [], x_dns = []\<rparr>
      in if addr \<noteq> [] then
           (let named = (case cy_parse_ip cy addr of
                  Some ip \<Rightarrow> base\<lparr>x_ips := x_ips base @ [Some ip]\<rparr>
                | None \<Rightarrow> base\<lparr>x_dns := x_dns base @ (if has_prefix ''*.'' addr then [drop 2 addr] else []) @ [addr]\<rparr>)
            in named\<lparr>x_dns := x_dns named @ [''localhost'']\<rparr>)
         else base)"

text \<open>\<open>pem.Encode\<close> fails only when its writer does, and a \<open>bytes.Buffer\<close> does not.\<close>

definition generateCACertificate :: "'k crypto \<Rightarrow> string \<Rightarrow> cert_error + (string \<times> string)" where
  "generateCACertificate cy addr =
     (case cy_generate cy of
        Inl e \<Rightarrow> Inl e
      | Inr key \<Rightarrow>
          (case cy_serial cy of
             Inl e \<Rightarrow> Inl e
           | Inr serial \<Rightarrow>
               (let tmpl = caTemplate cy serial addr
                in case cy_sign cy tmpl tmpl key key of
                     Inl e \<Rightarrow> Inl e
                   | Inr der \<Rightarrow>
                       (case cy_parse cy der of
                          Inl e \<Rightarrow> Inl e
                        | Inr certificate \<Rightarrow>
                            Inr (pem_encode ''CERTIFICATE'' (x_raw certificate), pem_encode ''PRIVATE KEY'' (cy_pkcs1 cy key))))))"

section \<open>Secrets\<close>

record secret_body =
  sy_type :: string
  sy_data :: "string gomap"
  sy_version :: string  \<comment> \<open>the resource version, empty for an object built here\<close>

type_synonym cert_result = "secret_body child_write list \<times> cert_error option"

definition TLSCertKey :: string where "TLSCertKey = ''tls.crt''"
definition TLSPrivateKeyKey :: string where "TLSPrivateKeyKey = ''tls.key''"
definition SecretTypeTLS :: string where "SecretTypeTLS = ''kubernetes.io/tls''"

definition managed_labels :: "string \<Rightarrow> string gomap" where
  "managed_labels n = [(''opendatahub.io/managed'', ''true''), (''app.kubernetes.io/name'', n),
     (''app.kubernetes.io/component'', ''odh-model-serving''), (''app.kubernetes.io/part-of'', ''kserve''),
     (''app.kubernetes.io/managed-by'', ''odh-model-controller'')]"

definition tlsSecret :: "object_meta \<Rightarrow> string \<times> string \<Rightarrow> secret_body child" where
  "tlsSecret m = (\<lambda>(cert, key). \<lparr>ch_meta = m,
     ch_spec = \<lparr>sy_type = SecretTypeTLS, sy_data = [(TLSCertKey, cert), (TLSPrivateKeyKey, key)], sy_version = []\<rparr>\<rparr>)"

definition GenerateSelfSignedCACertificateAsSecret ::
    "'k crypto \<Rightarrow> string \<Rightarrow> string \<Rightarrow> string \<Rightarrow> cert_error + secret_body child" where
  "GenerateSelfSignedCACertificateAsSecret cy n addr namespace =
     (case generateCACertificate cy addr of
        Inl e \<Rightarrow> Inl e
      | Inr pair \<Rightarrow> Inr (tlsSecret (empty_meta\<lparr>om_name := n, om_namespace := namespace,
          om_labels := managed_labels ''self-signed-cert''\<rparr>) pair))"

definition isCertExpired :: "'k crypto \<Rightarrow> string \<Rightarrow> int \<Rightarrow> cert_error + bool" where
  "isCertExpired cy cert beforeYear =
     (case removePEMLines cert of
        None \<Rightarrow> Inl BadBase64
      | Some stripedCert \<Rightarrow>
          (case cy_parse cy stripedCert of
             Inl e \<Rightarrow> Inl e
           | Inr parsedCert \<Rightarrow>
               (let isExpired = (cy_now cy = x_not_after parsedCert \<or> x_not_after parsedCert < cy_now cy)
                in Inr (if \<not> isExpired \<and> beforeYear \<noteq> 0
                        then (let threshold = AddDate_years (- beforeYear) (x_not_after parsedCert)
                              in threshold < cy_now cy \<or> cy_now cy = threshold)
                        else isExpired))))"

definition recreateSecret :: "secret_body child_api \<Rightarrow> secret_body child \<Rightarrow> secret_body child \<Rightarrow> cert_result" where
  "recreateSecret api existingSecret newSecret =
     (case ca_delete api (child_key existingSecret) of
        Some e \<Rightarrow> ([DeleteChild (child_key existingSecret)], Some (CertApi e))
      | None \<Rightarrow> ([DeleteChild (child_key existingSecret), CreateChild newSecret], map_option CertApi (ca_create api newSecret)))"

definition generateCertSecret :: "'k crypto \<Rightarrow> secret_body child_api \<Rightarrow> secret_body child \<Rightarrow> cert_result" where
  "generateCertSecret cy api certSecret =
     (case ca_get api (child_key certSecret) of
        Inr existingSecret \<Rightarrow>
          (case isCertExpired cy (m_str (sy_data (ch_spec existingSecret)) TLSCertKey) 2 of
             Inl e \<Rightarrow> ([], Some e)
           | Inr certExpired \<Rightarrow>
               if sy_type (ch_spec existingSecret) \<noteq> sy_type (ch_spec certSecret) \<or> certExpired
               then recreateSecret api existingSecret certSecret
               else ([], None))
      | Inl e \<Rightarrow>
          if e = NotFound then ([CreateChild certSecret], map_option CertApi (ca_create api certSecret))
          else ([], Some (CertApi e)))"

definition CreateSelfSignedCACertificate ::
    "'k crypto \<Rightarrow> secret_body child_api \<Rightarrow> string \<Rightarrow> string \<Rightarrow> string \<Rightarrow> cert_result" where
  "CreateSelfSignedCACertificate cy api secretName domain namespace =
     (case GenerateSelfSignedCACertificateAsSecret cy secretName domain namespace of
        Inl e \<Rightarrow> ([], Some e)
      | Inr certSecret \<Rightarrow> generateCertSecret cy api certSecret)"

section \<open>Certificates the CA issues\<close>

definition leafTemplate :: "'k crypto \<Rightarrow> int \<Rightarrow> string list \<Rightarrow> string list \<Rightarrow> x509" where
  "leafTemplate cy serial sanIPs sanDNSs =
     \<lparr>x_raw = [], x_serial = serial, x_common_name = ''self-signed-cert'', x_organization = [''opendatahub-self-signed''],
      x_not_before = cy_now cy, x_not_after = cy_now cy + second * 60 * 60 * 24 * 365 * 3,
      x_usage = [KeyEncipherment, DigitalSignature, DataEncipherment], x_server_auth = False, x_is_ca = False,
      x_ips = filter (\<lambda>ip. ip \<noteq> None) (map (cy_parse_ip cy) sanIPs) @ [cy_parse_ip cy ''127.0.0.1''],
      x_dns = sanDNSs @ [''localhost'']\<rparr>"

definition issueCertificate ::
    "'k crypto \<Rightarrow> string list \<Rightarrow> string list \<Rightarrow> x509 \<Rightarrow> 'k \<Rightarrow> cert_error + (string \<times> string)" where
  "issueCertificate cy sanIPs sanDNSs caCert caPrivateKey =
     (case cy_generate cy of
        Inl e \<Rightarrow> Inl e
      | Inr key \<Rightarrow>
     (case cy_serial cy of
        Inl e \<Rightarrow> Inl e
      | Inr serial \<Rightarrow>
     (case cy_sign cy (leafTemplate cy serial sanIPs sanDNSs) caCert key caPrivateKey of
        Inl e \<Rightarrow> Inl e
      | Inr der \<Rightarrow>
     (case cy_parse cy der of
        Inl e \<Rightarrow> Inl e
      | Inr certificate \<Rightarrow>
     (case cy_pkcs8 cy key of
        Inl e \<Rightarrow> Inl e
      | Inr privateKeyBytes \<Rightarrow>
          Inr (pem_encode ''CERTIFICATE'' (x_raw certificate), pem_encode ''PRIVATE KEY'' privateKeyBytes))))))"

definition generateCertificate ::
    "'k crypto \<Rightarrow> string list \<Rightarrow> string list \<Rightarrow> secret_body child \<Rightarrow> cert_error + (string \<times> string)" where
  "generateCertificate cy sanIPs sanDNSs caCertSecret =
     (case removePEMLines (m_str (sy_data (ch_spec caCertSecret)) TLSCertKey) of
        None \<Rightarrow> Inl BadBase64
      | Some stripedCert \<Rightarrow>
     (case cy_parse cy stripedCert of
        Inl e \<Rightarrow> Inl e
      | Inr caCert \<Rightarrow>
     (case removePEMLines (m_str (sy_data (ch_spec caCertSecret)) TLSPrivateKeyKey) of
        None \<Rightarrow> Inl BadBase64
      | Some stripedPrivateKey \<Rightarrow>
     (case cy_parse_pkcs1 cy stripedPrivateKey of
        Inl e \<Rightarrow> Inl e
      | Inr caPrivateKey \<Rightarrow> issueCertificate cy sanIPs sanDNSs caCert caPrivateKey))))"

definition GenerateSelfSignedCertificateAsSecret ::
    "'k crypto \<Rightarrow> secret_body child \<Rightarrow> string \<Rightarrow> string \<Rightarrow> string list \<Rightarrow> string list \<Rightarrow> cert_error + secret_body child" where
  "GenerateSelfSignedCertificateAsSecret cy caCertSecret targetSecretName targetNamespace sanIPs sanDNSs =
     (case generateCertificate cy sanIPs sanDNSs caCertSecret of
        Inl e \<Rightarrow> Inl e
      | Inr pair \<Rightarrow> Inr (tlsSecret (empty_meta\<lparr>om_name := targetSecretName, om_namespace := targetNamespace\<rparr>) pair))"

definition CreateSelfSignedCertificate ::
    "'k crypto \<Rightarrow> secret_body child_api \<Rightarrow> string \<Rightarrow> string \<Rightarrow> string \<Rightarrow> string \<Rightarrow> string list \<Rightarrow> string list \<Rightarrow>
     secret_body child_write list \<times> (cert_error + secret_body child)" where
  "CreateSelfSignedCertificate cy api caSecretName caSecretNamespace targetSecretName targetNamespace sanIPs sanDNSs =
     (case ca_get api (caSecretNamespace, caSecretName) of
        Inl e \<Rightarrow> ([], Inl (CertApi e))
      | Inr caCertSecret \<Rightarrow>
          (case GenerateSelfSignedCertificateAsSecret cy caCertSecret targetSecretName targetNamespace sanIPs sanDNSs of
             Inl e \<Rightarrow> ([], Inl e)
           | Inr certSecret \<Rightarrow>
               (case generateCertSecret cy api certSecret of
                  (ws, Some e) \<Rightarrow> (ws, Inl e)
                | (ws, None) \<Rightarrow> (ws, Inr certSecret))))"

section \<open>Lemmas\<close>

lemma is_leap_twice:
  assumes "is_leap y"
  shows "\<not> is_leap (y - 1)"
proof -
  have "y mod 4 = 0 \<Longrightarrow> (y - 1) mod 4 \<noteq> 0" by presburger
  with assms show ?thesis by (auto simp: is_leap_def)
qed

lemma div_step:
  fixes y k :: int
  assumes "0 < k"
  shows "(y - 1) div k = y div k - (if y mod k = 0 then 1 else 0)"
proof (cases "y mod k = 0")
  case True
  then have "y - 1 = k * (y div k - 1) + (k - 1)" using mult_div_mod_eq [of k y] by (simp add: algebra_simps)
  with True assms show ?thesis using int_div_pos_eq [of "y - 1" k "y div k - 1" "k - 1"] by simp
next
  case False
  have "y - 1 = k * (y div k) + (y mod k - 1)" by (simp add: algebra_simps)
  moreover have "0 \<le> y mod k - 1" "y mod k - 1 < k"
    using False assms pos_mod_sign [of k y] pos_mod_bound [of k y] by linarith+
  ultimately show ?thesis using False int_div_pos_eq [of "y - 1" k "y div k" "y mod k - 1"] by simp
qed

lemma year_length: "year_start (y + 1) = year_start y + 365 + (if is_leap y then 1 else 0)"
proof -
  have "(100 :: int) dvd y \<Longrightarrow> 4 dvd y" "(400 :: int) dvd y \<Longrightarrow> 100 dvd y" by (rule dvd_trans; simp)+
  then show ?thesis
    by (auto simp: year_start_def is_leap_def div_step mod_eq_0_iff_dvd)
qed

text \<open>The calendar is right: every day lies in its year.\<close>

lemma year_start_cycles:
  assumes "0 \<le> b" "b \<le> 3" "0 \<le> c" "c \<le> 24" "0 \<le> d" "d \<le> 3"
  shows "year_start (400 * a + 100 * b + 4 * c + d + 1) = 146097 * a + 36524 * b + 1461 * c + 365 * d"
proof -
  have "(400 * a + 100 * b + 4 * c + d) div 4 = 100 * a + 25 * b + c"
    "(400 * a + 100 * b + 4 * c + d) div 100 = 4 * a + b" "(400 * a + 100 * b + 4 * c + d) div 400 = a"
    using assms by (intro int_div_pos_eq [where r = "d"] int_div_pos_eq [where r = "4 * c + d"]
        int_div_pos_eq [where r = "100 * b + 4 * c + d"]; simp)+
  then show ?thesis by (simp add: year_start_def)
qed

lemma year_of_day: "year_start (year_of n) \<le> n \<and> n < year_start (year_of n + 1)"
proof -
  define a r where "a = n div 146097" and "r = n mod 146097"
  define b s where "b = min 3 (r div 36524)" and "s = r - 36524 * b"
  define c u where "c = s div 1461" and "u = s mod 1461"
  define d where "d = min 3 (u div 365)"
  have n: "n = 146097 * a + r" "0 \<le> r" "r < 146097" by (simp_all add: a_def r_def)
  have b: "0 \<le> b" "b \<le> 3" "0 \<le> s" "s < 36525" "b < 3 \<Longrightarrow> s < 36524" using n by (auto simp: b_def s_def min_def)
  have c: "0 \<le> c" "c \<le> 24" "s = 1461 * c + u" "0 \<le> u" "u < 1461" using b by (auto simp: c_def u_def)
  have d: "0 \<le> d" "d \<le> 3" "0 \<le> u - 365 * d" "u - 365 * d < 366" "d < 3 \<Longrightarrow> u - 365 * d < 365" using c by (auto simp: d_def min_def)
  have y: "year_of n = 400 * a + 100 * b + 4 * c + d + 1"
    by (simp add: year_of_def Let_def a_def r_def b_def s_def c_def u_def d_def)
  have start: "year_start (year_of n) = 146097 * a + 36524 * b + 1461 * c + 365 * d"
    unfolding y using b c d by (intro year_start_cycles) auto
  have "is_leap (year_of n)" if "u - 365 * d = 365"
  proof -
    have "d = 3" "u = 1460" using that d by linarith+
    then have y4: "year_of n = 400 * a + 100 * b + 4 * (c + 1)" using y by simp
    show ?thesis
    proof (cases "c = 24")
      case True
      then have "b = 3" using b c \<open>u = 1460\<close> by linarith
      with True y4 have "year_of n = 400 * (a + 1)" by simp
      then show ?thesis by (simp add: is_leap_def)
    next
      case False
      then have "(100 * (4 * a + b) + 4 * (c + 1)) mod 100 \<noteq> 0"
        using c by (simp only: mod_mult_self4) simp
      moreover have "year_of n = 100 * (4 * a + b) + 4 * (c + 1)" "year_of n = 4 * (100 * a + 25 * b + c + 1)" using y4 by simp_all
      ultimately show ?thesis by (metis is_leap_def mod_mult_self1_is_0)
    qed
  qed
  then have "u - 365 * d < 365 + (if is_leap (year_of n) then 1 else 0)" using d by (cases "u - 365 * d = 365") auto
  with start n c d show ?thesis by (simp add: year_length s_def)
qed

lemma two_years_earlier:
  "730 \<le> year_start y + month_start y m - (year_start (y - 2) + month_start (y - 2) m)"
  "year_start y + month_start y m - (year_start (y - 2) + month_start (y - 2) m) \<le> 731"
  using year_length [of "y - 1"] year_length [of "y - 2"] is_leap_twice [of y] is_leap_twice [of "y - 1"]
  by (auto simp: month_start_def)

lemma AddDate_two_years:
  "t - 731 * day_length \<le> AddDate_years (- 2) t" "AddDate_years (- 2) t \<le> t - 730 * day_length"
proof -
  define n y m where "n = t div day_length + 719162" and "y = year_of n" and "m = month_of n"
  have "AddDate_years (- 2) t = t - (year_start y + month_start y m - (year_start (y - 2) + month_start (y - 2) m)) * day_length"
    by (simp add: AddDate_years_def Let_def n_def y_def m_def algebra_simps)
  with two_years_earlier [of y m] show "t - 731 * day_length \<le> AddDate_years (- 2) t" "AddDate_years (- 2) t \<le> t - 730 * day_length"
    by (simp_all add: day_length_def second_def)
qed

text \<open>What \<open>isCertExpired\<close> says of a certificate that parses.\<close>

lemma isCertExpired_two:
  assumes "removePEMLines cert = Some der" "cy_parse cy der = Inr c"
  shows "isCertExpired cy cert 2 = Inr (AddDate_years (- 2) (x_not_after c) \<le> cy_now cy)"
  using assms AddDate_two_years(2) [of "x_not_after c"]
  by (auto simp: isCertExpired_def Let_def day_length_def second_def)

text \<open>
  What Go's crypto packages document: signed bytes parse to a certificate that keeps them and the end of validity, which is
  stored in whole seconds, and a marshalled key parses to the key.
\<close>

definition crypto_laws :: "'k crypto \<Rightarrow> bool" where
  "crypto_laws cy =
     ((\<forall>tmpl parent pub signer der. cy_sign cy tmpl parent pub signer = Inr der \<longrightarrow>
         (\<exists>c. cy_parse cy der = Inr c \<and> x_raw c = der \<and> x_not_after c = x_not_after tmpl div second * second)) \<and>
      (\<forall>k. cy_parse_pkcs1 cy (cy_pkcs1 cy k) = Inr k))"

lemma caTemplate_not_after [simp]: "x_not_after (caTemplate cy serial addr) = cy_now cy + 1825 * day_length"
  by (simp add: caTemplate_def Let_def day_length_def split: option.split)

text \<open>
  The key and the certificate of a run that makes a CA: the key that was generated, and the bytes signed for the template with that key, parsed.
\<close>

definition made_CA :: "'k crypto \<Rightarrow> string \<Rightarrow> string \<Rightarrow> x509 \<Rightarrow> 'k \<Rightarrow> bool" where
  "made_CA cy addr der caCert k =
     (cy_generate cy = Inr k \<and> (\<exists>serial. cy_serial cy = Inr serial \<and>
        cy_sign cy (caTemplate cy serial addr) (caTemplate cy serial addr) k k = Inr der) \<and> cy_parse cy der = Inr caCert)"

lemma generateCACertificate_reads_back:
  assumes laws: "crypto_laws cy" and gen: "generateCACertificate cy addr = Inr (cert, key)"
  obtains der c k where "removePEMLines cert = Some der" "cy_parse cy der = Inr c"
    "x_not_after c = (cy_now cy + 1825 * day_length) div second * second"
    "removePEMLines key = Some (cy_pkcs1 cy k)" "made_CA cy addr der c k"
proof -
  obtain k serial der c where k: "cy_generate cy = Inr k" "cy_serial cy = Inr serial" and s: "cy_sign cy (caTemplate cy serial addr) (caTemplate cy serial addr) k k = Inr der"
    and p: "cy_parse cy der = Inr c" "cert = pem_encode ''CERTIFICATE'' (x_raw c)" "key = pem_encode ''PRIVATE KEY'' (cy_pkcs1 cy k)"
    using gen by (auto simp: generateCACertificate_def Let_def split: sum.splits)
  obtain c' where "cy_parse cy der = Inr c'" "x_raw c' = der" "x_not_after c' = (cy_now cy + 1825 * day_length) div second * second"
    using laws s by (fastforce simp: crypto_laws_def)
  with p k s that show ?thesis by (auto simp: removePEMLines_pem_encode made_CA_def)
qed

lemma CA_renewal_window:
  assumes laws: "crypto_laws cy" and gen: "generateCACertificate cy addr = Inr (cert, key)" and later: "cy_parse cy' = cy_parse cy"
  shows "cy_now cy' \<le> cy_now cy + 1094 * day_length - second \<Longrightarrow> isCertExpired cy' cert 2 = Inr False"
    and "cy_now cy + 1095 * day_length \<le> cy_now cy' \<Longrightarrow> isCertExpired cy' cert 2 = Inr True"
proof -
  obtain der c k where d: "removePEMLines cert = Some der" "cy_parse cy der = Inr c"
    and n: "x_not_after c = (cy_now cy + 1825 * day_length) div second * second"
    using generateCACertificate_reads_back [OF laws gen] by metis
  have e: "isCertExpired cy' cert 2 = Inr (AddDate_years (- 2) (x_not_after c) \<le> cy_now cy')"
    using isCertExpired_two [OF d(1), of cy'] d(2) later by simp
  have "x_not_after c \<le> cy_now cy + 1825 * day_length" "cy_now cy + 1825 * day_length - second < x_not_after c"
    using minus_mod_eq_div_mult [of "cy_now cy + 1825 * day_length" second]
      pos_mod_bound [of second "cy_now cy + 1825 * day_length"] pos_mod_sign [of second "cy_now cy + 1825 * day_length"]
    unfolding n by (simp_all add: second_def)
  with AddDate_two_years [of "x_not_after c"] e
  show "cy_now cy' \<le> cy_now cy + 1094 * day_length - second \<Longrightarrow> isCertExpired cy' cert 2 = Inr False"
    and "cy_now cy + 1095 * day_length \<le> cy_now cy' \<Longrightarrow> isCertExpired cy' cert 2 = Inr True" by auto
qed

lemma tlsSecret_simps [simp]:
  "child_key (tlsSecret m pair) = (om_namespace m, om_name m)" "sy_type (ch_spec (tlsSecret m pair)) = SecretTypeTLS"
  "m_str (sy_data (ch_spec (tlsSecret m pair))) TLSCertKey = fst pair"
  "m_str (sy_data (ch_spec (tlsSecret m pair))) TLSPrivateKeyKey = snd pair"
  by (simp_all add: tlsSecret_def child_key_def m_str_def TLSCertKey_def TLSPrivateKeyKey_def split: prod.split)

lemma GenerateCA_iff:
  "GenerateSelfSignedCACertificateAsSecret cy n addr ns = Inr s \<longleftrightarrow>
     (\<exists>pair. generateCACertificate cy addr = Inr pair \<and> s = tlsSecret (empty_meta\<lparr>om_name := n, om_namespace := ns,
        om_labels := managed_labels ''self-signed-cert''\<rparr>) pair)"
  by (auto simp: GenerateSelfSignedCACertificateAsSecret_def split: sum.splits)

text \<open>A Secret the CA code made can sign: the certificate and the key read back are those that went in.\<close>

lemma CA_secret_signs:
  assumes laws: "crypto_laws cy" and made: "GenerateSelfSignedCACertificateAsSecret cy n addr ns = Inr s"
    and later: "cy_parse cy' = cy_parse cy" "cy_parse_pkcs1 cy' = cy_parse_pkcs1 cy"
  obtains der caCert k where "made_CA cy addr der caCert k" "x_not_after caCert = (cy_now cy + 1825 * day_length) div second * second"
    "generateCertificate cy' ips dns s = issueCertificate cy' ips dns caCert k"
proof -
  obtain cert key where g: "generateCACertificate cy addr = Inr (cert, key)"
    and d: "m_str (sy_data (ch_spec s)) TLSCertKey = cert" "m_str (sy_data (ch_spec s)) TLSPrivateKeyKey = key"
    using made by (auto simp: GenerateCA_iff)
  obtain der c k where "removePEMLines cert = Some der" "cy_parse cy der = Inr c"
    "x_not_after c = (cy_now cy + 1825 * day_length) div second * second"
    "removePEMLines key = Some (cy_pkcs1 cy k)" "made_CA cy addr der c k"
    using generateCACertificate_reads_back [OF laws g] by metis
  moreover have "cy_parse_pkcs1 cy' (cy_pkcs1 cy k) = Inr k" using laws later by (simp add: crypto_laws_def)
  ultimately show ?thesis using later by (intro that [of der c k]) (simp_all add: generateCertificate_def d)
qed

lemma CA_fresh_kept:
  assumes laws: "crypto_laws cy" and made: "GenerateSelfSignedCACertificateAsSecret cy n addr ns = Inr s" and st: "map_of st (ns, n) = Some s"
  shows "CreateSelfSignedCACertificate cy (child_store_api st) n addr ns = ([], None)"
proof -
  obtain cert key where g: "generateCACertificate cy addr = Inr (cert, key)"
    and d: "m_str (sy_data (ch_spec s)) TLSCertKey = cert" "child_key s = (ns, n)" using made by (auto simp: GenerateCA_iff)
  have "isCertExpired cy cert 2 = Inr False"
    by (rule CA_renewal_window [OF laws g refl]) (simp add: day_length_def second_def)
  then show ?thesis by (simp add: CreateSelfSignedCACertificate_def made generateCertSecret_def d st)
qed

section \<open>Properties\<close>

text \<open>
  Property C11. The CA certificate is made once and renewed in time. Where no Secret was there, the first call stores the generated certificate;
  at any later time up to three years (less a day and a second) after, a call writes nothing, so that the CA stays the same; from three
  years on (five years of validity, less the two the code keeps in reserve) a call replaces it by a new one.
\<close>

theorem CA_certificate_lifecycle:
  assumes laws: "crypto_laws cy" and made: "GenerateSelfSignedCACertificateAsSecret cy n addr ns = Inr s"
    and absent: "map_of st (ns, n) = None"
    and st1: "st1 = fold apply_child_write (fst (CreateSelfSignedCACertificate cy (child_store_api st) n addr ns)) st"
    and later: "cy_parse cy' = cy_parse cy" "GenerateSelfSignedCACertificateAsSecret cy' n addr ns = Inr s'"
  shows "map_of st1 (ns, n) = Some s \<and>
    (cy_now cy' \<le> cy_now cy + 1094 * day_length - second \<longrightarrow>
       CreateSelfSignedCACertificate cy' (child_store_api st1) n addr ns = ([], None)) \<and>
    (cy_now cy + 1095 * day_length \<le> cy_now cy' \<longrightarrow>
       CreateSelfSignedCACertificate cy' (child_store_api st1) n addr ns = ([DeleteChild (ns, n), CreateChild s'], None))"
proof -
  obtain cert key where g: "generateCACertificate cy addr = Inr (cert, key)" and s: "s = tlsSecret (empty_meta\<lparr>om_name := n,
      om_namespace := ns, om_labels := managed_labels ''self-signed-cert''\<rparr>) (cert, key)" using made by (auto simp: GenerateCA_iff)
  have s': "child_key s' = (ns, n)" "sy_type (ch_spec s') = SecretTypeTLS" using later(2) by (auto simp: GenerateCA_iff)
  have one: "map_of st1 (ns, n) = Some s"
    using absent by (simp add: st1 CreateSelfSignedCACertificate_def made generateCertSecret_def s)
  have key: "child_key s = (ns, n)" "sy_type (ch_spec s) = SecretTypeTLS" "m_str (sy_data (ch_spec s)) TLSCertKey = cert" by (simp_all add: s)
  have "CreateSelfSignedCACertificate cy' (child_store_api st1) n addr ns =
      (case isCertExpired cy' cert 2 of Inl e \<Rightarrow> ([], Some e)
       | Inr x \<Rightarrow> if x then ([DeleteChild (ns, n), CreateChild s'], None) else ([], None))"
    by (simp add: CreateSelfSignedCACertificate_def later(2) generateCertSecret_def recreateSecret_def s' one key split: sum.split)
  with one CA_renewal_window [OF laws g later(1)] show ?thesis by auto
qed

text \<open>A crypto package whose signed bytes are the decimal digits of the end of validity.\<close>

definition demo_cert :: "string \<Rightarrow> int \<Rightarrow> x509" where
  "demo_cert der t = \<lparr>x_raw = der, x_serial = 1, x_common_name = ''self-signed-ca-cert'', x_organization = [], x_not_before = 0,
     x_not_after = t, x_usage = [], x_server_auth = True, x_is_ca = True, x_ips = [], x_dns = []\<rparr>"

definition demo_crypto :: "int \<Rightarrow> string crypto" where
  "demo_crypto t = \<lparr>cy_now = t, cy_generate = Inr ''k'', cy_serial = Inr 1, cy_parse_ip = (\<lambda>_. None),
     cy_sign = (\<lambda>tmpl _ _ _. let n = x_not_after tmpl div second in
       if - (2 ^ 63) \<le> n \<and> n < 2 ^ 63 then Inr (dec_int n) else Inl SigningFailed),
     cy_parse = (\<lambda>der. case parse_int 64 der of None \<Rightarrow> Inl BadCertificate | Some n \<Rightarrow> Inr (demo_cert der (n * second))),
     cy_pkcs1 = (\<lambda>k. k), cy_parse_pkcs1 = Inr, cy_pkcs8 = Inr\<rparr>"

lemma demo_crypto_laws: "crypto_laws (demo_crypto t)"
  by (auto simp: crypto_laws_def demo_crypto_def demo_cert_def parse_int_dec_int Let_def split: if_splits)

lemma demo_crypto_makes:
  "0 \<le> t \<Longrightarrow> t \<le> 2000 * day_length \<Longrightarrow> \<exists>s. GenerateSelfSignedCACertificateAsSecret (demo_crypto t) n [] ns = Inr s"
  by (auto simp: GenerateCA_iff generateCACertificate_def demo_crypto_def Let_def parse_int_dec_int day_length_def second_def
      caTemplate_def)

lemma demo_crypto_issues:
  assumes "GenerateSelfSignedCACertificateAsSecret (demo_crypto 0) n [] ns = Inr s"
  shows "\<exists>cert key. generateCertificate (demo_crypto 0) ips dns s = Inr (cert, key)"
proof -
  obtain caCert k where "generateCertificate (demo_crypto 0) ips dns s = issueCertificate (demo_crypto 0) ips dns caCert k"
    using CA_secret_signs [OF demo_crypto_laws assms refl refl] by blast
  then show ?thesis
    by (simp add: issueCertificate_def demo_crypto_def leafTemplate_def parse_int_dec_int second_def Let_def)
qed

theorem CA_certificate_lifecycle_witness:
  "\<exists>s. GenerateSelfSignedCACertificateAsSecret (demo_crypto 0) ''ray-ca-tls'' [] ''odh'' = Inr s \<and>
     CreateSelfSignedCACertificate (demo_crypto (1000 * day_length))
       (child_store_api (fold apply_child_write (fst (CreateSelfSignedCACertificate (demo_crypto 0) (child_store_api []) ''ray-ca-tls'' [] ''odh'')) []))
       ''ray-ca-tls'' [] ''odh'' = ([], None)"
proof -
  obtain s where s: "GenerateSelfSignedCACertificateAsSecret (demo_crypto 0) ''ray-ca-tls'' [] ''odh'' = Inr s"
    using demo_crypto_makes [of 0] by (auto simp: day_length_def second_def)
  obtain s' where "GenerateSelfSignedCACertificateAsSecret (demo_crypto (1000 * day_length)) ''ray-ca-tls'' [] ''odh'' = Inr s'"
    using demo_crypto_makes [of "1000 * day_length"] by (auto simp: day_length_def second_def)
  with CA_certificate_lifecycle [OF demo_crypto_laws s _ refl, of "[]" "demo_crypto (1000 * day_length)" s'] s show ?thesis
    by (simp add: demo_crypto_def day_length_def second_def)
qed

text \<open>
  Property C32. What the CA code writes it can read again. A Secret it made holds the certificate that was signed for the CA's template and the generated key: a
  later call that issues a certificate from the Secret, with a library that parses as the first one did, signs with exactly that key and the certificate
  parsed from exactly those bytes.
\<close>

theorem CA_secret_roundtrip:
  assumes "crypto_laws cy" "GenerateSelfSignedCACertificateAsSecret cy n addr ns = Inr s"
    and "cy_parse cy' = cy_parse cy" "cy_parse_pkcs1 cy' = cy_parse_pkcs1 cy"
  shows "\<exists>k serial der caCert. cy_generate cy = Inr k \<and> cy_serial cy = Inr serial \<and>
    cy_sign cy (caTemplate cy serial addr) (caTemplate cy serial addr) k k = Inr der \<and> cy_parse cy der = Inr caCert \<and> x_raw caCert = der \<and>
    generateCertificate cy' ips dns s = issueCertificate cy' ips dns caCert k"
proof -
  obtain der caCert k where m: "made_CA cy addr der caCert k" "generateCertificate cy' ips dns s = issueCertificate cy' ips dns caCert k"
    by (rule CA_secret_signs [OF assms, of ips dns]) blast
  moreover have "x_raw caCert = der" using m(1) assms(1) by (fastforce simp: made_CA_def crypto_laws_def)
  ultimately show ?thesis by (auto simp: made_CA_def)
qed

theorem CA_secret_roundtrip_witness:
  "\<exists>s caCert. GenerateSelfSignedCACertificateAsSecret (demo_crypto 0) ''ray-ca-tls'' [] ''odh'' = Inr s \<and>
     generateCertificate (demo_crypto 7) [''10.0.0.1''] [] s = issueCertificate (demo_crypto 7) [''10.0.0.1''] [] caCert ''k''"
proof -
  obtain s where s: "GenerateSelfSignedCACertificateAsSecret (demo_crypto 0) ''ray-ca-tls'' [] ''odh'' = Inr s"
    using demo_crypto_makes [of 0] by (auto simp: day_length_def second_def)
  from CA_secret_roundtrip [OF demo_crypto_laws s, of "demo_crypto 7" "[''10.0.0.1'']" "[]"] s show ?thesis
    by (auto simp: demo_crypto_def)
qed

text \<open>
  The comment on \<open>generateCertSecret\<close> says that a Secret of another type is made again. The certificate in it is read first,
  so a Secret of another type that holds none is never replaced: every call fails.
\<close>

theorem foreign_type_secret_blocks:
  "CreateSelfSignedCACertificate (demo_crypto 0)
     (child_store_api [((''odh'', ''ray-ca-tls''), \<lparr>ch_meta = empty_meta\<lparr>om_namespace := ''odh'', om_name := ''ray-ca-tls''\<rparr>,
        ch_spec = \<lparr>sy_type = ''Opaque'', sy_data = [], sy_version = []\<rparr>\<rparr>)]) ''ray-ca-tls'' [] ''odh'' = ([], Some BadCertificate)"
proof -
  obtain s where s: "GenerateSelfSignedCACertificateAsSecret (demo_crypto 0) ''ray-ca-tls'' [] ''odh'' = Inr s" "child_key s = (''odh'', ''ray-ca-tls'')"
    using demo_crypto_makes [of 0 "''ray-ca-tls''" "''odh''"] by (auto simp: day_length_def second_def GenerateCA_iff)
  have "isCertExpired (demo_crypto 0) [] 2 = Inl BadCertificate"
    by (simp add: isCertExpired_def removePEMLines_def base64_decode_def has_prefix_def demo_crypto_def parse_int_def)
  with s show ?thesis
    by (simp add: CreateSelfSignedCACertificate_def generateCertSecret_def m_str_def)
qed

end
