(* ===== verification/Ray_Pods.thy ===== *)
theory Ray_Pods
  imports Certificates Pod_Webhook
begin

text \<open>
  The pod controller (internal/controller/core/pod_controller.go): it gives every Ray pod of a multi-node service a certificate
  of its own, stored under the pod's IP in the Secret \<open>ray-tls\<close> of its namespace, and drops the certificates of pods that are gone.
  \<open>pods\<close> answers the List of the pods of a namespace. \<open>retry\<close> is \<open>retry.RetryOnConflict\<close> of client-go: it runs the attempts
  0, 1, \<dots> until one returns anything but a conflict.
\<close>

section \<open>Data\<close>

record serving_pod =
  pd_meta :: object_meta
  pd_ip :: string
  pd_containers :: "pod_container list"

datatype pod_event = PodCreated serving_pod | PodUpdated serving_pod serving_pod | PodDeleted serving_pod

definition RayCASecretName :: string where "RayCASecretName = ''ray-ca-tls''"

section \<open>Which events count\<close>

definition checkPodHasIP :: "serving_pod option \<Rightarrow> serving_pod \<Rightarrow> bool" where
  "checkPodHasIP oldPod newPod =
     (case oldPod of Some old \<Rightarrow> pd_ip old \<noteq> pd_ip newPod | None \<Rightarrow> pd_ip newPod \<noteq> [])"

definition checkMultiNodePod :: "serving_pod \<Rightarrow> bool" where
  "checkMultiNodePod pod =
     list_ex (\<lambda>c. (pk_name c = ''kserve-container'' \<or> pk_name c = WorkerContainerName) \<and>
       list_ex (\<lambda>(n, v). n = RayUseTlsEnvName \<and> v \<noteq> ''0'') (pk_env c)) (pd_containers pod)"

definition reconcileServingPod :: "pod_event \<Rightarrow> bool" where
  "reconcileServingPod e =
     (case e of
        PodCreated pod \<Rightarrow> checkMultiNodePod pod \<and> checkPodHasIP None pod
      | PodUpdated old new \<Rightarrow> checkMultiNodePod new \<and> checkPodHasIP (Some old) new
      | PodDeleted _ \<Rightarrow> False)"

section \<open>The certificate of a pod\<close>

definition predictorPods :: "serving_pod list \<Rightarrow> serving_pod list" where
  "predictorPods = filter (\<lambda>p. map_of (om_labels (pd_meta p)) ''component'' = Some ''predictor'')"

definition removeRedundantCertsFromSecretData ::
    "(string \<Rightarrow> api_error + serving_pod list) \<Rightarrow> secret_body child \<Rightarrow> cert_error + secret_body child" where
  "removeRedundantCertsFromSecretData pods rayCertSecret =
     (case pods (om_namespace (ch_meta rayCertSecret)) of
        Inl e \<Rightarrow> Inl (CertApi e)
      | Inr items \<Rightarrow>
          (let podList = predictorPods items; existingPodIPs = map pd_ip podList
           in Inr (rayCertSecret\<lparr>ch_spec := (ch_spec rayCertSecret)\<lparr>sy_data :=
                filter (\<lambda>(k, _). k = ''ca.crt'' \<or> \<not> (podList = [] \<or> k \<notin> set existingPodIPs))
                  (sy_data (ch_spec rayCertSecret))\<rparr>\<rparr>)))"

text \<open>A Secret without data has a nil map, and its copy too; deleting keys does not make a map nil.\<close>

definition addOrUpdateRayServerCert ::
    "'k crypto \<Rightarrow> (namespaced_name \<Rightarrow> api_error + secret_body child) \<Rightarrow> (string \<Rightarrow> api_error + serving_pod list) \<Rightarrow>
     secret_body child \<Rightarrow> string \<Rightarrow> serving_pod \<Rightarrow> cert_error + secret_body child" where
  "addOrUpdateRayServerCert cy getSecret pods caCertSecret targetNamespace pod =
     (let podIP = pd_ip pod; sanIPs = [podIP]; sanDNSs = [''*.'' @ om_namespace (pd_meta pod) @ ''.svc.cluster.local'']
      in case getSecret (targetNamespace, RayTLSSecretName) of
           Inl e \<Rightarrow> Inl (CertApi e)
         | Inr rayCertSecret \<Rightarrow>
             (case removeRedundantCertsFromSecretData pods rayCertSecret of
                Inl e \<Rightarrow> Inl e
              | Inr updatedCertSecret \<Rightarrow>
                  (case GenerateSelfSignedCertificateAsSecret cy caCertSecret (om_name (ch_meta rayCertSecret))
                          (om_namespace (ch_meta rayCertSecret)) sanIPs sanDNSs of
                     Inl e \<Rightarrow> Inl e
                   | Inr newRayCertSecret \<Rightarrow>
                       (let combinedCert = m_str (sy_data (ch_spec newRayCertSecret)) TLSCertKey @
                              m_str (sy_data (ch_spec newRayCertSecret)) TLSPrivateKeyKey
                        in if sy_data (ch_spec rayCertSecret) = [] then Inl NilMapWrite
                           else Inr (updatedCertSecret\<lparr>ch_spec := (ch_spec updatedCertSecret)\<lparr>
                                  sy_data := m_put podIP combinedCert (sy_data (ch_spec updatedCertSecret)),
                                  sy_version := sy_version (ch_spec rayCertSecret)\<rparr>\<rparr>)))))"

text \<open>The attempt n reads the Secret twice: the answers 2n and 2n+1 of \<open>ca_again\<close>.\<close>

definition updateSecret ::
    "((nat \<Rightarrow> cert_result) \<Rightarrow> cert_result) \<Rightarrow> 'k crypto \<Rightarrow> secret_body child_api \<Rightarrow> (string \<Rightarrow> api_error + serving_pod list) \<Rightarrow>
     secret_body child \<Rightarrow> string \<Rightarrow> serving_pod \<Rightarrow> cert_result" where
  "updateSecret retry cy api pods caCertSecret targetNamespace pod =
     retry (\<lambda>n.
       case addOrUpdateRayServerCert cy (ca_again api (2 * n)) pods caCertSecret targetNamespace pod of
         Inl e \<Rightarrow> ([], Some e)
       | Inr updatedSecret \<Rightarrow>
           (case ca_again api (2 * n + 1) (child_key updatedSecret) of
              Inl e \<Rightarrow> ([], Some (CertApi e))
            | Inr currentSecret \<Rightarrow>
                if sy_version (ch_spec currentSecret) \<noteq> sy_version (ch_spec updatedSecret) then ([], Some (CertApi Conflict))
                else (let s = currentSecret\<lparr>ch_spec := (ch_spec currentSecret)\<lparr>sy_data := sy_data (ch_spec updatedSecret)\<rparr>\<rparr>
                      in ([UpdateChild s], map_option CertApi (ca_update api n s)))))"

definition reconcileRayTls ::
    "((nat \<Rightarrow> cert_result) \<Rightarrow> cert_result) \<Rightarrow> 'k crypto \<Rightarrow> secret_body child_api \<Rightarrow> (string \<Rightarrow> api_error + serving_pod list) \<Rightarrow>
     string \<Rightarrow> string \<Rightarrow> serving_pod \<Rightarrow> cert_result" where
  "reconcileRayTls retry cy api pods controllerNamespace targetNamespace pod =
     (case ca_get api (controllerNamespace, RayCASecretName) of
        Inl e \<Rightarrow> ([], Some (CertApi e))
      | Inr caCertSecret \<Rightarrow> updateSecret retry cy api pods caCertSecret targetNamespace pod)"

definition ReconcilePod ::
    "((nat \<Rightarrow> cert_result) \<Rightarrow> cert_result) \<Rightarrow> 'k crypto \<Rightarrow> secret_body child_api \<Rightarrow> (string \<Rightarrow> api_error + serving_pod list) \<Rightarrow>
     (namespaced_name \<Rightarrow> api_error + serving_pod) \<Rightarrow> string \<Rightarrow> namespaced_name \<Rightarrow> cert_result" where
  "ReconcilePod retry cy api pods getPod controllerNs req =
     (case getPod req of
        Inl e \<Rightarrow> ([], if e = NotFound then None else Some (CertApi e))
      | Inr pod \<Rightarrow> reconcileRayTls retry cy api pods controllerNs (fst req) pod)"

section \<open>Lemmas\<close>

text \<open>Whose certificates are kept.\<close>

definition live_key :: "serving_pod list \<Rightarrow> string \<Rightarrow> bool" where
  "live_key items k = (k = ''ca.crt'' \<or> k \<in> pd_ip ` set (predictorPods items))"

lemma map_of_filter_key: "map_of (filter (\<lambda>(k, _). P k) m) k = (if P k then map_of m k else None)"
  by (induction m) auto

lemma removeRedundant_data:
  assumes "pods (om_namespace (ch_meta s)) = Inr items"
  shows "removeRedundantCertsFromSecretData pods s =
    Inr (s\<lparr>ch_spec := (ch_spec s)\<lparr>sy_data := filter (\<lambda>(k, _). live_key items k) (sy_data (ch_spec s))\<rparr>\<rparr>)"
proof -
  have "(\<lambda>(k, _). k = ''ca.crt'' \<or> \<not> (predictorPods items = [] \<or> k \<notin> set (map pd_ip (predictorPods items)))) =
      (\<lambda>(k, _ :: string). live_key items k)" by (auto simp: live_key_def fun_eq_iff)
  with assms show ?thesis by (simp add: removeRedundantCertsFromSecretData_def Let_def)
qed

definition first_settles :: "((nat \<Rightarrow> cert_result) \<Rightarrow> cert_result) \<Rightarrow> bool" where
  "first_settles retry = (\<forall>f. snd (f 0) \<noteq> Some (CertApi Conflict) \<longrightarrow> retry f = f 0)"

lemma first_settlesD: "first_settles retry \<Longrightarrow> f 0 = (ws, None) \<Longrightarrow> retry f = (ws, None)"
  by (simp add: first_settles_def)

lemma ca_again_store: "ca_again (child_store_api st) n = (\<lambda>k. from_option (map_of st k))"
  by (simp add: fun_eq_iff)

text \<open>The Secret after a pod's certificate went in.\<close>

definition with_pod_cert :: "serving_pod list \<Rightarrow> string \<Rightarrow> string \<Rightarrow> secret_body child \<Rightarrow> secret_body child" where
  "with_pod_cert items ip combined s = s\<lparr>ch_spec := (ch_spec s)\<lparr>sy_data :=
     m_put ip combined (filter (\<lambda>(k, _). live_key items k) (sy_data (ch_spec s)))\<rparr>\<rparr>"

lemma reconcileRayTls_writes:
  assumes retry: "first_settles retry" and ca: "map_of st (ctl, RayCASecretName) = Some caS"
    and s: "map_of st (ns, RayTLSSecretName) = Some s" "child_key s = (ns, RayTLSSecretName)" "sy_data (ch_spec s) \<noteq> []"
    and pods: "pods ns = Inr items"
    and cert: "generateCertificate cy [pd_ip pod] [''*.'' @ om_namespace (pd_meta pod) @ ''.svc.cluster.local''] caS = Inr (cert, key)"
  shows "reconcileRayTls retry cy (child_store_api st) pods ctl ns pod =
    ([UpdateChild (with_pod_cert items (pd_ip pod) (cert @ key) s)], None)"
proof -
  have m: "om_namespace (ch_meta s) = ns" "om_name (ch_meta s) = RayTLSSecretName" using s(2) by (simp_all add: child_key_def)
  have "GenerateSelfSignedCertificateAsSecret cy caS RayTLSSecretName ns [pd_ip pod] [''*.'' @ om_namespace (pd_meta pod) @ ''.svc.cluster.local''] =
      Inr (tlsSecret (empty_meta\<lparr>om_name := RayTLSSecretName, om_namespace := ns\<rparr>) (cert, key))"
    using cert by (simp add: GenerateSelfSignedCertificateAsSecret_def)
  then have "addOrUpdateRayServerCert cy (\<lambda>k. from_option (map_of st k)) pods caS ns pod = Inr (with_pod_cert items (pd_ip pod) (cert @ key) s)"
    using s pods m by (simp add: addOrUpdateRayServerCert_def Let_def removeRedundant_data with_pod_cert_def)
  moreover have "child_key (with_pod_cert items (pd_ip pod) (cert @ key) s) = (ns, RayTLSSecretName)"
    using s(2) by (simp add: with_pod_cert_def child_key_def)
  ultimately show ?thesis
    using ca s unfolding reconcileRayTls_def updateSecret_def
    by (simp add: ca_again_store, intro first_settlesD [OF retry]) (simp add: Let_def with_pod_cert_def)
qed

lemma with_pod_cert_data:
  "map_of (sy_data (ch_spec (with_pod_cert items ip combined s))) k =
     (if k = ip then Some combined else if live_key items k then map_of (sy_data (ch_spec s)) k else None)"
  by (simp add: with_pod_cert_def map_of_filter_key)

lemma with_pod_cert_key [simp]: "child_key (with_pod_cert items ip combined s) = child_key s"
  by (simp add: with_pod_cert_def child_key_def)

section \<open>Properties\<close>

text \<open>
  Property C13. When nobody else writes the Secret, a reconcile of a pod with an address puts the pod's certificate and key under that
  address, keeps the CA certificate and the certificates of the other live predictor pods as they are, drops every other entry,
  and writes no other Secret.
\<close>

theorem pod_certificates_exact:
  assumes retry: "first_settles retry" and ca: "map_of st (ctl, RayCASecretName) = Some caS"
    and s: "map_of st (ns, RayTLSSecretName) = Some s" "child_key s = (ns, RayTLSSecretName)" "sy_data (ch_spec s) \<noteq> []"
    and pods: "pods ns = Inr items" and pod: "getPod (ns, n) = Inr pod"
    and cert: "generateCertificate cy [pd_ip pod] [''*.'' @ om_namespace (pd_meta pod) @ ''.svc.cluster.local''] caS = Inr (cert, key)"
    and after: "st' = fold apply_child_write (fst (ReconcilePod retry cy (child_store_api st) pods getPod ctl (ns, n))) st"
  shows "\<exists>s'. map_of st' (ns, RayTLSSecretName) = Some s' \<and> ch_meta s' = ch_meta s \<and>
    (\<forall>k. map_of (sy_data (ch_spec s')) k =
       (if k = pd_ip pod then Some (cert @ key)
        else if k = ''ca.crt'' \<or> (\<exists>p \<in> set items. map_of (om_labels (pd_meta p)) ''component'' = Some ''predictor'' \<and> pd_ip p = k)
        then map_of (sy_data (ch_spec s)) k else None)) \<and>
    (\<forall>k. k \<noteq> (ns, RayTLSSecretName) \<longrightarrow> map_of st' k = map_of st k)"
proof -
  have st': "st' = apply_child_write (UpdateChild (with_pod_cert items (pd_ip pod) (cert @ key) s)) st"
    using reconcileRayTls_writes [where pods = pods, OF retry ca s pods cert] by (simp add: after ReconcilePod_def pod)
  have "live_key items k \<longleftrightarrow> k = ''ca.crt'' \<or> (\<exists>p \<in> set items. map_of (om_labels (pd_meta p)) ''component'' = Some ''predictor'' \<and> pd_ip p = k)" for k
    by (auto simp: live_key_def predictorPods_def)
  then show ?thesis
    by (intro exI [of _ "with_pod_cert items (pd_ip pod) (cert @ key) s"])
      (simp add: st' s(2) with_pod_cert_data, simp add: with_pod_cert_def)
qed

text \<open>A running example: the CA of \<open>demo_crypto\<close> and a Ray pod.\<close>

definition demo_pod :: "string \<Rightarrow> string \<Rightarrow> serving_pod" where
  "demo_pod n ip = \<lparr>pd_meta = empty_meta\<lparr>om_name := n, om_namespace := ''ml'', om_labels := [(''component'', ''predictor'')]\<rparr>,
     pd_ip = ip, pd_containers = [\<lparr>pk_name = ''worker-container'', pk_image = ''i'', pk_env = [(RayUseTlsEnvName, ''1'')], pk_mounts = []\<rparr>]\<rparr>"

definition demo_secret :: "string \<Rightarrow> string \<Rightarrow> string gomap \<Rightarrow> secret_body child" where
  "demo_secret ns n d = \<lparr>ch_meta = empty_meta\<lparr>om_name := n, om_namespace := ns\<rparr>, ch_spec = \<lparr>sy_type = ''Opaque'', sy_data = d, sy_version = ''1''\<rparr>\<rparr>"

theorem pod_certificates_exact_witness:
  "\<exists>caS cert key s'. generateCertificate (demo_crypto 0) [''10.0.0.2''] [''*.ml.svc.cluster.local''] caS = Inr (cert, key) \<and>
     map_of (fold apply_child_write (fst (ReconcilePod (\<lambda>f. f 0) (demo_crypto 0)
       (child_store_api [((''odh'', ''ray-ca-tls''), caS),
          ((''ml'', ''ray-tls''), demo_secret ''ml'' ''ray-tls'' [(''ca.crt'', ''c''), (''10.0.0.1'', ''old'')])])
       (\<lambda>_. Inr [demo_pod ''b'' ''10.0.0.2'']) (\<lambda>_. Inr (demo_pod ''b'' ''10.0.0.2'')) ''odh'' (''ml'', ''b'')))
       [((''odh'', ''ray-ca-tls''), caS), ((''ml'', ''ray-tls''), demo_secret ''ml'' ''ray-tls'' [(''ca.crt'', ''c''), (''10.0.0.1'', ''old'')])])
       (''ml'', ''ray-tls'') = Some s' \<and>
     map_of (sy_data (ch_spec s')) ''10.0.0.1'' = None \<and> map_of (sy_data (ch_spec s')) ''ca.crt'' = Some ''c'' \<and>
     map_of (sy_data (ch_spec s')) ''10.0.0.2'' = Some (cert @ key)"
proof -
  obtain caS where "GenerateSelfSignedCACertificateAsSecret (demo_crypto 0) ''ray-ca-tls'' [] ''odh'' = Inr caS"
    using demo_crypto_makes [of 0] by (auto simp: day_length_def second_def)
  then obtain cert key where c: "generateCertificate (demo_crypto 0) [''10.0.0.2''] [''*.ml.svc.cluster.local''] caS = Inr (cert, key)"
    using demo_crypto_issues by blast
  define st where "st = [((''odh'', ''ray-ca-tls''), caS),
    ((''ml'', ''ray-tls''), demo_secret ''ml'' ''ray-tls'' [(''ca.crt'', ''c''), (''10.0.0.1'', ''old'')])]"
  have "\<exists>s'. map_of (fold apply_child_write (fst (ReconcilePod (\<lambda>f. f 0) (demo_crypto 0) (child_store_api st)
       (\<lambda>_. Inr [demo_pod ''b'' ''10.0.0.2'']) (\<lambda>_. Inr (demo_pod ''b'' ''10.0.0.2'')) ''odh'' (''ml'', ''b''))) st)
       (''ml'', ''ray-tls'') = Some s' \<and>
     map_of (sy_data (ch_spec s')) ''10.0.0.1'' = None \<and> map_of (sy_data (ch_spec s')) ''ca.crt'' = Some ''c'' \<and>
     map_of (sy_data (ch_spec s')) ''10.0.0.2'' = Some (cert @ key)"
    using pod_certificates_exact [where retry = "\<lambda>f. f 0" and st = st and ctl = "''odh''" and caS = caS and ns = "''ml''"
        and s = "demo_secret ''ml'' ''ray-tls'' [(''ca.crt'', ''c''), (''10.0.0.1'', ''old'')]"
        and pods = "\<lambda>_. Inr [demo_pod ''b'' ''10.0.0.2'']" and items = "[demo_pod ''b'' ''10.0.0.2'']"
        and getPod = "\<lambda>_. Inr (demo_pod ''b'' ''10.0.0.2'')" and n = "''b''" and pod = "demo_pod ''b'' ''10.0.0.2''"
        and cy = "demo_crypto 0" and cert = cert and key = key, OF _ _ _ _ _ _ _ _ refl]
    by (fastforce simp: st_def first_settles_def RayCASecretName_def RayTLSSecretName_def demo_secret_def child_key_def empty_meta_def demo_pod_def c)
  with c show ?thesis unfolding st_def by blast
qed

text \<open>
  The filter on events is named after pods that have an address. On an update it only asks whether the address
  changed, so a pod that lost its address is reconciled too, and its certificate is filed under the empty key.
\<close>

theorem lost_address_reconciled:
  "reconcileServingPod (PodUpdated (demo_pod ''p'' ''10.0.0.1'') (demo_pod ''p'' ''''))"
  by (simp add: reconcileServingPod_def demo_pod_def checkMultiNodePod_def checkPodHasIP_def WorkerContainerName_def RayUseTlsEnvName_def)

end
