(* ===== verification/Ray_Runtime.thy ===== *)
theory Ray_Runtime
  imports Ray_Pods Auth_Binding
begin

text \<open>
  The ServingRuntime controller (internal/controller/serving/servingruntime_controller.go): the RoleBinding of the monitoring namespaces, the Ray
  certificate authority in the controller's namespace and the Secret \<open>ray-tls\<close> with the CA certificate in every namespace that has a
  multi-node runtime. The controller reads Secrets after it has written some, so the API server is a function of the writes that
  have been asked for: \<open>world ws\<close> answers after the writes \<open>ws\<close>.
\<close>

section \<open>Data\<close>

record runtime =
  rn_meta :: object_meta
  rn_worker_spec :: bool  \<comment> \<open>\<open>Spec.WorkerSpec\<close> is not nil\<close>

definition RoleBindingName :: string where "RoleBindingName = ''prometheus-ns-access''"
definition OpenshiftMonitoringNS :: string where "OpenshiftMonitoringNS = ''openshift-monitoring''"
definition PrometheusClusterRole :: string where "PrometheusClusterRole = ''prometheus-ns-access''"
definition MonitoringSA :: string where "MonitoringSA = ''prometheus-custom''"
definition rayCaCertNameInUserNS :: string where "rayCaCertNameInUserNS = ''ca.crt''"

definition IsRayTLSSecret :: "string \<Rightarrow> bool" where
  "IsRayTLSSecret name = (name = RayCASecretName \<or> name = RayTLSSecretName)"

section \<open>The RoleBinding\<close>

definition RoleBindingsAreEqual :: "binding \<Rightarrow> binding \<Rightarrow> bool" where
  "RoleBindingsAreEqual sm1 sm2 =
     (m_eq (om_labels (ch_meta sm1)) (om_labels (ch_meta sm2)) \<and> bn_subjects (ch_spec sm1) = bn_subjects (ch_spec sm2) \<and>
      bn_role (ch_spec sm1) = bn_role (ch_spec sm2))"

definition buildDesiredRB :: "string \<Rightarrow> string \<Rightarrow> binding" where
  "buildDesiredRB rbNS monitoringNS =
     \<lparr>ch_meta = empty_meta\<lparr>om_name := RoleBindingName, om_namespace := rbNS, om_labels := [(''opendatahub.io/managed'', ''true'')]\<rparr>,
      ch_spec = \<lparr>bn_subjects = [\<lparr>sb_kind = ''ServiceAccount'', sb_name = MonitoringSA, sb_namespace = monitoringNS\<rparr>],
        bn_role = \<lparr>rf_group = ''rbac.authorization.k8s.io'', rf_kind = ''ClusterRole'', rf_name = PrometheusClusterRole\<rparr>\<rparr>\<rparr>"

definition foundRB :: "binding_spec child_api \<Rightarrow> string \<Rightarrow> api_error + binding option" where
  "foundRB api ns =
     (case ca_get api (ns, RoleBindingName) of
        Inl e \<Rightarrow> if e = NotFound then Inr None else Inl e
      | Inr rb \<Rightarrow> Inr (Some rb))"

definition createRBIfDNE :: "binding_spec child_api \<Rightarrow> binding option \<Rightarrow> binding \<Rightarrow> binding_spec child_result" where
  "createRBIfDNE api found desiredRB =
     (case found of
        None \<Rightarrow> ([CreateChild desiredRB], ca_create api desiredRB)
      | Some actualRB \<Rightarrow>
          if RoleBindingsAreEqual desiredRB actualRB then ([], None)
          else ([UpdateChild desiredRB], ca_update api 0 desiredRB))"

definition monitoringThisNameSpace :: "string \<Rightarrow> string \<Rightarrow> bool" where
  "monitoringThisNameSpace ns monitoringNs = (ns = OpenshiftMonitoringNS \<or> ns = monitoringNs)"

text \<open>
  \<open>getNs\<close> answers the Get of a namespace and \<open>runtimes\<close> the List of the ServingRuntimes, of a namespace or of all. Go goes on with
  an empty list when the List answers NotFound. The last branch is the rest of the function after the second test of the same flag.
\<close>

definition reconcileRoleBinding ::
    "(string \<Rightarrow> api_error option) \<Rightarrow> (string option \<Rightarrow> api_error + runtime list) \<Rightarrow> binding_spec child_api \<Rightarrow> string \<Rightarrow> string \<Rightarrow>
     binding_spec child_result" where
  "reconcileRoleBinding getNs runtimes api reqNs monitoringNs =
     (case getNs reqNs of
        Some e \<Rightarrow> ([], Some e)
      | None \<Rightarrow>
          (let monitoringNS = monitoringThisNameSpace reqNs monitoringNs
           in if \<not> monitoringNS then ([], None)
              else if monitoringNS then
                (case foundRB api reqNs of
                   Inl e \<Rightarrow> ([], Some e)
                 | Inr actualRB \<Rightarrow> createRBIfDNE api actualRB (buildDesiredRB reqNs monitoringNs))
              else
                (case runtimes (Some reqNs) of
                   Inl e \<Rightarrow> if e = NotFound then
                       (case foundRB api reqNs of
                          Inl e' \<Rightarrow> ([], Some e')
                        | Inr None \<Rightarrow> ([], None)
                        | Inr (Some rb) \<Rightarrow> ([DeleteChild (child_key rb)], ca_delete api (child_key rb)))
                     else ([], Some e)
                 | Inr servingRuntimes \<Rightarrow>
                     (case foundRB api reqNs of
                        Inl e \<Rightarrow> ([], Some e)
                      | Inr actualRB \<Rightarrow>
                          if servingRuntimes = [] then
                            (case actualRB of None \<Rightarrow> ([], None) | Some rb \<Rightarrow> ([DeleteChild (child_key rb)], ca_delete api (child_key rb)))
                          else createRBIfDNE api actualRB (buildDesiredRB reqNs monitoringNs)))))"

section \<open>The Ray Secrets\<close>

type_synonym secret_world = "secret_body child_world"

definition isMultiNodeServingRuntime :: "runtime \<Rightarrow> bool" where
  "isMultiNodeServingRuntime sr = rn_worker_spec sr"

definition existMultiNodeServingRuntimeInNs :: "runtime list \<Rightarrow> bool" where
  "existMultiNodeServingRuntimeInNs srList = list_ex isMultiNodeServingRuntime srList"

definition getDesiredRayDefaultSecret :: "string \<Rightarrow> secret_body child \<Rightarrow> secret_body child" where
  "getDesiredRayDefaultSecret namespace caSecret =
     \<lparr>ch_meta = empty_meta\<lparr>om_name := RayTLSSecretName, om_namespace := namespace, om_labels := managed_labels ''self-signed-ray-cert''\<rparr>,
      ch_spec = \<lparr>sy_type = ''Opaque'', sy_data = [(rayCaCertNameInUserNS, m_str (sy_data (ch_spec caSecret)) TLSCertKey)], sy_version = []\<rparr>\<rparr>"

text \<open>The loop over all runtimes when the request is in the controller's own namespace.\<close>

fun syncRaySecrets :: "secret_world \<Rightarrow> string \<Rightarrow> runtime list \<Rightarrow> secret_body child_write list \<Rightarrow> cert_result" where
  "syncRaySecrets world caCert [] ws = (ws, None)"
| "syncRaySecrets world caCert (sr # srs) ws =
     (if isMultiNodeServingRuntime sr then
        (case ca_get (world ws) (om_namespace (rn_meta sr), RayTLSSecretName) of
           Inl e \<Rightarrow> if e = NotFound then syncRaySecrets world caCert srs ws else (ws, Some (CertApi e))
         | Inr existing \<Rightarrow>
             (let s = existing\<lparr>ch_spec := (ch_spec existing)\<lparr>sy_data := [(rayCaCertNameInUserNS, caCert)]\<rparr>\<rparr>
              in case ca_update (world ws) 0 s of
                   Some e \<Rightarrow> (ws @ [UpdateChild s], Some (CertApi e))
                 | None \<Rightarrow> syncRaySecrets world caCert srs (ws @ [UpdateChild s])))
      else syncRaySecrets world caCert srs ws)"

text \<open>The second half of the function: the Secret of the request's own namespace.\<close>

definition reconcileOwnRaySecret ::
    "secret_world \<Rightarrow> string \<Rightarrow> string \<Rightarrow> secret_body child \<Rightarrow> bool \<Rightarrow> secret_body child_write list \<Rightarrow> cert_result" where
  "reconcileOwnRaySecret world reqName targetNamespace caCertSecret multiNodeSRExistInNS ws =
     (let rayDefaultSecret = getDesiredRayDefaultSecret targetNamespace caCertSecret;
          caCert = m_str (sy_data (ch_spec caCertSecret)) TLSCertKey; api = world ws
      in if multiNodeSRExistInNS then
           (case ca_get api (targetNamespace, RayTLSSecretName) of
              Inl e \<Rightarrow>
                if e = NotFound then (ws @ [CreateChild rayDefaultSecret], map_option CertApi (ca_create api rayDefaultSecret))
                else (ws, Some (CertApi e))
            | Inr defaultCertSecret \<Rightarrow>
                (let data = sy_data (ch_spec defaultCertSecret)
                 in if caCert \<noteq> m_str data rayCaCertNameInUserNS then
                      if data = [] then (ws, Some NilMapWrite)
                      else (let s = defaultCertSecret\<lparr>ch_spec := (ch_spec defaultCertSecret)\<lparr>sy_data := m_put rayCaCertNameInUserNS caCert data\<rparr>\<rparr>
                            in (ws @ [UpdateChild s], map_option CertApi (ca_update api 0 s)))
                    else (ws, None)))
         else if \<not> IsRayTLSSecret reqName then
           (ws @ [DeleteChild (child_key rayDefaultSecret)],
            case ca_delete api (child_key rayDefaultSecret) of None \<Rightarrow> None | Some e \<Rightarrow> if e = NotFound then None else Some (CertApi e))
         else (ws, None))"

definition reconcileDefaultRayServerCertSecretInUserNS ::
    "(string option \<Rightarrow> api_error + runtime list) \<Rightarrow> secret_world \<Rightarrow> string \<Rightarrow> string \<Rightarrow> string \<Rightarrow> secret_body child \<Rightarrow> bool \<Rightarrow>
     secret_body child_write list \<Rightarrow> cert_result" where
  "reconcileDefaultRayServerCertSecretInUserNS runtimes world controllerNamespace reqName targetNamespace caCertSecret multi ws =
     (if targetNamespace = controllerNamespace then
        (case runtimes None of
           Inl e \<Rightarrow> (ws, Some (CertApi e))
         | Inr items \<Rightarrow>
             (case syncRaySecrets world (m_str (sy_data (ch_spec caCertSecret)) TLSCertKey) items ws of
                (ws', Some e) \<Rightarrow> (ws', Some e)
              | (ws', None) \<Rightarrow> reconcileOwnRaySecret world reqName targetNamespace caCertSecret multi ws'))
      else reconcileOwnRaySecret world reqName targetNamespace caCertSecret multi ws)"

definition reconcileMultiNodeSR ::
    "'k crypto \<Rightarrow> (string option \<Rightarrow> api_error + runtime list) \<Rightarrow> secret_world \<Rightarrow> string \<Rightarrow> string \<Rightarrow> bool \<Rightarrow> string \<Rightarrow> cert_result" where
  "reconcileMultiNodeSR cy runtimes world controllerNamespace reqName multi targetNamespace =
     (case CreateSelfSignedCACertificate cy (world []) RayCASecretName [] controllerNamespace of
        (ws, Some e) \<Rightarrow> (ws, Some e)
      | (ws, None) \<Rightarrow>
          (case ca_get (world ws) (controllerNamespace, RayCASecretName) of
             Inl e \<Rightarrow> (ws, Some (CertApi e))
           | Inr caCertSecret \<Rightarrow>
               reconcileDefaultRayServerCertSecretInUserNS runtimes world controllerNamespace reqName targetNamespace caCertSecret multi ws))"

section \<open>The reconcile and its events\<close>

text \<open>The environment gives the two namespaces. The RoleBinding comes first; its failure ends the reconcile.\<close>

definition ReconcileRuntime ::
    "'k crypto \<Rightarrow> (string \<Rightarrow> api_error option) \<Rightarrow> (string option \<Rightarrow> api_error + runtime list) \<Rightarrow> binding_spec child_api \<Rightarrow> secret_world \<Rightarrow>
     string \<Rightarrow> string \<Rightarrow> namespaced_name \<Rightarrow> binding_spec child_write list \<times> cert_result" where
  "ReconcileRuntime cy getNs runtimes rbApi world podNamespace monitoringNs req =
     (case getNs (fst req) of
        Some e \<Rightarrow> ([], [], Some (CertApi e))
      | None \<Rightarrow>
          (case (if monitoringNs = [] then ([], None) else reconcileRoleBinding getNs runtimes rbApi (fst req) monitoringNs) of
             (rbs, Some e) \<Rightarrow> (rbs, [], Some (CertApi e))
           | (rbs, None) \<Rightarrow>
               (case runtimes (Some (fst req)) of
                  Inl e \<Rightarrow> (rbs, [], Some (CertApi e))
                | Inr items \<Rightarrow>
                    (rbs, reconcileMultiNodeSR cy runtimes world podNamespace (snd req) (existMultiNodeServingRuntimeInNs items) (fst req)))))"

definition secretRequests :: "object_meta \<Rightarrow> namespaced_name list" where
  "secretRequests o' = (if \<not> IsRayTLSSecret (om_name o') then [] else [(om_namespace o', om_name o')])"

definition namespaceRequests :: "string \<Rightarrow> object_meta \<Rightarrow> namespaced_name list" where
  "namespaceRequests monitoringNs o' = (if \<not> monitoringThisNameSpace (om_name o') monitoringNs then [] else [(om_name o', om_name o')])"

definition roleBindingRequests :: "object_meta \<Rightarrow> namespaced_name list" where
  "roleBindingRequests o' = (if map_of (om_labels o') ''opendatahub.io/managed'' = None then [] else [(om_namespace o', om_name o')])"

section \<open>Lemmas\<close>

lemma buildDesiredRB_key [simp]: "child_key (buildDesiredRB ns mon) = (ns, RoleBindingName)"
  by (simp add: child_key_def buildDesiredRB_def)

lemma RoleBindingsAreEqual_refl [simp]: "RoleBindingsAreEqual rb rb"
  by (simp add: RoleBindingsAreEqual_def)

lemma RoleBindingsAreEqual_desired:
  "RoleBindingsAreEqual (buildDesiredRB ns mon) rb \<Longrightarrow> ch_spec rb = ch_spec (buildDesiredRB ns mon)"
  "RoleBindingsAreEqual (buildDesiredRB ns mon) rb \<Longrightarrow> map_of (om_labels (ch_meta rb)) ''opendatahub.io/managed'' = Some ''true''"
  by (cases "ch_spec rb", simp add: RoleBindingsAreEqual_def buildDesiredRB_def)
    (simp add: RoleBindingsAreEqual_def buildDesiredRB_def m_eq_iff; metis fun_upd_same)

lemma foundRB_store [simp]: "foundRB (child_store_api st) ns = Inr (map_of st (ns, RoleBindingName))"
  by (cases "map_of st (ns, RoleBindingName)") (simp_all add: foundRB_def)

lemma reconcileRoleBinding_eq:
  "reconcileRoleBinding getNs runtimes (child_store_api st) ns mon =
     (case getNs ns of
        Some e \<Rightarrow> ([], Some e)
      | None \<Rightarrow>
          if \<not> monitoringThisNameSpace ns mon then ([], None)
          else (case map_of st (ns, RoleBindingName) of
                  None \<Rightarrow> ([CreateChild (buildDesiredRB ns mon)], None)
                | Some rb \<Rightarrow> if RoleBindingsAreEqual (buildDesiredRB ns mon) rb then ([], None)
                    else ([UpdateChild (buildDesiredRB ns mon)], None)))"
  by (simp add: reconcileRoleBinding_def createRBIfDNE_def Let_def split: option.split)

interpretation role_binding: settling_operation "\<lambda>api. reconcileRoleBinding getNs runtimes api ns mon" for getNs runtimes ns mon
  by unfold_locales (auto simp: reconcileRoleBinding_eq split: option.splits if_splits)

definition only_ca :: "string \<Rightarrow> secret_body child \<Rightarrow> secret_body child" where
  "only_ca caCert s = s\<lparr>ch_spec := (ch_spec s)\<lparr>sy_data := [(rayCaCertNameInUserNS, caCert)]\<rparr>\<rparr>"

lemma only_ca_simps [simp]: "child_key (only_ca c s) = child_key s" "only_ca c (only_ca c s) = only_ca c s"
  "sy_data (ch_spec (only_ca c s)) = [(rayCaCertNameInUserNS, c)]"
  by (simp_all add: only_ca_def child_key_def)

definition multi_namespaces :: "runtime list \<Rightarrow> string set" where
  "multi_namespaces srs = (\<lambda>sr. om_namespace (rn_meta sr)) ` set (filter isMultiNodeServingRuntime srs)"

lemma multi_namespaces_simps [simp]:
  "multi_namespaces [] = {}"
  "multi_namespaces (sr # srs) =
     (if isMultiNodeServingRuntime sr then insert (om_namespace (rn_meta sr)) (multi_namespaces srs) else multi_namespaces srs)"
  by (simp_all add: multi_namespaces_def)

lemma syncRaySecrets_store:
  assumes "wf_children st"
  shows "\<exists>ws'. syncRaySecrets (store_world st) c srs ws = (ws', None) \<and>
    (\<forall>k. map_of (fold apply_child_write ws' st) k =
       (if snd k = RayTLSSecretName \<and> fst k \<in> multi_namespaces srs then map_option (only_ca c) (map_of (fold apply_child_write ws st) k)
        else map_of (fold apply_child_write ws st) k))"
proof (induction srs arbitrary: ws)
  case (Cons sr srs)
  let ?k = "(om_namespace (rn_meta sr), RayTLSSecretName)" and ?st = "\<lambda>ws. fold apply_child_write ws st"
  show ?case
  proof (cases "isMultiNodeServingRuntime sr \<and> map_of (?st ws) ?k \<noteq> None")
    case True
    then obtain s where s: "map_of (?st ws) ?k = Some s" by auto
    have key: "child_key s = ?k" using wf_childrenD [OF wf_fold_writes [OF assms] s] .
    obtain ws' where "syncRaySecrets (store_world st) c srs (ws @ [UpdateChild (only_ca c s)]) = (ws', None)"
      "\<forall>k. map_of (?st ws') k = (if snd k = RayTLSSecretName \<and> fst k \<in> multi_namespaces srs
         then map_option (only_ca c) (map_of (?st (ws @ [UpdateChild (only_ca c s)])) k) else map_of (?st (ws @ [UpdateChild (only_ca c s)])) k)"
      using Cons.IH by blast
    with True s key show ?thesis
      by (simp add: Let_def only_ca_def [symmetric])
  next
    case False
    with Cons.IH [of ws] show ?thesis by force
  qed
qed auto

lemma desired_key [simp]: "child_key (getDesiredRayDefaultSecret ns ca) = (ns, RayTLSSecretName)"
  by (simp add: child_key_def getDesiredRayDefaultSecret_def)

definition ca_cert :: "secret_body child \<Rightarrow> string" where
  "ca_cert ca = m_str (sy_data (ch_spec ca)) TLSCertKey"

text \<open>A Secret that carries the CA certificate and, beside it, what the Secret before had.\<close>

definition carries_ca :: "string \<Rightarrow> secret_body child option \<Rightarrow> secret_body child option \<Rightarrow> bool" where
  "carries_ca c before after =
     (\<exists>s. after = Some s \<and> m_str (sy_data (ch_spec s)) rayCaCertNameInUserNS = c \<and>
        (\<forall>k. k \<noteq> rayCaCertNameInUserNS \<longrightarrow> map_of (sy_data (ch_spec s)) k =
           (case before of None \<Rightarrow> None | Some s0 \<Rightarrow> map_of (sy_data (ch_spec s0)) k)))"

lemma reconcileOwnRaySecret_store:
  assumes wf: "wf_children st" and run: "reconcileOwnRaySecret (store_world st) req ns ca multi ws = (ws', None)"
  defines "before \<equiv> map_of (fold apply_child_write ws st)" and "after \<equiv> map_of (fold apply_child_write ws' st)"
  shows "\<forall>k. k \<noteq> (ns, RayTLSSecretName) \<longrightarrow> after k = before k"
    and "multi \<Longrightarrow> carries_ca (ca_cert ca) (before (ns, RayTLSSecretName)) (after (ns, RayTLSSecretName))"
    and "\<not> multi \<Longrightarrow> after (ns, RayTLSSecretName) = (if IsRayTLSSecret req then before (ns, RayTLSSecretName) else None)"
proof -
  have key: "child_key s = (ns, RayTLSSecretName)" if "before (ns, RayTLSSecretName) = Some s" for s
    using that wf_childrenD [OF wf_fold_writes [OF wf]] unfolding before_def by blast
  have upd: "child_key (s\<lparr>ch_spec := x\<rparr>) = child_key s" for s :: "secret_body child" and x by (simp add: child_key_def)
  show "\<forall>k. k \<noteq> (ns, RayTLSSecretName) \<longrightarrow> after k = before k"
    using run key unfolding before_def after_def
    by (cases "map_of (fold apply_child_write ws st) (ns, RayTLSSecretName)")
      (auto simp: reconcileOwnRaySecret_def Let_def upd split: if_splits)
  show "carries_ca (ca_cert ca) (before (ns, RayTLSSecretName)) (after (ns, RayTLSSecretName))" if multi
    using run that key unfolding before_def after_def
    by (cases "map_of (fold apply_child_write ws st) (ns, RayTLSSecretName)")
      (auto simp: reconcileOwnRaySecret_def Let_def upd carries_ca_def ca_cert_def getDesiredRayDefaultSecret_def child_key_def m_str_def
        split: if_splits)
  show "after (ns, RayTLSSecretName) = (if IsRayTLSSecret req then before (ns, RayTLSSecretName) else None)" if "\<not> multi"
    using run that unfolding before_def after_def by (auto simp: reconcileOwnRaySecret_def Let_def split: if_splits)
qed

text \<open>The CA step touches the CA Secret only.\<close>

lemma CA_step_other:
  assumes wf: "wf_children st" and k: "k \<noteq> (ns, n)" and run: "CreateSelfSignedCACertificate cy (child_store_api st) n addr ns = (ws, e)"
  shows "map_of (fold apply_child_write ws st) k = map_of st k"
proof -
  have new: "child_key s = (ns, n)" if "GenerateSelfSignedCACertificateAsSecret cy n addr ns = Inr s" for s
    using that by (auto simp: GenerateCA_iff)
  have old: "child_key s = (ns, n)" if "map_of st (ns, n) = Some s" for s using wf that by (rule wf_childrenD)
  show ?thesis
    using run k new old
    by (cases "map_of st (ns, n)")
      (auto simp: CreateSelfSignedCACertificate_def generateCertSecret_def recreateSecret_def split: sum.splits if_splits)
qed

lemma reconcileMultiNodeSR_ok:
  assumes "reconcileMultiNodeSR cy runtimes (store_world st) ctl req multi ns = (ws, None)"
  obtains ws0 ca where "CreateSelfSignedCACertificate cy (child_store_api st) RayCASecretName [] ctl = (ws0, None)"
    "map_of (fold apply_child_write ws0 st) (ctl, RayCASecretName) = Some ca"
    "reconcileDefaultRayServerCertSecretInUserNS runtimes (store_world st) ctl req ns ca multi ws0 = (ws, None)"
  using assms
  by (cases "CreateSelfSignedCACertificate cy (child_store_api st) RayCASecretName [] ctl")
    (auto simp: reconcileMultiNodeSR_def from_option_def split: option.splits)

lemma ray_names_distinct [simp]: "RayTLSSecretName \<noteq> RayCASecretName" "RayCASecretName \<noteq> RayTLSSecretName"
  by (simp_all add: RayTLSSecretName_def RayCASecretName_def)

section \<open>Properties\<close>

lemma ReconcileRuntime_ok:
  assumes "ReconcileRuntime cy getNs runtimes rbApi world ctl mon (ns, req) = (rbs, ws, None)"
  obtains items where "runtimes (Some ns) = Inr items"
    "reconcileMultiNodeSR cy runtimes world ctl req (\<exists>sr \<in> set items. rn_worker_spec sr) ns = (ws, None)"
  using assms
  by (auto simp: ReconcileRuntime_def existMultiNodeServingRuntimeInNs_def isMultiNodeServingRuntime_def list_ex_iff split: option.splits sum.splits prod.splits if_splits)

text \<open>
  Property C12. A reconcile of a ServingRuntime request that succeeds in a namespace other than the controller's leaves the Ray Secret of that namespace in step with
  the certificate authority. When one of the runtimes listed there is for several nodes, that is, has a worker spec, \<open>ray-tls\<close> exists and holds the CA's
  certificate, and every other entry (the pods' certificates) is as it was. When none is, \<open>ray-tls\<close> is gone, unless the request was about a Ray Secret
  itself, which leaves it as it was. No Secret but this one and the CA's changes.
\<close>

theorem ray_secret_in_step:
  assumes wf: "wf_children st" and run: "ReconcileRuntime cy getNs runtimes rbApi (store_world st) ctl mon (ns, req) = (rbs, ws, None)"
    and ns: "ns \<noteq> ctl" and after: "st' = fold apply_child_write ws st"
  shows "\<exists>items ca. runtimes (Some ns) = Inr items \<and> map_of st' (ctl, RayCASecretName) = Some ca \<and>
    (if \<exists>sr \<in> set items. rn_worker_spec sr
     then carries_ca (m_str (sy_data (ch_spec ca)) TLSCertKey) (map_of st (ns, RayTLSSecretName)) (map_of st' (ns, RayTLSSecretName))
     else map_of st' (ns, RayTLSSecretName) = (if req \<in> {''ray-ca-tls'', ''ray-tls''} then map_of st (ns, RayTLSSecretName) else None)) \<and>
    (\<forall>k. k \<notin> {(ctl, RayCASecretName), (ns, RayTLSSecretName)} \<longrightarrow> map_of st' k = map_of st k)"
proof -
  from run obtain items where items: "runtimes (Some ns) = Inr items"
    and sr: "reconcileMultiNodeSR cy runtimes (store_world st) ctl req (\<exists>sr \<in> set items. rn_worker_spec sr) ns = (ws, None)"
    by (rule ReconcileRuntime_ok)
  define multi where "multi = (\<exists>sr \<in> set items. rn_worker_spec sr)"
  from sr [folded multi_def] obtain ws0 ca where ca: "CreateSelfSignedCACertificate cy (child_store_api st) RayCASecretName [] ctl = (ws0, None)"
    "map_of (fold apply_child_write ws0 st) (ctl, RayCASecretName) = Some ca"
    and own: "reconcileOwnRaySecret (store_world st) req ns ca multi ws0 = (ws, None)"
    by (rule reconcileMultiNodeSR_ok) (use ns in \<open>simp add: reconcileDefaultRayServerCertSecretInUserNS_def\<close>)
  note other = CA_step_other [OF wf _ ca(1)] and eff = reconcileOwnRaySecret_store [OF wf own, unfolded ca_cert_def]
  have ray: "IsRayTLSSecret req = (req \<in> {''ray-ca-tls'', ''ray-tls''})"
    by (auto simp: IsRayTLSSecret_def RayCASecretName_def RayTLSSecretName_def)
  from other [of "(ns, RayTLSSecretName)"] have "map_of (fold apply_child_write ws0 st) (ns, RayTLSSecretName) = map_of st (ns, RayTLSSecretName)"
    by simp
  with eff ca(2) other items show ?thesis
    by (intro exI [of _ items] exI [of _ ca], fold multi_def) (simp add: after ray)
qed

text \<open>
  Property C23. A reconcile that succeeds in the controller's own namespace, as an event on the CA's Secret causes it, brings the current CA certificate
  to every \<open>ray-tls\<close> Secret of a namespace with a multi-node runtime. It writes the data anew: the certificates of
  the pods in it are dropped, whether or not the CA changed.
\<close>

theorem ca_event_reaches_all:
  assumes wf: "wf_children st" and run: "reconcileMultiNodeSR cy runtimes (store_world st) ctl req multi ctl = (ws, None)"
    and items: "runtimes None = Inr items" and after: "st' = fold apply_child_write ws st"
    and ns: "\<exists>sr \<in> set items. isMultiNodeServingRuntime sr \<and> om_namespace (rn_meta sr) = ns" "ns \<noteq> ctl" "map_of st (ns, RayTLSSecretName) = Some s"
  shows "\<exists>ca s'. map_of st' (ctl, RayCASecretName) = Some ca \<and> map_of st' (ns, RayTLSSecretName) = Some s' \<and>
    sy_data (ch_spec s') = [(''ca.crt'', m_str (sy_data (ch_spec ca)) TLSCertKey)]"
proof -
  from run obtain ws0 ca where ca: "CreateSelfSignedCACertificate cy (child_store_api st) RayCASecretName [] ctl = (ws0, None)"
    "map_of (fold apply_child_write ws0 st) (ctl, RayCASecretName) = Some ca"
    and rest: "reconcileDefaultRayServerCertSecretInUserNS runtimes (store_world st) ctl req ctl ca multi ws0 = (ws, None)"
    by (rule reconcileMultiNodeSR_ok)
  obtain ws1 where sync: "syncRaySecrets (store_world st) (m_str (sy_data (ch_spec ca)) TLSCertKey) items ws0 = (ws1, None)"
    and eff: "\<forall>k. map_of (fold apply_child_write ws1 st) k =
      (if snd k = RayTLSSecretName \<and> fst k \<in> multi_namespaces items
       then map_option (only_ca (m_str (sy_data (ch_spec ca)) TLSCertKey)) (map_of (fold apply_child_write ws0 st) k)
       else map_of (fold apply_child_write ws0 st) k)"
    using syncRaySecrets_store [OF wf] by blast
  have own: "reconcileOwnRaySecret (store_world st) req ctl ca multi ws1 = (ws, None)"
    using rest by (simp add: reconcileDefaultRayServerCertSecretInUserNS_def items sync)
  have "ns \<in> multi_namespaces items" using ns(1) by (force simp: multi_namespaces_def)
  with reconcileOwnRaySecret_store(1) [OF wf own] eff CA_step_other [OF wf _ ca(1), of "(ns, RayTLSSecretName)"] ns ca(2) show ?thesis
    by (intro exI [of _ ca] exI [of _ "only_ca (m_str (sy_data (ch_spec ca)) TLSCertKey) s"])
      (simp add: after, simp add: only_ca_def rayCaCertNameInUserNS_def)
qed

text \<open>
  The RoleBinding for Prometheus is kept only in the two monitoring namespaces: there it is right after a reconcile, and a second
  one writes nothing; in every other namespace, the users' namespaces with their runtimes included, nothing is ever written.
\<close>

theorem monitoring_binding_exact:
  assumes ns: "getNs ns = None" and wf: "wf_children st"
    and run: "reconcileRoleBinding getNs runtimes (child_store_api st) ns mon = (ws, e)" and after: "st' = fold apply_child_write ws st"
  shows "e = None \<and> reconcileRoleBinding getNs runtimes (child_store_api st') ns mon = ([], None) \<and>
    (if ns = ''openshift-monitoring'' \<or> ns = mon
     then (\<exists>rb. map_of st' (ns, RoleBindingName) = Some rb \<and> ch_spec rb = ch_spec (buildDesiredRB ns mon) \<and>
            map_of (om_labels (ch_meta rb)) ''opendatahub.io/managed'' = Some ''true'') \<and>
          (\<forall>k. k \<noteq> (ns, RoleBindingName) \<longrightarrow> map_of st' k = map_of st k)
     else ws = [])"
proof -
  have e: "e = None" using run ns by (auto simp: reconcileRoleBinding_eq split: option.splits if_splits)
  have again: "reconcileRoleBinding getNs runtimes (child_store_api st') ns mon = ([], e)"
    unfolding after by (rule role_binding.settles [OF wf run])
  show ?thesis
  proof (cases "monitoringThisNameSpace ns mon")
    case True
    then obtain rb where rb: "map_of st' (ns, RoleBindingName) = Some rb" "RoleBindingsAreEqual (buildDesiredRB ns mon) rb"
      and other: "\<forall>k. k \<noteq> (ns, RoleBindingName) \<longrightarrow> map_of st' k = map_of st k"
      using run ns by (auto simp: after reconcileRoleBinding_eq split: option.splits if_splits)
    from True have "(ns = ''openshift-monitoring'' \<or> ns = mon) = True" by (simp add: monitoringThisNameSpace_def OpenshiftMonitoringNS_def)
    with e again rb(1) RoleBindingsAreEqual_desired [OF rb(2)] other show ?thesis by (simp only: if_True) blast
  next
    case False
    with run ns have "ws = []" by (simp add: reconcileRoleBinding_eq)
    with False e again show ?thesis by (simp add: monitoringThisNameSpace_def OpenshiftMonitoringNS_def)
  qed
qed

section \<open>Examples\<close>

definition demo_runtime :: "string \<Rightarrow> bool \<Rightarrow> runtime" where
  "demo_runtime ns w = \<lparr>rn_meta = empty_meta\<lparr>om_namespace := ns, om_name := ''rt''\<rparr>, rn_worker_spec = w\<rparr>"

text \<open>A cluster with the CA of \<open>demo_crypto\<close> and a \<open>ray-tls\<close> Secret in the namespace ml.\<close>

definition demo_secrets :: "secret_body child \<Rightarrow> string gomap \<Rightarrow> secret_body child_store" where
  "demo_secrets caS d = [((''odh'', RayCASecretName), caS), ((''ml'', RayTLSSecretName), demo_secret ''ml'' RayTLSSecretName d)]"

lemma demo_cluster:
  obtains caS where "GenerateSelfSignedCACertificateAsSecret (demo_crypto 0) RayCASecretName [] ''odh'' = Inr caS"
    "wf_children (demo_secrets caS d)" "map_of (demo_secrets caS d) (''odh'', RayCASecretName) = Some caS"
    "map_of (demo_secrets caS d) (''ml'', RayTLSSecretName) = Some (demo_secret ''ml'' RayTLSSecretName d)"
    "CreateSelfSignedCACertificate (demo_crypto 0) (child_store_api (demo_secrets caS d)) RayCASecretName [] ''odh'' = ([], None)"
proof -
  obtain caS where c: "GenerateSelfSignedCACertificateAsSecret (demo_crypto 0) RayCASecretName [] ''odh'' = Inr caS"
    using demo_crypto_makes [of 0] by (auto simp: day_length_def second_def)
  have "child_key caS = (''odh'', RayCASecretName)" using c by (auto simp: GenerateCA_iff)
  then show ?thesis
    using CA_fresh_kept [OF demo_crypto_laws c, of "demo_secrets caS d"]
    by (intro that [of caS]) (simp_all add: c wf_children_def demo_secrets_def demo_secret_def child_key_def)
qed

theorem ray_secret_in_step_witness:
  "\<exists>caS ws s'. map_of (fold apply_child_write ws (demo_secrets caS [(''10.0.0.1'', ''cert'')])) (''ml'', RayTLSSecretName) = Some s' \<and>
     map_of (sy_data (ch_spec s')) ''10.0.0.1'' = Some ''cert'' \<and>
     ReconcileRuntime (demo_crypto 0) (\<lambda>_. None) (\<lambda>_. Inr [demo_runtime ''ml'' True]) (child_store_api [])
       (store_world (demo_secrets caS [(''10.0.0.1'', ''cert'')])) ''odh'' [] (''ml'', ''rt'') = ([], ws, None)"
proof -
  let ?d = "[(''10.0.0.1'', ''cert'')]"
  obtain caS where c: "wf_children (demo_secrets caS ?d)" and
    st: "map_of (demo_secrets caS ?d) (''odh'', RayCASecretName) = Some caS"
    "map_of (demo_secrets caS ?d) (''ml'', RayTLSSecretName) = Some (demo_secret ''ml'' RayTLSSecretName ?d)"
    "CreateSelfSignedCACertificate (demo_crypto 0) (child_store_api (demo_secrets caS ?d)) RayCASecretName [] ''odh'' = ([], None)"
    by (rule demo_cluster)
  have "snd (reconcileMultiNodeSR (demo_crypto 0) (\<lambda>_. Inr [demo_runtime ''ml'' True])
      (store_world (demo_secrets caS ?d)) ''odh'' ''rt'' True ''ml'') = None"
    by (simp add: reconcileMultiNodeSR_def st reconcileDefaultRayServerCertSecretInUserNS_def reconcileOwnRaySecret_def Let_def demo_secret_def)
  then obtain ws where sr: "reconcileMultiNodeSR (demo_crypto 0) (\<lambda>_. Inr [demo_runtime ''ml'' True])
      (store_world (demo_secrets caS ?d)) ''odh'' ''rt'' True ''ml'' = (ws, None)"
    by (metis prod.collapse)
  have run: "ReconcileRuntime (demo_crypto 0) (\<lambda>_. None) (\<lambda>_. Inr [demo_runtime ''ml'' True]) (child_store_api [])
      (store_world (demo_secrets caS ?d)) ''odh'' [] (''ml'', ''rt'') = ([], ws, None)"
    using sr by (simp add: ReconcileRuntime_def existMultiNodeServingRuntimeInNs_def isMultiNodeServingRuntime_def demo_runtime_def)
  from ray_secret_in_step [OF c run _ refl] obtain s' where
    "map_of (fold apply_child_write ws (demo_secrets caS ?d)) (''ml'', RayTLSSecretName) = Some s'"
    "map_of (sy_data (ch_spec s')) ''10.0.0.1'' = Some ''cert''"
    by (auto simp: carries_ca_def st demo_secret_def rayCaCertNameInUserNS_def demo_runtime_def)
  with run show ?thesis by blast
qed

theorem ca_event_reaches_all_witness:
  "\<exists>caS ws s'. map_of (fold apply_child_write ws (demo_secrets caS [(''ca.crt'', ''old''), (''10.0.0.1'', ''cert'')])) (''ml'', RayTLSSecretName) = Some s' \<and>
     map_of (sy_data (ch_spec s')) ''10.0.0.1'' = None \<and>
     reconcileMultiNodeSR (demo_crypto 0) (\<lambda>_. Inr [demo_runtime ''ml'' True])
       (store_world (demo_secrets caS [(''ca.crt'', ''old''), (''10.0.0.1'', ''cert'')])) ''odh'' ''ray-ca-tls'' False ''odh'' = (ws, None)"
proof -
  let ?d = "[(''ca.crt'', ''old''), (''10.0.0.1'', ''cert'')]"
  obtain caS where c: "wf_children (demo_secrets caS ?d)" and
    st: "map_of (demo_secrets caS ?d) (''odh'', RayCASecretName) = Some caS"
    "map_of (demo_secrets caS ?d) (''ml'', RayTLSSecretName) = Some (demo_secret ''ml'' RayTLSSecretName ?d)"
    "CreateSelfSignedCACertificate (demo_crypto 0) (child_store_api (demo_secrets caS ?d)) RayCASecretName [] ''odh'' = ([], None)"
    by (rule demo_cluster)
  have "snd (reconcileMultiNodeSR (demo_crypto 0) (\<lambda>_. Inr [demo_runtime ''ml'' True])
      (store_world (demo_secrets caS ?d)) ''odh'' ''ray-ca-tls'' False ''odh'') = None"
    using st by (simp add: reconcileMultiNodeSR_def st reconcileDefaultRayServerCertSecretInUserNS_def reconcileOwnRaySecret_def Let_def
        demo_secret_def demo_runtime_def IsRayTLSSecret_def RayCASecretName_def isMultiNodeServingRuntime_def)
  then obtain ws where run: "reconcileMultiNodeSR (demo_crypto 0) (\<lambda>_. Inr [demo_runtime ''ml'' True])
      (store_world (demo_secrets caS ?d)) ''odh'' ''ray-ca-tls'' False ''odh'' = (ws, None)"
    by (metis prod.collapse)
  from ca_event_reaches_all [OF c run refl refl _ _ st(2)] obtain s' where
    "map_of (fold apply_child_write ws (demo_secrets caS ?d)) (''ml'', RayTLSSecretName) = Some s'" "map_of (sy_data (ch_spec s')) ''10.0.0.1'' = None"
    by (auto simp: demo_runtime_def isMultiNodeServingRuntime_def)
  with run show ?thesis by blast
qed

theorem monitoring_binding_exact_witness:
  "\<exists>ws. reconcileRoleBinding (\<lambda>_. None) (\<lambda>_. Inr [demo_runtime ''ml'' True]) (child_store_api []) ''ml'' ''mon'' = (ws, None) \<and> ws = [] \<and>
     reconcileRoleBinding (\<lambda>_. None) (\<lambda>_. Inr [demo_runtime ''ml'' True]) (child_store_api (fold apply_child_write ws [])) ''ml'' ''mon'' = ([], None)"
proof -
  have wf: "wf_children ([] :: binding_spec child_store)" by (simp add: wf_children_def)
  have run: "reconcileRoleBinding (\<lambda>_. None) (\<lambda>_. Inr [demo_runtime ''ml'' True]) (child_store_api []) ''ml'' ''mon'' = ([], None)"
    by (simp add: reconcileRoleBinding_eq monitoringThisNameSpace_def OpenshiftMonitoringNS_def)
  from monitoring_binding_exact [OF _ wf run refl] run show ?thesis by auto
qed

text \<open>
  Two consequences the code does not mean to have. A Secret named \<open>ray-tls\<close> that a user made is deleted by any event of a
  single-node runtime in its namespace, since the deletion does not ask whose it is; and where such a Secret has no data, a multi-node
  runtime makes the controller write to a nil map.
\<close>

theorem user_secret_deleted:
  "reconcileOwnRaySecret (store_world st) ''rt'' ''ml'' ca False [] = ([DeleteChild (''ml'', ''ray-tls'')], None)"
  by (simp add: reconcileOwnRaySecret_def Let_def IsRayTLSSecret_def RayCASecretName_def RayTLSSecretName_def getDesiredRayDefaultSecret_def child_key_def)

theorem empty_secret_panics:
  assumes "map_of st (''ml'', RayTLSSecretName) = Some (demo_secret ''ml'' RayTLSSecretName [])" "ca_cert ca \<noteq> []"
  shows "reconcileOwnRaySecret (store_world st) ''rt'' ''ml'' ca True [] = ([], Some NilMapWrite)"
  using assms by (simp add: reconcileOwnRaySecret_def Let_def demo_secret_def ca_cert_def m_str_def)

end
