(* ===== verification/LLM_Policies.thy ===== *)
theory LLM_Policies
  imports Gateway_Controller Auth_Binding
begin

text \<open>
  The AuthPolicies of the routes of an LLMInferenceService
  (internal/controller/serving/llm/reconcilers/kserve_authpolicy_reconciler.go), which open a route to anonymous callers when the service
  asks for it, and the warning about services of a routing group that disagree on authentication
  (kserve_auth_posture_reconciler.go). The template, the owner reference and the comparator are those of the gateway controller;
  \<open>routes\<close> answers the Get of an HTTPRoute. The target of a policy is written out from the template, whose \<open>targetRef\<close> has
  the kind and the name it is rendered with.
\<close>

section \<open>Data\<close>

text \<open>\<open>lr_http\<close> has the names in \<open>Spec.Router.Route.HTTP.Refs\<close>, None when a pointer on the way is nil.\<close>

record llm_routed =
  lr_meta :: object_meta
  lr_http :: "string list option"

datatype policy_error = FromLoad api_error | FromPolicyApi api_error | FromRoute api_error | FromOwner api_error

type_synonym policy_result = "auth_policy_spec child_write list \<times> policy_error option"

definition HTTPRouteNameSuffix :: string where "HTTPRouteNameSuffix = ''-kserve-route''"

definition GetHTTPRouteName :: "('z) children_env_scheme \<Rightarrow> string \<Rightarrow> string" where
  "GetHTTPRouteName env llmisvcName = ce_child_name env llmisvcName HTTPRouteNameSuffix"

definition Detect :: "string gomap \<Rightarrow> auth_type" where
  "Detect annotations =
     (case map_of annotations EnableAuthODHAnnotation of
        Some v \<Rightarrow> if equal_fold (trim_space v) ''false'' then Anonymous else UserDefined
      | None \<Rightarrow> UserDefined)"

section \<open>The policy of one route\<close>

definition getHTTPRouteNames :: "('z) children_env_scheme \<Rightarrow> llm_routed \<Rightarrow> string list" where
  "getHTTPRouteNames env llmisvc =
     (case lr_http llmisvc of
        Some refs \<Rightarrow> if refs \<noteq> [] then refs else [GetHTTPRouteName env (om_name (lr_meta llmisvc))]
      | None \<Rightarrow> [GetHTTPRouteName env (om_name (lr_meta llmisvc))])"

definition routeTarget :: "llm_routed \<Rightarrow> string \<Rightarrow> auth_policy_target" where
  "routeTarget llmisvc routeName = \<lparr>at_kind = ''HTTPRoute'', at_name = routeName, at_namespace = om_namespace (lr_meta llmisvc),
     at_type = Anonymous, at_header = []\<rparr>"

definition getHTTPRouteFromAuthPolicy ::
    "(namespaced_name \<Rightarrow> api_error option) \<Rightarrow> auth_policy_target \<Rightarrow> api_error option" where
  "getHTTPRouteFromAuthPolicy routes target =
     (if at_kind target \<noteq> ''HTTPRoute'' then Some (ApiFailure ''AuthPolicy does not target an HTTPRoute'')
      else routes (at_namespace target, at_name target))"

definition as_policy :: "auth_policy_spec child_result \<Rightarrow> policy_result" where
  "as_policy r = (fst r, map_option FromPolicyApi (snd r))"

definition httpRouteAuthPolicyProcessDelta ::
    "('z) children_env_scheme \<Rightarrow> (namespaced_name \<Rightarrow> api_error option) \<Rightarrow> llm_routed \<Rightarrow> auth_policy_target \<Rightarrow> auth_policy \<Rightarrow>
     auth_policy option \<Rightarrow> auth_policy_spec child_api \<Rightarrow> policy_result" where
  "httpRouteAuthPolicyProcessDelta env routes llmisvc target desired existing api =
     (if Detect (om_annotations (lr_meta llmisvc)) = UserDefined then
        (case existing of None \<Rightarrow> ([], None) | Some c \<Rightarrow> as_policy (storeRemove api (child_key c)))
      else
        (case getHTTPRouteFromAuthPolicy routes target of
           Some e \<Rightarrow> ([], Some (FromRoute e))
         | None \<Rightarrow>
             (let delta = ComputeDelta (GetAuthPolicyComparator env) (Some desired) existing
              in if \<not> HasChanges delta then ([], None)
                 else if rd_added delta then
                   (case ce_own env (lr_meta llmisvc) (ch_meta desired) of
                      Inl e \<Rightarrow> ([], Some (FromOwner e))
                    | Inr m \<Rightarrow> as_policy (storeCreate api (desired\<lparr>ch_meta := m\<rparr>)))
                 else if rd_updated delta then
                   (case ce_own env (lr_meta llmisvc) (ch_meta desired) of
                      Inl e \<Rightarrow> ([], Some (FromOwner e))
                    | Inr m \<Rightarrow>
                        (let merged = (case existing of None \<Rightarrow> m | Some c \<Rightarrow> MergeUserLabelsAndAnnotations m (ch_meta c))
                         in as_policy (storeUpdate api (desired\<lparr>ch_meta := merged\<rparr>))))
                 else ([], None))))"

text \<open>The body of the loop over the routes.\<close>

definition routePolicyStep ::
    "('z) children_env_scheme \<Rightarrow> (namespaced_name \<Rightarrow> api_error option) \<Rightarrow> llm_routed \<Rightarrow> string \<Rightarrow> auth_policy_spec child_api \<Rightarrow> policy_result" where
  "routePolicyStep env routes llmisvc routeName api =
     (let target = routeTarget llmisvc routeName
      in case Load env target [WithLabels [(''app.kubernetes.io/name'', om_name (lr_meta llmisvc))]] of
           Inl e \<Rightarrow> ([], Some (FromLoad e))
         | Inr desired \<Rightarrow>
             (case ca_get api (child_key desired) of
                Inl e \<Rightarrow>
                  if e \<noteq> NotFound then ([], Some (FromPolicyApi e))
                  else httpRouteAuthPolicyProcessDelta env routes llmisvc target desired None api
              | Inr existing \<Rightarrow>
                  if \<not> IsManagedByOpenDataHub (ch_meta existing) then ([], None)
                  else httpRouteAuthPolicyProcessDelta env routes llmisvc target desired (Some existing) api))"

section \<open>All routes\<close>

fun reconcileHTTPRouteAuthpolicy ::
    "('z) children_env_scheme \<Rightarrow> (namespaced_name \<Rightarrow> api_error option) \<Rightarrow> llm_routed \<Rightarrow> auth_policy_spec child_world \<Rightarrow> string list \<Rightarrow>
     auth_policy_spec child_write list \<Rightarrow> policy_result" where
  "reconcileHTTPRouteAuthpolicy env routes llmisvc world [] ws = (ws, None)"
| "reconcileHTTPRouteAuthpolicy env routes llmisvc world (routeName # names) ws =
     (case routePolicyStep env routes llmisvc routeName (world ws) of
        (ws', Some e) \<Rightarrow> (ws @ ws', Some e)
      | (ws', None) \<Rightarrow> reconcileHTTPRouteAuthpolicy env routes llmisvc world names (ws @ ws'))"

definition isAuthPolicyNoMatchError :: "policy_error \<Rightarrow> bool" where
  "isAuthPolicyNoMatchError e = (e = FromPolicyApi NoMatch)"

definition ReconcileRoutePolicies ::
    "('z) children_env_scheme \<Rightarrow> (namespaced_name \<Rightarrow> api_error option) \<Rightarrow> llm_routed \<Rightarrow> auth_policy_spec child_world \<Rightarrow> policy_result" where
  "ReconcileRoutePolicies env routes llmisvc world =
     (case reconcileHTTPRouteAuthpolicy env routes llmisvc world (getHTTPRouteNames env llmisvc) [] of
        (ws, Some e) \<Rightarrow> (ws, if isAuthPolicyNoMatchError e then None else Some e)
      | (ws, None) \<Rightarrow> (ws, None))"

fun deleteHTTPRouteAuthPolicies ::
    "('z) children_env_scheme \<Rightarrow> llm_routed \<Rightarrow> auth_policy_spec child_world \<Rightarrow> string list \<Rightarrow> auth_policy_spec child_write list \<Rightarrow> policy_result" where
  "deleteHTTPRouteAuthPolicies env llmisvc world [] ws = (ws, None)"
| "deleteHTTPRouteAuthPolicies env llmisvc world (routeName # names) ws =
     (case as_policy (storeRemove (world ws) (om_namespace (lr_meta llmisvc), GetAuthPolicyName env routeName)) of
        (ws', Some e) \<Rightarrow> (ws @ ws', Some e)
      | (ws', None) \<Rightarrow> deleteHTTPRouteAuthPolicies env llmisvc world names (ws @ ws'))"

definition DeleteRoutePolicies ::
    "('z) children_env_scheme \<Rightarrow> llm_routed \<Rightarrow> auth_policy_spec child_world \<Rightarrow> policy_result" where
  "DeleteRoutePolicies env llmisvc world =
     (case deleteHTTPRouteAuthPolicies env llmisvc world (getHTTPRouteNames env llmisvc) [] of
        (ws, Some e) \<Rightarrow> (ws, if isAuthPolicyNoMatchError e then None else Some e)
      | (ws, None) \<Rightarrow> (ws, None))"

definition FindLLMServiceFromAuthPolicy :: "object_meta \<Rightarrow> namespaced_name option" where
  "FindLLMServiceFromAuthPolicy ap =
     map_option (\<lambda>r. (om_namespace ap, or_name r)) (find (\<lambda>r. or_kind r = ''LLMInferenceService'') (om_owners ap))"

section \<open>The posture of a routing group\<close>

definition RoutingGroupLabel :: string where "RoutingGroupLabel = ''serving.kserve.io/routing-group''"

definition authEnabled :: "object_meta \<Rightarrow> bool" where
  "authEnabled svc =
     (case map_of (om_annotations svc) EnableAuthODHAnnotation of
        Some value \<Rightarrow> \<not> equal_fold (trim_space value) ''false''
      | None \<Rightarrow> True)"

definition formatNames :: "string list \<Rightarrow> string" where
  "formatNames names = ''['' @ join_with '', '' names @ '']''"

definition postureMessage :: "string \<Rightarrow> string list \<Rightarrow> string list \<Rightarrow> string" where
  "postureMessage grp withAuth withoutAuth =
     ''auth posture mismatch in group '' @ go_quote grp @ '': '' @ formatNames withAuth @ '' have enable-auth=true, '' @
     formatNames withoutAuth @ '' have enable-auth=false''"

text \<open>
  \<open>services\<close> answers the List of the LLMInferenceServices of a namespace that have a label; the result is the warning that is recorded,
  if any.
\<close>

definition authPosture ::
    "(string \<Rightarrow> string \<times> string \<Rightarrow> api_error + object_meta list) \<Rightarrow> object_meta \<Rightarrow> api_error + string option" where
  "authPosture services llmisvc =
     (let grp = m_str (om_labels llmisvc) RoutingGroupLabel
      in if grp = [] then Inr None
         else (case services (om_namespace llmisvc) (RoutingGroupLabel, grp) of
                 Inl e \<Rightarrow> Inl e
               | Inr siblings \<Rightarrow>
                   if length siblings < 2 then Inr None
                   else (let live = filter (\<lambda>s. \<not> om_deleting s) siblings;
                             withAuth = map om_name (filter authEnabled live);
                             withoutAuth = map om_name (filter (\<lambda>s. \<not> authEnabled s) live)
                         in if withAuth = [] \<or> withoutAuth = [] then Inr None
                            else Inr (Some (postureMessage grp (sort withAuth) (sort withoutAuth))))))"

section \<open>Lemmas\<close>

abbreviation policy_key :: "('z) children_env_scheme \<Rightarrow> llm_routed \<Rightarrow> string \<Rightarrow> namespaced_name" where
  "policy_key env llmisvc r \<equiv> (om_namespace (lr_meta llmisvc), GetAuthPolicyName env r)"

abbreviation desiredRoutePolicy :: "('z) children_env_scheme \<Rightarrow> llm_routed \<Rightarrow> string \<Rightarrow> api_error + auth_policy" where
  "desiredRoutePolicy env llmisvc r \<equiv>
     Load env (routeTarget llmisvc r) [WithLabels [(''app.kubernetes.io/name'', om_name (lr_meta llmisvc))]]"

lemma route_policy_meta:
  assumes "desiredRoutePolicy env llmisvc r = Inr d"
  shows "child_key d = policy_key env llmisvc r" "IsManagedByOdhController (ch_meta d)"
    "map_of (om_labels (ch_meta d)) ODHManaged = None" "om_annotations (ch_meta d) = []"
  using assms
  by (auto simp: Load_def routeTarget_def withManagedLabels_def WithLabels_meta m_putall_def empty_meta_def GetAuthPolicyName_def
      child_key_def IsManagedByOdhController_def ODHManaged_def m_str_def split: sum.splits if_splits)

lemma route_policy_written:
  assumes laws: "children_laws env" and d: "desiredRoutePolicy env llmisvc r = Inr d" and own: "ce_own env g (ch_meta d) = Inr m"
  shows "child_key (d\<lparr>ch_meta := m\<rparr>) = policy_key env llmisvc r" "IsManagedByOpenDataHub m" "GetAuthPolicyComparator env (d\<lparr>ch_meta := m\<rparr>) d"
    "child_key (d\<lparr>ch_meta := MergeUserLabelsAndAnnotations m m'\<rparr>) = policy_key env llmisvc r"
    "IsManagedByOpenDataHub m' \<Longrightarrow> IsManagedByOpenDataHub (MergeUserLabelsAndAnnotations m m')"
    "GetAuthPolicyComparator env (d\<lparr>ch_meta := MergeUserLabelsAndAnnotations m m'\<rparr>) d"
proof -
  obtain os where os: "m = (ch_meta d)\<lparr>om_owners := os\<rparr>" using children_lawsD(1) [OF laws] own by blast
  note meta = route_policy_meta [OF d]
  have m: "IsManagedByOdhController m" "map_of (om_labels m) ODHManaged = None" "map_of (om_annotations m) ODHManaged = None"
    using meta by (simp_all add: os IsManagedByOdhController_def)
  show "child_key (d\<lparr>ch_meta := m\<rparr>) = policy_key env llmisvc r"
    "child_key (d\<lparr>ch_meta := MergeUserLabelsAndAnnotations m m'\<rparr>) = policy_key env llmisvc r"
    using meta(1) by (simp_all add: os child_key_def MergeUserLabelsAndAnnotations_def)
  show "IsManagedByOpenDataHub m" using m by (simp add: IsManagedByOpenDataHub_def IsExplicitlyUnmanaged_def)
  show "IsManagedByOpenDataHub m' \<Longrightarrow> IsManagedByOpenDataHub (MergeUserLabelsAndAnnotations m m')"
    by (rule merged_managed [OF m(2,3,1)])
  show "GetAuthPolicyComparator env (d\<lparr>ch_meta := m\<rparr>) d" "GetAuthPolicyComparator env (d\<lparr>ch_meta := MergeUserLabelsAndAnnotations m m'\<rparr>) d"
    by (auto simp: GetAuthPolicyComparator_def children_lawsD(2,3) [OF laws] os MergeUserLabelsAndAnnotations_def map_of_addMissing)
qed

lemma as_policy_simps [simp]: "as_policy (ws, None) = (ws, None)" "as_policy (ws, Some e) = (ws, Some (FromPolicyApi e))"
  by (simp_all add: as_policy_def)

interpretation route_policy_guard: guarded_operation "routePolicyStep env routes llmisvc r" "policy_key env llmisvc r"
  for env routes llmisvc r
proof (unfold_locales, goal_cases)
  case (1 w api)
  then obtain d where "desiredRoutePolicy env llmisvc r = Inr d" by (auto simp: routePolicyStep_def Let_def split: sum.splits)
  with 1 route_policy_meta(1) [OF this] show ?case
    by (auto simp: routePolicyStep_def Let_def split: sum.splits if_splits)
qed

text \<open>What one step does to a store: it leaves other policies and those of users alone, removes its own policy or puts the desired one there.\<close>

definition user_policy :: "auth_policy option \<Rightarrow> bool" where
  "user_policy c = (\<exists>x. c = Some x \<and> \<not> IsManagedByOpenDataHub (ch_meta x))"

lemma routePolicyStep_store:
  assumes laws: "children_laws env" and wf: "wf_children st" and run: "routePolicyStep env routes llmisvc r (child_store_api st) = (ws, None)"
  defines "key \<equiv> policy_key env llmisvc r" and "st' \<equiv> fold apply_child_write ws st"
  shows "k \<noteq> key \<Longrightarrow> map_of st' k = map_of st k"
    and "user_policy (map_of st key) \<Longrightarrow> map_of st' key = map_of st key"
    and "Detect (om_annotations (lr_meta llmisvc)) = UserDefined \<Longrightarrow> \<not> user_policy (map_of st key) \<Longrightarrow> map_of st' key = None"
    and "Detect (om_annotations (lr_meta llmisvc)) = Anonymous \<Longrightarrow> \<not> user_policy (map_of st key) \<Longrightarrow>
      \<exists>c d. map_of st' key = Some c \<and> IsManagedByOpenDataHub (ch_meta c) \<and> desiredRoutePolicy env llmisvc r = Inr d \<and> GetAuthPolicyComparator env c d"
proof -
  obtain d where d: "desiredRoutePolicy env llmisvc r = Inr d" using run by (auto simp: routePolicyStep_def Let_def split: sum.splits)
  have key: "child_key d = key" using route_policy_meta(1) [OF d] by (simp add: key_def)
  have old: "child_key c = key" if "map_of st key = Some c" for c using wf that by (rule wf_childrenD)
  note written = route_policy_written [OF laws d, folded key_def] and unfold = routePolicyStep_def httpRouteAuthPolicyProcessDelta_def Let_def
  note cases_simps = d key old written unfold user_policy_def st'_def
  show "map_of st' k = map_of st k" if "k \<noteq> key"
    using run that by (cases "map_of st key") (auto simp: cases_simps split: if_splits option.splits sum.splits)
  show "map_of st' key = map_of st key" if "user_policy (map_of st key)"
    using run that by (auto simp: cases_simps)
  show "map_of st' key = None" if "Detect (om_annotations (lr_meta llmisvc)) = UserDefined" "\<not> user_policy (map_of st key)"
    using run that by (cases "map_of st key") (auto simp: cases_simps split: if_splits)
  show "\<exists>c d. map_of st' key = Some c \<and> IsManagedByOpenDataHub (ch_meta c) \<and> desiredRoutePolicy env llmisvc r = Inr d \<and> GetAuthPolicyComparator env c d"
    if "Detect (om_annotations (lr_meta llmisvc)) = Anonymous" "\<not> user_policy (map_of st key)"
    using run that by (cases "map_of st key") (auto simp: cases_simps split: if_splits option.splits sum.splits)
qed

text \<open>The loop, step by step over the store.\<close>

lemma store_world_fold: "store_world st ws = child_store_api (fold apply_child_write ws st)"
  by (simp add: store_world_def)

lemma loop_Cons:
  assumes "reconcileHTTPRouteAuthpolicy env routes llmisvc (store_world st) (r # rs) ws = (ws', None)"
  obtains w1 where "routePolicyStep env routes llmisvc r (child_store_api (fold apply_child_write ws st)) = (w1, None)"
    "reconcileHTTPRouteAuthpolicy env routes llmisvc (store_world st) rs (ws @ w1) = (ws', None)"
  using assms by (auto simp: store_world_fold split: prod.splits option.splits)

lemma loop_frame:
  assumes laws: "children_laws env" and wf: "wf_children st"
    and run: "reconcileHTTPRouteAuthpolicy env routes llmisvc (store_world st) rs ws = (ws', None)"
    and k: "k \<notin> policy_key env llmisvc ` set rs \<or> user_policy (map_of (fold apply_child_write ws st) k)"
  shows "map_of (fold apply_child_write ws' st) k = map_of (fold apply_child_write ws st) k"
  using run k
proof (induction rs arbitrary: ws)
  case (Cons r rs)
  obtain w1 where w1: "routePolicyStep env routes llmisvc r (child_store_api (fold apply_child_write ws st)) = (w1, None)"
    and rest: "reconcileHTTPRouteAuthpolicy env routes llmisvc (store_world st) rs (ws @ w1) = (ws', None)"
    using Cons.prems(1) by (rule loop_Cons)
  have "map_of (fold apply_child_write (ws @ w1) st) k = map_of (fold apply_child_write ws st) k"
    using routePolicyStep_store(1,2) [OF laws wf_fold_writes [OF wf] w1] Cons.prems(2) by (cases "k = policy_key env llmisvc r") auto
  with Cons.IH [OF rest] Cons.prems(2) show ?case by auto
qed simp

lemma loop_closes:
  assumes laws: "children_laws env" and wf: "wf_children st" and auth: "Detect (om_annotations (lr_meta llmisvc)) = UserDefined"
    and run: "reconcileHTTPRouteAuthpolicy env routes llmisvc (store_world st) rs ws = (ws', None)"
    and k: "k \<in> policy_key env llmisvc ` set rs \<or> map_of (fold apply_child_write ws st) k = None"
    and mine: "\<not> user_policy (map_of (fold apply_child_write ws st) k)"
  shows "map_of (fold apply_child_write ws' st) k = None"
  using run k mine
proof (induction rs arbitrary: ws)
  case (Cons r rs)
  obtain w1 where w1: "routePolicyStep env routes llmisvc r (child_store_api (fold apply_child_write ws st)) = (w1, None)"
    and rest: "reconcileHTTPRouteAuthpolicy env routes llmisvc (store_world st) rs (ws @ w1) = (ws', None)"
    using Cons.prems(1) by (rule loop_Cons)
  note step = routePolicyStep_store(1,3) [OF laws wf_fold_writes [OF wf] w1]
  show ?case
  proof (cases "k = policy_key env llmisvc r")
    case True
    with step(2) [OF auth] Cons.prems(3) have "map_of (fold apply_child_write (ws @ w1) st) k = None" by simp
    with Cons.IH [OF rest] show ?thesis by (simp add: user_policy_def)
  next
    case False
    with step(1) [of k] Cons.prems Cons.IH [OF rest] show ?thesis by auto
  qed
qed simp

lemma loop_opens:
  assumes laws: "children_laws env" and wf: "wf_children st" and auth: "Detect (om_annotations (lr_meta llmisvc)) = Anonymous"
    and run: "reconcileHTTPRouteAuthpolicy env routes llmisvc (store_world st) rs ws = (ws', None)"
    and r: "r \<in> set rs" and inj: "inj_on (GetAuthPolicyName env) (set rs)"
    and mine: "\<not> user_policy (map_of (fold apply_child_write ws st) (policy_key env llmisvc r))"
  shows "\<exists>c d. map_of (fold apply_child_write ws' st) (policy_key env llmisvc r) = Some c \<and> desiredRoutePolicy env llmisvc r = Inr d \<and>
    GetAuthPolicyComparator env c d"
  using run r inj mine
proof (induction rs arbitrary: ws)
  case (Cons r1 rs)
  obtain w1 where w1: "routePolicyStep env routes llmisvc r1 (child_store_api (fold apply_child_write ws st)) = (w1, None)"
    and rest: "reconcileHTTPRouteAuthpolicy env routes llmisvc (store_world st) rs (ws @ w1) = (ws', None)"
    using Cons.prems(1) by (rule loop_Cons)
  note step = routePolicyStep_store(1,4) [OF laws wf_fold_writes [OF wf] w1]
  have inj': "inj_on (GetAuthPolicyName env) (set rs)" using Cons.prems(3) by (simp add: inj_on_insert)
  show ?case
  proof (cases "r = r1")
    case True
    obtain c d where c: "map_of (fold apply_child_write (ws @ w1) st) (policy_key env llmisvc r) = Some c" "IsManagedByOpenDataHub (ch_meta c)"
      "desiredRoutePolicy env llmisvc r = Inr d" "GetAuthPolicyComparator env c d"
      using step(2) [OF auth] Cons.prems(4) True by auto
    show ?thesis
    proof (cases "r \<in> set rs")
      case False
      have "policy_key env llmisvc r \<notin> policy_key env llmisvc ` set rs"
        using Cons.prems(3) True False by (auto simp: inj_on_def)
      with c loop_frame [OF laws wf rest] show ?thesis by fastforce
    qed (use Cons.IH [OF rest _ inj'] c in \<open>auto simp: user_policy_def\<close>)
  next
    case False
    then have "policy_key env llmisvc r \<noteq> policy_key env llmisvc r1" using Cons.prems(2,3) by (auto simp: inj_on_def)
    with step(1) [of "policy_key env llmisvc r"] Cons.prems(2,4) False Cons.IH [OF rest _ inj'] show ?thesis by auto
  qed
qed simp

text \<open>Against a store no policy call fails, so success is the success of the loop.\<close>

lemma step_store_error:
  "routePolicyStep env routes llmisvc r (child_store_api st) = (ws, Some e) \<Longrightarrow> \<not> isAuthPolicyNoMatchError e"
  by (cases "desiredRoutePolicy env llmisvc r"; cases "map_of st (child_key (projr (desiredRoutePolicy env llmisvc r)))")
    (auto simp: routePolicyStep_def httpRouteAuthPolicyProcessDelta_def Let_def isAuthPolicyNoMatchError_def storeUpdate_def child_key_def
      from_option_def split: if_splits option.splits sum.splits)

lemma loop_store_error:
  "reconcileHTTPRouteAuthpolicy env routes llmisvc (store_world st) rs ws = (ws', Some e) \<Longrightarrow> \<not> isAuthPolicyNoMatchError e"
  by (induction rs arbitrary: ws) (auto simp: store_world_fold dest: step_store_error split: prod.splits option.splits)

lemma ReconcileRoutePolicies_ok:
  "ReconcileRoutePolicies env routes llmisvc (store_world st) = (ws, None) \<Longrightarrow>
   reconcileHTTPRouteAuthpolicy env routes llmisvc (store_world st) (getHTTPRouteNames env llmisvc) [] = (ws, None)"
  by (auto simp: ReconcileRoutePolicies_def dest: loop_store_error split: prod.splits option.splits if_splits)

section \<open>Properties\<close>

text \<open>
  Property C6. With authentication on (the annotation is absent or says anything but "false"), a reconcile that succeeds closes
  every route of the service: none of them has a policy of the controller afterwards, so that only the gateway's own policy applies.
  Policies that users keep themselves and policies of other routes are left as they are.
\<close>

theorem authenticated_routes_closed:
  assumes laws: "children_laws env" and wf: "wf_children st" and auth: "Detect (om_annotations (lr_meta llmisvc)) = UserDefined"
    and run: "ReconcileRoutePolicies env routes llmisvc (store_world st) = (ws, None)" and after: "st' = fold apply_child_write ws st"
  shows "(\<forall>r \<in> set (getHTTPRouteNames env llmisvc). \<forall>c. map_of st' (om_namespace (lr_meta llmisvc), GetAuthPolicyName env r) = Some c \<longrightarrow>
      \<not> IsManagedByOpenDataHub (ch_meta c)) \<and>
    (\<forall>k c. map_of st k = Some c \<longrightarrow> \<not> IsManagedByOpenDataHub (ch_meta c) \<or>
       k \<notin> policy_key env llmisvc ` set (getHTTPRouteNames env llmisvc) \<longrightarrow> map_of st' k = Some c)"
proof (intro conjI ballI allI impI)
  fix r c assume r: "r \<in> set (getHTTPRouteNames env llmisvc)" and c: "map_of st' (policy_key env llmisvc r) = Some c"
  note loop = ReconcileRoutePolicies_ok [OF run]
  show "\<not> IsManagedByOpenDataHub (ch_meta c)"
  proof (cases "user_policy (map_of st (policy_key env llmisvc r))")
    case True
    with loop_frame [OF laws wf loop, of "policy_key env llmisvc r"] c show ?thesis by (auto simp: after user_policy_def)
  next
    case False
    with loop_closes [OF laws wf auth loop, of "policy_key env llmisvc r"] r c show ?thesis by (simp add: after)
  qed
next
  fix k c assume "map_of st k = Some c" "\<not> IsManagedByOpenDataHub (ch_meta c) \<or> k \<notin> policy_key env llmisvc ` set (getHTTPRouteNames env llmisvc)"
  with loop_frame [OF laws wf ReconcileRoutePolicies_ok [OF run], of k] show "map_of st' k = Some c" by (auto simp: after user_policy_def)
qed

text \<open>
  With authentication switched off, a reconcile that succeeds gives every route of the service a policy that has what the anonymous
  template says for that route, except where a user keeps a policy of that name.
\<close>

theorem anonymous_routes_open:
  assumes laws: "children_laws env" and wf: "wf_children st" and auth: "Detect (om_annotations (lr_meta llmisvc)) = Anonymous"
    and run: "ReconcileRoutePolicies env routes llmisvc (store_world st) = (ws, None)" and after: "st' = fold apply_child_write ws st"
    and r: "r \<in> set (getHTTPRouteNames env llmisvc)" and inj: "inj_on (GetAuthPolicyName env) (set (getHTTPRouteNames env llmisvc))"
  shows "\<exists>c. map_of st' (om_namespace (lr_meta llmisvc), GetAuthPolicyName env r) = Some c \<and>
    (map_of st (om_namespace (lr_meta llmisvc), GetAuthPolicyName env r) = Some c \<and> \<not> IsManagedByOpenDataHub (ch_meta c) \<or>
     (\<exists>d. Load env (routeTarget llmisvc r) [WithLabels [(''app.kubernetes.io/name'', om_name (lr_meta llmisvc))]] = Inr d \<and>
        GetAuthPolicyComparator env c d))"
proof (cases "user_policy (map_of st (policy_key env llmisvc r))")
  case True
  with loop_frame [OF laws wf ReconcileRoutePolicies_ok [OF run], of "policy_key env llmisvc r"] show ?thesis by (auto simp: after user_policy_def)
next
  case False
  with loop_opens [OF laws wf auth ReconcileRoutePolicies_ok [OF run] r inj] show ?thesis by (auto simp: after)
qed

text \<open>
  The two readings of the annotation agree: the posture check counts a service as protected exactly when the policy
  reconciler closes its routes.
\<close>

theorem authEnabled_iff_Detect: "authEnabled m \<longleftrightarrow> Detect (om_annotations m) = UserDefined"
  by (simp add: authEnabled_def Detect_def split: option.split)

text \<open>
  A warning is recorded for a service exactly when it is in a routing group of which one live member is protected and another
  is open.
\<close>

theorem authPosture_iff:
  assumes "services (om_namespace m) (RoutingGroupLabel, m_str (om_labels m) RoutingGroupLabel) = Inr siblings"
  shows "(\<exists>w. authPosture services m = Inr (Some w)) \<longleftrightarrow>
    m_str (om_labels m) RoutingGroupLabel \<noteq> [] \<and>
    (\<exists>a \<in> set siblings. \<exists>b \<in> set siblings. \<not> om_deleting a \<and> \<not> om_deleting b \<and> authEnabled a \<and> \<not> authEnabled b)"
proof -
  have same: "authEnabled b" if "length siblings < 2" "a \<in> set siblings" "b \<in> set siblings" "authEnabled a" for a b
    using that by (cases siblings; cases "tl siblings") auto
  show ?thesis
  proof (cases "length siblings < 2")
    case True
    then have "authPosture services m = Inr None" using assms by (simp add: authPosture_def Let_def)
    then show ?thesis by (auto dest: same [OF True])
  next
    case False
    with assms have "authPosture services m = (let live = filter (\<lambda>s. \<not> om_deleting s) siblings in
        if m_str (om_labels m) RoutingGroupLabel = [] \<or> filter authEnabled live = [] \<or> filter (\<lambda>s. \<not> authEnabled s) live = [] then Inr None
        else Inr (Some (postureMessage (m_str (om_labels m) RoutingGroupLabel) (sort (map om_name (filter authEnabled live)))
          (sort (map om_name (filter (\<lambda>s. \<not> authEnabled s) live))))))"
      by (simp add: authPosture_def Let_def)
    then show ?thesis by (simp add: Let_def filter_empty_conv) blast
  qed
qed

section \<open>Examples\<close>

definition demo_llm :: "string \<Rightarrow> string list \<Rightarrow> llm_routed" where
  "demo_llm auth refs = \<lparr>lr_meta = empty_meta\<lparr>om_name := ''llm'', om_namespace := ''ml'',
     om_annotations := [(EnableAuthODHAnnotation, auth)]\<rparr>, lr_http = Some refs\<rparr>"

lemma demo_llm_auth:
  "Detect (om_annotations (lr_meta (demo_llm ''false'' refs))) = Anonymous" "Detect (om_annotations (lr_meta (demo_llm ''true'' refs))) = UserDefined"
  "om_namespace (lr_meta (demo_llm a refs)) = ''ml''" "refs \<noteq> [] \<Longrightarrow> getHTTPRouteNames env (demo_llm a refs) = refs"
  by (simp_all add: demo_llm_def Detect_def equal_fold_def trim_space_def trim_left_space_def is_space_def lower_char_def getHTTPRouteNames_def)

definition demo_policy :: "string gomap \<Rightarrow> string \<Rightarrow> auth_policy" where
  "demo_policy labs r = \<lparr>ch_meta = empty_meta\<lparr>om_name := r @ ''-authn'', om_namespace := ''ml'', om_labels := labs\<rparr>,
     ch_spec = \<lparr>ap_scheme = Some [], ap_rest = r\<rparr>\<rparr>"

definition llm_labels :: "string gomap" where
  "llm_labels = [(''app.kubernetes.io/component'', ''llminferenceservice-policies''), (''app.kubernetes.io/part-of'', ''llminferenceservice''),
     (''app.kubernetes.io/managed-by'', ''odh-model-controller''), (''app.kubernetes.io/name'', ''llm'')]"

lemma demo_Load: "desiredRoutePolicy demo_env (demo_llm a refs) r = Inr (demo_policy llm_labels r)"
  by (simp add: Load_def routeTarget_def demo_llm_def demo_simps withManagedLabels_def WithLabels_def m_putall_def demo_policy_def llm_labels_def
      AuthPolicyNameSuffix_def DefaultModelRoutingHeader_def unsafe_chars_def)

lemma demo_policy_simps [simp]:
  "child_key (demo_policy labs r) = (''ml'', r @ ''-authn'')" "IsManagedByOpenDataHub (ch_meta (demo_policy llm_labels r))"
  "\<not> IsManagedByOpenDataHub (ch_meta (demo_policy [] r))" "GetAuthPolicyName demo_env r = r @ ''-authn''"
  by (simp_all add: demo_policy_def child_key_def llm_labels_def IsManagedByOpenDataHub_def IsExplicitlyUnmanaged_def IsManagedByOdhController_def
      m_str_def ODHManaged_def GetAuthPolicyName_def demo_simps AuthPolicyNameSuffix_def)

lemma demo_step_creates:
  "map_of st (''ml'', r @ ''-authn'') = None \<Longrightarrow>
   \<exists>x. routePolicyStep demo_env (\<lambda>_. None) (demo_llm ''false'' refs) r (child_store_api st) = ([CreateChild x], None) \<and>
     child_key x = (''ml'', r @ ''-authn'')"
proof -
  assume none: "map_of st (''ml'', r @ ''-authn'') = None"
  have own: "ce_own demo_env g m = Inr (m\<lparr>om_owners := [\<lparr>or_api = [], or_kind = ''Gateway'', or_name = om_name g,
      or_uid = om_uid g, or_controller = Some True\<rparr>]\<rparr>)" for g m by (simp add: demo_env_def gateway_env.defs)
  have "getHTTPRouteFromAuthPolicy (\<lambda>_. None) (routeTarget l r) = None" for l
    by (simp add: getHTTPRouteFromAuthPolicy_def routeTarget_def)
  with none show ?thesis
    by (simp add: routePolicyStep_def Let_def demo_Load httpRouteAuthPolicyProcessDelta_def demo_llm_auth own)
qed

lemma demo_wf: "wf_children [((''ml'', r @ ''-authn''), demo_policy labs r)]"
  by (simp add: wf_children_def)

theorem authenticated_routes_closed_witness:
  "\<exists>ws. ReconcileRoutePolicies demo_env (\<lambda>_. None) (demo_llm ''true'' [''r'']) (store_world [((''ml'', ''r-authn''), demo_policy llm_labels ''r'')]) =
       (ws, None) \<and>
     map_of (fold apply_child_write ws [((''ml'', ''r-authn''), demo_policy llm_labels ''r'')]) (''ml'', ''r-authn'') = None"
proof -
  let ?st = "[((''ml'', ''r-authn''), demo_policy llm_labels ''r'')]"
  have wf: "wf_children ?st" using demo_wf [of "''r''"] by simp
  have run: "ReconcileRoutePolicies demo_env (\<lambda>_. None) (demo_llm ''true'' [''r'']) (store_world ?st) = ([DeleteChild (''ml'', ''r-authn'')], None)"
    by (simp add: ReconcileRoutePolicies_def demo_llm_auth routePolicyStep_def Let_def demo_Load httpRouteAuthPolicyProcessDelta_def)
  from authenticated_routes_closed [OF demo_laws wf _ run refl] have
    "\<forall>c. map_of (fold apply_child_write [DeleteChild (''ml'', ''r-authn'')] ?st) (''ml'', ''r-authn'') = Some c \<longrightarrow> \<not> IsManagedByOpenDataHub (ch_meta c)"
    by (simp add: demo_llm_auth)
  with run show ?thesis by auto
qed

theorem anonymous_routes_open_witness:
  "\<exists>ws c. ReconcileRoutePolicies demo_env (\<lambda>_. None) (demo_llm ''false'' [''r'', ''s'']) (store_world []) = (ws, None) \<and>
     map_of (fold apply_child_write ws []) (''ml'', ''s-authn'') = Some c \<and> GetAuthPolicyComparator demo_env c (demo_policy llm_labels ''s'')"
proof -
  have wf: "wf_children []" by (simp add: wf_children_def)
  obtain ws where run: "ReconcileRoutePolicies demo_env (\<lambda>_. None) (demo_llm ''false'' [''r'', ''s'']) (store_world []) = (ws, None)"
  proof -
    obtain x where x: "routePolicyStep demo_env (\<lambda>_. None) (demo_llm ''false'' [''r'', ''s'']) ''r'' (child_store_api []) = ([CreateChild x], None)"
      "child_key x = (''ml'', ''r-authn'')" using demo_step_creates [of "[]" "''r''"] by auto
    obtain y where "routePolicyStep demo_env (\<lambda>_. None) (demo_llm ''false'' [''r'', ''s'']) ''s''
      (child_store_api (apply_child_write (CreateChild x) [])) = ([CreateChild y], None)"
      using demo_step_creates [of "apply_child_write (CreateChild x) []" "''s''"] x(2) by auto
    with x that show ?thesis by (auto simp: ReconcileRoutePolicies_def demo_llm_auth store_world_fold)
  qed
  have "inj_on (GetAuthPolicyName demo_env) (set (getHTTPRouteNames demo_env (demo_llm ''false'' [''r'', ''s''])))"
    by (simp add: demo_llm_auth)
  from anonymous_routes_open [OF demo_laws wf _ run refl _ this, of "''s''"] show ?thesis
    using run by (auto simp: demo_llm_auth demo_Load)
qed

theorem authPosture_iff_witness:
  "\<exists>w. authPosture (\<lambda>_ _. Inr [(lr_meta (demo_llm ''false'' []))\<lparr>om_labels := [(RoutingGroupLabel, ''g'')]\<rparr>,
       (lr_meta (demo_llm ''true'' []))\<lparr>om_labels := [(RoutingGroupLabel, ''g'')]\<rparr>])
     ((lr_meta (demo_llm ''true'' []))\<lparr>om_labels := [(RoutingGroupLabel, ''g'')]\<rparr>) = Inr (Some w)"
  by (subst authPosture_iff, rule refl)
    (simp add: demo_llm_def m_str_def authEnabled_def empty_meta_def equal_fold_def trim_space_def trim_left_space_def is_space_def lower_char_def)

text \<open>
  Three consequences the code does not mean to have. A policy for a route the service no longer refers to stays, even when authentication is switched
  on. The deletion of a service removes a policy its user keeps under the name, which the reconcile respects. And the policies of a
  gateway and of a route of the same name have the same name, so that a service with authentication on and such a route removes the
  policy that protects the gateway.
\<close>

theorem stale_policy_stays:
  "ReconcileRoutePolicies demo_env (\<lambda>_. None) (demo_llm ''true'' [''new'']) (store_world [((''ml'', ''old-authn''), demo_policy llm_labels ''old'')]) =
     ([], None)"
  by (simp add: ReconcileRoutePolicies_def demo_llm_auth routePolicyStep_def Let_def demo_Load httpRouteAuthPolicyProcessDelta_def)

theorem user_policy_deleted:
  "fst (ReconcileRoutePolicies demo_env (\<lambda>_. None) (demo_llm ''true'' [''r'']) (store_world [((''ml'', ''r-authn''), demo_policy [] ''r'')])) = [] \<and>
   DeleteRoutePolicies demo_env (demo_llm ''true'' [''r'']) (store_world [((''ml'', ''r-authn''), demo_policy [] ''r'')]) =
     ([DeleteChild (''ml'', ''r-authn'')], None)"
  by (simp add: ReconcileRoutePolicies_def DeleteRoutePolicies_def demo_llm_auth routePolicyStep_def Let_def demo_Load storeRemove_def)

theorem gateway_policy_removed:
  assumes "lr_http llmisvc = Some [gw_name gw]" "om_namespace (lr_meta llmisvc) = gw_namespace gw"
    and "Detect (om_annotations (lr_meta llmisvc)) = UserDefined" "desiredRoutePolicy env llmisvc (gw_name gw) = Inr d"
    and "map_of st (gw_namespace gw, GetAuthPolicyName env (gw_name gw)) = Some c" "IsManagedByOpenDataHub (ch_meta c)" "wf_children st"
  shows "ReconcileRoutePolicies env routes llmisvc (store_world st) = ([DeleteChild (gw_namespace gw, GetAuthPolicyName env (gw_name gw))], None)"
  using assms route_policy_meta(1) [OF assms(4)] wf_childrenD [OF assms(7,5)]
  by (simp add: ReconcileRoutePolicies_def getHTTPRouteNames_def routePolicyStep_def Let_def httpRouteAuthPolicyProcessDelta_def storeRemove_def)

end
