(* ===== verification/LLM_Controller.thy ===== *)
theory LLM_Controller
  imports LLM_Policies ISVC_Controller
begin

text \<open>
  The LLMInferenceService controller (internal/controller/serving/llm/llm_inferenceservice_controller.go) and the removal of the objects of an
  earlier release (maas_rbac_cleanup.go). The sub-reconcilers are given by their interface, as in the controller of InferenceServices; the
  merge of specs and the stop annotation are KServe's. All sub-reconcilers run, whatever the others return.
\<close>

section \<open>Data\<close>

datatype llm_ctl_error = CtlApi api_error | CtlConfig api_error | CtlMerge string | CtlSub string

record ('spec, 's) llm_sub =
  ls_reconcile :: "'spec served \<Rightarrow> 's \<Rightarrow> llm_ctl_error option \<times> 's"
  ls_delete :: "'spec served \<Rightarrow> 's \<Rightarrow> llm_ctl_error option \<times> 's"
  ls_cleanup :: "string \<Rightarrow> 's \<Rightarrow> llm_ctl_error option \<times> 's"

record ('spec, 's) llm_api =
  la_get :: "namespaced_name \<Rightarrow> 's \<Rightarrow> (api_error + 'spec served) \<times> 's"
  la_list :: "string \<Rightarrow> 's \<Rightarrow> (api_error + 'spec served list) \<times> 's"
  la_config :: "namespaced_name \<Rightarrow> 's \<Rightarrow> (api_error + 'spec) \<times> 's"
  la_base_refs :: "'spec \<Rightarrow> string list"
  la_merge :: "'spec list \<Rightarrow> string + 'spec"
  la_force_stop :: "'spec served \<Rightarrow> bool"
  la_pod_namespace :: string

section \<open>Sub-resources\<close>

text \<open>Run all operations in order and collect what they return.\<close>

fun runEach :: "('s \<Rightarrow> 'e option \<times> 's) list \<Rightarrow> 's \<Rightarrow> 'e list \<times> 's" where
  "runEach [] s = ([], s)"
| "runEach (f # fs) s = (case f s of (r, s) \<Rightarrow> (case runEach fs s of (errs, s) \<Rightarrow> ((case r of Some e \<Rightarrow> [e] | None \<Rightarrow> []) @ errs, s)))"

definition reconcileSubResources :: "('spec, 's) llm_sub list \<Rightarrow> 'spec served \<Rightarrow> 's \<Rightarrow> llm_ctl_error list \<times> 's" where
  "reconcileSubResources subs llmisvc s = runEach (map (\<lambda>r. ls_reconcile r llmisvc) subs) s"

definition onDeletion :: "('spec, 's) llm_sub list \<Rightarrow> 'spec served \<Rightarrow> 's \<Rightarrow> llm_ctl_error list \<times> 's" where
  "onDeletion subs llmisvc s = runEach (map (\<lambda>r. ls_delete r llmisvc) subs) s"

definition CleanupLLM :: "('spec, 's) llm_sub list \<Rightarrow> string \<Rightarrow> 's \<Rightarrow> llm_ctl_error list \<times> 's" where
  "CleanupLLM subs isvcNs s = runEach (map (\<lambda>r. ls_cleanup r isvcNs) subs) s"

definition DeleteResourcesIfNoLLMIsvcExists ::
    "('spec, 's) llm_api \<Rightarrow> ('spec, 's) llm_sub list \<Rightarrow> string \<Rightarrow> 's \<Rightarrow> llm_ctl_error list \<times> 's" where
  "DeleteResourcesIfNoLLMIsvcExists api subs namespace s =
     (case la_list api namespace s of
        (Inl e, s) \<Rightarrow> ([CtlApi e], s)
      | (Inr items, s) \<Rightarrow>
          (let existingLLMIsvcs = filter (\<lambda>l. \<not> om_deleting (sd_meta l)) items
           in if existingLLMIsvcs = [] then CleanupLLM subs namespace s else ([], s)))"

section \<open>The controller\<close>

definition getConfig ::
    "('spec, 's) llm_api \<Rightarrow> 'spec served \<Rightarrow> string \<Rightarrow> 's \<Rightarrow> (llm_ctl_error + 'spec option) \<times> 's" where
  "getConfig api llmisvc n s =
     (case la_config api (om_namespace (sd_meta llmisvc), n) s of
        (Inr cfg, s) \<Rightarrow> (Inr (Some cfg), s)
      | (Inl e, s) \<Rightarrow>
          if e = NotFound then
            (let systemNamespace = la_pod_namespace api
             in if systemNamespace = [] then (Inr None, s)
                else (case la_config api (systemNamespace, n) s of
                        (Inl e, s) \<Rightarrow> (Inl (CtlConfig e), s)
                      | (Inr cfg, s) \<Rightarrow> (Inr (Some cfg), s)))
          else (Inl (CtlConfig e), s))"

fun baseSpecs ::
    "('spec, 's) llm_api \<Rightarrow> 'spec served \<Rightarrow> string list \<Rightarrow> 's \<Rightarrow> (llm_ctl_error + 'spec list) \<times> 's" where
  "baseSpecs api llmisvc [] s = (Inr [], s)"
| "baseSpecs api llmisvc (ref # refs) s =
     (case getConfig api llmisvc ref s of
        (Inl e, s) \<Rightarrow> (Inl e, s)
      | (Inr cfg, s) \<Rightarrow>
          (case baseSpecs api llmisvc refs s of
             (Inl e, s) \<Rightarrow> (Inl e, s)
           | (Inr specs, s) \<Rightarrow> (Inr ((case cfg of Some c \<Rightarrow> [c] | None \<Rightarrow> []) @ specs), s)))"

definition ReconcileLLM ::
    "('spec, 's) llm_api \<Rightarrow> ('spec, 's) llm_sub list \<Rightarrow> namespaced_name \<Rightarrow> 's \<Rightarrow> llm_ctl_error list \<times> 's" where
  "ReconcileLLM api subs req s =
     (case la_get api req s of
        (Inl e, s) \<Rightarrow> (if e = NotFound then [] else [CtlApi e], s)
      | (Inr llmisvc, s) \<Rightarrow>
          if om_deleting (sd_meta llmisvc) then
            (case onDeletion subs llmisvc s of
               (errs, s) \<Rightarrow>
                 if errs \<noteq> [] then (errs, s) else DeleteResourcesIfNoLLMIsvcExists api subs (om_namespace (sd_meta llmisvc)) s)
          else
            (case baseSpecs api llmisvc (la_base_refs api (sd_spec llmisvc)) s of
               (Inl e, s) \<Rightarrow> ([e], s)
             | (Inr specs, s) \<Rightarrow>
                 (case la_merge api (specs @ [sd_spec llmisvc]) of
                    Inl e \<Rightarrow> ([CtlMerge e], s)
                  | Inr spec \<Rightarrow>
                      (let llmisvc = llmisvc\<lparr>sd_spec := spec\<rparr>
                       in if la_force_stop api llmisvc then ([], s) else reconcileSubResources subs llmisvc s))))"

section \<open>Events\<close>

text \<open>Creations of policies are not watched, updates and deletions only of managed ones.\<close>

datatype policy_event = PolicyCreated object_meta | PolicyUpdated object_meta | PolicyDeleted object_meta

definition policyEventAccepted :: "policy_event \<Rightarrow> bool" where
  "policyEventAccepted e =
     (case e of
        PolicyCreated _ \<Rightarrow> False
      | PolicyUpdated new \<Rightarrow> IsManagedByOpenDataHub new
      | PolicyDeleted obj \<Rightarrow> IsManagedByOpenDataHub obj)"

definition enqueueOnAuthPolicyChange :: "object_meta \<Rightarrow> namespaced_name list" where
  "enqueueOnAuthPolicyChange authPolicy =
     (case FindLLMServiceFromAuthPolicy authPolicy of Some n \<Rightarrow> [n] | None \<Rightarrow> [])"

definition globalResync :: "api_error + 'spec served list \<Rightarrow> namespaced_name list" where
  "globalResync services =
     (case services of Inl _ \<Rightarrow> [] | Inr items \<Rightarrow> map (\<lambda>l. (om_namespace (sd_meta l), om_name (sd_meta l))) items)"

section \<open>Objects of an earlier release\<close>

definition roleSuffix :: string where "roleSuffix = ''-model-post-access''"
definition roleBindingSuffix :: string where "roleBindingSuffix = ''-model-post-access-tier-binding''"

text \<open>\<open>listed\<close> is the answer to the list of the objects with the label of the controller, \<open>deleteObj\<close> the deletion. The result has the calls made, how many
  objects were removed, and the errors.\<close>

fun cleanupLoop ::
    "string \<Rightarrow> (namespaced_name \<Rightarrow> api_error option) \<Rightarrow> namespaced_name list \<Rightarrow> namespaced_name list \<times> nat \<times> api_error list" where
  "cleanupLoop suffix deleteObj [] = ([], 0, [])"
| "cleanupLoop suffix deleteObj (obj # objs) =
     (case cleanupLoop suffix deleteObj objs of
        (calls, removed, errs) \<Rightarrow>
          if \<not> has_suffix suffix (snd obj) then (calls, removed, errs)
          else (case deleteObj obj of
                  Some e \<Rightarrow> if e \<noteq> NotFound then (obj # calls, removed, e # errs) else (obj # calls, Suc removed, errs)
                | None \<Rightarrow> (obj # calls, Suc removed, errs)))"

definition cleanupListed ::
    "string \<Rightarrow> (namespaced_name \<Rightarrow> api_error option) \<Rightarrow> api_error + namespaced_name list \<Rightarrow> namespaced_name list \<times> nat \<times> api_error list" where
  "cleanupListed suffix deleteObj listed = (case listed of Inl e \<Rightarrow> ([], 0, [e]) | Inr objs \<Rightarrow> cleanupLoop suffix deleteObj objs)"

definition MaaSRBACCleanup ::
    "(namespaced_name \<Rightarrow> api_error option) \<Rightarrow> (namespaced_name \<Rightarrow> api_error option) \<Rightarrow> api_error + namespaced_name list \<Rightarrow>
     api_error + namespaced_name list \<Rightarrow> namespaced_name list \<times> namespaced_name list \<times> api_error list" where
  "MaaSRBACCleanup deleteRole deleteBinding roles bindings =
     (case cleanupListed roleSuffix deleteRole roles of
        (calls, _, errs) \<Rightarrow>
          (case cleanupListed roleBindingSuffix deleteBinding bindings of (calls', _, errs') \<Rightarrow> (calls, calls', errs @ errs')))"

section \<open>Lemmas\<close>

text \<open>Every operation runs on the state the ones before it left, whatever they returned.\<close>

lemma runEach_state: "snd (runEach fs s) = fold (\<lambda>f s. snd (f s)) fs s"
  by (induction fs arbitrary: s) (auto simp: case_prod_unfold)

lemma runEach_errors: "fst (runEach fs s) = [] \<longleftrightarrow> (\<forall>i < length fs. fst ((fs ! i) (fold (\<lambda>f s. snd (f s)) (take i fs) s)) = None)"
proof (induction fs arbitrary: s)
  case (Cons f fs)
  show ?case using Cons.IH [of "snd (f s)"] by (auto simp: case_prod_unfold less_Suc_eq_0_disj split: option.splits)
qed simp

lemma cleanupLoop_calls: "fst (cleanupLoop suffix deleteObj objs) = filter (\<lambda>o'. has_suffix suffix (snd o')) objs"
  by (induction objs) (auto simp: case_prod_unfold split: option.split)

lemma cleanupLoop_errors:
  "snd (snd (cleanupLoop suffix deleteObj objs)) = [] \<longleftrightarrow>
     (\<forall>obj \<in> set objs. has_suffix suffix (snd obj) \<longrightarrow> deleteObj obj \<in> {None, Some NotFound})"
  by (induction objs) (auto simp: case_prod_unfold split: option.split)

text \<open>The migration deletes exactly the listed roles and bindings with the suffix of the release before, in spite of errors, and reports an error exactly when one is left.\<close>

theorem maas_cleanup_exact:
  "MaaSRBACCleanup deleteRole deleteBinding (Inr roles) (Inr bindings) =
     (filter (\<lambda>r. has_suffix roleSuffix (snd r)) roles, filter (\<lambda>b. has_suffix roleBindingSuffix (snd b)) bindings,
      snd (snd (cleanupLoop roleSuffix deleteRole roles)) @ snd (snd (cleanupLoop roleBindingSuffix deleteBinding bindings)))"
  by (simp add: MaaSRBACCleanup_def cleanupListed_def case_prod_unfold cleanupLoop_calls)

section \<open>What the controller keeps\<close>

text \<open>
  As long as the namespace has a service that is not being deleted, a reconcile makes no use of the cleanup of any sub-reconciler: with other
  cleanups it does the same.
\<close>

theorem cleanup_waits_for_last:
  assumes live: "\<And>s'. \<exists>items. fst (la_list api (fst req) s') = Inr items \<and> (\<exists>l \<in> set items. \<not> om_deleting (sd_meta l))"
    and key: "\<And>s' l s''. la_get api req s' = (Inr l, s'') \<Longrightarrow> om_namespace (sd_meta l) = fst req"
  shows "ReconcileLLM api (map (\<lambda>r. r\<lparr>ls_cleanup := f\<rparr>) subs) req s = ReconcileLLM api subs req s"
proof -
  have d: "onDeletion (map (\<lambda>r. r\<lparr>ls_cleanup := f\<rparr>) subs) = onDeletion subs" by (simp add: onDeletion_def fun_eq_iff o_def)
  have r: "reconcileSubResources (map (\<lambda>r. r\<lparr>ls_cleanup := f\<rparr>) subs) = reconcileSubResources subs"
    by (simp add: reconcileSubResources_def fun_eq_iff o_def)
  have c: "DeleteResourcesIfNoLLMIsvcExists api (map (\<lambda>r. r\<lparr>ls_cleanup := f\<rparr>) subs) (fst req) s' =
      DeleteResourcesIfNoLLMIsvcExists api subs (fst req) s'" for s'
    using live [of s'] by (auto simp: DeleteResourcesIfNoLLMIsvcExists_def filter_empty_conv split: prod.split sum.split)
  show ?thesis
    by (auto simp: ReconcileLLM_def d r c dest: key split: prod.split sum.split)
qed

text \<open>A stopped service changes nothing but by reading.\<close>

theorem stopped_service_untouched:
  assumes get: "la_get api req s = (Inr llmisvc, s1)" and live: "\<not> om_deleting (sd_meta llmisvc)"
    and base: "baseSpecs api llmisvc (la_base_refs api (sd_spec llmisvc)) s1 = (Inr specs, s2)"
    and merge: "la_merge api (specs @ [sd_spec llmisvc]) = Inr spec" and stop: "la_force_stop api (llmisvc\<lparr>sd_spec := spec\<rparr>)"
  shows "ReconcileLLM api subs req s = ([], s2)"
  using assms by (simp add: ReconcileLLM_def)

end
