(* ===== verification/NIM_Catalog.thy ===== *)
theory NIM_Catalog
  imports PEM_Codec
begin

text \<open>
  The calls to NVIDIA's services (internal/controller/utils/nim.go): the catalog of runtimes, which comes in pages, the validation of an
  API key and the data of the models. \<open>nim_http\<close> has the HTTP client and the JSON decoder; a response is its status and the part of its
  body that was read. The loop over the pages ends only when the server says so, so it is a partial function whose value is None when it
  does not return.
\<close>

section \<open>Data\<close>

datatype nim_error = RequestFailed string | BadStatus int | BadJson | BadURL | IndexOutOfRange | KeyInvalid | NoModels

record http_request =
  hr_method :: string
  hr_url :: string
  hr_query :: "(string \<times> string) list"
  hr_headers :: "(string \<times> string) list"
  hr_body :: string

record catalog_resource =
  cr_id :: string
  cr_attributes :: "(string \<times> string) list"
  cr_name :: string

record catalog_response =
  cp_total :: int
  cp_page :: int
  cp_results :: "(string \<times> catalog_resource list) list"

record nim_runtime =
  nr_resource :: string
  nr_version :: string
  nr_org :: string
  nr_team :: string
  nr_image :: string
  nr_name :: string

text \<open>\<open>nh_model\<close> gives the name of a model and its JSON with only the fields of \<open>NimModel\<close>; \<open>nh_url\<close> says whether a URL parses.\<close>

record nim_http =
  nh_do :: "http_request \<Rightarrow> nim_error + (int \<times> string)"
  nh_url :: "string \<Rightarrow> bool"
  nh_catalog :: "string \<Rightarrow> nim_error + catalog_response"
  nh_token :: "string \<Rightarrow> nim_error + string"
  nh_model :: "string \<Rightarrow> nim_error + (string \<times> string)"

section \<open>Requests\<close>

definition maxNIMResponseBytes :: nat where "maxNIMResponseBytes = 10 * 2 ^ 20"

definition handleRequest :: "nim_http \<Rightarrow> http_request \<Rightarrow> nim_error + (int \<times> string)" where
  "handleRequest http req =
     (case nh_do http req of
        Inl e \<Rightarrow> Inl e
      | Inr (status, body) \<Rightarrow> Inr (status, take maxNIMResponseBytes body))"

definition get_request :: "string \<Rightarrow> (string \<times> string) list \<Rightarrow> http_request" where
  "get_request url headers = \<lparr>hr_method = ''GET'', hr_url = url, hr_query = [], hr_headers = headers, hr_body = []\<rparr>"

definition isPersonalApiKey :: "string \<Rightarrow> bool" where
  "isPersonalApiKey apiKey = has_prefix ''nvapi-'' apiKey"

section \<open>The catalog\<close>

text \<open>The first attribute named \<open>latestTag\<close> makes a runtime; \<open>parts[2]\<close> panics when the id has fewer than three parts.\<close>

definition resourceRuntime :: "catalog_resource \<Rightarrow> nim_error + nim_runtime list" where
  "resourceRuntime res =
     (case map_of (cr_attributes res) ''latestTag'' of
        None \<Rightarrow> Inr []
      | Some v \<Rightarrow>
          (case split_on CHR ''/'' (cr_id res) of
             o' # t # img # _ \<Rightarrow>
               Inr [\<lparr>nr_resource = cr_id res, nr_version = v, nr_org = o', nr_team = t, nr_image = img, nr_name = cr_name res\<rparr>]
           | _ \<Rightarrow> Inl IndexOutOfRange))"

fun appendRuntimes :: "catalog_resource list \<Rightarrow> nim_error + nim_runtime list" where
  "appendRuntimes [] = Inr []"
| "appendRuntimes (r # rs) =
     (case resourceRuntime r of
        Inl e \<Rightarrow> Inl e
      | Inr a \<Rightarrow> (case appendRuntimes rs of Inl e \<Rightarrow> Inl e | Inr b \<Rightarrow> Inr (a @ b)))"

definition mapNimCatalogResponseToRuntimeList :: "catalog_response \<Rightarrow> nim_error + nim_runtime list" where
  "mapNimCatalogResponseToRuntimeList resp =
     appendRuntimes (concat (map snd (filter (\<lambda>(g, _). g = ''CONTAINER'') (cp_results resp))))"

definition catalogRequest :: "int \<Rightarrow> int \<Rightarrow> http_request" where
  "catalogRequest page pageSize =
     (get_request ''https://api.ngc.nvidia.com/v2/search/catalog/resources/CONTAINER'' [])\<lparr>
       hr_query := [(''q'', ''{'' @ [CHR 0x22] @ ''query'' @ [CHR 0x22] @ '':'' @ [CHR 0x22] @ ''orgName:nim'' @ [CHR 0x22] @
         '','' @ [CHR 0x22] @ ''page'' @ [CHR 0x22] @ '':'' @ dec_int page @
         '','' @ [CHR 0x22] @ ''pageSize'' @ [CHR 0x22] @ '':'' @ dec_int pageSize @ ''}'')]\<rparr>"

text \<open>One request and what is made of its answer: the runtimes of the page and whether there is another.\<close>

definition catalogPage :: "nim_http \<Rightarrow> int \<Rightarrow> int \<Rightarrow> nim_error + (nim_runtime list \<times> bool)" where
  "catalogPage http page pageSize =
     (case handleRequest http (catalogRequest page pageSize) of
        Inl e \<Rightarrow> Inl e
      | Inr (status, body) \<Rightarrow>
          if status \<noteq> 200 then Inl (BadStatus status)
          else (case nh_catalog http body of
                  Inl e \<Rightarrow> Inl e
                | Inr catRes \<Rightarrow>
                    (case mapNimCatalogResponseToRuntimeList catRes of
                       Inl e \<Rightarrow> Inl e
                     | Inr rs \<Rightarrow> Inr (rs, cp_page catRes < cp_total catRes - 1))))"

partial_function (option) getNimRuntimes ::
    "nim_http \<Rightarrow> nim_runtime list \<Rightarrow> int \<Rightarrow> int \<Rightarrow> (nim_error + nim_runtime list) option" where
  "getNimRuntimes http runtimes page pageSize =
     (case catalogPage http page pageSize of
        Inl e \<Rightarrow> Some (Inl e)
      | Inr (rs, again) \<Rightarrow>
          if again then getNimRuntimes http (runtimes @ rs) (page + 1) pageSize else Some (Inr (runtimes @ rs)))"

definition GetAvailableNimRuntimes :: "nim_http \<Rightarrow> (nim_error + nim_runtime list) option" where
  "GetAvailableNimRuntimes http = getNimRuntimes http [] 0 1000"

section \<open>API keys\<close>

definition requestToken :: "nim_http \<Rightarrow> http_request \<Rightarrow> nim_error + string" where
  "requestToken http req =
     (case handleRequest http req of
        Inl e \<Rightarrow> Inl e
      | Inr (status, body) \<Rightarrow> if status \<noteq> 200 then Inl (BadStatus status) else nh_token http body)"

definition getRuntimeRegistryToken :: "nim_http \<Rightarrow> string \<Rightarrow> string \<Rightarrow> nim_error + string" where
  "getRuntimeRegistryToken http apiKey repo =
     (let url = ''https://nvcr.io/proxy_auth?account=$oauthtoken&offline_token=true&scope=repository:'' @ repo @ '':pull''
      in if \<not> nh_url http url then Inl BadURL
         else requestToken http (get_request url [(''Authorization'', ''Basic '' @ base64_encode (''$oauthtoken:'' @ apiKey))]))"

definition getNgcToken :: "nim_http \<Rightarrow> string \<Rightarrow> nim_error + string" where
  "getNgcToken http apiKey =
     requestToken http (get_request ''https://authn.nvidia.com/token?service=ngc&'' [(''Authorization'', ''ApiKey '' @ apiKey)])"

definition attemptToPullManifest :: "nim_http \<Rightarrow> nim_runtime \<Rightarrow> string \<Rightarrow> nim_error + int" where
  "attemptToPullManifest http rt token =
     (let url = ''https://nvcr.io/v2/'' @ nr_resource rt @ ''/manifests/'' @ nr_version rt
      in if \<not> nh_url http url then Inl BadURL
         else (case handleRequest http (get_request url
                 [(''Authorization'', ''Bearer '' @ token), (''Accept'', ''application/vnd.oci.image.index.v1+json'')]) of
                 Inl e \<Rightarrow> Inl e
               | Inr (status, _) \<Rightarrow> Inr status))"

definition validatePersonalApiKey :: "nim_http \<Rightarrow> string \<Rightarrow> nim_error option" where
  "validatePersonalApiKey http apiKey =
     (case handleRequest http \<lparr>hr_method = ''POST'', hr_url = ''https://api.ngc.nvidia.com/v3/keys/get-caller-info'', hr_query = [],
             hr_headers = [(''Content-Type'', ''application/x-www-form-urlencoded''), (''Authorization'', ''Bearer '' @ apiKey)],
             hr_body = ''credentials='' @ apiKey\<rparr> of
        Inl e \<Rightarrow> Some e
      | Inr (status, _) \<Rightarrow> if status \<noteq> 200 then Some (BadStatus status) else None)"

fun validateLegacyApiKey :: "nim_http \<Rightarrow> string \<Rightarrow> nim_runtime list \<Rightarrow> nim_error option" where
  "validateLegacyApiKey http apiKey [] = Some KeyInvalid"
| "validateLegacyApiKey http apiKey (rt # rts) =
     (case getRuntimeRegistryToken http apiKey (nr_resource rt) of
        Inl e \<Rightarrow> Some e
      | Inr token \<Rightarrow>
          (case attemptToPullManifest http rt token of
             Inl e \<Rightarrow> Some e
           | Inr status \<Rightarrow>
               if status = 451 then validateLegacyApiKey http apiKey rts
               else if status = 200 then None
               else Some KeyInvalid))"

definition ValidateApiKey :: "nim_http \<Rightarrow> string \<Rightarrow> nim_runtime list \<Rightarrow> nim_error option" where
  "ValidateApiKey http apiKey runtimes =
     (if isPersonalApiKey apiKey then validatePersonalApiKey http apiKey else validateLegacyApiKey http apiKey runtimes)"

section \<open>Models\<close>

definition getModelData :: "nim_http \<Rightarrow> nim_runtime \<Rightarrow> string \<Rightarrow> (string \<times> string) option" where
  "getModelData http rt key =
     (let url = ''https://api.ngc.nvidia.com/v2/org/'' @ nr_org rt @ ''/team/'' @ nr_team rt @ ''/repos/'' @ nr_image rt @ ''?resolve-labels=true''
      in if \<not> nh_url http url then None
         else (case handleRequest http (get_request url [(''Authorization'', ''Bearer '' @ key)]) of
                 Inl _ \<Rightarrow> None
               | Inr (status, body) \<Rightarrow>
                   if status \<noteq> 200 then None else (case nh_model http body of Inl _ \<Rightarrow> None | Inr m \<Rightarrow> Some m)))"

fun collectModels :: "nim_http \<Rightarrow> string \<Rightarrow> nim_runtime list \<Rightarrow> string gomap \<Rightarrow> string gomap" where
  "collectModels http key [] data = data"
| "collectModels http key (rt # rts) data =
     collectModels http key rts (case getModelData http rt key of None \<Rightarrow> data | Some (n, json) \<Rightarrow> m_put n json data)"

definition GetNimModelData :: "nim_http \<Rightarrow> string \<Rightarrow> nim_runtime list \<Rightarrow> nim_error + string gomap" where
  "GetNimModelData http apiKey runtimes =
     (case (if isPersonalApiKey apiKey then Inr apiKey else getNgcToken http apiKey) of
        Inl e \<Rightarrow> Inl e
      | Inr key \<Rightarrow>
          (let data = collectModels http key runtimes []
           in if data = [] then Inl NoModels else Inr data))"

definition filterAvailableNimRuntimes :: "nim_runtime list \<Rightarrow> string list \<Rightarrow> nim_runtime list" where
  "filterAvailableNimRuntimes availableRuntimes selectedModelList =
     (if selectedModelList \<noteq> [] then filter (\<lambda>r. nr_name r \<in> set selectedModelList) availableRuntimes else availableRuntimes)"

section \<open>Lemmas\<close>

lemma getNimRuntimes_pages:
  assumes "\<And>i. page \<le> i \<Longrightarrow> i < last_page \<Longrightarrow> catalogPage http i n = Inr (rs i, True)"
    and "catalogPage http last_page n = Inr (rs last_page, False)" and "page \<le> last_page"
  shows "getNimRuntimes http acc page n = Some (Inr (acc @ concat (map rs [page..last_page])))"
  using assms
proof (induction "nat (last_page - page)" arbitrary: page acc)
  case 0
  then show ?case by (subst getNimRuntimes.simps) simp
next
  case (Suc k)
  then have "page < last_page" by simp
  with Suc.prems(1) [of page] Suc.hyps(1) [of "page + 1" "acc @ rs page"] Suc.hyps(2) Suc.prems show ?case
    by (subst getNimRuntimes.simps) (simp add: upto_rec1)
qed

lemma getNimRuntimes_endless:
  assumes "getNimRuntimes http acc i n = Some y"
  shows "\<exists>j. catalogPage http j n \<noteq> Inr (rs j, True)"
  using _ assms
proof (rule getNimRuntimes.raw_induct [of "\<lambda>http acc i n y. \<exists>j. catalogPage http j n \<noteq> Inr (rs j, True)"])
  fix f http acc i n y
  assume IH: "\<And>http acc i n y. f http acc i n = Some y \<Longrightarrow> \<exists>j. catalogPage http j n \<noteq> Inr (rs j, True)"
    and run: "(case catalogPage http i n of Inl e \<Rightarrow> Some (Inl e)
      | Inr (rs, again) \<Rightarrow> if again then f http (acc @ rs) (i + 1) n else Some (Inr (acc @ rs))) = Some y"
  show "\<exists>j. catalogPage http j n \<noteq> Inr (rs j, True)"
  proof (cases "catalogPage http i n = Inr (rs i, True)")
    case True
    with run show ?thesis by (intro IH [of http "acc @ rs i" "i + 1" n y]) simp
  qed blast
qed

lemma collectModels_keys:
  "map_of (collectModels http key rts data) n \<noteq> None \<longleftrightarrow>
     map_of data n \<noteq> None \<or> (\<exists>rt \<in> set rts. \<exists>json. getModelData http rt key = Some (n, json))"
  by (induction http key rts data rule: collectModels.induct) (auto split: option.splits)

lemma appendRuntimes_ok:
  assumes "\<forall>r \<in> set rs. 3 \<le> length (split_on CHR ''/'' (cr_id r))"
  shows "\<exists>out. appendRuntimes rs = Inr out"
  using assms
proof (induction rs)
  case (Cons r rs)
  then obtain a b c d where "split_on CHR ''/'' (cr_id r) = a # b # c # d"
    by (auto simp: numeral_3_eq_3 Suc_le_length_iff)
  with Cons show ?case by (auto simp: resourceRuntime_def split: option.split)
qed simp

section \<open>Properties\<close>

text \<open>
  Property C31. Reading the catalog ends, and with every page: if the server answers each request with the page that was asked for, out of the
  same number of pages, and names its resources with three parts, the result is the runtimes of all pages in order. At least one page is
  read, also when the server says there are none.
\<close>

theorem catalog_read_ends:
  assumes answers: "\<And>i. i \<in> {0..max 0 (pages - 1)} \<Longrightarrow> nh_do http (catalogRequest i 1000) = Inr (200, body i)"
    and decoded: "\<And>i. i \<in> {0..max 0 (pages - 1)} \<Longrightarrow> nh_catalog http (take maxNIMResponseBytes (body i)) = Inr (pg i)"
    and echo: "\<And>i. i \<in> {0..max 0 (pages - 1)} \<Longrightarrow> cp_page (pg i) = i \<and> cp_total (pg i) = pages"
    and ids: "\<And>i g rs r. i \<in> {0..max 0 (pages - 1)} \<Longrightarrow> (g, rs) \<in> set (cp_results (pg i)) \<Longrightarrow> r \<in> set rs \<Longrightarrow>
      3 \<le> length (split_on CHR ''/'' (cr_id r))"
  shows "\<exists>rs. (\<forall>i \<in> {0..max 0 (pages - 1)}. mapNimCatalogResponseToRuntimeList (pg i) = Inr (rs i)) \<and>
    GetAvailableNimRuntimes http = Some (Inr (concat (map rs [0..max 0 (pages - 1)])))"
proof -
  have "\<exists>out. mapNimCatalogResponseToRuntimeList (pg i) = Inr out" if "i \<in> {0..max 0 (pages - 1)}" for i
    unfolding mapNimCatalogResponseToRuntimeList_def using ids [OF that] by (intro appendRuntimes_ok) auto
  then obtain rs where rs: "\<And>i. i \<in> {0..max 0 (pages - 1)} \<Longrightarrow> mapNimCatalogResponseToRuntimeList (pg i) = Inr (rs i)" by metis
  have page: "catalogPage http i 1000 = Inr (rs i, i < pages - 1)" if "i \<in> {0..max 0 (pages - 1)}" for i
    using echo [OF that] by (simp add: catalogPage_def handleRequest_def answers [OF that] decoded [OF that] rs [OF that])
  have "getNimRuntimes http [] 0 1000 = Some (Inr ([] @ concat (map rs [0..max 0 (pages - 1)])))"
    by (rule getNimRuntimes_pages) (auto simp: page)
  with rs show ?thesis unfolding GetAvailableNimRuntimes_def by (metis append_Nil)
qed

text \<open>A catalog of two pages with one runtime each.\<close>

definition two_pages :: "int \<Rightarrow> catalog_response" where
  "two_pages i = \<lparr>cp_total = 2, cp_page = i, cp_results = [(''CONTAINER'', [\<lparr>cr_id = ''nim/meta/llama'',
     cr_attributes = [(''latestTag'', dec_int i)], cr_name = ''llama''\<rparr>])]\<rparr>"

text \<open>The body of a page is its number, in the decimal digits of the request.\<close>

definition demo_http :: nim_http where
  "demo_http = \<lparr>nh_do = (\<lambda>r. Inr (200, snd (hd (hr_query r)))), nh_url = (\<lambda>_. True),
     nh_catalog = (\<lambda>b. Inr (two_pages (if b = snd (hd (hr_query (catalogRequest 0 1000))) then 0 else 1))),
     nh_token = Inr, nh_model = (\<lambda>b. Inr (b, b))\<rparr>"

lemma dec_digits: "dec_int 0 = ''0''" "dec_int 1 = ''1''" "dec_int 1000 = ''1000''"
  by code_simp+

theorem catalog_read_ends_witness:
  "\<exists>rs. GetAvailableNimRuntimes demo_http = Some (Inr rs) \<and> map nr_version rs = [''0'', ''1'']"
proof -
  have two: "i = 0 \<or> i = 1" if "i \<in> {0..max 0 (2 - 1)}" for i :: int using that by auto
  have read: "\<exists>rs. (\<forall>i \<in> {0..max 0 (2 - 1)}. mapNimCatalogResponseToRuntimeList (two_pages i) = Inr (rs i)) \<and>
      GetAvailableNimRuntimes demo_http = Some (Inr (concat (map rs [0..max 0 (2 - 1)])))"
    by (rule catalog_read_ends [where body = "\<lambda>i. snd (hd (hr_query (catalogRequest i 1000)))"])
      (drule two, fastforce simp: demo_http_def two_pages_def catalogRequest_def get_request_def dec_digits maxNIMResponseBytes_def)+
  then obtain rs where rs: "\<forall>i \<in> {0..1}. mapNimCatalogResponseToRuntimeList (two_pages i) = Inr (rs i)"
    and all: "GetAvailableNimRuntimes demo_http = Some (Inr (rs 0 @ rs 1))" by (auto simp: upto_rec1)
  from rs have "Inr (rs 0) = mapNimCatalogResponseToRuntimeList (two_pages 0)" "Inr (rs 1) = mapNimCatalogResponseToRuntimeList (two_pages 1)" by simp_all
  then have "map nr_version (rs 0) = [''0'']" "map nr_version (rs 1) = [''1'']"
    by (simp_all add: mapNimCatalogResponseToRuntimeList_def two_pages_def resourceRuntime_def dec_digits)
  with all show ?thesis by simp
qed

text \<open>
  The loop trusts the page number in the response. A server that reports page 0 of more than one for every request is asked without
  end.
\<close>

theorem catalog_read_never_ends:
  assumes "\<And>i. catalogPage http i 1000 = Inr (rs i, True)"
  shows "GetAvailableNimRuntimes http = None"
proof (cases "GetAvailableNimRuntimes http")
  case (Some y)
  then have "getNimRuntimes http [] 0 1000 = Some y" by (simp add: GetAvailableNimRuntimes_def)
  with getNimRuntimes_endless [of http "[]" 0 1000 y rs] assms show ?thesis by blast
qed

end
