(* ===== verification/NIM_Status.thy ===== *)
theory NIM_Status
  imports NIM_Catalog Storage_Config Gateway_Refs
begin

text \<open>
  The status of a NIM Account and what the NIM handlers share (internal/controller/utils/conditions.go, the second half of utils/nim.go,
  internal/controller/nim/handlers/handlers.go and api_key_manager.go). A handler returns its response and the run so far: the writes it asked for, in
  order, and the state of the lazy key manager. The account is read again before every status update, so its reads depend on the writes. The condition
  helpers of apimachinery, \<open>time.ParseDuration\<close>, the JSON decoder, the apply-configuration extractors and the API server are fields of
  \<open>nim_env\<close>; times are in nanoseconds.
\<close>

section \<open>Data\<close>

record obj_ref =
  rx_kind :: string
  rx_name :: string
  rx_namespace :: string
  rx_uid :: string

record nim_condition =
  nc_type :: string
  nc_status :: string
  nc_generation :: int
  nc_time :: int
  nc_reason :: string
  nc_message :: string

record nim_status =
  as_config :: "obj_ref option"
  as_template :: "obj_ref option"
  as_pull :: "obj_ref option"
  as_validated :: "int option"
  as_refreshed :: "int option"
  as_checked :: "int option"
  as_conditions :: "nim_condition list"

record nim_account =
  na_meta :: object_meta
  na_generation :: int
  na_key :: namespaced_name  \<comment> \<open>\<open>Spec.APIKeySecret\<close>\<close>
  na_models :: "namespaced_name option"  \<comment> \<open>\<open>Spec.ModelListConfig\<close>\<close>
  na_validation_rate :: string
  na_config_rate :: string
  na_status :: nim_status

text \<open>An apply configuration: what the controller claims of an object.\<close>

record apply_cfg =
  ac_name :: string
  ac_namespace :: string
  ac_type :: string
  ac_owner :: "owner_ref option"
  ac_labels :: "string gomap"
  ac_annotations :: "string gomap"
  ac_data :: "string gomap"
  ac_objects :: "string list"

text \<open>An object as the typed clients return it, with the configuration extracted for the controller's field manager, if that works.\<close>

record applied =
  ad_labels :: "string gomap"
  ad_annotations :: "string gomap"
  ad_objects :: "string list"
  ad_extracted :: "apply_cfg option"

record key_secret =
  ks_meta :: object_meta
  ks_data :: "string gomap"

datatype obj_kind = PullSecretObj | ConfigMapObj | TemplateObj

datatype nim_write =
    AddFinalizer nim_account
  | PatchFinalizer nat
  | PatchForceAnnotation namespaced_name
  | DeleteObj obj_kind namespaced_name
  | StatusUpdate nim_status
  | Apply obj_kind apply_cfg

datatype acct_error = AcctApi api_error | AcctNim nim_error | AcctMsg string

datatype response = Continue | Requeue | Stop | Fail "acct_error list" | Panic

record key_manager =
  km_secret_once :: bool
  km_secret :: "key_secret option"
  km_key_once :: bool
  km_key :: string
  km_errs :: "acct_error list"

record nim_run =
  ru_writes :: "nim_write list"
  ru_km :: key_manager

text \<open>The ServingRuntime of the template; an environment variable has a value or the key of a Secret.\<close>

datatype env_source = EnvValue string | EnvSecret string string

record nim_template =
  nt_name :: string
  nt_labels :: "string gomap"
  nt_annotations :: "string gomap"
  nt_pod_annotations :: "string gomap"
  nt_env :: "(string \<times> env_source) list"
  nt_port :: int
  nt_limits :: "string gomap"
  nt_requests :: "string gomap"
  nt_mounts :: "(string \<times> string) list"  \<comment> \<open>volume and path\<close>
  nt_pull_secrets :: "string list"
  nt_claims :: "(string \<times> string) list"  \<comment> \<open>volumes of a persistent claim\<close>
  nt_empty_dirs :: "string list"
  nt_multi_model :: bool
  nt_formats :: "string list"

record nim_env =
  nv_now :: int
  nv_http :: nim_http
  nv_account :: "nim_write list \<Rightarrow> api_error + nim_account"
  nv_secret :: "namespaced_name \<Rightarrow> api_error + key_secret"
  nv_configmap :: "namespaced_name \<Rightarrow> api_error + string gomap"
  nv_configmap_labels :: "namespaced_name \<Rightarrow> api_error + string gomap"
  nv_applied :: "obj_kind \<Rightarrow> namespaced_name \<Rightarrow> api_error + applied"
  nv_write :: "nim_write \<Rightarrow> api_error option"
  nv_apply :: "obj_kind \<Rightarrow> string \<Rightarrow> apply_cfg \<Rightarrow> acct_error + obj_ref"
  nv_set_condition :: "nim_condition \<Rightarrow> nim_condition list \<Rightarrow> bool \<times> nim_condition list"
  nv_find_condition :: "nim_condition list \<Rightarrow> string \<Rightarrow> nim_condition option"
  nv_duration :: "string \<Rightarrow> int option"
  nv_json_list :: "string \<Rightarrow> string list option"
  nv_owner :: "nim_account \<Rightarrow> owner_ref"
  nv_runtime_object :: "nim_template \<Rightarrow> acct_error + string"  \<comment> \<open>the raw object, with its group and kind set\<close>
  nv_is_runtime :: "string \<Rightarrow> bool"  \<comment> \<open>a raw object decodes to a ServingRuntime\<close>
  nv_app_namespace :: "api_error + string"
  nv_air_gapped :: "api_error + (api_error + bool option) list"  \<comment> \<open>the flag of each DataScienceCluster\<close>

section \<open>Conditions\<close>

definition NimConditionAccountStatus :: string where "NimConditionAccountStatus = ''AccountStatus''"
definition NimConditionTemplateUpdate :: string where "NimConditionTemplateUpdate = ''TemplateUpdate''"
definition NimConditionSecretUpdate :: string where "NimConditionSecretUpdate = ''SecretUpdate''"
definition NimConditionConfigMapUpdate :: string where "NimConditionConfigMapUpdate = ''ConfigMapUpdate''"
definition NimConditionAPIKeyValidation :: string where "NimConditionAPIKeyValidation = ''APIKeyValidation''"

definition NimConditions :: "string list" where
  "NimConditions = [NimConditionAccountStatus, NimConditionTemplateUpdate, NimConditionSecretUpdate,
     NimConditionConfigMapUpdate, NimConditionAPIKeyValidation]"

definition MakeNimCondition :: "nim_env \<Rightarrow> string \<Rightarrow> string \<Rightarrow> int \<Rightarrow> string \<Rightarrow> string \<Rightarrow> nim_condition" where
  "MakeNimCondition env condType status gen reason msg =
     \<lparr>nc_type = condType, nc_status = status, nc_generation = gen, nc_time = nv_now env, nc_reason = reason, nc_message = msg\<rparr>"

definition AccountFailCondition :: "nim_env \<Rightarrow> int \<Rightarrow> string \<Rightarrow> nim_condition" where
  "AccountFailCondition env gen msg = MakeNimCondition env NimConditionAccountStatus ''False'' gen ''AccountNotSuccessful'' msg"

definition setCondition :: "nim_env \<Rightarrow> nim_condition \<Rightarrow> nim_status \<Rightarrow> bool \<times> nim_status" where
  "setCondition env c st =
     (case nv_set_condition env c (as_conditions st) of (changed, cs) \<Rightarrow> (changed, st\<lparr>as_conditions := cs\<rparr>))"

definition conditionTrue :: "nim_env \<Rightarrow> nim_account \<Rightarrow> string \<Rightarrow> bool" where
  "conditionTrue env account t =
     (case nv_find_condition env (as_conditions (na_status account)) t of Some c \<Rightarrow> nc_status c = ''True'' | None \<Rightarrow> False)"

section \<open>Clean-up and status\<close>

definition ask :: "nim_env \<Rightarrow> nim_write \<Rightarrow> nim_run \<Rightarrow> api_error option \<times> nim_run" where
  "ask env w run = (nv_write env w, run\<lparr>ru_writes := ru_writes run @ [w]\<rparr>)"

fun deleteObjects :: "nim_env \<Rightarrow> (obj_kind \<times> namespaced_name) list \<Rightarrow> nim_run \<Rightarrow> acct_error list \<times> nim_run" where
  "deleteObjects env [] run = ([], run)"
| "deleteObjects env ((k, n) # objs) run =
     (case ask env (DeleteObj k n) run of
        (r, run) \<Rightarrow>
          (case deleteObjects env objs run of
             (errs, run) \<Rightarrow> ((case r of Some e \<Rightarrow> if e \<noteq> NotFound then [AcctApi e] else [] | None \<Rightarrow> []) @ errs, run)))"

definition refKey :: "obj_ref \<Rightarrow> namespaced_name" where "refKey r = (rx_namespace r, rx_name r)"

definition cleanupObjects :: "nim_account \<Rightarrow> (obj_kind \<times> namespaced_name) list" where
  "cleanupObjects account =
     (let st = na_status account
      in (case as_pull st of Some r \<Rightarrow> [(PullSecretObj, refKey r)] | None \<Rightarrow> []) @
         (case as_config st of Some r \<Rightarrow> [(ConfigMapObj, refKey r)] | None \<Rightarrow> []) @
         (case as_template st of Some r \<Rightarrow> [(TemplateObj, refKey r)] | None \<Rightarrow> []))"

definition CleanupResources :: "nim_env \<Rightarrow> nim_account \<Rightarrow> nim_run \<Rightarrow> acct_error list \<times> nim_run" where
  "CleanupResources env account run = deleteObjects env (cleanupObjects account) run"

definition UpdateStatus :: "nim_env \<Rightarrow> nim_status \<Rightarrow> nim_run \<Rightarrow> acct_error list \<times> nim_run" where
  "UpdateStatus env status run =
     (case nv_account env (ru_writes run) of
        Inl e \<Rightarrow> (if e \<noteq> NotFound then [AcctApi e] else [], run)
      | Inr account \<Rightarrow>
          if na_status account \<noteq> status then
            (case ask env (StatusUpdate status) run of
               (Some e, run) \<Rightarrow> ([AcctApi e], run)
             | (None, run) \<Rightarrow> ([], run))
          else ([], run))"

definition fillCondition :: "nim_env \<Rightarrow> nim_account \<Rightarrow> string \<Rightarrow> string \<Rightarrow> nim_status \<Rightarrow> nim_status" where
  "fillCondition env account msg cond st =
     (case nv_find_condition env (as_conditions st) cond of
        Some _ \<Rightarrow> st
      | None \<Rightarrow>
          snd (setCondition env
            (if cond = NimConditionAccountStatus then AccountFailCondition env (na_generation account) msg
             else MakeNimCondition env cond ''Unknown'' (na_generation account) ''NotReconciled'' msg) st))"

definition makeCleanStatusForAccountFailure :: "nim_env \<Rightarrow> nim_account \<Rightarrow> string \<Rightarrow> nim_condition list \<Rightarrow> nim_status" where
  "makeCleanStatusForAccountFailure env account msg conditions =
     fold (fillCondition env account msg) NimConditions
       ((na_status account)\<lparr>as_config := None, as_template := None, as_pull := None, as_checked := Some (nv_now env),
          as_conditions := conditions\<rparr>)"

section \<open>The key manager\<close>

definition orNamespace :: "nim_account \<Rightarrow> namespaced_name \<Rightarrow> namespaced_name" where
  "orNamespace account k = (if fst k = [] then om_namespace (na_meta account) else fst k, snd k)"

definition addErrs :: "acct_error list \<Rightarrow> nim_run \<Rightarrow> nim_run" where
  "addErrs errs run = run\<lparr>ru_km := (ru_km run)\<lparr>km_errs := km_errs (ru_km run) @ errs\<rparr>\<rparr>"

text \<open>The failure path both loaders have: clean up, then report on the account.\<close>

definition keyFailure :: "nim_env \<Rightarrow> nim_account \<Rightarrow> string \<Rightarrow> nim_run \<Rightarrow> nim_run" where
  "keyFailure env account msg run =
     (case CleanupResources env account run of
        (errs, run) \<Rightarrow>
          (case UpdateStatus env (makeCleanStatusForAccountFailure env account msg []) (addErrs errs run) of
             (errs, run) \<Rightarrow> addErrs errs run))"

definition loadSecret :: "nim_env \<Rightarrow> nim_account \<Rightarrow> nim_run \<Rightarrow> nim_run" where
  "loadSecret env account run =
     (if km_secret_once (ru_km run) then run
      else
        (let run = run\<lparr>ru_km := (ru_km run)\<lparr>km_secret_once := True\<rparr>\<rparr>
         in case nv_secret env (orNamespace account (na_key account)) of
              Inr s \<Rightarrow> run\<lparr>ru_km := (ru_km run)\<lparr>km_secret := Some s\<rparr>\<rparr>
            | Inl e \<Rightarrow>
                if e = NotFound then addErrs [AcctApi e] (keyFailure env account ''api key secret not found'' run)
                else addErrs [AcctApi e] (keyFailure env account ''failed to fetch api key secret'' (addErrs [AcctApi e] run))))"

definition loadKey :: "nim_env \<Rightarrow> nim_account \<Rightarrow> nim_run \<Rightarrow> nim_run" where
  "loadKey env account run =
     (if km_key_once (ru_km run) then run
      else
        (let run = run\<lparr>ru_km := (ru_km run)\<lparr>km_key_once := True\<rparr>\<rparr>
         in case km_secret (ru_km run) of
              None \<Rightarrow> addErrs [AcctMsg ''api key secret not fetched yet''] run
            | Some s \<Rightarrow>
                (case map_of (ks_data s) ''api_key'' of
                   Some k \<Rightarrow> run\<lparr>ru_km := (ru_km run)\<lparr>km_key := trim_space k\<rparr>\<rparr>
                 | None \<Rightarrow> keyFailure env account ''failed to find api key data in secret''
                     (addErrs [AcctMsg (''secret '' @ om_name (ks_meta s) @ '' has no api_key data'')] run))))"

definition GetAPIKeySecret :: "nim_env \<Rightarrow> nim_account \<Rightarrow> nim_run \<Rightarrow> (acct_error list + key_secret option) \<times> nim_run" where
  "GetAPIKeySecret env account run =
     (let run = loadSecret env account run
      in (if km_errs (ru_km run) = [] then Inr (km_secret (ru_km run)) else Inl (km_errs (ru_km run)), run))"

definition GetAPIKey :: "nim_env \<Rightarrow> nim_account \<Rightarrow> nim_run \<Rightarrow> (acct_error list + string) \<times> nim_run" where
  "GetAPIKey env account run =
     (let run = loadSecret env account run;
          run = (if km_errs (ru_km run) = [] then loadKey env account run else run)
      in (if km_errs (ru_km run) = [] then Inr (km_key (ru_km run)) else Inl (km_errs (ru_km run)), run))"

text \<open>\<open>IsNotFound\<close> on the collected errors looks at the first that comes from the API server.\<close>

definition isNotFound :: "acct_error list \<Rightarrow> bool" where
  "isNotFound errs = (find (\<lambda>e. case e of AcctApi _ \<Rightarrow> True | _ \<Rightarrow> False) errs = Some (AcctApi NotFound))"

section \<open>Helpers of the handlers\<close>

definition commonBaseLabels :: "string gomap" where "commonBaseLabels = [(''opendatahub.io/managed'', ''true'')]"

text \<open>A nil map and an empty one are not told apart: the result is the same map, and the flag is set as long as the base has entries.\<close>

definition mergeStringMaps :: "string gomap \<Rightarrow> string gomap \<Rightarrow> bool \<times> string gomap" where
  "mergeStringMaps baseMap existing =
     fold (\<lambda>(k, v) (changed, merged). if map_of existing k = None then (True, m_put k v merged) else (changed, merged)) baseMap
       (False, existing)"

definition shouldUpdateReference :: "obj_ref option \<Rightarrow> obj_ref option \<Rightarrow> bool" where
  "shouldUpdateReference origRef newRef =
     (case (origRef, newRef) of (Some a, Some b) \<Rightarrow> rx_uid a \<noteq> rx_uid b | _ \<Rightarrow> True)"

definition getSelectedModelList :: "nim_env \<Rightarrow> nim_account \<Rightarrow> api_error + string list" where
  "getSelectedModelList env account =
     (case na_models account of
        None \<Rightarrow> Inr []
      | Some cfg \<Rightarrow>
          if snd cfg = [] then Inr []
          else (case nv_configmap env (orNamespace account cfg) of
                  Inl e \<Rightarrow> if e = NotFound then Inr [] else Inl e
                | Inr data \<Rightarrow>
                    (case map_of data ''models'' of
                       None \<Rightarrow> Inr []
                     | Some models \<Rightarrow> (case nv_json_list env models of None \<Rightarrow> Inr [] | Some ids \<Rightarrow> Inr ids))))"

text \<open>None when the catalog is never read to its end.\<close>

definition getRuntimes :: "nim_env \<Rightarrow> nim_account \<Rightarrow> (acct_error + nim_runtime list) option" where
  "getRuntimes env account =
     map_option (\<lambda>r. case r of
         Inl e \<Rightarrow> Inl (AcctNim e)
       | Inr available \<Rightarrow>
           (case getSelectedModelList env account of
              Inl e \<Rightarrow> Inl (AcctApi e)
            | Inr selected \<Rightarrow> Inr (filterAvailableNimRuntimes available selected)))
       (GetAvailableNimRuntimes (nv_http env))"

definition IsNimAirGapped :: "nim_env \<Rightarrow> bool" where
  "IsNimAirGapped env =
     (case nv_air_gapped env of
        Inr [Inr (Some flag)] \<Rightarrow> flag
      | _ \<Rightarrow> False)"

definition modelListConfigMapKey :: "nim_account \<Rightarrow> namespaced_name option" where
  "modelListConfigMapKey account =
     (case na_models account of
        None \<Rightarrow> None
      | Some cfg \<Rightarrow> if snd cfg = [] then None else Some (orNamespace account cfg))"

definition GetPullSecretData :: "string \<Rightarrow> string gomap" where
  "GetPullSecretData apiKey =
     [(''.dockerconfigjson'', ''{'' @ json_string ''auths'' @ '':{'' @ json_string ''nvcr.io'' @ '':'' @
        json_object [(''username'', ''$oauthtoken''), (''password'', apiKey)] @ ''}}'')]"

definition nimVolumeMounts :: "(string \<times> string) list" where
  "nimVolumeMounts = [(''shm'', ''/dev/shm''), (''nim-pvc'', ''/mnt/models/cache''), (''nim-workspace'', ''/opt/nim/workspace''),
     (''nim-cache'', ''/.cache''), (''nim-nginx'', ''/opt/nim/nginx''), (''nim-generated-configs'', ''/opt/nim/generated_configs''),
     (''nim-dot-cache'', ''/opt/nim/.cache''), (''nim-dot-config'', ''/opt/nim/.config''), (''nim-dot-triton'', ''/opt/nim/.triton'')]"

definition nimEmptyDirs :: "string list" where
  "nimEmptyDirs = [''nim-workspace'', ''nim-cache'', ''nim-nginx'', ''nim-generated-configs'', ''nim-dot-cache'', ''nim-dot-config'',
     ''nim-dot-triton'']"

definition GetNimServingRuntimeTemplate :: "bool \<Rightarrow> nim_template" where
  "GetNimServingRuntimeTemplate airGapped =
     \<lparr>nt_name = ''nvidia-nim-runtime'', nt_labels = [(''opendatahub.io/dashboard'', ''true'')],
      nt_annotations = [(''opendatahub.io/recommended-accelerators'', ''['' @ [CHR 0x22] @ ''nvidia.com/gpu'' @ [CHR 0x22] @ '']''),
        (''openshift.io/display-name'', ''NVIDIA NIM''), (''runtimes.opendatahub.io/nvidia-nim'', ''true'')],
      nt_pod_annotations = [(''prometheus.io/path'', ''/v1/metrics''), (''prometheus.io/port'', ''8000'')],
      nt_env = [(''NIM_CACHE_PATH'', EnvValue ''/mnt/models/cache''), (''NIM_SERVED_MODEL_NAME'', EnvValue ''{{.Name}}'')] @
        (if \<not> airGapped then [(''NGC_API_KEY'', EnvSecret ''nvidia-nim-secrets'' ''NGC_API_KEY'')] else []),
      nt_port = 8000,
      nt_limits = [(''cpu'', ''2''), (''memory'', ''8Gi''), (''nvidia.com/gpu'', ''2'')],
      nt_requests = [(''cpu'', ''1''), (''memory'', ''4Gi''), (''nvidia.com/gpu'', ''2'')],
      nt_mounts = nimVolumeMounts,
      nt_pull_secrets = (if \<not> airGapped then [''ngc-secret''] else []),
      nt_claims = [(''nim-pvc'', ''nim-pvc'')],
      nt_empty_dirs = nimEmptyDirs,
      nt_multi_model = False, nt_formats = [''replace-me'']\<rparr>"

end
