(* ===== verification/NIM_Account.thy ===== *)
theory NIM_Account
  imports NIM_Status
begin

text \<open>
  The handlers of a NIM Account (internal/controller/nim/handlers) and the controller that runs them in order (internal/controller/nim/account_controller.go):
  the API key is validated, then the ConfigMap with the models, the runtime template and the pull Secret are applied. A handler ends the
  reconcile unless it says Continue. The value None of a handler means that reading the catalog does not end.
\<close>

section \<open>Validation\<close>

definition NimCleanupFinalizer :: string where "NimCleanupFinalizer = ''runtimes.opendatahub.io/nim-cleanup-finalizer''"
definition NimForceValidationAnnotation :: string where "NimForceValidationAnnotation = ''runtimes.opendatahub.io/nim-force-validation''"
definition NimValidationRefreshRate :: int where "NimValidationRefreshRate = 24 * 60 * 60 * 1000000000"
definition NimConfigRefreshRate :: int where "NimConfigRefreshRate = 24 * 60 * 60 * 1000000000"

text \<open>Report a status; a failure to do so takes the place of the response.\<close>

definition statusThen :: "nim_env \<Rightarrow> nim_status \<Rightarrow> response \<Rightarrow> nim_run \<Rightarrow> response \<times> nim_run" where
  "statusThen env st resp run =
     (case UpdateStatus env st run of (errs, run) \<Rightarrow> (if errs = [] then resp else Fail errs, run))"

definition refreshRate :: "nim_env \<Rightarrow> string \<Rightarrow> int \<Rightarrow> int" where
  "refreshRate env rate defaultRate = (case nv_duration env rate of Some d \<Rightarrow> d | None \<Rightarrow> defaultRate)"

definition shouldValidate :: "nim_env \<Rightarrow> nim_account \<Rightarrow> key_secret \<Rightarrow> nim_run \<Rightarrow> bool \<times> nim_run" where
  "shouldValidate env account apiKeySecret run =
     (if map_of (om_annotations (ks_meta apiKeySecret)) NimForceValidationAnnotation \<noteq> None then
        (True, snd (ask env (PatchForceAnnotation (om_namespace (ks_meta apiKeySecret), om_name (ks_meta apiKeySecret))) run))
      else if conditionTrue env account NimConditionAPIKeyValidation then
        (case as_validated (na_status account) of
           Some t \<Rightarrow> (refreshRate env (na_validation_rate account) NimValidationRefreshRate < nv_now env - t, run)
         | None \<Rightarrow> (True, run))
      else (True, run))"

definition keyErrors :: "acct_error list \<Rightarrow> response" where
  "keyErrors errs = (if isNotFound errs then Stop else Fail errs)"

definition validCondition :: "nim_env \<Rightarrow> nim_account \<Rightarrow> string \<Rightarrow> nim_condition" where
  "validCondition env account msg = MakeNimCondition env NimConditionAPIKeyValidation ''True'' (na_generation account) ''ApiKeyValidated'' msg"

definition runtimesFailed :: "nim_env \<Rightarrow> nim_account \<Rightarrow> string \<Rightarrow> string \<Rightarrow> nim_status" where
  "runtimesFailed env account cond reason =
     snd (setCondition env (AccountFailCondition env (na_generation account) ''failed to fetch NIM runtimes'')
       (snd (setCondition env (MakeNimCondition env cond ''False'' (na_generation account) reason ''failed to fetch NIM runtimes'')
         ((na_status account)\<lparr>as_checked := Some (nv_now env)\<rparr>))))"

definition validateKey :: "nim_env \<Rightarrow> nim_account \<Rightarrow> nim_runtime list \<Rightarrow> nim_run \<Rightarrow> response \<times> nim_run" where
  "validateKey env account runtimes run =
     (case GetAPIKey env account run of
        (Inl errs, run) \<Rightarrow> (keyErrors errs, run)
      | (Inr apiKeyStr, run) \<Rightarrow>
          (case ValidateApiKey (nv_http env) apiKeyStr runtimes of
             Some _ \<Rightarrow>
               (case CleanupResources env account run of
                  (errs, run) \<Rightarrow>
                    if errs \<noteq> [] then (Fail errs, run)
                    else statusThen env (makeCleanStatusForAccountFailure env account ''api key failed validation''
                      [MakeNimCondition env NimConditionAPIKeyValidation ''False'' (na_generation account) ''ApiKeyNotValidated''
                        ''api key failed validation'']) Stop run)
           | None \<Rightarrow>
               (case setCondition env (validCondition env account ''api key validated successfully'') (na_status account) of
                  (condUpdated, st) \<Rightarrow>
                    if condUpdated then statusThen env (st\<lparr>as_validated := Some (nv_now env)\<rparr>) Requeue run
                    else (Requeue, run))))"

definition ValidationHandle :: "nim_env \<Rightarrow> bool \<Rightarrow> nim_account \<Rightarrow> nim_run \<Rightarrow> (response \<times> nim_run) option" where
  "ValidationHandle env airGapped account run =
     (if airGapped then
        (case setCondition env (validCondition env account
                ''api key validation marked successful because NIM air-gapped mode is enabled'') (na_status account) of
           (condUpdated, st) \<Rightarrow>
             Some (if condUpdated \<or> as_validated st = None then statusThen env (st\<lparr>as_validated := Some (nv_now env)\<rparr>) Requeue run
                   else (Continue, run)))
      else
        (case GetAPIKeySecret env account run of
           (Inl errs, run) \<Rightarrow> Some (keyErrors errs, run)
         | (Inr None, run) \<Rightarrow> Some (Panic, run)
         | (Inr (Some apiKeySecret), run) \<Rightarrow>
             (case shouldValidate env account apiKeySecret run of
                (False, run) \<Rightarrow> Some (Continue, run)
              | (True, run) \<Rightarrow>
                  (case getRuntimes env account of
                     None \<Rightarrow> None
                   | Some (Inl e) \<Rightarrow>
                       Some (if e = AcctNim IndexOutOfRange then (Panic, run)
                             else statusThen env (runtimesFailed env account NimConditionAPIKeyValidation ''ApiKeyNotValidated'') (Fail [e]) run)
                   | Some (Inr runtimes) \<Rightarrow> Some (validateKey env account runtimes run)))))"

section \<open>The ConfigMap\<close>

text \<open>None is the panic on a validation time that is nil.\<close>

definition shouldRefresh :: "nim_env \<Rightarrow> nim_account \<Rightarrow> bool option" where
  "shouldRefresh env account =
     (if \<not> conditionTrue env account NimConditionAPIKeyValidation then Some False
      else (case as_config (na_status account) of
              None \<Rightarrow> Some True
            | Some ref \<Rightarrow>
                (case nv_configmap_labels env (refKey ref) of
                   Inl _ \<Rightarrow> Some True
                 | Inr labels \<Rightarrow>
                     (case (conditionTrue env account NimConditionConfigMapUpdate, as_refreshed (na_status account)) of
                        (True, Some r) \<Rightarrow>
                          (case as_validated (na_status account) of
                             None \<Rightarrow> None
                           | Some v \<Rightarrow>
                               if r < v then Some True
                               else if refreshRate env (na_config_rate account) NimConfigRefreshRate < nv_now env - r then Some True
                               else Some (fst (mergeStringMaps commonBaseLabels labels)))
                      | _ \<Rightarrow> Some True))))"

definition defaultCfg :: "nim_env \<Rightarrow> nim_account \<Rightarrow> string \<Rightarrow> apply_cfg" where
  "defaultCfg env account suffix = \<lparr>ac_name = om_name (na_meta account) @ suffix, ac_namespace = om_namespace (na_meta account), ac_type = [],
     ac_owner = Some (nv_owner env account), ac_labels = commonBaseLabels, ac_annotations = [], ac_data = [], ac_objects = []\<rparr>"

definition configMapCfg :: "nim_env \<Rightarrow> nim_account \<Rightarrow> nim_runtime list \<Rightarrow> nim_run \<Rightarrow> (acct_error list + apply_cfg) \<times> nim_run" where
  "configMapCfg env account runtimes run =
     (case GetAPIKey env account run of
        (Inl errs, run) \<Rightarrow> (Inl errs, run)
      | (Inr apiKeyStr, run) \<Rightarrow>
          (case GetNimModelData (nv_http env) apiKeyStr runtimes of
             Inl e \<Rightarrow> (Inl [AcctNim e], run)
           | Inr data \<Rightarrow>
               (let dflt = (defaultCfg env account ''-cm'')\<lparr>ac_data := data\<rparr>
                in (Inr (case as_config (na_status account) of
                      None \<Rightarrow> dflt
                    | Some ref \<Rightarrow>
                        (case nv_applied env ConfigMapObj (refKey ref) of
                           Inl _ \<Rightarrow> dflt
                         | Inr cm \<Rightarrow>
                             (case ad_extracted cm of
                                None \<Rightarrow> dflt
                              | Some cfg \<Rightarrow> cfg\<lparr>ac_labels := m_putall (snd (mergeStringMaps commonBaseLabels (ad_labels cm))) (ac_labels cfg),
                                  ac_data := data\<rparr>))), run))))"

text \<open>Apply a configuration and report; the three handlers differ in the condition and in what they store.\<close>

definition applyFailed :: "nim_env \<Rightarrow> nim_account \<Rightarrow> string \<Rightarrow> string \<Rightarrow> string \<Rightarrow> nim_status" where
  "applyFailed env account cond reason msg =
     snd (setCondition env (MakeNimCondition env cond ''False'' (na_generation account) reason msg)
       (snd (setCondition env (AccountFailCondition env (na_generation account) msg)
         ((na_status account)\<lparr>as_checked := Some (nv_now env)\<rparr>))))"

definition applyCfg :: "nim_env \<Rightarrow> nim_account \<Rightarrow> obj_kind \<Rightarrow> (acct_error list + apply_cfg) \<times> nim_run \<Rightarrow> (acct_error list + obj_ref) \<times> nim_run" where
  "applyCfg env account kind r =
     (case r of
        (Inl errs, run) \<Rightarrow> (Inl errs, run)
      | (Inr cfg, run) \<Rightarrow>
          (case nv_apply env kind (om_namespace (na_meta account)) cfg of
             Inl e \<Rightarrow> (Inl [e], run\<lparr>ru_writes := ru_writes run @ [Apply kind cfg]\<rparr>)
           | Inr ref \<Rightarrow> (Inr ref, run\<lparr>ru_writes := ru_writes run @ [Apply kind cfg]\<rparr>)))"

definition refreshConfigMap :: "nim_env \<Rightarrow> nim_account \<Rightarrow> nim_runtime list \<Rightarrow> nim_run \<Rightarrow> response \<times> nim_run" where
  "refreshConfigMap env account runtimes run =
     (case applyCfg env account ConfigMapObj (configMapCfg env account runtimes run) of
        (Inl errs, run) \<Rightarrow>
          statusThen env (applyFailed env account NimConditionConfigMapUpdate ''ConfigMapNotUpdated'' ''nim config reconciliation failed'') (Fail errs) run
      | (Inr ref, run) \<Rightarrow>
          statusThen env (snd (setCondition env (MakeNimCondition env NimConditionConfigMapUpdate ''True'' (na_generation account)
              ''ConfigMapUpdated'' ''nim config reconciled successfully'')
            ((na_status account)\<lparr>as_config := Some ref, as_refreshed := Some (nv_now env)\<rparr>))) Requeue run)"

definition airGappedConfig :: "nim_env \<Rightarrow> nim_account \<Rightarrow> nim_run \<Rightarrow> response \<times> nim_run" where
  "airGappedConfig env account run =
     (let cmName = om_name (na_meta account) @ ''-cm'';
          cmNamespace = (case nv_app_namespace env of Inr ns \<Rightarrow> if ns \<noteq> [] then ns else om_namespace (na_meta account) | Inl _ \<Rightarrow> om_namespace (na_meta account));
          cmRef = \<lparr>rx_kind = ''ConfigMap'', rx_name = cmName, rx_namespace = cmNamespace, rx_uid = []\<rparr>
      in case setCondition env (MakeNimCondition env NimConditionConfigMapUpdate ''True'' (na_generation account) ''ConfigMapUpdated''
                ''configmap update marked successful because NIM air-gapped mode is enabled'') ((na_status account)\<lparr>as_config := Some cmRef\<rparr>) of
           (condUpdated, st) \<Rightarrow>
             if condUpdated \<or> as_refreshed st = None \<or>
                (case as_config (na_status account) of None \<Rightarrow> True | Some existing \<Rightarrow> rx_name existing \<noteq> cmName \<or> rx_namespace existing \<noteq> cmNamespace)
             then statusThen env (st\<lparr>as_refreshed := Some (nv_now env)\<rparr>) Requeue run
             else (Continue, run))"

definition ConfigMapHandle :: "nim_env \<Rightarrow> bool \<Rightarrow> nim_account \<Rightarrow> nim_run \<Rightarrow> (response \<times> nim_run) option" where
  "ConfigMapHandle env airGapped account run =
     (if airGapped then Some (airGappedConfig env account run)
      else
        (case shouldRefresh env account of
           None \<Rightarrow> Some (Panic, run)
         | Some False \<Rightarrow> Some (Continue, run)
         | Some True \<Rightarrow>
             (case getRuntimes env account of
                None \<Rightarrow> None
              | Some (Inl e) \<Rightarrow>
                  Some (if e = AcctNim IndexOutOfRange then (Panic, run)
                        else statusThen env (runtimesFailed env account NimConditionConfigMapUpdate ''ConfigMapNotUpdated'') (Fail [e]) run)
              | Some (Inr runtimes) \<Rightarrow> Some (refreshConfigMap env account runtimes run))))"

section \<open>The template and the pull Secret\<close>

definition templateBaseAnnotations :: "string gomap" where
  "templateBaseAnnotations = [(''opendatahub.io/apiProtocol'', ''REST''),
     (''opendatahub.io/modelServingSupport'', ''['' @ [CHR 0x22] @ ''single'' @ [CHR 0x22] @ '']'')]"

text \<open>\<open>WithObjects\<close> appends to the objects of a configuration, \<open>WithLabels\<close> and \<open>WithAnnotations\<close> put entries.\<close>

definition templateCfg :: "nim_env \<Rightarrow> bool \<Rightarrow> nim_account \<Rightarrow> acct_error list + apply_cfg" where
  "templateCfg env airGapped account =
     (case nv_runtime_object env (GetNimServingRuntimeTemplate airGapped) of
        Inl e \<Rightarrow> Inl [e]
      | Inr servingRuntime \<Rightarrow>
          (let dflt = (defaultCfg env account ''-template'')\<lparr>ac_annotations := templateBaseAnnotations, ac_objects := [servingRuntime]\<rparr>
           in Inr (case as_template (na_status account) of
                None \<Rightarrow> dflt
              | Some ref \<Rightarrow>
                  (case nv_applied env TemplateObj (refKey ref) of
                     Inl _ \<Rightarrow> dflt
                   | Inr template \<Rightarrow>
                       (case ad_extracted template of
                          None \<Rightarrow> dflt
                        | Some cfg \<Rightarrow>
                            (let cfg = cfg\<lparr>ac_annotations := m_putall (snd (mergeStringMaps templateBaseAnnotations (ad_annotations template))) (ac_annotations cfg),
                                   ac_labels := m_putall (snd (mergeStringMaps commonBaseLabels (ad_labels template))) (ac_labels cfg)\<rparr>
                             in if \<not> conditionTrue env account NimConditionTemplateUpdate \<or> \<not> list_ex (nv_is_runtime env) (ad_objects template)
                                then cfg\<lparr>ac_objects := ac_objects cfg @ [servingRuntime]\<rparr> else cfg))))))"

definition pullSecretCfg :: "nim_env \<Rightarrow> nim_account \<Rightarrow> nim_run \<Rightarrow> (acct_error list + apply_cfg) \<times> nim_run" where
  "pullSecretCfg env account run =
     (case GetAPIKey env account run of
        (Inl errs, run) \<Rightarrow> (Inl errs, run)
      | (Inr apiKeyStr, run) \<Rightarrow>
          (let data = GetPullSecretData apiKeyStr;
               dflt = (defaultCfg env account ''-pull'')\<lparr>ac_type := ''kubernetes.io/dockerconfigjson'', ac_data := data\<rparr>
           in (Inr (case as_pull (na_status account) of
                 None \<Rightarrow> dflt
               | Some ref \<Rightarrow>
                   (case nv_applied env PullSecretObj (refKey ref) of
                      Inl _ \<Rightarrow> dflt
                    | Inr sec \<Rightarrow>
                        (case ad_extracted sec of
                           None \<Rightarrow> dflt
                         | Some cfg \<Rightarrow> cfg\<lparr>ac_labels := m_putall (snd (mergeStringMaps commonBaseLabels (ad_labels sec))) (ac_labels cfg),
                             ac_data := m_putall data (ac_data cfg)\<rparr>))), run)))"

text \<open>What the two handlers do with the result of the apply; they differ in the reference they keep and in the words.\<close>

definition reportApplied ::
    "nim_env \<Rightarrow> nim_account \<Rightarrow> string \<Rightarrow> string \<times> string \<Rightarrow> string \<times> string \<Rightarrow> obj_ref option \<Rightarrow> (obj_ref option \<Rightarrow> nim_status) \<Rightarrow>
     (acct_error list + obj_ref) \<times> nim_run \<Rightarrow> response \<times> nim_run" where
  "reportApplied env account cond good bad old store r =
     (case r of
        (Inl errs, run) \<Rightarrow> statusThen env (applyFailed env account cond (fst bad) (snd bad)) (Fail errs) run
      | (Inr ref, run) \<Rightarrow>
          (let updateRef = shouldUpdateReference old (Some ref);
               st = (if updateRef then store (Some ref) else na_status account)
           in case setCondition env (MakeNimCondition env cond ''True'' (na_generation account) (fst good) (snd good)) st of
                (condUpdated, st) \<Rightarrow> if updateRef \<or> condUpdated then statusThen env st Requeue run else (Continue, run)))"

definition TemplateHandle :: "nim_env \<Rightarrow> bool \<Rightarrow> nim_account \<Rightarrow> nim_run \<Rightarrow> response \<times> nim_run" where
  "TemplateHandle env airGapped account run =
     reportApplied env account NimConditionTemplateUpdate (''TemplateUpdated'', ''runtime template reconciled successfully'')
       (''TemplateNotUpdated'', ''runtime template reconcile failed'') (as_template (na_status account))
       (\<lambda>r. (na_status account)\<lparr>as_template := r\<rparr>) (applyCfg env account TemplateObj (templateCfg env airGapped account, run))"

definition PullSecretHandle :: "nim_env \<Rightarrow> nim_account \<Rightarrow> nim_run \<Rightarrow> response \<times> nim_run" where
  "PullSecretHandle env account run =
     reportApplied env account NimConditionSecretUpdate (''SecretUpdated'', ''pull secret reconciled successfully'')
       (''SecretNotUpdated'', ''pull secret reconcile failed'') (as_pull (na_status account))
       (\<lambda>r. (na_status account)\<lparr>as_pull := r\<rparr>) (applyCfg env account PullSecretObj (pullSecretCfg env account run))"

section \<open>The controller\<close>

datatype outcome = Done | RequeueAfter nat | Failed "acct_error list" | Crashed

definition newManager :: key_manager where
  "newManager = \<lparr>km_secret_once = False, km_secret = None, km_key_once = False, km_key = [], km_errs = []\<rparr>"

definition newRun :: nim_run where "newRun = \<lparr>ru_writes = [], ru_km = newManager\<rparr>"

definition andThen :: "response \<times> nim_run \<Rightarrow> (nim_run \<Rightarrow> (outcome \<times> nim_run) option) \<Rightarrow> (outcome \<times> nim_run) option" where
  "andThen r k =
     (case r of
        (Fail errs, run) \<Rightarrow> Some (Failed errs, run)
      | (Requeue, run) \<Rightarrow> Some (RequeueAfter 10, run)
      | (Stop, run) \<Rightarrow> Some (Done, run)
      | (Panic, run) \<Rightarrow> Some (Crashed, run)
      | (Continue, run) \<Rightarrow> k run)"

definition accountHealthy :: "nim_env \<Rightarrow> nim_account \<Rightarrow> nim_run \<Rightarrow> outcome \<times> nim_run" where
  "accountHealthy env account run =
     (case UpdateStatus env (snd (setCondition env
             (MakeNimCondition env NimConditionAccountStatus ''True'' (na_generation account) ''AccountSuccessful'' ''the account is healthy'')
             ((na_status account)\<lparr>as_checked := Some (nv_now env)\<rparr>))) run of
        (errs, run) \<Rightarrow> (if errs = [] then Done else Failed errs, run))"

definition reconcileHandlers :: "nim_env \<Rightarrow> nim_account \<Rightarrow> (outcome \<times> nim_run) option" where
  "reconcileHandlers env account =
     (let airGapped = IsNimAirGapped env
      in Option.bind (ValidationHandle env airGapped account newRun) (\<lambda>r. andThen r (\<lambda>run.
         Option.bind (ConfigMapHandle env airGapped account run) (\<lambda>r. andThen r (\<lambda>run.
         andThen (TemplateHandle env airGapped account run) (\<lambda>run.
         andThen (PullSecretHandle env account run) (\<lambda>run.
         Some (accountHealthy env account run))))))))"

definition ignoreNotFound :: "api_error option \<Rightarrow> outcome \<Rightarrow> outcome" where
  "ignoreNotFound r ok = (case r of None \<Rightarrow> ok | Some e \<Rightarrow> if e = NotFound then Done else Failed [AcctApi e])"

definition finalizerIndex :: "string list \<Rightarrow> nat" where
  "finalizerIndex fs = length (takeWhile (\<lambda>f. f \<noteq> NimCleanupFinalizer) fs)"

definition ReconcileAccount :: "nim_env \<Rightarrow> (outcome \<times> nim_run) option" where
  "ReconcileAccount env =
     (case nv_account env [] of
        Inl e \<Rightarrow> Some (ignoreNotFound (Some e) Done, newRun)
      | Inr account \<Rightarrow>
          (let m = na_meta account; has = NimCleanupFinalizer \<in> set (om_finalizers m)
           in if \<not> om_deleting m then
                (if \<not> has then
                   (case ask env (AddFinalizer (account\<lparr>na_meta := m\<lparr>om_finalizers := om_finalizers m @ [NimCleanupFinalizer]\<rparr>\<rparr>)) newRun of
                      (r, run) \<Rightarrow> Some (ignoreNotFound r (RequeueAfter 10), run))
                 else reconcileHandlers env account)
              else if has then
                (case CleanupResources env account newRun of
                   (errs, run) \<Rightarrow>
                     if errs \<noteq> [] then Some (Failed errs, run)
                     else (case ask env (PatchFinalizer (finalizerIndex (om_finalizers m))) run of
                             (r, run) \<Rightarrow> Some (ignoreNotFound r Done, run)))
              else Some (Done, newRun)))"

section \<open>When NIM is disabled\<close>

definition disabledStatus :: "nim_env \<Rightarrow> nim_account \<Rightarrow> nim_status" where
  "disabledStatus env account =
     (let cond = (\<lambda>t reason. MakeNimCondition env t ''Unknown'' (na_generation account) reason ''NIM has been disabled'')
      in \<lparr>as_config = None, as_template = None, as_pull = None, as_validated = None, as_refreshed = None, as_checked = None,
          as_conditions = [cond NimConditionAccountStatus ''AccountNotReconciled'', cond NimConditionAPIKeyValidation ''ApiKeyNotReconciled'',
            cond NimConditionConfigMapUpdate ''ConfigMapNotReconciled'', cond NimConditionTemplateUpdate ''TemplateNotReconciled'',
            cond NimConditionSecretUpdate ''SecretNotReconciled'']\<rparr>)"

text \<open>Every account is cleaned up, whatever happens to the others; \<open>envOf\<close> answers the calls for one account.\<close>

fun NIMCleanup :: "(nim_account \<Rightarrow> nim_env) \<Rightarrow> nim_account list \<Rightarrow> (nim_account \<times> nim_write list) list" where
  "NIMCleanup envOf [] = []"
| "NIMCleanup envOf (account # accounts) =
     (account, ru_writes (snd (UpdateStatus (envOf account) (disabledStatus (envOf account) account)
        (snd (CleanupResources (envOf account) account newRun))))) # NIMCleanup envOf accounts"

section \<open>Events\<close>

text \<open>\<open>accounts\<close> are those the field index finds for the name of the object.\<close>

definition modelListRequests :: "nim_account list \<Rightarrow> namespaced_name \<Rightarrow> namespaced_name list" where
  "modelListRequests accounts obj =
     map (\<lambda>a. (om_namespace (na_meta a), om_name (na_meta a))) (filter (\<lambda>a. modelListConfigMapKey a = Some obj) accounts)"

definition keySecretRequests :: "nim_account list \<Rightarrow> namespaced_name list" where
  "keySecretRequests accounts = map (\<lambda>a. (om_namespace (na_meta a), om_name (na_meta a))) accounts"

definition apiKeyIndex :: "nim_account \<Rightarrow> string list" where
  "apiKeyIndex a = [snd (na_key a)]"

definition modelListIndex :: "nim_account \<Rightarrow> string list" where
  "modelListIndex a = (case na_models a of Some cfg \<Rightarrow> if snd cfg \<noteq> [] then [snd cfg] else [] | None \<Rightarrow> [])"

end
