(* ===== verification/NIM_Demo.thy ===== *)
theory NIM_Demo
  imports NIM_Account
begin

text \<open>
  A small cluster for the NIM controller, on which its properties are evaluated: one account, one Secret with a personal key, a catalog of one
  page, an API server that accepts every write, and condition helpers that do what apimachinery documents.
\<close>

section \<open>Conditions\<close>

fun put_condition :: "nim_condition \<Rightarrow> nim_condition list \<Rightarrow> bool \<times> nim_condition list" where
  "put_condition c [] = (True, [c])"
| "put_condition c (d # ds) =
     (if nc_type d = nc_type c then
        (if nc_status d = nc_status c \<and> nc_generation d = nc_generation c \<and> nc_reason d = nc_reason c \<and> nc_message d = nc_message c
         then (False, d # ds) else (True, c # ds))
      else (case put_condition c ds of (b, ds') \<Rightarrow> (b, d # ds')))"

definition look_condition :: "nim_condition list \<Rightarrow> string \<Rightarrow> nim_condition option" where
  "look_condition cs t = find (\<lambda>c. nc_type c = t) cs"

section \<open>The services\<close>

text \<open>\<open>status\<close> is the answer to the validation of the key.\<close>

definition ngc :: "int \<Rightarrow> nim_http" where
  "ngc status = \<lparr>nh_do = (\<lambda>r. Inr (if hr_method r = ''POST'' then status else 200, ''body'')), nh_url = (\<lambda>_. True),
     nh_catalog = (\<lambda>_. Inr \<lparr>cp_total = 1, cp_page = 0, cp_results = [(''CONTAINER'', [\<lparr>cr_id = ''nim/meta/llama'',
       cr_attributes = [(''latestTag'', ''1.0'')], cr_name = ''llama''\<rparr>])]\<rparr>),
     nh_token = Inr, nh_model = (\<lambda>b. Inr (''llama'', b))\<rparr>"

definition llama :: nim_runtime where
  "llama = \<lparr>nr_resource = ''nim/meta/llama'', nr_version = ''1.0'', nr_org = ''nim'', nr_team = ''meta'', nr_image = ''llama'', nr_name = ''llama''\<rparr>"

definition ngc_secret :: key_secret where
  "ngc_secret = \<lparr>ks_meta = empty_meta\<lparr>om_name := ''key'', om_namespace := ''team''\<rparr>, ks_data = [(''api_key'', ''nvapi-1 '')]\<rparr>"

fun demo_ref :: "obj_kind \<Rightarrow> obj_ref" where
  "demo_ref PullSecretObj = \<lparr>rx_kind = ''Secret'', rx_name = ''nim-pull'', rx_namespace = ''team'', rx_uid = ''1''\<rparr>"
| "demo_ref ConfigMapObj = \<lparr>rx_kind = ''ConfigMap'', rx_name = ''nim-cm'', rx_namespace = ''team'', rx_uid = ''2''\<rparr>"
| "demo_ref TemplateObj = \<lparr>rx_kind = ''Template'', rx_name = ''nim-template'', rx_namespace = ''team'', rx_uid = ''3''\<rparr>"

definition nim_cluster :: "int \<Rightarrow> nim_account \<Rightarrow> nim_env" where
  "nim_cluster status account = \<lparr>nv_now = 100, nv_http = ngc status, nv_account = (\<lambda>_. Inr account), nv_secret = (\<lambda>_. Inr ngc_secret),
     nv_configmap = (\<lambda>_. Inl NotFound), nv_configmap_labels = (\<lambda>_. Inr commonBaseLabels), nv_applied = (\<lambda>_ _. Inl NotFound), nv_write = (\<lambda>_. None),
     nv_apply = (\<lambda>k _ _. Inr (demo_ref k)), nv_set_condition = put_condition, nv_find_condition = look_condition, nv_duration = (\<lambda>_. None),
     nv_json_list = (\<lambda>_. None), nv_owner = (\<lambda>a. \<lparr>or_api = ''nim.opendatahub.io/v1'', or_kind = ''Account'', or_name = om_name (na_meta a), or_uid = [],
       or_controller = Some True\<rparr>), nv_runtime_object = (\<lambda>_. Inr ''runtime''), nv_is_runtime = (\<lambda>_. True), nv_app_namespace = Inr [],
     nv_air_gapped = Inr []\<rparr>"

lemma nim_cluster_fields [simp]:
  "nv_now (nim_cluster s a) = 100" "nv_http (nim_cluster s a) = ngc s" "nv_account (nim_cluster s a) ws = Inr a" "nv_secret (nim_cluster s a) n = Inr ngc_secret"
  "nv_configmap_labels (nim_cluster s a) n = Inr commonBaseLabels" "nv_write (nim_cluster s a) w = None" "nv_apply (nim_cluster s a) k ns c = Inr (demo_ref k)"
  "nv_set_condition (nim_cluster s a) = put_condition" "nv_find_condition (nim_cluster s a) = look_condition" "nv_duration (nim_cluster s a) d = None"
  "nv_runtime_object (nim_cluster s a) t = Inr ''runtime''" "nv_air_gapped (nim_cluster s a) = Inr []" "nv_applied (nim_cluster s a) k n = Inl NotFound"
  by (simp_all add: nim_cluster_def)

lemma ngc_catalog: "getRuntimes (nim_cluster s a) (a'\<lparr>na_models := None\<rparr>) = Some (Inr [llama])"
proof -
  have "catalogPage (ngc s) 0 1000 = Inr ([llama], False)"
    by (simp add: catalogPage_def handleRequest_def catalogRequest_def get_request_def ngc_def maxNIMResponseBytes_def
        mapNimCatalogResponseToRuntimeList_def resourceRuntime_def llama_def)
  then show ?thesis
    by (simp add: getRuntimes_def GetAvailableNimRuntimes_def getNimRuntimes.simps [of _ _ 0] getSelectedModelList_def filterAvailableNimRuntimes_def)
qed

lemma ngc_key: "map_of (ks_data ngc_secret) ''api_key'' = Some ''nvapi-1 ''" "trim_space ''nvapi-1 '' = ''nvapi-1''"
  by (simp add: ngc_secret_def) code_simp

lemma ngc_validates: "ValidateApiKey (ngc s) ''nvapi-1'' rts = (if s \<noteq> 200 then Some (BadStatus s) else None)"
proof -
  have "isPersonalApiKey ''nvapi-1''" by code_simp
  then show ?thesis by (simp add: ValidateApiKey_def validatePersonalApiKey_def handleRequest_def ngc_def maxNIMResponseBytes_def)
qed

lemma ngc_models: "GetNimModelData (ngc s) ''nvapi-1'' [llama] = Inr [(''llama'', ''body'')]"
proof -
  have "isPersonalApiKey ''nvapi-1''" by code_simp
  then show ?thesis
    by (simp add: GetNimModelData_def getModelData_def handleRequest_def get_request_def ngc_def maxNIMResponseBytes_def)
qed

lemma nim_cluster_gap [simp]: "\<not> IsNimAirGapped (nim_cluster s a)"
  by (simp add: IsNimAirGapped_def)

section \<open>Accounts\<close>

definition new_account :: nim_account where
  "new_account = \<lparr>na_meta = empty_meta\<lparr>om_name := ''nim'', om_namespace := ''team'', om_finalizers := [''other'', NimCleanupFinalizer]\<rparr>, na_generation = 1,
     na_key = ([], ''key''), na_models = None, na_validation_rate = [], na_config_rate = [],
     na_status = \<lparr>as_config = None, as_template = None, as_pull = None, as_validated = None, as_refreshed = None, as_checked = None, as_conditions = []\<rparr>\<rparr>"

text \<open>An account with its objects, whose key was validated at the given time.\<close>

definition served_account :: "int \<Rightarrow> nim_account" where
  "served_account t = new_account\<lparr>na_status := \<lparr>as_config = Some (demo_ref ConfigMapObj), as_template = Some (demo_ref TemplateObj),
     as_pull = Some (demo_ref PullSecretObj), as_validated = Some t, as_refreshed = Some t, as_checked = Some t,
     as_conditions = map (\<lambda>c. \<lparr>nc_type = c, nc_status = ''True'', nc_generation = 1, nc_time = t, nc_reason = ''ok'', nc_message = ''ok''\<rparr>) NimConditions\<rparr>\<rparr>"

end
