(* ===== verification/NIM_Safety.thy ===== *)
theory NIM_Safety
  imports NIM_Demo
begin

text \<open>
  What the NIM controller guarantees of an Account: which writes each handler can make, that the objects of an account exist only on a key that is valid,
  that a rejected key withdraws them, and that the finalizer goes last.
\<close>

section \<open>The writes a step can make\<close>

text \<open>A step only appends to the writes, and only writes of a kind.\<close>

definition adds :: "(nim_write \<Rightarrow> bool) \<Rightarrow> nim_run \<Rightarrow> nim_run \<Rightarrow> bool" where
  "adds P run run' = (\<exists>ws. ru_writes run' = ru_writes run @ ws \<and> list_all P ws)"

named_theorems adds_intro \<open>what the steps of a handler append\<close>

lemma adds_refl [simp]: "adds P run run"
  by (simp add: adds_def)

lemma adds_same: "ru_writes run' = ru_writes run \<Longrightarrow> adds P run run'"
  by (simp add: adds_def)

lemma adds_trans [trans]: "adds P a b \<Longrightarrow> adds P b c \<Longrightarrow> adds P a c"
  by (auto simp: adds_def)

lemma adds_writes: "adds P run run' \<Longrightarrow> w \<in> set (ru_writes run') \<Longrightarrow> w \<in> set (ru_writes run) \<or> P w"
  by (auto simp: adds_def list_all_iff)

lemma adds_km [simp]: "adds P run (run'\<lparr>ru_km := km\<rparr>) = adds P run run'" "adds P (run\<lparr>ru_km := km\<rparr>) run' = adds P run run'"
  by (simp_all add: adds_def)

lemma adds_addErrs [simp]: "adds P run (addErrs errs run') = adds P run run'" "adds P (addErrs errs run) run' = adds P run run'"
  by (simp_all add: addErrs_def)

lemma adds_ask [adds_intro]: "P w \<Longrightarrow> adds P run (snd (ask env w run))"
  by (simp add: adds_def ask_def)

text \<open>Sequencing: what a step appends and what the rest appends to its run.\<close>

lemma adds_bind:
  "adds P run (snd p) \<Longrightarrow> (\<And>r run'. p = (r, run') \<Longrightarrow> adds P run' (snd (f r run'))) \<Longrightarrow> adds P run (snd (case p of (r, run') \<Rightarrow> f r run'))"
  by (cases p) (auto intro: adds_trans)

lemma adds_bind_run:
  "adds P run (snd p) \<Longrightarrow> (\<And>r run'. p = (r, run') \<Longrightarrow> adds P run' (f r run')) \<Longrightarrow> adds P run (case p of (r, run') \<Rightarrow> f r run')"
  by (cases p) (auto intro: adds_trans)

lemma adds_deleteObjects [adds_intro]:
  assumes D: "\<And>k n. P (DeleteObj k n)"
  shows "adds P run (snd (deleteObjects env objs run))"
proof (induction objs arbitrary: run)
  case (Cons obj objs)
  then show ?case by (cases obj) (auto intro!: adds_bind adds_ask D)
qed simp

lemma adds_CleanupResources [adds_intro]: "(\<And>k n. P (DeleteObj k n)) \<Longrightarrow> adds P run (snd (CleanupResources env account run))"
  by (simp add: CleanupResources_def adds_deleteObjects)

lemma adds_UpdateStatus [adds_intro]: "(\<And>st. P (StatusUpdate st)) \<Longrightarrow> adds P run (snd (UpdateStatus env st run))"
  by (auto simp: UpdateStatus_def adds_def ask_def split: sum.splits option.splits)

lemma adds_statusThen [adds_intro]: "(\<And>st. P (StatusUpdate st)) \<Longrightarrow> adds P run (snd (statusThen env st resp run))"
  using adds_UpdateStatus [of P run env st] by (auto simp: statusThen_def split: prod.splits)

lemma adds_keyFailure [adds_intro]:
  assumes "\<And>k n. P (DeleteObj k n)" "\<And>st. P (StatusUpdate st)"
  shows "adds P run (keyFailure env account msg run)"
  unfolding keyFailure_def
proof (rule adds_bind_run)
  show "adds P run (snd (CleanupResources env account run))" by (rule adds_CleanupResources) (rule assms(1))
  show "adds P run' (case UpdateStatus env (makeCleanStatusForAccountFailure env account msg []) (addErrs errs run') of (errs, run) \<Rightarrow> addErrs errs run)"
    for errs run'
    by (rule adds_bind_run) (use adds_UpdateStatus [of P "addErrs errs run'" env, OF assms(2)] in auto)
qed

lemma adds_loadSecret [adds_intro]:
  assumes D: "\<And>k n. P (DeleteObj k n)" and S: "\<And>st. P (StatusUpdate st)"
  shows "adds P run (loadSecret env account run)"
proof -
  have F: "adds P run run0 \<Longrightarrow> adds P run (keyFailure env account msg run0)" for run0 msg
    using adds_keyFailure [of P run0 env account msg, OF D S] by (blast intro: adds_trans)
  show ?thesis by (auto simp: loadSecret_def Let_def split: sum.split intro!: F)
qed

lemma adds_loadKey [adds_intro]:
  assumes D: "\<And>k n. P (DeleteObj k n)" and S: "\<And>st. P (StatusUpdate st)"
  shows "adds P run (loadKey env account run)"
proof -
  have F: "adds P run run0 \<Longrightarrow> adds P run (keyFailure env account msg run0)" for run0 msg
    using adds_keyFailure [of P run0 env account msg, OF D S] by (blast intro: adds_trans)
  show ?thesis by (auto simp: loadKey_def Let_def split: option.split intro!: F)
qed

lemma adds_GetAPIKeySecret [adds_intro]:
  assumes "\<And>k n. P (DeleteObj k n)" "\<And>st. P (StatusUpdate st)"
  shows "adds P run (snd (GetAPIKeySecret env account run))"
  using adds_loadSecret [of P run env account, OF assms] by (simp add: GetAPIKeySecret_def Let_def)

lemma adds_GetAPIKey [adds_intro]:
  assumes "\<And>k n. P (DeleteObj k n)" "\<And>st. P (StatusUpdate st)"
  shows "adds P run (snd (GetAPIKey env account run))"
  using adds_loadSecret [of P run env account, OF assms] adds_loadKey [of P "loadSecret env account run" env account, OF assms]
  by (auto simp: GetAPIKey_def Let_def intro: adds_trans)

lemma adds_shouldValidate [adds_intro]:
  "(\<And>n. P (PatchForceAnnotation n)) \<Longrightarrow> adds P run (snd (shouldValidate env account s run))"
  by (auto simp: shouldValidate_def adds_ask split: option.splits)

lemma adds_validateKey [adds_intro]:
  assumes D: "\<And>k n. P (DeleteObj k n)" and S: "\<And>st. P (StatusUpdate st)"
  shows "adds P run (snd (validateKey env account runtimes run))"
proof -
  have C: "adds P run1 (snd (statusThen env st resp (snd (CleanupResources env account run1))))" for run1 st resp
    by (rule adds_trans [of _ _ "snd (CleanupResources env account run1)"]) (auto intro!: adds_CleanupResources adds_statusThen D S)
  show ?thesis unfolding validateKey_def
    by (rule adds_bind, rule adds_GetAPIKey)
      (auto split: sum.split option.split intro!: adds_CleanupResources adds_statusThen D S C simp: case_prod_unfold)
qed

text \<open>Validation never applies an object.\<close>

definition is_apply :: "nim_write \<Rightarrow> bool" where "is_apply w = (case w of Apply _ _ \<Rightarrow> True | _ \<Rightarrow> False)"

definition adds_opt :: "(nim_write \<Rightarrow> bool) \<Rightarrow> nim_run \<Rightarrow> ('r \<times> nim_run) option \<Rightarrow> bool" where
  "adds_opt P run r = (case r of None \<Rightarrow> True | Some (_, run') \<Rightarrow> adds P run run')"

lemma adds_opt_simps [simp]: "adds_opt P run None" "adds_opt P run (Some p) = adds P run (snd p)"
  by (simp_all add: adds_opt_def case_prod_unfold)

lemma adds_opt_bind:
  "adds P run (snd p) \<Longrightarrow> (\<And>r run'. p = (r, run') \<Longrightarrow> adds_opt P run' (f r run')) \<Longrightarrow> adds_opt P run (case p of (r, run') \<Rightarrow> f r run')"
  by (cases p) (auto simp: adds_opt_def split: option.splits intro: adds_trans)

lemma adds_ValidationHandle [adds_intro]:
  assumes D: "\<And>k n. P (DeleteObj k n)" and S: "\<And>st. P (StatusUpdate st)" and F: "\<And>n. P (PatchForceAnnotation n)"
  shows "adds_opt P run (ValidationHandle env gapped account run)"
proof (cases gapped)
  case True
  then show ?thesis by (simp add: ValidationHandle_def case_prod_unfold adds_statusThen S)
next
  case False
  have V: "adds_opt P run2 (case shouldValidate env account sec run2 of
       (False, run) \<Rightarrow> Some (Continue, run)
     | (True, run) \<Rightarrow>
         (case getRuntimes env account of
            None \<Rightarrow> None
          | Some (Inl e) \<Rightarrow>
              Some (if e = AcctNim IndexOutOfRange then (Panic, run)
                    else statusThen env (runtimesFailed env account NimConditionAPIKeyValidation ''ApiKeyNotValidated'') (Fail [e]) run)
          | Some (Inr runtimes) \<Rightarrow> Some (validateKey env account runtimes run)))" for sec run2
    by (rule adds_opt_bind, rule adds_shouldValidate, rule F)
      (auto split: bool.split option.split sum.split intro!: adds_statusThen adds_validateKey D S)
  show ?thesis using False
    by (auto simp: ValidationHandle_def split: sum.split option.split intro!: adds_opt_bind adds_GetAPIKeySecret D S V)
qed

lemma validation_never_applies:
  "ValidationHandle env gapped account run = Some (resp, run') \<Longrightarrow> adds (\<lambda>w. \<not> is_apply w) run run'"
  using adds_ValidationHandle [of "\<lambda>w. \<not> is_apply w" run env gapped account] by (simp add: is_apply_def)

text \<open>And lets the reconcile go on only on a key that is valid and fresh.\<close>

definition keyFresh :: "nim_env \<Rightarrow> nim_account \<Rightarrow> bool" where
  "keyFresh env account =
     (case as_validated (na_status account) of
        Some t \<Rightarrow> nv_now env - t \<le> refreshRate env (na_validation_rate account) NimValidationRefreshRate
      | None \<Rightarrow> False)"

lemma validation_continues:
  assumes "ValidationHandle env False account run = Some (Continue, run')"
  shows "conditionTrue env account NimConditionAPIKeyValidation \<and> keyFresh env account"
  using assms
  by (auto simp: ValidationHandle_def validateKey_def statusThen_def keyErrors_def shouldValidate_def keyFresh_def
      split: prod.splits sum.splits option.splits bool.splits if_splits)


text \<open>The other handlers only apply, clean up and report.\<close>

lemma adds_applyCfg:
  "(\<And>k c. P (Apply k c)) \<Longrightarrow> adds P run (snd r) \<Longrightarrow> adds P run (snd (applyCfg env account kind r))"
  by (cases r) (auto simp: applyCfg_def adds_def split: sum.splits)

lemma adds_configMapCfg:
  assumes D: "\<And>k n. P (DeleteObj k n)" and S: "\<And>st. P (StatusUpdate st)"
  shows "adds P run (snd (configMapCfg env account runtimes run))"
  unfolding configMapCfg_def by (rule adds_bind, rule adds_GetAPIKey) (auto simp: D S Let_def split: sum.split)

lemma adds_pullSecretCfg:
  assumes D: "\<And>k n. P (DeleteObj k n)" and S: "\<And>st. P (StatusUpdate st)"
  shows "adds P run (snd (pullSecretCfg env account run))"
  unfolding pullSecretCfg_def by (rule adds_bind, rule adds_GetAPIKey) (auto simp: D S Let_def split: sum.split)

lemma adds_refreshConfigMap:
  assumes D: "\<And>k n. P (DeleteObj k n)" and S: "\<And>st. P (StatusUpdate st)" and A: "\<And>k c. P (Apply k c)"
  shows "adds P run (snd (refreshConfigMap env account runtimes run))"
  unfolding refreshConfigMap_def
  by (rule adds_bind, rule adds_applyCfg) (auto intro!: adds_configMapCfg adds_statusThen A D S split: sum.split)

lemma adds_ConfigMapHandle:
  assumes D: "\<And>k n. P (DeleteObj k n)" and S: "\<And>st. P (StatusUpdate st)" and A: "\<And>k c. P (Apply k c)"
  shows "adds_opt P run (ConfigMapHandle env gapped account run)"
  by (auto simp: ConfigMapHandle_def airGappedConfig_def Let_def case_prod_unfold split: option.split bool.split sum.split
      intro!: adds_refreshConfigMap adds_statusThen A D S)

lemma adds_reportApplied:
  assumes S: "\<And>st. P (StatusUpdate st)" and r: "adds P run (snd r)"
  shows "adds P run (snd (reportApplied env account cond good bad old store r))"
  unfolding reportApplied_def
  by (rule adds_bind, rule r) (auto intro!: adds_statusThen S simp: Let_def case_prod_unfold split: sum.split)

lemma adds_andThen:
  "adds P run (snd r) \<Longrightarrow> (\<And>run'. r = (Continue, run') \<Longrightarrow> adds_opt P run' (k run')) \<Longrightarrow> adds_opt P run (andThen r k)"
  unfolding andThen_def by (rule adds_opt_bind, assumption) (auto split: response.split)

lemma adds_opt_Option_bind:
  "adds_opt P run r \<Longrightarrow> (\<And>p. r = Some p \<Longrightarrow> adds P run (snd p) \<Longrightarrow> adds_opt P run (k p)) \<Longrightarrow> adds_opt P run (Option.bind r k)"
  by (cases r) auto

lemma adds_accountHealthy: "(\<And>st. P (StatusUpdate st)) \<Longrightarrow> adds P run (snd (accountHealthy env account run))"
  unfolding accountHealthy_def by (rule adds_bind, rule adds_UpdateStatus) auto

lemma adds_reconcileHandlers:
  assumes D: "\<And>k n. P (DeleteObj k n)" and S: "\<And>st. P (StatusUpdate st)" and A: "\<And>k c. P (Apply k c)"
    and F: "\<And>n. P (PatchForceAnnotation n)"
  shows "adds_opt P newRun (reconcileHandlers env account)"
  unfolding reconcileHandlers_def Let_def TemplateHandle_def PullSecretHandle_def
  by (auto intro!: adds_opt_Option_bind adds_andThen adds_ValidationHandle adds_ConfigMapHandle adds_reportApplied adds_applyCfg
      adds_pullSecretCfg adds_accountHealthy D S A F)

section \<open>Objects only on a valid key\<close>

lemma newRun_writes [simp]: "ru_writes newRun = []"
  by (simp add: newRun_def)

lemma reconcileHandlers_applies:
  assumes r: "reconcileHandlers env account = Some (out, run)" and g: "\<not> IsNimAirGapped env" and w: "Apply k cfg \<in> set (ru_writes run)"
  shows "conditionTrue env account NimConditionAPIKeyValidation \<and> keyFresh env account"
proof -
  obtain resp run1 where v: "ValidationHandle env False account newRun = Some (resp, run1)"
    using r g by (cases "ValidationHandle env False account newRun") (auto simp: reconcileHandlers_def)
  have "Apply k cfg \<notin> set (ru_writes run1)"
    using adds_writes [OF validation_never_applies [OF v], of "Apply k cfg"] by (auto simp: is_apply_def)
  then have "resp = Continue"
    using r g w by (cases resp) (auto simp: reconcileHandlers_def v andThen_def)
  then show ?thesis using validation_continues v by blast
qed

lemma ReconcileAccount_handlers:
  assumes r: "ReconcileAccount env = Some (out, run)" and w: "w \<in> set (ru_writes run)" and a: "is_apply w"
  obtains account where "nv_account env [] = Inr account" "\<not> om_deleting (na_meta account)" "reconcileHandlers env account = Some (out, run)"
proof -
  have "adds (\<lambda>w. \<not> is_apply w) newRun (snd (CleanupResources env account newRun))" for account
    by (rule adds_CleanupResources) (simp add: is_apply_def)
  then have c: "CleanupResources env account newRun = (errs, run1) \<Longrightarrow> w \<notin> set (ru_writes run1)" for account errs run1
    using adds_writes a by (metis newRun_writes empty_iff list.set(1) snd_conv)
  show thesis using that r w a c
    by (auto simp: ReconcileAccount_def Let_def ask_def is_apply_def split: sum.splits if_splits prod.splits nim_write.splits)
qed

text \<open>
  Property C8. In a cluster that is not air-gapped, a reconcile applies an object of an account (the ConfigMap, the template or the pull Secret) only
  when the account it read is not being deleted, has the condition that its API key is valid, and was validated within its refresh rate.
\<close>

theorem resources_need_valid_key:
  assumes "ReconcileAccount env = Some (out, run)" "\<not> IsNimAirGapped env" "Apply kind cfg \<in> set (ru_writes run)"
  shows "\<exists>account. nv_account env [] = Inr account \<and> \<not> om_deleting (na_meta account) \<and>
           conditionTrue env account NimConditionAPIKeyValidation \<and> keyFresh env account"
proof -
  obtain account where "nv_account env [] = Inr account" "\<not> om_deleting (na_meta account)" "reconcileHandlers env account = Some (out, run)"
    using ReconcileAccount_handlers [OF assms(1,3)] by (auto simp: is_apply_def)
  then show ?thesis using reconcileHandlers_applies assms(2,3) by blast
qed

theorem resources_need_valid_key_witness:
  "\<exists>account. nv_account (nim_cluster 200 (served_account 90)) [] = Inr account \<and> \<not> om_deleting (na_meta account) \<and>
     conditionTrue (nim_cluster 200 (served_account 90)) account NimConditionAPIKeyValidation \<and> keyFresh (nim_cluster 200 (served_account 90)) account"
proof -
  have "(case ReconcileAccount (nim_cluster 200 (served_account 90)) of Some (out, run) \<Rightarrow> list_ex is_apply (ru_writes run) | None \<Rightarrow> False)"
    by code_simp
  then obtain out run w where r: "ReconcileAccount (nim_cluster 200 (served_account 90)) = Some (out, run)" "w \<in> set (ru_writes run)" "is_apply w"
    by (auto split: option.splits simp: list_ex_iff)
  then obtain k cfg where "w = Apply k cfg" by (auto simp: is_apply_def split: nim_write.splits)
  with r show ?thesis using resources_need_valid_key [of "nim_cluster 200 (served_account 90)"] nim_cluster_gap by blast
qed

section \<open>The finalizer goes last\<close>

lemma deleteObjects_writes: "ru_writes (snd (deleteObjects env objs run)) = ru_writes run @ map (\<lambda>(k, n). DeleteObj k n) objs"
  by (induction objs arbitrary: run) (auto simp: ask_def case_prod_unfold)

lemma deleteObjects_errors:
  "fst (deleteObjects env objs run) = [] \<longleftrightarrow> (\<forall>(k, n) \<in> set objs. nv_write env (DeleteObj k n) \<in> {None, Some NotFound})"
proof (induction objs arbitrary: run)
  case (Cons obj objs)
  then show ?case by (cases obj) (auto simp: ask_def case_prod_unfold split: option.splits if_splits)
qed simp

lemmas CleanupResources_writes = deleteObjects_writes [where objs = "cleanupObjects account" for account, folded CleanupResources_def]
lemmas CleanupResources_errors = deleteObjects_errors [where objs = "cleanupObjects account" for account, folded CleanupResources_def]

lemma finalizerIndex_nth: "NimCleanupFinalizer \<in> set fs \<Longrightarrow> fs ! finalizerIndex fs = NimCleanupFinalizer"
  by (induction fs) (auto simp: finalizerIndex_def)

definition is_finalizer :: "nim_write \<Rightarrow> bool" where "is_finalizer w = (case w of PatchFinalizer _ \<Rightarrow> True | _ \<Rightarrow> False)"

lemma handlers_keep_finalizer:
  "reconcileHandlers env account = Some (out, run) \<Longrightarrow> w \<in> set (ru_writes run) \<Longrightarrow> \<not> is_finalizer w"
  using adds_reconcileHandlers [of "\<lambda>w. \<not> is_finalizer w" env account] by (auto simp: is_finalizer_def dest: adds_writes)

text \<open>
  Property C16. A reconcile takes a finalizer off an account only when the account is being deleted; the entry it names is the controller's own, and before
  it the reconcile has deleted every object the status refers to, with no error but that the object was gone already.
\<close>

theorem finalizer_removed_last:
  assumes "ReconcileAccount env = Some (out, run)" "PatchFinalizer i \<in> set (ru_writes run)"
  shows "\<exists>account. nv_account env [] = Inr account \<and> om_deleting (na_meta account) \<and> om_finalizers (na_meta account) ! i = NimCleanupFinalizer \<and>
           ru_writes run = map (\<lambda>(k, n). DeleteObj k n) (cleanupObjects account) @ [PatchFinalizer i] \<and>
           (\<forall>(k, n) \<in> set (cleanupObjects account). nv_write env (DeleteObj k n) \<in> {None, Some NotFound})"
proof -
  obtain account where a: "nv_account env [] = Inr account"
    using assms by (cases "nv_account env []") (auto simp: ReconcileAccount_def)
  have d: "om_deleting (na_meta account)"
    using assms handlers_keep_finalizer [of env account out run "PatchFinalizer i"]
    by (auto simp: ReconcileAccount_def a Let_def ask_def is_finalizer_def split: if_splits)
  have h: "NimCleanupFinalizer \<in> set (om_finalizers (na_meta account))"
    using assms d by (auto simp: ReconcileAccount_def a Let_def split: if_splits)
  obtain errs run1 where c: "CleanupResources env account newRun = (errs, run1)" by force
  have w: "ru_writes run1 = map (\<lambda>(k, n). DeleteObj k n) (cleanupObjects account)" using CleanupResources_writes [of env account newRun] by (simp add: c)
  have e: "errs = []" "run = run1\<lparr>ru_writes := ru_writes run1 @ [PatchFinalizer (finalizerIndex (om_finalizers (na_meta account)))]\<rparr>"
    using assms d h w by (auto simp: ReconcileAccount_def a c ask_def split: if_splits)
  have i: "i = finalizerIndex (om_finalizers (na_meta account))" using assms(2) by (auto simp: e w)
  show ?thesis using CleanupResources_errors [of env account newRun] finalizerIndex_nth [OF h] a d
    by (simp add: c e w i)
qed


definition leaving_account :: nim_account where
  "leaving_account = (served_account 90)\<lparr>na_meta := (na_meta (served_account 90))\<lparr>om_deleting := True\<rparr>\<rparr>"

theorem finalizer_removed_last_witness:
  "om_finalizers (na_meta leaving_account) ! 1 = NimCleanupFinalizer \<and>
   map_option (\<lambda>(_, run). ru_writes run) (ReconcileAccount (nim_cluster 200 leaving_account)) =
     Some (map (\<lambda>(k, n). DeleteObj k n) (cleanupObjects leaving_account) @ [PatchFinalizer 1])"
proof -
  have "map_option (\<lambda>(_, run). PatchFinalizer 1 \<in> set (ru_writes run)) (ReconcileAccount (nim_cluster 200 leaving_account)) = Some True"
    by code_simp
  then obtain out run where r: "ReconcileAccount (nim_cluster 200 leaving_account) = Some (out, run)" "PatchFinalizer 1 \<in> set (ru_writes run)"
    by auto
  show ?thesis using finalizer_removed_last [OF r] by (simp add: r)
qed

end
