(* ===== verification/NIM_Progress.thy ===== *)
theory NIM_Progress
  imports NIM_Safety
begin

text \<open>
  Where the reconciles of a NIM Account lead: the laws of the condition helpers, the status of a rejected key, an account that becomes healthy when every
  call succeeds, and the two loops that do not settle.
\<close>

section \<open>The condition helpers\<close>

text \<open>What apimachinery documents of \<open>SetStatusCondition\<close> and \<open>FindStatusCondition\<close>; the time of a condition is no part of its content.\<close>

definition sameCondition :: "nim_condition \<Rightarrow> nim_condition \<Rightarrow> bool" where
  "sameCondition c d = (nc_type c = nc_type d \<and> nc_status c = nc_status d \<and> nc_generation c = nc_generation d \<and>
     nc_reason c = nc_reason d \<and> nc_message c = nc_message d)"

definition lawful_conditions :: "nim_env \<Rightarrow> bool" where
  "lawful_conditions env =
     ((\<forall>c cs. \<exists>d. nv_find_condition env (snd (nv_set_condition env c cs)) (nc_type c) = Some d \<and> sameCondition c d) \<and>
      (\<forall>c cs t. t \<noteq> nc_type c \<longrightarrow> nv_find_condition env (snd (nv_set_condition env c cs)) t = nv_find_condition env cs t) \<and>
      (\<forall>c cs. fst (nv_set_condition env c cs) = (\<nexists>d. nv_find_condition env cs (nc_type c) = Some d \<and> sameCondition c d)) \<and>
      (\<forall>c cs. \<not> fst (nv_set_condition env c cs) \<longrightarrow> snd (nv_set_condition env c cs) = cs) \<and>
      (\<forall>c t. nv_find_condition env [] t = None \<and> nv_find_condition env [c] t = (if nc_type c = t then Some c else None)))"

definition conditionIn :: "nim_env \<Rightarrow> nim_status \<Rightarrow> string \<Rightarrow> string option" where
  "conditionIn env st t = map_option nc_status (nv_find_condition env (as_conditions st) t)"

lemma conditionTrue_iff: "conditionTrue env account t = (conditionIn env (na_status account) t = Some ''True'')"
  by (auto simp: conditionTrue_def conditionIn_def split: option.splits)

lemma setCondition_fields [simp]:
  "as_config (snd (setCondition env c st)) = as_config st" "as_template (snd (setCondition env c st)) = as_template st"
  "as_pull (snd (setCondition env c st)) = as_pull st" "as_validated (snd (setCondition env c st)) = as_validated st"
  "as_refreshed (snd (setCondition env c st)) = as_refreshed st" "as_checked (snd (setCondition env c st)) = as_checked st"
  by (simp_all add: setCondition_def case_prod_unfold)

lemma setCondition_conditions: "as_conditions (snd (setCondition env c st)) = snd (nv_set_condition env c (as_conditions st))"
  by (simp add: setCondition_def case_prod_unfold)

lemma conditionIn_fields [simp]:
  "conditionIn env (st\<lparr>as_config := x\<rparr>) t = conditionIn env st t" "conditionIn env (st\<lparr>as_template := x\<rparr>) t = conditionIn env st t"
  "conditionIn env (st\<lparr>as_pull := x\<rparr>) t = conditionIn env st t" "conditionIn env (st\<lparr>as_validated := y\<rparr>) t = conditionIn env st t"
  "conditionIn env (st\<lparr>as_refreshed := y\<rparr>) t = conditionIn env st t" "conditionIn env (st\<lparr>as_checked := y\<rparr>) t = conditionIn env st t"
  by (simp_all add: conditionIn_def)

lemma conditionIn_set:
  assumes "lawful_conditions env"
  shows "conditionIn env (snd (setCondition env c st)) t = (if t = nc_type c then Some (nc_status c) else conditionIn env st t)"
proof (cases "t = nc_type c")
  case True
  obtain d where "nv_find_condition env (snd (nv_set_condition env c (as_conditions st))) (nc_type c) = Some d" "sameCondition c d"
    using assms unfolding lawful_conditions_def by blast
  with True show ?thesis by (simp add: conditionIn_def setCondition_conditions sameCondition_def)
next
  case False
  then have "nv_find_condition env (snd (nv_set_condition env c (as_conditions st))) t = nv_find_condition env (as_conditions st) t"
    using assms unfolding lawful_conditions_def by blast
  with False show ?thesis by (simp add: conditionIn_def setCondition_conditions)
qed

text \<open>A condition is set for good: the flag of a change says whether it was there with this content.\<close>

definition holdsCondition :: "nim_env \<Rightarrow> nim_status \<Rightarrow> nim_condition \<Rightarrow> bool" where
  "holdsCondition env st c = (case nv_find_condition env (as_conditions st) (nc_type c) of Some d \<Rightarrow> sameCondition c d | None \<Rightarrow> False)"

lemma setCondition_changed:
  assumes "lawful_conditions env"
  shows "fst (setCondition env c st) = (\<not> holdsCondition env st c)"
proof -
  have "fst (nv_set_condition env c (as_conditions st)) = (\<nexists>d. nv_find_condition env (as_conditions st) (nc_type c) = Some d \<and> sameCondition c d)"
    using assms unfolding lawful_conditions_def by blast
  then show ?thesis by (auto simp: setCondition_def case_prod_unfold holdsCondition_def split: option.splits)
qed

lemma setCondition_unchanged:
  assumes "lawful_conditions env" "holdsCondition env st c"
  shows "snd (setCondition env c st) = st"
proof -
  have "snd (nv_set_condition env c (as_conditions st)) = as_conditions st"
    using assms setCondition_changed [of env c st] unfolding lawful_conditions_def setCondition_def case_prod_unfold by simp
  then show ?thesis by (simp add: setCondition_def case_prod_unfold)
qed

lemma holdsCondition_set:
  assumes "lawful_conditions env"
  shows "holdsCondition env (snd (setCondition env c st)) c"
    and "nc_type c' \<noteq> nc_type c \<Longrightarrow> holdsCondition env (snd (setCondition env c st)) c' = holdsCondition env st c'"
proof -
  obtain d where "nv_find_condition env (snd (nv_set_condition env c (as_conditions st))) (nc_type c) = Some d" "sameCondition c d"
    using assms unfolding lawful_conditions_def by blast
  then show "holdsCondition env (snd (setCondition env c st)) c" by (simp add: holdsCondition_def setCondition_conditions)
  assume "nc_type c' \<noteq> nc_type c"
  then have "nv_find_condition env (snd (nv_set_condition env c (as_conditions st))) (nc_type c') = nv_find_condition env (as_conditions st) (nc_type c')"
    using assms unfolding lawful_conditions_def by blast
  then show "holdsCondition env (snd (setCondition env c st)) c' = holdsCondition env st c'"
    by (simp add: holdsCondition_def setCondition_conditions)
qed

lemma holdsCondition_fields [simp]:
  "holdsCondition env (st\<lparr>as_config := x\<rparr>) c = holdsCondition env st c" "holdsCondition env (st\<lparr>as_template := x\<rparr>) c = holdsCondition env st c"
  "holdsCondition env (st\<lparr>as_pull := x\<rparr>) c = holdsCondition env st c" "holdsCondition env (st\<lparr>as_validated := y\<rparr>) c = holdsCondition env st c"
  "holdsCondition env (st\<lparr>as_refreshed := y\<rparr>) c = holdsCondition env st c" "holdsCondition env (st\<lparr>as_checked := y\<rparr>) c = holdsCondition env st c"
  by (simp_all add: holdsCondition_def)

lemma MakeNimCondition_sel [simp]:
  "nc_type (MakeNimCondition env t s g r m) = t" "nc_status (MakeNimCondition env t s g r m) = s"
  by (simp_all add: MakeNimCondition_def)

lemmas nim_condition_names = NimConditionAccountStatus_def NimConditionTemplateUpdate_def NimConditionSecretUpdate_def
  NimConditionConfigMapUpdate_def NimConditionAPIKeyValidation_def

section \<open>The status of a failed account\<close>

text \<open>The condition reported is kept, the account's is false and the others are unknown.\<close>

definition cleanCondition :: "string \<Rightarrow> string" where
  "cleanCondition t = (if t = NimConditionAccountStatus then ''False'' else ''Unknown'')"

lemma conditionIn_fill:
  assumes "lawful_conditions env"
  shows "conditionIn env (fillCondition env account msg cond st) t =
     (if t = cond \<and> conditionIn env st cond = None then Some (cleanCondition cond) else conditionIn env st t)"
  using conditionIn_set [OF assms]
  by (cases "nv_find_condition env (as_conditions st) cond")
    (auto simp: fillCondition_def conditionIn_def cleanCondition_def AccountFailCondition_def split: option.splits)

lemma conditionIn_fill_all:
  assumes "lawful_conditions env"
  shows "conditionIn env (fold (fillCondition env account msg) conds st) t =
     (if t \<in> set conds \<and> conditionIn env st t = None then Some (cleanCondition t) else conditionIn env st t)"
  by (induction conds arbitrary: st) (auto simp: conditionIn_fill [OF assms])

lemma fillCondition_fields [simp]:
  "as_config (fillCondition env account msg cond st) = as_config st" "as_template (fillCondition env account msg cond st) = as_template st"
  "as_pull (fillCondition env account msg cond st) = as_pull st" "as_checked (fillCondition env account msg cond st) = as_checked st"
  by (auto simp: fillCondition_def split: option.splits)

lemma fillCondition_all_fields [simp]:
  "as_config (fold (fillCondition env account msg) conds st) = as_config st" "as_template (fold (fillCondition env account msg) conds st) = as_template st"
  "as_pull (fold (fillCondition env account msg) conds st) = as_pull st" "as_checked (fold (fillCondition env account msg) conds st) = as_checked st"
  by (induction conds arbitrary: st) auto

definition wellFormedFailure :: "nim_env \<Rightarrow> nim_condition list \<Rightarrow> nim_status \<Rightarrow> bool" where
  "wellFormedFailure env reported st =
     (as_config st = None \<and> as_template st = None \<and> as_pull st = None \<and> as_checked st = Some (nv_now env) \<and>
      list_all (\<lambda>t. conditionIn env st t = (case nv_find_condition env reported t of Some c \<Rightarrow> Some (nc_status c) | None \<Rightarrow> Some (cleanCondition t)))
        [NimConditionAccountStatus, NimConditionTemplateUpdate, NimConditionSecretUpdate, NimConditionConfigMapUpdate, NimConditionAPIKeyValidation])"

lemma failure_status_laws:
  assumes "lawful_conditions env"
  shows "wellFormedFailure env reported (makeCleanStatusForAccountFailure env account msg reported)"
  unfolding wellFormedFailure_def NimConditions_def [symmetric]
  by (auto simp: makeCleanStatusForAccountFailure_def conditionIn_fill_all [OF assms] list_all_iff)
    (auto simp: conditionIn_def split: option.splits)

lemma look_put_same: "\<exists>d. look_condition (snd (put_condition c cs)) (nc_type c) = Some d \<and> sameCondition c d"
  by (induction cs) (auto simp: look_condition_def sameCondition_def split: prod.splits)

lemma look_put_other: "t \<noteq> nc_type c \<Longrightarrow> look_condition (snd (put_condition c cs)) t = look_condition cs t"
  by (induction cs) (auto simp: look_condition_def split: prod.splits)

lemma put_condition_changed:
  "fst (put_condition c cs) = (case look_condition cs (nc_type c) of Some d \<Rightarrow> \<not> sameCondition c d | None \<Rightarrow> True)"
proof (induction cs)
  case (Cons d ds)
  then show ?case
    by (cases "nc_type d = nc_type c") (simp_all add: look_condition_def sameCondition_def case_prod_unfold eq_commute)
qed (simp add: look_condition_def)

lemma put_condition_unchanged: "\<not> fst (put_condition c cs) \<Longrightarrow> snd (put_condition c cs) = cs"
proof (induction cs)
  case (Cons d ds)
  then show ?case by (cases "nc_type d = nc_type c") (simp_all add: case_prod_unfold split: if_splits)
qed simp

lemma lawful_cluster: "lawful_conditions (nim_cluster s a)"
proof -
  have "fst (put_condition c cs) = (\<nexists>d. look_condition cs (nc_type c) = Some d \<and> sameCondition c d)" for c cs
    by (simp add: put_condition_changed split: option.split)
  then show ?thesis unfolding lawful_conditions_def nim_cluster_fields
    using look_put_same look_put_other put_condition_unchanged by (simp add: look_condition_def)
qed

section \<open>The key, when it can be read\<close>

text \<open>A manager that has had no failure: what it has loaded is the Secret and its key.\<close>

definition manages :: "key_secret \<Rightarrow> string \<Rightarrow> nim_run \<Rightarrow> bool" where
  "manages sec key run =
     (km_errs (ru_km run) = [] \<and> (km_secret_once (ru_km run) \<longrightarrow> km_secret (ru_km run) = Some sec) \<and>
      (km_key_once (ru_km run) \<longrightarrow> km_key (ru_km run) = trim_space key))"

lemma manages_new [simp]: "manages sec key newRun"
  by (simp add: manages_def newRun_def newManager_def)

lemma manages_writes [simp]: "manages sec key (run\<lparr>ru_writes := ws\<rparr>) = manages sec key run"
  by (simp add: manages_def)

lemma GetAPIKeySecret_good:
  assumes "nv_secret env (orNamespace account (na_key account)) = Inr sec" "manages sec key run"
  obtains run' where "GetAPIKeySecret env account run = (Inr (Some sec), run')" "manages sec key run'" "ru_writes run' = ru_writes run"
proof
  show "GetAPIKeySecret env account run = (Inr (Some sec), loadSecret env account run)" "manages sec key (loadSecret env account run)"
    "ru_writes (loadSecret env account run) = ru_writes run"
    using assms by (auto simp: GetAPIKeySecret_def loadSecret_def manages_def Let_def)
qed

lemma GetAPIKey_good:
  assumes "nv_secret env (orNamespace account (na_key account)) = Inr sec" "map_of (ks_data sec) ''api_key'' = Some key" "manages sec key run"
  obtains run' where "GetAPIKey env account run = (Inr (trim_space key), run')" "manages sec key run'" "ru_writes run' = ru_writes run"
proof
  let ?run = "loadKey env account (loadSecret env account run)"
  show "GetAPIKey env account run = (Inr (trim_space key), ?run)" "manages sec key ?run" "ru_writes ?run = ru_writes run"
    using assms by (auto simp: GetAPIKey_def loadSecret_def loadKey_def manages_def Let_def)
qed

definition forced :: "key_secret \<Rightarrow> bool" where
  "forced sec = (map_of (om_annotations (ks_meta sec)) NimForceValidationAnnotation \<noteq> None)"

definition validationDue :: "nim_env \<Rightarrow> nim_account \<Rightarrow> key_secret \<Rightarrow> bool" where
  "validationDue env account sec =
     (forced sec \<or> \<not> conditionTrue env account NimConditionAPIKeyValidation \<or> \<not> keyFresh env account)"

definition forceWrites :: "key_secret \<Rightarrow> nim_write list" where
  "forceWrites sec = (if forced sec then [PatchForceAnnotation (om_namespace (ks_meta sec), om_name (ks_meta sec))] else [])"

lemma shouldValidate_eq:
  "shouldValidate env account sec run = (validationDue env account sec, run\<lparr>ru_writes := ru_writes run @ forceWrites sec\<rparr>)"
  by (auto simp: shouldValidate_def validationDue_def forceWrites_def forced_def keyFresh_def ask_def split: option.splits)

text \<open>The validation of a key that is due, with the answer of NGC.\<close>

lemma ValidationHandle_due:
  assumes "nv_secret env (orNamespace account (na_key account)) = Inr sec" "map_of (ks_data sec) ''api_key'' = Some key" "manages sec key run"
    and due: "validationDue env account sec" and rts: "getRuntimes env account = Some (Inr runtimes)"
  obtains run' where "ValidationHandle env False account run = Some (
      case ValidateApiKey (nv_http env) (trim_space key) runtimes of
        Some _ \<Rightarrow>
          (case CleanupResources env account run' of
             (errs, run'') \<Rightarrow>
               if errs \<noteq> [] then (Fail errs, run'')
               else statusThen env (makeCleanStatusForAccountFailure env account ''api key failed validation''
                 [MakeNimCondition env NimConditionAPIKeyValidation ''False'' (na_generation account) ''ApiKeyNotValidated''
                   ''api key failed validation'']) Stop run'')
      | None \<Rightarrow>
          (case setCondition env (validCondition env account ''api key validated successfully'') (na_status account) of
             (condUpdated, st) \<Rightarrow> if condUpdated then statusThen env (st\<lparr>as_validated := Some (nv_now env)\<rparr>) Requeue run' else (Requeue, run')))"
    "manages sec key run'" "ru_writes run' = ru_writes run @ forceWrites sec"
proof -
  obtain run1 where 1: "GetAPIKeySecret env account run = (Inr (Some sec), run1)" "manages sec key run1" "ru_writes run1 = ru_writes run"
    using GetAPIKeySecret_good [OF assms(1,3)] .
  let ?run2 = "run1\<lparr>ru_writes := ru_writes run1 @ forceWrites sec\<rparr>"
  have "manages sec key ?run2" using 1(2) by simp
  then obtain run3 where 3: "GetAPIKey env account ?run2 = (Inr (trim_space key), run3)" "manages sec key run3" "ru_writes run3 = ru_writes ?run2"
    using GetAPIKey_good [OF assms(1,2)] by blast
  show thesis
    by (rule that [of run3]) (use 1 3 due rts in \<open>simp_all add: ValidationHandle_def shouldValidate_eq validateKey_def\<close>)
qed

section \<open>A rejected key\<close>

text \<open>
  Property C14. When the key of an account is due for validation and NGC rejects it, and the calls to the API server succeed, the reconcile
  deletes every object the status refers to, applies nothing, reports one status that refers to no object and has the key's condition false and all others, and is done.
\<close>

theorem rejected_key_withdraws:
  assumes acc: "\<And>ws. nv_account env ws = Inr account" and live: "\<not> om_deleting (na_meta account)"
    and fin: "NimCleanupFinalizer \<in> set (om_finalizers (na_meta account))" and gap: "\<not> IsNimAirGapped env"
    and sec: "nv_secret env (orNamespace account (na_key account)) = Inr sec" and key: "map_of (ks_data sec) ''api_key'' = Some key"
    and due: "validationDue env account sec" and rts: "getRuntimes env account = Some (Inr runtimes)"
    and bad: "ValidateApiKey (nv_http env) (trim_space key) runtimes \<noteq> None"
    and calls: "\<And>k n. nv_write env (DeleteObj k n) \<in> {None, Some NotFound}" "\<And>st. nv_write env (StatusUpdate st) = None"
    and laws: "lawful_conditions env" and clock: "as_checked (na_status account) \<noteq> Some (nv_now env)"
  shows "\<exists>run st. ReconcileAccount env = Some (Done, run) \<and>
           ru_writes run = forceWrites sec @ map (\<lambda>(k, n). DeleteObj k n) (cleanupObjects account) @ [StatusUpdate st] \<and>
           wellFormedFailure env [MakeNimCondition env NimConditionAPIKeyValidation ''False'' (na_generation account) ''ApiKeyNotValidated''
             ''api key failed validation''] st"
proof -
  let ?st = "makeCleanStatusForAccountFailure env account ''api key failed validation''
    [MakeNimCondition env NimConditionAPIKeyValidation ''False'' (na_generation account) ''ApiKeyNotValidated'' ''api key failed validation'']"
  note wf = failure_status_laws [OF laws]
  have "as_checked ?st = Some (nv_now env)" using wf unfolding wellFormedFailure_def by blast
  then have new: "na_status account \<noteq> ?st" using clock by auto
  obtain e where e: "ValidateApiKey (nv_http env) (trim_space key) runtimes = Some e" using bad by blast
  obtain run1 where v: "ValidationHandle env False account newRun = Some (
      case CleanupResources env account run1 of
        (errs, run'') \<Rightarrow> if errs \<noteq> [] then (Fail errs, run'') else statusThen env ?st Stop run'')" "ru_writes run1 = forceWrites sec"
    using ValidationHandle_due [OF sec key _ due rts, of newRun] by (auto simp: e)
  obtain errs run2 where c: "CleanupResources env account run1 = (errs, run2)" by force
  have "errs = []" "ru_writes run2 = forceWrites sec @ map (\<lambda>(k, n). DeleteObj k n) (cleanupObjects account)"
    using CleanupResources_errors [of env account run1] CleanupResources_writes [of env account run1] calls by (auto simp: c v)
  then have "ValidationHandle env False account newRun =
      Some (Stop, run2\<lparr>ru_writes := forceWrites sec @ map (\<lambda>(k, n). DeleteObj k n) (cleanupObjects account) @ [StatusUpdate ?st]\<rparr>)"
    using new calls by (simp add: v c statusThen_def UpdateStatus_def acc ask_def)
  then have "ReconcileAccount env = Some (Done, run2\<lparr>ru_writes := forceWrites sec @ map (\<lambda>(k, n). DeleteObj k n) (cleanupObjects account) @ [StatusUpdate ?st]\<rparr>)"
    using live fin gap by (simp add: ReconcileAccount_def acc reconcileHandlers_def andThen_def)
  then show ?thesis using wf by fastforce
qed


lemma no_models [simp]: "new_account\<lparr>na_models := None\<rparr> = new_account" "(served_account t)\<lparr>na_models := None\<rparr> = served_account t"
  by (simp_all add: new_account_def served_account_def)

lemma account_data [simp]:
  "\<not> om_deleting (na_meta new_account)" "NimCleanupFinalizer \<in> set (om_finalizers (na_meta new_account))"
  "na_meta (served_account t) = na_meta new_account" "as_checked (na_status (served_account t)) = Some t"
  "as_validated (na_status (served_account t)) = Some t"
  by (simp_all add: new_account_def served_account_def empty_meta_def)

theorem rejected_key_withdraws_witness:
  "\<exists>run st. ReconcileAccount (nim_cluster 401 (served_account (- 1000000000000000))) = Some (Done, run) \<and>
     ru_writes run = map (\<lambda>(k, n). DeleteObj k n) (cleanupObjects (served_account (- 1000000000000000))) @ [StatusUpdate st] \<and>
     cleanupObjects (served_account (- 1000000000000000)) = map (\<lambda>k. (k, (''team'', rx_name (demo_ref k)))) [PullSecretObj, ConfigMapObj, TemplateObj] \<and>
     as_pull st = None \<and> as_config st = None \<and> as_template st = None"
proof -
  let ?a = "served_account (- 1000000000000000)"
  let ?e = "nim_cluster 401 ?a"
  have "\<not> keyFresh ?e ?a" by (simp add: keyFresh_def refreshRate_def NimValidationRefreshRate_def)
  then have due: "validationDue ?e ?a ngc_secret" by (simp add: validationDue_def)
  have rts: "getRuntimes ?e ?a = Some (Inr [llama])" using ngc_catalog [of 401 ?a ?a] by simp
  have f: "forceWrites ngc_secret = []" by (simp add: forceWrites_def forced_def ngc_secret_def empty_meta_def)
  have "\<exists>run st. ReconcileAccount ?e = Some (Done, run) \<and>
      ru_writes run = forceWrites ngc_secret @ map (\<lambda>(k, n). DeleteObj k n) (cleanupObjects ?a) @ [StatusUpdate st] \<and>
      wellFormedFailure ?e [MakeNimCondition ?e NimConditionAPIKeyValidation ''False'' (na_generation ?a) ''ApiKeyNotValidated''
        ''api key failed validation''] st"
    by (rule rejected_key_withdraws [where runtimes = "[llama]" and key = "''nvapi-1 ''"])
      (simp_all add: due rts lawful_cluster ngc_key ngc_validates del: nim_cluster_gap, simp)
  moreover have "cleanupObjects ?a = map (\<lambda>k. (k, (''team'', rx_name (demo_ref k)))) [PullSecretObj, ConfigMapObj, TemplateObj]"
    by (simp add: cleanupObjects_def served_account_def refKey_def)
  ultimately show ?thesis unfolding f wellFormedFailure_def by (simp only: append_Nil) blast
qed

end
