(* ===== verification/NIM_Healthy.thy ===== *)
theory NIM_Healthy
  imports NIM_Progress
begin

text \<open>
  A NIM Account becomes healthy: reconciles of the same account, each at its own time and on the account the writes before it left, with every call
  answered well. The finalizer and each of the four handlers ask for one more reconcile at most, so the sixth at the latest reports the account as healthy.
\<close>

section \<open>The account between reconciles\<close>

definition nimWritten :: "nim_write \<Rightarrow> nim_account \<Rightarrow> nim_account" where
  "nimWritten w account =
     (case w of
        StatusUpdate st \<Rightarrow> account\<lparr>na_status := st\<rparr>
      | AddFinalizer a \<Rightarrow> a
      | PatchFinalizer i \<Rightarrow>
          account\<lparr>na_meta := (na_meta account)\<lparr>om_finalizers := take i (om_finalizers (na_meta account)) @ drop (Suc i) (om_finalizers (na_meta account))\<rparr>\<rparr>
      | _ \<Rightarrow> account)"

definition nimServed :: "nim_env \<Rightarrow> nim_account \<Rightarrow> nim_write list \<Rightarrow> nim_account" where
  "nimServed env account ws = fold nimWritten (filter (\<lambda>w. nv_write env w = None) ws) account"

text \<open>The API server of a reconcile that starts at an account; nobody else writes it.\<close>

definition nimServe :: "nim_env \<Rightarrow> nim_account \<Rightarrow> nim_env" where
  "nimServe env account = env\<lparr>nv_account := \<lambda>ws. Inr (nimServed env account ws)\<rparr>"

definition nextAccount :: "nim_env \<Rightarrow> nim_account \<Rightarrow> nim_account" where
  "nextAccount env account =
     (case ReconcileAccount (nimServe env account) of Some (_, run) \<Rightarrow> nimServed env account (ru_writes run) | None \<Rightarrow> account)"

lemma nimServed_simps [simp]: "nimServed env account [] = account" "nimServed env account (ws @ [Apply k c]) = nimServed env account ws"
  by (simp_all add: nimServed_def nimWritten_def)

lemma nimServe_account [simp]: "nv_account (nimServe env account) ws = Inr (nimServed env account ws)"
  by (simp add: nimServe_def)

lemma nimServe_fields [simp]:
  "nv_now (nimServe env account) = nv_now env" "nv_http (nimServe env account) = nv_http env"
  "nv_secret (nimServe env account) = nv_secret env" "nv_configmap (nimServe env account) = nv_configmap env"
  "nv_configmap_labels (nimServe env account) = nv_configmap_labels env" "nv_applied (nimServe env account) = nv_applied env"
  "nv_write (nimServe env account) = nv_write env" "nv_apply (nimServe env account) = nv_apply env"
  "nv_set_condition (nimServe env account) = nv_set_condition env" "nv_find_condition (nimServe env account) = nv_find_condition env"
  "nv_duration (nimServe env account) = nv_duration env" "nv_json_list (nimServe env account) = nv_json_list env"
  "nv_runtime_object (nimServe env account) = nv_runtime_object env" "nv_air_gapped (nimServe env account) = nv_air_gapped env"
  by (simp_all add: nimServe_def)

lemma nimServe_refreshRate [simp]: "refreshRate (nimServe env a) = refreshRate env"
  by (intro ext) (simp add: refreshRate_def)

lemma nimServe_models [simp]: "getSelectedModelList (nimServe env a) = getSelectedModelList env"
  by (intro ext) (unfold getSelectedModelList_def nimServe_fields, rule refl)

lemma nimServe_reads [simp]:
  "conditionTrue (nimServe env a) = conditionTrue env" "setCondition (nimServe env a) = setCondition env"
  "MakeNimCondition (nimServe env a) = MakeNimCondition env" "keyFresh (nimServe env a) = keyFresh env"
  "getRuntimes (nimServe env a) = getRuntimes env" "IsNimAirGapped (nimServe env a) = IsNimAirGapped env"
  by (unfold fun_eq_iff conditionTrue_def setCondition_def MakeNimCondition_def keyFresh_def getRuntimes_def IsNimAirGapped_def nimServe_fields
      nimServe_refreshRate nimServe_models) simp_all

lemma nimServe_decisions [simp]:
  "shouldRefresh (nimServe env a) = shouldRefresh env" "validCondition (nimServe env a) = validCondition env"
  "validationDue (nimServe env a) = validationDue env"
  by (unfold fun_eq_iff shouldRefresh_def validCondition_def validationDue_def nimServe_fields nimServe_refreshRate nimServe_reads) simp_all

lemma statusThen_served:
  assumes "\<And>st. nv_write env (StatusUpdate st) = None"
  obtains run' where "statusThen (nimServe env account) st resp run = (resp, run')"
    "nimServed env account (ru_writes run') = (nimServed env account (ru_writes run))\<lparr>na_status := st\<rparr>"
proof (cases "na_status (nimServed env account (ru_writes run)) = st")
  case True
  then show thesis by (intro that [of run]) (auto simp: statusThen_def UpdateStatus_def)
next
  case False
  then show thesis
    by (intro that [of "run\<lparr>ru_writes := ru_writes run @ [StatusUpdate st]\<rparr>"])
      (auto simp: statusThen_def UpdateStatus_def ask_def assms nimServed_def nimWritten_def)
qed

section \<open>A calm cluster\<close>

text \<open>
  Every call answers well, and \<open>ref\<close> gives the object an apply returns: the account is not being deleted and has the finalizer, the cluster is not
  air-gapped, the Secret holds a key that NGC accepts and has no annotation that forces a validation, the catalog and the model data can be
  read, applies and status updates succeed and the ConfigMap keeps its label. The condition helpers do what apimachinery documents. The time plays no part.
\<close>

definition calm :: "nim_env \<Rightarrow> (obj_kind \<Rightarrow> obj_ref) \<Rightarrow> nim_account \<Rightarrow> bool" where
  "calm env ref account =
     (\<not> om_deleting (na_meta account) \<and> NimCleanupFinalizer \<in> set (om_finalizers (na_meta account)) \<and> \<not> IsNimAirGapped env \<and>
      (\<exists>sec key runtimes data. nv_secret env (orNamespace account (na_key account)) = Inr sec \<and> map_of (ks_data sec) ''api_key'' = Some key \<and>
         \<not> forced sec \<and> getRuntimes env account = Some (Inr runtimes) \<and> ValidateApiKey (nv_http env) (trim_space key) runtimes = None \<and>
         GetNimModelData (nv_http env) (trim_space key) runtimes = Inr data) \<and>
      (\<exists>obj. nv_runtime_object env (GetNimServingRuntimeTemplate False) = Inr obj) \<and> (\<forall>k ns cfg. nv_apply env k ns cfg = Inr (ref k)) \<and>
      (\<exists>labels. nv_configmap_labels env (refKey (ref ConfigMapObj)) = Inr labels \<and> map_of labels ''opendatahub.io/managed'' \<noteq> None) \<and>
      (\<forall>st. nv_write env (StatusUpdate st) = None) \<and> (\<forall>a. nv_write env (AddFinalizer a) = None) \<and> lawful_conditions env \<and>
      0 \<le> refreshRate env (na_validation_rate account) NimValidationRefreshRate \<and> 0 \<le> refreshRate env (na_config_rate account) NimConfigRefreshRate)"

lemma orNamespace_status [simp]: "orNamespace (account\<lparr>na_status := st\<rparr>) = orNamespace account"
  by (simp add: orNamespace_def fun_eq_iff)

lemma getSelectedModelList_status [simp]: "getSelectedModelList env (account\<lparr>na_status := st\<rparr>) = getSelectedModelList env account"
  by (unfold getSelectedModelList_def orNamespace_status) simp

lemma getRuntimes_status [simp]: "getRuntimes env (account\<lparr>na_status := st\<rparr>) = getRuntimes env account"
  by (unfold getRuntimes_def getSelectedModelList_status) (rule refl)

lemma calm_status [simp]: "calm env ref (account\<lparr>na_status := st\<rparr>) = calm env ref account"
  by (simp add: calm_def)

text \<open>How far an account has come.\<close>

definition validated :: "nim_env \<Rightarrow> nim_account \<Rightarrow> bool" where
  "validated env account =
     (conditionTrue env account NimConditionAPIKeyValidation \<and> keyFresh env account \<and>
      (case as_validated (na_status account) of Some t \<Rightarrow> t \<le> nv_now env | None \<Rightarrow> False))"

definition templateReady :: "nim_env \<Rightarrow> nim_account \<Rightarrow> nim_condition" where
  "templateReady env account = MakeNimCondition env NimConditionTemplateUpdate ''True'' (na_generation account) ''TemplateUpdated''
     ''runtime template reconciled successfully''"

definition secretReady :: "nim_env \<Rightarrow> nim_account \<Rightarrow> nim_condition" where
  "secretReady env account = MakeNimCondition env NimConditionSecretUpdate ''True'' (na_generation account) ''SecretUpdated''
     ''pull secret reconciled successfully''"

definition templated :: "nim_env \<Rightarrow> (obj_kind \<Rightarrow> obj_ref) \<Rightarrow> nim_account \<Rightarrow> bool" where
  "templated env ref account = (\<not> shouldUpdateReference (as_template (na_status account)) (Some (ref TemplateObj)) \<and>
     holdsCondition env (na_status account) (templateReady env account))"

definition pulled :: "nim_env \<Rightarrow> (obj_kind \<Rightarrow> obj_ref) \<Rightarrow> nim_account \<Rightarrow> bool" where
  "pulled env ref account = (\<not> shouldUpdateReference (as_pull (na_status account)) (Some (ref PullSecretObj)) \<and>
     holdsCondition env (na_status account) (secretReady env account))"

lemma calm_key:
  assumes "calm env ref account"
  obtains sec key runtimes data where "nv_secret env (orNamespace account (na_key account)) = Inr sec" "map_of (ks_data sec) ''api_key'' = Some key"
    "\<not> forced sec" "getRuntimes env account = Some (Inr runtimes)" "ValidateApiKey (nv_http env) (trim_space key) runtimes = None"
    "GetNimModelData (nv_http env) (trim_space key) runtimes = Inr data"
  using assms unfolding calm_def by blast

lemma Reconcile_calm:
  "calm env ref account \<Longrightarrow> ReconcileAccount (nimServe env account) = reconcileHandlers (nimServe env account) account"
  by (simp add: ReconcileAccount_def calm_def)

text \<open>The first reconcile validates the key.\<close>

lemma key_step:
  assumes c: "calm env ref account" and n: "\<not> conditionTrue env account NimConditionAPIKeyValidation"
  shows "\<exists>run. ReconcileAccount (nimServe env account) = Some (RequeueAfter 10, run)"
    and "nextAccount env account = account\<lparr>na_status := (snd (setCondition env (validCondition env account ''api key validated successfully'')
      (na_status account)))\<lparr>as_validated := Some (nv_now env)\<rparr>\<rparr>"
proof -
  let ?c = "validCondition env account ''api key validated successfully''"
  obtain sec key runtimes data where k: "nv_secret env (orNamespace account (na_key account)) = Inr sec" "map_of (ks_data sec) ''api_key'' = Some key"
    "\<not> forced sec" "getRuntimes env account = Some (Inr runtimes)" "ValidateApiKey (nv_http env) (trim_space key) runtimes = None"
    using calm_key [OF c] by metis
  have upd: "fst (setCondition env ?c (na_status account))"
    using c n setCondition_changed [of env ?c "na_status account"]
    by (auto simp: calm_def holdsCondition_def conditionTrue_def sameCondition_def validCondition_def split: option.splits)
  have due: "validationDue env account sec" using n by (simp add: validationDue_def)
  obtain run1 where v: "ValidationHandle (nimServe env account) False account newRun =
      Some (statusThen (nimServe env account) ((snd (setCondition env ?c (na_status account)))\<lparr>as_validated := Some (nv_now env)\<rparr>) Requeue run1)"
      "ru_writes run1 = []"
    using ValidationHandle_due [of "nimServe env account" account sec key newRun runtimes] k due upd
    by (auto simp: forceWrites_def case_prod_unfold)
  obtain run2 where s: "ValidationHandle (nimServe env account) False account newRun = Some (Requeue, run2)"
    "nimServed env account (ru_writes run2) = account\<lparr>na_status := (snd (setCondition env ?c (na_status account)))\<lparr>as_validated := Some (nv_now env)\<rparr>\<rparr>"
    using statusThen_served [of env account "(snd (setCondition env ?c (na_status account)))\<lparr>as_validated := Some (nv_now env)\<rparr>" Requeue run1]
      c v by (auto simp: calm_def)
  then have r: "ReconcileAccount (nimServe env account) = Some (RequeueAfter 10, run2)"
    using c by (simp add: Reconcile_calm [OF c] reconcileHandlers_def andThen_def calm_def)
  then show "\<exists>run. ReconcileAccount (nimServe env account) = Some (RequeueAfter 10, run)" by blast
  show "nextAccount env account = account\<lparr>na_status := (snd (setCondition env ?c (na_status account)))\<lparr>as_validated := Some (nv_now env)\<rparr>\<rparr>"
    using r s by (simp add: nextAccount_def)
qed

lemma key_step_validated:
  assumes c: "calm env ref account" and n: "\<not> conditionTrue env account NimConditionAPIKeyValidation"
  shows "validated env (nextAccount env account)" "calm env ref (nextAccount env account)"
proof -
  have l: "lawful_conditions env" "0 \<le> refreshRate env (na_validation_rate account) NimValidationRefreshRate"
    using c by (simp_all add: calm_def)
  show "validated env (nextAccount env account)"
    using l by (simp add: key_step [OF assms] validated_def conditionTrue_iff keyFresh_def conditionIn_set validCondition_def)
  show "calm env ref (nextAccount env account)" using c by (simp add: key_step [OF assms])
qed


text \<open>Once the key is valid the next handler runs, with the key at hand.\<close>

lemma validated_continues:
  assumes c: "calm env ref account" and v: "validated env account"
    and k: "nv_secret env (orNamespace account (na_key account)) = Inr sec" "\<not> forced sec"
  obtains run where "ValidationHandle (nimServe env account) False account newRun = Some (Continue, run)" "manages sec key run" "ru_writes run = []"
proof -
  obtain run1 where 1: "GetAPIKeySecret (nimServe env account) account newRun = (Inr (Some sec), run1)" "manages sec key run1" "ru_writes run1 = []"
    using GetAPIKeySecret_good [of "nimServe env account" account sec key newRun] k by auto
  have "\<not> validationDue env account sec" using v k by (simp add: validationDue_def validated_def)
  then show thesis using 1 k by (intro that [of run1]) (simp_all add: ValidationHandle_def shouldValidate_eq forceWrites_def)
qed

text \<open>What an apply leaves, when the cluster is calm.\<close>

lemma applyCfg_calm:
  assumes "calm env ref account"
  shows "applyCfg (nimServe env account) account kind (Inr cfg, run) = (Inr (ref kind), run\<lparr>ru_writes := ru_writes run @ [Apply kind cfg]\<rparr>)"
  using assms by (simp add: applyCfg_def calm_def)

definition configReady :: "nim_env \<Rightarrow> nim_account \<Rightarrow> nim_condition" where
  "configReady env account = MakeNimCondition env NimConditionConfigMapUpdate ''True'' (na_generation account) ''ConfigMapUpdated''
     ''nim config reconciled successfully''"

definition configStatus :: "nim_env \<Rightarrow> (obj_kind \<Rightarrow> obj_ref) \<Rightarrow> nim_account \<Rightarrow> nim_status" where
  "configStatus env ref account = snd (setCondition env (configReady env account)
     ((na_status account)\<lparr>as_config := Some (ref ConfigMapObj), as_refreshed := Some (nv_now env)\<rparr>))"

lemma shouldRefresh_validated: "validated env account \<Longrightarrow> shouldRefresh env account \<noteq> None"
  by (auto simp: shouldRefresh_def validated_def split: option.splits sum.splits bool.splits)

text \<open>The second applies the ConfigMap.\<close>

lemma config_step:
  assumes c: "calm env ref account" and v: "validated env account" and n: "shouldRefresh env account \<noteq> Some False"
  shows "nextAccount env account = account\<lparr>na_status := configStatus env ref account\<rparr>"
    and "\<exists>run. ReconcileAccount (nimServe env account) = Some (RequeueAfter 10, run)"
proof -
  obtain sec key runtimes data where k: "nv_secret env (orNamespace account (na_key account)) = Inr sec" "map_of (ks_data sec) ''api_key'' = Some key"
    "\<not> forced sec" "getRuntimes env account = Some (Inr runtimes)" "GetNimModelData (nv_http env) (trim_space key) runtimes = Inr data"
    using calm_key [OF c] by metis
  obtain run1 where 1: "ValidationHandle (nimServe env account) False account newRun = Some (Continue, run1)" "manages sec key run1" "ru_writes run1 = []"
    using validated_continues [OF c v k(1,3)] .
  obtain run2 where 2: "GetAPIKey (nimServe env account) account run1 = (Inr (trim_space key), run2)" "ru_writes run2 = []"
    using GetAPIKey_good [of "nimServe env account" account sec key run1] k 1 by auto
  obtain cfg where cfg: "configMapCfg (nimServe env account) account runtimes run1 = (Inr cfg, run2)"
    using k by (simp add: configMapCfg_def 2 Let_def)
  have w: "\<And>st. nv_write env (StatusUpdate st) = None" using c by (simp add: calm_def)
  have r: "shouldRefresh env account = Some True"
    using shouldRefresh_validated [OF v] n by (cases "shouldRefresh env account") (auto split: bool.splits)
  obtain run3 where 3: "refreshConfigMap (nimServe env account) account runtimes run1 = (Requeue, run3)"
    "nimServed env account (ru_writes run3) = account\<lparr>na_status := configStatus env ref account\<rparr>"
    using statusThen_served [of env account "configStatus env ref account" Requeue "run2\<lparr>ru_writes := [Apply ConfigMapObj cfg]\<rparr>", OF w]
      nimServed_simps(2) [of env account "[]"]
    by (auto simp: refreshConfigMap_def cfg applyCfg_calm [OF c] 2 configStatus_def configReady_def)
  show "nextAccount env account = account\<lparr>na_status := configStatus env ref account\<rparr>" "\<exists>run. ReconcileAccount (nimServe env account) = Some (RequeueAfter 10, run)"
    using c by (simp_all add: nextAccount_def Reconcile_calm [OF c] reconcileHandlers_def calm_def 1 andThen_def ConfigMapHandle_def r k 3)
qed

definition ready :: "nim_env \<Rightarrow> nim_account \<Rightarrow> bool" where
  "ready env account = (validated env account \<and> shouldRefresh env account = Some False)"

lemma config_step_ready:
  assumes c: "calm env ref account" and v: "validated env account" and n: "shouldRefresh env account \<noteq> Some False"
  shows "ready env (nextAccount env account)"
proof -
  have l: "lawful_conditions env" and rate: "0 \<le> refreshRate env (na_config_rate account) NimConfigRefreshRate"
    using c by (simp_all add: calm_def)
  obtain labels where lb: "nv_configmap_labels env (refKey (ref ConfigMapObj)) = Inr labels" "map_of labels ''opendatahub.io/managed'' \<noteq> None"
    using c by (auto simp: calm_def)
  let ?a = "account\<lparr>na_status := configStatus env ref account\<rparr>"
  have t: "conditionTrue env ?a NimConditionAPIKeyValidation" "conditionTrue env ?a NimConditionConfigMapUpdate"
    using v l by (simp_all add: conditionTrue_iff configStatus_def conditionIn_set configReady_def nim_condition_names validated_def)
  have "validated env ?a" using v t(1) by (simp add: validated_def keyFresh_def configStatus_def split: option.splits)
  moreover have "fst (mergeStringMaps commonBaseLabels labels) = False" using lb(2) by (auto simp: mergeStringMaps_def commonBaseLabels_def)
  then have "shouldRefresh env ?a = Some False"
    using v t lb rate by (auto simp: shouldRefresh_def configStatus_def validated_def split: option.splits)
  ultimately show ?thesis by (simp add: ready_def config_step(1) [OF assms])
qed


lemma ready_continues:
  assumes c: "calm env ref account" and r: "ready env account"
    and k: "nv_secret env (orNamespace account (na_key account)) = Inr sec" "\<not> forced sec"
  obtains run where "reconcileHandlers (nimServe env account) account =
      andThen (TemplateHandle (nimServe env account) False account run) (\<lambda>run.
        andThen (PullSecretHandle (nimServe env account) account run) (\<lambda>run. Some (accountHealthy (nimServe env account) account run)))"
    "manages sec key run" "ru_writes run = []"
proof -
  obtain run where run: "ValidationHandle (nimServe env account) False account newRun = Some (Continue, run)" "manages sec key run" "ru_writes run = []"
    using validated_continues [OF c _ k] r by (auto simp: ready_def)
  then show thesis using c r
    by (intro that [of run]) (simp_all add: reconcileHandlers_def calm_def andThen_def ConfigMapHandle_def ready_def)
qed

text \<open>The report of the last two handlers: either nothing changes or the reference and the condition are stored.\<close>

lemma report_done:
  "lawful_conditions env \<Longrightarrow> \<not> shouldUpdateReference old (Some r) \<Longrightarrow>
   holdsCondition env (na_status account) (MakeNimCondition env cond ''True'' (na_generation account) (fst good) (snd good)) \<Longrightarrow>
   reportApplied (nimServe env a) account cond good bad old store (Inr r, run) = (Continue, run)"
  by (simp add: reportApplied_def case_prod_unfold setCondition_changed)

lemma report_stores:
  assumes l: "lawful_conditions env" and w: "\<And>st. nv_write env (StatusUpdate st) = None"
    and n: "shouldUpdateReference old (Some r) \<or>
      \<not> holdsCondition env (na_status account) (MakeNimCondition env cond ''True'' (na_generation account) (fst good) (snd good))"
  obtains run' where "reportApplied (nimServe env a) account cond good bad old store (Inr r, run) = (Requeue, run')"
    "nimServed env a (ru_writes run') = (nimServed env a (ru_writes run))\<lparr>na_status := snd (setCondition env
       (MakeNimCondition env cond ''True'' (na_generation account) (fst good) (snd good))
       (if shouldUpdateReference old (Some r) then store (Some r) else na_status account))\<rparr>"
proof -
  let ?st = "snd (setCondition env (MakeNimCondition env cond ''True'' (na_generation account) (fst good) (snd good))
       (if shouldUpdateReference old (Some r) then store (Some r) else na_status account))"
  obtain run' where run': "statusThen (nimServe env a) ?st Requeue run = (Requeue, run')"
    "nimServed env a (ru_writes run') = (nimServed env a (ru_writes run))\<lparr>na_status := ?st\<rparr>"
    using statusThen_served [of env a ?st Requeue run, OF w] .
  show thesis
  proof (rule that [of run'])
    show "reportApplied (nimServe env a) account cond good bad old store (Inr r, run) = (Requeue, run')"
      using run'(1) n by (auto simp: reportApplied_def case_prod_unfold setCondition_changed [OF l] Let_def)
  qed (use run' in simp)
qed

definition templateStatus :: "nim_env \<Rightarrow> (obj_kind \<Rightarrow> obj_ref) \<Rightarrow> nim_account \<Rightarrow> nim_status" where
  "templateStatus env ref account = snd (setCondition env (templateReady env account)
     (if shouldUpdateReference (as_template (na_status account)) (Some (ref TemplateObj))
      then (na_status account)\<lparr>as_template := Some (ref TemplateObj)\<rparr> else na_status account))"

definition pullStatus :: "nim_env \<Rightarrow> (obj_kind \<Rightarrow> obj_ref) \<Rightarrow> nim_account \<Rightarrow> nim_status" where
  "pullStatus env ref account = snd (setCondition env (secretReady env account)
     (if shouldUpdateReference (as_pull (na_status account)) (Some (ref PullSecretObj))
      then (na_status account)\<lparr>as_pull := Some (ref PullSecretObj)\<rparr> else na_status account))"

lemma template_applied:
  assumes c: "calm env ref account"
  obtains cfg where "applyCfg (nimServe env account) account TemplateObj (templateCfg (nimServe env account) False account, run) =
    (Inr (ref TemplateObj), run\<lparr>ru_writes := ru_writes run @ [Apply TemplateObj cfg]\<rparr>)"
proof -
  obtain cfg where "templateCfg (nimServe env account) False account = Inr cfg" using c by (auto simp: templateCfg_def calm_def Let_def)
  then show thesis using that applyCfg_calm [OF c] by simp
qed

text \<open>The third applies the template.\<close>

lemma template_step:
  assumes c: "calm env ref account" and r: "ready env account" and n: "\<not> templated env ref account"
  shows "nextAccount env account = account\<lparr>na_status := templateStatus env ref account\<rparr>"
    and "\<exists>run. ReconcileAccount (nimServe env account) = Some (RequeueAfter 10, run)"
proof -
  obtain sec key where k: "nv_secret env (orNamespace account (na_key account)) = Inr sec" "\<not> forced sec" using calm_key [OF c] by metis
  obtain run1 where 1: "reconcileHandlers (nimServe env account) account =
      andThen (TemplateHandle (nimServe env account) False account run1) (\<lambda>run.
        andThen (PullSecretHandle (nimServe env account) account run) (\<lambda>run. Some (accountHealthy (nimServe env account) account run)))"
    "ru_writes run1 = []" using ready_continues [OF c r k] .
  obtain cfg where cfg: "applyCfg (nimServe env account) account TemplateObj (templateCfg (nimServe env account) False account, run1) =
    (Inr (ref TemplateObj), run1\<lparr>ru_writes := [] @ [Apply TemplateObj cfg]\<rparr>)" using template_applied [OF c, of run1] 1(2) by auto
  have l: "lawful_conditions env" "\<And>st. nv_write env (StatusUpdate st) = None" using c by (simp_all add: calm_def)
  obtain run2 where 2: "TemplateHandle (nimServe env account) False account run1 = (Requeue, run2)"
    "nimServed env account (ru_writes run2) = account\<lparr>na_status := templateStatus env ref account\<rparr>"
    using report_stores [OF l, of "as_template (na_status account)" "ref TemplateObj" account NimConditionTemplateUpdate
        "(''TemplateUpdated'', ''runtime template reconciled successfully'')" account "(''TemplateNotUpdated'', ''runtime template reconcile failed'')"
        "\<lambda>r. (na_status account)\<lparr>as_template := r\<rparr>" "run1\<lparr>ru_writes := [] @ [Apply TemplateObj cfg]\<rparr>"] n nimServed_simps(2) [of env account "[]"]
    by (auto simp: TemplateHandle_def cfg templateStatus_def templateReady_def templated_def)
  show "nextAccount env account = account\<lparr>na_status := templateStatus env ref account\<rparr>" "\<exists>run. ReconcileAccount (nimServe env account) = Some (RequeueAfter 10, run)"
    by (simp_all add: nextAccount_def Reconcile_calm [OF c] 1 andThen_def 2)
qed

lemma template_continues:
  assumes c: "calm env ref account" and t: "templated env ref account"
  obtains cfg where "TemplateHandle (nimServe env account) False account run = (Continue, run\<lparr>ru_writes := ru_writes run @ [Apply TemplateObj cfg]\<rparr>)"
proof -
  have l: "lawful_conditions env" using c by (simp add: calm_def)
  obtain cfg where cfg: "applyCfg (nimServe env account) account TemplateObj (templateCfg (nimServe env account) False account, run) =
    (Inr (ref TemplateObj), run\<lparr>ru_writes := ru_writes run @ [Apply TemplateObj cfg]\<rparr>)" using template_applied [OF c, of run] .
  show thesis
    by (rule that [of cfg]) (use t in \<open>simp add: TemplateHandle_def cfg report_done [OF l] templated_def templateReady_def\<close>)
qed

text \<open>The fourth applies the pull Secret, on a template that no longer changes.\<close>

lemma pull_applied:
  assumes c: "calm env ref account" and r: "ready env account" and t: "templated env ref account"
  obtains run cfg1 cfg2 where "reconcileHandlers (nimServe env account) account =
      andThen (reportApplied (nimServe env account) account NimConditionSecretUpdate (''SecretUpdated'', ''pull secret reconciled successfully'')
        (''SecretNotUpdated'', ''pull secret reconcile failed'') (as_pull (na_status account)) (\<lambda>r. (na_status account)\<lparr>as_pull := r\<rparr>)
        (Inr (ref PullSecretObj), run)) (\<lambda>run. Some (accountHealthy (nimServe env account) account run))"
    "ru_writes run = [Apply TemplateObj cfg1, Apply PullSecretObj cfg2]"
proof -
  obtain sec key where k: "nv_secret env (orNamespace account (na_key account)) = Inr sec" "\<not> forced sec" "map_of (ks_data sec) ''api_key'' = Some key"
    using calm_key [OF c] by metis
  obtain run1 where 1: "reconcileHandlers (nimServe env account) account =
      andThen (TemplateHandle (nimServe env account) False account run1) (\<lambda>run.
        andThen (PullSecretHandle (nimServe env account) account run) (\<lambda>run. Some (accountHealthy (nimServe env account) account run)))"
    "manages sec key run1" "ru_writes run1 = []" using ready_continues [OF c r k(1,2)] .
  obtain cfg1 where 2: "TemplateHandle (nimServe env account) False account run1 = (Continue, run1\<lparr>ru_writes := [Apply TemplateObj cfg1]\<rparr>)"
    using template_continues [OF c t, of run1] 1(3) by auto
  obtain run3 where 3: "GetAPIKey (nimServe env account) account (run1\<lparr>ru_writes := [Apply TemplateObj cfg1]\<rparr>) = (Inr (trim_space key), run3)"
    "ru_writes run3 = [Apply TemplateObj cfg1]"
    using GetAPIKey_good [of "nimServe env account" account sec key "run1\<lparr>ru_writes := [Apply TemplateObj cfg1]\<rparr>"] k 1(2) by auto
  obtain cfg2 where "pullSecretCfg (nimServe env account) account (run1\<lparr>ru_writes := [Apply TemplateObj cfg1]\<rparr>) = (Inr cfg2, run3)"
    by (simp add: pullSecretCfg_def 3 Let_def)
  then show thesis
    by (intro that [of "run3\<lparr>ru_writes := ru_writes run3 @ [Apply PullSecretObj cfg2]\<rparr>" cfg1 cfg2])
      (simp_all add: 1 2 3 andThen_def PullSecretHandle_def applyCfg_calm [OF c])
qed

lemma two_applies [simp]: "nimServed env account [Apply k c, Apply k' c'] = account"
  by (simp add: nimServed_def nimWritten_def)

lemma pull_step:
  assumes c: "calm env ref account" and r: "ready env account" and t: "templated env ref account" and n: "\<not> pulled env ref account"
  shows "nextAccount env account = account\<lparr>na_status := pullStatus env ref account\<rparr>"
    and "\<exists>run. ReconcileAccount (nimServe env account) = Some (RequeueAfter 10, run)"
proof -
  have l: "lawful_conditions env" "\<And>st. nv_write env (StatusUpdate st) = None" using c by (simp_all add: calm_def)
  obtain run1 cfg1 cfg2 where 1: "reconcileHandlers (nimServe env account) account =
      andThen (reportApplied (nimServe env account) account NimConditionSecretUpdate (''SecretUpdated'', ''pull secret reconciled successfully'')
        (''SecretNotUpdated'', ''pull secret reconcile failed'') (as_pull (na_status account)) (\<lambda>r. (na_status account)\<lparr>as_pull := r\<rparr>)
        (Inr (ref PullSecretObj), run1)) (\<lambda>run. Some (accountHealthy (nimServe env account) account run))"
    "ru_writes run1 = [Apply TemplateObj cfg1, Apply PullSecretObj cfg2]" using pull_applied [OF c r t] .
  obtain run2 where 2: "reportApplied (nimServe env account) account NimConditionSecretUpdate (''SecretUpdated'', ''pull secret reconciled successfully'')
        (''SecretNotUpdated'', ''pull secret reconcile failed'') (as_pull (na_status account)) (\<lambda>r. (na_status account)\<lparr>as_pull := r\<rparr>)
        (Inr (ref PullSecretObj), run1) = (Requeue, run2)"
    "nimServed env account (ru_writes run2) = account\<lparr>na_status := pullStatus env ref account\<rparr>"
    using report_stores [OF l, of "as_pull (na_status account)" "ref PullSecretObj" account NimConditionSecretUpdate
        "(''SecretUpdated'', ''pull secret reconciled successfully'')" account "(''SecretNotUpdated'', ''pull secret reconcile failed'')"
        "\<lambda>r. (na_status account)\<lparr>as_pull := r\<rparr>" run1] n
    by (auto simp: 1(2) pullStatus_def secretReady_def pulled_def)
  show "nextAccount env account = account\<lparr>na_status := pullStatus env ref account\<rparr>" "\<exists>run. ReconcileAccount (nimServe env account) = Some (RequeueAfter 10, run)"
    by (simp_all add: nextAccount_def Reconcile_calm [OF c] 1 andThen_def 2)
qed

text \<open>What a step of a later handler leaves of the earlier ones.\<close>

lemma ready_frame:
  assumes "as_validated st = as_validated (na_status account)" "as_config st = as_config (na_status account)"
    "as_refreshed st = as_refreshed (na_status account)"
    "conditionIn env st NimConditionAPIKeyValidation = conditionIn env (na_status account) NimConditionAPIKeyValidation"
    "conditionIn env st NimConditionConfigMapUpdate = conditionIn env (na_status account) NimConditionConfigMapUpdate"
  shows "ready env (account\<lparr>na_status := st\<rparr>) = ready env account"
proof -
  have t: "conditionTrue env (account\<lparr>na_status := st\<rparr>) NimConditionAPIKeyValidation = conditionTrue env account NimConditionAPIKeyValidation"
    "conditionTrue env (account\<lparr>na_status := st\<rparr>) NimConditionConfigMapUpdate = conditionTrue env account NimConditionConfigMapUpdate"
    using assms(4,5) by (simp_all add: conditionTrue_iff)
  have sel: "na_status (account\<lparr>na_status := st\<rparr>) = st" "na_validation_rate (account\<lparr>na_status := st\<rparr>) = na_validation_rate account"
    "na_config_rate (account\<lparr>na_status := st\<rparr>) = na_config_rate account" by simp_all
  show ?thesis by (unfold ready_def validated_def keyFresh_def shouldRefresh_def t sel assms(1-3)) (rule refl)
qed

lemma template_step_ready:
  assumes c: "calm env ref account" and r: "ready env account"
  shows "ready env (account\<lparr>na_status := templateStatus env ref account\<rparr>)" "templated env ref (account\<lparr>na_status := templateStatus env ref account\<rparr>)"
proof -
  have l: "lawful_conditions env" using c by (simp add: calm_def)
  show "ready env (account\<lparr>na_status := templateStatus env ref account\<rparr>)"
    by (subst ready_frame) (auto simp: templateStatus_def conditionIn_set [OF l] templateReady_def nim_condition_names r)
  show "templated env ref (account\<lparr>na_status := templateStatus env ref account\<rparr>)"
    using holdsCondition_set(1) [OF l]
    by (auto simp: templated_def templateStatus_def templateReady_def shouldUpdateReference_def split: option.splits)
qed

lemma pull_step_ready:
  assumes c: "calm env ref account" and r: "ready env account" and t: "templated env ref account"
  shows "ready env (account\<lparr>na_status := pullStatus env ref account\<rparr>)" "templated env ref (account\<lparr>na_status := pullStatus env ref account\<rparr>)"
    "pulled env ref (account\<lparr>na_status := pullStatus env ref account\<rparr>)"
proof -
  have l: "lawful_conditions env" using c by (simp add: calm_def)
  show "ready env (account\<lparr>na_status := pullStatus env ref account\<rparr>)"
    by (subst ready_frame) (auto simp: pullStatus_def conditionIn_set [OF l] secretReady_def nim_condition_names r)
  show "templated env ref (account\<lparr>na_status := pullStatus env ref account\<rparr>)"
    using t by (auto simp: templated_def pullStatus_def templateReady_def secretReady_def holdsCondition_set(2) [OF l] nim_condition_names)
  show "pulled env ref (account\<lparr>na_status := pullStatus env ref account\<rparr>)"
    using holdsCondition_set(1) [OF l]
    by (auto simp: pulled_def pullStatus_def secretReady_def shouldUpdateReference_def split: option.splits)
qed

section \<open>Healthy\<close>

lemma healthy_step:
  assumes c: "calm env ref account" and r: "ready env account" and t: "templated env ref account" and p: "pulled env ref account"
  shows "\<exists>run. ReconcileAccount (nimServe env account) = Some (Done, run) \<and>
           conditionTrue env (nimServed env account (ru_writes run)) NimConditionAccountStatus \<and>
           as_checked (na_status (nimServed env account (ru_writes run))) = Some (nv_now env)"
proof -
  have l: "lawful_conditions env" "\<And>st. nv_write env (StatusUpdate st) = None" using c by (simp_all add: calm_def)
  let ?st = "snd (setCondition env (MakeNimCondition env NimConditionAccountStatus ''True'' (na_generation account) ''AccountSuccessful''
    ''the account is healthy'') ((na_status account)\<lparr>as_checked := Some (nv_now env)\<rparr>))"
  obtain run1 cfg1 cfg2 where 1: "reconcileHandlers (nimServe env account) account =
      andThen (reportApplied (nimServe env account) account NimConditionSecretUpdate (''SecretUpdated'', ''pull secret reconciled successfully'')
        (''SecretNotUpdated'', ''pull secret reconcile failed'') (as_pull (na_status account)) (\<lambda>r. (na_status account)\<lparr>as_pull := r\<rparr>)
        (Inr (ref PullSecretObj), run1)) (\<lambda>run. Some (accountHealthy (nimServe env account) account run))"
    "ru_writes run1 = [Apply TemplateObj cfg1, Apply PullSecretObj cfg2]" using pull_applied [OF c r t] .
  have "ReconcileAccount (nimServe env account) = Some (accountHealthy (nimServe env account) account run1)"
    using p by (simp add: Reconcile_calm [OF c] 1 report_done [OF l(1)] andThen_def pulled_def secretReady_def)
  moreover obtain run2 where 2: "statusThen (nimServe env account) ?st Continue run1 = (Continue, run2)"
    "nimServed env account (ru_writes run2) = account\<lparr>na_status := ?st\<rparr>"
    using statusThen_served [of env account ?st Continue run1, OF l(2)] by (auto simp: 1(2))
  then have "accountHealthy (nimServe env account) account run1 = (Done, run2)"
    by (auto simp: accountHealthy_def statusThen_def split: prod.splits if_splits)
  ultimately show ?thesis using 2(2) by (simp add: conditionTrue_iff conditionIn_set [OF l(1)])
qed

section \<open>The clock\<close>

text \<open>Only the ages of the validation and of the ConfigMap depend on the time.\<close>

lemma at_fields:
  "nv_now (env\<lparr>nv_now := t\<rparr>) = t" "nv_http (env\<lparr>nv_now := t\<rparr>) = nv_http env" "nv_configmap (env\<lparr>nv_now := t\<rparr>) = nv_configmap env"
  "nv_configmap_labels (env\<lparr>nv_now := t\<rparr>) = nv_configmap_labels env" "nv_json_list (env\<lparr>nv_now := t\<rparr>) = nv_json_list env"
  "nv_set_condition (env\<lparr>nv_now := t\<rparr>) = nv_set_condition env" "nv_find_condition (env\<lparr>nv_now := t\<rparr>) = nv_find_condition env"
  "nv_air_gapped (env\<lparr>nv_now := t\<rparr>) = nv_air_gapped env"
  by simp_all

lemma at_refreshRate [simp]: "refreshRate (env\<lparr>nv_now := t\<rparr>) = refreshRate env"
  by (intro ext) (simp add: refreshRate_def)

lemma at_models [simp]: "getSelectedModelList (env\<lparr>nv_now := t\<rparr>) = getSelectedModelList env"
  by (intro ext) (unfold getSelectedModelList_def at_fields, rule refl)

lemma at_reads [simp]:
  "conditionTrue (env\<lparr>nv_now := t\<rparr>) = conditionTrue env" "conditionIn (env\<lparr>nv_now := t\<rparr>) = conditionIn env"
  "getRuntimes (env\<lparr>nv_now := t\<rparr>) = getRuntimes env" "IsNimAirGapped (env\<lparr>nv_now := t\<rparr>) = IsNimAirGapped env"
  "lawful_conditions (env\<lparr>nv_now := t\<rparr>) = lawful_conditions env"
  by (unfold fun_eq_iff conditionTrue_def conditionIn_def getRuntimes_def IsNimAirGapped_def lawful_conditions_def at_fields at_models) simp_all

lemma at_calm [simp]: "calm (env\<lparr>nv_now := t\<rparr>) ref account = calm env ref account"
  by (simp add: calm_def)

lemma at_done [simp]:
  "templated (env\<lparr>nv_now := t\<rparr>) ref account = templated env ref account" "pulled (env\<lparr>nv_now := t\<rparr>) ref account = pulled env ref account"
  by (simp_all add: templated_def pulled_def holdsCondition_def templateReady_def secretReady_def MakeNimCondition_def sameCondition_def cong: option.case_cong)

text \<open>The validation and the ConfigMap stay fresh until the time \<open>T\<close>.\<close>

definition validUntil :: "nim_env \<Rightarrow> int \<Rightarrow> nim_account \<Rightarrow> bool" where
  "validUntil env T account =
     (conditionTrue env account NimConditionAPIKeyValidation \<and>
      (\<exists>t. as_validated (na_status account) = Some t \<and> t \<le> nv_now env \<and>
         T - t \<le> refreshRate env (na_validation_rate account) NimValidationRefreshRate))"

definition configUntil :: "nim_env \<Rightarrow> int \<Rightarrow> nim_account \<Rightarrow> bool" where
  "configUntil env T account = (shouldRefresh (env\<lparr>nv_now := T\<rparr>) account = Some False)"

lemma validUntil_validated: "validUntil env T account \<Longrightarrow> nv_now env \<le> T \<Longrightarrow> validated env account"
  by (auto simp: validUntil_def validated_def keyFresh_def)

lemma validUntil_later: "validUntil env T account \<Longrightarrow> nv_now env \<le> t \<Longrightarrow> validUntil (env\<lparr>nv_now := t\<rparr>) T account"
  by (auto simp: validUntil_def)

lemma configUntil_ready:
  assumes "validUntil env T account" "configUntil env T account" "nv_now env \<le> T"
  shows "ready env account"
  using assms validUntil_validated [OF assms(1,3)]
  by (auto simp: ready_def configUntil_def validUntil_def shouldRefresh_def split: option.splits sum.splits bool.splits if_splits)

lemma validUntil_status:
  assumes "as_validated st = as_validated (na_status account)"
    "conditionIn env st NimConditionAPIKeyValidation = conditionIn env (na_status account) NimConditionAPIKeyValidation"
  shows "validUntil env T (account\<lparr>na_status := st\<rparr>) = validUntil env T account"
  using assms by (simp add: validUntil_def conditionTrue_iff)

lemma configUntil_status:
  assumes "as_validated st = as_validated (na_status account)" "as_config st = as_config (na_status account)"
    "as_refreshed st = as_refreshed (na_status account)"
    "conditionIn env st NimConditionAPIKeyValidation = conditionIn env (na_status account) NimConditionAPIKeyValidation"
    "conditionIn env st NimConditionConfigMapUpdate = conditionIn env (na_status account) NimConditionConfigMapUpdate"
  shows "configUntil env T (account\<lparr>na_status := st\<rparr>) = configUntil env T account"
proof -
  have t: "conditionTrue (env\<lparr>nv_now := T\<rparr>) (account\<lparr>na_status := st\<rparr>) NimConditionAPIKeyValidation =
      conditionTrue (env\<lparr>nv_now := T\<rparr>) account NimConditionAPIKeyValidation"
    "conditionTrue (env\<lparr>nv_now := T\<rparr>) (account\<lparr>na_status := st\<rparr>) NimConditionConfigMapUpdate =
      conditionTrue (env\<lparr>nv_now := T\<rparr>) account NimConditionConfigMapUpdate"
    using assms(4,5) by (simp_all add: conditionTrue_iff)
  have sel: "na_status (account\<lparr>na_status := st\<rparr>) = st" "na_config_rate (account\<lparr>na_status := st\<rparr>) = na_config_rate account" by simp_all
  show ?thesis by (unfold configUntil_def shouldRefresh_def t sel assms(1-3)) (rule refl)
qed

text \<open>What is left to do: the ConfigMap, the template and the pull Secret.\<close>

definition outstanding :: "nim_env \<Rightarrow> (obj_kind \<Rightarrow> obj_ref) \<Rightarrow> int \<Rightarrow> nim_account \<Rightarrow> nat" where
  "outstanding env ref T account =
     of_bool (\<not> configUntil env T account) + of_bool (\<not> templated env ref account) + of_bool (\<not> pulled env ref account)"

lemma at_outstanding [simp]: "outstanding (env\<lparr>nv_now := t\<rparr>) ref T account = outstanding env ref T account"
  by (simp add: outstanding_def configUntil_def)

lemma config_left:
  assumes c: "calm env ref account" and v: "validUntil env T account" "nv_now env \<le> T" "T - nv_now env \<le> refreshRate env (na_config_rate account) NimConfigRefreshRate"
    and n: "shouldRefresh env account \<noteq> Some False"
  shows "validUntil env T (nextAccount env account)" "outstanding env ref T (nextAccount env account) < outstanding env ref T account"
proof -
  have l: "lawful_conditions env" using c by (simp add: calm_def)
  note next_account = config_step(1) [OF c validUntil_validated [OF v(1,2)] n]
  let ?a = "account\<lparr>na_status := configStatus env ref account\<rparr>"
  have cond: "conditionIn env (configStatus env ref account) t = (if t = NimConditionConfigMapUpdate then Some ''True'' else conditionIn env (na_status account) t)" for t
    by (simp add: configStatus_def conditionIn_set [OF l] configReady_def)
  have same: "as_validated (configStatus env ref account) = as_validated (na_status account)" by (simp add: configStatus_def)
  then show "validUntil env T (nextAccount env account)"
    using v(1) by (simp add: next_account validUntil_status cond nim_condition_names)
  obtain labels where lb: "nv_configmap_labels env (refKey (ref ConfigMapObj)) = Inr labels" "map_of labels ''opendatahub.io/managed'' \<noteq> None"
    using c by (auto simp: calm_def)
  have "fst (mergeStringMaps commonBaseLabels labels) = False" using lb(2) by (auto simp: mergeStringMaps_def commonBaseLabels_def)
  moreover have st: "as_config (configStatus env ref account) = Some (ref ConfigMapObj)" "as_refreshed (configStatus env ref account) = Some (nv_now env)"
    by (simp_all add: configStatus_def)
  moreover have "conditionTrue env ?a NimConditionAPIKeyValidation" "conditionTrue env ?a NimConditionConfigMapUpdate"
    using v(1) by (simp_all add: conditionTrue_iff cond validUntil_def nim_condition_names)
  moreover obtain t where "as_validated (na_status account) = Some t" "t \<le> nv_now env" using v(1) by (auto simp: validUntil_def)
  ultimately have "configUntil env T ?a" using v(3) lb(1) by (simp add: configUntil_def shouldRefresh_def same)
  moreover have "\<not> configUntil env T account" using n configUntil_ready [OF v(1) _ v(2)] by (auto simp: ready_def)
  moreover have "templated env ref ?a = templated env ref account" "pulled env ref ?a = pulled env ref account"
    by (simp_all add: templated_def pulled_def configStatus_def configReady_def templateReady_def secretReady_def holdsCondition_set(2) [OF l] nim_condition_names)
  ultimately show "outstanding env ref T (nextAccount env account) < outstanding env ref T account" by (simp add: next_account outstanding_def)
qed

lemma template_left:
  assumes c: "calm env ref account" and v: "validUntil env T account" "ready env account" and n: "\<not> templated env ref account"
  shows "validUntil env T (nextAccount env account)" "outstanding env ref T (nextAccount env account) < outstanding env ref T account"
proof -
  have l: "lawful_conditions env" using c by (simp add: calm_def)
  note next_account = template_step(1) [OF c v(2) n]
  let ?st = "templateStatus env ref account"
  have st: "as_validated ?st = as_validated (na_status account)" "as_config ?st = as_config (na_status account)" "as_refreshed ?st = as_refreshed (na_status account)"
    "t \<noteq> NimConditionTemplateUpdate \<Longrightarrow> conditionIn env ?st t = conditionIn env (na_status account) t" for t
    by (simp_all add: templateStatus_def conditionIn_set [OF l] templateReady_def)
  show "validUntil env T (nextAccount env account)" using v(1) by (simp add: next_account validUntil_status st nim_condition_names)
  have "configUntil env T (account\<lparr>na_status := ?st\<rparr>) = configUntil env T account" by (rule configUntil_status) (simp_all add: st nim_condition_names)
  moreover have "pulled env ref (account\<lparr>na_status := ?st\<rparr>) = pulled env ref account"
    by (simp add: pulled_def templateStatus_def templateReady_def secretReady_def holdsCondition_set(2) [OF l] nim_condition_names)
  ultimately show "outstanding env ref T (nextAccount env account) < outstanding env ref T account"
    using n template_step_ready(2) [OF c v(2)] by (simp add: next_account outstanding_def)
qed

lemma pull_left:
  assumes c: "calm env ref account" and v: "validUntil env T account" "ready env account" "templated env ref account" and n: "\<not> pulled env ref account"
  shows "validUntil env T (nextAccount env account)" "outstanding env ref T (nextAccount env account) < outstanding env ref T account"
proof -
  have l: "lawful_conditions env" using c by (simp add: calm_def)
  note next_account = pull_step(1) [OF c v(2,3) n]
  let ?st = "pullStatus env ref account"
  have st: "as_validated ?st = as_validated (na_status account)" "as_config ?st = as_config (na_status account)" "as_refreshed ?st = as_refreshed (na_status account)"
    "t \<noteq> NimConditionSecretUpdate \<Longrightarrow> conditionIn env ?st t = conditionIn env (na_status account) t" for t
    by (simp_all add: pullStatus_def conditionIn_set [OF l] secretReady_def)
  show "validUntil env T (nextAccount env account)" using v(1) by (simp add: next_account validUntil_status st nim_condition_names)
  have "configUntil env T (account\<lparr>na_status := ?st\<rparr>) = configUntil env T account" by (rule configUntil_status) (simp_all add: st nim_condition_names)
  then show "outstanding env ref T (nextAccount env account) < outstanding env ref T account"
    using n v(3) pull_step_ready(2,3) [OF c v(2,3)] by (simp add: next_account outstanding_def)
qed

section \<open>The runs of an account\<close>

text \<open>The account after \<open>n\<close> reconciles, the first of them at \<open>clock 0\<close>.\<close>

fun accountAfter :: "nim_env \<Rightarrow> (nat \<Rightarrow> int) \<Rightarrow> nat \<Rightarrow> nim_account \<Rightarrow> nim_account" where
  "accountAfter env clock 0 account = account"
| "accountAfter env clock (Suc n) account = accountAfter env (\<lambda>i. clock (Suc i)) n (nextAccount (env\<lparr>nv_now := clock 0\<rparr>) account)"

definition asksAgain :: "nim_env \<Rightarrow> nim_account \<Rightarrow> bool" where
  "asksAgain env account = (\<exists>run. ReconcileAccount (nimServe env account) = Some (RequeueAfter 10, run))"

definition reportsHealthy :: "nim_env \<Rightarrow> nim_account \<Rightarrow> bool" where
  "reportsHealthy env account = (\<exists>run. ReconcileAccount (nimServe env account) = Some (Done, run) \<and>
     conditionTrue env (nimServed env account (ru_writes run)) NimConditionAccountStatus \<and>
     as_checked (na_status (nimServed env account (ru_writes run))) = Some (nv_now env))"

definition healthyWithin :: "nim_env \<Rightarrow> (nat \<Rightarrow> int) \<Rightarrow> nat \<Rightarrow> nim_account \<Rightarrow> bool" where
  "healthyWithin env clock m account = (\<exists>n \<le> m.
     (\<forall>i < n. asksAgain (env\<lparr>nv_now := clock i\<rparr>) (accountAfter env clock i account)) \<and>
     reportsHealthy (env\<lparr>nv_now := clock n\<rparr>) (accountAfter env clock n account))"

lemma healthyWithin_mono: "healthyWithin env clock m account \<Longrightarrow> m \<le> m' \<Longrightarrow> healthyWithin env clock m' account"
  unfolding healthyWithin_def using le_trans by blast

lemma healthyWithin_next:
  assumes "asksAgain (env\<lparr>nv_now := clock 0\<rparr>) account" "healthyWithin env (\<lambda>i. clock (Suc i)) m (nextAccount (env\<lparr>nv_now := clock 0\<rparr>) account)"
  shows "healthyWithin env clock (Suc m) account"
proof -
  obtain n where n: "n \<le> m" "reportsHealthy (env\<lparr>nv_now := clock (Suc n)\<rparr>) (accountAfter env clock (Suc n) account)"
    "\<forall>i < n. asksAgain (env\<lparr>nv_now := clock (Suc i)\<rparr>) (accountAfter env clock (Suc i) account)"
    using assms(2) by (auto simp: healthyWithin_def)
  have "asksAgain (env\<lparr>nv_now := clock i\<rparr>) (accountAfter env clock i account)" if "i < Suc n" for i
    using that assms(1) n(3) by (cases i) simp_all
  with n(1,2) show ?thesis unfolding healthyWithin_def by (intro exI [of _ "Suc n"]) simp
qed

lemma valid_progress:
  assumes c: "calm env ref account" and v: "validUntil env T account" "nv_now env \<le> T" "T - nv_now env \<le> refreshRate env (na_config_rate account) NimConfigRefreshRate"
  shows "reportsHealthy env account \<or> asksAgain env account \<and> calm env ref (nextAccount env account) \<and> validUntil env T (nextAccount env account) \<and>
    na_config_rate (nextAccount env account) = na_config_rate account \<and> outstanding env ref T (nextAccount env account) < outstanding env ref T account"
proof -
  have d: "validated env account" using v(1,2) by (rule validUntil_validated)
  consider (config) "shouldRefresh env account \<noteq> Some False" | (template) "ready env account" "\<not> templated env ref account"
    | (pull) "ready env account" "templated env ref account" "\<not> pulled env ref account" | (all_done) "ready env account" "templated env ref account" "pulled env ref account"
    using d by (auto simp: ready_def)
  then show ?thesis
  proof cases
    case config
    from config_step [OF c d config] config_left [OF c v config] c show ?thesis by (simp add: asksAgain_def)
  next
    case template
    from template_step [OF c template] template_left [OF c v(1) template] c show ?thesis by (simp add: asksAgain_def)
  next
    case pull
    from pull_step [OF c pull] pull_left [OF c v(1) pull] c show ?thesis by (simp add: asksAgain_def)
  next
    case all_done
    from healthy_step [OF c all_done] show ?thesis by (auto simp: reportsHealthy_def)
  qed
qed

lemma valid_healthy:
  assumes "calm env ref account" "mono clock" "validUntil (env\<lparr>nv_now := clock 0\<rparr>) T account" "clock m \<le> T"
    "T - clock 0 \<le> refreshRate env (na_config_rate account) NimConfigRefreshRate" "outstanding env ref T account \<le> m"
  shows "healthyWithin env clock m account"
  using assms
proof (induction m arbitrary: clock account)
  case 0
  have "clock 0 \<le> T" using 0(4) by simp
  with 0 valid_progress [of "env\<lparr>nv_now := clock 0\<rparr>" ref account T] show ?case by (auto simp: healthyWithin_def)
next
  case (Suc m)
  let ?env = "env\<lparr>nv_now := clock 0\<rparr>"
  have T: "clock 0 \<le> T" "clock 0 \<le> clock (Suc 0)" using Suc.prems(2,4) monoD [of clock 0 "Suc m"] monoD [of clock 0 "Suc 0"] by simp_all
  show ?case
  proof (cases "reportsHealthy ?env account")
    case True
    then show ?thesis unfolding healthyWithin_def by (intro exI [of _ 0]) simp
  next
    case False
    let ?next = "nextAccount ?env account"
    have n: "asksAgain ?env account" "calm env ref ?next" "validUntil ?env T ?next" "na_config_rate ?next = na_config_rate account" "outstanding env ref T ?next \<le> m"
      using False valid_progress [of ?env ref account T] Suc.prems T by simp_all
    have "mono (\<lambda>i. clock (Suc i))" using Suc.prems(2) by (simp add: mono_def)
    moreover have "validUntil (env\<lparr>nv_now := clock (Suc 0)\<rparr>) T ?next" using validUntil_later [OF n(3), of "clock (Suc 0)"] T by simp
    ultimately have "healthyWithin env (\<lambda>i. clock (Suc i)) m ?next"
      using Suc.IH [of ?next "\<lambda>i. clock (Suc i)"] n T Suc.prems by simp
    with n(1) show ?thesis by (rule healthyWithin_next)
  qed
qed

lemma outstanding_le: "outstanding env ref T account \<le> 3"
  by (simp add: outstanding_def)

text \<open>A key that is not valid yet is validated first.\<close>

lemma calm_healthy:
  assumes c: "calm env ref account" and clock: "mono clock" "clock 4 \<le> T"
    and rates: "T - clock 0 \<le> refreshRate env (na_validation_rate account) NimValidationRefreshRate"
      "T - clock 0 \<le> refreshRate env (na_config_rate account) NimConfigRefreshRate"
    and key: "conditionTrue env account NimConditionAPIKeyValidation \<Longrightarrow> validUntil (env\<lparr>nv_now := clock 0\<rparr>) T account"
  shows "healthyWithin env clock 4 account"
proof (cases "conditionTrue env account NimConditionAPIKeyValidation")
  case True
  have "clock 3 \<le> T" using clock monoD [of clock 3 4] by simp
  with valid_healthy [OF c clock(1) key [OF True], of 3] rates show ?thesis
    using outstanding_le by (auto intro: healthyWithin_mono)
next
  case False
  let ?env = "env\<lparr>nv_now := clock 0\<rparr>" and ?next = "nextAccount (env\<lparr>nv_now := clock 0\<rparr>) account"
  have c': "calm ?env ref account" "\<not> conditionTrue ?env account NimConditionAPIKeyValidation" using c False by simp_all
  have l: "lawful_conditions ?env" using c by (simp add: calm_def)
  have "validUntil ?env T ?next"
    using rates(1) by (simp add: key_step(2) [OF c'] validUntil_def conditionTrue_iff conditionIn_set [OF l, simplified] validCondition_def)
  then have v: "validUntil (env\<lparr>nv_now := clock (Suc 0)\<rparr>) T ?next" using validUntil_later [of ?env T ?next] monoD [OF clock(1), of 0 "Suc 0"] by simp
  have "mono (\<lambda>i. clock (Suc i))" using clock(1) by (simp add: mono_def)
  moreover have "T - clock (Suc 0) \<le> refreshRate env (na_config_rate ?next) NimConfigRefreshRate"
    using rates(2) monoD [OF clock(1), of 0 "Suc 0"] by (simp add: key_step(2) [OF c'])
  moreover have "calm env ref ?next" using key_step_validated(2) [OF c'] by simp
  ultimately have "healthyWithin env (\<lambda>i. clock (Suc i)) 3 ?next"
    using valid_healthy [of env ref ?next "\<lambda>i. clock (Suc i)" T 3] v clock(2) outstanding_le by (simp add: eval_nat_numeral)
  moreover have "asksAgain ?env account" using key_step(1) [OF c'] by (simp add: asksAgain_def)
  ultimately show ?thesis using healthyWithin_next [where env = env and clock = clock and account = account and m = 3] by simp
qed

definition withFinalizer :: "nim_account \<Rightarrow> nim_account" where
  "withFinalizer account =
     (if NimCleanupFinalizer \<in> set (om_finalizers (na_meta account)) then account
      else account\<lparr>na_meta := (na_meta account)\<lparr>om_finalizers := om_finalizers (na_meta account) @ [NimCleanupFinalizer]\<rparr>\<rparr>)"

lemma finalizer_step:
  assumes "calm env ref (withFinalizer account)" "NimCleanupFinalizer \<notin> set (om_finalizers (na_meta account))"
  shows "asksAgain env account" "nextAccount env account = withFinalizer account"
  using assms
  by (simp_all add: asksAgain_def nextAccount_def ReconcileAccount_def calm_def withFinalizer_def ask_def ignoreNotFound_def nimServed_def nimWritten_def)

text \<open>
  Property C15. An account becomes healthy in a cluster where every call is answered well (\<open>calm\<close>): it is not air-gapped, the account is not being deleted, NGC
  accepts its key, the Secret does not force a validation, and applies and writes succeed. The reconciles run at increasing times \<open>clock\<close>. If the first six fit into
  both refresh rates, and a key condition that is true at the start comes from a validation that is not too old for them, then one of the six reports the account healthy, with its
  own time as the time of the check, and all before it ask for another reconcile: one for the finalizer, the key, the ConfigMap, the
  template and the pull Secret each, at most. With an older validation the account stays as it is (\<open>revalidation_never_ends\<close>).
\<close>

theorem account_becomes_healthy:
  assumes "calm env ref (withFinalizer account)" and "mono clock"
    and "clock 5 - clock 0 \<le> refreshRate env (na_validation_rate account) NimValidationRefreshRate"
    and "clock 5 - clock 0 \<le> refreshRate env (na_config_rate account) NimConfigRefreshRate"
    and "conditionTrue env account NimConditionAPIKeyValidation \<Longrightarrow>
      \<exists>t. as_validated (na_status account) = Some t \<and> t \<le> clock 0 \<and>
        clock 5 - t \<le> refreshRate env (na_validation_rate account) NimValidationRefreshRate"
  shows "\<exists>n \<le> 5. (\<forall>i < n. asksAgain (env\<lparr>nv_now := clock i\<rparr>) (accountAfter env clock i account)) \<and>
           reportsHealthy (env\<lparr>nv_now := clock n\<rparr>) (accountAfter env clock n account)"
proof -
  have "healthyWithin env clock 5 account"
  proof (cases "NimCleanupFinalizer \<in> set (om_finalizers (na_meta account))")
    case True
    have "clock 4 \<le> clock 5" using monoD [OF assms(2), of 4 5] by simp
    with True assms have "healthyWithin env clock 4 account"
      by (intro calm_healthy [where T = "clock 5"]) (auto simp: withFinalizer_def validUntil_def)
    then show ?thesis by (rule healthyWithin_mono) simp
  next
    case False
    let ?next = "withFinalizer account"
    have sel: "na_status ?next = na_status account" "na_validation_rate ?next = na_validation_rate account" "na_config_rate ?next = na_config_rate account"
      by (simp_all add: withFinalizer_def)
    have key: "conditionTrue env ?next NimConditionAPIKeyValidation = conditionTrue env account NimConditionAPIKeyValidation"
      by (simp add: conditionTrue_def sel)
    have "clock 0 \<le> clock 1" "mono (\<lambda>i. clock (Suc i))" using assms(2) by (simp_all add: mono_def)
    with assms have "healthyWithin env (\<lambda>i. clock (Suc i)) 4 ?next"
      by (intro calm_healthy [where T = "clock 5"]) (fastforce simp: sel key validUntil_def)+
    moreover note finalizer_step [of "env\<lparr>nv_now := clock 0\<rparr>" ref account, OF _ False]
    ultimately show ?thesis using assms(1) healthyWithin_next [where env = env and clock = clock and account = account and m = 4] by simp
  qed
  then show ?thesis unfolding healthyWithin_def .
qed

lemma calm_cluster: "calm (nim_cluster 200 a) demo_ref new_account"
proof -
  have "\<not> forced ngc_secret" by (simp add: forced_def ngc_secret_def empty_meta_def)
  then show ?thesis using ngc_catalog [of 200 a new_account]
    by (simp add: calm_def lawful_cluster ngc_key ngc_validates ngc_models commonBaseLabels_def refreshRate_def NimValidationRefreshRate_def
        NimConfigRefreshRate_def)
qed

text \<open>A new account, reconciled every ten seconds; times are in nanoseconds.\<close>

theorem account_becomes_healthy_witness:
  "\<exists>n \<le> 5. reportsHealthy ((nim_cluster 200 new_account)\<lparr>nv_now := 10000000000 * int n\<rparr>)
     (accountAfter (nim_cluster 200 new_account) (\<lambda>i. 10000000000 * int i) n new_account)"
proof -
  let ?env = "nim_cluster 200 new_account" and ?clock = "\<lambda>i. 10000000000 * int i"
  have c: "calm ?env demo_ref (withFinalizer new_account)" using calm_cluster by (simp add: withFinalizer_def calm_def)
  have "\<not> conditionTrue ?env new_account NimConditionAPIKeyValidation"
    by (simp add: conditionTrue_def new_account_def look_condition_def)
  then show ?thesis
    using account_becomes_healthy [OF c, of ?clock]
    by (auto simp: mono_def refreshRate_def NimValidationRefreshRate_def NimConfigRefreshRate_def)
qed


section \<open>Loops that do not settle\<close>

text \<open>
  The validation time is written only when the condition changes. An account whose key condition is true already, but whose validation is older
  than the refresh rate, is validated at every reconcile, asks for another one in ten seconds, and stays as it is: the handlers after the validation never run again.
\<close>

theorem revalidation_never_ends:
  assumes c: "calm env ref account" and h: "holdsCondition env (na_status account) (validCondition env account ''api key validated successfully'')"
    and old: "\<not> keyFresh env account"
  shows "nextAccount env account = account \<and> (\<exists>run. ReconcileAccount (nimServe env account) = Some (RequeueAfter 10, run))"
proof -
  let ?c = "validCondition env account ''api key validated successfully''"
  obtain sec key runtimes data where k: "nv_secret env (orNamespace account (na_key account)) = Inr sec" "map_of (ks_data sec) ''api_key'' = Some key"
    "\<not> forced sec" "getRuntimes env account = Some (Inr runtimes)" "ValidateApiKey (nv_http env) (trim_space key) runtimes = None"
    using calm_key [OF c] by metis
  have l: "lawful_conditions env" using c by (simp add: calm_def)
  have due: "validationDue env account sec" using old by (simp add: validationDue_def)
  obtain run1 where v: "ValidationHandle (nimServe env account) False account newRun = Some (Requeue, run1)" "ru_writes run1 = []"
    using ValidationHandle_due [of "nimServe env account" account sec key newRun runtimes] k due h setCondition_changed [OF l, of ?c]
    by (auto simp: forceWrites_def case_prod_unfold)
  then have "ReconcileAccount (nimServe env account) = Some (RequeueAfter 10, run1)"
    using c by (simp add: Reconcile_calm [OF c] reconcileHandlers_def andThen_def calm_def)
  then show ?thesis using v(2) by (simp add: nextAccount_def)
qed

text \<open>
  A healthy account is written at every reconcile, with the time of the check; the controller watches its accounts without a predicate, so its own write brings
  the next reconcile.
\<close>

theorem healthy_account_never_settles:
  assumes "calm env ref account" "ready env account" "templated env ref account" "pulled env ref account"
    and "as_checked (na_status account) \<noteq> Some (nv_now env)"
  shows "nextAccount env account \<noteq> account"
proof -
  have "as_checked (na_status (nextAccount env account)) = Some (nv_now env)"
    using healthy_step [OF assms(1-4)] by (auto simp: nextAccount_def)
  with assms(5) show ?thesis by auto
qed

text \<open>The ServingRuntime is added to a template that has it already, when the template's condition is not true.\<close>

theorem template_object_doubled:
  assumes "nv_runtime_object env (GetNimServingRuntimeTemplate gapped) = Inr obj" "as_template (na_status account) = Some ref"
    "nv_applied env TemplateObj (refKey ref) = Inr template" "ad_extracted template = Some cfg" "ac_objects cfg = [obj]"
    "\<not> conditionTrue env account NimConditionTemplateUpdate"
  shows "\<exists>cfg'. templateCfg env gapped account = Inr cfg' \<and> ac_objects cfg' = [obj, obj]"
  using assms by (simp add: templateCfg_def Let_def)

text \<open>The merge keeps what the object has: a base label with another value is not put back.\<close>

theorem merge_never_overwrites:
  assumes "map_of existing k = Some v"
  shows "map_of (snd (mergeStringMaps base existing)) k = Some v"
proof -
  have "map_of (snd (fold (\<lambda>(k, v) (changed, merged). if map_of existing k = None then (True, m_put k v merged) else (changed, merged)) base (b, merged))) k = Some v"
    if "map_of merged k = Some v" for b merged
    using that
  proof (induction base arbitrary: b merged)
    case (Cons p base)
    obtain a w where p: "p = (a, w)" by force
    show ?case using Cons.IH [of "m_put a w merged" True] Cons.IH [of merged b] Cons.prems assms by (cases "k = a") (auto simp: p)
  qed simp
  then show ?thesis using assms by (simp add: mergeStringMaps_def)
qed

text \<open>The template mounts one volume that it leaves to others to declare.\<close>

theorem template_mounts_shm_only_undeclared:
  "set (map fst (nt_mounts (GetNimServingRuntimeTemplate gapped))) -
     (set (map fst (nt_claims (GetNimServingRuntimeTemplate gapped))) \<union> set (nt_empty_dirs (GetNimServingRuntimeTemplate gapped))) = {''shm''}"
  by (simp add: GetNimServingRuntimeTemplate_def nimVolumeMounts_def nimEmptyDirs_def insert_Diff_if)

end
