(* ===== verification/Informer_Source.thy ===== *)
theory Informer_Source
  imports Gateway_Refs "HOL-Library.Multiset"
begin

text \<open>
  The dynamic ConfigMap source of the NIM controller (internal/informercache/configmap_source.go). Owners register references while informers are
  built outside the lock, so calls interleave. Every section that holds the lock is one function on the state, and a call is a thread that goes
  through them; the step relation runs one section of any thread. An informer is an instance with a number: the table holds at most one per
  reference, a cancelled instance does not run. Names are only compared, so their type is open.
\<close>

section \<open>State\<close>

record 'n ref_source =
  ss_started :: bool
  ss_references :: "('n \<times> 'n) list"
  ss_informers :: "('n \<times> nat) list"
  ss_next :: nat
  ss_cancelled :: "nat list"
  ss_running :: "('n \<times> nat) list"
  ss_failed :: bool  \<comment> \<open>some call has returned an error\<close>

definition NewConfigMapReferenceSource :: "'n ref_source" where
  "NewConfigMapReferenceSource = \<lparr>ss_started = False, ss_references = [], ss_informers = [], ss_next = 0, ss_cancelled = [], ss_running = [], ss_failed = False\<rparr>"

text \<open>Where a call stands: at the loop with the references left, building an informer, or about to run one; the flag says whether the call ends with
  \<open>stopUnreferenced\<close>.\<close>

datatype 'n src_thread =
    Loop "'n list" bool
  | Building 'n "'n list" bool
  | Launching 'n nat "'n list" bool

section \<open>Sections under the lock\<close>

definition currentReferencesLocked :: "'n ref_source \<Rightarrow> 'n list" where
  "currentReferencesLocked s = remdups (map snd (ss_references s))"

definition isReferencedLocked :: "'n ref_source \<Rightarrow> 'n \<Rightarrow> bool" where
  "isReferencedLocked s ref = list_ex (\<lambda>(_, r). r = ref) (ss_references s)"

definition SetReferenceLocked :: "'n \<Rightarrow> 'n option \<Rightarrow> 'n ref_source \<Rightarrow> 'n ref_source" where
  "SetReferenceLocked owner ref s =
     s\<lparr>ss_references := (case ref of None \<Rightarrow> AList.delete owner (ss_references s) | Some r \<Rightarrow> AList.update owner r (ss_references s))\<rparr>"

definition needsInformer :: "'n ref_source \<Rightarrow> 'n \<Rightarrow> bool" where
  "needsInformer s ref = (map_of (ss_informers s) ref = None \<and> ss_started s)"

text \<open>The second section of \<open>startReference\<close>: the new instance is cancelled or entered in the table.\<close>

definition commitInformer :: "'n \<Rightarrow> 'n ref_source \<Rightarrow> nat option \<times> 'n ref_source" where
  "commitInformer ref s =
     (let i = ss_next s; s = s\<lparr>ss_next := Suc i\<rparr>
      in if map_of (ss_informers s) ref \<noteq> None \<or> \<not> isReferencedLocked s ref then (None, s\<lparr>ss_cancelled := i # ss_cancelled s\<rparr>)
         else (Some i, s\<lparr>ss_informers := (ref, i) # ss_informers s\<rparr>))"

definition stopUnreferenced :: "'n ref_source \<Rightarrow> 'n ref_source" where
  "stopUnreferenced s =
     s\<lparr>ss_cancelled := map snd (filter (\<lambda>(r, _). \<not> isReferencedLocked s r) (ss_informers s)) @ ss_cancelled s,
       ss_informers := filter (\<lambda>(r, _). isReferencedLocked s r) (ss_informers s)\<rparr>"

definition uniqueReferences :: "namespaced_name list \<Rightarrow> namespaced_name list" where
  "uniqueReferences refs = rev (fold (\<lambda>r seen. if snd r = [] \<or> r \<in> set seen then seen else r # seen) refs [])"

section \<open>Steps\<close>

type_synonym 'n src_state = "'n ref_source \<times> 'n src_thread multiset"

text \<open>One section of a call in progress. Building may fail, which ends the call.\<close>

inductive src_step :: "'n src_state \<Rightarrow> 'n src_state \<Rightarrow> bool" where
  skip: "\<not> needsInformer s r \<Longrightarrow> src_step (s, add_mset (Loop (r # rs) b) M) (s, add_mset (Loop rs b) M)"
| build: "needsInformer s r \<Longrightarrow> src_step (s, add_mset (Loop (r # rs) b) M) (s, add_mset (Building r rs b) M)"
| build_fails: "src_step (s, add_mset (Building r rs b) M) (s\<lparr>ss_failed := True\<rparr>, M)"
| commit: "commitInformer r s = (Some i, s') \<Longrightarrow> src_step (s, add_mset (Building r rs b) M) (s', add_mset (Launching r i rs b) M)"
| discard: "commitInformer r s = (None, s') \<Longrightarrow> src_step (s, add_mset (Building r rs b) M) (s', add_mset (Loop rs b) M)"
| launch: "src_step (s, add_mset (Launching r i rs b) M) (s\<lparr>ss_running := (r, i) # ss_running s\<rparr>, add_mset (Loop rs b) M)"
| started: "src_step (s, add_mset (Loop [] False) M) (s, M)"
| stopped: "src_step (s, add_mset (Loop [] True) M) (stopUnreferenced s, M)"

text \<open>A call begins. The order in which a map is read is open.\<close>

inductive src_call :: "'n src_state \<Rightarrow> 'n src_state \<Rightarrow> bool" where
  start: "distinct refs \<Longrightarrow> set refs = set (currentReferencesLocked s) \<Longrightarrow> src_call (s, M) (s\<lparr>ss_started := True\<rparr>, add_mset (Loop refs False) M)"
| set_early: "\<not> ss_started s \<Longrightarrow> src_call (s, M) (SetReferenceLocked owner ref s, M)"
| set: "ss_started s \<Longrightarrow> distinct refs \<Longrightarrow> set refs = set (currentReferencesLocked (SetReferenceLocked owner ref s)) \<Longrightarrow>
    src_call (s, M) (SetReferenceLocked owner ref s, add_mset (Loop refs True) M)"

inductive src_reach :: "'n src_state \<Rightarrow> bool" where
  new: "src_reach (NewConfigMapReferenceSource, {#})"
| call: "src_reach x \<Longrightarrow> src_call x y \<Longrightarrow> src_reach y"
| step: "src_reach x \<Longrightarrow> src_step x y \<Longrightarrow> src_reach y"

section \<open>Invariant\<close>

fun todo :: "'n src_thread \<Rightarrow> 'n set" where
  "todo (Loop rs b) = set rs"
| "todo (Building r rs b) = insert r (set rs)"
| "todo (Launching r i rs b) = set rs"

fun stops :: "'n src_thread \<Rightarrow> bool" where
  "stops (Loop rs b) = b"
| "stops (Building r rs b) = b"
| "stops (Launching r i rs b) = b"

fun launching :: "'n src_thread \<Rightarrow> ('n \<times> nat) option" where
  "launching (Launching r i rs b) = Some (r, i)"
| "launching t = None"

definition tableOk :: "'n ref_source \<Rightarrow> bool" where
  "tableOk s = (distinct (map fst (ss_informers s)) \<and> distinct (map snd (ss_informers s)) \<and>
     (\<forall>i \<in> snd ` set (ss_informers s). i < ss_next s \<and> i \<notin> set (ss_cancelled s)) \<and>
     (\<forall>i \<in> set (ss_cancelled s). i < ss_next s))"

text \<open>An instance that runs or is about to is in the table or cancelled, and one in the table runs or is about to.\<close>

definition instancesOk :: "'n src_state \<Rightarrow> bool" where
  "instancesOk x = (case x of (s, M) \<Rightarrow>
     (\<forall>p. p \<in> set (ss_running s) \<or> (\<exists>t \<in># M. launching t = Some p) \<longrightarrow> snd p \<in> set (ss_cancelled s) \<or> p \<in> set (ss_informers s)) \<and>
     (\<forall>p \<in> set (ss_informers s). p \<in> set (ss_running s) \<or> (\<exists>t \<in># M. launching t = Some p)))"

text \<open>Unless a call has failed, a reference has an informer or a call that is about to start it, and an informer has a reference or a call that is about to stop it.\<close>

definition watched :: "'n ref_source \<Rightarrow> 'n set" where "watched s = fst ` set (ss_informers s)"

definition coverageOk :: "'n src_state \<Rightarrow> bool" where
  "coverageOk x = (case x of (s, M) \<Rightarrow>
     (ss_started s \<or> M = {#} \<and> watched s = {}) \<and>
     (\<not> ss_failed s \<and> ss_started s \<longrightarrow>
        (\<forall>r. isReferencedLocked s r \<longrightarrow> r \<in> watched s \<or> (\<exists>t \<in># M. r \<in> todo t)) \<and>
        (\<forall>r \<in> watched s. isReferencedLocked s r \<or> (\<exists>t \<in># M. stops t))))"

lemma currentReferences_iff: "r \<in> set (currentReferencesLocked s) \<longleftrightarrow> isReferencedLocked s r"
  by (force simp: currentReferencesLocked_def isReferencedLocked_def list_ex_iff)

lemma needsInformer_iff: "needsInformer s r \<longleftrightarrow> r \<notin> fst ` set (ss_informers s) \<and> ss_started s"
  by (auto simp: needsInformer_def map_of_eq_None_iff)

lemma commitInformer_cases:
  "commitInformer r s = (if r \<in> fst ` set (ss_informers s) \<or> \<not> isReferencedLocked s r
     then (None, s\<lparr>ss_next := Suc (ss_next s), ss_cancelled := ss_next s # ss_cancelled s\<rparr>)
     else (Some (ss_next s), s\<lparr>ss_next := Suc (ss_next s), ss_informers := (r, ss_next s) # ss_informers s\<rparr>))"
  by (auto simp: commitInformer_def Let_def isReferencedLocked_def map_of_eq_None_iff)

lemma isReferenced_simps [simp]:
  "isReferencedLocked (s\<lparr>ss_informers := a\<rparr>) = isReferencedLocked s" "isReferencedLocked (s\<lparr>ss_cancelled := c\<rparr>) = isReferencedLocked s"
  "isReferencedLocked (s\<lparr>ss_next := n\<rparr>) = isReferencedLocked s" "isReferencedLocked (s\<lparr>ss_running := q\<rparr>) = isReferencedLocked s"
  "isReferencedLocked (s\<lparr>ss_failed := f\<rparr>) = isReferencedLocked s" "isReferencedLocked (s\<lparr>ss_started := f\<rparr>) = isReferencedLocked s"
  by (auto simp: isReferencedLocked_def)

lemma stopUnreferenced_simps [simp]:
  "isReferencedLocked (stopUnreferenced s) = isReferencedLocked s" "ss_started (stopUnreferenced s) = ss_started s" "ss_failed (stopUnreferenced s) = ss_failed s"
  "ss_next (stopUnreferenced s) = ss_next s" "ss_running (stopUnreferenced s) = ss_running s"
  "p \<in> set (ss_informers (stopUnreferenced s)) \<longleftrightarrow> p \<in> set (ss_informers s) \<and> isReferencedLocked s (fst p)"
  "i \<in> set (ss_cancelled (stopUnreferenced s)) \<longleftrightarrow> i \<in> set (ss_cancelled s) \<or> (\<exists>r. (r, i) \<in> set (ss_informers s) \<and> \<not> isReferencedLocked s r)"
  by (auto simp: stopUnreferenced_def isReferencedLocked_def image_iff)

lemma tableOk_step:
  assumes "src_step x y" "tableOk (fst x)"
  shows "tableOk (fst y)"
  using assms
proof (induction rule: src_step.induct)
  case (stopped s M)
  have inj: "inj_on snd (set (ss_informers s))" "distinct (ss_informers s)"
    using stopped by (auto simp: tableOk_def distinct_map)
  show ?case using stopped inj
    by (auto simp: tableOk_def distinct_map stopUnreferenced_def inj_on_def) (metis fst_conv snd_conv)
next
  case (commit r s i s' rs b M)
  then have s': "s' = s\<lparr>ss_next := Suc (ss_next s), ss_informers := (r, ss_next s) # ss_informers s\<rparr>" "r \<notin> fst ` set (ss_informers s)"
    by (auto simp: commitInformer_cases split: if_splits)
  have t: "tableOk s" using commit.prems by simp
  then have "ss_next s \<notin> snd ` set (ss_informers s)" "ss_next s \<notin> set (ss_cancelled s)" by (auto simp: tableOk_def)
  then show ?case using t s'(2) commit.prems unfolding tableOk_def s'(1) by (simp add: less_Suc_eq)
next
  case (discard r s s' rs b M)
  then have s': "s' = s\<lparr>ss_next := Suc (ss_next s), ss_cancelled := ss_next s # ss_cancelled s\<rparr>"
    by (auto simp: commitInformer_cases split: if_splits)
  have t: "tableOk s" using discard.prems by simp
  then have "ss_next s \<notin> snd ` set (ss_informers s)" by (auto simp: tableOk_def)
  then show ?case using t unfolding tableOk_def s' by (auto simp: less_Suc_eq)
qed (simp_all add: tableOk_def)


lemma tableOk_call:
  assumes "src_call x y" "tableOk (fst x)"
  shows "tableOk (fst y)"
  using assms by (induction rule: src_call.induct) (auto simp: tableOk_def SetReferenceLocked_def)

lemma instancesOk_step:
  assumes "src_step x y" "tableOk (fst x)" "instancesOk x"
  shows "instancesOk y"
  using assms
  by (induction rule: src_step.induct) (fastforce simp: instancesOk_def commitInformer_cases split: if_splits)+

lemma instancesOk_call:
  assumes "src_call x y" "instancesOk x"
  shows "instancesOk y"
  using assms by (induction rule: src_call.induct) (auto simp: instancesOk_def SetReferenceLocked_def)

lemma watched_simps [simp]:
  "watched (s\<lparr>ss_informers := (r, i) # ss_informers s'\<rparr>) = insert r (watched s')" "watched (s\<lparr>ss_cancelled := c\<rparr>) = watched s"
  "watched (s\<lparr>ss_next := n\<rparr>) = watched s" "watched (s\<lparr>ss_running := q\<rparr>) = watched s" "watched (s\<lparr>ss_failed := f\<rparr>) = watched s"
  "watched (s\<lparr>ss_started := f\<rparr>) = watched s" "watched (s\<lparr>ss_references := e\<rparr>) = watched s"
  by (auto simp: watched_def)

lemma watched_stop [simp]: "watched (stopUnreferenced s) = {r \<in> watched s. isReferencedLocked s r}"
  by (force simp: watched_def)

lemma coverageOk_step:
  assumes "src_step x y" "coverageOk x"
  shows "coverageOk y"
  using assms
proof (induction rule: src_step.induct)
  case (skip s r rs b M)
  then show ?case unfolding coverageOk_def needsInformer_iff by (simp add: watched_def [symmetric]) blast
next
  case (build s r rs b M)
  then show ?case unfolding coverageOk_def by simp
next
  case (build_fails s r rs b M)
  then show ?case unfolding coverageOk_def by simp
next
  case (commit r s i s' rs b M)
  then show ?case unfolding coverageOk_def by (auto simp: commitInformer_cases split: if_splits)
next
  case (discard r s s' rs b M)
  then have "s' = s\<lparr>ss_next := Suc (ss_next s), ss_cancelled := ss_next s # ss_cancelled s\<rparr>" "r \<in> watched s \<or> \<not> isReferencedLocked s r"
    by (auto simp: commitInformer_cases watched_def split: if_splits)
  then show ?case using discard.prems unfolding coverageOk_def by simp blast
next
  case (launch s r i rs b M)
  then show ?case unfolding coverageOk_def by simp
next
  case (started s M)
  then show ?case unfolding coverageOk_def by simp
next
  case (stopped s M)
  then show ?case unfolding coverageOk_def by simp
qed

lemma coverageOk_call:
  assumes "src_call x y" "coverageOk x"
  shows "coverageOk y"
  using assms
  by (induction rule: src_call.induct) (auto simp: coverageOk_def currentReferences_iff SetReferenceLocked_def)

lemma src_reach_inv: "src_reach x \<Longrightarrow> tableOk (fst x) \<and> instancesOk x \<and> coverageOk x"
proof (induction rule: src_reach.induct)
  case new
  show ?case by (simp add: tableOk_def instancesOk_def coverageOk_def NewConfigMapReferenceSource_def watched_def)
next
  case (call x y)
  then show ?case using tableOk_call instancesOk_call coverageOk_call by blast
next
  case (step x y)
  then show ?case using tableOk_step instancesOk_step coverageOk_step by blast
qed

section \<open>Properties\<close>

text \<open>The informers that run, at a moment.\<close>

definition active :: "'n ref_source \<Rightarrow> ('n \<times> nat) list" where
  "active s = filter (\<lambda>(_, i). i \<notin> set (ss_cancelled s)) (ss_running s)"

lemma active_table:
  assumes "src_reach (s, M)" "p \<in> set (active s)"
  shows "p \<in> set (ss_informers s)"
  using assms(2) src_reach_inv [OF assms(1)] by (force simp: active_def instancesOk_def)

text \<open>
  However calls interleave, and whether or not some fail, a ConfigMap never has two informers that run at the same time.
\<close>

theorem one_informer_per_reference:
  assumes "src_reach (s, M)" "(r, i) \<in> set (active s)" "(r, j) \<in> set (active s)"
  shows "i = j"
proof -
  have "distinct (map fst (ss_informers s))" using src_reach_inv [OF assms(1)] by (simp add: tableOk_def)
  then show ?thesis using active_table [OF assms(1)] assms(2,3) by (metis map_of_is_SomeI option.inject)
qed

text \<open>
  Property C17. When the source has been started, every call has returned and none has failed, the ConfigMaps that have a running informer are exactly those that
  some owner refers to, whatever the interleaving was.
\<close>

theorem informers_match_references:
  assumes "src_reach (s, {#})" "ss_started s" "\<not> ss_failed s"
  shows "fst ` set (active s) = set (currentReferencesLocked s)"
proof -
  note inv = src_reach_inv [OF assms(1)]
  have "set (active s) = set (ss_informers s)"
  proof
    show "set (active s) \<subseteq> set (ss_informers s)" using active_table [OF assms(1)] by blast
    show "set (ss_informers s) \<subseteq> set (active s)" using inv by (force simp: active_def instancesOk_def tableOk_def)
  qed
  then have "fst ` set (active s) = watched s" by (simp add: watched_def)
  also have "\<dots> = set (currentReferencesLocked s)" using inv assms(2,3) by (auto simp: coverageOk_def currentReferences_iff)
  finally show ?thesis .
qed

text \<open>A source that one owner has made watch a ConfigMap, and then another.\<close>

definition src_at :: "(nat \<times> nat) list \<Rightarrow> (nat \<times> nat) list \<Rightarrow> nat \<Rightarrow> (nat \<times> nat) list \<Rightarrow> nat ref_source" where
  "src_at refs infs n run = \<lparr>ss_started = True, ss_references = refs, ss_informers = infs, ss_next = n, ss_cancelled = [], ss_running = run, ss_failed = False\<rparr>"

lemma src_at_sel [simp]:
  "ss_started (src_at refs infs n run)" "ss_references (src_at refs infs n run) = refs" "ss_informers (src_at refs infs n run) = infs"
  "ss_next (src_at refs infs n run) = n" "ss_cancelled (src_at refs infs n run) = []" "ss_running (src_at refs infs n run) = run"
  "\<not> ss_failed (src_at refs infs n run)"
  by (simp_all add: src_at_def)

lemma one_watched: "src_reach (src_at [(0, 1)] [(1, 0)] 1 [(1, 0)], {#})"
proof -
  have 1: "src_reach (src_at [] [] 0 [], {#Loop [] False#})"
    using src_reach.call [OF src_reach.new src_call.start [of "[]"]]
    by (simp add: NewConfigMapReferenceSource_def currentReferencesLocked_def src_at_def)
  have 2: "src_reach (src_at [] [] 0 [], {#})" using src_reach.step [OF 1 src_step.started] .
  have 3: "src_reach (src_at [(0, 1)] [] 0 [], {#Loop [1] True#})"
    using src_reach.call [OF 2 src_call.set [of _ "[1]" 0 "Some 1"]] by (simp add: SetReferenceLocked_def currentReferencesLocked_def src_at_def)
  have 4: "src_reach (src_at [(0, 1)] [] 0 [], {#Building 1 [] True#})"
    by (rule src_reach.step [OF 3 src_step.build]) (simp add: needsInformer_def)
  have 5: "src_reach (src_at [(0, 1)] [(1, 0)] 1 [], {#Launching 1 0 [] True#})"
    by (rule src_reach.step [OF 4 src_step.commit]) (simp add: commitInformer_def Let_def isReferencedLocked_def src_at_def)
  have 6: "src_reach (src_at [(0, 1)] [(1, 0)] 1 [(1, 0)], {#Loop [] True#})"
    using src_reach.step [OF 5 src_step.launch] by (simp add: src_at_def)
  show ?thesis using src_reach.step [OF 6 src_step.stopped] by (simp add: stopUnreferenced_def isReferencedLocked_def src_at_def)
qed

theorem one_informer_per_reference_witness:
  "\<exists>s M. src_reach (s :: nat ref_source, M) \<and> active s = [(1, 0)] \<and> (\<forall>j. (1, j) \<in> set (active s) \<longrightarrow> j = 0)"
proof -
  have "active (src_at [(0, 1)] [(1, 0)] 1 [(1, 0)]) = [(1, 0)]" by (simp add: active_def)
  then show ?thesis using one_watched one_informer_per_reference [OF one_watched, of 1 0]
    by (intro exI [of _ "src_at [(0, 1)] [(1, 0)] 1 [(1, 0)]"] exI [of _ "{#}"]) auto
qed

theorem informers_match_references_witness:
  "\<exists>s. src_reach (s :: nat ref_source, {#}) \<and> ss_references s = [(0, 1)] \<and> fst ` set (active s) = set (currentReferencesLocked s)"
  using one_watched informers_match_references [OF one_watched] by (intro exI [of _ "src_at [(0, 1)] [(1, 0)] 1 [(1, 0)]"]) simp

text \<open>
  A build that fails ends \<open>SetReference\<close> before \<open>stopUnreferenced\<close>: the informer of the reference that was replaced goes on, and no call is left to stop it.
\<close>

theorem failed_build_leaks:
  "\<exists>s. src_reach (s, {#}) \<and> fst ` set (active s) = {1} \<and> set (currentReferencesLocked s) = {2 :: nat}"
proof -
  have 1: "src_reach (src_at [(0, 2)] [(1, 0)] 1 [(1, 0)], {#Loop [2] True#})"
    using src_reach.call [OF one_watched src_call.set [of _ "[2]" 0 "Some 2"]]
    by (simp add: SetReferenceLocked_def currentReferencesLocked_def src_at_def)
  have 2: "src_reach (src_at [(0, 2)] [(1, 0)] 1 [(1, 0)], {#Building 2 [] True#})"
    by (rule src_reach.step [OF 1 src_step.build]) (simp add: needsInformer_def)
  have 3: "src_reach ((src_at [(0, 2)] [(1, 0)] 1 [(1, 0)])\<lparr>ss_failed := True\<rparr>, {#})"
    using src_reach.step [OF 2 src_step.build_fails] by simp
  then show ?thesis
    by (intro exI [of _ "(src_at [(0, 2)] [(1, 0)] 1 [(1, 0)])\<lparr>ss_failed := True\<rparr>"]) (simp add: active_def currentReferencesLocked_def src_at_def)
qed

section \<open>The source of fixed names\<close>

lemma uniqueReferences_aux:
  "distinct seen \<Longrightarrow> distinct (fold (\<lambda>r seen. if snd r = [] \<or> r \<in> set seen then seen else r # seen) refs seen) \<and>
   set (fold (\<lambda>r seen. if snd r = [] \<or> r \<in> set seen then seen else r # seen) refs seen) = set seen \<union> {r \<in> set refs. snd r \<noteq> []}"
  by (induction refs arbitrary: seen) auto

lemma uniqueReferences_spec: "distinct (uniqueReferences refs)" "set (uniqueReferences refs) = {r \<in> set refs. snd r \<noteq> []}"
  using uniqueReferences_aux [of "[]" refs] by (simp_all add: uniqueReferences_def)

text \<open>\<open>Start\<close> of the source of fixed names: it stops at the first informer that cannot be built.\<close>

fun startNames :: "(namespaced_name \<Rightarrow> bool) \<Rightarrow> namespaced_name list \<Rightarrow> namespaced_name list \<Rightarrow> namespaced_name list \<times> bool" where
  "startNames builds informers [] = (informers, True)"
| "startNames builds informers (ref # refs) =
     (if ref \<in> set informers then startNames builds informers refs
      else if builds ref then startNames builds (informers @ [ref]) refs
      else (informers, False))"

lemma startNames_all: "distinct (infs @ refs) \<Longrightarrow> (\<And>r. r \<in> set refs \<Longrightarrow> builds r) \<Longrightarrow> startNames builds infs refs = (infs @ refs, True)"
  by (induction builds infs refs rule: startNames.induct) auto

lemma startNames_unique: "(\<And>r. builds r) \<Longrightarrow> startNames builds [] (uniqueReferences refs) = (uniqueReferences refs, True)"
  by (simp add: startNames_all uniqueReferences_spec)

end
