(* ===== verification/TLS_Profile.thy ===== *)
theory TLS_Profile
  imports Prelude "HOL-Library.Word"
begin

text \<open>
  The TLS settings the manager takes from the cluster (pkg/tls/tls.go) and the watcher that ends it when they change (watcher.go).
  Versions and cipher suites are 16-bit identifiers of Go's crypto/tls. The
  predefined profiles of OpenShift's API are a parameter; the read of the APIServer object is classified the way the code's switch does.
\<close>

section \<open>Identifiers\<close>

type_synonym tls_id = "16 word"

definition VersionTLS10 :: tls_id where "VersionTLS10 = 0x0301"
definition VersionTLS11 :: tls_id where "VersionTLS11 = 0x0302"
definition VersionTLS12 :: tls_id where "VersionTLS12 = 0x0303"
definition VersionTLS13 :: tls_id where "VersionTLS13 = 0x0304"

definition openSSLToGoCipher :: "tls_id gomap" where
  "openSSLToGoCipher =
     [(''TLS_AES_128_GCM_SHA256'', 0x1301), (''TLS_AES_256_GCM_SHA384'', 0x1302), (''TLS_CHACHA20_POLY1305_SHA256'', 0x1303),
      (''ECDHE-ECDSA-AES128-GCM-SHA256'', 0xc02b), (''ECDHE-RSA-AES128-GCM-SHA256'', 0xc02f),
      (''ECDHE-ECDSA-AES256-GCM-SHA384'', 0xc02c), (''ECDHE-RSA-AES256-GCM-SHA384'', 0xc030),
      (''ECDHE-ECDSA-CHACHA20-POLY1305-SHA256'', 0xcca9), (''ECDHE-RSA-CHACHA20-POLY1305-SHA256'', 0xcca8),
      (''ECDHE-ECDSA-CHACHA20-POLY1305'', 0xcca9), (''ECDHE-RSA-CHACHA20-POLY1305'', 0xcca8)]"

definition IntermediateCiphers :: "tls_id list" where
  "IntermediateCiphers = [0xc02b, 0xc02f, 0xc02c, 0xc030, 0xcca9, 0xcca8]"

definition tlsVersionMap :: "tls_id gomap" where
  "tlsVersionMap = [(''VersionTLS10'', VersionTLS10), (''VersionTLS11'', VersionTLS11), (''VersionTLS12'', VersionTLS12), (''VersionTLS13'', VersionTLS13)]"

section \<open>Profiles\<close>

record profile_spec =
  ps_ciphers :: "string list"
  ps_min_version :: string

record tls_profile =
  tp_type :: string
  tp_custom :: "profile_spec option"

text \<open>The suites are None for Go's own choice, which is not the empty list.\<close>

definition parseCustomProfile :: "profile_spec \<Rightarrow> tls_id \<times> tls_id list option" where
  "parseCustomProfile custom =
     (let minVersion = (case map_of tlsVersionMap (ps_min_version custom) of Some v \<Rightarrow> v | None \<Rightarrow> VersionTLS12)
      in if ps_ciphers custom = [] then (minVersion, None)
         else (minVersion, Some (List.map_filter (map_of openSSLToGoCipher) (ps_ciphers custom))))"

definition parseProfile :: "tls_profile option \<Rightarrow> tls_id \<times> tls_id list option" where
  "parseProfile profile =
     (case profile of
        None \<Rightarrow> (VersionTLS12, Some IntermediateCiphers)
      | Some p \<Rightarrow>
          if tp_type p = ''Intermediate'' \<or> tp_type p = [] then (VersionTLS12, Some IntermediateCiphers)
          else if tp_type p = ''Modern'' then (VersionTLS13, None)
          else if tp_type p = ''Old'' then (VersionTLS10, None)
          else if tp_type p = ''Custom'' then
            (case tp_custom p of None \<Rightarrow> (VersionTLS12, Some IntermediateCiphers) | Some c \<Rightarrow> parseCustomProfile c)
          else (VersionTLS12, Some IntermediateCiphers))"

definition resolveProfileSpec :: "(string \<Rightarrow> profile_spec) \<Rightarrow> tls_profile option \<Rightarrow> profile_spec" where
  "resolveProfileSpec known profile =
     (case profile of
        None \<Rightarrow> known ''Intermediate''
      | Some p \<Rightarrow>
          if tp_type p = ''Modern'' then known ''Modern''
          else if tp_type p = ''Old'' then known ''Old''
          else if tp_type p = ''Custom'' then (case tp_custom p of Some c \<Rightarrow> c | None \<Rightarrow> known ''Intermediate'')
          else known ''Intermediate'')"

section \<open>The configuration\<close>

record tls_config =
  tc_min_version :: tls_id
  tc_ciphers :: "tls_id list option"
  tc_protos :: "string list"

datatype read_error = NoAPIServerKind | MissingServer | Transient | OtherError string

datatype resolve_error = ReadFailed string | NoSupportedCipher

record tls_result =
  tr_option :: "tls_config \<Rightarrow> tls_config"
  tr_spec :: profile_spec
  tr_api_available :: bool

definition intermediateWithALPN :: "tls_config \<Rightarrow> tls_config" where
  "intermediateWithALPN c = c\<lparr>tc_min_version := VersionTLS12, tc_ciphers := Some IntermediateCiphers, tc_protos := [''h2'', ''http/1.1'']\<rparr>"

definition resolve :: "(string \<Rightarrow> profile_spec) \<Rightarrow> read_error + tls_profile option \<Rightarrow> resolve_error + tls_result" where
  "resolve known server =
     (case server of
        Inl (OtherError e) \<Rightarrow> Inl (ReadFailed e)
      | Inl e \<Rightarrow> Inr \<lparr>tr_option = intermediateWithALPN, tr_spec = known ''Intermediate'', tr_api_available = (e = Transient)\<rparr>
      | Inr profile \<Rightarrow>
          (case parseProfile profile of
             (minVersion, ciphers) \<Rightarrow>
               if ciphers = Some [] then Inl NoSupportedCipher
               else Inr \<lparr>tr_option = (\<lambda>c. c\<lparr>tc_min_version := minVersion,
                        tc_ciphers := (case ciphers of Some cs \<Rightarrow> Some cs | None \<Rightarrow> tc_ciphers c), tc_protos := [''h2'', ''http/1.1'']\<rparr>),
                      tr_spec = resolveProfileSpec known profile, tr_api_available = True\<rparr>))"

section \<open>Lemmas\<close>

lemma suites_known: "map_of openSSLToGoCipher n = Some i \<Longrightarrow> i \<in> snd ` set openSSLToGoCipher"
  by (force dest: map_of_SomeD)

lemma intermediate_known: "set IntermediateCiphers \<subseteq> snd ` set openSSLToGoCipher"
  by (simp add: IntermediateCiphers_def openSSLToGoCipher_def)

lemma version_known:
  "map_of tlsVersionMap n = Some v \<Longrightarrow> v < VersionTLS12 \<Longrightarrow> n = ''VersionTLS10'' \<or> n = ''VersionTLS11''"
  by (auto simp: tlsVersionMap_def VersionTLS12_def VersionTLS13_def split: if_splits)

text \<open>When the cluster asks for less than TLS 1.2 by name.\<close>

definition asksForOldTLS :: "tls_profile option \<Rightarrow> bool" where
  "asksForOldTLS profile =
     (case profile of
        None \<Rightarrow> False
      | Some p \<Rightarrow> tp_type p = ''Old'' \<or>
          tp_type p = ''Custom'' \<and> (case tp_custom p of Some c \<Rightarrow> ps_min_version c \<in> {''VersionTLS10'', ''VersionTLS11''} | None \<Rightarrow> False))"

lemma parseProfile_version: "fst (parseProfile profile) < VersionTLS12 \<Longrightarrow> asksForOldTLS profile"
proof -
  assume "fst (parseProfile profile) < VersionTLS12"
  moreover have "\<not> VersionTLS13 < VersionTLS12" by (simp add: VersionTLS12_def VersionTLS13_def)
  ultimately show ?thesis
    by (auto simp: parseProfile_def parseCustomProfile_def asksForOldTLS_def Let_def dest: version_known split: option.splits if_splits)
qed

lemma parseProfile_suites: "snd (parseProfile profile) = Some cs \<Longrightarrow> set cs \<subseteq> snd ` set openSSLToGoCipher"
  using intermediate_known suites_known
  by (auto simp: parseProfile_def parseCustomProfile_def Let_def map_filter_def split: option.splits if_splits)

definition failsClosed :: "read_error + tls_profile option \<Rightarrow> tls_config \<Rightarrow> bool" where
  "failsClosed server c =
     ((tc_min_version c < VersionTLS12 \<longrightarrow> (case server of Inr profile \<Rightarrow> asksForOldTLS profile | Inl _ \<Rightarrow> False)) \<and>
      (case tc_ciphers c of Some cs \<Rightarrow> cs \<noteq> [] \<and> set cs \<subseteq> snd ` set openSSLToGoCipher | None \<Rightarrow> True))"

lemma intermediate_closed: "failsClosed server (intermediateWithALPN c)"
  using intermediate_known by (auto simp: failsClosed_def intermediateWithALPN_def) (simp_all add: IntermediateCiphers_def)

text \<open>
  Property C18. The settings of the manager fail closed: whatever the cluster's profile is and however it was read, a configuration that results
  accepts a version before TLS 1.2 only when the profile asks for it by name, and its list of suites, if it has one, is not empty and has only suites of the table.
\<close>

theorem resolve_fails_closed:
  assumes "resolve known server = Inr result" "tc_ciphers c = None"
  shows "failsClosed server (tr_option result c)"
proof (cases server)
  case (Inl e)
  then have "tr_option result = intermediateWithALPN" using assms(1) by (cases e) (auto simp: resolve_def)
  then show ?thesis by (simp add: intermediate_closed)
next
  case (Inr profile)
  obtain v cs where p: "parseProfile profile = (v, cs)" by force
  have "cs \<noteq> Some []" "tc_min_version (tr_option result c) = v" "tc_ciphers (tr_option result c) = cs"
    using assms Inr by (auto simp: resolve_def p split: if_splits option.splits)
  then show ?thesis
    using parseProfile_version [of profile] parseProfile_suites [of profile] Inr by (auto simp: failsClosed_def p split: option.split)
qed

theorem resolve_fails_closed_witness:
  "failsClosed (Inr None) \<lparr>tc_min_version = VersionTLS12, tc_ciphers = Some IntermediateCiphers, tc_protos = [''h2'', ''http/1.1'']\<rparr>"
proof -
  let ?known = "\<lambda>_. \<lparr>ps_ciphers = [], ps_min_version = ''VersionTLS12''\<rparr>"
  let ?c = "\<lparr>tc_min_version = 0, tc_ciphers = None, tc_protos = []\<rparr>"
  have "IntermediateCiphers \<noteq> []" by (simp add: IntermediateCiphers_def)
  then obtain result where r: "resolve ?known (Inr None) = Inr result"
    "tr_option result ?c = \<lparr>tc_min_version = VersionTLS12, tc_ciphers = Some IntermediateCiphers, tc_protos = [''h2'', ''http/1.1'']\<rparr>"
    by (auto simp: resolve_def parseProfile_def)
  then show ?thesis using resolve_fails_closed [OF r(1), of ?c] by simp
qed

text \<open>The spec that is reported and the settings that apply fall back to the intermediate profile in the same cases.\<close>

lemma fallback_agrees:
  "(\<And>a b. known a = known b \<Longrightarrow> a = b) \<Longrightarrow> tp_type p \<noteq> ''Custom'' \<Longrightarrow>
   resolveProfileSpec known (Some p) = known ''Intermediate'' \<longleftrightarrow> parseProfile (Some p) = parseProfile None"
  by (auto simp: resolveProfileSpec_def parseProfile_def VersionTLS10_def VersionTLS12_def VersionTLS13_def)

text \<open>A profile with suites of which Go knows none keeps the manager from starting.\<close>

lemma unknown_suites_refused:
  assumes "tp_type p = ''Custom''" "tp_custom p = Some c" "ps_ciphers c \<noteq> []" "\<And>n. n \<in> set (ps_ciphers c) \<Longrightarrow> map_of openSSLToGoCipher n = None"
  shows "resolve known (Inr (Some p)) = Inl NoSupportedCipher"
  using assms by (simp add: resolve_def parseProfile_def parseCustomProfile_def map_filter_def filter_empty_conv)


section \<open>Watching the profile\<close>

text \<open>The watcher (pkg/tls/watcher.go) shuts the manager down when the profile it would now resolve is not the last one it saw. The result has the
  new last profile, whether the callback ran, and the error.\<close>

definition ReconcileProfile ::
    "(string \<Rightarrow> profile_spec) \<Rightarrow> (api_error + tls_profile option) \<Rightarrow> string \<Rightarrow> profile_spec \<Rightarrow> profile_spec \<times> bool \<times> api_error option" where
  "ReconcileProfile known server reqName lastProfile =
     (if reqName \<noteq> ''cluster'' then (lastProfile, False, None)
      else (case server of
              Inl e \<Rightarrow> (lastProfile, False, if e = NotFound then None else Some e)
            | Inr profile \<Rightarrow>
                (let currentProfile = resolveProfileSpec known profile
                 in if lastProfile \<noteq> currentProfile then (currentProfile, True, None) else (lastProfile, False, None))))"

text \<open>
  The settings are never stale for long: when the manager started from a profile it could read, or from the defaults because the read failed for the moment, the first event of the
  cluster's profile ends it exactly when the spec it started from is not the one that holds now.
\<close>

theorem watcher_ends_stale_start:
  assumes "resolve known startup = Inr result" "tr_api_available result"
  shows "fst (snd (ReconcileProfile known (Inr profile) ''cluster'' (tr_spec result))) \<longleftrightarrow>
    (case startup of Inr p \<Rightarrow> resolveProfileSpec known p | Inl _ \<Rightarrow> known ''Intermediate'') \<noteq> resolveProfileSpec known profile"
proof -
  have "tr_spec result = (case startup of Inr p \<Rightarrow> resolveProfileSpec known p | Inl _ \<Rightarrow> known ''Intermediate'')"
    using assms(1) by (auto simp: resolve_def split: sum.splits read_error.splits prod.splits if_splits)
  then show ?thesis by (simp add: ReconcileProfile_def Let_def)
qed

text \<open>And it fires once per change: a second event of the same profile does nothing.\<close>

lemma watcher_fires_once:
  "fst (snd (ReconcileProfile known (Inr profile) n (fst (ReconcileProfile known (Inr profile) n lastProfile)))) = False"
  by (simp add: ReconcileProfile_def Let_def)

end
