(* ===== verification/Cert_Reloader.thy ===== *)
theory Cert_Reloader
  imports Prelude
begin

text \<open>
  The certificate of the discovery server (server/common/certreloader.go): a watcher that reloads the key pair some time after the last change of
  its directory. The goroutine of the watcher, the callbacks of its timer and the writes to the directory are steps of one relation. A pair
  is what loading the two files gives, None when they do not make one; \<open>cl_seen\<close> records the pairs the directory has held.
\<close>

section \<open>State\<close>

record 'c reloader =
  cl_cert :: 'c
  cl_files :: "'c option"
  cl_events :: nat  \<comment> \<open>relevant events the watcher has not read yet\<close>
  cl_timer :: bool
  cl_loads :: "'c option list"  \<comment> \<open>callbacks in progress, with what they read\<close>
  cl_stopped :: bool
  cl_seen :: "'c list"

definition NewCertReloader :: "'c \<Rightarrow> 'c reloader" where
  "NewCertReloader init = \<lparr>cl_cert = init, cl_files = Some init, cl_events = 0, cl_timer = False, cl_loads = [], cl_stopped = False, cl_seen = [init]\<rparr>"

definition writeFiles :: "'c option \<Rightarrow> 'c reloader \<Rightarrow> 'c reloader" where
  "writeFiles p s = s\<lparr>cl_files := p, cl_events := Suc (cl_events s), cl_seen := (case p of Some c \<Rightarrow> c # cl_seen s | None \<Rightarrow> cl_seen s)\<rparr>"

text \<open>An event stops the timer, if it can, and sets it again.\<close>

definition onEvent :: "'c reloader \<Rightarrow> 'c reloader" where
  "onEvent s = s\<lparr>cl_events := cl_events s - 1, cl_timer := True\<rparr>"

definition timerFires :: "'c reloader \<Rightarrow> 'c reloader" where
  "timerFires s = s\<lparr>cl_timer := False, cl_loads := cl_loads s @ [cl_files s]\<rparr>"

definition loadEnds :: "nat \<Rightarrow> 'c reloader \<Rightarrow> 'c reloader" where
  "loadEnds i s =
     (let s' = s\<lparr>cl_loads := take i (cl_loads s) @ drop (Suc i) (cl_loads s)\<rparr>
      in case cl_loads s ! i of None \<Rightarrow> s' | Some c \<Rightarrow> s'\<lparr>cl_cert := c\<rparr>)"

definition cancelled :: "'c reloader \<Rightarrow> 'c reloader" where
  "cancelled s = s\<lparr>cl_timer := False, cl_stopped := True\<rparr>"

section \<open>Steps\<close>

text \<open>\<open>serial\<close> says that no callback is still in progress when the timer fires.\<close>

inductive reload_step :: "bool \<Rightarrow> 'c reloader \<Rightarrow> 'c reloader \<Rightarrow> bool" for serial where
  write_files: "reload_step serial s (writeFiles p s)"
| event: "0 < cl_events s \<Longrightarrow> \<not> cl_stopped s \<Longrightarrow> reload_step serial s (onEvent s)"
| fire: "cl_timer s \<Longrightarrow> serial \<longrightarrow> cl_loads s = [] \<Longrightarrow> reload_step serial s (timerFires s)"
| load_ends: "i < length (cl_loads s) \<Longrightarrow> reload_step serial s (loadEnds i s)"
| cancel: "reload_step serial s (cancelled s)"

inductive reload_reach :: "bool \<Rightarrow> 'c \<Rightarrow> 'c reloader \<Rightarrow> bool" for serial init where
  new: "reload_reach serial init (NewCertReloader init)"
| step: "reload_reach serial init s \<Longrightarrow> reload_step serial s t \<Longrightarrow> reload_reach serial init t"

definition atRest :: "'c reloader \<Rightarrow> bool" where
  "atRest s = (cl_events s = 0 \<and> \<not> cl_timer s \<and> cl_loads s = [] \<and> \<not> cl_stopped s)"

section \<open>Properties\<close>

lemma reach_seen: "reload_reach serial init s \<Longrightarrow> cl_cert s \<in> set (cl_seen s) \<and> (\<forall>p \<in> set (cl_files s # cl_loads s). \<forall>c. p = Some c \<longrightarrow> c \<in> set (cl_seen s))"
proof (induction rule: reload_reach.induct)
  case new
  show ?case by (simp add: NewCertReloader_def)
next
  case (step s t)
  from step.hyps(2) step.IH show ?case
  proof (induction rule: reload_step.induct)
    case (load_ends i s)
    then have "cl_loads s ! i \<in> set (cl_loads s)" by simp
    then have "cl_loads s ! i = Some c \<longrightarrow> c \<in> set (cl_seen s)" for c using load_ends.prems by auto
    with load_ends.prems show ?case by (auto simp: loadEnds_def Let_def split: option.splits dest!: in_set_takeD in_set_dropD)
  qed (auto simp: writeFiles_def onEvent_def timerFires_def cancelled_def split: option.splits)
qed

text \<open>The server never serves a pair that the directory has not held as a valid pair.\<close>

theorem served_pair_was_valid: "reload_reach serial init s \<Longrightarrow> cl_cert s \<in> set (cl_seen s)"
  using reach_seen [of serial init s] by simp

lemma reach_pending:
  "reload_reach True init s \<Longrightarrow> length (cl_loads s) \<le> 1 \<and>
     (cl_stopped s \<or> 0 < cl_events s \<or> cl_timer s \<or>
      set (cl_loads s) \<subseteq> {cl_files s} \<and> (cl_loads s \<noteq> [] \<or> cl_files s = None \<or> cl_files s = Some (cl_cert s)))"
proof (induction rule: reload_reach.induct)
  case new
  show ?case by (simp add: NewCertReloader_def)
next
  case (step s t)
  from step.hyps(2) step.IH show ?case
  proof (induction rule: reload_step.induct)
    case (load_ends i s)
    then have i: "i = 0" "cl_loads s = [cl_loads s ! 0]" by (cases "cl_loads s"; auto)+
    then show ?case using load_ends.prems by (cases "cl_loads s") (auto simp: loadEnds_def Let_def split: option.splits)
  qed (auto simp: writeFiles_def onEvent_def timerFires_def cancelled_def)
qed

text \<open>
  When reloads do not overlap and the watcher has caught up, the server has the pair that is in the directory, if that is a valid one.
\<close>

theorem reload_catches_up:
  assumes "reload_reach True init s" "atRest s" "cl_files s = Some c"
  shows "cl_cert s = c"
  using reach_pending [OF assms(1)] assms(2,3) by (auto simp: atRest_def)

text \<open>
  Stopping a timer that has fired does not stop its callback. A load that is still in progress when the next one ends puts its older pair back, and no event is left to
  correct it.
\<close>

theorem slow_reload_wins:
  "\<exists>s. reload_reach False (0 :: nat) s \<and> atRest s \<and> cl_files s = Some 7 \<and> cl_cert s = 5"
proof -
  let ?n = "NewCertReloader (0 :: nat)"
  let ?a = "timerFires (onEvent (writeFiles (Some 5) ?n))"
  let ?b = "timerFires (onEvent (writeFiles (Some 7) ?a))"
  have 1: "reload_reach False 0 (onEvent (writeFiles (Some 5) ?n))"
    by (intro reload_reach.step [OF reload_reach.step [OF reload_reach.new reload_step.write_files] reload_step.event]) (simp_all add: writeFiles_def NewCertReloader_def)
  have 2: "reload_reach False 0 ?a" by (rule reload_reach.step [OF 1 reload_step.fire]) (simp_all add: onEvent_def)
  have 3: "reload_reach False 0 (onEvent (writeFiles (Some 7) ?a))"
    by (intro reload_reach.step [OF reload_reach.step [OF 2 reload_step.write_files] reload_step.event])
      (simp_all add: writeFiles_def timerFires_def onEvent_def NewCertReloader_def)
  have 4: "reload_reach False 0 ?b" by (rule reload_reach.step [OF 3 reload_step.fire]) (simp_all add: onEvent_def)
  have l: "cl_loads ?b = [Some 5, Some 7]" by (simp add: timerFires_def onEvent_def writeFiles_def NewCertReloader_def)
  have 5: "reload_reach False 0 (loadEnds 1 ?b)" by (rule reload_reach.step [OF 4 reload_step.load_ends]) (simp add: l)
  have 6: "reload_reach False 0 (loadEnds 0 (loadEnds 1 ?b))" by (rule reload_reach.step [OF 5 reload_step.load_ends]) (simp add: loadEnds_def l)
  then show ?thesis
    by (rule exI [of _ "loadEnds 0 (loadEnds 1 ?b)", OF conjI])
      (simp add: atRest_def loadEnds_def timerFires_def onEvent_def writeFiles_def NewCertReloader_def)
qed

end
