(* ===== verification/ISVC_Events.thy ===== *)
theory ISVC_Events
  imports ISVC_Controller Ray_Runtime
begin

text \<open>
  The watches of the InferenceService controller that map another object's event to services (SetupWithManager of
  internal/controller/serving/inferenceservice_controller.go). The watch of graphs is with the network policies.
\<close>

definition runtimeInferenceServiceRequests :: "(string \<Rightarrow> api_error + 'spec served list) \<Rightarrow> namespaced_name \<Rightarrow> namespaced_name list" where
  "runtimeInferenceServiceRequests listIn runtime =
     (case listIn (fst runtime) of
        Inl _ \<Rightarrow> []
      | Inr items \<Rightarrow> if items = [] then [] else map (\<lambda>i. (om_namespace (sd_meta i), om_name (sd_meta i))) items)"

definition secretInferenceServiceRequests :: "(namespaced_name \<Rightarrow> api_error + 'spec served) \<Rightarrow> namespaced_name \<Rightarrow> namespaced_name list" where
  "secretInferenceServiceRequests get secret =
     (if IsRayTLSSecret (snd secret) then []
      else (case get secret of Inl _ \<Rightarrow> [] | Inr _ \<Rightarrow> [secret]))"

lemma runtime_event_complete:
  assumes "listIn ns = Inr items" "i \<in> set items"
  shows "(om_namespace (sd_meta i), om_name (sd_meta i)) \<in> set (runtimeInferenceServiceRequests listIn (ns, runtimeName))"
  using assms by (auto simp: runtimeInferenceServiceRequests_def)

lemma secret_event_exact:
  "req \<in> set (secretInferenceServiceRequests get secret) \<longleftrightarrow>
     req = secret \<and> \<not> IsRayTLSSecret (snd secret) \<and> (\<exists>i. get secret = Inr i)"
  by (cases "get secret") (auto simp: secretInferenceServiceRequests_def)

end
