(* ===== verification/Discovery_Server.thy ===== *)
theory Discovery_Server
  imports Complex_Main Gateway_Discovery
begin

text \<open>
  The frame of the discovery server (server/config.go, server/server.go, server/middleware, server/handlers/health.go): the configuration it loads and the
  chain of middleware around its handlers. A handler is the list of calls it makes on the response writer, and whether it ends in a panic; the
  writer sends the headers it has at the first \<open>WriteHeader\<close> or \<open>Write\<close>, as net/http does. \<open>time.ParseDuration\<close>, \<open>strconv.ParseFloat\<close> and
  the multiplexer's answer to an unknown path are parameters; the telemetry around the chain is left out.
\<close>

section \<open>Configuration\<close>

text \<open>A 32-bit float, with its value.\<close>

datatype go_float = Finite rat | PosInf | NegInf | NaN

definition float_negative :: "go_float \<Rightarrow> bool" where
  "float_negative f = (case f of Finite q \<Rightarrow> q < 0 | NegInf \<Rightarrow> True | _ \<Rightarrow> False)"

record server_config =
  sg_listen :: string
  sg_cert_dir :: string
  sg_log_level :: string
  sg_metrics :: string
  sg_otlp :: string
  sg_read :: int
  sg_write :: int
  sg_idle :: int
  sg_qps :: go_float
  sg_burst :: int
  sg_selector :: "string gomap"

datatype load_error = BadDuration string | NotPositive string | BadFloat string | NegativeFloat string | BadInt config_error | BadSelector config_error

record config_lib =
  cf_env :: "string \<Rightarrow> string"  \<comment> \<open>\<open>os.Getenv\<close>\<close>
  cf_duration :: "string \<Rightarrow> int option"
  cf_float :: "string \<Rightarrow> go_float option"
  cf_key :: "string \<Rightarrow> bool"
  cf_value :: "string \<Rightarrow> bool"

definition envOrDefault :: "config_lib \<Rightarrow> string \<Rightarrow> string \<Rightarrow> string" where
  "envOrDefault lib key defaultValue = (if cf_env lib key \<noteq> [] then cf_env lib key else defaultValue)"

definition parseDurationEnv :: "config_lib \<Rightarrow> string \<Rightarrow> int \<Rightarrow> load_error + int" where
  "parseDurationEnv lib key defaultValue =
     (let v = cf_env lib key
      in if v = [] then Inr defaultValue
         else (case cf_duration lib v of
                 None \<Rightarrow> Inl (BadDuration key)
               | Some d \<Rightarrow> if d \<le> 0 then Inl (NotPositive key) else Inr d))"

definition parseFloat32Env :: "config_lib \<Rightarrow> string \<Rightarrow> go_float \<Rightarrow> load_error + go_float" where
  "parseFloat32Env lib key defaultValue =
     (let v = cf_env lib key
      in if v = [] then Inr defaultValue
         else (case cf_float lib v of
                 None \<Rightarrow> Inl (BadFloat key)
               | Some f \<Rightarrow> if float_negative f then Inl (NegativeFloat key) else Inr f))"

abbreviation seconds :: "int \<Rightarrow> int" where "seconds n \<equiv> n * 1000000000"

definition LoadConfig :: "config_lib \<Rightarrow> load_error + server_config" where
  "LoadConfig lib =
     (case parseDurationEnv lib ''READ_TIMEOUT'' (seconds 10) of Inl e \<Rightarrow> Inl e | Inr readTimeout \<Rightarrow>
     (case parseDurationEnv lib ''WRITE_TIMEOUT'' (seconds 10) of Inl e \<Rightarrow> Inl e | Inr writeTimeout \<Rightarrow>
     (case parseDurationEnv lib ''IDLE_TIMEOUT'' (seconds 120) of Inl e \<Rightarrow> Inl e | Inr idleTimeout \<Rightarrow>
     (case parseFloat32Env lib ''KUBE_QPS'' (Finite 50) of Inl e \<Rightarrow> Inl e | Inr qps \<Rightarrow>
     (case parseIntEnv (cf_env lib ''KUBE_BURST'') 100 of Inl e \<Rightarrow> Inl (BadInt e) | Inr burst \<Rightarrow>
     (case (if cf_env lib ''GATEWAY_LABEL_SELECTOR'' \<noteq> [] then parseLabelSelector (cf_key lib) (cf_value lib) (cf_env lib ''GATEWAY_LABEL_SELECTOR'') else Inr []) of
        Inl e \<Rightarrow> Inl (BadSelector e)
      | Inr selector \<Rightarrow>
          Inr \<lparr>sg_listen = envOrDefault lib ''LISTEN_ADDR'' '':8443'', sg_cert_dir = cf_env lib ''TLS_CERT_DIR'',
            sg_log_level = envOrDefault lib ''LOG_LEVEL'' ''info'', sg_metrics = envOrDefault lib ''METRICS_ADDR'' '':8080'',
            sg_otlp = cf_env lib ''OTEL_EXPORTER_OTLP_ENDPOINT'', sg_read = readTimeout, sg_write = writeTimeout, sg_idle = idleTimeout,
            sg_qps = qps, sg_burst = burst, sg_selector = selector\<rparr>))))))"

section \<open>The response writer\<close>

datatype 'b writer_op = SetHeader string string | WriteHeader nat | WriteBody 'b

record 'b writer =
  wr_headers :: "string gomap"
  wr_sent :: "(nat \<times> string gomap) option"
  wr_body :: "'b list"

definition newWriter :: "'b writer" where "newWriter = \<lparr>wr_headers = [], wr_sent = None, wr_body = []\<rparr>"

fun writerOp :: "'b writer_op \<Rightarrow> 'b writer \<Rightarrow> 'b writer" where
  "writerOp (SetHeader k v) w = w\<lparr>wr_headers := m_put k v (wr_headers w)\<rparr>"
| "writerOp (WriteHeader n) w = (case wr_sent w of None \<Rightarrow> w\<lparr>wr_sent := Some (n, wr_headers w)\<rparr> | Some _ \<Rightarrow> w)"
| "writerOp (WriteBody b) w =
     (let w = (case wr_sent w of None \<Rightarrow> w\<lparr>wr_sent := Some (200, wr_headers w)\<rparr> | Some _ \<Rightarrow> w)
      in w\<lparr>wr_body := wr_body w @ [b]\<rparr>)"

text \<open>What the server sends when the handler has returned.\<close>

definition sent :: "'b writer_op list \<Rightarrow> nat \<times> string gomap" where
  "sent ops = (let w = fold writerOp ops newWriter in case wr_sent w of Some r \<Rightarrow> r | None \<Rightarrow> (200, wr_headers w))"

section \<open>The chain\<close>

type_synonym handled = "http_body writer_op list \<times> bool"

definition respond :: "http_response \<Rightarrow> http_body writer_op list" where
  "respond r = [SetHeader ''Content-Type'' (hs_content_type r), WriteHeader (hs_status r), WriteBody (hs_body r)]"

definition Recovery :: "handled \<Rightarrow> http_body writer_op list" where
  "Recovery next = (case next of (ops, panicked) \<Rightarrow> if panicked then ops @ respond (WriteJSONError 500 ''internal server error'') else ops)"

definition securityHeaders :: "string gomap" where
  "securityHeaders = [(''X-Content-Type-Options'', ''nosniff''), (''X-Frame-Options'', ''DENY''), (''Cache-Control'', ''no-store''),
     (''Strict-Transport-Security'', ''max-age=63072000; includeSubDomains'')]"

definition SecurityHeaders :: "handled \<Rightarrow> handled" where
  "SecurityHeaders next = (map (\<lambda>(k, v). SetHeader k v) securityHeaders @ fst next, snd next)"

text \<open>The status that is logged: the first one written, or 200.\<close>

definition loggedStatus :: "'b writer_op list \<Rightarrow> nat" where
  "loggedStatus ops = (case find (\<lambda>op. case op of WriteHeader _ \<Rightarrow> True | _ \<Rightarrow> False) ops of Some (WriteHeader n) \<Rightarrow> n | _ \<Rightarrow> 200)"

text \<open>\<open>panics\<close> says whether a handler panics after the calls it made; \<open>unknown\<close> is the multiplexer's answer to other paths.\<close>

record server_env =
  sx_discoverer :: "discovery_env option"
  sx_samples :: "string \<Rightarrow> sample_error + string"
  sx_unknown :: "http_body writer_op list"
  sx_panics :: "string \<Rightarrow> Gateway_Discovery.http_request \<Rightarrow> nat option"  \<comment> \<open>after how many calls\<close>

definition probe :: "http_body writer_op list" where
  "probe = [SetHeader ''Content-Type'' ''application/json'', WriteBody (YamlBody (''{'' @ [CHR 0x22] @ ''status'' @ [CHR 0x22] @ '':'' @ [CHR 0x22] @ ''ok'' @ [CHR 0x22] @ ''}''))]"

definition routeRequest :: "server_env \<Rightarrow> string \<Rightarrow> Gateway_Discovery.http_request \<Rightarrow> http_body writer_op list" where
  "routeRequest env path r =
     (if path = ''/healthz'' \<or> path = ''/readyz'' then probe
      else if path = ''/api/v1/gateways'' then respond (snd (Auth (ServeGateways (sx_discoverer env)) r))
      else if path = ''/api/v1/samples/llm-d'' then respond (ServeSamples (sx_samples env) r)
      else sx_unknown env)"

definition mux :: "server_env \<Rightarrow> string \<Rightarrow> Gateway_Discovery.http_request \<Rightarrow> handled" where
  "mux env path r =
     (case sx_panics env path r of
        None \<Rightarrow> (routeRequest env path r, False)
      | Some n \<Rightarrow> (take n (routeRequest env path r), True))"

definition serveHTTP :: "server_env \<Rightarrow> string \<Rightarrow> Gateway_Discovery.http_request \<Rightarrow> nat \<times> string gomap" where
  "serveHTTP env path r = sent (Recovery (SecurityHeaders (mux env path r)))"

section \<open>Lemmas\<close>

text \<open>Headers that no call changes are sent with the value they had before.\<close>

definition keepsHeader :: "string \<Rightarrow> string \<Rightarrow> 'b writer_op \<Rightarrow> bool" where
  "keepsHeader k v op = (case op of SetHeader k' v' \<Rightarrow> k' \<noteq> k \<or> v' = v | _ \<Rightarrow> True)"

definition hasHeader :: "string \<Rightarrow> string \<Rightarrow> 'b writer \<Rightarrow> bool" where
  "hasHeader k v w = (map_of (wr_headers w) k = Some v \<and> (case wr_sent w of Some (_, hs) \<Rightarrow> map_of hs k = Some v | None \<Rightarrow> True))"

lemma writerOp_keeps: "hasHeader k v w \<Longrightarrow> keepsHeader k v op \<Longrightarrow> hasHeader k v (writerOp op w)"
  by (cases op) (auto simp: hasHeader_def keepsHeader_def Let_def split: option.splits)

lemma fold_keeps: "list_all (keepsHeader k v) ops \<Longrightarrow> hasHeader k v w \<Longrightarrow> hasHeader k v (fold writerOp ops w)"
  by (induction ops arbitrary: w) (auto simp: writerOp_keeps)

lemma headers_first:
  "map_of securityHeaders k = Some v \<Longrightarrow> hasHeader k v (fold writerOp (map (\<lambda>(k, v). SetHeader k v) securityHeaders) newWriter)"
  by (auto simp: securityHeaders_def newWriter_def hasHeader_def split: if_splits)

lemma security_not_content: "map_of securityHeaders k = Some v \<Longrightarrow> k \<noteq> ''Content-Type''"
  by (auto simp: securityHeaders_def)

lemma respond_keeps: "map_of securityHeaders k = Some v \<Longrightarrow> list_all (keepsHeader k v) (respond r)"
  using security_not_content [of k v] by (simp add: respond_def keepsHeader_def)

lemma route_keeps:
  assumes "map_of securityHeaders k = Some v" "list_all (keepsHeader k v) (sx_unknown env)"
  shows "list_all (keepsHeader k v) (routeRequest env path r)"
proof -
  have "list_all (keepsHeader k v) probe" using security_not_content [OF assms(1)] by (simp add: probe_def keepsHeader_def)
  then show ?thesis unfolding routeRequest_def using assms(2) respond_keeps [OF assms(1)] by simp
qed

text \<open>
  Every response of the server, of every handler and after a panic too, has the four security headers, provided the answer to an unknown path does not set them
  otherwise.
\<close>

theorem every_response_secured:
  assumes h: "map_of securityHeaders k = Some v" and u: "list_all (keepsHeader k v) (sx_unknown env)"
  shows "map_of (snd (serveHTTP env path r)) k = Some v"
proof -
  let ?ops = "Recovery (SecurityHeaders (mux env path r))"
  have "list_all (keepsHeader k v) (fst (mux env path r))"
    using route_keeps [OF h u, of path r] by (auto simp: mux_def list_all_iff split: option.splits dest: in_set_takeD)
  moreover have "?ops = map (\<lambda>(k, v). SetHeader k v) securityHeaders @
      (fst (mux env path r) @ (if snd (mux env path r) then respond (WriteJSONError 500 ''internal server error'') else []))"
    by (simp add: Recovery_def SecurityHeaders_def)
  ultimately obtain rest where ops: "?ops = map (\<lambda>(k, v). SetHeader k v) securityHeaders @ rest" "list_all (keepsHeader k v) rest"
    using respond_keeps [OF h] by simp
  then have "hasHeader k v (fold writerOp ?ops newWriter)" using fold_keeps headers_first [OF h] by simp
  then show ?thesis by (auto simp: serveHTTP_def sent_def Let_def hasHeader_def split: option.splits)
qed

text \<open>A panic before anything was written gives status 500; after, the status that was sent stays.\<close>

theorem early_panic_gives_500:
  assumes "sx_panics env path r = Some 0"
  shows "fst (serveHTTP env path r) = 500"
  using assms
  by (simp add: serveHTTP_def mux_def Recovery_def SecurityHeaders_def securityHeaders_def respond_def WriteJSONError_def sent_def newWriter_def)

text \<open>Loaded timeouts are positive, the burst is not negative, and a selector that was asked for is not empty.\<close>

theorem LoadConfig_bounds:
  assumes "LoadConfig lib = Inr cfg"
  shows "0 < sg_read cfg \<and> 0 < sg_write cfg \<and> 0 < sg_idle cfg \<and> 0 \<le> sg_burst cfg \<and>
    (sg_selector cfg = [] \<longleftrightarrow> cf_env lib ''GATEWAY_LABEL_SELECTOR'' = [])"
proof -
  have d: "0 < t" if "parseDurationEnv lib key n = Inr t" "0 < n" for key n t
    using that by (auto simp: parseDurationEnv_def Let_def split: if_splits option.splits)
  have b: "0 \<le> n" if "parseIntEnv v 100 = Inr n" for v n
    using that by (auto simp: parseIntEnv_def split: if_splits option.splits)
  have s: "l \<noteq> []" if "parseLabelSelector key val v = Inr l" for key val v l
    using that by (auto simp: parseLabelSelector_def split: sum.splits if_splits)
  show ?thesis using assms
    by (auto simp: LoadConfig_def split: sum.splits if_splits dest: d b s)
qed

text \<open>The test that a rate is not negative lets a rate through that is no number.\<close>

theorem nan_rate_accepted:
  assumes "cf_env lib ''KUBE_QPS'' \<noteq> []" "cf_float lib (cf_env lib ''KUBE_QPS'') = Some NaN"
  shows "parseFloat32Env lib ''KUBE_QPS'' d = Inr NaN"
  using assms by (simp add: parseFloat32Env_def float_negative_def)

end
