(* ===== verification/Cluster_Info.thy ===== *)
theory Cluster_Info
  imports Prelude
begin

text \<open>
  What the controllers ask about the cluster: whether a CRD is there, with the cache of discovered APIs (internal/controller/utils/utils.go), and the namespace of
  the model registry (internal/controller/serving/reconcilers/model_registry_reconciler.go). The discovery client and the unstructured accessor are
  parameters; the registry's own controller is a third-party package.
\<close>

section \<open>Discovered APIs\<close>

text \<open>The cache maps a group version to the kinds found there, None for a nil list. A query returns a list and an error, as the client does.\<close>

type_synonym gv_cache = "(string list option) gomap"

definition SetAvailableResourcesForApi :: "string \<Rightarrow> string list option \<Rightarrow> gv_cache \<Rightarrow> gv_cache" where
  "SetAvailableResourcesForApi groupVersion resources cache = m_put groupVersion resources cache"

definition GetAvailableResourcesForApi ::
    "(string \<Rightarrow> string list option \<times> api_error option) \<Rightarrow> string \<Rightarrow> gv_cache \<Rightarrow> (api_error + string list option) \<times> gv_cache" where
  "GetAvailableResourcesForApi query groupVersion cache =
     (case map_of cache groupVersion of
        Some resources \<Rightarrow> (Inr resources, cache)
      | None \<Rightarrow>
          (case query groupVersion of
             (resources, err) \<Rightarrow>
               if err \<noteq> None \<and> err \<noteq> Some NotFound then (Inl (the err), cache)
               else (Inr resources, SetAvailableResourcesForApi groupVersion resources cache)))"

definition IsCrdAvailable ::
    "(string \<Rightarrow> string list option \<times> api_error option) \<Rightarrow> string \<Rightarrow> string \<Rightarrow> gv_cache \<Rightarrow> (api_error + bool) \<times> gv_cache" where
  "IsCrdAvailable query groupVersion kind cache =
     (case GetAvailableResourcesForApi query groupVersion cache of
        (Inl e, cache) \<Rightarrow> (Inl e, cache)
      | (Inr resources, cache) \<Rightarrow> (Inr (case resources of Some kinds \<Rightarrow> kind \<in> set kinds | None \<Rightarrow> False), cache))"

text \<open>The first answer stays: a later call makes no query, so it gives the same whatever the cluster has become, and a CRD that was missing at first is never seen.\<close>

theorem first_answer_stays:
  assumes "IsCrdAvailable query gv kind cache = (Inr b, cache')"
  shows "IsCrdAvailable query' gv kind cache' = (Inr b, cache')"
proof -
  obtain resources where r: "GetAvailableResourcesForApi query gv cache = (Inr resources, cache')"
    "b = (case resources of Some kinds \<Rightarrow> kind \<in> set kinds | None \<Rightarrow> False)"
    using assms by (auto simp: IsCrdAvailable_def split: prod.splits sum.splits)
  then have "map_of cache' gv = Some resources"
    by (auto simp: GetAvailableResourcesForApi_def SetAvailableResourcesForApi_def split: option.splits prod.splits if_splits)
  then show ?thesis using r(2) by (simp add: IsCrdAvailable_def GetAvailableResourcesForApi_def)
qed

text \<open>An error is not cached: the next call asks again.\<close>

lemma error_not_cached: "IsCrdAvailable query gv kind cache = (Inl e, cache') \<Longrightarrow> cache' = cache \<and> map_of cache gv = None"
  by (auto simp: IsCrdAvailable_def GetAvailableResourcesForApi_def split: option.splits prod.splits sum.splits if_splits)

section \<open>The namespace of the model registry\<close>

datatype mr_error = ListFailed api_error | NotOneCluster | BadField string | InvalidNamespace

definition mrNamespaceFields :: "string list list" where
  "mrNamespaceFields = [[''spec'', ''components'', ''aiHub'', ''instancesNamespace''], [''spec'', ''components'', ''modelregistry'', ''registriesNamespace'']]"

text \<open>\<open>nested\<close> is \<open>unstructured.NestedString\<close>: an error, or the value if it is there.\<close>

fun firstNamespace :: "(string list \<Rightarrow> string + string option) \<Rightarrow> string list list \<Rightarrow> mr_error + string" where
  "firstNamespace nested [] = Inl InvalidNamespace"
| "firstNamespace nested (path # rest) =
     (case nested path of
        Inl e \<Rightarrow> Inl (BadField e)
      | Inr (Some namespace) \<Rightarrow> if namespace \<noteq> [] then Inr namespace else firstNamespace nested rest
      | Inr None \<Rightarrow> firstNamespace nested rest)"

definition modelRegistryNamespace :: "(string list \<Rightarrow> string + string option) \<Rightarrow> mr_error + string" where
  "modelRegistryNamespace nested = firstNamespace nested mrNamespaceFields"

definition NewModelRegistryInferenceServiceReconciler :: "api_error + (string list \<Rightarrow> string + string option) list \<Rightarrow> mr_error + string" where
  "NewModelRegistryInferenceServiceReconciler dscList =
     (case dscList of
        Inl e \<Rightarrow> Inl (ListFailed e)
      | Inr [dsc] \<Rightarrow> modelRegistryNamespace dsc
      | Inr _ \<Rightarrow> Inl NotOneCluster)"

lemma registry_namespace:
  assumes "NewModelRegistryInferenceServiceReconciler dscs = Inr ns"
  shows "ns \<noteq> [] \<and> (\<exists>dsc. dscs = Inr [dsc] \<and> (\<exists>path \<in> set mrNamespaceFields. dsc path = Inr (Some ns)))"
proof -
  have f: "firstNamespace nested fs = Inr ns \<Longrightarrow> ns \<noteq> [] \<and> (\<exists>path \<in> set fs. nested path = Inr (Some ns))" for nested fs
    by (induction nested fs rule: firstNamespace.induct) (auto split: sum.splits option.splits if_splits)
  show ?thesis using assms f
    by (auto simp: NewModelRegistryInferenceServiceReconciler_def modelRegistryNamespace_def split: sum.splits list.splits)
qed

end
