(* ===== verification/Ray_Script.thy ===== *)
theory Ray_Script
  imports Prelude
begin

text \<open>
  The script of the init container that the pod webhook adds (internal/webhook/core/v1/pod_webhook.go): it waits for the certificate of the authority and
  then for the pod's own, and copies both. \<open>ca\<close> and \<open>cert\<close> say whether the file is there at a time, in seconds after the start; commands take no time
  but \<open>sleep\<close>. The second loop sets a variable it does not use, so it goes on with the counter of the first.
\<close>

definition RETRY_INTERVAL :: nat where "RETRY_INTERVAL = 10"
definition MAX_RETRIES :: nat where "MAX_RETRIES = 24"
definition INITIAL_DELAY_SECONDS :: nat where "INITIAL_DELAY_SECONDS = 10"

text \<open>A loop, from a value of the counter on: whether it copied its file, and the counter and the time at which it ended.\<close>

function waitLoop :: "(nat \<Rightarrow> bool) \<Rightarrow> nat \<Rightarrow> nat \<Rightarrow> bool \<times> nat \<times> nat" where
  "waitLoop file retries now =
     (if retries \<le> MAX_RETRIES then
        (if file now then (True, retries, now) else waitLoop file (Suc retries) (now + RETRY_INTERVAL))
      else (False, retries, now))"
  by pat_completeness auto

termination waitLoop
  by (relation "measure (\<lambda>(_, retries, _). Suc MAX_RETRIES - retries)") auto

declare waitLoop.simps [simp del]

definition generatorScript :: "(nat \<Rightarrow> bool) \<Rightarrow> (nat \<Rightarrow> bool) \<Rightarrow> nat \<times> nat" where
  "generatorScript ca cert =
     (case waitLoop ca 0 INITIAL_DELAY_SECONDS of
        (gotCA, retries, now) \<Rightarrow>
          (case waitLoop cert retries now of
             (gotCert, _, now) \<Rightarrow> (if gotCert \<and> gotCA then 0 else 1, now)))"

section \<open>Lemmas\<close>

definition attemptTime :: "nat \<Rightarrow> nat" where
  "attemptTime i = INITIAL_DELAY_SECONDS + RETRY_INTERVAL * i"

lemma attemptTime_Suc: "attemptTime (Suc i) = attemptTime i + RETRY_INTERVAL"
  by (simp add: attemptTime_def)

text \<open>The loop finds the file at the first attempt that is left to it, or gives up with the counter past its limit.\<close>

lemma waitLoop_spec:
  assumes "i \<le> Suc MAX_RETRIES"
  shows "waitLoop file i (attemptTime i) =
     (case find (\<lambda>j. file (attemptTime j)) [i..<Suc MAX_RETRIES] of
        Some j \<Rightarrow> (True, j, attemptTime j)
      | None \<Rightarrow> (False, Suc MAX_RETRIES, attemptTime (Suc MAX_RETRIES)))"
  using assms
proof (induction rule: inc_induct)
  case base
  show ?case by (simp add: waitLoop.simps [of _ "Suc MAX_RETRIES"])
next
  case (step i)
  have "[i..<Suc MAX_RETRIES] = i # [Suc i..<Suc MAX_RETRIES]" using step.hyps by (simp add: upt_conv_Cons)
  then show ?case using step by (simp add: waitLoop.simps [of _ i] attemptTime_Suc)
qed

lemma find_hit: "find P xs = Some x \<Longrightarrow> x \<in> set xs \<and> P x"
  by (induction xs) (auto split: if_splits)

lemma find_attempt: "find P [i..<Suc MAX_RETRIES] = Some j \<Longrightarrow> i \<le> j \<and> j \<le> MAX_RETRIES \<and> P j"
  by (drule find_hit) auto

lemma find_miss: "find P [i..<Suc MAX_RETRIES] = None \<Longrightarrow> i \<le> j \<Longrightarrow> j \<le> MAX_RETRIES \<Longrightarrow> \<not> P j"
  by (auto simp: find_None_iff)

lemma script_spec:
  "fst (generatorScript ca cert) = 0 \<longleftrightarrow>
     (\<exists>i. find (\<lambda>j. ca (attemptTime j)) [0..<Suc MAX_RETRIES] = Some i \<and> (\<exists>j. i \<le> j \<and> j \<le> MAX_RETRIES \<and> cert (attemptTime j)))"
proof -
  have 0: "INITIAL_DELAY_SECONDS = attemptTime 0" by (simp add: attemptTime_def)
  have ca: "waitLoop ca 0 INITIAL_DELAY_SECONDS =
      (case find (\<lambda>j. ca (attemptTime j)) [0..<Suc MAX_RETRIES] of
         Some j \<Rightarrow> (True, j, attemptTime j)
       | None \<Rightarrow> (False, Suc MAX_RETRIES, attemptTime (Suc MAX_RETRIES)))"
    unfolding 0 by (rule waitLoop_spec) simp
  show ?thesis
  proof (cases "find (\<lambda>j. ca (attemptTime j)) [0..<Suc MAX_RETRIES]")
    case None
    then show ?thesis by (simp add: generatorScript_def ca case_prod_unfold del: upt_Suc)
  next
    case (Some i)
    from find_attempt [OF Some] have i: "i \<le> Suc MAX_RETRIES" by simp
    have "fst (waitLoop cert i (attemptTime i)) \<longleftrightarrow> (\<exists>j. i \<le> j \<and> j \<le> MAX_RETRIES \<and> cert (attemptTime j))"
      unfolding waitLoop_spec [OF i] by (auto simp del: upt_Suc split: option.split dest: find_attempt find_miss)
    then show ?thesis by (simp add: generatorScript_def ca Some case_prod_unfold del: upt_Suc)
  qed
qed

section \<open>How long the script waits\<close>

text \<open>
  Property C40. For files that stay once they are there, and with commands other than sleep taking no time, the script succeeds exactly when both are there
  250 seconds after its start: the two waits share one budget of 25 attempts, since the second loop goes on with the counter of the first.
\<close>

theorem script_succeeds_iff:
  assumes "\<And>s t. s \<le> t \<Longrightarrow> ca s \<Longrightarrow> ca t" "\<And>s t. s \<le> t \<Longrightarrow> cert s \<Longrightarrow> cert t"
  shows "fst (generatorScript ca cert) = 0 \<longleftrightarrow> ca 250 \<and> cert 250"
proof -
  have last: "attemptTime MAX_RETRIES = 250" by (simp add: attemptTime_def INITIAL_DELAY_SECONDS_def RETRY_INTERVAL_def MAX_RETRIES_def)
  have mono: "j \<le> MAX_RETRIES \<Longrightarrow> attemptTime j \<le> 250" for j unfolding last [symmetric] by (simp add: attemptTime_def)
  show ?thesis
  proof
    assume "fst (generatorScript ca cert) = 0"
    then obtain i j where i: "find (\<lambda>j. ca (attemptTime j)) [0..<Suc MAX_RETRIES] = Some i" and j: "j \<le> MAX_RETRIES" "cert (attemptTime j)"
      unfolding script_spec by blast
    from find_attempt [OF i] j show "ca 250 \<and> cert 250" using assms mono by blast
  next
    assume both: "ca 250 \<and> cert 250"
    then have "find (\<lambda>j. ca (attemptTime j)) [0..<Suc MAX_RETRIES] \<noteq> None" using last by (auto simp: find_None_iff)
    then obtain i where i: "find (\<lambda>j. ca (attemptTime j)) [0..<Suc MAX_RETRIES] = Some i" by blast
    from find_attempt [OF i] have "i \<le> MAX_RETRIES" by simp
    then show "fst (generatorScript ca cert) = 0" unfolding script_spec using i both last by auto
  qed
qed

theorem script_succeeds_iff_witness:
  "fst (generatorScript (\<lambda>t. 100 \<le> t) (\<lambda>t. 240 \<le> t)) = 0 \<and> fst (generatorScript (\<lambda>t. 250 \<le> t) (\<lambda>t. 251 \<le> t)) \<noteq> 0"
  using script_succeeds_iff [of "\<lambda>t. 100 \<le> t" "\<lambda>t. 240 \<le> t"] script_succeeds_iff [of "\<lambda>t. 250 \<le> t" "\<lambda>t. 251 \<le> t"] by simp

end
