(* ===== verification/Spec2Isabelle.thy ===== *)
theory Spec2Isabelle
  imports ISVC_Hardware LLM_Hardware Graph_Webhook Pod_Webhook NIM_Webhook CA_Bundle
    Gateway_Controller Gateway_Discovery Grid_Controller Policy_Order Metrics_Objects Ray_Runtime LLM_Controller NIM_Healthy
    Informer_Source TLS_Profile Cert_Reloader ISVC_Events Discovery_Server Cluster_Info Ray_Script
begin

text \<open>
  A verification library for the odh-model-controller, the operator that extends KServe on OpenShift AI.

  \<^bold>\<open>The program.\<close> One binary (cmd/main.go) runs admission webhooks and controllers against the Kubernetes API server; a second
  one (server/) tells users which gateways they may use.
  \<^item> Webhooks (internal/webhook). When a workload is created or updated, the defaulters inject the credentials of the data connection
    that its annotation names and the settings of its hardware profile, and the validators accept or refuse it. The pod webhook adds an init
    container to Ray pods, the Account webhook allows one NIM Account per namespace.
  \<^item> Core controllers (internal/controller/core). They keep the storage-config Secret, the CA bundle and the certificates of Ray pods.
  \<^item> Serving controllers (internal/controller/serving). An InferenceService gets a Route, network policies, a binding for
    its authentication proxy, metrics objects and access to Prometheus for KEDA; an InferenceGraph gets the policy of its router; a ServingRuntime gets
    the Ray certificate authority.
  \<^item> LLM controllers (internal/controller/serving/llm). A gateway in use gets an EnvoyFilter, an AuthPolicy and a PodMonitor; an
    LLMInferenceService gets the policies of its routes, and is published to the Grid.
  \<^item> NIM controller (internal/controller/nim). It validates the API key of an Account at NVIDIA's service and keeps three objects that depend on it.
  \<^item> Discovery server (server/). It answers which listeners of which gateways admit a namespace.
  The parts interact through the objects they keep. The webhooks stamp annotations that the controllers read; the storage-config Secret is
  deleted when the CA bundle changes and built again; the ServingRuntime controller makes the authority with which the pod controller signs, and the pods' script waits for
  what both file in one Secret; the Route is written only after the network policies; the server and the gateway controller have to agree on
  the rule of a listener, the Service, the monitor and the policy on the metrics port. This theory has the properties that
  span components; the others have those of one.

  \<^bold>\<open>How the code is translated.\<close> A struct is a record with the fields the code touches, a Go map with string keys an
  association list with Go's reading and writing (\<open>Prelude\<close>), a nil pointer None, an error the left side of a sum, a panic a value of its
  own. Integers are words where their width matters (ports, weights, timeouts, TLS identifiers) and int elsewhere. Reads of the API server are
  fields of a record of answers; writes are returned as a list in the order of the calls, together with the error. Where an object may
  change between two calls of one operation (Grid, KEDA, NIM, the Ray Secrets) every call is a function on a state and may fail. Concurrent code
  (the informer source, the certificate reloader, admission of Accounts) is an inductive step relation over the sections that run without interruption.
  Definitions keep the names of the code where HOL allows it.

  \<^bold>\<open>Shared theories.\<close>
  \<^item> \<open>Prelude\<close>: Go maps, strings, decimal numbers and API results; \<open>K8s_Types\<close>: metadata, Secrets, containers, claims, requests.
  \<^item> \<open>Reserved_Entry\<close>: the contract of an entry under a reserved name; interpreted on annotations and pull secrets (\<open>Connection_API\<close>) and
    resource claims (\<open>HWP_DRA\<close>).
  \<^item> \<open>Admission\<close>: stages that are stable on their own output, and their composition; interpreted in \<open>ISVC_Hardware\<close>, \<open>LLM_Hardware\<close> and
    \<open>Pod_Webhook\<close>.
  \<^item> \<open>Managed_Children\<close> (utils/utils.go, processors/deltaProcessor.go, the stores of resources/): the delta of a kept object,
    and the contracts of operations that settle and of those that leave foreign objects alone; interpreted in \<open>Gateway_Controller\<close>,
    \<open>LLM_Policies\<close>, \<open>Policy_Reconciler\<close>, \<open>Ray_Runtime\<close> and, through \<open>delta_reconciler\<close>, in \<open>Metrics_Objects\<close>.

  \<^bold>\<open>Webhooks.\<close>
  \<^item> \<open>Connection_API\<close> (connectionapi/annotations.go, utils.go) and \<open>Connection_Target\<close>, the interface between the connections API and
    the two workloads it serves. Shown: what an injection and its cleanup change, that the two cancel, and which ServiceAccounts may be written.
  \<^item> \<open>HWP_Resolver\<close>, \<open>HWP_Injector\<close>, \<open>HWP_DRA\<close>, \<open>HWP_Stage\<close> (hardwareprofile/resolver.go, injector.go, dra.go). Shown: which value
    a resource gets, merge and removal of scheduling, one reserved claim per workload, stability of every piece.
  \<^item> \<open>ISVC_Webhook\<close>, \<open>ISVC_Hardware\<close> (v1beta1/inferenceservice_webhook.go) and \<open>LLM_Webhook\<close>, \<open>LLM_Hardware\<close>
    (v1alpha2/llminferenceservice_webhook.go). Shown: idempotence of the defaulters, that their output passes the validator, the exact set of accepted objects.
  \<^item> \<open>Graph_Webhook\<close>, \<open>NIM_Webhook\<close>, \<open>Pod_Webhook\<close>, \<open>Ray_Script\<close>. Shown: the accepted graphs; a second Account refused once the cache shows the first, and the
    race before it does; what the pod webhook adds; when the script of its init container succeeds.

  \<^bold>\<open>Core controllers and certificates.\<close>
  \<^item> \<open>Storage_Config\<close> (core/secret_controller.go) and \<open>CA_Bundle\<close> (core/configmap_controller.go). Shown: the content of the objects,
    which writes are made, after how many runs nothing is written any more.
  \<^item> \<open>PEM_Codec\<close>, \<open>Certificates\<close> (utils/cert.go). Shown: decoding gives back what was encoded, and a CA Secret what was signed; the years for
    which the authority stays, with leap days.
  \<^item> \<open>Ray_Pods\<close> (core/pod_controller.go) and \<open>Ray_Runtime\<close> (serving/servingruntime_controller.go). Shown: that a namespace has the Ray Secret while one of its runtimes is
    multi-node, which certificates it holds after a reconcile, and how a new authority reaches every namespace.

  \<^bold>\<open>InferenceServices and graphs.\<close>
  \<^item> \<open>ISVC_Controller\<close>, \<open>ISVC_Events\<close> (inferenceservice_controller.go, kserve_raw_inferenceservice_reconciler.go). Shown: the finalizer goes
    last; every service that an event concerns is enqueued.
  \<^item> \<open>Network_Policy\<close>, \<open>Policy_Reconciler\<close>, \<open>Policy_Order\<close> (kserve_raw_networkpolicy_reconciler.go, kserve_raw_inferencegraph_networkpolicy_reconciler.go,
    inferencegraph_controller.go). Shown: exactly which traffic a policy admits, by the rule of the Kubernetes documentation; that a quiet reconcile leaves the computed
    policies in force and foreign ones alone, and that a later one, which may go through the nodes of a graph in another order, can rewrite a policy but not change what it admits.
  \<^item> \<open>Raw_Route\<close>, \<open>Serving_Runtime\<close>, \<open>Auth_Binding\<close>, \<open>Metrics_Objects\<close>, \<open>KEDA_Auth\<close>: the other reconcilers of a service. Shown: canary weights in 32 bits,
    the runtime chosen, the binding of an account, convergence of the metrics objects, and that no service loses the access to Prometheus it shares with others.

  \<^bold>\<open>Gateways, LLM services and the Grid.\<close>
  \<^item> \<open>Gateway_API\<close>, \<open>Gateway_Refs\<close>, \<open>Auth_Policy\<close>, \<open>Gateway_Controller\<close> (gateway_controller.go, resources/authpolicy.go, envoyfilter.go, options.go,
    grid_config.go). Shown: when a gateway counts as used, that its events miss no gateway, whose objects are written, convergence.
  \<^item> \<open>LLM_Policies\<close>, \<open>LLM_Controller\<close> (llm/reconcilers, llm_inferenceservice_controller.go, maas_rbac_cleanup.go). Shown: with authentication on no route of the service
    keeps an anonymous policy; which services an event enqueues; the finalizer.
  \<^item> \<open>Grid_Endpoints\<close>, \<open>Grid_Metrics\<close>, \<open>Grid_Cleanup\<close>, \<open>Grid_Controller\<close> (grid_controller.go). Shown: which address is published; the invariant that what
    is published is always covered by the finalizer, whatever call fails; that the cleanup is exact and complete.
  \<^item> \<open>Gateway_Discovery\<close>, \<open>Discovery_Server\<close>, \<open>Cert_Reloader\<close> (server/). Shown: what is revealed and to whom, which calls are made with whose account,
    the headers of every response, the bounds of the configuration, that the newest certificate is served once the reloads are done.

  \<^bold>\<open>NIM and infrastructure.\<close>
  \<^item> \<open>NIM_Catalog\<close>, \<open>NIM_Status\<close>, \<open>NIM_Account\<close> (utils/nim.go, utils/conditions.go, nim/handlers, account_controller.go), with \<open>NIM_Demo\<close>, a small cluster for
    the witnesses. Shown in \<open>NIM_Safety\<close>, \<open>NIM_Progress\<close> and \<open>NIM_Healthy\<close>: objects need a valid key, a rejected key withdraws them, and an account becomes healthy.
  \<^item> \<open>Informer_Source\<close> (informercache/configmap_source.go). Shown: in every interleaving one informer per reference, the right ones when all calls are done. What runs under the
    lock is one step and building may fail, so a lock that is not released or a build that never returns is outside the model.
  \<^item> \<open>TLS_Profile\<close> (pkg/tls/tls.go, watcher.go), \<open>Cluster_Info\<close> (utils/utils.go, model_registry_reconciler.go). Shown: settings fail closed, which answers stay cached.

  \<^bold>\<open>Parameters and their hypotheses.\<close> Code of other modules is a parameter, and a theorem names what it needs of it: KServe (the merge of specs, the stop
  annotation, address helpers, naming), apimachinery (label selectors, validators, condition helpers, the unstructured accessors, DeepDerivative), controller-runtime
  (SetControllerReference, RetryOnConflict), Go's crypto, JSON, YAML, template and URL packages, and the API server. A theorem about repeated runs names a
  store in which writes take effect; the hypotheses hold for the concrete clusters of the witnesses. A theorem
  without such a hypothesis holds for every answer of the parameters.

  \<^bold>\<open>Loops and bounds.\<close> No definition needs fuel. Loops over collections are structural recursions or have a measure; the reading
  of the NIM catalog, which a server can keep going, is a partial function whose value None means that it does not end, and \<open>catalog_read_ends\<close> shows when it does.
  An account is healthy within five requeues, one for the finalizer and one for each handler, when the clock stays within its refresh rates meanwhile. Go's iteration over a map has no fixed order: where
  the order is visible the model takes the entries as a list and the theorems hold for every order, or one shows what the order changes.

  \<^bold>\<open>Where the code differs from its intent.\<close> The theorems include the flaws that the modelling showed, among them: two Accounts by a race, a
  foreign EnvoyFilter or Route overwritten, a reordering of base configurations ignored, a policy of a gateway deleted for a route of the same name, a
  revalidation that never ends, an informer left behind by a failed build, a misspelt variable in the script of the Ray pods.

  \<^bold>\<open>Not modelled.\<close> The start of the two binaries (flags, schemes, clients, registration of controllers, watches as configured in the manager, listeners, signals), since it only calls
  libraries; log lines, metrics, traces and recorded events; the texts of the dashboard queries, a parameter of their reconciler; the
  ServiceAccount reconciler, which nothing constructs; the stripping of payloads in informer caches; test fixtures, tools and generated deep copies. Time is what the
  code reads from the clock, as an argument, and times in an object are kept as written although the API server rounds them to seconds; leader election and the delays of work queues are outside the model.
\<close>

section \<open>Properties across components\<close>

text \<open>
  Property C26. The discovery server and the gateway controller agree: the two copies of the listener rule are the
  same function, and a gateway that the server offered to the users of a namespace is one that the controller then counts as
  referenced, when a running service of the namespace names it and both read the same cluster.
\<close>

theorem discovered_gateway_usable:
  assumes offered: "snd (Discover denv tok ns) = Inr refs" "info \<in> set refs"
    and same: "ge_selector env = de_selector denv" "ge_namespace env = de_namespace denv"
    and svc: "ge_services env = Inr svcs" "svc \<in> set svcs" "sv_namespace svc = ns" "\<not> ge_force_stop env (sv_meta svc)"
    and named: "sv_router svc = Some \<lparr>rt_gateway = Some rs\<rparr>" "ge_has_refs env (Some rs)" "r \<in> set rs"
      "ref_key ns r = (gi_namespace info, gi_name info)"
  shows "Gateway_Discovery.listenerAllowsNamespace = Gateway_Refs.listenerAllowsNamespace \<and>
    (\<exists>gws gw. de_list denv (de_label_selector denv) = Inr gws \<and> gw \<in> set gws \<and>
       gateway_key gw = (gi_namespace info, gi_name info) \<and> isGatewayReferencedByLLMService env gw = Inr True)"
proof -
  have eq: "Gateway_Discovery.listenerAllowsNamespace sel = Gateway_Refs.listenerAllowsNamespace sel" for sel
    by (rule controller_rule.agrees) (rule server_rule.namespace_rule_axioms)
  have access: "snd (CheckAccess denv tok ns) = Inr True"
    using offered Discover_denied by fastforce
  from Discover_allowed [OF access offered(1)] offered(2) obtain gws gw l where
    gw: "de_list denv (de_label_selector denv) = Inr gws" "gw \<in> set gws" "l \<in> set (gw_listeners gw)" "info = gatewayInfo gw l"
    and l: "Gateway_Refs.listenerAllowsNamespace (de_selector denv) l (gw_namespace gw) ns (namespace_labels denv ns)"
    by (auto simp: set_FilterListeners eq)
  have key: "gateway_key gw = (gi_namespace info, gi_name info)" by (simp add: gw(4) gatewayInfo_def gateway_key_def)
  have "namespace_labels denv ns = fetchNamespaceLabels env ns"
    by (simp add: namespace_labels_def fetchNamespaceLabels_def same)
  with l gw(3) have "gatewayAllowsNamespace (ge_selector env) gw ns (fetchNamespaceLabels env ns)"
    by (auto simp: gatewayAllowsNamespace_iff same)
  moreover have "gateway_key gw \<in> ref_key ns ` set (getEffectiveGatewayRefs env None svc)"
    using named by (auto simp: key getEffectiveGatewayRefs_def getGatewayRefs_None routerRefs_def image_iff intro!: bexI [of _ r])
  ultimately have "isGatewayReferencedByLLMService env gw = Inr True"
    using svc by (auto simp: referenced_iff [OF svc(1)])
  with gw key eq show ?thesis by (auto simp: fun_eq_iff)
qed

definition naming_service :: llm_service where
  "naming_service = \<lparr>sv_meta = empty_meta\<lparr>om_name := ''svc'', om_namespace := ''apps''\<rparr>,
     sv_router = Some \<lparr>rt_gateway = Some [\<lparr>gr_name = ''gw'', gr_namespace = ''infra'', gr_section = None\<rparr>]\<rparr>, sv_base_refs = []\<rparr>"

definition shared_env :: gateway_env where
  "shared_env = (small_env [] [naming_service] [])\<lparr>ge_selector := (\<lambda>_ _. None), ge_namespace := (\<lambda>_. Inl NotFound)\<rparr>"

theorem discovered_gateway_usable_witness:
  "\<exists>gw. gateway_key gw = (''infra'', ''gw'') \<and> isGatewayReferencedByLLMService shared_env gw = Inr True"
proof -
  let ?info = "\<lparr>gi_name = ''gw'', gi_namespace = ''infra'', gi_listener = ''https'', gi_status = ''Unknown'',
        gi_display_name = [], gi_description = []\<rparr>"
  let ?r = "\<lparr>gr_name = ''gw'', gr_namespace = ''infra'', gr_section = None\<rparr>"
  have "\<exists>gws gw. de_list (demo_discovery True) (de_label_selector (demo_discovery True)) = Inr gws \<and> gw \<in> set gws \<and>
       gateway_key gw = (gi_namespace ?info, gi_name ?info) \<and> isGatewayReferencedByLLMService shared_env gw = Inr True"
    by (rule discovered_gateway_usable [of "demo_discovery True" "''tok''" "''apps''" "[?info]" ?info shared_env
          "[naming_service]" naming_service "[?r]" ?r, THEN conjunct2])
      (use demo_discovery_run in \<open>simp_all add: shared_env_def small_env_def demo_discovery_def naming_service_def ref_key_def\<close>)
  then show ?thesis by auto
qed

subsection \<open>Exposure and network policy\<close>

text \<open>
  The part of the cluster that matters for the exposure of a service: the policies and the routes. The two reconcilers act on it through an
  API server that answers from the stores; \<open>beside\<close> says that another reconciler leaves both stores alone.
\<close>

record exposure =
  ex_policies :: "policy_spec child_store"
  ex_routes :: "route_spec child_store"

definition errors_of :: "api_error option \<Rightarrow> api_error list" where
  "errors_of e = (case e of None \<Rightarrow> [] | Some x \<Rightarrow> [x])"

definition managedIn :: "policy_spec child_store \<Rightarrow> string \<Rightarrow> api_error + network_policy list" where
  "managedIn st ns = Inr (map snd (filter (\<lambda>(k, c). fst k = ns \<and> IsManagedByOdhController (ch_meta c)) st))"

definition policySub :: "net_env \<Rightarrow> (net_isvc, 'z exposure_scheme) sub_reconciler" where
  "policySub env = \<lparr>sub_kind = NetworkPolicySub,
     sub_reconcile = (\<lambda>i s. case ReconcilePolicies env (sd_spec i) (child_store_api (ex_policies s)) of
       (ws, es) \<Rightarrow> (es, s\<lparr>ex_policies := fold apply_child_write ws (ex_policies s)\<rparr>)),
     sub_delete = (\<lambda>i s. case DeletePolicies env (sd_spec i) (child_store_api (ex_policies s)) of
       (ws, es) \<Rightarrow> (es, s\<lparr>ex_policies := fold apply_child_write ws (ex_policies s)\<rparr>)),
     sub_cleanup = (\<lambda>ns s. case CleanupPolicies env (managedIn (ex_policies s)) ns (child_store_api (ex_policies s)) of
       (ws, es) \<Rightarrow> (es, s\<lparr>ex_policies := fold apply_child_write ws (ex_policies s)\<rparr>)),
     sub_unexpose = (\<lambda>i s. ([], s))\<rparr>"

definition routeSub :: "route_env \<Rightarrow> (net_isvc, 'z exposure_scheme) sub_reconciler" where
  "routeSub env = \<lparr>sub_kind = RouteSub,
     sub_reconcile = (\<lambda>i s. case ReconcileRoute env (served_isvc.truncate (sd_spec i)) (child_store_api (ex_routes s)) of
       (ws, e) \<Rightarrow> (errors_of e, s\<lparr>ex_routes := fold apply_child_write ws (ex_routes s)\<rparr>)),
     sub_delete = (\<lambda>i s. ([], s)), sub_cleanup = (\<lambda>ns s. ([], s)),
     sub_unexpose = (\<lambda>i s. case DeleteOwnedRouteIfNotExposed env (served_isvc.truncate (sd_spec i)) (child_store_api (ex_routes s)) of
       (ws, e) \<Rightarrow> (errors_of e, s\<lparr>ex_routes := fold apply_child_write ws (ex_routes s)\<rparr>))\<rparr>"

definition beside :: "(net_isvc, 'z exposure_scheme) sub_reconciler \<Rightarrow> bool" where
  "beside r = (sub_kind r = OtherSub \<and>
     (\<forall>i s. ex_policies (snd (sub_reconcile r i s)) = ex_policies s \<and> ex_routes (snd (sub_reconcile r i s)) = ex_routes s))"

lemma rawReconcile_beside:
  "\<forall>r \<in> set rs. beside r \<Longrightarrow> rawReconcile rs i b s = (es, s') \<Longrightarrow> ex_policies s' = ex_policies s \<and> ex_routes s' = ex_routes s"
proof (induction rs arbitrary: s b es)
  case (Cons r rs)
  obtain e1 s1 where r: "sub_reconcile r i s = (e1, s1)" by fastforce
  obtain e2 where rs: "rawReconcile rs i b s1 = (e2, s')"
    using Cons.prems r by (auto simp: beside_def split: prod.splits)
  from Cons.prems(1) r have "ex_policies s1 = ex_policies s" "ex_routes s1 = ex_routes s"
    by (auto simp: beside_def dest: spec [of _ i] spec [of _ s])
      (metis snd_conv)+
  with Cons.IH [OF _ rs] Cons.prems(1) show ?case by simp
qed simp

lemma unexpose_only_deletes:
  assumes "map_of (fold apply_child_write (fst (DeleteOwnedRouteIfNotExposed env isvc (child_store_api st))) st) k = Some c"
  shows "map_of st k = Some c"
  using assms
  by (auto simp: DeleteOwnedRouteIfNotExposed_def getExistingRoute_def split: if_splits option.splits)

text \<open>
  Property C7. No Route without its policy: when the reconcilers of a service ran, in the order of the code, and a Route is new or
  changed afterwards, then the policy of the predictor is in force as computed from the current state, and so is that of the
  transformer if the service has one.
\<close>

theorem exposure_needs_policy:
  assumes laws: "net_laws env" "kc_component env \<noteq> KserveGroupAnnotation"
    and names: "rawNetworkPolicyName env isvc predictorNetworkPolicyComponent \<noteq> rawNetworkPolicyName env isvc transformerNetworkPolicyComponent"
    and inputs: "listComponentServices env isvc = Inr services" "graphIngressRules env isvc services = Inr rules"
    and others: "\<forall>r \<in> set xs \<union> set ys. beside r" and wf: "wf_children (ex_policies s)"
    and run: "rawReconcile (xs @ policySub env # routeSub renv # ys) \<lparr>sd_meta = si_meta isvc, sd_spec = isvc\<rparr> False s = (es, s')"
    and route: "map_of (ex_routes s') k = Some c" "map_of (ex_routes s) k \<noteq> Some c"
  shows "in_force env isvc services rules (ex_policies s') predictorNetworkPolicyComponent \<and>
    transformer_settled env isvc services rules (ex_policies s')"
proof -
  let ?i = "\<lparr>sd_meta = si_meta isvc, sd_spec = isvc\<rparr>"
  have ok: "\<forall>r \<in> set xs. beside r" "\<forall>r \<in> set ys. beside r" "list_all (\<lambda>x. sub_kind x \<noteq> NetworkPolicySub) xs"
    using others by (auto simp: list_all_iff beside_def)
  obtain e1 s1 where xs: "rawReconcile xs ?i False s = (e1, s1)" by fastforce
  note s1 = rawReconcile_beside [OF ok(1) xs]
  obtain ws pe where pol: "ReconcilePolicies env isvc (child_store_api (ex_policies s)) = (ws, pe)" by fastforce
  let ?s2 = "s1\<lparr>ex_policies := fold apply_child_write ws (ex_policies s)\<rparr>"
  from run obtain e3 where rest: "rawReconcile (routeSub renv # ys) ?i (pe \<noteq> []) ?s2 = (e3, s')"
    by (simp add: rawReconcile_append [OF ok(3)] xs policySub_def pol s1 del: rawReconcile.simps(2) split: prod.splits)
      (simp add: pol s1 split: prod.splits)
  show ?thesis
  proof (cases "pe = []")
    case True
    have "ex_policies s' = fold apply_child_write ws (ex_policies s)"
      using rest True rawReconcile_beside [OF ok(2)] by (auto simp: routeSub_def split: prod.splits)
    then show ?thesis using ReconcilePolicies_after [OF laws names wf inputs pol refl] True by simp
  next
    case False
    have "ex_routes s' = fold apply_child_write (fst (DeleteOwnedRouteIfNotExposed renv (served_isvc.truncate isvc) (child_store_api (ex_routes s)))) (ex_routes s)"
      using rest False rawReconcile_beside [OF ok(2)] s1 by (auto simp: routeSub_def split: prod.splits)
    with route unexpose_only_deletes show ?thesis by metis
  qed
qed

definition demo_route_env :: route_env where
  "demo_route_env = \<lparr>re_services = (\<lambda>_ _. Inr [core_service.truncate demo_predictor]), re_service = (\<lambda>_. Inr (core_service.truncate demo_predictor)),
     re_own = (\<lambda>_ m. Inr m), re_isvc_api = ''serving.kserve.io/v1beta1''\<rparr>"

lemma demo_route_run:
  "\<exists>c. child_key c = (''ns'', ''m'') \<and>
     ReconcileRoute demo_route_env (served_isvc.truncate (demo_isvc exposed_label [])) (child_store_api []) = ([CreateChild c], None)"
  by (simp add: ReconcileRoute_def createDesiredRoute_def targetService_def demo_route_env_def demo_isvc_def served_isvc.defs routeEnabled_def
      exposed_label_def m_str_def demo_predictor_def core_service.defs setRouteTargetPort_def demo_port_def getExistingRoute_def processRouteDelta_def
      ComputeDelta_def checkRouteTargetPort_def child_key_def)

theorem exposure_needs_policy_witness:
  "in_force (demo_net [demo_predictor] []) (demo_isvc exposed_label []) demo_services ([], [])
     (ex_policies (snd (rawReconcile [policySub (demo_net [demo_predictor] []), routeSub demo_route_env]
        \<lparr>sd_meta = si_meta (demo_isvc exposed_label []), sd_spec = demo_isvc exposed_label []\<rparr> False \<lparr>ex_policies = [], ex_routes = []\<rparr>)))
     predictorNetworkPolicyComponent"
proof -
  let ?env = "demo_net [demo_predictor] []" and ?i = "demo_isvc exposed_label []" and ?s = "\<lparr>ex_policies = [], ex_routes = []\<rparr> :: exposure"
  let ?subs = "[] @ policySub ?env # routeSub demo_route_env # []"
  obtain c where c: "child_key c = (''ns'', ''m'')"
    "ReconcileRoute demo_route_env (served_isvc.truncate ?i) (child_store_api []) = ([CreateChild c], None)"
    using demo_route_run by blast
  obtain es s' where run: "rawReconcile ?subs \<lparr>sd_meta = si_meta ?i, sd_spec = ?i\<rparr> False ?s = (es, s')" by fastforce
  then have "map_of (ex_routes s') (''ns'', ''m'') = Some c"
    by (auto simp: policySub_def routeSub_def demo_reconcile c)
  from exposure_needs_policy [OF demo_net_laws demo_names(2) demo_names(1) demo_inputs demo_policy_run(2) _ _ run this]
  show ?thesis using run by (simp add: wf_children_def)
qed

subsection \<open>The way to the metrics\<close>

text \<open>
  The ports of the metrics Service in the cluster that count for the network policy: those of a Service that belongs to the InferenceService, as far as they
  have a target.
\<close>

definition storedMetricsPorts :: "net_env \<Rightarrow> net_isvc \<Rightarrow> service_port list" where
  "storedMetricsPorts env isvc =
     (case nv_service env (metricsKey isvc) of
        Inl _ \<Rightarrow> []
      | Inr svc \<Rightarrow> if ownService env isvc svc then filter (\<lambda>sp. port_set (targetOf sp)) (cs_ports svc) else [])"

lemma metricsPorts_admit:
  assumes "runtimeMetricsPort env isvc = Some n" "n \<noteq> 0" "\<forall>svc. nv_service env (metricsKey isvc) = Inr svc \<longrightarrow> port_names_ok (cs_ports svc)"
  shows "list_ex (\<lambda>q. port_admits named q protocol k) (metricsPorts env isvc) \<longleftrightarrow>
    (if storedMetricsPorts env isvc = [] then protocol = ''TCP'' \<and> k = n
     else \<exists>sp \<in> set (storedMetricsPorts env isvc). service_port_admits named sp protocol k)"
proof -
  have key: "(om_namespace (si_meta isvc), getMetricsServiceName isvc) = metricsKey isvc"
    by (simp add: metricsKey_def metricsName_def getMetricsServiceName_def)
  let ?fallback = "[\<lparr>sp_name = [], sp_port = n, sp_protocol = ''TCP'', sp_target = PortNumber n, sp_app_protocol = None\<rparr>]"
  have fallback: "list_ex (\<lambda>q. port_admits named q protocol k) (networkPolicyPorts ?fallback) \<longleftrightarrow> protocol = ''TCP'' \<and> k = n"
    using assms(2) by (subst networkPolicyPorts_admits)
      (auto simp: port_names_ok_def service_port_admits_def protocolOf_def targetOf_def port_set_def target_is_def)
  have stored: "list_ex (\<lambda>q. port_admits named q protocol k) (networkPolicyPorts (cs_ports svc)) \<longleftrightarrow>
      (\<exists>sp \<in> set (filter (\<lambda>sp. port_set (targetOf sp)) (cs_ports svc)). service_port_admits named sp protocol k)"
    if "nv_service env (metricsKey isvc) = Inr svc" for svc
    using that assms(3) by (auto simp: networkPolicyPorts_admits service_port_admits_def)
  show ?thesis
    by (cases "nv_service env (metricsKey isvc)")
      (auto simp: metricsPorts_def assms(1) key storedMetricsPorts_def fallback stored networkPolicyPorts_Nil filter_empty_conv)
qed

text \<open>
  Property C25. The four objects through which metrics are read fit together, when the port annotation of the runtime is a number from 1 to 65535 as \<open>strconv.ParseInt\<close>
  reads it, and the Service and the ServiceMonitor can be computed. The Service to be written has exactly this port; the ServiceMonitor names the port of the Service and selects
  the labels it carries. The network policy opens the target ports of the metrics Service that is in the cluster, and the port of the annotation when there is none of
  the InferenceService; so once the Service that was computed is stored, it opens exactly this port. A Service with an older port, until it is written, keeps its
  own port open instead.
\<close>

theorem metrics_path_open:
  assumes runtime: "FindSupportingRuntimeForISvc (nv_runtimes env) isvc = Inr (Some r)"
      "parse_int 64 (m_str (sr_annotations r) (kc_prometheus_port env)) = Some n" "1 \<le> n" "n \<le> 65535"
    and same: "me_runtimes menv = nv_runtimes env" "me_port_key menv = kc_prometheus_port env"
    and desired: "createDesiredMetricsService menv isvc = Inr (Some s)" "createDesiredServiceMonitor menv isvc = Inr (Some m)"
    and names: "\<forall>svc. nv_service env (metricsKey isvc) = Inr svc \<longrightarrow> port_names_ok (cs_ports svc)"
  shows "(\<exists>p. se_ports (ch_spec s) = [p] \<and> sp_port p = n \<and> sp_target p = PortNumber n \<and> mo_port (ch_spec m) = sp_name p) \<and>
    labels_match (mo_selector (ch_spec m)) (om_labels (ch_meta s)) \<and>
    (\<forall>named protocol k. list_ex (\<lambda>q. port_admits named q protocol k) (metricsPorts env isvc) \<longleftrightarrow>
       (if storedMetricsPorts env isvc = [] then protocol = ''TCP'' \<and> k = n
        else \<exists>sp \<in> set (storedMetricsPorts env isvc). service_port_admits named sp protocol k)) \<and>
    (storedMetricsPorts env isvc \<in> {[], se_ports (ch_spec s)} \<longrightarrow>
       (\<forall>named protocol k. list_ex (\<lambda>q. port_admits named q protocol k) (metricsPorts env isvc) \<longleftrightarrow> protocol = ''TCP'' \<and> k = n))"
proof -
  have n32: "int32 n = n" using runtime(3,4) by (simp add: int32_small)
  have found: "FindSupportingRuntimeForISvc (me_runtimes menv) isvc = Inr (Some r)" "parse_int 64 (m_str (sr_annotations r) (me_port_key menv)) = Some n"
    using runtime same by simp_all
  note s = desired_service_port [OF found desired(1), unfolded n32]
  have "parse_int 32 (trim_space (m_str (sr_annotations r) (kc_prometheus_port env))) = Some n"
    using runtime parse_int_narrow [OF runtime(2), of 32] by (simp add: parse_int_trim)
  then have port: "runtimeMetricsPort env isvc = Some n" using runtime by (simp add: runtimeMetricsPort_def)
  have n0: "n \<noteq> 0" using runtime(3) by simp
  note admit = metricsPorts_admit [OF port n0 names]
  have "service_port_admits named p protocol k \<longleftrightarrow> protocol = ''TCP'' \<and> k = n" if "se_ports (ch_spec s) = [p]" for named p protocol k
    using that n0 by (auto simp: s(1) service_port_admits_def protocolOf_def targetOf_def port_set_def target_is_def)
  then have exact: "list_ex (\<lambda>q. port_admits named q protocol k) (metricsPorts env isvc) \<longleftrightarrow> protocol = ''TCP'' \<and> k = n"
    if "storedMetricsPorts env isvc \<in> {[], se_ports (ch_spec s)}" for named protocol k
    using that unfolding admit by (auto simp: s(1))
  have labels: "labels_match (mo_selector (ch_spec m)) (om_labels (ch_meta s))"
    by (simp add: desired_monitor [OF found(1) desired(2)] s(2) labels_match_def)
  have service: "\<exists>p. se_ports (ch_spec s) = [p] \<and> sp_port p = n \<and> sp_target p = PortNumber n \<and> mo_port (ch_spec m) = sp_name p"
    using desired_monitor(1) [OF found(1) desired(2)] s(1) by simp
  show ?thesis unfolding admit [symmetric] using service labels exact by blast
qed

definition scraped_isvc :: net_isvc where
  "scraped_isvc = (demo_isvc [] [])\<lparr>si_model := Some \<lparr>pm_runtime = Some ''rt'', pm_format = []\<rparr>\<rparr>"

definition scraped_net :: net_env where
  "scraped_net = (demo_net [] [])\<lparr>nv_runtimes := me_runtimes (scraped_env (dec_int 8080))\<rparr>"

theorem metrics_path_open_witness:
  "list_ex (\<lambda>q. port_admits (\<lambda>_ _. None) q ''TCP'' 8080) (metricsPorts scraped_net scraped_isvc)"
proof -
  let ?menv = "scraped_env (dec_int 8080)"
  have r: "FindSupportingRuntimeForISvc (nv_runtimes scraped_net) scraped_isvc = Inr (Some (scraped_runtime (dec_int 8080)))"
    by (simp add: FindSupportingRuntimeForISvc_def scraped_isvc_def scraped_net_def scraped_env_def)
  have env: "nv_runtimes scraped_net = me_runtimes ?menv" "kc_prometheus_port scraped_net = me_port_key ?menv"
      "m_str (sr_annotations (scraped_runtime (dec_int 8080))) (me_port_key ?menv) = dec_int 8080" "nv_service scraped_net k = Inl NotFound" for k
    by (simp_all add: scraped_net_def demo_net_def scraped_env_def scraped_runtime_def m_str_def)
  have own: "owned ?menv scraped_isvc c = Inr (c\<lparr>ch_meta := (ch_meta c)\<lparr>om_owners := []\<rparr>\<rparr>)" for c :: "'s child"
    by (simp add: owned_def scraped_env_def)
  have "\<exists>s. createDesiredMetricsService ?menv scraped_isvc = Inr (Some s)" "\<exists>m. createDesiredServiceMonitor ?menv scraped_isvc = Inr (Some m)"
    unfolding createDesiredMetricsService_def createDesiredServiceMonitor_def r [unfolded env(1)] by (simp_all add: env(3) parse_int_dec_int own)
  then obtain s m where sm: "createDesiredMetricsService ?menv scraped_isvc = Inr (Some s)" "createDesiredServiceMonitor ?menv scraped_isvc = Inr (Some m)" by blast
  have stored: "storedMetricsPorts scraped_net scraped_isvc = []" by (simp add: storedMetricsPorts_def env(4))
  have port: "parse_int 64 (m_str (sr_annotations (scraped_runtime (dec_int 8080))) (kc_prometheus_port scraped_net)) = Some 8080"
    by (simp add: env(2,3) parse_int_dec_int)
  have names: "\<forall>svc. nv_service scraped_net (metricsKey scraped_isvc) = Inr svc \<longrightarrow> port_names_ok (cs_ports svc)" by (simp add: env(4))
  have bounds: "(1 :: int) \<le> 8080" "(8080 :: int) \<le> 65535" by simp_all
  have "\<forall>named protocol k. list_ex (\<lambda>q. port_admits named q protocol k) (metricsPorts scraped_net scraped_isvc) \<longleftrightarrow> protocol = ''TCP'' \<and> k = 8080"
    using metrics_path_open [OF r port bounds env(1) [symmetric] env(2) [symmetric] sm names] unfolding stored by blast
  then show ?thesis by blast
qed

end
